(* ===== verification/Prelude.thy ===== *)
theory Prelude
  imports Main "HOL-Library.AList" "HOL-Library.Multiset" "HOL-Library.Char_ord"
    "HOL-Library.List_Lexorder"
begin

text \<open>
  The vocabulary every other theory uses: the error values of internal/common/errors.go, the
  sum type of a fallible Go function, Go's signed 64-bit arithmetic, instants and durations,
  Go maps as association lists with an explicit range order, and sorted lists of names.

  A Go string and a Go byte slice are both \<open>string\<close>: a list of 8-bit characters. A function
  that returns \<open>(T, error)\<close> returns \<open>gerr + T\<close>, with \<open>Inl\<close> for a non-nil error.
\<close>

named_theorems go_defs \<open>definitions of small operations, unfolded by component proofs\<close>
named_theorems go_split \<open>split rules of the result types\<close>

subsection \<open>Errors\<close>

datatype sentinel =
    ErrProfileNotFound | ErrFormatNotRegistered | ErrInvalidMessage | ErrTLSHandshake
  | ErrParseFailed | ErrExpired | ErrLiveCheckUnreachable | ErrApplyFailed | ErrLockTimeout
  | ErrConfigInvalid | ErrCNMismatch | ErrSessionDisplaced | ErrShutdown

fun sentinel_text :: "sentinel \<Rightarrow> string" where
  "sentinel_text ErrProfileNotFound = ''profile not found''"
| "sentinel_text ErrFormatNotRegistered = ''format not registered''"
| "sentinel_text ErrInvalidMessage = ''invalid message''"
| "sentinel_text ErrTLSHandshake = ''tls handshake failed''"
| "sentinel_text ErrParseFailed = ''parse failed''"
| "sentinel_text ErrExpired = ''credential expired''"
| "sentinel_text ErrLiveCheckUnreachable = ''live check unreachable''"
| "sentinel_text ErrApplyFailed = ''apply failed''"
| "sentinel_text ErrLockTimeout = ''lock acquisition timed out''"
| "sentinel_text ErrConfigInvalid = ''config invalid''"
| "sentinel_text ErrCNMismatch = ''client common name not allowed''"
| "sentinel_text ErrSessionDisplaced = ''session displaced by newer connection''"
| "sentinel_text ErrShutdown = ''shutdown in progress''"

text \<open>
  The arguments of a format verb are kept unrendered, so an error value says which format and
  which arguments the code gave; \<open>error_text\<close> takes the renderer \<open>fmt.Sprintf\<close> as a
  parameter. \<open>Ext\<close> is an error made by the standard library, the operating system or a
  third-party package; the named ones are those the source tests for.
\<close>

datatype arg = ArgS string | ArgD int | ArgL "string list"

datatype gerr =
    Sentinel sentinel
  | Wrapped gerr "gerr option" string "arg list"
  | Errorf string "arg list" "gerr option"
  | NotExist
  | Canceled
  | DeadlineExceeded
  | ConnClosed
  | WriteTimedOut
  | WsCloseError int string
  | Ext string

definition go_wrap :: "gerr option \<Rightarrow> sentinel option \<Rightarrow> string \<Rightarrow> arg list \<Rightarrow> gerr" where
  "go_wrap err s fmt args =
     Wrapped (case s of None \<Rightarrow> Errorf ''unspecified'' [] None | Some t \<Rightarrow> Sentinel t) err fmt args"

fun unwrap :: "gerr \<Rightarrow> gerr list" where
  "unwrap (Wrapped s None _ _) = [s]"
| "unwrap (Wrapped s (Some i) _ _) = [s, i]"
| "unwrap (Errorf _ _ (Some i)) = [i]"
| "unwrap _ = []"

text \<open>\<open>errors.Is\<close>: the error itself, or depth first anything it unwraps to.\<close>

fun errors_is :: "gerr \<Rightarrow> gerr \<Rightarrow> bool" where
  "errors_is (Wrapped s i f a) t =
     (Wrapped s i f a = t \<or> errors_is s t \<or> (case i of None \<Rightarrow> False | Some e \<Rightarrow> errors_is e t))"
| "errors_is (Errorf f a i) t =
     (Errorf f a i = t \<or> (case i of None \<Rightarrow> False | Some e \<Rightarrow> errors_is e t))"
| "errors_is e t = (e = t)"

fun error_text :: "(string \<Rightarrow> arg list \<Rightarrow> string) \<Rightarrow> (gerr \<Rightarrow> string) \<Rightarrow> gerr \<Rightarrow> string" where
  "error_text sprintf base (Sentinel s) = sentinel_text s"
| "error_text sprintf base (Wrapped s None f a) =
     error_text sprintf base s @ '': '' @ sprintf f a"
| "error_text sprintf base (Wrapped s (Some i) f a) =
     error_text sprintf base s @ '': '' @ sprintf f a @ '': '' @ error_text sprintf base i"
| "error_text sprintf base (Errorf f a _) = sprintf f a"
| "error_text sprintf base e = base e"

abbreviation wrap_s :: "sentinel \<Rightarrow> string \<Rightarrow> arg list \<Rightarrow> gerr" where
  "wrap_s s f a \<equiv> go_wrap None (Some s) f a"

abbreviation wrap_e :: "gerr \<Rightarrow> sentinel \<Rightarrow> string \<Rightarrow> arg list \<Rightarrow> gerr" where
  "wrap_e e s f a \<equiv> go_wrap (Some e) (Some s) f a"

abbreviation is_err :: "gerr \<Rightarrow> sentinel \<Rightarrow> bool" where
  "is_err e s \<equiv> errors_is e (Sentinel s)"

lemma errors_is_refl [simp]: "errors_is e e"
  by (cases e) auto

lemma errors_is_go_wrap [simp]:
  "is_err (go_wrap err (Some s) f a) t \<longleftrightarrow> s = t \<or> (\<exists>e. err = Some e \<and> is_err e t)"
  by (auto simp: go_wrap_def split: option.splits)

lemma errors_is_trans_unwrap: "u \<in> set (unwrap e) \<Longrightarrow> errors_is u t \<Longrightarrow> errors_is e t"
  by (cases e rule: unwrap.cases) auto

subsection \<open>Results\<close>

definition ebind :: "gerr + 'a \<Rightarrow> ('a \<Rightarrow> gerr + 'b) \<Rightarrow> gerr + 'b" where
  "ebind m f = (case m of Inl e \<Rightarrow> Inl e | Inr x \<Rightarrow> f x)"

definition guard_e :: "bool \<Rightarrow> gerr \<Rightarrow> gerr + 'a \<Rightarrow> gerr + 'a" where
  "guard_e b e k = (if b then Inl e else k)"

lemma ebind_simps [simp]: "ebind (Inl e) f = Inl e" "ebind (Inr x) f = f x"
  by (simp_all add: ebind_def)

lemma ebind_Inr_iff: "ebind m f = Inr y \<longleftrightarrow> (\<exists>x. m = Inr x \<and> f x = Inr y)"
  by (cases m) auto

lemma ebind_Inl_iff: "ebind m f = Inl e \<longleftrightarrow> m = Inl e \<or> (\<exists>x. m = Inr x \<and> f x = Inl e)"
  by (cases m) auto

lemma ebind_cong [fundef_cong]:
  "m = m' \<Longrightarrow> (\<And>x. m' = Inr x \<Longrightarrow> f x = g x) \<Longrightarrow> ebind m f = ebind m' g"
  by (cases m') auto

lemma guard_e_Inr_iff [simp]: "guard_e b e k = Inr y \<longleftrightarrow> \<not> b \<and> k = Inr y"
  by (simp add: guard_e_def)

lemma guard_e_Inl_iff: "guard_e b e k = Inl x \<longleftrightarrow> b \<and> x = e \<or> \<not> b \<and> k = Inl x"
  by (auto simp: guard_e_def)

text \<open>A chain of checks: what it took to get through, and the category of its errors.\<close>

lemma if_Inl_Inr_iff: "(if b then Inl e else k) = Inr y \<longleftrightarrow> \<not> b \<and> k = Inr y"
  by simp

definition fails_as :: "sentinel \<Rightarrow> gerr + 'a \<Rightarrow> bool" where
  "fails_as s m \<longleftrightarrow> (\<forall>e. m = Inl e \<longrightarrow> is_err e s)"

named_theorems fails_intro \<open>rules that trace the category of an error through a chain of checks\<close>

lemma fails_asI: "(\<And>e. m = Inl e \<Longrightarrow> is_err e s) \<Longrightarrow> fails_as s m"
  by (simp add: fails_as_def)

lemma fails_asD: "fails_as s m \<Longrightarrow> m = Inl e \<Longrightarrow> is_err e s"
  by (simp add: fails_as_def)

lemma fails_as_Inr [fails_intro]: "fails_as s (Inr x)"
  by (simp add: fails_as_def)

lemma fails_as_wrap [fails_intro]: "fails_as s (Inl (go_wrap i (Some s) f a))"
  by (simp add: fails_as_def)

lemma fails_as_if [fails_intro]: "fails_as s m \<Longrightarrow> fails_as s k \<Longrightarrow> fails_as s (if b then m else k)"
  by simp

lemma fails_as_ebind [fails_intro]: "fails_as s m \<Longrightarrow> (\<And>x. m = Inr x \<Longrightarrow> fails_as s (f x)) \<Longrightarrow> fails_as s (ebind m f)"
  by (cases m) (auto simp: fails_as_def)

lemma fails_as_Let [fails_intro]: "(\<And>x. x = t \<Longrightarrow> fails_as s (f x)) \<Longrightarrow> fails_as s (let x = t in f x)"
  by simp

lemma fails_as_option [fails_intro]:
  "(m = None \<Longrightarrow> fails_as s k) \<Longrightarrow> (\<And>x. m = Some x \<Longrightarrow> fails_as s (f x)) \<Longrightarrow> fails_as s (case m of None \<Rightarrow> k | Some x \<Rightarrow> f x)"
  by (cases m) auto

lemma fails_as_sum [fails_intro]:
  "(\<And>e. m = Inl e \<Longrightarrow> fails_as s (k e)) \<Longrightarrow> (\<And>x. m = Inr x \<Longrightarrow> fails_as s (f x)) \<Longrightarrow> fails_as s (case m of Inl e \<Rightarrow> k e | Inr x \<Rightarrow> f x)"
  by (cases m) auto

subsection \<open>Machine integers, durations and instants\<close>

text \<open>
  \<open>int64\<close> values are integers in \<open>[-2^63, 2^63)\<close>; arithmetic that may leave the range wraps with
  \<open>wrap64\<close>. A \<open>time.Duration\<close> is an \<open>int64\<close> of nanoseconds. A \<open>time.Time\<close> is the instant it
  denotes, in nanoseconds from the Unix epoch; the zero \<open>Time\<close> is 1 January of year 1.
\<close>

definition max_int64 :: int where "max_int64 = 9223372036854775807"
definition min_int64 :: int where "min_int64 = - 9223372036854775808"

definition wrap64 :: "int \<Rightarrow> int" where
  "wrap64 x = (x + 9223372036854775808) mod 18446744073709551616 - 9223372036854775808"

lemma wrap64_range [simp]: "min_int64 \<le> wrap64 x" "wrap64 x \<le> max_int64"
proof -
  have "0 \<le> (x + 9223372036854775808) mod 18446744073709551616"
    "(x + 9223372036854775808) mod 18446744073709551616 < 18446744073709551616" by simp_all
  then show "min_int64 \<le> wrap64 x" "wrap64 x \<le> max_int64"
    by (simp_all add: wrap64_def min_int64_def max_int64_def)
qed

lemma wrap64_id: "min_int64 \<le> x \<Longrightarrow> x \<le> max_int64 \<Longrightarrow> wrap64 x = x"
  by (simp add: wrap64_def min_int64_def max_int64_def)

type_synonym duration = int
type_synonym gotime = int

abbreviation ns_second :: int where "ns_second \<equiv> 1000000000"

definition seconds :: "int \<Rightarrow> duration" where "seconds n = n * 1000000000"
definition minutes :: "int \<Rightarrow> duration" where "minutes n = n * 60000000000"
definition hours :: "int \<Rightarrow> duration" where "hours n = n * 3600000000000"
definition milliseconds :: "int \<Rightarrow> duration" where "milliseconds n = n * 1000000"

lemmas duration_defs = seconds_def minutes_def hours_def milliseconds_def

definition zero_time :: gotime where "zero_time = - 62135596800000000000"

definition is_zero_time :: "gotime \<Rightarrow> bool" where "is_zero_time t = (t = zero_time)"
definition time_before :: "gotime \<Rightarrow> gotime \<Rightarrow> bool" where "time_before t u = (t < u)"
definition time_after :: "gotime \<Rightarrow> gotime \<Rightarrow> bool" where "time_after t u = (t > u)"
definition time_add :: "gotime \<Rightarrow> duration \<Rightarrow> gotime" where "time_add t d = t + d"

text \<open>\<open>t.Sub(u)\<close> saturates at the ends of the \<open>Duration\<close> range.\<close>

definition time_sub :: "gotime \<Rightarrow> gotime \<Rightarrow> duration" where
  "time_sub t u = max min_int64 (min max_int64 (t - u))"

text \<open>
  \<open>time.Unix(s, 0)\<close> keeps the seconds from year 1 in an \<open>int64\<close>, so a count of seconds near the
  end of the range wraps to an instant of the far past. \<open>time.UnixMilli\<close> cannot get there.
\<close>

definition unix_milli :: "int \<Rightarrow> gotime" where "unix_milli ms = ms * 1000000"
definition unix_sec :: "int \<Rightarrow> gotime" where
  "unix_sec s = (wrap64 (s + 62135596800) - 62135596800) * 1000000000"

lemma unix_sec_small:
  "min_int64 \<le> s \<Longrightarrow> s + 62135596800 \<le> max_int64 \<Longrightarrow> unix_sec s = s * 1000000000"
  by (simp add: unix_sec_def wrap64_id)

lemmas time_defs = is_zero_time_def time_before_def time_after_def time_add_def time_sub_def

subsection \<open>Go maps\<close>

text \<open>
  A Go map is an association list with distinct keys. The order in which \<open>range\<close> visits it is
  the runtime's choice: an operation whose result depends on it takes the order as an argument,
  a function that permutes the entries (\<open>range_ok\<close>).
\<close>

type_synonym ('k, 'v) gomap = "('k \<times> 'v) list"

abbreviation mput :: "'k \<Rightarrow> 'v \<Rightarrow> ('k, 'v) gomap \<Rightarrow> ('k, 'v) gomap" where
  "mput \<equiv> AList.update"

abbreviation mdel :: "'k \<Rightarrow> ('k, 'v) gomap \<Rightarrow> ('k, 'v) gomap" where
  "mdel \<equiv> AList.delete"

definition gomap_ok :: "('k, 'v) gomap \<Rightarrow> bool" where
  "gomap_ok m = distinct (map fst m)"

definition range_ok :: "('a list \<Rightarrow> 'a list) \<Rightarrow> bool" where
  "range_ok ord \<longleftrightarrow> (\<forall>xs. mset (ord xs) = mset xs)"

locale go_map =
  fixes get :: "'m \<Rightarrow> 'k \<Rightarrow> 'v option"
    and put :: "'k \<Rightarrow> 'v \<Rightarrow> 'm \<Rightarrow> 'm"
    and del :: "'k \<Rightarrow> 'm \<Rightarrow> 'm"
    and entries :: "'m \<Rightarrow> ('k \<times> 'v) list"
    and wf_map :: "'m \<Rightarrow> bool"
  assumes get_put: "get (put k v m) = (get m)(k \<mapsto> v)"
    and get_del: "get (del k m) = (get m)(k := None)"
    and entries_get: "wf_map m \<Longrightarrow> (k, v) \<in> set (entries m) \<longleftrightarrow> get m k = Some v"
    and wf_put: "wf_map m \<Longrightarrow> wf_map (put k v m)"
    and wf_del: "wf_map m \<Longrightarrow> wf_map (del k m)"
begin

lemma get_put_same: "get (put k v m) k = Some v"
  by (simp add: get_put)

lemma get_put_other: "k' \<noteq> k \<Longrightarrow> get (put k v m) k' = get m k'"
  by (simp add: get_put)

lemma get_del_same: "get (del k m) k = None"
  by (simp add: get_del)

lemma get_del_other: "k' \<noteq> k \<Longrightarrow> get (del k m) k' = get m k'"
  by (simp add: get_del)

lemma entries_put:
  assumes "wf_map m"
  shows "(k', v') \<in> set (entries (put k v m)) \<longleftrightarrow>
    (if k' = k then v' = v else (k', v') \<in> set (entries m))"
  using assms by (auto simp: entries_get wf_put get_put)

lemma entries_del:
  assumes "wf_map m"
  shows "(k', v') \<in> set (entries (del k m)) \<longleftrightarrow> k' \<noteq> k \<and> (k', v') \<in> set (entries m)"
  using assms by (auto simp: entries_get wf_del get_del)

end

lemma gomap_ok_put [simp]: "gomap_ok m \<Longrightarrow> gomap_ok (mput k v m)"
  by (simp add: gomap_ok_def distinct_update)

lemma gomap_ok_del [simp]: "gomap_ok m \<Longrightarrow> gomap_ok (mdel k m)"
  by (simp add: gomap_ok_def distinct_delete)

lemma gomap_ok_Nil [simp]: "gomap_ok []"
  by (simp add: gomap_ok_def)

interpretation gm: go_map map_of mput mdel "\<lambda>m. m" gomap_ok
proof unfold_locales
  show "(k, v) \<in> set m \<longleftrightarrow> map_of m k = Some v" if "gomap_ok m" for m :: "('k, 'v) gomap" and k v
    using that by (simp add: gomap_ok_def)
qed (simp_all add: update_conv' delete_conv')

lemma range_ok_set: "range_ok ord \<Longrightarrow> set (ord xs) = set xs"
  unfolding range_ok_def by (metis set_mset_mset)

lemma range_ok_length: "range_ok ord \<Longrightarrow> length (ord xs) = length xs"
  unfolding range_ok_def by (metis size_mset)

lemma range_ok_id [simp]: "range_ok (\<lambda>xs. xs)"
  by (simp add: range_ok_def)

lemma range_ok_rev [simp]: "range_ok rev"
  by (simp add: range_ok_def)

lemma range_ok_Nil: "range_ok ord \<Longrightarrow> ord xs = [] \<longleftrightarrow> xs = []"
  using range_ok_length by (metis length_0_conv)

lemma range_ok_gomap: "range_ok ord \<Longrightarrow> gomap_ok (ord m) = gomap_ok m"
  unfolding gomap_ok_def range_ok_def by (metis mset_eq_imp_distinct_iff mset_map)

lemma range_ok_map_of:
  assumes "range_ok ord" "gomap_ok m"
  shows "map_of (ord m) = map_of m"
proof -
  have "gomap_ok (ord m)" "set (ord m) = set m"
    using assms by (simp_all add: range_ok_gomap range_ok_set)
  then show ?thesis using assms(2) by (metis gomap_ok_def map_of_inject_set)
qed

subsection \<open>Sorted lists of names\<close>

text \<open>\<open>sort.Strings\<close> followed by \<open>slices.Compact\<close>.\<close>

definition sort_compact :: "string list \<Rightarrow> string list" where
  "sort_compact xs = remdups_adj (sort xs)"

lemma set_sort_compact [simp]: "set (sort_compact xs) = set xs"
  by (simp add: sort_compact_def)

lemma sorted_sort_compact [simp]: "sorted (sort_compact xs)"
  by (simp add: sort_compact_def sorted_remdups_adj)

lemma distinct_remdups_adj_sorted: "sorted xs \<Longrightarrow> distinct (remdups_adj xs)"
  for xs :: "'a::linorder list"
  by (induction xs rule: remdups_adj.induct) (auto simp: order_antisym)

lemma distinct_sort_compact [simp]: "distinct (sort_compact xs)"
  by (simp add: sort_compact_def distinct_remdups_adj_sorted)

lemma sort_compact_unique:
  assumes "set xs = set ys"
  shows "sort_compact xs = sort_compact ys"
  by (rule sorted_distinct_set_unique) (simp_all add: assms)

end
