(* ===== verification/Go_Strings.thy ===== *)
theory Go_Strings
  imports Prelude
begin

text \<open>
  What the source uses of Go's \<open>strings\<close> package, on byte strings. White space is Unicode's:
  the list \<open>space_encodings\<close> holds the UTF-8 encoding of every rune for which
  \<open>unicode.IsSpace\<close> is true. No encoding begins with a continuation byte, so a scan by bytes
  finds the same runes as Go's scan by runes, on invalid UTF-8 too.
\<close>

subsection \<open>Prefixes\<close>

fun strip_prefix :: "string \<Rightarrow> string \<Rightarrow> string option" where
  "strip_prefix [] s = Some s"
| "strip_prefix (p # ps) [] = None"
| "strip_prefix (p # ps) (c # cs) = (if p = c then strip_prefix ps cs else None)"

definition has_prefix :: "string \<Rightarrow> string \<Rightarrow> bool" where
  "has_prefix s p = (strip_prefix p s \<noteq> None)"

definition trim_prefix :: "string \<Rightarrow> string \<Rightarrow> string" where
  "trim_prefix s p = (case strip_prefix p s of None \<Rightarrow> s | Some r \<Rightarrow> r)"

lemma strip_prefix_Some [simp]: "strip_prefix p s = Some r \<longleftrightarrow> s = p @ r"
  by (induction p s rule: strip_prefix.induct) auto

lemma has_prefix_iff: "has_prefix s p \<longleftrightarrow> (\<exists>r. s = p @ r)"
  by (auto simp: has_prefix_def)

lemma strip_prefix_append [simp]: "strip_prefix p (p @ r) = Some r"
  by simp

lemma trim_prefix_append [simp]: "trim_prefix (p @ r) p = r"
  by (simp add: trim_prefix_def)

lemma trim_prefix_other: "\<not> has_prefix s p \<Longrightarrow> trim_prefix s p = s"
  by (auto simp: has_prefix_def trim_prefix_def split: option.splits)

subsection \<open>White space\<close>

definition space_encodings :: "string list" where
  "space_encodings =
     [[CHR 0x09], [CHR 0x0A], [CHR 0x0B], [CHR 0x0C], [CHR 0x0D], [CHR 0x20],
      [CHR 0xC2, CHR 0x85], [CHR 0xC2, CHR 0xA0],
      [CHR 0xE1, CHR 0x9A, CHR 0x80],
      [CHR 0xE2, CHR 0x80, CHR 0x80], [CHR 0xE2, CHR 0x80, CHR 0x81],
      [CHR 0xE2, CHR 0x80, CHR 0x82], [CHR 0xE2, CHR 0x80, CHR 0x83],
      [CHR 0xE2, CHR 0x80, CHR 0x84], [CHR 0xE2, CHR 0x80, CHR 0x85],
      [CHR 0xE2, CHR 0x80, CHR 0x86], [CHR 0xE2, CHR 0x80, CHR 0x87],
      [CHR 0xE2, CHR 0x80, CHR 0x88], [CHR 0xE2, CHR 0x80, CHR 0x89],
      [CHR 0xE2, CHR 0x80, CHR 0x8A],
      [CHR 0xE2, CHR 0x80, CHR 0xA8], [CHR 0xE2, CHR 0x80, CHR 0xA9],
      [CHR 0xE2, CHR 0x80, CHR 0xAF], [CHR 0xE2, CHR 0x81, CHR 0x9F],
      [CHR 0xE3, CHR 0x80, CHR 0x80]]"

fun strip_any :: "string list \<Rightarrow> string \<Rightarrow> string option" where
  "strip_any [] s = None"
| "strip_any (w # ws) s = (case strip_prefix w s of Some r \<Rightarrow> Some r | None \<Rightarrow> strip_any ws s)"

lemma strip_any_Some: "strip_any ws s = Some r \<Longrightarrow> \<exists>w \<in> set ws. s = w @ r"
  by (induction ws) (auto split: option.splits)

lemma strip_any_None: "strip_any ws s = None \<longleftrightarrow> (\<forall>w \<in> set ws. strip_prefix w s = None)"
  by (induction ws) (auto split: option.splits)

definition strip_space :: "string \<Rightarrow> string option" where
  "strip_space = strip_any space_encodings"

definition strip_space_rev :: "string \<Rightarrow> string option" where
  "strip_space_rev = strip_any (map rev space_encodings)"

lemma space_encodings_nonempty: "[] \<notin> set space_encodings"
  by (simp add: space_encodings_def)

lemma strip_space_length: "strip_space s = Some r \<Longrightarrow> length r < length s"
  using space_encodings_nonempty unfolding strip_space_def
  by (auto dest!: strip_any_Some)

lemma strip_space_rev_length: "strip_space_rev s = Some r \<Longrightarrow> length r < length s"
  using space_encodings_nonempty unfolding strip_space_rev_def
  by (auto dest!: strip_any_Some)

function drop_spaces :: "(string \<Rightarrow> string option) \<Rightarrow> string \<Rightarrow> string" where
  "drop_spaces f s = (case f s of
     Some r \<Rightarrow> if length r < length s then drop_spaces f r else s
   | None \<Rightarrow> s)"
  by pat_completeness auto
termination
  by (relation "measure (\<lambda>(f, s). length s)") auto

declare drop_spaces.simps [simp del]

definition trim_left :: "string \<Rightarrow> string" where "trim_left = drop_spaces strip_space"
definition trim_right :: "string \<Rightarrow> string" where
  "trim_right s = rev (drop_spaces strip_space_rev (rev s))"
definition trim_space :: "string \<Rightarrow> string" where "trim_space s = trim_right (trim_left s)"

lemma drop_spaces_None: "f s = None \<Longrightarrow> drop_spaces f s = s"
  by (simp add: drop_spaces.simps)

lemma drop_spaces_fix:
  assumes "\<And>s r. f s = Some r \<Longrightarrow> length r < length s"
  shows "f (drop_spaces f s) = None"
  using assms
proof (induction f s rule: drop_spaces.induct)
  case (1 f s)
  show ?case
  proof (cases "f s")
    case None
    then show ?thesis by (simp add: drop_spaces_None)
  next
    case (Some r)
    then show ?thesis using "1.IH" [OF Some] "1.prems" by (simp add: drop_spaces.simps [of f s])
  qed
qed

lemma drop_spaces_suffix:
  assumes "\<And>s r. f s = Some r \<Longrightarrow> \<exists>w. s = w @ r"
  shows "\<exists>w. s = w @ drop_spaces f s"
  using assms
proof (induction f s rule: drop_spaces.induct)
  case (1 f s)
  show ?case
  proof (cases "\<exists>r. f s = Some r \<and> length r < length s")
    case True
    then obtain r where r: "f s = Some r" "length r < length s" by blast
    then obtain w where "r = w @ drop_spaces f r" using "1.IH" "1.prems" by blast
    moreover obtain v where "s = v @ r" using "1.prems" r(1) by blast
    moreover have "drop_spaces f s = drop_spaces f r" using r by (simp add: drop_spaces.simps [of f s])
    ultimately have "s = (v @ w) @ drop_spaces f s" by simp
    then show ?thesis by blast
  next
    case False
    then have "drop_spaces f s = s" by (subst drop_spaces.simps) (auto split: option.splits)
    then show ?thesis by simp
  qed
qed

lemma strip_prefix_None_append: "strip_prefix w (s @ t) = None \<Longrightarrow> strip_prefix w s = None"
  by (induction w s rule: strip_prefix.induct) (auto split: if_splits)

lemma strip_space_prefix_None: "strip_space (s @ t) = None \<Longrightarrow> strip_space s = None"
  using strip_prefix_None_append by (auto simp: strip_space_def strip_any_None)

lemma strip_space_rev_suffix: "strip_space_rev s = Some r \<Longrightarrow> \<exists>w. s = w @ r"
  unfolding strip_space_rev_def by (blast dest: strip_any_Some)

lemma strip_space_suffix: "strip_space s = Some r \<Longrightarrow> \<exists>w. s = w @ r"
  unfolding strip_space_def by (blast dest: strip_any_Some)

lemma trim_right_prefix: "\<exists>w. s = trim_right s @ w"
proof -
  obtain w where "rev s = w @ drop_spaces strip_space_rev (rev s)"
    using drop_spaces_suffix strip_space_rev_suffix by blast
  then have "s = trim_right s @ rev w" unfolding trim_right_def by (metis rev_append rev_rev_ident)
  then show ?thesis ..
qed

lemma trim_left_clean: "strip_space (trim_left s) = None"
  unfolding trim_left_def by (rule drop_spaces_fix) (rule strip_space_length)

lemma trim_right_clean: "strip_space_rev (rev (trim_right s)) = None"
  unfolding trim_right_def rev_rev_ident by (rule drop_spaces_fix) (rule strip_space_rev_length)

text \<open>A trimmed string begins and ends with no white space, and trimming it again changes nothing.\<close>

lemma trim_space_clean:
  "strip_space (trim_space s) = None" "strip_space_rev (rev (trim_space s)) = None"
proof -
  obtain w where "trim_left s = trim_space s @ w"
    using trim_right_prefix unfolding trim_space_def by blast
  then show "strip_space (trim_space s) = None"
    using trim_left_clean strip_space_prefix_None by metis
qed (simp add: trim_space_def trim_right_clean)

lemma trim_space_id: "strip_space s = None \<Longrightarrow> strip_space_rev (rev s) = None \<Longrightarrow> trim_space s = s"
  by (simp add: trim_space_def trim_left_def trim_right_def drop_spaces_None)

lemma trim_space_idem [simp]: "trim_space (trim_space s) = trim_space s"
  by (rule trim_space_id) (rule trim_space_clean)+

lemma trim_space_Nil [simp]: "trim_space [] = []"
  by (rule trim_space_id) (auto simp: strip_space_def strip_space_rev_def space_encodings_def)

subsection \<open>Fields, Split and Join\<close>

text \<open>
  \<open>strings.Fields\<close>: the maximal runs without white space. \<open>take_field\<close> reads one run from a
  string that does not begin with white space.
\<close>

function take_field :: "string \<Rightarrow> string \<times> string" where
  "take_field s = (if strip_space s \<noteq> None then ([], s)
     else (case s of [] \<Rightarrow> ([], [])
           | c # cs \<Rightarrow> (let (w, r) = take_field cs in (c # w, r))))"
  by pat_completeness auto
termination
  by (relation "measure length") auto

declare take_field.simps [simp del]

lemma take_field_append: "fst (take_field s) @ snd (take_field s) = s"
proof (induction s rule: take_field.induct)
  case (1 s)
  then show ?case by (subst (1 2) take_field.simps) (auto split: list.splits prod.splits)
qed

lemma take_field_length: "length (snd (take_field s)) \<le> length s"
  by (metis take_field_append length_append le_add2)

function str_fields :: "string \<Rightarrow> string list" where
  "str_fields s = (let t = trim_left s in
     if t = [] then [] else
       let f = fst (take_field t); r = snd (take_field t)
       in if length r < length s then f # str_fields r else [f])"
  by pat_completeness auto
termination
  by (relation "measure length") auto

declare str_fields.simps [simp del]

text \<open>\<open>strings.Split(s, sep)\<close> for a separator of one byte, and \<open>strings.Join\<close>.\<close>

fun split_on :: "char \<Rightarrow> string \<Rightarrow> string list" where
  "split_on d [] = [[]]"
| "split_on d (c # cs) = (if c = d then [] # split_on d cs
     else (case split_on d cs of [] \<Rightarrow> [[c]] | f # fs \<Rightarrow> (c # f) # fs))"

fun join_with :: "string \<Rightarrow> string list \<Rightarrow> string" where
  "join_with sep [] = []"
| "join_with sep [x] = x"
| "join_with sep (x # y # xs) = x @ sep @ join_with sep (y # xs)"

lemma split_on_nonempty [simp]: "split_on d s \<noteq> []"
  by (induction s) (auto split: list.splits)

lemma join_split: "join_with [d] (split_on d s) = s"
proof (induction s)
  case (Cons c cs)
  then show ?case
    by (cases "split_on d cs"; cases "tl (split_on d cs)") (auto split: list.splits)
qed simp

lemma split_on_free: "f \<in> set (split_on d s) \<Longrightarrow> d \<notin> set f"
  by (induction s arbitrary: f) (auto split: list.splits if_splits)

lemma split_on_no_sep: "d \<notin> set s \<Longrightarrow> split_on d s = [s]"
  by (induction s) auto

subsection \<open>Case folding\<close>

text \<open>
  \<open>strings.EqualFold\<close> against an ASCII word whose letters have no folding partner outside
  ASCII (every word the source compares with is one: none holds a \<open>k\<close> or an \<open>s\<close>).
\<close>

definition lower_char :: "char \<Rightarrow> char" where
  "lower_char c = (if 65 \<le> (of_char c :: nat) \<and> (of_char c :: nat) \<le> 90
     then char_of ((of_char c :: nat) + 32) else c)"

definition equal_fold_ascii :: "string \<Rightarrow> string \<Rightarrow> bool" where
  "equal_fold_ascii s t = (map lower_char s = map lower_char t)"

end
