(* ===== verification/Go_Path.thy ===== *)
theory Go_Path
  imports Go_Strings
begin

text \<open>
  \<open>path/filepath\<close> on a Unix host, the lexical functions the source calls. \<open>path_clean\<close> is
  idempotent, which the de-duplication of watched paths relies on.
\<close>

fun clean_stack :: "bool \<Rightarrow> string list \<Rightarrow> string list \<Rightarrow> string list" where
  "clean_stack rooted st [] = rev st"
| "clean_stack rooted st (p # ps) =
     (if p = [] \<or> p = ''.'' then clean_stack rooted st ps
      else if p = ''..'' then
        (case st of
           t # ts \<Rightarrow> if t = ''..'' then clean_stack rooted (p # st) ps else clean_stack rooted ts ps
         | [] \<Rightarrow> if rooted then clean_stack rooted [] ps else clean_stack rooted [p] ps)
      else clean_stack rooted (p # st) ps)"

definition slash :: char where "slash = CHR ''/''"

definition is_abs :: "string \<Rightarrow> bool" where
  "is_abs s = has_prefix s [slash]"

definition path_clean :: "string \<Rightarrow> string" where
  "path_clean s = (if s = [] then ''.''
     else let parts = clean_stack (is_abs s) [] (split_on slash s);
              body = join_with [slash] parts
          in if is_abs s then slash # body else if body = [] then ''.'' else body)"

definition path_join :: "string list \<Rightarrow> string" where
  "path_join elems = (let es = dropWhile (\<lambda>e. e = []) elems in
     if es = [] then [] else path_clean (join_with [slash] es))"

text \<open>\<open>Dir\<close>: everything up to the last slash, cleaned. \<open>Base\<close>: what follows it.\<close>

definition path_dir :: "string \<Rightarrow> string" where
  "path_dir s = path_clean (rev (dropWhile (\<lambda>c. c \<noteq> slash) (rev s)))"

definition path_base :: "string \<Rightarrow> string" where
  "path_base s = (if s = [] then ''.''
     else let t = dropWhile (\<lambda>c. c = slash) (rev s)
          in if t = [] then [slash] else rev (takeWhile (\<lambda>c. c \<noteq> slash) t))"

subsection \<open>Cleaning is idempotent\<close>

definition clean_parts :: "bool \<Rightarrow> string list \<Rightarrow> bool" where
  "clean_parts rooted ps \<longleftrightarrow>
     (\<forall>p \<in> set ps. p \<noteq> [] \<and> p \<noteq> ''.'' \<and> slash \<notin> set p) \<and>
     ''..'' \<notin> set (dropWhile (\<lambda>p. p = ''..'') ps) \<and> (rooted \<longrightarrow> ''..'' \<notin> set ps)"

lemma clean_parts_Nil [simp]: "clean_parts rooted []"
  by (simp add: clean_parts_def)

lemma clean_parts_snoc:
  "clean_parts rooted ps \<Longrightarrow> p \<noteq> [] \<Longrightarrow> p \<noteq> ''.'' \<Longrightarrow> p \<noteq> ''..'' \<Longrightarrow> slash \<notin> set p \<Longrightarrow>
   clean_parts rooted (ps @ [p])"
  by (auto simp: clean_parts_def dropWhile_append)

lemma last_dropWhile_eq: "dropWhile P xs \<noteq> [] \<Longrightarrow> last (dropWhile P xs) = last xs"
  by (metis last_appendR takeWhile_dropWhile_id)

lemma clean_parts_butlast: "clean_parts rooted (ps @ [p]) \<Longrightarrow> clean_parts rooted ps"
proof (cases "\<forall>q \<in> set ps. q = ''..''")
  case True
  then have *: "dropWhile (\<lambda>q. q = ''..'') ps = []" by simp
  show "clean_parts rooted (ps @ [p]) \<Longrightarrow> clean_parts rooted ps"
    unfolding clean_parts_def * by simp
next
  case False
  then show "clean_parts rooted (ps @ [p]) \<Longrightarrow> clean_parts rooted ps"
    by (auto simp: clean_parts_def dropWhile_append)
qed

lemma clean_parts_dots:
  assumes "clean_parts False ps" "ps = [] \<or> last ps = ''..''"
  shows "clean_parts False (ps @ [''..''])"
proof -
  have "dropWhile (\<lambda>p. p = ''..'') ps = []"
  proof (rule ccontr)
    assume ne: "dropWhile (\<lambda>p. p = ''..'') ps \<noteq> []"
    then have "last (dropWhile (\<lambda>p. p = ''..'') ps) = last ps" by (rule last_dropWhile_eq)
    moreover have "last (dropWhile (\<lambda>p. p = ''..'') ps) \<in> set (dropWhile (\<lambda>p. p = ''..'') ps)"
      using ne by (rule last_in_set)
    moreover have "ps \<noteq> []" using ne by auto
    ultimately show False using assms by (simp add: clean_parts_def)
  qed
  then have "\<forall>p \<in> set ps. p = ''..''" by simp
  then show ?thesis using assms(1) by (auto simp: clean_parts_def slash_def)
qed

lemma clean_stack_parts:
  assumes "clean_parts rooted (rev st)" "\<forall>p \<in> set ps. slash \<notin> set p"
  shows "clean_parts rooted (clean_stack rooted st ps)"
  using assms
proof (induction rooted st ps rule: clean_stack.induct)
  case (2 rooted st p ps)
  show ?case
  proof (cases "p = ''..''")
    case dots: True
    show ?thesis
    proof (cases st)
      case Nil
      then show ?thesis using dots 2 clean_parts_dots [of "[]"] by auto
    next
      case (Cons t ts)
      show ?thesis
      proof (cases "t = ''..''")
        case True
        have "\<not> rooted" using "2.prems"(1) Cons True by (auto simp: clean_parts_def)
        then have "clean_parts rooted (rev (p # st))"
          using "2.prems"(1) Cons True dots clean_parts_dots [of "rev st"] by simp
        then show ?thesis using 2 dots Cons True by simp
      next
        case False
        then have "clean_parts rooted (rev ts)" using "2.prems"(1) Cons clean_parts_butlast by simp
        then show ?thesis using 2 dots Cons False by simp
      qed
    qed
  next
    case False
    then show ?thesis using 2 clean_parts_snoc [of rooted "rev st" p] by auto
  qed
qed simp

lemma clean_stack_id:
  assumes "clean_parts rooted (rev st @ ps)"
  shows "clean_stack rooted st ps = rev st @ ps"
  using assms
proof (induction rooted st ps rule: clean_stack.induct)
  case (2 rooted st p ps)
  have p: "p \<noteq> []" "p \<noteq> ''.''" using "2.prems" by (auto simp: clean_parts_def)
  show ?case
  proof (cases "p = ''..''")
    case True
    then have "\<forall>t \<in> set st. t = ''..''" "\<not> rooted"
      using "2.prems" by (auto simp: clean_parts_def dropWhile_append split: if_splits)
    then show ?thesis using 2 True by (cases st) auto
  next
    case False
    then show ?thesis using 2 p by auto
  qed
qed simp

lemma split_join:
  "ps \<noteq> [] \<Longrightarrow> \<forall>p \<in> set ps. d \<notin> set p \<Longrightarrow> split_on d (join_with [d] ps) = ps"
proof (induction "[d]" ps rule: join_with.induct)
  case (3 x y xs)
  have "split_on d (x @ d # s) = x # split_on d s" if "d \<notin> set x" for x s
    using that by (induction x) auto
  with 3 show ?case by simp
qed (simp_all add: split_on_no_sep)

lemma path_clean_idem [simp]: "path_clean (path_clean s) = path_clean s"
proof (cases "s = []")
  case True
  then show ?thesis by (simp add: path_clean_def is_abs_def has_prefix_def Let_def slash_def)
next
  case False
  define ps where "ps = clean_stack (is_abs s) [] (split_on slash s)"
  have ok: "clean_parts (is_abs s) ps"
    unfolding ps_def by (rule clean_stack_parts) (auto dest: split_on_free)
  have free: "\<forall>p \<in> set ps. p \<noteq> [] \<and> p \<noteq> ''.'' \<and> slash \<notin> set p" using ok by (simp add: clean_parts_def)
  have id: "clean_stack (is_abs s) [] ps = ps" using clean_stack_id [of "is_abs s" "[]" ps] ok by simp
  define body where "body = join_with [slash] ps"
  show ?thesis
  proof (cases "ps = []")
    case True
    then have "path_clean s = (if is_abs s then [slash] else ''.'')"
      using False by (simp add: path_clean_def flip: ps_def)
    moreover have "path_clean [slash] = [slash]" by code_simp
    moreover have "path_clean ''.'' = ''.''" by code_simp
    ultimately show ?thesis by simp
  next
    case ne: False
    then obtain q qs where q: "ps = q # qs" "q \<noteq> []" "q \<noteq> ''.''" "slash \<notin> set q"
      using free by (cases ps) auto
    then have body: "body \<noteq> []" "hd body \<noteq> slash"
      unfolding body_def by (cases qs; cases q; auto)+
    have sp: "split_on slash body = ps" unfolding body_def by (rule split_join) (use ne free in auto)
    show ?thesis
    proof (cases "is_abs s")
      case True
      then have "path_clean s = slash # body" using False by (simp add: path_clean_def body_def ps_def)
      moreover have "path_clean (slash # body) = slash # body"
        using True sp id by (simp add: path_clean_def is_abs_def has_prefix_def flip: body_def)
      ultimately show ?thesis by simp
    next
      case na: False
      then have c: "path_clean s = body" using False body(1) by (simp add: path_clean_def body_def ps_def)
      moreover have "\<not> is_abs body" using body by (cases body) (auto simp: is_abs_def has_prefix_iff)
      ultimately have "path_clean body = body"
        using na sp id body(1) by (simp add: path_clean_def flip: body_def)
      with c show ?thesis by simp
    qed
  qed
qed

lemma path_clean_nonempty [simp]: "path_clean s \<noteq> []"
  by (simp add: path_clean_def Let_def)

subsection \<open>The host\<close>

text \<open>
  What the program reads of its host: \<open>os.ReadFile\<close>, whether \<open>os.Stat\<close> finds a directory, the
  environment (\<open>os.LookupEnv\<close>, \<open>os.Getenv\<close>) and \<open>os.UserHomeDir\<close>.
\<close>

record host_env =
  he_read :: "string \<Rightarrow> gerr + string"
  he_is_dir :: "string \<Rightarrow> bool"
  he_lookup :: "string \<Rightarrow> string option"
  he_home :: "gerr + string"

definition he_getenv :: "host_env \<Rightarrow> string \<Rightarrow> string" where
  "he_getenv env k = (case he_lookup env k of None \<Rightarrow> [] | Some v \<Rightarrow> v)"

subsection \<open>Variable expansion\<close>

text \<open>\<open>os.Expand\<close>: \<open>shell_name\<close> is the name after a dollar sign and how many characters it took.\<close>

definition char_in :: "char \<Rightarrow> char \<Rightarrow> char \<Rightarrow> bool" where
  "char_in lo hi c = ((of_char lo :: nat) \<le> of_char c \<and> (of_char c :: nat) \<le> of_char hi)"

definition shell_special :: "char \<Rightarrow> bool" where
  "shell_special c = (c \<in> set ''*#$@!?-'' \<or> char_in (CHR ''0'') (CHR ''9'') c)"

definition shell_alnum :: "char \<Rightarrow> bool" where
  "shell_alnum c = (c = CHR ''_'' \<or> char_in (CHR ''0'') (CHR ''9'') c \<or>
     char_in (CHR ''a'') (CHR ''z'') c \<or> char_in (CHR ''A'') (CHR ''Z'') c)"

definition shell_name :: "string \<Rightarrow> string \<times> nat" where
  "shell_name s = (case s of [] \<Rightarrow> ([], 0)
   | c # cs \<Rightarrow>
       if c = CHR ''{'' then
         (if length s > 2 \<and> shell_special (s ! 1) \<and> s ! 2 = CHR ''}'' then ([s ! 1], 3)
          else let name = takeWhile (\<lambda>x. x \<noteq> CHR ''}'') cs in
            if length name = length cs then ([], 1)
            else if name = [] then ([], 2) else (name, length name + 2))
       else if shell_special c then ([c], 1)
       else let name = takeWhile shell_alnum s in (name, length name))"

text \<open>The expanded text and the names asked for, in order.\<close>

function os_expand :: "string \<Rightarrow> (string \<Rightarrow> string) \<Rightarrow> string \<times> string list" where
  "os_expand s f = (case s of [] \<Rightarrow> ([], [])
   | c # cs \<Rightarrow>
       if c = CHR ''$'' \<and> cs \<noteq> [] then
         (let name = fst (shell_name cs); w = snd (shell_name cs); rest = os_expand (drop w cs) f
          in if name = [] \<and> w > 0 then rest
             else if name = [] then apfst ((#) c) rest
             else (f name @ fst rest, name # snd rest))
       else apfst ((#) c) (os_expand cs f))"
  by pat_completeness auto
termination
  by (relation "measure (\<lambda>(s, f). length s)") auto

declare os_expand.simps [simp del]

lemma os_expand_plain: "CHR ''$'' \<notin> set s \<Longrightarrow> os_expand s f = (s, [])"
  by (induction s) (subst os_expand.simps; auto)+

end
