(* ===== verification/Go_Encoding.thy ===== *)
theory Go_Encoding
  imports Go_Strings "HOL-Library.Word"
begin

text \<open>
  The byte encodings of Go's standard library that the source uses: \<open>encoding/hex\<close>,
  \<open>encoding/base64\<close> (standard, URL and unpadded URL) and \<open>crypto/sha256\<close>. The locale \<open>codec\<close> is
  the contract every one of the encoders keeps; the locale \<open>b64_alphabet\<close> is what the base64
  routines need of an alphabet.
\<close>

unbundle bit_operations_syntax

locale codec =
  fixes enc :: "string \<Rightarrow> string"
    and dec :: "string \<Rightarrow> string option"
  assumes dec_enc: "dec (enc b) = Some b"
begin

lemma enc_inject: "enc a = enc b \<longleftrightarrow> a = b"
  using dec_enc by (metis option.inject)

end

abbreviation byte_of :: "char \<Rightarrow> nat" where "byte_of \<equiv> of_char"
abbreviation char_at :: "nat \<Rightarrow> char" where "char_at \<equiv> char_of"

lemma byte_div [simp]: "byte_of c div 4 < 64" "byte_of c div 16 < 16" "byte_of c div 64 < 4"
  using nat_of_char_less_256 [of c] by arith+

subsection \<open>Hexadecimal\<close>

definition hex_digit :: "nat \<Rightarrow> char" where
  "hex_digit n = (if n < 10 then char_at (n + 48) else char_at (n + 87))"

fun hex_encode :: "string \<Rightarrow> string" where
  "hex_encode [] = []"
| "hex_encode (c # cs) =
     hex_digit (byte_of c div 16) # hex_digit (byte_of c mod 16) # hex_encode cs"

definition hex_value :: "char \<Rightarrow> nat option" where
  "hex_value c = (let n = byte_of c in
     if 48 \<le> n \<and> n \<le> 57 then Some (n - 48)
     else if 97 \<le> n \<and> n \<le> 102 then Some (n - 87)
     else if 65 \<le> n \<and> n \<le> 70 then Some (n - 55) else None)"

fun hex_decode :: "string \<Rightarrow> string option" where
  "hex_decode [] = Some []"
| "hex_decode [a] = None"
| "hex_decode (a # b # cs) =
     (case (hex_value a, hex_value b) of
        (Some x, Some y) \<Rightarrow> map_option ((#) (char_at (16 * x + y))) (hex_decode cs)
      | _ \<Rightarrow> None)"

lemma hex_value_digit: "n < 16 \<Longrightarrow> hex_value (hex_digit n) = Some n"
  by (simp add: hex_value_def hex_digit_def of_char_of Let_def)

lemma length_hex_encode [simp]: "length (hex_encode s) = 2 * length s"
  by (induction s) auto

interpretation hex: codec hex_encode hex_decode
proof unfold_locales
  fix b
  show "hex_decode (hex_encode b) = Some b"
  proof (induction b)
    case (Cons c b)
    then show ?case by (simp add: hex_value_digit)
  qed simp
qed

subsection \<open>Base64\<close>

definition std_digit :: "nat \<Rightarrow> char" where
  "std_digit n = char_at (if n < 26 then n + 65 else if n < 52 then n + 71
     else if n < 62 then n - 4 else if n = 62 then 43 else 47)"

definition url_digit :: "nat \<Rightarrow> char" where
  "url_digit n = char_at (if n < 26 then n + 65 else if n < 52 then n + 71
     else if n < 62 then n - 4 else if n = 62 then 45 else 95)"

definition b64_value :: "nat \<Rightarrow> nat \<Rightarrow> char \<Rightarrow> nat option" where
  "b64_value c62 c63 c = (let n = byte_of c in
     if 65 \<le> n \<and> n \<le> 90 then Some (n - 65) else if 97 \<le> n \<and> n \<le> 122 then Some (n - 71)
     else if 48 \<le> n \<and> n \<le> 57 then Some (n + 4)
     else if n = c62 then Some 62 else if n = c63 then Some 63 else None)"

definition std_value :: "char \<Rightarrow> nat option" where "std_value = b64_value 43 47"
definition url_value :: "char \<Rightarrow> nat option" where "url_value = b64_value 45 95"

definition pad_with :: "bool \<Rightarrow> nat \<Rightarrow> string" where
  "pad_with padded n = (if padded then replicate n (CHR ''='') else [])"

fun b64_encode :: "(nat \<Rightarrow> char) \<Rightarrow> bool \<Rightarrow> string \<Rightarrow> string" where
  "b64_encode dg p [] = []"
| "b64_encode dg p [a] =
     (let x = byte_of a in [dg (x div 4), dg (x mod 4 * 16)] @ pad_with p 2)"
| "b64_encode dg p [a, b] =
     (let x = byte_of a; y = byte_of b in
      [dg (x div 4), dg (x mod 4 * 16 + y div 16), dg (y mod 16 * 4)] @ pad_with p 1)"
| "b64_encode dg p (a # b # c # cs) =
     (let x = byte_of a; y = byte_of b; z = byte_of c in
      [dg (x div 4), dg (x mod 4 * 16 + y div 16), dg (y mod 16 * 4 + z div 64), dg (z mod 64)]
        @ b64_encode dg p cs)"

lemma triple_induct [case_names Nil One Two Three]:
  fixes s :: string
  assumes "P []" "\<And>a. P [a]" "\<And>a b. P [a, b]" "\<And>a b c cs. P cs \<Longrightarrow> P (a # b # c # cs)"
  shows "P s"
  by (rule b64_encode.induct [of "\<lambda>_ _ s. P s"]) (auto intro: assms)

text \<open>
  The decoder skips CR and LF anywhere, reads quanta of four digits, and takes a shorter last
  quantum with its padding (padded) or without (unpadded). The bits a short quantum leaves over
  are ignored, as Go's non-strict encodings do.
\<close>

definition b64_two :: "nat \<Rightarrow> nat \<Rightarrow> char" where
  "b64_two u v = char_at (u * 4 + v div 16)"
definition b64_three :: "nat \<Rightarrow> nat \<Rightarrow> char" where
  "b64_three v w = char_at (v mod 16 * 16 + w div 4)"
definition b64_four :: "nat \<Rightarrow> nat \<Rightarrow> char" where
  "b64_four w x = char_at (w mod 4 * 64 + x)"

fun b64_quanta :: "(char \<Rightarrow> nat option) \<Rightarrow> bool \<Rightarrow> string \<Rightarrow> string option" where
  "b64_quanta vl p [] = Some []"
| "b64_quanta vl p [a] = None"
| "b64_quanta vl p [a, b] =
     (if p then None else case (vl a, vl b) of
        (Some u, Some v) \<Rightarrow> Some [b64_two u v] | _ \<Rightarrow> None)"
| "b64_quanta vl p [a, b, c] =
     (if p then None else case (vl a, vl b, vl c) of
        (Some u, Some v, Some w) \<Rightarrow> Some [b64_two u v, b64_three v w] | _ \<Rightarrow> None)"
| "b64_quanta vl p (a # b # c # d # cs) =
     (case (vl a, vl b) of
        (Some u, Some v) \<Rightarrow>
          (case vl c of
             None \<Rightarrow> if p \<and> c = CHR ''='' \<and> d = CHR ''='' \<and> cs = [] then Some [b64_two u v] else None
           | Some w \<Rightarrow>
               (case vl d of
                  None \<Rightarrow> if p \<and> d = CHR ''='' \<and> cs = [] then Some [b64_two u v, b64_three v w] else None
                | Some x \<Rightarrow> map_option (\<lambda>r. b64_two u v # b64_three v w # b64_four w x # r)
                    (b64_quanta vl p cs)))
      | _ \<Rightarrow> None)"

definition b64_decode :: "(char \<Rightarrow> nat option) \<Rightarrow> bool \<Rightarrow> string \<Rightarrow> string option" where
  "b64_decode vl p s = b64_quanta vl p (filter (\<lambda>c. c \<noteq> CHR 0x0D \<and> c \<noteq> CHR 0x0A) s)"

locale b64_alphabet =
  fixes digit :: "nat \<Rightarrow> char"
    and val :: "char \<Rightarrow> nat option"
    and padded :: bool
  assumes val_digit: "n < 64 \<Longrightarrow> val (digit n) = Some n"
    and val_pad: "val (CHR ''='') = None"
    and val_newline: "val (CHR 0x0D) = None" "val (CHR 0x0A) = None"
begin

lemma digit_not_newline: "n < 64 \<Longrightarrow> digit n \<noteq> CHR 0x0D \<and> digit n \<noteq> CHR 0x0A"
  using val_digit [of n] val_newline by auto

lemma two_digits: "b64_two (byte_of a div 4) (byte_of a mod 4 * 16 + k) = a" if "k < 16"
proof -
  have "byte_of a div 4 * 4 + (byte_of a mod 4 * 16 + k) div 16 = byte_of a" using that by simp
  then show ?thesis by (simp add: b64_two_def char_of_char)
qed

lemma three_digits:
  assumes "k < 4"
  shows "b64_three (x mod 4 * 16 + byte_of b div 16) (byte_of b mod 16 * 4 + k) = b"
proof -
  have "byte_of b div 16 < 16" by simp
  then have "(x mod 4 * 16 + byte_of b div 16) mod 16 * 16 + (byte_of b mod 16 * 4 + k) div 4
      = byte_of b" using assms by simp
  then show ?thesis by (simp add: b64_three_def char_of_char)
qed

lemma four_digits: "b64_four (y mod 16 * 4 + byte_of c div 64) (byte_of c mod 64) = c"
proof -
  have "byte_of c div 64 < 4" by simp
  then have "(y mod 16 * 4 + byte_of c div 64) mod 4 * 64 + byte_of c mod 64 = byte_of c" by simp
  then show ?thesis by (simp add: b64_four_def char_of_char)
qed

lemma digit_bounds:
  "byte_of a div 4 < 64" "x mod 4 * 16 + byte_of a div 16 < 64" "x mod 4 * 16 < 64"
  "x mod 16 * 4 + byte_of a div 64 < 64" "x mod 16 * 4 < 64" "x mod 64 < 64"
proof -
  have "byte_of a div 4 < 64" "byte_of a div 16 < 16" "byte_of a div 64 < 4" by simp_all
  moreover have "x mod 4 < 4" "x mod 16 < 16" by simp_all
  ultimately show "byte_of a div 4 < 64" "x mod 4 * 16 + byte_of a div 16 < 64"
    "x mod 4 * 16 < 64" "x mod 16 * 4 + byte_of a div 64 < 64" "x mod 16 * 4 < 64" "x mod 64 < 64"
    by linarith+
qed

lemma encode_digits:
  "c \<in> set (b64_encode digit padded s) \<Longrightarrow> c = CHR ''='' \<or> (\<exists>n < 64. c = digit n)"
  by (induction s rule: triple_induct)
    (auto simp: Let_def pad_with_def split: if_splits intro: digit_bounds)

lemma encode_no_newline:
  "filter (\<lambda>c. c \<noteq> CHR 0x0D \<and> c \<noteq> CHR 0x0A) (b64_encode digit padded s) = b64_encode digit padded s"
proof (rule filter_True, rule ballI)
  fix c assume "c \<in> set (b64_encode digit padded s)"
  from encode_digits [OF this] show "c \<noteq> CHR 0x0D \<and> c \<noteq> CHR 0x0A"
  proof
    assume "\<exists>n < 64. c = digit n"
    then obtain n where n: "n < 64" "c = digit n" by blast
    show ?thesis unfolding n(2) by (rule digit_not_newline [OF n(1)])
  qed simp
qed

lemma quanta_encode: "b64_quanta val padded (b64_encode digit padded s) = Some s"
proof (induction s rule: triple_induct)
  case (One a)
  then show ?case
    using two_digits [of 0 a]
    by (simp add: Let_def val_digit val_pad digit_bounds pad_with_def numeral_2_eq_2)
next
  case (Two a b)
  then show ?case
    using two_digits [of "byte_of b div 16" a] three_digits [of 0 "byte_of a" b]
    by (simp add: Let_def val_digit val_pad digit_bounds pad_with_def)
next
  case (Three a b c cs)
  then show ?case
    using two_digits [of "byte_of b div 16" a] three_digits [of "byte_of c div 64" "byte_of a" b]
      four_digits [of "byte_of b" c]
    by (simp add: Let_def val_digit digit_bounds)
qed simp

lemma decode_encode: "b64_decode val padded (b64_encode digit padded s) = Some s"
  by (simp add: b64_decode_def encode_no_newline quanta_encode)

end


lemma digit_cases:
  fixes n :: nat
  assumes "n < 64"
  obtains "n < 26" | "26 \<le> n" "n < 52" | k where "n = k + 52" "k < 10" | "n = 62" | "n = 63"
proof -
  consider "n < 26" | "26 \<le> n" "n < 52" | "52 \<le> n" "n < 62" | "n = 62" | "n = 63"
    using assms by linarith
  then show thesis
  proof cases
    case 3
    then have "n = (n - 52) + 52" "n - 52 < 10" by arith+
    then show ?thesis by (rule that(3))
  qed (auto intro: that)
qed

lemma std_value_digit: "n < 64 \<Longrightarrow> std_value (std_digit n) = Some n"
  by (cases rule: digit_cases [of n])
    (simp_all add: std_value_def b64_value_def std_digit_def Let_def of_char_of)

lemma url_value_digit: "n < 64 \<Longrightarrow> url_value (url_digit n) = Some n"
  by (cases rule: digit_cases [of n])
    (simp_all add: url_value_def b64_value_def url_digit_def Let_def of_char_of)

interpretation std64: b64_alphabet std_digit std_value True
  by unfold_locales (erule std_value_digit, simp_all add: std_value_def b64_value_def Let_def)

interpretation url64: b64_alphabet url_digit url_value True
  by unfold_locales (erule url_value_digit, simp_all add: url_value_def b64_value_def Let_def)

interpretation rawurl64: b64_alphabet url_digit url_value False
  by unfold_locales (erule url_value_digit, simp_all add: url_value_def b64_value_def Let_def)

text \<open>\<open>base64.StdEncoding\<close>, \<open>base64.URLEncoding\<close> and \<open>base64.RawURLEncoding\<close>.\<close>

definition std_encode :: "string \<Rightarrow> string" where "std_encode = b64_encode std_digit True"
definition std_decode :: "string \<Rightarrow> string option" where "std_decode = b64_decode std_value True"
definition url_decode :: "string \<Rightarrow> string option" where "url_decode = b64_decode url_value True"
definition rawurl_encode :: "string \<Rightarrow> string" where "rawurl_encode = b64_encode url_digit False"
definition rawurl_decode :: "string \<Rightarrow> string option" where "rawurl_decode = b64_decode url_value False"

interpretation std: codec std_encode std_decode
  by unfold_locales (simp add: std_encode_def std_decode_def std64.decode_encode)

interpretation rawurl: codec rawurl_encode rawurl_decode
  by unfold_locales (simp add: rawurl_encode_def rawurl_decode_def rawurl64.decode_encode)

lemma b64_encode_Nil_iff: "b64_encode dg p s = [] \<longleftrightarrow> s = []"
  by (cases "(dg, p, s)" rule: b64_encode.cases) (auto simp: Let_def)

subsection \<open>SHA-256\<close>

text \<open>FIPS 180-4, as \<open>crypto/sha256\<close> computes it, on 32-bit words.\<close>

type_synonym w32 = "32 word"

definition rotr :: "nat \<Rightarrow> w32 \<Rightarrow> w32" where "rotr = word_rotr"
definition shr :: "nat \<Rightarrow> w32 \<Rightarrow> w32" where "shr = drop_bit"

definition big_sigma0 :: "w32 \<Rightarrow> w32" where
  "big_sigma0 x = rotr 2 x XOR rotr 13 x XOR rotr 22 x"
definition big_sigma1 :: "w32 \<Rightarrow> w32" where
  "big_sigma1 x = rotr 6 x XOR rotr 11 x XOR rotr 25 x"
definition small_sigma0 :: "w32 \<Rightarrow> w32" where
  "small_sigma0 x = rotr 7 x XOR rotr 18 x XOR shr 3 x"
definition small_sigma1 :: "w32 \<Rightarrow> w32" where
  "small_sigma1 x = rotr 17 x XOR rotr 19 x XOR shr 10 x"
definition choose_bits :: "w32 \<Rightarrow> w32 \<Rightarrow> w32 \<Rightarrow> w32" where
  "choose_bits x y z = (x AND y) XOR (NOT x AND z)"
definition majority :: "w32 \<Rightarrow> w32 \<Rightarrow> w32 \<Rightarrow> w32" where
  "majority x y z = (x AND y) XOR (x AND z) XOR (y AND z)"

definition sha_k :: "w32 list" where
  "sha_k =
    [1116352408, 1899447441, 3049323471, 3921009573, 961987163, 1508970993,
     2453635748, 2870763221, 3624381080, 310598401, 607225278, 1426881987,
     1925078388, 2162078206, 2614888103, 3248222580, 3835390401, 4022224774,
     264347078, 604807628, 770255983, 1249150122, 1555081692, 1996064986,
     2554220882, 2821834349, 2952996808, 3210313671, 3336571891, 3584528711,
     113926993, 338241895, 666307205, 773529912, 1294757372, 1396182291,
     1695183700, 1986661051, 2177026350, 2456956037, 2730485921, 2820302411,
     3259730800, 3345764771, 3516065817, 3600352804, 4094571909, 275423344,
     430227734, 506948616, 659060556, 883997877, 958139571, 1322822218,
     1537002063, 1747873779, 1955562222, 2024104815, 2227730452, 2361852424,
     2428436474, 2756734187, 3204031479, 3329325298]"

type_synonym sha_state = "w32 \<times> w32 \<times> w32 \<times> w32 \<times> w32 \<times> w32 \<times> w32 \<times> w32"

definition sha_init :: sha_state where
  "sha_init = (1779033703, 3144134277, 1013904242, 2773480762,
     1359893119, 2600822924, 528734635, 1541459225)"

fun sha_round :: "sha_state \<Rightarrow> w32 \<times> w32 \<Rightarrow> sha_state" where
  "sha_round (a, b, c, d, e, f, g, h) (k, w) =
     (let t1 = h + big_sigma1 e + choose_bits e f g + k + w;
          t2 = big_sigma0 a + majority a b c
      in (t1 + t2, a, b, c, d + t1, e, f, g))"

text \<open>The message schedule, newest word first.\<close>

fun sha_extend :: "nat \<Rightarrow> w32 list \<Rightarrow> w32 list" where
  "sha_extend 0 ws = ws"
| "sha_extend (Suc n) ws =
     sha_extend n ((small_sigma1 (ws ! 1) + ws ! 6 + small_sigma0 (ws ! 14) + ws ! 15) # ws)"

fun sha_add :: "sha_state \<Rightarrow> sha_state \<Rightarrow> sha_state" where
  "sha_add (a, b, c, d, e, f, g, h) (a', b', c', d', e', f', g', h') =
     (a + a', b + b', c + c', d + d', e + e', f + f', g + g', h + h')"

definition sha_block :: "sha_state \<Rightarrow> w32 list \<Rightarrow> sha_state" where
  "sha_block s ws = sha_add s (foldl sha_round s (zip sha_k (rev (sha_extend 48 (rev ws)))))"

fun be_words :: "nat list \<Rightarrow> w32 list" where
  "be_words (a # b # c # d # xs) =
     word_of_nat (((a * 256 + b) * 256 + c) * 256 + d) # be_words xs"
| "be_words _ = []"

definition be_bytes :: "nat \<Rightarrow> nat \<Rightarrow> nat list" where
  "be_bytes k n = map (\<lambda>i. n div 256 ^ i mod 256) (rev [0..<k])"

definition sha_pad :: "nat list \<Rightarrow> nat list" where
  "sha_pad m = m @ [128] @ replicate ((119 - length m mod 64) mod 64) 0 @ be_bytes 8 (8 * length m)"

function sha_blocks :: "sha_state \<Rightarrow> w32 list \<Rightarrow> sha_state" where
  "sha_blocks s ws = (if length ws < 16 then s
     else sha_blocks (sha_block s (take 16 ws)) (drop 16 ws))"
  by pat_completeness auto
termination
  by (relation "measure (\<lambda>(s, ws). length ws)") auto

declare sha_blocks.simps [simp del]

fun state_bytes :: "sha_state \<Rightarrow> nat list" where
  "state_bytes (a, b, c, d, e, f, g, h) =
     concat (map (\<lambda>w. be_bytes 4 (unat w)) [a, b, c, d, e, f, g, h])"

definition sha256 :: "string \<Rightarrow> string" where
  "sha256 m = map char_at (state_bytes (sha_blocks sha_init (be_words (sha_pad (map byte_of m)))))"

text \<open>\<open>hex.EncodeToString(sha256.Sum256(b))\<close>.\<close>

definition sha256_hex :: "string \<Rightarrow> string" where
  "sha256_hex m = hex_encode (sha256 m)"

lemma length_state_bytes [simp]: "length (state_bytes s) = 32"
  by (cases s rule: state_bytes.cases) (simp add: be_bytes_def)

lemma length_sha256 [simp]: "length (sha256 m) = 32"
  by (simp add: sha256_def)

lemma length_sha256_hex [simp]: "length (sha256_hex m) = 64"
  by (simp add: sha256_hex_def)

lemma hex_encode_set: "c \<in> set (hex_encode s) \<Longrightarrow> \<exists>n < 16. c = hex_digit n"
proof (induction s)
  case (Cons a s)
  then consider "c = hex_digit (byte_of a div 16)" | "c = hex_digit (byte_of a mod 16)"
    | "c \<in> set (hex_encode s)" by auto
  then show ?case
  proof cases
    case 1
    then show ?thesis using byte_div(2) by blast
  next
    case 2
    moreover have "byte_of a mod 16 < 16" by simp
    ultimately show ?thesis by blast
  qed (rule Cons.IH)
qed simp

end
