(* ===== verification/Go_Json.thy ===== *)
theory Go_Json
  imports Go_Encoding
begin

text \<open>
  \<open>encoding/json\<close> as the source uses it: the scanner's grammar, string unquoting (escapes,
  surrogate pairs, replacement of invalid UTF-8), and the field-by-field decoding of an object
  into a struct (keys matched under case folding, later duplicates win, \<open>null\<close> leaves a value
  alone, a value of the wrong type is an error). A number keeps its literal, as \<open>UseNumber\<close>
  does. \<open>json_unmarshal\<close> reads a whole text, \<open>json_decode\<close> the first value of a stream.
\<close>

datatype json =
    JNull | JBool bool | JNum string | JStr string
  | JArr "json list" | JObj "(string \<times> json) list"

subsection \<open>Scanning\<close>

definition json_space :: "char \<Rightarrow> bool" where
  "json_space c = (c = CHR 0x20 \<or> c = CHR 0x09 \<or> c = CHR 0x0A \<or> c = CHR 0x0D)"

definition skip_ws :: "string \<Rightarrow> string" where "skip_ws = dropWhile json_space"

definition is_digit :: "char \<Rightarrow> bool" where
  "is_digit c = (48 \<le> byte_of c \<and> byte_of c \<le> 57)"

definition utf8_cont :: "nat \<Rightarrow> nat \<Rightarrow> char \<Rightarrow> bool" where
  "utf8_cont lo hi c = (lo \<le> byte_of c \<and> byte_of c \<le> hi)"

text \<open>The number of bytes of the valid encoding of a rune above ASCII that a string begins with.\<close>

fun utf8_len :: "string \<Rightarrow> nat option" where
  "utf8_len (a # b # c # d # r) =
     (let x = byte_of a; t = utf8_cont 128 191 in
      if 194 \<le> x \<and> x \<le> 223 \<and> t b then Some 2
      else if (x = 224 \<and> utf8_cont 160 191 b \<or> x = 237 \<and> utf8_cont 128 159 b
          \<or> (225 \<le> x \<and> x \<le> 236 \<or> x = 238 \<or> x = 239) \<and> t b) \<and> t c then Some 3
      else if (x = 240 \<and> utf8_cont 144 191 b \<or> x = 244 \<and> utf8_cont 128 143 b
          \<or> 241 \<le> x \<and> x \<le> 243 \<and> t b) \<and> t c \<and> t d then Some 4 else None)"
| "utf8_len [a, b, c] =
     (let x = byte_of a; t = utf8_cont 128 191 in
      if 194 \<le> x \<and> x \<le> 223 \<and> t b then Some 2
      else if (x = 224 \<and> utf8_cont 160 191 b \<or> x = 237 \<and> utf8_cont 128 159 b
          \<or> (225 \<le> x \<and> x \<le> 236 \<or> x = 238 \<or> x = 239) \<and> t b) \<and> t c then Some 3 else None)"
| "utf8_len [a, b] =
     (if 194 \<le> byte_of a \<and> byte_of a \<le> 223 \<and> utf8_cont 128 191 b then Some 2 else None)"
| "utf8_len _ = None"

definition utf8_encode :: "nat \<Rightarrow> string" where
  "utf8_encode u =
     (if u < 128 then [char_at u]
      else if u < 2048 then [char_at (192 + u div 64), char_at (128 + u mod 64)]
      else if u < 65536 then
        [char_at (224 + u div 4096), char_at (128 + u div 64 mod 64), char_at (128 + u mod 64)]
      else [char_at (240 + u div 262144), char_at (128 + u div 4096 mod 64),
        char_at (128 + u div 64 mod 64), char_at (128 + u mod 64)])"

definition rune_error :: string where
  "rune_error = [CHR 0xEF, CHR 0xBF, CHR 0xBD]"

fun hex4 :: "string \<Rightarrow> (nat \<times> string) option" where
  "hex4 (a # b # c # d # r) =
     (case (hex_value a, hex_value b, hex_value c, hex_value d) of
        (Some w, Some x, Some y, Some z) \<Rightarrow> Some (((w * 16 + x) * 16 + y) * 16 + z, r)
      | _ \<Rightarrow> None)"
| "hex4 _ = None"

text \<open>
  The rune after \<open>\u\<close>, and the text after it: a high surrogate takes the low surrogate that
  follows it; a surrogate without its partner becomes U+FFFD.
\<close>

definition unicode_escape :: "string \<Rightarrow> (string \<times> string) option" where
  "unicode_escape s = (case hex4 s of
     None \<Rightarrow> None
   | Some (u, r) \<Rightarrow>
       if u < 55296 \<or> 57343 < u then Some (utf8_encode u, r)
       else (case r of
           b # e # r' \<Rightarrow>
             (case hex4 r' of
                Some (v, r'') \<Rightarrow>
                  if b = CHR 0x5C \<and> e = CHR ''u'' \<and> u < 56320 \<and> 56320 \<le> v \<and> v < 57344
                  then Some (utf8_encode (65536 + (u - 55296) * 1024 + (v - 56320)), r'')
                  else Some (rune_error, r)
              | None \<Rightarrow> Some (rune_error, r))
         | _ \<Rightarrow> Some (rune_error, r)))"

definition simple_escape :: "char \<Rightarrow> char option" where
  "simple_escape c = (if c = CHR 0x22 \<or> c = CHR 0x5C \<or> c = CHR ''/'' then Some c
     else if c = CHR ''b'' then Some (CHR 0x08) else if c = CHR ''f'' then Some (CHR 0x0C)
     else if c = CHR ''n'' then Some (CHR 0x0A) else if c = CHR ''r'' then Some (CHR 0x0D)
     else if c = CHR ''t'' then Some (CHR 0x09) else None)"

lemma hex4_length: "hex4 s = Some (u, r) \<Longrightarrow> length r < length s"
  by (cases s rule: hex4.cases) (auto split: option.splits)

lemma unicode_escape_length: "unicode_escape s = Some (w, r) \<Longrightarrow> length r < length s"
  unfolding unicode_escape_def
  by (auto split: option.splits prod.splits if_splits list.splits dest!: hex4_length)

text \<open>
  One step inside a string literal: \<open>Some (None, r)\<close> at the closing quote, \<open>Some (Some w, r)\<close>
  for the next bytes \<open>w\<close> of the value, \<open>None\<close> for a syntax error.
\<close>

definition json_piece :: "string \<Rightarrow> (string option \<times> string) option" where
  "json_piece s = (case s of [] \<Rightarrow> None
   | c # cs \<Rightarrow>
       if c = CHR 0x22 then Some (None, cs)
       else if c = CHR 0x5C then
         (case cs of [] \<Rightarrow> None
          | e # r \<Rightarrow>
              if e = CHR ''u'' then map_option (apfst Some) (unicode_escape r)
              else map_option (\<lambda>x. (Some [x], r)) (simple_escape e))
       else if byte_of c < 32 then None
       else if byte_of c < 128 then Some (Some [c], cs)
       else (case utf8_len s of
               Some n \<Rightarrow> Some (Some (take n s), drop (max 1 n) s)
             | None \<Rightarrow> Some (Some rune_error, cs)))"

lemma json_piece_length: "json_piece s = Some (w, r) \<Longrightarrow> length r < length s"
  unfolding json_piece_def
  by (auto split: list.splits if_splits option.splits dest!: unicode_escape_length)

text \<open>The text of a string literal after its opening quote, and what follows the closing one.\<close>

function json_string :: "string \<Rightarrow> (string \<times> string) option" where
  "json_string s = (case json_piece s of
     None \<Rightarrow> None
   | Some (None, r) \<Rightarrow> Some ([], r)
   | Some (Some w, r) \<Rightarrow> map_option (apfst ((@) w)) (json_string r))"
  by pat_completeness auto
termination
  by (relation "measure length") (auto dest: json_piece_length)

declare json_string.simps [simp del]

lemma json_string_length: "json_string s = Some (w, r) \<Longrightarrow> length r < length s"
proof (induction s arbitrary: w r rule: json_string.induct)
  case (1 s)
  then obtain p q where p: "json_piece s = Some (p, q)"
    by (subst (asm) json_string.simps) (auto split: option.splits)
  show ?case
  proof (cases p)
    case None
    with p "1.prems" show ?thesis
      by (subst (asm) json_string.simps) (auto dest: json_piece_length)
  next
    case (Some v)
    with p "1.prems" obtain w' where "json_string q = Some (w', r)"
      by (subst (asm) json_string.simps) auto
    with "1.IH" p Some have "length r < length q" by blast
    with p show ?thesis using json_piece_length by fastforce
  qed
qed

definition json_digits1 :: "string \<Rightarrow> (string \<times> string) option" where
  "json_digits1 s = (let d = takeWhile is_digit s in
     if d = [] then None else Some (d, dropWhile is_digit s))"

definition num_sign :: "string \<Rightarrow> string \<times> string" where
  "num_sign s = (case s of c # cs \<Rightarrow> if c = CHR ''-'' then ([c], cs) else ([], s) | [] \<Rightarrow> ([], s))"

definition num_int :: "string \<Rightarrow> (string \<times> string) option" where
  "num_int s = (case s of c # cs \<Rightarrow> if c = CHR ''0'' then Some ([c], cs) else json_digits1 s
     | [] \<Rightarrow> None)"

definition num_frac :: "string \<Rightarrow> (string \<times> string) option" where
  "num_frac s = (case s of c # cs \<Rightarrow>
       if c = CHR ''.'' then map_option (apfst ((#) c)) (json_digits1 cs) else Some ([], s)
     | [] \<Rightarrow> Some ([], s))"

definition num_exp :: "string \<Rightarrow> (string \<times> string) option" where
  "num_exp s = (case s of c # cs \<Rightarrow>
       if c = CHR ''e'' \<or> c = CHR ''E'' then
         (case cs of g # gs \<Rightarrow>
            if g = CHR ''+'' \<or> g = CHR ''-'' then map_option (apfst (\<lambda>d. c # g # d)) (json_digits1 gs)
            else map_option (apfst ((#) c)) (json_digits1 cs)
          | [] \<Rightarrow> None)
       else Some ([], s)
     | [] \<Rightarrow> Some ([], s))"

definition json_number :: "string \<Rightarrow> (string \<times> string) option" where
  "json_number s = (case num_sign s of (sg, s1) \<Rightarrow>
     (case num_int s1 of None \<Rightarrow> None | Some (i, s2) \<Rightarrow>
     (case num_frac s2 of None \<Rightarrow> None | Some (f, s3) \<Rightarrow>
     (case num_exp s3 of None \<Rightarrow> None | Some (e, s4) \<Rightarrow> Some (sg @ i @ f @ e, s4)))))"

lemma json_digits1_length: "json_digits1 s = Some (d, r) \<Longrightarrow> length r < length s"
  unfolding json_digits1_def
  by (cases s) (auto simp: Let_def split: if_splits intro: le_imp_less_Suc length_dropWhile_le)

lemma num_lengths:
  "length (snd (num_sign s)) \<le> length s"
  "num_int s = Some (d, r) \<Longrightarrow> length r < length s"
  "num_frac s = Some (d, r) \<Longrightarrow> length r \<le> length s"
  "num_exp s = Some (d, r) \<Longrightarrow> length r \<le> length s"
  unfolding num_sign_def num_int_def num_frac_def num_exp_def
  by (auto split: list.splits if_splits dest!: json_digits1_length)

lemma json_number_cases:
  assumes "json_number s = Some (d, r)"
  obtains i s2 f s3 e where "num_int (snd (num_sign s)) = Some (i, s2)" "num_frac s2 = Some (f, s3)"
    "num_exp s3 = Some (e, r)" "d = fst (num_sign s) @ i @ f @ e"
  using assms unfolding json_number_def by (auto split: option.splits prod.splits)

lemma json_number_length:
  assumes "json_number s = Some (d, r)"
  shows "length r < length s"
  using assms
proof (cases rule: json_number_cases)
  case (1 i s2 f s3 e)
  then show ?thesis using num_lengths by (meson le_trans less_le_trans le_less_trans)
qed

lemma skip_ws_length: "length (skip_ws s) \<le> length s"
  by (simp add: skip_ws_def length_dropWhile_le)

lemma skip_ws_Cons: "skip_ws s = c # r \<Longrightarrow> length r < length s"
  using skip_ws_length [of s] by simp

lemma skip_ws_double:
  "length r < length s \<Longrightarrow> 2 * length (skip_ws r) < 2 * length s"
  "length r < Suc n \<Longrightarrow> 2 * length (skip_ws r) < Suc (Suc (2 * n))"
  using skip_ws_length [of r] by simp_all

subsection \<open>Values\<close>

text \<open>
  The recursive descent. Each function is given text with no leading white space; the guard
  \<open>length r < length s\<close> on the text a value leaves over is always true (\<open>json_value_length\<close>),
  and is what the termination proof needs.
\<close>

function json_value :: "string \<Rightarrow> (json \<times> string) option"
  and json_elems :: "string \<Rightarrow> (json list \<times> string) option"
  and json_members :: "string \<Rightarrow> ((string \<times> json) list \<times> string) option" where
  "json_value s = (case s of [] \<Rightarrow> None
   | c # cs \<Rightarrow>
       if c = CHR 0x22 then map_option (apfst JStr) (json_string cs)
       else if c = CHR ''['' then
         (case skip_ws cs of
            d # ds \<Rightarrow> if d = CHR '']'' then Some (JArr [], ds)
              else map_option (apfst JArr) (json_elems (skip_ws cs))
          | [] \<Rightarrow> None)
       else if c = CHR ''{'' then
         (case skip_ws cs of
            d # ds \<Rightarrow> if d = CHR ''}'' then Some (JObj [], ds)
              else map_option (apfst JObj) (json_members (skip_ws cs))
          | [] \<Rightarrow> None)
       else (case strip_prefix ''true'' s of Some r \<Rightarrow> Some (JBool True, r) | None \<Rightarrow>
         (case strip_prefix ''false'' s of Some r \<Rightarrow> Some (JBool False, r) | None \<Rightarrow>
           (case strip_prefix ''null'' s of Some r \<Rightarrow> Some (JNull, r) | None \<Rightarrow>
             map_option (apfst JNum) (json_number s)))))"
| "json_elems s = (case json_value s of None \<Rightarrow> None
   | Some (v, r) \<Rightarrow> (case skip_ws r of
        [] \<Rightarrow> None
      | c # r2 \<Rightarrow>
          if c = CHR '']'' then Some ([v], r2)
          else if c = CHR '','' \<and> length r2 < length s
          then map_option (apfst ((#) v)) (json_elems (skip_ws r2)) else None))"
| "json_members s = (case s of [] \<Rightarrow> None
   | q # cs \<Rightarrow>
       if q \<noteq> CHR 0x22 then None
       else (case json_string cs of None \<Rightarrow> None
         | Some (k, r) \<Rightarrow> (case skip_ws r of [] \<Rightarrow> None
            | c # r1 \<Rightarrow>
               if c = CHR '':'' \<and> length r1 < length s then
                 (case json_value (skip_ws r1) of None \<Rightarrow> None
                  | Some (v, r2) \<Rightarrow> (case skip_ws r2 of [] \<Rightarrow> None
                     | e # r3 \<Rightarrow>
                         if e = CHR ''}'' then Some ([(k, v)], r3)
                         else if e = CHR '','' \<and> length r3 < length s
                         then map_option (apfst ((#) (k, v))) (json_members (skip_ws r3)) else None))
               else None)))"
  by pat_completeness auto
termination
  by (relation "measure (\<lambda>x. case x of Inl s \<Rightarrow> 2 * length s
      | Inr (Inl s) \<Rightarrow> 2 * length s + 1 | Inr (Inr s) \<Rightarrow> 2 * length s + 1)")
    (auto dest!: skip_ws_Cons json_string_length
      intro: le_less_trans [OF skip_ws_length] skip_ws_double less_trans [OF skip_ws_double(1)])

declare json_value.simps [simp del] json_elems.simps [simp del] json_members.simps [simp del]

lemma strip_prefix_length: "strip_prefix p s = Some r \<Longrightarrow> p \<noteq> [] \<Longrightarrow> length r < length s"
  by auto

lemma json_elems_cases:
  assumes "json_elems s = Some (vs, r)"
  obtains v q where "json_value s = Some (v, q)" "skip_ws q = CHR '']'' # r" "vs = [v]"
  | v q q2 ws where "json_value s = Some (v, q)" "skip_ws q = CHR '','' # q2" "length q2 < length s"
      "json_elems (skip_ws q2) = Some (ws, r)" "vs = v # ws"
  using assms by (subst (asm) json_elems.simps) (auto split: option.splits list.splits if_splits)

lemma json_members_cases:
  assumes "json_members s = Some (ms, r)"
  obtains cs k q q1 v q2 where "s = CHR 0x22 # cs" "json_string cs = Some (k, q)"
      "skip_ws q = CHR '':'' # q1" "json_value (skip_ws q1) = Some (v, q2)"
      "skip_ws q2 = CHR ''}'' # r" "ms = [(k, v)]"
  | cs k q q1 v q2 q3 ns where "s = CHR 0x22 # cs" "json_string cs = Some (k, q)"
      "skip_ws q = CHR '':'' # q1" "json_value (skip_ws q1) = Some (v, q2)"
      "skip_ws q2 = CHR '','' # q3" "json_members (skip_ws q3) = Some (ns, r)" "ms = (k, v) # ns"
  using assms by (subst (asm) json_members.simps) (auto split: option.splits list.splits if_splits)

lemma json_elems_length:
  assumes "\<And>t v r. length t \<le> n \<Longrightarrow> json_value t = Some (v, r) \<Longrightarrow> length r < length t"
    and "length s \<le> n" "json_elems s = Some (vs, r)"
  shows "length r < length s"
  using assms(2,3)
proof (induction "length s" arbitrary: s vs r rule: less_induct)
  case less
  from less.prems(2) show ?case
  proof (cases rule: json_elems_cases)
    case (1 v q)
    then show ?thesis using assms(1) [OF less.prems(1)] skip_ws_Cons by fastforce
  next
    case (2 v q q2 ws)
    then have "length (skip_ws q2) < length s" using skip_ws_length [of q2] by simp
    with less 2(4) show ?thesis by fastforce
  qed
qed

lemma json_members_length:
  assumes "\<And>t v r. length t \<le> n \<Longrightarrow> json_value t = Some (v, r) \<Longrightarrow> length r < length t"
    and "length s \<le> n" "json_members s = Some (ms, r)"
  shows "length r < length s"
  using assms(2,3)
proof (induction "length s" arbitrary: s ms r rule: less_induct)
  case less
  have step: "length q2 < length s"
    if "s = CHR 0x22 # cs" "json_string cs = Some (k, q)" "skip_ws q = CHR '':'' # q1"
      "json_value (skip_ws q1) = Some (v, q2)" for cs k q q1 v q2
  proof -
    have "length q1 < length q" "length q < length cs" "length (skip_ws q1) \<le> length q1"
      using skip_ws_Cons [OF that(3)] json_string_length [OF that(2)] skip_ws_length by auto
    moreover from this have "length (skip_ws q1) \<le> n" using less.prems(1) that(1) by simp
    ultimately show ?thesis using assms(1) [OF _ that(4)] that(1) by simp
  qed
  from less.prems(2) show ?case
  proof (cases rule: json_members_cases)
    case 1
    from step [OF 1(1-4)] skip_ws_Cons [OF 1(5)] show ?thesis by simp
  next
    case (2 cs k q q1 v q2 q3 ns)
    have "length (skip_ws q3) < length s"
      using step [OF 2(1-4)] skip_ws_Cons [OF 2(5)] skip_ws_length [of q3] by simp
    with less 2(6) show ?thesis by fastforce
  qed
qed

lemma json_value_length: "json_value s = Some (v, r) \<Longrightarrow> length r < length s"
proof (induction "length s" arbitrary: s v r rule: less_induct)
  case less
  from less.prems obtain c cs where s: "s = c # cs"
    by (subst (asm) json_value.simps) (auto split: list.splits)
  have IH: "\<And>t v' r'. length t \<le> length cs \<Longrightarrow> json_value t = Some (v', r') \<Longrightarrow> length r' < length t"
    using less.hyps s by simp
  have "length r < length s" if "json_elems (skip_ws cs) = Some (vs, r)" for vs
  proof -
    have "length r < length (skip_ws cs)"
      by (rule json_elems_length [of "length cs"]) (fact IH skip_ws_length that)+
    then show ?thesis using skip_ws_length [of cs] s by simp
  qed
  moreover have "length r < length s" if "json_members (skip_ws cs) = Some (ms, r)" for ms
  proof -
    have "length r < length (skip_ws cs)"
      by (rule json_members_length [of "length cs"]) (fact IH skip_ws_length that)+
    then show ?thesis using skip_ws_length [of cs] s by simp
  qed
  moreover have "length r < length s" if "json_string cs = Some (w, r)" for w
    using json_string_length [OF that] s by simp
  moreover have "length r < length s" if "skip_ws cs = d # r" for d
    using skip_ws_Cons [OF that] s by simp
  ultimately show ?case using less.prems s
    by (subst (asm) json_value.simps)
      (auto split: list.splits if_splits option.splits simp del: strip_prefix.simps
        dest: json_number_length)
qed

text \<open>
  Nesting deeper than 10000 is an error of the scanner. \<open>json_decode\<close> is one call of
  \<open>Decoder.Decode\<close>: the first value, whatever follows; \<open>json_unmarshal\<close> allows only white
  space after it.
\<close>

fun json_depth :: "json \<Rightarrow> nat" where
  "json_depth (JArr xs) = Suc (fold max (map json_depth xs) 0)"
| "json_depth (JObj ms) = Suc (fold max (map (\<lambda>m. json_depth (snd m)) ms) 0)"
| "json_depth _ = 0"

definition json_decode :: "string \<Rightarrow> json option" where
  "json_decode s = (case json_value (skip_ws s) of
     Some (v, r) \<Rightarrow> if json_depth v \<le> 10000 then Some v else None | None \<Rightarrow> None)"

definition json_unmarshal :: "string \<Rightarrow> json option" where
  "json_unmarshal s = (case json_value (skip_ws s) of
     Some (v, r) \<Rightarrow> if skip_ws r = [] \<and> json_depth v \<le> 10000 then Some v else None | None \<Rightarrow> None)"

lemma json_decode_unmarshal: "json_unmarshal s = Some v \<Longrightarrow> json_decode s = Some v"
  by (auto simp: json_unmarshal_def json_decode_def split: option.splits if_splits)

subsection \<open>Decoding into a struct\<close>

text \<open>
  Keys match a field's tag under \<open>EqualFold\<close>; outside ASCII only the long s and the Kelvin sign
  fold to a letter a tag can hold.
\<close>

fun fold_name :: "string \<Rightarrow> string" where
  "fold_name (a # b # c # r) =
     (if a = CHR 0xC5 \<and> b = CHR 0xBF then CHR ''s'' # fold_name (c # r)
      else if a = CHR 0xE2 \<and> b = CHR 0x84 \<and> c = CHR 0xAA then CHR ''k'' # fold_name r
      else lower_char a # fold_name (b # c # r))"
| "fold_name [a, b] = (if a = CHR 0xC5 \<and> b = CHR 0xBF then ''s'' else [lower_char a, lower_char b])"
| "fold_name s = map lower_char s"

definition key_is :: "string \<Rightarrow> string \<Rightarrow> bool" where
  "key_is k tag = (fold_name k = fold_name tag)"

fun fold_members :: "((string \<times> json) \<Rightarrow> 'a \<Rightarrow> 'a option) \<Rightarrow> (string \<times> json) list \<Rightarrow> 'a \<Rightarrow> 'a option" where
  "fold_members f [] a = Some a"
| "fold_members f (m # ms) a = Option.bind (f m a) (fold_members f ms)"

definition dec_struct :: "((string \<times> json) \<Rightarrow> 'a \<Rightarrow> 'a option) \<Rightarrow> json \<Rightarrow> 'a \<Rightarrow> 'a option" where
  "dec_struct f j a = (case j of JObj ms \<Rightarrow> fold_members f ms a | JNull \<Rightarrow> Some a | _ \<Rightarrow> None)"

definition dec_string :: "json \<Rightarrow> string \<Rightarrow> string option" where
  "dec_string j old = (case j of JStr s \<Rightarrow> Some s | JNull \<Rightarrow> Some old | _ \<Rightarrow> None)"

definition dec_bool :: "json \<Rightarrow> bool \<Rightarrow> bool option" where
  "dec_bool j old = (case j of JBool b \<Rightarrow> Some b | JNull \<Rightarrow> Some old | _ \<Rightarrow> None)"

fun digits_value :: "int \<Rightarrow> string \<Rightarrow> int option" where
  "digits_value n [] = Some n"
| "digits_value n (c # cs) =
     (if is_digit c then digits_value (10 * n + int (byte_of c) - 48) cs else None)"

definition parse_int64 :: "string \<Rightarrow> int option" where
  "parse_int64 s =
     (let (neg, d) = (case s of c # cs \<Rightarrow> if c = CHR ''-'' then (True, cs)
            else if c = CHR ''+'' then (False, cs) else (False, s) | [] \<Rightarrow> (False, []))
      in if d = [] then None
         else case digits_value 0 d of None \<Rightarrow> None
         | Some n \<Rightarrow> (let v = (if neg then - n else n) in
             if min_int64 \<le> v \<and> v \<le> max_int64 then Some v else None))"

definition dec_int64 :: "json \<Rightarrow> int \<Rightarrow> int option" where
  "dec_int64 j old = (case j of JNum l \<Rightarrow> parse_int64 l | JNull \<Rightarrow> Some old | _ \<Rightarrow> None)"

text \<open>
  An array read into a slice is read element by element over what the slice holds, so a \<open>null\<close>
  element keeps the old one (a field given twice); elements past the old length start empty.
\<close>

fun dec_strings :: "string list \<Rightarrow> json list \<Rightarrow> string list option" where
  "dec_strings old [] = Some []"
| "dec_strings old (j # js) =
     (case (dec_string j (case old of [] \<Rightarrow> [] | x # _ \<Rightarrow> x), dec_strings (tl old) js) of
        (Some s, Some ss) \<Rightarrow> Some (s # ss) | _ \<Rightarrow> None)"

definition dec_string_slice :: "json \<Rightarrow> string list \<Rightarrow> string list option" where
  "dec_string_slice j old = (case j of JArr js \<Rightarrow> dec_strings old js | JNull \<Rightarrow> Some [] | _ \<Rightarrow> None)"

definition dec_ptr :: "(json \<Rightarrow> 'a \<Rightarrow> 'a option) \<Rightarrow> 'a \<Rightarrow> json \<Rightarrow> 'a option \<Rightarrow> 'a option option" where
  "dec_ptr dec zero j old = (case j of JNull \<Rightarrow> Some None
     | _ \<Rightarrow> map_option Some (dec j (case old of None \<Rightarrow> zero | Some x \<Rightarrow> x)))"

text \<open>One field of a struct, by its selector and its update.\<close>

definition dec_field :: "(json \<Rightarrow> 'v \<Rightarrow> 'v option) \<Rightarrow> ('r \<Rightarrow> 'v) \<Rightarrow> (('v \<Rightarrow> 'v) \<Rightarrow> 'r \<Rightarrow> 'r) \<Rightarrow> json \<Rightarrow> 'r \<Rightarrow> 'r option" where
  "dec_field dec sel upd j r = map_option (\<lambda>v. upd (\<lambda>_. v) r) (dec j (sel r))"

definition json_error :: gerr where "json_error = Ext ''encoding/json''"

lemma parse_int64_range: "parse_int64 s = Some n \<Longrightarrow> min_int64 \<le> n \<and> n \<le> max_int64"
  by (auto simp: parse_int64_def Let_def split: list.splits if_splits option.splits)

text \<open>
  A value read into an \<open>any\<close> without \<open>UseNumber\<close> turns its numbers into \<open>float64\<close>s; one whose
  literal rounds to an infinity is an error.
\<close>

fun nat_digits :: "nat \<Rightarrow> string \<Rightarrow> nat" where
  "nat_digits n [] = n"
| "nat_digits n (c # cs) = nat_digits (10 * n + (byte_of c - 48)) cs"

definition float64_ok :: "string \<Rightarrow> bool" where
  "float64_ok l =
     (let t = trim_prefix l ''-'';
          m = takeWhile (\<lambda>c. c \<noteq> CHR ''e'' \<and> c \<noteq> CHR ''E'') t;
          ex = drop (length m + 1) t;
          neg = has_prefix ex ''-'';
          e = int (nat_digits 0 (filter is_digit ex));
          frac = filter is_digit (dropWhile is_digit m);
          mant = nat_digits 0 (filter is_digit m);
          shift = (if neg then - e else e) - int (length frac);
          lim = (2 ^ 1024 - 2 ^ 970 :: nat)
      in mant = 0 \<or> (if 0 \<le> shift then mant * 10 ^ nat shift < lim else mant < lim * 10 ^ nat (- shift)))"

fun json_any_ok :: "json \<Rightarrow> bool" where
  "json_any_ok (JNum l) = float64_ok l"
| "json_any_ok (JArr js) = list_all json_any_ok js"
| "json_any_ok (JObj ms) = list_all (\<lambda>m. json_any_ok (snd m)) ms"
| "json_any_ok _ = True"

text \<open>A claim of a decoded token: \<open>claims[k].(string)\<close> and \<open>claims[k].(map[string]any)\<close>.\<close>

definition obj_get :: "(string \<times> json) list \<Rightarrow> string \<Rightarrow> json option" where
  "obj_get ms k = map_of (rev ms) k"

definition get_string :: "(string \<times> json) list \<Rightarrow> string \<Rightarrow> string option" where
  "get_string ms k = (case obj_get ms k of Some (JStr s) \<Rightarrow> Some s | _ \<Rightarrow> None)"

definition get_object :: "(string \<times> json) list \<Rightarrow> string \<Rightarrow> (string \<times> json) list option" where
  "get_object ms k = (case obj_get ms k of Some (JObj ob) \<Rightarrow> Some ob | _ \<Rightarrow> None)"

end
