(* ===== verification/Go_Time.thy ===== *)
theory Go_Time
  imports Go_Json
begin

text \<open>
  Decimal rendering, and the calendar as the source uses it: the layout
  \<open>2006-01-02T15:04:05Z\<close> that prints an instant in UTC and the parser of an RFC 3339 time
  (\<open>time.Time.UnmarshalJSON\<close>, with the leniencies of \<open>time.Parse\<close>: an hour of one digit, a
  comma before the fraction).
\<close>

function nat_text :: "nat \<Rightarrow> string" where
  "nat_text n = (if n < 10 then [char_at (n + 48)] else nat_text (n div 10) @ [char_at (n mod 10 + 48)])"
  by pat_completeness auto
termination
  by (relation "measure id") auto

declare nat_text.simps [simp del]

definition int_text :: "int \<Rightarrow> string" where
  "int_text i = (if i < 0 then CHR ''-'' # nat_text (nat (- i)) else nat_text (nat i))"

definition pad_text :: "nat \<Rightarrow> int \<Rightarrow> string" where
  "pad_text w i = (let d = nat_text (nat \<bar>i\<bar>) in
     (if i < 0 then ''-'' else []) @ replicate (w - length d) (CHR ''0'') @ d)"

lemma nat_digits_append: "nat_digits n (xs @ ys) = nat_digits (nat_digits n xs) ys"
  by (induction n xs rule: nat_digits.induct) auto

lemma nat_digits_text: "nat_digits 0 (nat_text n) = n"
proof (induction n rule: less_induct)
  case (less n)
  have d: "byte_of (char_at (k + 48)) = k + 48" if "k < 10" for k :: nat
    using that by (simp add: of_char_of)
  show ?case
  proof (cases "n < 10")
    case True
    then show ?thesis by (subst nat_text.simps) (simp add: d)
  next
    case False
    have m: "n mod 10 < 10" by simp
    have "nat_digits 0 (nat_text n) = nat_digits (n div 10) [char_at (n mod 10 + 48)]"
      using False less [of "n div 10"] by (subst nat_text.simps) (simp add: nat_digits_append)
    also have "\<dots> = 10 * (n div 10) + n mod 10" using d [OF m] by simp
    finally show ?thesis by simp
  qed
qed

lemma nat_text_inject: "nat_text a = nat_text b \<longleftrightarrow> a = b"
  by (metis nat_digits_text)

subsection \<open>The calendar\<close>

definition days_from_civil :: "int \<Rightarrow> int \<Rightarrow> int \<Rightarrow> int" where
  "days_from_civil y m d =
     (let y' = (if m \<le> 2 then y - 1 else y); era = y' div 400; yoe = y' mod 400;
          doy = (153 * (if m > 2 then m - 3 else m + 9) + 2) div 5 + d - 1
      in era * 146097 + yoe * 365 + yoe div 4 - yoe div 100 + doy - 719468)"

definition civil_from_days :: "int \<Rightarrow> int \<times> int \<times> int" where
  "civil_from_days z =
     (let z' = z + 719468; era = z' div 146097; doe = z' mod 146097;
          yoe = (doe - doe div 1460 + doe div 36524 - doe div 146096) div 365;
          doy = doe - (365 * yoe + yoe div 4 - yoe div 100);
          mp = (5 * doy + 2) div 153; d = doy - (153 * mp + 2) div 5 + 1;
          m = (if mp < 10 then mp + 3 else mp - 9)
      in (yoe + era * 400 + (if m \<le> 2 then 1 else 0), m, d))"

definition leap_year :: "int \<Rightarrow> bool" where
  "leap_year y = (y mod 4 = 0 \<and> (y mod 100 \<noteq> 0 \<or> y mod 400 = 0))"

definition days_in :: "int \<Rightarrow> int \<Rightarrow> int" where
  "days_in m y = (if m = 2 then (if leap_year y then 29 else 28)
     else if m \<in> {4, 6, 9, 11} then 30 else 31)"

definition format_utc :: "gotime \<Rightarrow> string" where
  "format_utc t = (let s = t div 1000000000; r = s mod 86400 in
     case civil_from_days (s div 86400) of (y, m, d) \<Rightarrow>
       pad_text 4 y @ ''-'' @ pad_text 2 m @ ''-'' @ pad_text 2 d @ ''T'' @ pad_text 2 (r div 3600)
       @ '':'' @ pad_text 2 (r mod 3600 div 60) @ '':'' @ pad_text 2 (r mod 60) @ ''Z'')"

subsection \<open>Parsing\<close>

definition take_digits :: "nat \<Rightarrow> string \<Rightarrow> (int \<times> string) option" where
  "take_digits n s = (let d = take n s in
     if length d = n \<and> list_all is_digit d then Some (int (nat_digits 0 d), drop n s) else None)"

definition expect :: "char \<Rightarrow> string \<Rightarrow> string option" where
  "expect c s = strip_prefix [c] s"

definition take_hour :: "string \<Rightarrow> (int \<times> string) option" where
  "take_hour s = (case take_digits 2 s of Some x \<Rightarrow> Some x | None \<Rightarrow> take_digits 1 s)"

definition take_fraction :: "string \<Rightarrow> int \<times> string" where
  "take_fraction s = (case s of
     c # d # cs \<Rightarrow>
       if (c = CHR ''.'' \<or> c = CHR '','') \<and> is_digit d then
         (let ds = take 9 (takeWhile is_digit (d # cs))
          in (int (nat_digits 0 ds) * 10 ^ (9 - length ds), dropWhile is_digit (d # cs)))
       else (0, s)
   | _ \<Rightarrow> (0, s))"

definition take_zone :: "string \<Rightarrow> (int \<times> string) option" where
  "take_zone s = (case s of [] \<Rightarrow> None
   | c # cs \<Rightarrow>
       if c = CHR ''Z'' then Some (0, cs)
       else if c = CHR ''+'' \<or> c = CHR ''-'' then
         Option.bind (take_digits 2 cs) (\<lambda>(h, r1).
         Option.bind (expect (CHR '':'') r1) (\<lambda>r2.
         Option.bind (take_digits 2 r2) (\<lambda>(m, r3).
           if h > 24 \<or> m > 60 then None
           else Some ((if c = CHR ''-'' then -1 else 1) * (h * 3600 + m * 60), r3))))
       else None)"

definition rfc3339_parse :: "string \<Rightarrow> gotime option" where
  "rfc3339_parse s =
     Option.bind (take_digits 4 s) (\<lambda>(y, s).
     Option.bind (expect (CHR ''-'') s) (\<lambda>s.
     Option.bind (take_digits 2 s) (\<lambda>(mo, s).
     Option.bind (expect (CHR ''-'') s) (\<lambda>s.
     Option.bind (take_digits 2 s) (\<lambda>(d, s).
     Option.bind (expect (CHR ''T'') s) (\<lambda>s.
     Option.bind (take_hour s) (\<lambda>(h, s).
     Option.bind (expect (CHR '':'') s) (\<lambda>s.
     Option.bind (take_digits 2 s) (\<lambda>(mi, s).
     Option.bind (expect (CHR '':'') s) (\<lambda>s.
     Option.bind (take_digits 2 s) (\<lambda>(se, s).
       (case take_fraction s of (ns, s) \<Rightarrow>
     Option.bind (take_zone s) (\<lambda>(off, s).
       if s \<noteq> [] \<or> mo < 1 \<or> mo > 12 \<or> d < 1 \<or> d > days_in mo y \<or> h > 23 \<or> mi > 59 \<or> se > 59 then None
       else Some ((days_from_civil y mo d * 86400 + h * 3600 + mi * 60 + se - off) * 1000000000 + ns)
     )))))))))))))"

definition dec_time :: "json \<Rightarrow> gotime \<Rightarrow> gotime option" where
  "dec_time j old = (case j of JStr s \<Rightarrow> rfc3339_parse s | JNull \<Rightarrow> Some old | _ \<Rightarrow> None)"

subsection \<open>Parsing durations\<close>

text \<open>
  \<open>time.ParseDuration\<close>. The digits of a fraction that no longer fit are dropped as Go drops them;
  the fraction's nanoseconds are truncated exactly, where Go truncates a \<open>float64\<close> product.
\<close>

definition two63 :: nat where "two63 = 9223372036854775808"

fun leading_int :: "nat \<Rightarrow> string \<Rightarrow> (nat \<times> string) option" where
  "leading_int x [] = Some (x, [])"
| "leading_int x (c # cs) =
     (if \<not> is_digit c then Some (x, c # cs)
      else if x > two63 div 10 then None
      else let y = x * 10 + (byte_of c - 48) in if y > two63 then None else leading_int y cs)"

fun leading_fraction :: "nat \<Rightarrow> nat \<Rightarrow> bool \<Rightarrow> string \<Rightarrow> nat \<times> nat \<times> string" where
  "leading_fraction x scale ov [] = (x, scale, [])"
| "leading_fraction x scale ov (c # cs) =
     (if \<not> is_digit c then (x, scale, c # cs)
      else if ov then leading_fraction x scale ov cs
      else if x > (two63 - 1) div 10 then leading_fraction x scale True cs
      else let y = x * 10 + (byte_of c - 48) in
        if y > two63 then leading_fraction x scale True cs
        else leading_fraction y (scale * 10) ov cs)"

definition unit_map :: "(string, nat) gomap" where
  "unit_map = [(''ns'', 1), (''us'', 1000), ([CHR 0xC2, CHR 0xB5, CHR ''s''], 1000),
     ([CHR 0xCE, CHR 0xBC, CHR ''s''], 1000), (''ms'', 1000000), (''s'', 1000000000),
     (''m'', 60000000000), (''h'', 3600000000000)]"

text \<open>One number with its unit: its nanoseconds and the rest.\<close>

definition duration_term :: "string \<Rightarrow> (nat \<times> string) option" where
  "duration_term s =
     (case leading_int 0 s of None \<Rightarrow> None
      | Some (v, s1) \<Rightarrow>
          let pre = (length s1 \<noteq> length s);
              dot = (s1 \<noteq> [] \<and> hd s1 = CHR ''.'');
              (f, scale, s2) = (if dot then leading_fraction 0 1 False (tl s1) else (0, 1, s1));
              post = (dot \<and> length s2 \<noteq> length (tl s1));
              stop = (\<lambda>c. c = CHR ''.'' \<or> is_digit c);
              u = takeWhile (\<lambda>c. \<not> stop c) s2; s3 = dropWhile (\<lambda>c. \<not> stop c) s2
          in if \<not> pre \<and> \<not> post then None
             else case map_of unit_map u of None \<Rightarrow> None
             | Some unit \<Rightarrow>
                 if v > two63 div unit then None
                 else let w = v * unit + f * unit div scale in
                   if w > two63 then None else Some (w, s3))"

function duration_sum :: "nat \<Rightarrow> string \<Rightarrow> nat option" where
  "duration_sum d s = (if s = [] then Some d
     else case duration_term s of None \<Rightarrow> None
     | Some (v, r) \<Rightarrow> if length r < length s \<and> d + v \<le> two63 then duration_sum (d + v) r else None)"
  by pat_completeness auto
termination
  by (relation "measure (\<lambda>(d, s). length s)") auto

declare duration_sum.simps [simp del]

definition parse_duration :: "string \<Rightarrow> duration option" where
  "parse_duration orig =
     (let neg = has_prefix orig ''-'';
          s = (if neg \<or> has_prefix orig ''+'' then tl orig else orig)
      in if s = ''0'' then Some 0 else if s = [] then None
         else case duration_sum 0 s of None \<Rightarrow> None
         | Some d \<Rightarrow> if neg then Some (- int d) else if d = two63 then None else Some (int d))"

lemma parse_duration_range:
  assumes "parse_duration s = Some d"
  shows "min_int64 \<le> d" "d \<le> max_int64"
proof -
  have sum: "duration_sum a t = Some k \<Longrightarrow> a \<le> two63 \<Longrightarrow> k \<le> two63" for a t k
  proof (induction a t rule: duration_sum.induct)
    case (1 d s)
    then show ?case by (subst (asm) duration_sum.simps) (auto split: if_splits option.splits)
  qed
  have k: "k \<le> two63" if "duration_sum 0 t = Some k" for t k using sum [OF that] by simp
  show "min_int64 \<le> d" "d \<le> max_int64"
    using assms k by (auto simp: parse_duration_def Let_def two63_def min_int64_def max_int64_def
        split: if_splits option.splits dest!: k)
qed

end
