(* ===== verification/Formats.thy ===== *)
theory Formats
  imports Go_Path Go_Time
begin

text \<open>
  pkg/formats: snapshots, validation results, summaries, the \<open>Format\<close> interface and its optional
  companions, the registry, and the resolution of credential and watch paths.

  A value of the interface type \<open>Snapshot\<close> is one of the three concrete snapshots of the
  repository, so the code's type assertions (\<open>snap.(*snapshot)\<close>) and their failing branches are
  case distinctions; a nil snapshot is \<open>None\<close>. A \<open>Format\<close> is a record of its methods; an optional interface is a field of
  option type, \<open>None\<close> where the type assertion fails. A method that may panic returns an option.
\<close>

subsection \<open>Snapshots\<close>

record claude_snap =
  cl_access :: string
  cl_refresh :: string
  cl_expires :: gotime
  cl_scopes :: "string list"
  cl_subscription :: string
  cl_tier :: string
  cl_raw :: string
  cl_fingerprint :: string
  cl_identity :: string

record codex_snap =
  cx_auth_mode :: string
  cx_access :: string
  cx_refresh :: string
  cx_id_token :: string
  cx_account_id :: string
  cx_jwt_exp :: gotime
  cx_last_refresh :: gotime
  cx_email :: string
  cx_user_id :: string
  cx_chatgpt_account :: string
  cx_raw :: string
  cx_fingerprint :: string
  cx_identity :: string

record gemini_snap =
  gm_access :: string
  gm_refresh :: string
  gm_id_token :: string
  gm_token_type :: string
  gm_scopes :: "string list"
  gm_expiry :: gotime
  gm_sub :: string
  gm_email :: string
  gm_raw :: string
  gm_fingerprint :: string
  gm_identity :: string

datatype snapshot = SClaude claude_snap | SCodex codex_snap | SGemini gemini_snap

fun snap_identity :: "snapshot \<Rightarrow> string" where
  "snap_identity (SClaude s) = cl_identity s"
| "snap_identity (SCodex s) = cx_identity s"
| "snap_identity (SGemini s) = gm_identity s"

fun snap_expires :: "snapshot \<Rightarrow> gotime" where
  "snap_expires (SClaude s) = cl_expires s"
| "snap_expires (SCodex s) = cx_jwt_exp s"
| "snap_expires (SGemini s) = gm_expiry s"

fun snap_raw :: "snapshot \<Rightarrow> string" where
  "snap_raw (SClaude s) = cl_raw s"
| "snap_raw (SCodex s) = cx_raw s"
| "snap_raw (SGemini s) = gm_raw s"

fun snap_fingerprint :: "snapshot \<Rightarrow> string" where
  "snap_fingerprint (SClaude s) = cl_fingerprint s"
| "snap_fingerprint (SCodex s) = cx_fingerprint s"
| "snap_fingerprint (SGemini s) = gm_fingerprint s"

subsection \<open>Results, summaries and options\<close>

type_synonym validation_status = string

definition StatusOK :: validation_status where "StatusOK = ''ok''"
definition StatusExpired :: validation_status where "StatusExpired = ''expired''"
definition StatusRevoked :: validation_status where "StatusRevoked = ''revoked''"
definition StatusUnreachable :: validation_status where "StatusUnreachable = ''unreachable''"
definition StatusParseError :: validation_status where "StatusParseError = ''parse_error''"
definition StatusScopeWarn :: validation_status where "StatusScopeWarn = ''scope_warn''"

lemmas status_defs = StatusOK_def StatusExpired_def StatusRevoked_def StatusUnreachable_def
  StatusParseError_def StatusScopeWarn_def

record validation_result =
  vr_status :: validation_status
  vr_detail :: string
  vr_checked :: gotime

record summary =
  sm_identity :: string
  sm_subscription :: string
  sm_fp_short :: string
  sm_tail4 :: string
  sm_expires :: gotime
  sm_scopes :: "string list"
  sm_extra :: "(string, string) gomap"

text \<open>
  The live check's request is a parameter of the options: from the bearer token to what
  \<open>http.NewRequestWithContext\<close> and \<open>client.Do\<close> gave. \<open>vo_now\<close> is the reading of the clock that
  \<open>Validate\<close> makes. A zero timeout stands for the default.
\<close>

datatype http_outcome = BuildErr string | DoErr string | Resp int string

record validate_opts =
  vo_live :: bool
  vo_timeout :: duration
  vo_http :: "duration \<Rightarrow> string \<Rightarrow> http_outcome"
  vo_now :: gotime

definition local_opts :: "gotime \<Rightarrow> validate_opts" where
  "local_opts t = \<lparr>vo_live = False, vo_timeout = 0, vo_http = (\<lambda>_ _. DoErr []), vo_now = t\<rparr>"

record format_ops =
  f_name :: string
  f_strategies :: "string list"
  f_parse :: "string \<Rightarrow> gerr + snapshot"
  f_validate :: "snapshot \<Rightarrow> validate_opts \<Rightarrow> validation_result"
  f_compare :: "string \<Rightarrow> snapshot \<Rightarrow> snapshot \<Rightarrow> int option"
  f_redact :: "snapshot \<Rightarrow> summary"
  f_account :: "(host_env \<Rightarrow> snapshot option \<Rightarrow> string \<Rightarrow> gerr + string) option"
  f_display :: "(host_env \<Rightarrow> snapshot \<Rightarrow> string \<Rightarrow> gerr + string) option"
  f_credential_path :: "(string \<Rightarrow> string) option"
  f_watch_paths :: "(string \<Rightarrow> string list) option"

subsection \<open>Shared pieces of the three formats\<close>

definition utf8_bom :: string where "utf8_bom = [CHR 0xEF, CHR 0xBB, CHR 0xBF]"

text \<open>\<open>FingerprintShort\<close> and \<open>TokenTail4\<close>.\<close>

definition fp_short :: "string \<Rightarrow> string" where
  "fp_short fp = (if length fp > 12 then take 12 fp else fp)"

definition tail4 :: "string \<Rightarrow> string" where
  "tail4 t = (if length t \<ge> 4 then drop (length t - 4) t else t)"

definition foreign_summary :: "snapshot \<Rightarrow> summary" where
  "foreign_summary s = \<lparr>sm_identity = snap_identity s, sm_subscription = [],
     sm_fp_short = fp_short (snap_fingerprint s), sm_tail4 = [], sm_expires = snap_expires s,
     sm_scopes = [], sm_extra = []\<rparr>"

text \<open>The three-way comparison of two instants.\<close>

definition cmp_time :: "gotime \<Rightarrow> gotime \<Rightarrow> int" where
  "cmp_time a b = (if time_after a b then 1 else if time_before a b then -1 else 0)"

lemma cmp_time_simps:
  "cmp_time a b > 0 \<longleftrightarrow> a > b" "cmp_time a b < 0 \<longleftrightarrow> a < b" "cmp_time a b = 0 \<longleftrightarrow> a = b"
  "cmp_time a b \<ge> 0 \<longleftrightarrow> a \<ge> b"
  by (auto simp: cmp_time_def time_defs)

lemma cmp_time_swap: "cmp_time b a = - cmp_time a b"
  by (auto simp: cmp_time_def time_defs)

lemma cmp_time_range: "cmp_time a b \<in> {-1, 0, 1}"
  by (simp add: cmp_time_def)

lemma length_tail4: "length (tail4 t) \<le> 4"
  by (simp add: tail4_def)

lemma tail4_suffix: "\<exists>p. t = p @ tail4 t"
  by (metis append_take_drop_id append_Nil tail4_def)

lemma tail4_not_token: "length t > 4 \<Longrightarrow> tail4 t \<noteq> t"
  using length_tail4 [of t] by auto

subsection \<open>The registry\<close>

type_synonym registry = "(string, format_ops) gomap"

text \<open>\<open>Register\<close> panics (\<open>None\<close>) on a nil format, an empty name and a duplicate.\<close>

definition register :: "format_ops option \<Rightarrow> registry \<Rightarrow> registry option" where
  "register f r = (case f of None \<Rightarrow> None
     | Some f \<Rightarrow> if f_name f = [] then None
         else if map_of r (f_name f) \<noteq> None then None
         else Some (mput (f_name f) f r))"

definition registry_get :: "registry \<Rightarrow> string \<Rightarrow> format_ops option" where
  "registry_get r name = map_of r name"

definition registry_list :: "registry \<Rightarrow> string list" where
  "registry_list r = sort (map fst r)"

text \<open>Every name of the registry is not empty, is listed once and names the format stored there.\<close>

definition registry_ok :: "registry \<Rightarrow> bool" where
  "registry_ok r \<longleftrightarrow> gomap_ok r \<and> (\<forall>(n, f) \<in> set r. n \<noteq> [] \<and> f_name f = n)"

lemma registry_ok_Nil [simp]: "registry_ok []"
  by (simp add: registry_ok_def)

lemma register_cases:
  assumes "register f r = Some r'"
  obtains g where "f = Some g" "f_name g \<noteq> []" "registry_get r (f_name g) = None"
    "r' = mput (f_name g) g r"
  using assms by (auto simp: register_def registry_get_def split: option.splits if_splits)

lemma register_ok:
  assumes "registry_ok r" "register f r = Some r'"
  shows "registry_ok r'"
  using assms(2)
proof (cases rule: register_cases)
  case (1 g)
  have "(n, h) \<in> set r' \<longleftrightarrow> (if n = f_name g then h = g else (n, h) \<in> set r)" for n h
    using assms(1) 1(4) gm.entries_put [of r n h] by (simp add: registry_ok_def)
  with 1 assms(1) show ?thesis unfolding registry_ok_def by (fastforce split: if_splits)
qed

lemma register_get:
  assumes "register (Some f) r = Some r'"
  shows "registry_get r' n = (if n = f_name f then Some f else registry_get r n)"
  using assms by (auto simp: registry_get_def gm.get_put elim!: register_cases)

lemma registry_list_mem: "n \<in> set (registry_list r) \<longleftrightarrow> registry_get r n \<noteq> None"
  by (simp add: registry_list_def registry_get_def map_of_eq_None_iff)

subsection \<open>Resolving paths\<close>

definition resolve_credential_path :: "format_ops \<Rightarrow> string \<Rightarrow> gerr + string" where
  "resolve_credential_path f dir =
     (if dir = [] then Inl (Errorf ''formats.ResolveCredentialPath: empty dir'' [] None)
      else case f_credential_path f of
        None \<Rightarrow> Inl (Errorf ''formats.ResolveCredentialPath: format %q does not implement DirResolver''
                  [ArgS (f_name f)] None)
      | Some cp \<Rightarrow> (let path = path_clean (cp dir) in
          if path = ''.'' \<or> path = [] then
            Inl (Errorf ''formats.ResolveCredentialPath: format %q returned an empty credential path''
              [ArgS (f_name f)] None)
          else Inr path))"

text \<open>The loop of \<open>ResolveWatchPaths\<close>: \<open>seen\<close> and \<open>out\<close> hold the same paths.\<close>

fun dedupe_clean :: "string list \<Rightarrow> string list \<Rightarrow> string list" where
  "dedupe_clean [] out = out"
| "dedupe_clean (p # ps) out = (let q = path_clean p in
     if q = ''.'' \<or> q = [] then dedupe_clean ps out
     else if q \<in> set out then dedupe_clean ps out
     else dedupe_clean ps (out @ [q]))"

definition resolve_watch_paths :: "format_ops \<Rightarrow> string \<Rightarrow> gerr + string list" where
  "resolve_watch_paths f dir = ebind (resolve_credential_path f dir) (\<lambda>cred.
     let raw = [cred] @ (case f_watch_paths f of None \<Rightarrow> [] | Some w \<Rightarrow> w dir);
         out = dedupe_clean raw []
     in if out = [] then
          Inl (Errorf ''formats.ResolveWatchPaths: format %q returned no watch paths'' [ArgS (f_name f)] None)
        else Inr out)"

lemma dedupe_clean_set:
  "set (dedupe_clean ps out) = set out \<union> (path_clean ` set ps - {''.''})"
  by (induction ps arbitrary: out) (auto simp: Let_def)

lemma dedupe_clean_distinct: "distinct out \<Longrightarrow> distinct (dedupe_clean ps out)"
  by (induction ps arbitrary: out) (simp_all add: Let_def)

lemma dedupe_clean_prefix: "\<exists>rest. dedupe_clean ps out = out @ rest"
proof (induction ps arbitrary: out)
  case (Cons p ps)
  have "\<exists>rest. dedupe_clean ps (out @ [path_clean p]) = out @ rest"
    using Cons [of "out @ [path_clean p]"] by (metis append.assoc)
  with Cons show ?case by (simp add: Let_def)
qed simp

lemma resolve_credential_path_Inr:
  assumes "resolve_credential_path f dir = Inr p"
  shows "p \<noteq> ''.''" "p \<noteq> []" "path_clean p = p" "dir \<noteq> []"
  using assms by (auto simp: resolve_credential_path_def Let_def split: if_splits option.splits)

text \<open>The watch list starts with the credential path, is clean and has no path twice.\<close>

lemma resolve_watch_paths_Inr:
  assumes "resolve_watch_paths f dir = Inr ws"
  shows "\<exists>p rest. resolve_credential_path f dir = Inr p \<and> ws = p # rest"
    "distinct ws" "\<forall>w \<in> set ws. path_clean w = w \<and> w \<noteq> ''.''"
proof -
  obtain p where p: "resolve_credential_path f dir = Inr p"
    and ws: "ws = dedupe_clean (p # (case f_watch_paths f of None \<Rightarrow> [] | Some w \<Rightarrow> w dir)) []"
    using assms by (auto simp: resolve_watch_paths_def ebind_Inr_iff Let_def split: if_splits)
  note pn = resolve_credential_path_Inr [OF p]
  let ?w = "case f_watch_paths f of None \<Rightarrow> [] | Some w \<Rightarrow> w dir"
  have "ws = dedupe_clean ?w [p]" using ws pn by simp
  moreover obtain rest where "dedupe_clean ?w [p] = [p] @ rest" using dedupe_clean_prefix by blast
  ultimately have "ws = p # rest" by simp
  with p show "\<exists>p rest. resolve_credential_path f dir = Inr p \<and> ws = p # rest" by blast
  show "distinct ws" unfolding ws by (rule dedupe_clean_distinct) simp
  show "\<forall>w \<in> set ws. path_clean w = w \<and> w \<noteq> ''.''"
    unfolding ws dedupe_clean_set by auto
qed

subsection \<open>The contract of a format\<close>

text \<open>
  What the mediator relies on. \<open>own\<close> holds of the snapshots the format's own parser makes.
  Comparison under a supported strategy never panics on them and is a total preorder.
\<close>

locale format_contract =
  fixes fmt :: format_ops
    and own :: "snapshot \<Rightarrow> bool"
  assumes has_strategy: "f_strategies fmt \<noteq> []"
    and parse_own: "f_parse fmt w = Inr s \<Longrightarrow> own s"
    and parse_raw: "f_parse fmt w = Inr s \<Longrightarrow> snap_raw s = w"
    and parse_fingerprint: "f_parse fmt w = Inr s \<Longrightarrow> snap_fingerprint s = sha256_hex w"
    and parse_error: "f_parse fmt w = Inl e \<Longrightarrow> is_err e ErrParseFailed"
    and parse_empty: "\<exists>e. f_parse fmt [] = Inl e"
    and compare_total: "st \<in> set (f_strategies fmt) \<Longrightarrow> own a \<Longrightarrow> own b \<Longrightarrow> \<exists>c. f_compare fmt st a b = Some c"
    and compare_swap: "f_compare fmt st a b = Some c \<Longrightarrow> own a \<Longrightarrow> own b \<Longrightarrow> f_compare fmt st b a = Some (- c)"
    and compare_trans: "f_compare fmt st a b = Some c \<Longrightarrow> f_compare fmt st b d = Some k \<Longrightarrow>
      own a \<Longrightarrow> own b \<Longrightarrow> own d \<Longrightarrow> 0 \<le> c \<Longrightarrow> 0 \<le> k \<Longrightarrow> \<exists>g. f_compare fmt st a d = Some g \<and> 0 \<le> g"
    and compare_unknown: "st \<notin> set (f_strategies fmt) \<Longrightarrow> f_compare fmt st a b = None"
    and validate_time: "vr_checked (f_validate fmt s opt) = vo_now opt"
    and validate_zero: "is_zero_time (snap_expires s) \<Longrightarrow> vr_status (f_validate fmt s opt) \<noteq> StatusOK"
    and validate_past: "\<not> vo_now opt < snap_expires s \<Longrightarrow> vr_status (f_validate fmt s opt) \<noteq> StatusOK"
begin

text \<open>Two snapshots of the same bytes cannot be told apart by their fingerprint.\<close>

lemma fingerprint_of_raw: "f_parse fmt w = Inr s \<Longrightarrow> snap_fingerprint s = sha256_hex (snap_raw s)"
  by (simp add: parse_raw parse_fingerprint)

lemma fingerprint_length: "f_parse fmt w = Inr s \<Longrightarrow> length (snap_fingerprint s) = 64"
  by (simp add: parse_fingerprint)

lemma reparse: "f_parse fmt w = Inr s \<Longrightarrow> f_parse fmt (snap_raw s) = Inr s"
  by (simp add: parse_raw)

lemma parse_nonempty: "f_parse fmt w = Inr s \<Longrightarrow> snap_raw s \<noteq> []"
  using parse_empty parse_raw by fastforce

lemma compare_refl: "st \<in> set (f_strategies fmt) \<Longrightarrow> own a \<Longrightarrow> f_compare fmt st a a = Some 0"
  using compare_total [of st a a] compare_swap [of st a a] by fastforce

end

end
