(* ===== verification/Go_Json_Text.thy ===== *)
theory Go_Json_Text
  imports Go_Json
begin

text \<open>
  \<open>encoding/json\<close>'s writer (\<open>json.Marshal\<close> of a value already turned into a JSON tree, HTML
  escaping on), and the round trip: what it writes, the scanner of Go_Json reads back, for trees
  whose strings are valid UTF-8 and whose number literals are well formed.
\<close>

definition hex4_text :: "nat \<Rightarrow> string" where
  "hex4_text n = [CHR 0x5C, CHR ''u'', hex_digit (n div 16 div 16 div 16), hex_digit (n div 16 div 16 mod 16),
     hex_digit (n div 16 mod 16), hex_digit (n mod 16)]"

definition quote_ascii :: "char \<Rightarrow> string" where
  "quote_ascii c = (let n = byte_of c in
     if n = 34 \<or> n = 92 then [CHR 0x5C, c]
     else if n = 8 then [CHR 0x5C, CHR ''b''] else if n = 12 then [CHR 0x5C, CHR ''f'']
     else if n = 10 then [CHR 0x5C, CHR ''n''] else if n = 13 then [CHR 0x5C, CHR ''r'']
     else if n = 9 then [CHR 0x5C, CHR ''t'']
     else if n < 32 \<or> n = 60 \<or> n = 62 \<or> n = 38 then hex4_text n
     else [c])"

definition quote_rune :: "string \<Rightarrow> string" where
  "quote_rune w = (if w = [CHR 0xE2, CHR 0x80, CHR 0xA8] then hex4_text 8232
     else if w = [CHR 0xE2, CHR 0x80, CHR 0xA9] then hex4_text 8233 else w)"

function quote_body :: "string \<Rightarrow> string" where
  "quote_body s = (case s of [] \<Rightarrow> []
   | c # cs \<Rightarrow>
       if byte_of c < 128 then quote_ascii c @ quote_body cs
       else (case utf8_len s of
               None \<Rightarrow> hex4_text 65533 @ quote_body cs
             | Some n \<Rightarrow> quote_rune (take n s) @ quote_body (drop (max 1 n) s)))"
  by pat_completeness auto
termination
  by (relation "measure length") auto

declare quote_body.simps [simp del]

definition json_quote :: "string \<Rightarrow> string" where
  "json_quote s = CHR 0x22 # quote_body s @ [CHR 0x22]"

fun json_text :: "json \<Rightarrow> string" where
  "json_text JNull = ''null''"
| "json_text (JBool b) = (if b then ''true'' else ''false'')"
| "json_text (JNum l) = l"
| "json_text (JStr s) = json_quote s"
| "json_text (JArr js) = CHR ''['' # join_with '','' (map json_text js) @ '']''"
| "json_text (JObj ms) =
     CHR ''{'' # join_with '','' (map (\<lambda>m. json_quote (fst m) @ CHR '':'' # json_text (snd m)) ms) @ ''}''"

subsection \<open>Strings\<close>

function valid_utf8 :: "string \<Rightarrow> bool" where
  "valid_utf8 s = (case s of [] \<Rightarrow> True
   | c # cs \<Rightarrow>
       if byte_of c < 128 then valid_utf8 cs
       else (case utf8_len s of None \<Rightarrow> False | Some n \<Rightarrow> valid_utf8 (drop (max 1 n) s)))"
  by pat_completeness auto
termination
  by (relation "measure length") auto

declare valid_utf8.simps [simp del]

lemma utf8_len_bounds: "utf8_len s = Some n \<Longrightarrow> 2 \<le> n \<and> n \<le> length s"
  by (cases s rule: utf8_len.cases) (auto simp: Let_def split: if_splits)

lemma utf8_len_head: "utf8_len (c # cs) = Some n \<Longrightarrow> 194 \<le> byte_of c"
  by (cases "c # cs" rule: utf8_len.cases) (auto simp: Let_def split: if_splits)

lemma utf8_len_two:
  assumes "194 \<le> byte_of a" "byte_of a \<le> 223" "utf8_cont 128 191 b"
  shows "utf8_len (a # b # r) = Some 2"
  using assms by (cases "a # b # r" rule: utf8_len.cases) (auto simp: Let_def)

definition utf8_three :: "char \<Rightarrow> char \<Rightarrow> char \<Rightarrow> bool" where
  "utf8_three a b c = ((byte_of a = 224 \<and> utf8_cont 160 191 b \<or> byte_of a = 237 \<and> utf8_cont 128 159 b
     \<or> (225 \<le> byte_of a \<and> byte_of a \<le> 236 \<or> byte_of a = 238 \<or> byte_of a = 239) \<and> utf8_cont 128 191 b)
     \<and> utf8_cont 128 191 c)"

lemma utf8_len_three:
  assumes "utf8_three a b c"
  shows "utf8_len (a # b # c # r) = Some 3"
proof -
  have "\<not> byte_of a \<le> 223" using assms by (auto simp: utf8_three_def)
  then show ?thesis using assms unfolding utf8_three_def
    by (cases "a # b # c # r" rule: utf8_len.cases) (simp_all add: Let_def)
qed

lemma utf8_len_four:
  "utf8_len (a # b # c # d # r) = Some 4 \<longleftrightarrow> utf8_len (a # b # c # d # q) = Some 4"
  by (simp add: Let_def)

lemma utf8_len_cases:
  assumes "utf8_len s = Some n"
  obtains a b q where "s = a # b # q" "n = 2" "194 \<le> byte_of a" "byte_of a \<le> 223" "utf8_cont 128 191 b"
  | a b c q where "s = a # b # c # q" "n = 3" "utf8_three a b c"
  | a b c d q where "s = a # b # c # d # q" "n = 4"
  using assms unfolding utf8_three_def
  by (cases s rule: utf8_len.cases) (auto simp: Let_def split: if_splits)

lemma utf8_len_take:
  assumes "utf8_len s = Some n"
  shows "utf8_len (take n s @ r) = Some n"
  using assms
proof (cases rule: utf8_len_cases)
  case (3 a b c d q)
  with assms have "utf8_len (a # b # c # d # q) = Some 4" by simp
  then have "utf8_len (a # b # c # d # r) = Some 4" using utf8_len_four by blast
  with 3 show ?thesis by (simp del: utf8_len.simps)
qed (simp_all add: utf8_len_two utf8_len_three del: utf8_len.simps)

lemma hex4_hex4_text:
  assumes "n < 65536"
  shows "hex4 (drop 2 (hex4_text n) @ r) = Some (n, r)"
proof -
  have "n div 16 div 16 div 16 < 16" using assms by (simp add: div_mult2_eq [symmetric])
  then show ?thesis by (simp add: hex4_text_def hex_value_digit del: div_mult2_eq)
qed

lemma piece_hex4:
  assumes "n < 55296 \<or> 57343 < n" "n < 65536"
  shows "json_piece (hex4_text n @ r) = Some (Some (utf8_encode n), r)"
proof -
  have h: "hex4_text n @ r = CHR 0x5C # CHR ''u'' # drop 2 (hex4_text n) @ r" by (simp add: hex4_text_def)
  moreover have "unicode_escape (drop 2 (hex4_text n) @ r) = Some (utf8_encode n, r)"
    using assms by (auto simp: unicode_escape_def hex4_hex4_text)
  ultimately show ?thesis unfolding h by (simp add: json_piece_def)
qed

lemma piece_ascii:
  assumes "byte_of c < 128"
  shows "json_piece (quote_ascii c @ r) = Some (Some [c], r)"
proof -
  have c: "c = char_at k" if "byte_of c = k" for k using that by (simp flip: that)
  consider "byte_of c = 34" | "byte_of c = 92" | "byte_of c = 8" | "byte_of c = 12" | "byte_of c = 10"
    | "byte_of c = 13" | "byte_of c = 9"
    | "byte_of c \<notin> {34, 92, 8, 12, 10, 13, 9}" "byte_of c < 32 \<or> byte_of c \<in> {60, 62, 38}"
    | "byte_of c \<notin> {34, 92}" "\<not> byte_of c < 32" "byte_of c \<notin> {60, 62, 38}"
    by blast
  then show ?thesis
  proof cases
    case 8
    then have "quote_ascii c = hex4_text (byte_of c)" by (auto simp: quote_ascii_def Let_def)
    moreover have "utf8_encode (byte_of c) = [c]" using assms by (simp add: utf8_encode_def char_of_char)
    moreover have "byte_of c < 55296" "byte_of c < 65536" using assms by simp_all
    ultimately show ?thesis using piece_hex4 by metis
  next
    case 9
    then have "quote_ascii c = [c]" by (auto simp: quote_ascii_def Let_def)
    moreover have "c \<noteq> CHR 0x22" "c \<noteq> CHR 0x5C" using 9 by auto
    ultimately show ?thesis using 9 assms by (simp add: json_piece_def)
  qed (use c in \<open>auto simp: quote_ascii_def json_piece_def simple_escape_def Let_def char_of_def bit_0\<close>)
qed

lemma piece_rune:
  assumes "utf8_len s = Some n"
  shows "json_piece (quote_rune (take n s) @ r) = Some (Some (take n s), r)"
proof -
  have e: "utf8_encode 8232 = [CHR 0xE2, CHR 0x80, CHR 0xA8]" "utf8_encode 8233 = [CHR 0xE2, CHR 0x80, CHR 0xA9]"
    by (simp_all add: utf8_encode_def char_of_def bit_0)
  obtain c cs where s: "s = c # cs" using utf8_len_bounds [OF assms] by (cases s) auto
  have c: "194 \<le> byte_of c" using assms s utf8_len_head by blast
  have n: "2 \<le> n" "n \<le> length s" using utf8_len_bounds [OF assms] by simp_all
  then have t: "take n s @ r = c # take (n - 1) cs @ r" using s by (cases n) auto
  have ne: "c \<noteq> CHR 0x22" "c \<noteq> CHR 0x5C" using c by auto
  have "json_piece (take n s @ r) = Some (Some (take n (take n s @ r)), drop (max 1 n) (take n s @ r))"
    using c ne utf8_len_take [OF assms, of r] unfolding json_piece_def by (subst t) (simp flip: t)
  moreover have "max 1 n = n" using n by simp
  ultimately have "json_piece (take n s @ r) = Some (Some (take n s), r)" using n by simp
  then show ?thesis using piece_hex4 [of 8232 r] piece_hex4 [of 8233 r] e by (simp add: quote_rune_def)
qed

lemma json_string_quote:
  assumes "valid_utf8 s"
  shows "json_string (quote_body s @ CHR 0x22 # r) = Some (s, r)"
  using assms
proof (induction s rule: quote_body.induct)
  case (1 s)
  show ?case
  proof (cases s)
    case Nil
    then show ?thesis by (subst json_string.simps) (simp add: quote_body.simps json_piece_def)
  next
    case (Cons c cs)
    show ?thesis
    proof (cases "byte_of c < 128")
      case True
      then have "valid_utf8 cs" using "1.prems" Cons by (subst (asm) valid_utf8.simps) simp
      then have "json_string (quote_body cs @ CHR 0x22 # r) = Some (cs, r)" using "1.IH"(1) Cons True by blast
      moreover have "quote_body s = quote_ascii c @ quote_body cs"
        using Cons True by (subst quote_body.simps) simp
      ultimately show ?thesis using Cons piece_ascii [OF True, of "quote_body cs @ CHR 0x22 # r"]
        by (subst json_string.simps) simp
    next
      case False
      then obtain n where n: "utf8_len s = Some n" "valid_utf8 (drop (max 1 n) s)"
        using "1.prems" Cons by (subst (asm) valid_utf8.simps) (simp split: option.splits)
      then have "json_string (quote_body (drop (max 1 n) s) @ CHR 0x22 # r) = Some (drop (max 1 n) s, r)"
        using "1.IH"(3) Cons False by blast
      moreover have "max 1 n = n" using utf8_len_bounds [OF n(1)] by simp
      moreover have "quote_body s = quote_rune (take n s) @ quote_body (drop (max 1 n) s)"
        using Cons False n(1) by (subst quote_body.simps) simp
      ultimately show ?thesis
        using piece_rune [OF n(1), of "quote_body (drop n s) @ CHR 0x22 # r"]
        by (subst json_string.simps) simp
    qed
  qed
qed

subsection \<open>Numbers\<close>

text \<open>What follows a number inside a text: nothing, or a structural character.\<close>

definition delim :: "string \<Rightarrow> bool" where
  "delim r = (case r of [] \<Rightarrow> True | c # _ \<Rightarrow> c \<in> {CHR '','', CHR '']'', CHR ''}''})"

lemma delim_cases:
  assumes "delim r"
  obtains "r = []" | c q where "r = c # q" "c \<in> {CHR '','', CHR '']'', CHR ''}''}"
  using assms by (cases r) (auto simp: delim_def)

lemma delim_digit: "delim r \<Longrightarrow> takeWhile is_digit r = [] \<and> dropWhile is_digit r = r"
  by (erule delim_cases) (auto simp: is_digit_def)

lemma digits1_append:
  "json_digits1 s = Some (d, q) \<Longrightarrow> delim r \<Longrightarrow> json_digits1 (s @ r) = Some (d, q @ r)"
  by (cases "\<forall>c \<in> set s. is_digit c")
    (auto simp: json_digits1_def Let_def delim_digit takeWhile_append dropWhile_append
      takeWhile_eq_all_conv split: if_splits intro: takeWhile_eq_all_conv [THEN iffD2, symmetric])

lemma digits1_append_Cons:
  "json_digits1 (a # s) = Some (d, q) \<Longrightarrow> delim r \<Longrightarrow> json_digits1 (a # s @ r) = Some (d, q @ r)"
  using digits1_append [of "a # s"] by simp

lemma delim_not: "delim (c # r) \<Longrightarrow> c \<noteq> CHR ''.'' \<and> c \<noteq> CHR ''e'' \<and> c \<noteq> CHR ''E''"
  by (auto simp: delim_def)

lemma num_appends:
  "s \<noteq> [] \<Longrightarrow> num_sign (s @ r) = (fst (num_sign s), snd (num_sign s) @ r)"
  "delim r \<Longrightarrow> num_int s = Some (d, q) \<Longrightarrow> num_int (s @ r) = Some (d, q @ r)"
  "delim r \<Longrightarrow> num_frac s = Some (d, q) \<Longrightarrow> num_frac (s @ r) = Some (d, q @ r)"
  "delim r \<Longrightarrow> num_exp s = Some (d, q) \<Longrightarrow> num_exp (s @ r) = Some (d, q @ r)"
  subgoal by (cases s) (auto simp: num_sign_def)
  subgoal by (cases s) (auto simp: num_int_def split: if_splits dest: digits1_append)
  subgoal by (cases s)
      (auto simp: num_frac_def digits1_append split: if_splits list.splits dest: delim_not)
  subgoal by (cases s; cases "tl s")
      (auto simp: num_exp_def digits1_append digits1_append_Cons split: if_splits list.splits dest: delim_not)
  done

lemma json_number_append:
  assumes "json_number s = Some (d, q)" "delim r"
  shows "json_number (s @ r) = Some (d, q @ r)"
proof -
  have "s \<noteq> []" using json_number_length [OF assms(1)] by auto
  from assms(1) show ?thesis
  proof (cases rule: json_number_cases)
    case (1 i s2 f s3 e)
    then show ?thesis
      using num_appends(1) [OF \<open>s \<noteq> []\<close>, of r] num_appends(2-4) [OF assms(2)]
      by (simp add: json_number_def)
  qed
qed

lemma json_number_head:
  assumes "json_number s = Some (d, q)"
  obtains c cs where "s = c # cs" "c = CHR ''-'' \<or> is_digit c"
proof -
  obtain c cs where s: "s = c # cs" using json_number_length [OF assms] by (cases s) auto
  have "c = CHR ''-'' \<or> is_digit c"
  proof (rule ccontr)
    assume "\<not> ?thesis"
    then have "num_int (snd (num_sign s)) = None"
      by (auto simp: s num_sign_def num_int_def json_digits1_def is_digit_def)
    with assms show False by (auto simp: json_number_def split: prod.splits)
  qed
  with s that show ?thesis by blast
qed

subsection \<open>Values\<close>

fun json_wf :: "json \<Rightarrow> bool" where
  "json_wf (JNum l) = (json_number l = Some (l, []))"
| "json_wf (JStr s) = valid_utf8 s"
| "json_wf (JArr js) = list_all json_wf js"
| "json_wf (JObj ms) = list_all (\<lambda>m. valid_utf8 (fst m) \<and> json_wf (snd m)) ms"
| "json_wf _ = True"

lemma digit_plain: "c = CHR ''-'' \<or> is_digit c \<Longrightarrow> \<not> json_space c \<and> c \<noteq> CHR '']'' \<and> c \<noteq> CHR ''}''"
  by (auto simp: json_space_def is_digit_def)

lemma json_text_head:
  assumes "json_wf v"
  obtains c cs where "json_text v = c # cs" "\<not> json_space c" "c \<noteq> CHR '']''" "c \<noteq> CHR ''}''"
proof (cases v)
  case (JNum l)
  with assms obtain c cs where "l = c # cs" "c = CHR ''-'' \<or> is_digit c"
    by (auto elim: json_number_head)
  with JNum that digit_plain show ?thesis by simp
next
  case (JBool b)
  with that show ?thesis by (cases b) (auto simp: json_space_def)
qed (use that in \<open>auto simp: json_quote_def json_space_def\<close>)

lemma skip_ws_text: "json_wf v \<Longrightarrow> skip_ws (json_text v @ r) = json_text v @ r"
  by (erule json_text_head) (simp add: skip_ws_def)

lemma skip_ws_char: "\<not> json_space c \<Longrightarrow> skip_ws (c # r) = c # r"
  by (simp add: skip_ws_def)

lemma json_space_chars [simp]:
  "\<not> json_space (CHR '','')" "\<not> json_space (CHR '']'')" "\<not> json_space (CHR ''}'')"
  "\<not> json_space (CHR '':'')" "\<not> json_space (CHR 0x22)"
  by (simp_all add: json_space_def)

definition member_text :: "string \<times> json \<Rightarrow> string" where
  "member_text m = json_quote (fst m) @ CHR '':'' # json_text (snd m)"

lemma json_elems_text:
  assumes "\<And>v r. v \<in> set js \<Longrightarrow> delim r \<Longrightarrow> json_value (json_text v @ r) = Some (v, r)"
    and "list_all json_wf js" "js \<noteq> []"
  shows "json_elems (join_with '','' (map json_text js) @ CHR '']'' # r) = Some (js, r)"
  using assms
proof (induction js)
  case (Cons v js)
  show ?case
  proof (cases js)
    case Nil
    have "json_value (json_text v @ CHR '']'' # r) = Some (v, CHR '']'' # r)"
      using Cons.prems(1) by (simp add: delim_def)
    with Nil show ?thesis by (subst json_elems.simps) (simp add: skip_ws_char)
  next
    case (Cons w ws)
    let ?t = "join_with '','' (map json_text js) @ CHR '']'' # r"
    have v: "json_value (json_text v @ CHR '','' # ?t) = Some (v, CHR '','' # ?t)"
      using Cons.prems(1) by (simp add: delim_def)
    have "json_wf w" using Cons.prems(2) Cons by simp
    then have sk: "skip_ws ?t = ?t"
      by (rule json_text_head) (cases ws; simp add: Cons skip_ws_def)
    have "json_elems ?t = Some (js, r)" using Cons.IH Cons.prems Cons by simp
    with v sk show ?thesis using json_value_length [OF v] Cons
      by (subst json_elems.simps) (simp add: skip_ws_char)
  qed
qed simp

lemma json_members_text:
  assumes "\<And>m r. m \<in> set ms \<Longrightarrow> delim r \<Longrightarrow> json_value (json_text (snd m) @ r) = Some (snd m, r)"
    and "list_all (\<lambda>m. valid_utf8 (fst m) \<and> json_wf (snd m)) ms" "ms \<noteq> []"
  shows "json_members (join_with '','' (map member_text ms) @ CHR ''}'' # r) = Some (ms, r)"
  using assms
proof (induction ms)
  case (Cons m ms)
  obtain k v where m: "m = (k, v)" by (cases m)
  have kv: "valid_utf8 k" "json_wf v" using Cons.prems(2) m by simp_all
  have key: "json_string (quote_body k @ CHR 0x22 # q) = Some (k, q)" for q
    using kv(1) by (rule json_string_quote)
  have val: "json_value (json_text v @ q) = Some (v, q)" if "delim q" for q
    using Cons.prems(1) [of m q] m that by simp
  show ?case
  proof (cases ms)
    case Nil
    have "json_value (json_text v @ CHR ''}'' # r) = Some (v, CHR ''}'' # r)"
      using val by (simp add: delim_def)
    then show ?thesis using Nil m kv
      by (subst json_members.simps) (simp add: member_text_def json_quote_def key skip_ws_char skip_ws_text)
  next
    case (Cons n ns)
    let ?t = "join_with '','' (map member_text ms) @ CHR ''}'' # r"
    have v: "json_value (json_text v @ CHR '','' # ?t) = Some (v, CHR '','' # ?t)"
      using val by (simp add: delim_def)
    have sk: "skip_ws ?t = ?t"
      using Cons by (cases ns) (simp_all add: member_text_def json_quote_def skip_ws_char)
    have "json_members ?t = Some (ms, r)" using Cons.IH Cons.prems Cons by simp
    with v sk show ?thesis using m kv Cons
      by (subst json_members.simps) (simp add: member_text_def json_quote_def key skip_ws_char skip_ws_text)
  qed
qed simp

theorem json_value_text:
  assumes "json_wf v" "delim r"
  shows "json_value (json_text v @ r) = Some (v, r)"
  using assms
proof (induction v arbitrary: r)
  case (JArr js)
  show ?case
  proof (cases "js = []")
    case False
    then obtain w ws where w: "js = w # ws" "json_wf w" using JArr.prems by (cases js) auto
    let ?t = "join_with '','' (map json_text js) @ CHR '']'' # r"
    have "json_elems ?t = Some (js, r)"
      by (rule json_elems_text) (use JArr False in \<open>auto simp: list_all_iff\<close>)
    moreover obtain c cs where "?t = c # cs" "\<not> json_space c" "c \<noteq> CHR '']''"
      using w by (elim json_text_head) (cases ws; simp)
    ultimately show ?thesis by (subst json_value.simps) (simp add: skip_ws_char)
  qed (subst json_value.simps, simp add: skip_ws_char)
next
  case (JObj ms)
  show ?case
  proof (cases "ms = []")
    case False
    let ?t = "join_with '','' (map member_text ms) @ CHR ''}'' # r"
    have "json_members ?t = Some (ms, r)"
      by (rule json_members_text) (use JObj False in \<open>auto simp: list_all_iff\<close>)
    moreover obtain cs where "?t = CHR 0x22 # cs"
      using False by (cases ms; cases "tl ms") (simp_all add: member_text_def json_quote_def)
    moreover have jt: "json_text (JObj ms) @ r = CHR ''{'' # ?t"
      by (simp add: member_text_def [abs_def])
    ultimately show ?thesis unfolding jt by (subst json_value.simps) (simp add: skip_ws_char)
  qed (subst json_value.simps, simp add: skip_ws_char)
next
  case (JStr s)
  then show ?case by (subst json_value.simps) (simp add: json_quote_def json_string_quote)
next
  case (JNum l)
  then have "json_number (l @ r) = Some (l, r)" using json_number_append by fastforce
  moreover obtain c cs where l: "l = c # cs" "c = CHR ''-'' \<or> is_digit c"
    using JNum.prems by (auto elim: json_number_head)
  moreover have "c \<noteq> CHR 0x22 \<and> c \<noteq> CHR ''['' \<and> c \<noteq> CHR ''{'' \<and> CHR ''t'' \<noteq> c \<and> CHR ''f'' \<noteq> c \<and> CHR ''n'' \<noteq> c"
    using l(2) by (auto simp: is_digit_def)
  ultimately show ?case by (subst json_value.simps) simp
next
  case JNull
  show ?case by (subst json_value.simps) simp
next
  case (JBool b)
  show ?case by (subst json_value.simps) simp
qed

corollary json_unmarshal_text:
  "json_wf v \<Longrightarrow> json_depth v \<le> 10000 \<Longrightarrow> json_unmarshal (json_text v) = Some v"
  using json_value_text [of v "[]"] skip_ws_text [of v "[]"]
  by (simp add: json_unmarshal_def delim_def skip_ws_def)

end
