(* ===== verification/Transport.thy ===== *)
theory Transport
  imports Go_Time Go_Json_Text
begin

text \<open>
  internal/transport: the message kinds, the envelope, the payloads and their JSON shapes, the
  validating codec, fresh identifiers, and the connection wrapper (queue, error record, close).

  A \<open>json.RawMessage\<close> is the JSON value it holds, \<open>None\<close> for a nil one. Each payload has a
  writer into JSON and a reader from JSON that are inverse to each other (\<open>payload_codec\<close>).
\<close>

subsection \<open>Kinds and the envelope\<close>

definition KindAuthJWT :: string where "KindAuthJWT = ''auth.jwt''"
definition KindHello :: string where "KindHello = ''hello''"
definition KindWelcome :: string where "KindWelcome = ''welcome''"
definition KindSnapshotRequest :: string where "KindSnapshotRequest = ''snapshot.request''"
definition KindSnapshotReport :: string where "KindSnapshotReport = ''snapshot.report''"
definition KindSnapshotAbsent :: string where "KindSnapshotAbsent = ''snapshot.absent''"
definition KindTruthPush :: string where "KindTruthPush = ''truth.push''"
definition KindTruthAck :: string where "KindTruthAck = ''truth.ack''"
definition KindError :: string where "KindError = ''error''"

lemmas kind_defs = KindAuthJWT_def KindHello_def KindWelcome_def KindSnapshotRequest_def
  KindSnapshotReport_def KindSnapshotAbsent_def KindTruthPush_def KindTruthAck_def KindError_def

definition valid_kind :: "string \<Rightarrow> bool" where
  "valid_kind k = (k \<in> {KindAuthJWT, KindHello, KindWelcome, KindSnapshotRequest,
     KindSnapshotReport, KindSnapshotAbsent, KindTruthPush, KindTruthAck, KindError})"

definition EnvelopeV :: int where "EnvelopeV = 1"

record envelope =
  env_type :: string
  env_v :: int
  env_id :: string
  env_ts :: gotime
  env_payload :: "json option"

subsection \<open>Writing and reading fields\<close>

text \<open>
  A time is written in UTC; \<open>time_ok\<close> holds of the instants \<open>time.Time.MarshalJSON\<close> can write and
  \<open>UnmarshalJSON\<close> reads back.
\<close>

definition frac_text :: "int \<Rightarrow> string" where
  "frac_text ns = (if ns = 0 then []
     else CHR ''.'' # rev (dropWhile (\<lambda>c. c = CHR ''0'') (rev (pad_text 9 ns))))"

definition time_text :: "gotime \<Rightarrow> string" where
  "time_text t = (let s = format_utc t in butlast s @ frac_text (t mod 1000000000) @ ''Z'')"

definition time_ok :: "gotime \<Rightarrow> bool" where
  "time_ok t = (rfc3339_parse (time_text t) = Some t)"

definition json_time :: "gotime \<Rightarrow> json" where "json_time t = JStr (time_text t)"
definition json_int :: "int \<Rightarrow> json" where "json_int i = JNum (int_text i)"

text \<open>A member written unless it has the empty value (\<open>omitempty\<close>).\<close>

definition opt_string :: "string \<Rightarrow> string \<Rightarrow> (string \<times> json) list" where
  "opt_string k s = (if s = [] then [] else [(k, JStr s)])"

definition opt_raw :: "string \<Rightarrow> json option \<Rightarrow> (string \<times> json) list" where
  "opt_raw k r = (case r of None \<Rightarrow> [] | Some j \<Rightarrow> [(k, j)])"

definition dec_raw :: "json \<Rightarrow> json option \<Rightarrow> json option option" where
  "dec_raw j old = Some (Some j)"

definition json_raw :: "json option \<Rightarrow> json" where
  "json_raw r = (case r of None \<Rightarrow> JNull | Some j \<Rightarrow> j)"

lemma dec_time_json [simp]: "time_ok t \<Longrightarrow> dec_time (json_time t) old = Some t"
  by (simp add: dec_time_def json_time_def time_ok_def)

lemma dec_simple [simp]:
  "dec_string (JStr s) old = Some s" "dec_bool (JBool b) old2 = Some b" "dec_raw j r = Some (Some j)"
  by (simp_all add: dec_string_def dec_bool_def dec_raw_def)

lemma nat_text_digits: "list_all is_digit (nat_text n)"
proof (induction n rule: less_induct)
  case (less n)
  have d: "is_digit (char_at (k + 48))" if "k < 10" for k
    using that by (simp add: is_digit_def of_char_of)
  show ?case
  proof (cases "n < 10")
    case True
    then show ?thesis by (subst nat_text.simps) (simp add: d)
  next
    case False
    then show ?thesis using less [of "n div 10"] by (subst nat_text.simps) (simp add: d)
  qed
qed

lemma nat_text_nonempty [simp]: "nat_text n \<noteq> []"
  by (subst nat_text.simps) simp

lemma digits_value_eq: "list_all is_digit s \<Longrightarrow> digits_value (int n) s = Some (int (nat_digits n s))"
proof (induction s arbitrary: n)
  case (Cons c s)
  then have "48 \<le> byte_of c" by (simp add: is_digit_def)
  then have "10 * int n + int (byte_of c) - 48 = int (10 * n + (byte_of c - 48))" by simp
  with Cons show ?case
    by (simp only: digits_value.simps nat_digits.simps list.pred_inject if_True simp_thms)
qed simp

lemma parse_int_text [simp]:
  assumes "min_int64 \<le> i" "i \<le> max_int64"
  shows "parse_int64 (int_text i) = Some i"
proof -
  have dv: "digits_value 0 (nat_text n) = Some (int n)" for n
    using digits_value_eq [of "nat_text n" 0] by (simp add: nat_text_digits nat_digits_text)
  have hd: "\<exists>c cs. nat_text n = c # cs \<and> c \<noteq> CHR ''-'' \<and> c \<noteq> CHR ''+''" for n
    using nat_text_digits [of n] by (cases "nat_text n") (auto simp: is_digit_def)
  show ?thesis
  proof (cases "i < 0")
    case True
    then show ?thesis using assms by (simp add: parse_int64_def int_text_def dv)
  next
    case False
    then show ?thesis using assms hd [of "nat i"] dv [of "nat i"]
      by (auto simp: parse_int64_def int_text_def)
  qed
qed

lemma dec_int64_json [simp]:
  "min_int64 \<le> i \<Longrightarrow> i \<le> max_int64 \<Longrightarrow> dec_int64 (json_int i) old = Some i"
  by (simp add: dec_int64_def json_int_def)

text \<open>The payloads a Go caller can name: from the value to its JSON, and back.\<close>

locale payload_codec =
  fixes enc :: "'a \<Rightarrow> json"
    and dec :: "json \<Rightarrow> 'a option"
    and ok :: "'a \<Rightarrow> bool"
  assumes dec_enc: "ok x \<Longrightarrow> dec (enc x) = Some x"
begin

lemma enc_inject: "ok x \<Longrightarrow> ok y \<Longrightarrow> enc x = enc y \<longleftrightarrow> x = y"
  using dec_enc by (metis option.inject)

lemma dec_raw_enc: "ok x \<Longrightarrow> Option.bind (Some (enc x)) dec = Some x"
  by (simp add: dec_enc)

end

text \<open>A list of strings under \<open>omitempty\<close>.\<close>

definition opt_strings :: "string \<Rightarrow> string list \<Rightarrow> (string \<times> json) list" where
  "opt_strings k ss = (if ss = [] then [] else [(k, JArr (map JStr ss))])"

lemma dec_strings_map [simp]: "dec_strings old (map JStr ss) = Some ss"
  by (induction ss arbitrary: old) auto

lemma dec_string_slice_map [simp]: "dec_string_slice (JArr (map JStr ss)) old = Some ss"
  by (simp add: dec_string_slice_def)

lemma fold_members_append:
  "fold_members f (xs @ ys) a = Option.bind (fold_members f xs a) (fold_members f ys)"
proof (induction xs arbitrary: a)
  case (Cons m xs)
  then show ?case by (cases "f m a") auto
qed simp

lemma fold_members_Nil [simp]: "fold_members f [] = Some" "Option.bind x Some = x"
  by (auto cong: option.case_cong split: bind_splits)

lemma fold_members_opt:
  "fold_members f (opt_string k v) a = (if v = [] then Some a else f (k, JStr v) a)"
  "fold_members f (opt_raw k r) a = (case r of None \<Rightarrow> Some a | Some j \<Rightarrow> f (k, j) a)"
  "fold_members f (opt_strings k ss) a = (if ss = [] then Some a else f (k, JArr (map JStr ss)) a)"
  by (auto simp: opt_string_def opt_raw_def opt_strings_def split: option.splits)

lemma dec_struct_JObj [simp]: "dec_struct f (JObj ms) a = fold_members f ms a"
  by (simp add: dec_struct_def)

lemmas codec_simps = fold_members_append fold_members_opt dec_field_def key_is_def
  lower_char_def

subsection \<open>Payloads\<close>

record live_check =
  lc_performed :: "bool"
  lc_result :: "string"
  lc_checked :: "gotime"

definition zero_live_check :: live_check where
  "zero_live_check = \<lparr>lc_performed = False, lc_result = [], lc_checked = zero_time\<rparr>"

definition enc_live_check :: "live_check \<Rightarrow> json" where
  "enc_live_check x = JObj (
     [(''performed'', JBool (lc_performed x))] @
     [(''result'', JStr (lc_result x))] @
     [(''checked_at'', json_time (lc_checked x))])"

definition dec_live_check_member :: "string \<times> json \<Rightarrow> live_check \<Rightarrow> live_check option" where
  "dec_live_check_member m b = (case m of (k, j) \<Rightarrow>
     if key_is k ''performed'' then dec_field dec_bool lc_performed lc_performed_update j b
     else if key_is k ''result'' then dec_field dec_string lc_result lc_result_update j b
     else if key_is k ''checked_at'' then dec_field dec_time lc_checked lc_checked_update j b
     else Some b)"

definition dec_live_check :: "json \<Rightarrow> live_check option" where
  "dec_live_check j = dec_struct dec_live_check_member j zero_live_check"

definition live_check_ok :: "live_check \<Rightarrow> bool" where
  "live_check_ok x \<longleftrightarrow> time_ok (lc_checked x)"

record truth_meta =
  tm_fingerprint :: "string"
  tm_issued :: "gotime"
  tm_summary :: "json option"

definition zero_truth_meta :: truth_meta where
  "zero_truth_meta = \<lparr>tm_fingerprint = [], tm_issued = zero_time, tm_summary = None\<rparr>"

definition enc_truth_meta :: "truth_meta \<Rightarrow> json" where
  "enc_truth_meta x = JObj (
     [(''fingerprint'', JStr (tm_fingerprint x))] @
     [(''issued_at'', json_time (tm_issued x))] @
     opt_raw ''summary'' (tm_summary x))"

definition dec_truth_meta_member :: "string \<times> json \<Rightarrow> truth_meta \<Rightarrow> truth_meta option" where
  "dec_truth_meta_member m b = (case m of (k, j) \<Rightarrow>
     if key_is k ''fingerprint'' then dec_field dec_string tm_fingerprint tm_fingerprint_update j b
     else if key_is k ''issued_at'' then dec_field dec_time tm_issued tm_issued_update j b
     else if key_is k ''summary'' then dec_field dec_raw tm_summary tm_summary_update j b
     else Some b)"

definition dec_truth_meta :: "json \<Rightarrow> truth_meta option" where
  "dec_truth_meta j = dec_struct dec_truth_meta_member j zero_truth_meta"

definition truth_meta_ok :: "truth_meta \<Rightarrow> bool" where
  "truth_meta_ok x \<longleftrightarrow> time_ok (tm_issued x)"

record hello =
  hl_node_id :: "string"
  hl_version :: "string"
  hl_os :: "string"
  hl_caps :: "string list"

definition zero_hello :: hello where
  "zero_hello = \<lparr>hl_node_id = [], hl_version = [], hl_os = [], hl_caps = []\<rparr>"

definition enc_hello :: "hello \<Rightarrow> json" where
  "enc_hello x = JObj (
     [(''node_id'', JStr (hl_node_id x))] @
     [(''agent_version'', JStr (hl_version x))] @
     [(''os'', JStr (hl_os x))] @
     opt_strings ''capabilities'' (hl_caps x))"

definition dec_hello_member :: "string \<times> json \<Rightarrow> hello \<Rightarrow> hello option" where
  "dec_hello_member m b = (case m of (k, j) \<Rightarrow>
     if key_is k ''node_id'' then dec_field dec_string hl_node_id hl_node_id_update j b
     else if key_is k ''agent_version'' then dec_field dec_string hl_version hl_version_update j b
     else if key_is k ''os'' then dec_field dec_string hl_os hl_os_update j b
     else if key_is k ''capabilities'' then dec_field dec_string_slice hl_caps hl_caps_update j b
     else Some b)"

definition dec_hello :: "json \<Rightarrow> hello option" where
  "dec_hello j = dec_struct dec_hello_member j zero_hello"

definition hello_ok :: "hello \<Rightarrow> bool" where
  "hello_ok x \<longleftrightarrow> True"

record snapshot_request =
  sq_profile :: "string"
  sq_reason :: "string"

definition zero_snapshot_request :: snapshot_request where
  "zero_snapshot_request = \<lparr>sq_profile = [], sq_reason = []\<rparr>"

definition enc_snapshot_request :: "snapshot_request \<Rightarrow> json" where
  "enc_snapshot_request x = JObj (
     [(''profile'', JStr (sq_profile x))] @
     opt_string ''reason'' (sq_reason x))"

definition dec_snapshot_request_member :: "string \<times> json \<Rightarrow> snapshot_request \<Rightarrow> snapshot_request option" where
  "dec_snapshot_request_member m b = (case m of (k, j) \<Rightarrow>
     if key_is k ''profile'' then dec_field dec_string sq_profile sq_profile_update j b
     else if key_is k ''reason'' then dec_field dec_string sq_reason sq_reason_update j b
     else Some b)"

definition dec_snapshot_request :: "json \<Rightarrow> snapshot_request option" where
  "dec_snapshot_request j = dec_struct dec_snapshot_request_member j zero_snapshot_request"

definition snapshot_request_ok :: "snapshot_request \<Rightarrow> bool" where
  "snapshot_request_ok x \<longleftrightarrow> True"

record auth_jwt =
  aj_token :: "string"

definition zero_auth_jwt :: auth_jwt where
  "zero_auth_jwt = \<lparr>aj_token = []\<rparr>"

definition enc_auth_jwt :: "auth_jwt \<Rightarrow> json" where
  "enc_auth_jwt x = JObj (
     [(''token'', JStr (aj_token x))])"

definition dec_auth_jwt_member :: "string \<times> json \<Rightarrow> auth_jwt \<Rightarrow> auth_jwt option" where
  "dec_auth_jwt_member m b = (case m of (k, j) \<Rightarrow>
     if key_is k ''token'' then dec_field dec_string aj_token aj_token_update j b
     else Some b)"

definition dec_auth_jwt :: "json \<Rightarrow> auth_jwt option" where
  "dec_auth_jwt j = dec_struct dec_auth_jwt_member j zero_auth_jwt"

definition auth_jwt_ok :: "auth_jwt \<Rightarrow> bool" where
  "auth_jwt_ok x \<longleftrightarrow> True"

record snapshot_report =
  sr_profile :: "string"
  sr_account :: "string"
  sr_path :: "string"
  sr_format :: "string"
  sr_fingerprint :: "string"
  sr_summary :: "json option"
  sr_live :: "live_check"
  sr_raw_size :: "int"
  sr_raw_b64 :: "string"

definition zero_snapshot_report :: snapshot_report where
  "zero_snapshot_report = \<lparr>sr_profile = [], sr_account = [], sr_path = [], sr_format = [], sr_fingerprint = [], sr_summary = None, sr_live = zero_live_check, sr_raw_size = 0, sr_raw_b64 = []\<rparr>"

definition enc_snapshot_report :: "snapshot_report \<Rightarrow> json" where
  "enc_snapshot_report x = JObj (
     [(''profile'', JStr (sr_profile x))] @
     opt_string ''account'' (sr_account x) @
     [(''path'', JStr (sr_path x))] @
     [(''format'', JStr (sr_format x))] @
     [(''fingerprint'', JStr (sr_fingerprint x))] @
     opt_raw ''summary'' (sr_summary x) @
     [(''live_check'', enc_live_check (sr_live x))] @
     [(''raw_size'', json_int (sr_raw_size x))] @
     opt_string ''raw_b64'' (sr_raw_b64 x))"

definition dec_snapshot_report_member :: "string \<times> json \<Rightarrow> snapshot_report \<Rightarrow> snapshot_report option" where
  "dec_snapshot_report_member m b = (case m of (k, j) \<Rightarrow>
     if key_is k ''profile'' then dec_field dec_string sr_profile sr_profile_update j b
     else if key_is k ''account'' then dec_field dec_string sr_account sr_account_update j b
     else if key_is k ''path'' then dec_field dec_string sr_path sr_path_update j b
     else if key_is k ''format'' then dec_field dec_string sr_format sr_format_update j b
     else if key_is k ''fingerprint'' then dec_field dec_string sr_fingerprint sr_fingerprint_update j b
     else if key_is k ''summary'' then dec_field dec_raw sr_summary sr_summary_update j b
     else if key_is k ''live_check'' then dec_field (dec_struct dec_live_check_member) sr_live sr_live_update j b
     else if key_is k ''raw_size'' then dec_field dec_int64 sr_raw_size sr_raw_size_update j b
     else if key_is k ''raw_b64'' then dec_field dec_string sr_raw_b64 sr_raw_b64_update j b
     else Some b)"

definition dec_snapshot_report :: "json \<Rightarrow> snapshot_report option" where
  "dec_snapshot_report j = dec_struct dec_snapshot_report_member j zero_snapshot_report"

definition snapshot_report_ok :: "snapshot_report \<Rightarrow> bool" where
  "snapshot_report_ok x \<longleftrightarrow> live_check_ok (sr_live x) \<and> min_int64 \<le> sr_raw_size x \<and> sr_raw_size x \<le> max_int64"

record snapshot_absent =
  sa_profile :: "string"
  sa_account :: "string"
  sa_path :: "string"

definition zero_snapshot_absent :: snapshot_absent where
  "zero_snapshot_absent = \<lparr>sa_profile = [], sa_account = [], sa_path = []\<rparr>"

definition enc_snapshot_absent :: "snapshot_absent \<Rightarrow> json" where
  "enc_snapshot_absent x = JObj (
     [(''profile'', JStr (sa_profile x))] @
     opt_string ''account'' (sa_account x) @
     [(''path'', JStr (sa_path x))])"

definition dec_snapshot_absent_member :: "string \<times> json \<Rightarrow> snapshot_absent \<Rightarrow> snapshot_absent option" where
  "dec_snapshot_absent_member m b = (case m of (k, j) \<Rightarrow>
     if key_is k ''profile'' then dec_field dec_string sa_profile sa_profile_update j b
     else if key_is k ''account'' then dec_field dec_string sa_account sa_account_update j b
     else if key_is k ''path'' then dec_field dec_string sa_path sa_path_update j b
     else Some b)"

definition dec_snapshot_absent :: "json \<Rightarrow> snapshot_absent option" where
  "dec_snapshot_absent j = dec_struct dec_snapshot_absent_member j zero_snapshot_absent"

definition snapshot_absent_ok :: "snapshot_absent \<Rightarrow> bool" where
  "snapshot_absent_ok x \<longleftrightarrow> True"

record truth_push =
  tp_profile :: "string"
  tp_account :: "string"
  tp_format :: "string"
  tp_fingerprint :: "string"
  tp_raw_b64 :: "string"
  tp_target :: "string"
  tp_issued :: "gotime"
  tp_summary :: "json option"

definition zero_truth_push :: truth_push where
  "zero_truth_push = \<lparr>tp_profile = [], tp_account = [], tp_format = [], tp_fingerprint = [], tp_raw_b64 = [], tp_target = [], tp_issued = zero_time, tp_summary = None\<rparr>"

definition enc_truth_push :: "truth_push \<Rightarrow> json" where
  "enc_truth_push x = JObj (
     [(''profile'', JStr (tp_profile x))] @
     opt_string ''account'' (tp_account x) @
     [(''format'', JStr (tp_format x))] @
     [(''fingerprint'', JStr (tp_fingerprint x))] @
     [(''raw_b64'', JStr (tp_raw_b64 x))] @
     [(''target_path'', JStr (tp_target x))] @
     [(''issued_at'', json_time (tp_issued x))] @
     opt_raw ''summary'' (tp_summary x))"

definition dec_truth_push_member :: "string \<times> json \<Rightarrow> truth_push \<Rightarrow> truth_push option" where
  "dec_truth_push_member m b = (case m of (k, j) \<Rightarrow>
     if key_is k ''profile'' then dec_field dec_string tp_profile tp_profile_update j b
     else if key_is k ''account'' then dec_field dec_string tp_account tp_account_update j b
     else if key_is k ''format'' then dec_field dec_string tp_format tp_format_update j b
     else if key_is k ''fingerprint'' then dec_field dec_string tp_fingerprint tp_fingerprint_update j b
     else if key_is k ''raw_b64'' then dec_field dec_string tp_raw_b64 tp_raw_b64_update j b
     else if key_is k ''target_path'' then dec_field dec_string tp_target tp_target_update j b
     else if key_is k ''issued_at'' then dec_field dec_time tp_issued tp_issued_update j b
     else if key_is k ''summary'' then dec_field dec_raw tp_summary tp_summary_update j b
     else Some b)"

definition dec_truth_push :: "json \<Rightarrow> truth_push option" where
  "dec_truth_push j = dec_struct dec_truth_push_member j zero_truth_push"

definition truth_push_ok :: "truth_push \<Rightarrow> bool" where
  "truth_push_ok x \<longleftrightarrow> time_ok (tp_issued x)"

record truth_ack =
  ta_profile :: "string"
  ta_account :: "string"
  ta_fingerprint :: "string"
  ta_ok :: "bool"
  ta_reason :: "string"

definition zero_truth_ack :: truth_ack where
  "zero_truth_ack = \<lparr>ta_profile = [], ta_account = [], ta_fingerprint = [], ta_ok = False, ta_reason = []\<rparr>"

definition enc_truth_ack :: "truth_ack \<Rightarrow> json" where
  "enc_truth_ack x = JObj (
     [(''profile'', JStr (ta_profile x))] @
     opt_string ''account'' (ta_account x) @
     [(''fingerprint'', JStr (ta_fingerprint x))] @
     [(''ok'', JBool (ta_ok x))] @
     opt_string ''reason'' (ta_reason x))"

definition dec_truth_ack_member :: "string \<times> json \<Rightarrow> truth_ack \<Rightarrow> truth_ack option" where
  "dec_truth_ack_member m b = (case m of (k, j) \<Rightarrow>
     if key_is k ''profile'' then dec_field dec_string ta_profile ta_profile_update j b
     else if key_is k ''account'' then dec_field dec_string ta_account ta_account_update j b
     else if key_is k ''fingerprint'' then dec_field dec_string ta_fingerprint ta_fingerprint_update j b
     else if key_is k ''ok'' then dec_field dec_bool ta_ok ta_ok_update j b
     else if key_is k ''reason'' then dec_field dec_string ta_reason ta_reason_update j b
     else Some b)"

definition dec_truth_ack :: "json \<Rightarrow> truth_ack option" where
  "dec_truth_ack j = dec_struct dec_truth_ack_member j zero_truth_ack"

definition truth_ack_ok :: "truth_ack \<Rightarrow> bool" where
  "truth_ack_ok x \<longleftrightarrow> True"

record error_payload =
  ep_code :: "string"
  ep_message :: "string"

definition zero_error_payload :: error_payload where
  "zero_error_payload = \<lparr>ep_code = [], ep_message = []\<rparr>"

definition enc_error_payload :: "error_payload \<Rightarrow> json" where
  "enc_error_payload x = JObj (
     [(''code'', JStr (ep_code x))] @
     [(''message'', JStr (ep_message x))])"

definition dec_error_payload_member :: "string \<times> json \<Rightarrow> error_payload \<Rightarrow> error_payload option" where
  "dec_error_payload_member m b = (case m of (k, j) \<Rightarrow>
     if key_is k ''code'' then dec_field dec_string ep_code ep_code_update j b
     else if key_is k ''message'' then dec_field dec_string ep_message ep_message_update j b
     else Some b)"

definition dec_error_payload :: "json \<Rightarrow> error_payload option" where
  "dec_error_payload j = dec_struct dec_error_payload_member j zero_error_payload"

definition error_payload_ok :: "error_payload \<Rightarrow> bool" where
  "error_payload_ok x \<longleftrightarrow> True"

record welcome_msg =
  wl_version :: "string"
  wl_truth :: "truth_meta option"

definition zero_welcome_msg :: welcome_msg where
  "zero_welcome_msg = \<lparr>wl_version = [], wl_truth = None\<rparr>"

definition enc_welcome_msg :: "welcome_msg \<Rightarrow> json" where
  "enc_welcome_msg x = JObj (
     [(''server_version'', JStr (wl_version x))] @
     opt_raw ''known_truth'' (map_option enc_truth_meta (wl_truth x)))"

definition dec_welcome_msg_member :: "string \<times> json \<Rightarrow> welcome_msg \<Rightarrow> welcome_msg option" where
  "dec_welcome_msg_member m b = (case m of (k, j) \<Rightarrow>
     if key_is k ''server_version'' then dec_field dec_string wl_version wl_version_update j b
     else if key_is k ''known_truth'' then dec_field (dec_ptr (dec_struct dec_truth_meta_member) zero_truth_meta) wl_truth wl_truth_update j b
     else Some b)"

definition dec_welcome_msg :: "json \<Rightarrow> welcome_msg option" where
  "dec_welcome_msg j = dec_struct dec_welcome_msg_member j zero_welcome_msg"

definition welcome_msg_ok :: "welcome_msg \<Rightarrow> bool" where
  "welcome_msg_ok x \<longleftrightarrow> pred_option truth_meta_ok (wl_truth x)"

subsection \<open>Every payload reads back\<close>

lemma live_check_rt: "live_check_ok x \<Longrightarrow> dec_live_check (enc_live_check x) = Some x"
  by (simp add: dec_live_check_def enc_live_check_def codec_simps dec_live_check_member_def zero_live_check_def live_check_ok_def)

lemma truth_meta_rt: "truth_meta_ok x \<Longrightarrow> dec_truth_meta (enc_truth_meta x) = Some x"
  by (cases "tm_summary x") (simp_all add: dec_truth_meta_def enc_truth_meta_def codec_simps dec_truth_meta_member_def zero_truth_meta_def truth_meta_ok_def)

lemma dec_ptr_truth_meta:
  "truth_meta_ok x \<Longrightarrow>
   dec_ptr (dec_struct dec_truth_meta_member) zero_truth_meta (enc_truth_meta x) None = Some (Some x)"
  using truth_meta_rt [of x] by (simp add: dec_ptr_def enc_truth_meta_def dec_truth_meta_def)

lemma hello_rt: "hello_ok x \<Longrightarrow> dec_hello (enc_hello x) = Some x"
  by (simp add: dec_hello_def enc_hello_def codec_simps dec_hello_member_def zero_hello_def hello_ok_def)

lemma snapshot_request_rt: "snapshot_request_ok x \<Longrightarrow> dec_snapshot_request (enc_snapshot_request x) = Some x"
  by (simp add: dec_snapshot_request_def enc_snapshot_request_def codec_simps dec_snapshot_request_member_def zero_snapshot_request_def snapshot_request_ok_def)

lemma auth_jwt_rt: "auth_jwt_ok x \<Longrightarrow> dec_auth_jwt (enc_auth_jwt x) = Some x"
  by (simp add: dec_auth_jwt_def enc_auth_jwt_def codec_simps dec_auth_jwt_member_def zero_auth_jwt_def auth_jwt_ok_def)

lemma snapshot_report_rt: "snapshot_report_ok x \<Longrightarrow> dec_snapshot_report (enc_snapshot_report x) = Some x"
  by (cases "sr_summary x") (simp_all add: dec_snapshot_report_def enc_snapshot_report_def codec_simps dec_snapshot_report_member_def zero_snapshot_report_def snapshot_report_ok_def
      live_check_rt [unfolded dec_live_check_def])

lemma snapshot_absent_rt: "snapshot_absent_ok x \<Longrightarrow> dec_snapshot_absent (enc_snapshot_absent x) = Some x"
  by (simp add: dec_snapshot_absent_def enc_snapshot_absent_def codec_simps dec_snapshot_absent_member_def zero_snapshot_absent_def snapshot_absent_ok_def)

lemma truth_push_rt: "truth_push_ok x \<Longrightarrow> dec_truth_push (enc_truth_push x) = Some x"
  by (cases "tp_summary x") (simp_all add: dec_truth_push_def enc_truth_push_def codec_simps dec_truth_push_member_def zero_truth_push_def truth_push_ok_def)

lemma truth_ack_rt: "truth_ack_ok x \<Longrightarrow> dec_truth_ack (enc_truth_ack x) = Some x"
  by (simp add: dec_truth_ack_def enc_truth_ack_def codec_simps dec_truth_ack_member_def zero_truth_ack_def truth_ack_ok_def)

lemma error_payload_rt: "error_payload_ok x \<Longrightarrow> dec_error_payload (enc_error_payload x) = Some x"
  by (simp add: dec_error_payload_def enc_error_payload_def codec_simps dec_error_payload_member_def zero_error_payload_def error_payload_ok_def)

lemma welcome_msg_rt: "welcome_msg_ok x \<Longrightarrow> dec_welcome_msg (enc_welcome_msg x) = Some x"
  by (cases "wl_truth x") (simp_all add: dec_welcome_msg_def enc_welcome_msg_def codec_simps
      dec_welcome_msg_member_def zero_welcome_msg_def welcome_msg_ok_def dec_ptr_truth_meta)

interpretation live_check_c: payload_codec enc_live_check dec_live_check live_check_ok
  by unfold_locales (rule live_check_rt)

interpretation truth_meta_c: payload_codec enc_truth_meta dec_truth_meta truth_meta_ok
  by unfold_locales (rule truth_meta_rt)

interpretation hello_c: payload_codec enc_hello dec_hello hello_ok
  by unfold_locales (rule hello_rt)

interpretation snapshot_request_c: payload_codec enc_snapshot_request dec_snapshot_request snapshot_request_ok
  by unfold_locales (rule snapshot_request_rt)

interpretation auth_jwt_c: payload_codec enc_auth_jwt dec_auth_jwt auth_jwt_ok
  by unfold_locales (rule auth_jwt_rt)

interpretation snapshot_report_c: payload_codec enc_snapshot_report dec_snapshot_report snapshot_report_ok
  by unfold_locales (rule snapshot_report_rt)

interpretation snapshot_absent_c: payload_codec enc_snapshot_absent dec_snapshot_absent snapshot_absent_ok
  by unfold_locales (rule snapshot_absent_rt)

interpretation truth_push_c: payload_codec enc_truth_push dec_truth_push truth_push_ok
  by unfold_locales (rule truth_push_rt)

interpretation truth_ack_c: payload_codec enc_truth_ack dec_truth_ack truth_ack_ok
  by unfold_locales (rule truth_ack_rt)

interpretation error_payload_c: payload_codec enc_error_payload dec_error_payload error_payload_ok
  by unfold_locales (rule error_payload_rt)

interpretation welcome_msg_c: payload_codec enc_welcome_msg dec_welcome_msg welcome_msg_ok
  by unfold_locales (rule welcome_msg_rt)

subsection \<open>The codec\<close>

definition MsgInvalidKind :: string where "MsgInvalidKind = ''unknown message kind: %q''"
definition MsgInvalidEnvelopeV :: string where "MsgInvalidEnvelopeV = ''unsupported envelope version: %d''"
definition MsgPayloadParseFailed :: string where "MsgPayloadParseFailed = ''payload parse failed: %s''"

definition enc_envelope :: "envelope \<Rightarrow> json" where
  "enc_envelope e = JObj [(''type'', JStr (env_type e)), (''v'', json_int (env_v e)),
     (''id'', JStr (env_id e)), (''ts'', json_time (env_ts e)), (''payload'', json_raw (env_payload e))]"

definition zero_envelope :: envelope where
  "zero_envelope = \<lparr>env_type = [], env_v = 0, env_id = [], env_ts = zero_time, env_payload = None\<rparr>"

definition dec_envelope_member :: "string \<times> json \<Rightarrow> envelope \<Rightarrow> envelope option" where
  "dec_envelope_member m b = (case m of (k, j) \<Rightarrow>
     if key_is k ''type'' then dec_field dec_string env_type env_type_update j b
     else if key_is k ''v'' then dec_field dec_int64 env_v env_v_update j b
     else if key_is k ''id'' then dec_field dec_string env_id env_id_update j b
     else if key_is k ''ts'' then dec_field dec_time env_ts env_ts_update j b
     else if key_is k ''payload'' then dec_field dec_raw env_payload env_payload_update j b
     else Some b)"

text \<open>\<open>time.Time.MarshalJSON\<close> refuses a year outside \<open>[0, 9999]\<close>.\<close>

definition time_writable :: "gotime \<Rightarrow> bool" where
  "time_writable t = (case civil_from_days (t div 1000000000 div 86400) of (y, _, _) \<Rightarrow> 0 \<le> y \<and> y \<le> 9999)"

definition payload_failed :: gerr where
  "payload_failed = wrap_e json_error ErrInvalidMessage MsgPayloadParseFailed [ArgS ''encoding/json'']"

text \<open>The payload argument of \<open>Marshal\<close>: nil, or the outcome of \<open>json.Marshal\<close> on it.\<close>

definition marshal :: "string \<Rightarrow> int \<Rightarrow> string \<Rightarrow> gotime \<Rightarrow> (gerr + json) option \<Rightarrow> gerr + string" where
  "marshal kind v eid ts payload =
     (if \<not> valid_kind kind then Inl (wrap_s ErrInvalidMessage MsgInvalidKind [ArgS kind])
      else if v \<noteq> EnvelopeV then Inl (wrap_s ErrInvalidMessage MsgInvalidEnvelopeV [ArgD v])
      else ebind (case payload of None \<Rightarrow> Inr None | Some (Inl _) \<Rightarrow> Inl payload_failed
                  | Some (Inr j) \<Rightarrow> Inr (Some j)) (\<lambda>raw.
        if \<not> time_writable ts then Inl payload_failed
        else Inr (json_text (enc_envelope
          \<lparr>env_type = kind, env_v = v, env_id = eid, env_ts = ts, env_payload = raw\<rparr>))))"

definition unmarshal :: "string \<Rightarrow> gerr + envelope" where
  "unmarshal data =
     (case Option.bind (json_unmarshal data) (\<lambda>j. dec_struct dec_envelope_member j zero_envelope) of
        None \<Rightarrow> Inl payload_failed
      | Some env \<Rightarrow>
          if env_v env \<noteq> EnvelopeV then Inl (wrap_s ErrInvalidMessage MsgInvalidEnvelopeV [ArgD (env_v env)])
          else if \<not> valid_kind (env_type env) then
            Inl (wrap_s ErrInvalidMessage MsgInvalidKind [ArgS (env_type env)])
          else Inr env)"

text \<open>What \<open>Conn.Send\<close> writes.\<close>

definition encode_envelope :: "envelope \<Rightarrow> gerr + string" where
  "encode_envelope env =
     (if \<not> valid_kind (env_type env) then Inl (wrap_s ErrInvalidMessage ''invalid kind on send'' [])
      else if env_v env \<noteq> EnvelopeV then
        Inl (wrap_s ErrInvalidMessage ''invalid envelope version on send'' [])
      else if \<not> time_writable (env_ts env) then Inl json_error
      else Inr (json_text (enc_envelope env)))"

definition text_ok :: "json option \<Rightarrow> bool" where
  "text_ok r = (case r of None \<Rightarrow> True | Some j \<Rightarrow> json_wf j \<and> json_depth j < 10000)"

definition envelope_ok :: "envelope \<Rightarrow> bool" where
  "envelope_ok e \<longleftrightarrow> valid_utf8 (env_id e) \<and> time_ok (env_ts e) \<and> text_ok (env_payload e)"

text \<open>A nil payload is written \<open>null\<close>, and read back as that literal.\<close>

definition received :: "envelope \<Rightarrow> envelope" where
  "received e = e\<lparr>env_payload := Some (json_raw (env_payload e))\<rparr>"

lemma dec_enc_envelope:
  assumes "time_ok (env_ts e)" "env_v e = EnvelopeV"
  shows "dec_struct dec_envelope_member (enc_envelope e) zero_envelope = Some (received e)"
  using assms
  by (simp add: enc_envelope_def codec_simps dec_envelope_member_def zero_envelope_def received_def
      EnvelopeV_def min_int64_def max_int64_def)

definition ascii :: "string \<Rightarrow> bool" where
  "ascii s = list_all (\<lambda>c. byte_of c < 128) s"

lemma ascii_utf8: "ascii s \<Longrightarrow> valid_utf8 s"
  unfolding ascii_def by (induction s) (subst valid_utf8.simps; simp)+

lemma ascii_append [simp]: "ascii (s @ t) \<longleftrightarrow> ascii s \<and> ascii t" "ascii []"
  "ascii (c # s) \<longleftrightarrow> byte_of c < 128 \<and> ascii s"
  by (auto simp: ascii_def)

lemma valid_kind_utf8: "valid_kind k \<Longrightarrow> valid_utf8 k"
  by (rule ascii_utf8) (auto simp: valid_kind_def kind_defs)

lemma ascii_nat_text [simp]: "ascii (nat_text n)"
  using nat_text_digits [of n] by (auto simp: ascii_def list_all_iff is_digit_def)

lemma ascii_pad_text [simp]: "ascii (pad_text w i)"
proof -
  have "ascii (replicate k (CHR ''0''))" for k by (induction k) auto
  then show ?thesis by (simp add: pad_text_def Let_def)
qed

lemma ascii_subset: "set s \<subseteq> set t \<Longrightarrow> ascii t \<Longrightarrow> ascii s"
  by (auto simp: ascii_def list_all_iff)

lemma ascii_frac_text: "ascii (frac_text n)"
proof -
  have "ascii (rev (dropWhile P (rev (pad_text 9 n))))" for P
    by (rule ascii_subset [of _ "pad_text 9 n"]) (auto dest: set_dropWhileD)
  then show ?thesis by (simp add: frac_text_def)
qed

lemma ascii_format_utc: "ascii (format_utc t)"
  by (simp add: format_utc_def Let_def split: prod.split)

lemma ascii_time_text: "ascii (time_text t)"
  using ascii_subset [of "butlast (format_utc t)", OF _ ascii_format_utc]
  by (auto simp: time_text_def Let_def ascii_frac_text dest: in_set_butlastD)

lemma enc_envelope_wf:
  assumes "envelope_ok e" "valid_kind (env_type e)" "env_v e = EnvelopeV"
  shows "json_wf (enc_envelope e)" "json_depth (enc_envelope e) \<le> 10000"
proof -
  have key: "valid_utf8 ''type'' \<and> valid_utf8 ''v'' \<and> valid_utf8 ''id'' \<and> valid_utf8 ''ts'' \<and> valid_utf8 ''payload''"
    by (intro conjI ascii_utf8) simp_all
  have one: "json_wf (json_int EnvelopeV)" by code_simp
  have ts: "valid_utf8 (time_text (env_ts e))" by (rule ascii_utf8) (rule ascii_time_text)
  have p: "json_wf (json_raw (env_payload e))" "json_depth (json_raw (env_payload e)) < 10000"
    using assms(1) by (auto simp: envelope_ok_def text_ok_def json_raw_def split: option.splits)
  show "json_wf (enc_envelope e)"
    using assms key one ts p(1) valid_kind_utf8
    by (simp add: enc_envelope_def envelope_ok_def json_time_def)
  show "json_depth (enc_envelope e) \<le> 10000"
    using p(2) by (simp add: enc_envelope_def json_time_def json_int_def)
qed

text \<open>The receiver of an envelope sees what the sender gave.\<close>

lemma unmarshal_text:
  assumes "envelope_ok e" "valid_kind (env_type e)" "env_v e = EnvelopeV"
  shows "unmarshal (json_text (enc_envelope e)) = Inr (received e)"
proof -
  have "json_unmarshal (json_text (enc_envelope e)) = Some (enc_envelope e)"
    using enc_envelope_wf [OF assms] by (rule json_unmarshal_text)
  moreover have "dec_struct dec_envelope_member (enc_envelope e) zero_envelope = Some (received e)"
    using assms by (intro dec_enc_envelope) (simp_all add: envelope_ok_def)
  ultimately show ?thesis using assms by (simp add: unmarshal_def received_def)
qed

lemma encode_envelope_Inr:
  "encode_envelope e = Inr w \<longleftrightarrow>
   valid_kind (env_type e) \<and> env_v e = EnvelopeV \<and> time_writable (env_ts e) \<and> w = json_text (enc_envelope e)"
  by (auto simp: encode_envelope_def)

lemma unmarshal_Inr:
  assumes "unmarshal w = Inr e"
  shows "env_v e = EnvelopeV" "valid_kind (env_type e)"
  using assms by (auto simp: unmarshal_def split: option.splits if_splits)

lemma unmarshal_error: "unmarshal w = Inl e \<Longrightarrow> is_err e ErrInvalidMessage"
  by (auto simp: unmarshal_def payload_failed_def split: option.splits if_splits)

lemma marshal_error: "marshal k v i t p = Inl e \<Longrightarrow> is_err e ErrInvalidMessage"
  by (auto simp: marshal_def payload_failed_def ebind_Inl_iff split: option.splits if_splits sum.splits)

subsection \<open>Fresh identifiers\<close>

text \<open>
  \<open>buf\<close> is the array after \<open>rand.Read\<close>; when that failed the first eight bytes are those of the
  clock.
\<close>

definition set_bits :: "nat \<Rightarrow> nat \<Rightarrow> char \<Rightarrow> char" where
  "set_bits keep bits c = char_at (byte_of c mod keep + bits)"

definition new_id_bytes :: "string \<Rightarrow> bool \<Rightarrow> int \<Rightarrow> string" where
  "new_id_bytes buf failed ns =
     (let b = (if failed then map (\<lambda>i. char_at (nat (ns div 2 ^ (8 * i) mod 256))) [0..<8] @ drop 8 buf
               else buf);
          b6 = b[6 := set_bits 16 64 (b ! 6)]
      in b6[8 := set_bits 64 128 (b6 ! 8)])"

definition new_id :: "string \<Rightarrow> bool \<Rightarrow> int \<Rightarrow> string" where
  "new_id buf failed ns = (let h = hex_encode (new_id_bytes buf failed ns) in
     take 8 h @ ''-'' @ take 4 (drop 8 h) @ ''-'' @ take 4 (drop 12 h) @ ''-'' @
     take 4 (drop 16 h) @ ''-'' @ drop 20 h)"

lemma length_new_id_bytes: "length buf = 16 \<Longrightarrow> length (new_id_bytes buf failed ns) = 16"
  by (simp add: new_id_bytes_def Let_def)

lemma hex_encode_nth:
  "i < length s \<Longrightarrow> hex_encode s ! (2 * i) = hex_digit (byte_of (s ! i) div 16)"
proof (induction s arbitrary: i)
  case (Cons c s)
  then show ?case by (cases i) auto
qed simp

lemma new_id_shape:
  assumes "length buf = 16"
  shows "length (new_id buf failed ns) = 36"
    "map ((!) (new_id buf failed ns)) [8, 13, 18, 23] = ''----''"
    "new_id buf failed ns ! 14 = CHR ''4''"
    "new_id buf failed ns ! 19 \<in> set ''89ab''"
proof -
  define b where "b = new_id_bytes buf failed ns"
  define h where "h = hex_encode b"
  have b: "length b = 16" unfolding b_def using assms by (rule length_new_id_bytes)
  have h: "length h = 32" by (simp add: h_def b)
  have n: "new_id buf failed ns = take 8 h @ ''-'' @ take 4 (drop 8 h) @ ''-'' @ take 4 (drop 12 h) @ ''-'' @
     take 4 (drop 16 h) @ ''-'' @ drop 20 h"
    by (simp add: new_id_def h_def b_def Let_def)
  show "length (new_id buf failed ns) = 36" by (simp add: n h)
  show "map ((!) (new_id buf failed ns)) [8, 13, 18, 23] = ''----''" by (simp add: n h nth_append)
  have 6: "\<exists>c. b ! 6 = set_bits 16 64 c" and 8: "\<exists>c. b ! 8 = set_bits 64 128 c"
    using assms by (auto simp: b_def new_id_bytes_def Let_def)
  obtain c where c: "b ! 6 = set_bits 16 64 c" using 6 by blast
  have "byte_of (b ! 6) div 16 = 4" by (simp add: c set_bits_def of_char_of)
  then have "h ! 12 = CHR ''4''"
    using hex_encode_nth [of 6 b] by (simp add: h_def b hex_digit_def char_of_def bit_0)
  then show "new_id buf failed ns ! 14 = CHR ''4''" by (simp add: n h nth_append)
  obtain d where d: "b ! 8 = set_bits 64 128 d" using 8 by blast
  have "byte_of (b ! 8) div 16 = 8 + byte_of d mod 64 div 16" by (simp add: d set_bits_def of_char_of)
  moreover have "byte_of d mod 64 div 16 < 4" by (rule less_mult_imp_div_less) simp
  ultimately consider "byte_of (b ! 8) div 16 = 8" | "byte_of (b ! 8) div 16 = 9"
    | "byte_of (b ! 8) div 16 = 10" | "byte_of (b ! 8) div 16 = 11" by linarith
  then have "h ! 16 \<in> set ''89ab''"
    using hex_encode_nth [of 8 b] by cases (simp_all add: h_def b hex_digit_def char_of_def bit_0)
  then show "new_id buf failed ns ! 19 \<in> set ''89ab''" by (simp add: n h nth_append)
qed

end
