(* ===== verification/Config_Profiles.thy ===== *)
theory Config_Profiles
  imports Go_Time Go_Path
begin

text \<open>
  internal/config: path expansion (expand.go), authentication modes (auth.go), the profiles file
  with its validation (profiles.go) and the reloadable store with its subscribers (store.go).
  The YAML decoder is a third-party package: it is a parameter, from the file's bytes to the
  raw profiles.
\<close>

subsection \<open>Path expansion\<close>

definition EnvClaudeConfigDir :: string where "EnvClaudeConfigDir = ''CLAUDE_CONFIG_DIR''"

definition unique_strings :: "string list \<Rightarrow> string list" where
  "unique_strings xs = foldl (\<lambda>out x. if x = [] \<or> x \<in> set out then out else out @ [x]) [] xs"

definition expand_env_vars :: "host_env \<Rightarrow> string \<Rightarrow> gerr + string" where
  "expand_env_vars env p =
     (let (expanded, names) = os_expand p (he_getenv env);
          missing = filter (\<lambda>n. he_lookup env n = None) names
      in if missing \<noteq> [] then
           Inl (wrap_s ErrConfigInvalid ''undefined environment variable(s) in path %q: %s''
             [ArgS p, ArgS (join_with '', '' (unique_strings missing))])
         else Inr expanded)"

definition expand_home :: "host_env \<Rightarrow> (string \<Rightarrow> string) \<Rightarrow> gerr + string" where
  "expand_home env f = (case he_home env of
     Inl e \<Rightarrow> Inl (wrap_e e ErrConfigInvalid ''resolve home dir'' [])
   | Inr home \<Rightarrow> Inr (path_clean (f home)))"

definition expand_path :: "host_env \<Rightarrow> string \<Rightarrow> gerr + string" where
  "expand_path env p =
     (if p = [] then Inr []
      else
        let cfg = he_getenv env EnvClaudeConfigDir in
        if cfg \<noteq> [] \<and> p = ''~/.claude'' then Inr (path_clean cfg)
        else if cfg \<noteq> [] \<and> has_prefix p ''~/.claude/'' then
          Inr (path_clean (cfg @ trim_prefix p ''~/.claude''))
        else if p = ''~'' then expand_home env (\<lambda>h. h)
        else if has_prefix p ''~/'' then expand_home env (\<lambda>h. h @ trim_prefix p ''~'')
        else if CHR ''$'' \<in> set p then
          ebind (expand_env_vars env p) (\<lambda>x. Inr (path_clean x))
        else Inr (path_clean p))"

definition expand_path_from_dir :: "host_env \<Rightarrow> string \<Rightarrow> string \<Rightarrow> gerr + string" where
  "expand_path_from_dir env base p = ebind (expand_path env p) (\<lambda>v.
     if v = [] then Inr []
     else if is_abs v \<or> base = [] then Inr (path_clean v)
     else Inr (path_clean (path_join [base, v])))"

lemma expand_path_clean:
  assumes "expand_path env p = Inr q"
  shows "q = [] \<and> p = [] \<or> path_clean q = q"
  using assms
  by (auto simp: expand_path_def Let_def expand_home_def ebind_Inr_iff split: if_splits sum.splits)

lemma expand_path_error: "expand_path env p = Inl e \<Longrightarrow> is_err e ErrConfigInvalid"
  by (auto simp: expand_path_def Let_def expand_home_def expand_env_vars_def ebind_Inl_iff
      split: if_splits sum.splits prod.splits)

lemma expand_path_from_dir_error:
  "expand_path_from_dir env b p = Inl e \<Longrightarrow> is_err e ErrConfigInvalid"
  by (auto simp: expand_path_from_dir_def ebind_Inl_iff expand_path_error split: if_splits)

text \<open>The prefix rule takes whole path elements: \<open>~/.claude-extra\<close> is under the home directory.\<close>

lemma expand_path_claude_dir:
  assumes "he_lookup env EnvClaudeConfigDir = Some cfg" "cfg \<noteq> []"
  shows "expand_path env (''~/.claude/'' @ rest) = Inr (path_clean (cfg @ ''/'' @ rest))"
  using assms by (auto simp: expand_path_def he_getenv_def Let_def has_prefix_iff trim_prefix_def)

subsection \<open>Authentication modes\<close>

type_synonym auth_mode = string

definition AuthModeMTLS :: auth_mode where "AuthModeMTLS = ''mtls''"
definition AuthModeJWT :: auth_mode where "AuthModeJWT = ''jwt''"
definition JWTSendViaAuto :: string where "JWTSendViaAuto = ''auto''"
definition JWTSendViaHeader :: string where "JWTSendViaHeader = ''header''"
definition JWTSendViaFirstFrame :: string where "JWTSendViaFirstFrame = ''first_frame''"

lemmas auth_mode_defs = AuthModeMTLS_def AuthModeJWT_def
lemmas send_via_defs = JWTSendViaAuto_def JWTSendViaHeader_def JWTSendViaFirstFrame_def

definition normalize_auth_mode :: "auth_mode \<Rightarrow> gerr + auth_mode" where
  "normalize_auth_mode mode =
     (if mode = [] then Inr AuthModeMTLS
      else if mode = AuthModeMTLS \<or> mode = AuthModeJWT then Inr mode
      else Inl (wrap_s ErrConfigInvalid ''auth_mode %q must be %q or %q''
        [ArgS mode, ArgS AuthModeMTLS, ArgS AuthModeJWT]))"

definition normalize_jwt_send_via :: "string \<Rightarrow> gerr + string" where
  "normalize_jwt_send_via v =
     (if v = [] then Inr JWTSendViaAuto
      else if v = JWTSendViaAuto \<or> v = JWTSendViaHeader \<or> v = JWTSendViaFirstFrame then Inr v
      else Inl (wrap_s ErrConfigInvalid ''jwt.send_via %q must be %q, %q, or %q''
        [ArgS v, ArgS JWTSendViaAuto, ArgS JWTSendViaHeader, ArgS JWTSendViaFirstFrame]))"

definition default_jwt_first_frame_fallback :: "bool option \<Rightarrow> bool" where
  "default_jwt_first_frame_fallback v = (case v of None \<Rightarrow> True | Some b \<Rightarrow> b)"

subsection \<open>Profiles\<close>

record validate_spec =
  vs_strategy :: string
  vs_live_check :: bool
  vs_timeout :: duration

record propagate_spec =
  ps_mode :: string
  ps_cooldown :: duration

record reverse_target =
  rt_node_id :: string
  rt_transport :: string
  rt_url :: string

record profile =
  pf_name :: string
  pf_format :: string
  pf_dir :: string
  pf_watch_files :: "string list"
  pf_allowed :: "string list"
  pf_reverse :: "reverse_target list"
  pf_validate :: validate_spec
  pf_propagate :: propagate_spec

definition PropagateModeStaleOnly :: string where "PropagateModeStaleOnly = ''to_stale_only''"
definition PropagateModeAll :: string where "PropagateModeAll = ''to_all''"
definition defaultPropagateCooldown :: duration where "defaultPropagateCooldown = seconds 2"
definition ReverseTransportDirect :: string where "ReverseTransportDirect = ''direct''"
definition ReverseTransportSSH :: string where "ReverseTransportSSH = ''ssh''"

lemmas propagate_mode_defs = PropagateModeStaleOnly_def PropagateModeAll_def
lemmas reverse_transport_defs = ReverseTransportDirect_def ReverseTransportSSH_def

text \<open>The file as YAML gives it, durations still text.\<close>

record raw_validate =
  rv_strategy :: string
  rv_live_check :: bool
  rv_timeout :: string

record raw_propagate =
  rp_mode :: string
  rp_cooldown :: string

record raw_profile =
  rf_name :: string
  rf_format :: string
  rf_dir :: string
  rf_watch_files :: "string list"
  rf_allowed :: "string list"
  rf_reverse :: "reverse_target list"
  rf_validate :: raw_validate
  rf_propagate :: raw_propagate

definition duration_error :: gerr where "duration_error = Ext ''time.ParseDuration''"

definition convert_validate :: "raw_validate \<Rightarrow> string \<Rightarrow> gerr + validate_spec" where
  "convert_validate rv name =
     (if rv_timeout rv = [] then
        Inr \<lparr>vs_strategy = rv_strategy rv, vs_live_check = rv_live_check rv, vs_timeout = 0\<rparr>
      else case parse_duration (rv_timeout rv) of
        None \<Rightarrow> Inl (wrap_e duration_error ErrConfigInvalid ''profile %q: validate.live_check_timeout %q''
          [ArgS name, ArgS (rv_timeout rv)])
      | Some d \<Rightarrow>
          if d \<le> 0 then
            Inl (wrap_s ErrConfigInvalid ''profile %q: validate.live_check_timeout must be positive'' [ArgS name])
          else Inr \<lparr>vs_strategy = rv_strategy rv, vs_live_check = rv_live_check rv, vs_timeout = d\<rparr>)"

definition convert_propagate :: "raw_propagate \<Rightarrow> string \<Rightarrow> gerr + propagate_spec" where
  "convert_propagate rp name =
     (let mode = (if rp_mode rp = [] then PropagateModeStaleOnly else rp_mode rp) in
      if mode \<noteq> PropagateModeStaleOnly \<and> mode \<noteq> PropagateModeAll then
        Inl (wrap_s ErrConfigInvalid ''profile %q: propagate.mode %q must be %q or %q''
          [ArgS name, ArgS (rp_mode rp), ArgS PropagateModeStaleOnly, ArgS PropagateModeAll])
      else if rp_cooldown rp = [] then
        Inr \<lparr>ps_mode = mode, ps_cooldown = defaultPropagateCooldown\<rparr>
      else case parse_duration (rp_cooldown rp) of
        None \<Rightarrow> Inl (wrap_e duration_error ErrConfigInvalid ''profile %q: propagate.cooldown %q''
          [ArgS name, ArgS (rp_cooldown rp)])
      | Some d \<Rightarrow>
          if d < 0 then
            Inl (wrap_s ErrConfigInvalid ''profile %q: propagate.cooldown must be >= 0'' [ArgS name])
          else Inr \<lparr>ps_mode = mode, ps_cooldown = d\<rparr>)"

fun convert_watch_files :: "host_env \<Rightarrow> string \<Rightarrow> string \<Rightarrow> string list \<Rightarrow> gerr + string list" where
  "convert_watch_files env name dir [] = Inr []"
| "convert_watch_files env name dir (f # fs) =
     (if f = [] then
        Inl (wrap_s ErrConfigInvalid ''profile %q: watch_files must not contain empty entries'' [ArgS name])
      else ebind (expand_path_from_dir env dir f) (\<lambda>v.
           ebind (convert_watch_files env name dir fs) (\<lambda>vs. Inr (path_clean v # vs))))"

fun convert_reverse :: "string \<Rightarrow> string list \<Rightarrow> reverse_target list \<Rightarrow> gerr + reverse_target list" where
  "convert_reverse name seen [] = Inr []"
| "convert_reverse name seen (t # ts) =
     (if rt_node_id t = [] then
        Inl (wrap_s ErrConfigInvalid ''profile %q: reverse_targets.node_id is required'' [ArgS name])
      else
        let tr = (if rt_transport t = [] then ReverseTransportDirect else rt_transport t) in
        if tr \<noteq> ReverseTransportDirect \<and> tr \<noteq> ReverseTransportSSH then
          Inl (wrap_s ErrConfigInvalid ''profile %q: reverse_targets[%s].transport %q must be %q or %q''
            [ArgS name, ArgS (rt_node_id t), ArgS tr, ArgS ReverseTransportDirect, ArgS ReverseTransportSSH])
        else if tr = ReverseTransportDirect \<and> rt_url t = [] then
          Inl (wrap_s ErrConfigInvalid
            ''profile %q: reverse_targets[%s].url is required when transport=direct''
            [ArgS name, ArgS (rt_node_id t)])
        else if tr = ReverseTransportSSH \<and> rt_url t \<noteq> [] then
          Inl (wrap_s ErrConfigInvalid
            ''profile %q: reverse_targets[%s].url must be empty when transport=ssh''
            [ArgS name, ArgS (rt_node_id t)])
        else if rt_node_id t \<in> set seen then
          Inl (wrap_s ErrConfigInvalid ''profile %q: duplicate reverse target for node %q''
            [ArgS name, ArgS (rt_node_id t)])
        else ebind (convert_reverse name (rt_node_id t # seen) ts)
               (\<lambda>us. Inr (t\<lparr>rt_transport := tr\<rparr> # us)))"

definition MsgProfileDirEmpty :: string where "MsgProfileDirEmpty = ''profile %q: dir must not be empty''"
definition MsgAllowedClientEmpty :: string where
  "MsgAllowedClientEmpty = ''allowed_clients must not contain an empty entry''"

definition convert_profile :: "host_env \<Rightarrow> raw_profile \<Rightarrow> nat \<Rightarrow> gerr + profile" where
  "convert_profile env rp idx =
     (if rf_name rp = [] then
        Inl (wrap_s ErrConfigInvalid ''profile #%d has empty name'' [ArgD (int idx)])
      else if rf_format rp = [] then
        Inl (wrap_s ErrConfigInvalid ''profile %q: format is required'' [ArgS (rf_name rp)])
      else if rf_dir rp = [] then
        Inl (wrap_s ErrConfigInvalid MsgProfileDirEmpty [ArgS (rf_name rp)])
      else
        ebind (expand_path env (rf_dir rp)) (\<lambda>dir.
        ebind (convert_watch_files env (rf_name rp) dir (rf_watch_files rp)) (\<lambda>watch.
          if rf_allowed rp = [] then
            Inl (wrap_s ErrConfigInvalid ''profile %q: allowed_clients must not be empty'' [ArgS (rf_name rp)])
          else if [] \<in> set (rf_allowed rp) then
            Inl (wrap_s ErrConfigInvalid MsgAllowedClientEmpty [])
          else
            ebind (convert_reverse (rf_name rp) [] (rf_reverse rp)) (\<lambda>rev.
            ebind (convert_validate (rf_validate rp) (rf_name rp)) (\<lambda>val.
            ebind (convert_propagate (rf_propagate rp) (rf_name rp)) (\<lambda>prop.
              Inr \<lparr>pf_name = rf_name rp, pf_format = rf_format rp, pf_dir = dir,
                pf_watch_files = watch, pf_allowed = rf_allowed rp, pf_reverse = rev,
                pf_validate = val, pf_propagate = prop\<rparr>))))))"

fun convert_profiles :: "host_env \<Rightarrow> string list \<Rightarrow> nat \<Rightarrow> raw_profile list \<Rightarrow> gerr + profile list" where
  "convert_profiles env seen i [] = Inr []"
| "convert_profiles env seen i (rp # rps) = ebind (convert_profile env rp i) (\<lambda>p.
     if pf_name p \<in> set seen then
       Inl (wrap_s ErrConfigInvalid ''duplicate profile name %q'' [ArgS (pf_name p)])
     else ebind (convert_profiles env (pf_name p # seen) (Suc i) rps) (\<lambda>ps. Inr (p # ps)))"

definition parse_profiles ::
  "(string \<Rightarrow> gerr + raw_profile list) \<Rightarrow> host_env \<Rightarrow> string \<Rightarrow> gerr + profile list" where
  "parse_profiles yaml env raw = (case yaml raw of
     Inl e \<Rightarrow> Inl (wrap_e e ErrConfigInvalid ''parse profiles yaml'' [])
   | Inr rps \<Rightarrow>
       if rps = [] then Inl (wrap_s ErrConfigInvalid ''profiles list is empty'' [])
       else convert_profiles env [] 0 rps)"

definition MsgConfigMissing :: string where "MsgConfigMissing = ''configuration file not found: %s''"

definition load_profiles ::
  "(string \<Rightarrow> gerr + raw_profile list) \<Rightarrow> host_env \<Rightarrow> string \<Rightarrow> gerr + profile list" where
  "load_profiles yaml env path = (case he_read env path of
     Inl e \<Rightarrow> if errors_is e NotExist then Inl (wrap_e e ErrConfigInvalid MsgConfigMissing [ArgS path])
       else Inl (wrap_e e ErrConfigInvalid ''read %s'' [ArgS path])
   | Inr raw \<Rightarrow> parse_profiles yaml env raw)"

subsection \<open>What validation guarantees\<close>

definition reverse_ok :: "reverse_target \<Rightarrow> bool" where
  "reverse_ok t \<longleftrightarrow> rt_node_id t \<noteq> [] \<and>
     (rt_transport t = ReverseTransportDirect \<and> rt_url t \<noteq> [] \<or>
      rt_transport t = ReverseTransportSSH \<and> rt_url t = [])"

definition profile_ok :: "profile \<Rightarrow> bool" where
  "profile_ok p \<longleftrightarrow> pf_name p \<noteq> [] \<and> pf_format p \<noteq> [] \<and> path_clean (pf_dir p) = pf_dir p \<and>
     (\<forall>w \<in> set (pf_watch_files p). path_clean w = w) \<and>
     pf_allowed p \<noteq> [] \<and> [] \<notin> set (pf_allowed p) \<and>
     (\<forall>t \<in> set (pf_reverse p). reverse_ok t) \<and> distinct (map rt_node_id (pf_reverse p)) \<and>
     0 \<le> vs_timeout (pf_validate p) \<and>
     ps_mode (pf_propagate p) \<in> {PropagateModeStaleOnly, PropagateModeAll} \<and>
     0 \<le> ps_cooldown (pf_propagate p)"

lemma convert_watch_files_Inr:
  "convert_watch_files env n d fs = Inr ws \<Longrightarrow> \<forall>w \<in> set ws. path_clean w = w"
  by (induction env n d fs arbitrary: ws rule: convert_watch_files.induct)
    (auto simp: ebind_Inr_iff split: if_splits)

lemma convert_reverse_Cons:
  assumes "convert_reverse n seen (t # ts) = Inr us"
  obtains tr vs where "us = t\<lparr>rt_transport := tr\<rparr> # vs" "reverse_ok (t\<lparr>rt_transport := tr\<rparr>)"
    "rt_node_id t \<notin> set seen" "convert_reverse n (rt_node_id t # seen) ts = Inr vs"
  using assms that
  by (auto simp: ebind_Inr_iff Let_def reverse_ok_def reverse_transport_defs split: if_splits)

lemma convert_reverse_Inr:
  "convert_reverse n seen ts = Inr us \<Longrightarrow>
   (\<forall>t \<in> set us. reverse_ok t) \<and> distinct (map rt_node_id us) \<and> set (map rt_node_id us) \<inter> set seen = {}"
proof (induction ts arbitrary: seen us)
  case (Cons t ts)
  from Cons.prems show ?case
    by (rule convert_reverse_Cons) (use Cons.IH in fastforce)
qed simp

lemma convert_validate_Inr: "convert_validate rv n = Inr v \<Longrightarrow> 0 \<le> vs_timeout v"
  by (auto simp: convert_validate_def split: if_splits option.splits)

lemma convert_propagate_Inr:
  "convert_propagate rp n = Inr v \<Longrightarrow>
   ps_mode v \<in> {PropagateModeStaleOnly, PropagateModeAll} \<and> 0 \<le> ps_cooldown v"
  by (auto simp: convert_propagate_def Let_def defaultPropagateCooldown_def seconds_def
      split: if_splits option.splits)

lemma convert_profile_Inr:
  assumes "convert_profile env rp i = Inr p"
  shows "profile_ok p" "pf_name p = rf_name rp"
proof -
  from assms obtain dir watch rts vsp psp where
    h: "rf_name rp \<noteq> []" "rf_format rp \<noteq> []" "rf_dir rp \<noteq> []" "rf_allowed rp \<noteq> []" "[] \<notin> set (rf_allowed rp)"
    and dir: "expand_path env (rf_dir rp) = Inr dir"
    and watch: "convert_watch_files env (rf_name rp) dir (rf_watch_files rp) = Inr watch"
    and rts: "convert_reverse (rf_name rp) [] (rf_reverse rp) = Inr rts"
    and vsp: "convert_validate (rf_validate rp) (rf_name rp) = Inr vsp"
    and psp: "convert_propagate (rf_propagate rp) (rf_name rp) = Inr psp"
    and p: "p = \<lparr>pf_name = rf_name rp, pf_format = rf_format rp, pf_dir = dir,
                pf_watch_files = watch, pf_allowed = rf_allowed rp, pf_reverse = rts,
                pf_validate = vsp, pf_propagate = psp\<rparr>"
    unfolding convert_profile_def by (auto simp: ebind_Inr_iff split: if_splits)
  show "profile_ok p" "pf_name p = rf_name rp"
    using h expand_path_clean [OF dir] convert_watch_files_Inr [OF watch] convert_reverse_Inr [OF rts]
      convert_validate_Inr [OF vsp] convert_propagate_Inr [OF psp]
    by (simp_all add: p profile_ok_def)
qed

lemma convert_profiles_Inr:
  "convert_profiles env seen i rps = Inr ps \<Longrightarrow>
   list_all profile_ok ps \<and> distinct (map pf_name ps) \<and> set (map pf_name ps) \<inter> set seen = {} \<and>
   length ps = length rps"
proof (induction rps arbitrary: seen i ps)
  case (Cons rp rps)
  then obtain p qs where p: "convert_profile env rp i = Inr p" "pf_name p \<notin> set seen" "ps = p # qs"
    and "convert_profiles env (pf_name p # seen) (Suc i) rps = Inr qs"
    by (auto simp: ebind_Inr_iff split: if_splits)
  from Cons.IH [OF this(4)] show ?case using p convert_profile_Inr [OF p(1)] by auto
qed simp

lemma convert_error:
  "convert_watch_files env n d fs = Inl e \<Longrightarrow> is_err e ErrConfigInvalid"
  "convert_reverse n seen ts = Inl e \<Longrightarrow> is_err e ErrConfigInvalid"
  "convert_validate rv n = Inl e \<Longrightarrow> is_err e ErrConfigInvalid"
  "convert_propagate rp n = Inl e \<Longrightarrow> is_err e ErrConfigInvalid"
  subgoal by (induction fs arbitrary: e)
      (auto simp: ebind_Inl_iff expand_path_from_dir_error split: if_splits)
  subgoal by (induction ts arbitrary: seen)
      (auto simp: ebind_Inl_iff Let_def split: if_splits)
  subgoal by (auto simp: convert_validate_def split: if_splits option.splits)
  subgoal by (auto simp: convert_propagate_def Let_def split: if_splits option.splits)
  done

lemma convert_profile_error: "convert_profile env rp i = Inl e \<Longrightarrow> is_err e ErrConfigInvalid"
  unfolding convert_profile_def
  by (auto simp: ebind_Inl_iff convert_error expand_path_error split: if_splits)

lemma convert_profiles_error: "convert_profiles env seen i rps = Inl e \<Longrightarrow> is_err e ErrConfigInvalid"
  by (induction rps arbitrary: seen i)
    (auto simp: ebind_Inl_iff convert_profile_error split: if_splits)

lemma load_profiles_Inr:
  assumes "load_profiles yaml env path = Inr ps"
  shows "ps \<noteq> []" "list_all profile_ok ps" "distinct (map pf_name ps)"
proof -
  obtain raw rps where "he_read env path = Inr raw" "yaml raw = Inr rps" "rps \<noteq> []"
    "convert_profiles env [] 0 rps = Inr ps"
    using assms by (auto simp: load_profiles_def parse_profiles_def split: sum.splits if_splits)
  moreover from convert_profiles_Inr [OF this(4)]
  have "list_all profile_ok ps" "distinct (map pf_name ps)" "length ps = length rps"
    by auto
  ultimately show "ps \<noteq> []" "list_all profile_ok ps" "distinct (map pf_name ps)" by auto
qed

lemma load_profiles_error: "load_profiles yaml env path = Inl e \<Longrightarrow> is_err e ErrConfigInvalid"
  by (auto simp: load_profiles_def parse_profiles_def convert_profiles_error split: sum.splits if_splits)

subsection \<open>The store\<close>

text \<open>
  A subscriber's channel has room for one snapshot; \<open>None\<close> is an empty channel. The subscribers are
  numbered in the order of \<open>Subscribe\<close>.
\<close>

record profile_store =
  st_profiles :: "profile list"
  st_channels :: "profile list option list"

definition new_profile_store :: "profile list option \<Rightarrow> profile_store" where
  "new_profile_store initial =
     \<lparr>st_profiles = (case initial of None \<Rightarrow> [] | Some ps \<Rightarrow> ps), st_channels = []\<rparr>"

fun find_profile :: "profile list \<Rightarrow> string \<Rightarrow> profile option" where
  "find_profile [] name = None"
| "find_profile (p # ps) name = (if pf_name p = name then Some p else find_profile ps name)"

definition store_get :: "profile_store \<Rightarrow> string \<Rightarrow> profile option" where
  "store_get s name = find_profile (st_profiles s) name"

definition store_list :: "profile_store \<Rightarrow> profile list" where
  "store_list s = st_profiles s"

text \<open>The three non-blocking channel operations of \<open>Reload\<close> on a channel of capacity one.\<close>

definition chan_send1 :: "'a \<Rightarrow> 'a option \<Rightarrow> 'a option \<times> bool" where
  "chan_send1 x ch = (case ch of None \<Rightarrow> (Some x, True) | Some y \<Rightarrow> (Some y, False))"

definition chan_recv1 :: "'a option \<Rightarrow> 'a option" where
  "chan_recv1 ch = None"

definition publish :: "'a \<Rightarrow> 'a option \<Rightarrow> 'a option" where
  "publish x ch = (case chan_send1 x ch of
     (ch', True) \<Rightarrow> ch'
   | (ch', False) \<Rightarrow> fst (chan_send1 x (chan_recv1 ch')))"

definition store_reload ::
  "(string \<Rightarrow> gerr + raw_profile list) \<Rightarrow> host_env \<Rightarrow> string \<Rightarrow> profile_store \<Rightarrow> gerr option \<times> profile_store" where
  "store_reload yaml env path s = (case load_profiles yaml env path of
     Inl e \<Rightarrow> (Some e, s)
   | Inr ps \<Rightarrow> (None, s\<lparr>st_profiles := ps, st_channels := map (publish ps) (st_channels s)\<rparr>))"

definition store_subscribe :: "profile_store \<Rightarrow> nat \<times> profile_store" where
  "store_subscribe s = (length (st_channels s), s\<lparr>st_channels := st_channels s @ [None]\<rparr>)"

lemma publish_latest [simp]: "publish x ch = Some x"
  by (cases ch) (simp_all add: publish_def chan_send1_def chan_recv1_def)

lemma find_profile_Some: "find_profile ps n = Some p \<Longrightarrow> p \<in> set ps \<and> pf_name p = n"
  by (induction ps) (auto split: if_splits)

lemma find_profile_None: "find_profile ps n = None \<longleftrightarrow> n \<notin> pf_name ` set ps"
  by (induction ps) auto

lemma find_profile_unique: "distinct (map pf_name ps) \<Longrightarrow> p \<in> set ps \<Longrightarrow> find_profile ps (pf_name p) = Some p"
  by (induction ps) (auto simp: image_iff)

end
