(* ===== verification/Mediator.thy ===== *)
theory Mediator
  imports Formats Transport Config_Profiles
begin

text \<open>
  internal/server/mediator.go: the actor that decides one profile's truths. Its state is the
  candidates (one per node), the truths (one per account) and the mirror other goroutines read.
  Each handler is one function from the state to the state and the messages it sends; a panic of
  \<open>Compare\<close> is \<open>None\<close>. What the runtime decides is in \<open>med_env\<close>: the order in which a map is
  ranged over, the clock readings, the outcome of a send. Log lines are left out.
\<close>

subsection \<open>Sessions, records, state\<close>

text \<open>A \<open>*Session\<close> is the number of its allocation together with the fields that never change.\<close>

record session =
  se_id :: nat
  se_profile :: string
  se_peer :: string
  se_identity :: string
  se_mode :: auth_mode
  se_node :: string

definition EventSessionConnected :: string where "EventSessionConnected = ''session.connected''"
definition EventSessionDisconnected :: string where
  "EventSessionDisconnected = ''session.disconnected''"
definition EventTruthRestored :: string where "EventTruthRestored = ''truth.restored''"
definition EventTruthLost :: string where "EventTruthLost = ''truth.lost''"

record truth_record =
  tr_profile :: string
  tr_account :: string
  tr_format :: string
  tr_fingerprint :: string
  tr_no_truth :: bool
  tr_issued :: gotime
  tr_pushed :: gotime
  tr_raw_b64 :: string
  tr_summary :: "json option"
  tr_prev_summary :: "json option"
  tr_source :: string
  tr_targets :: "string list"
  tr_nodes :: "string list"
  tr_event :: string
  tr_node :: string
  tr_peer :: string
  tr_mode :: string

definition zero_record :: truth_record where
  "zero_record = \<lparr>tr_profile = [], tr_account = [], tr_format = [], tr_fingerprint = [], tr_no_truth = False,
     tr_issued = zero_time, tr_pushed = zero_time, tr_raw_b64 = [], tr_summary = None,
     tr_prev_summary = None, tr_source = [], tr_targets = [], tr_nodes = [], tr_event = [],
     tr_node = [], tr_peer = [], tr_mode = []\<rparr>"

record candidate =
  cd_node :: string
  cd_account :: string
  cd_session :: session
  cd_snap :: "snapshot option"
  cd_fingerprint :: string
  cd_status :: validation_status
  cd_reported :: gotime
  cd_path :: string
  cd_summary :: "json option"
  cd_live :: string
  cd_absent :: bool
  cd_applied :: string

record truth_state =
  ts_account :: string
  ts_fingerprint :: string
  ts_issued :: gotime
  ts_summary :: "json option"
  ts_raw_b64 :: string
  ts_format :: string
  ts_pushed :: gotime

record mirror_truth =
  mt_account :: string
  mt_fingerprint :: string
  mt_issued :: gotime
  mt_pushed :: gotime
  mt_format :: string
  mt_raw_b64 :: string
  mt_summary :: "json option"
  mt_nodes :: "string list"

type_synonym candidates = "(string, candidate) gomap"
type_synonym truths = "(string, truth_state) gomap"
type_synonym mirror = "(string, mirror_truth) gomap"

record mediator =
  md_cands :: candidates
  md_truths :: truths
  md_mirror :: mirror

text \<open>The fields of \<open>Mediator\<close> that never change; \<open>mc_notify\<close> is \<open>notifyFn != nil\<close>.\<close>

record med_config =
  mc_profile :: profile
  mc_format :: format_ops
  mc_target :: string
  mc_notify :: bool

record med_env =
  me_cand_order :: "(string \<times> candidate) list \<Rightarrow> (string \<times> candidate) list"
  me_account_order :: "(string \<times> candidate list) list \<Rightarrow> (string \<times> candidate list) list"
  me_session_order :: "(string \<times> session) list \<Rightarrow> (string \<times> session) list"
  me_validate_now :: gotime
  me_report_now :: gotime
  me_since_now :: "string \<Rightarrow> gotime"
  me_select_now :: "string \<Rightarrow> gotime"
  me_notify_now :: "string \<Rightarrow> gotime"
  me_sessions :: "(string, session) gomap"
  me_send :: "session \<Rightarrow> truth_push \<Rightarrow> gerr option"

datatype med_event = Pushed session truth_push "gerr option" | Notified truth_record

definition new_mediator :: mediator where
  "new_mediator = \<lparr>md_cands = [], md_truths = [], md_mirror = []\<rparr>"

subsection \<open>Reading the state\<close>

definition base64_decode :: "string \<Rightarrow> gerr + string" where
  "base64_decode s = (if s = [] then Inl (wrap_s ErrInvalidMessage ''empty raw_b64'' [])
     else case std_decode s of None \<Rightarrow> Inl (Ext ''encoding/base64'') | Some b \<Rightarrow> Inr b)"

definition account_nodes :: "candidates \<Rightarrow> string \<Rightarrow> string list" where
  "account_nodes cands account =
     sort_compact (map fst (filter (\<lambda>(_, c). cd_account c = account) cands))"

definition mirror_of :: "truths \<Rightarrow> candidates \<Rightarrow> mirror" where
  "mirror_of truths cands = map (\<lambda>(a, t). (a,
     \<lparr>mt_account = ts_account t, mt_fingerprint = ts_fingerprint t, mt_issued = ts_issued t,
      mt_pushed = ts_pushed t, mt_format = ts_format t, mt_raw_b64 = ts_raw_b64 t,
      mt_summary = ts_summary t, mt_nodes = account_nodes cands a\<rparr>)) truths"

definition snapshot_truths :: "mediator \<Rightarrow> mirror" where
  "snapshot_truths m = md_mirror m"

definition prev_summary :: "truth_state option \<Rightarrow> json option" where
  "prev_summary ts = (case ts of None \<Rightarrow> None | Some t \<Rightarrow> ts_summary t)"

subsection \<open>The push pass\<close>

definition truth_push_of :: "med_config \<Rightarrow> truth_state \<Rightarrow> truth_push" where
  "truth_push_of cfg ts = \<lparr>tp_profile = pf_name (mc_profile cfg), tp_account = ts_account ts,
     tp_format = ts_format ts, tp_fingerprint = ts_fingerprint ts, tp_raw_b64 = ts_raw_b64 ts,
     tp_target = mc_target cfg, tp_issued = ts_issued ts, tp_summary = ts_summary ts\<rparr>"

definition in_account :: "candidates \<Rightarrow> truth_state \<Rightarrow> string \<Rightarrow> bool" where
  "in_account cands ts nid = (case map_of cands nid of None \<Rightarrow> False
     | Some c \<Rightarrow> cd_account c = ts_account ts)"

definition stale :: "candidates \<Rightarrow> truth_state \<Rightarrow> string \<Rightarrow> string \<Rightarrow> bool" where
  "stale cands ts source nid = (case map_of cands nid of None \<Rightarrow> False
     | Some c \<Rightarrow> cd_account c = ts_account ts \<and> nid \<noteq> source \<and>
         (cd_absent c \<or> cd_fingerprint c \<noteq> ts_fingerprint ts))"

definition push_target :: "med_config \<Rightarrow> candidates \<Rightarrow> truth_state \<Rightarrow> string \<Rightarrow> string \<Rightarrow> bool" where
  "push_target cfg cands ts source nid \<longleftrightarrow> nid \<noteq> source \<and> in_account cands ts nid \<and>
     (ps_mode (pf_propagate (mc_profile cfg)) \<noteq> PropagateModeAll \<longrightarrow> stale cands ts source nid)"

definition push_truth ::
  "med_config \<Rightarrow> med_env \<Rightarrow> candidates \<Rightarrow> truth_state \<Rightarrow> string \<Rightarrow> string list \<times> med_event list" where
  "push_truth cfg env cands ts source =
     (let push = truth_push_of cfg ts;
          targets = map snd (filter (\<lambda>(nid, _). push_target cfg cands ts source nid)
            (me_session_order env (me_sessions env)));
          sent = map se_node (filter (\<lambda>s. me_send env s push = None) targets)
      in (sort sent, map (\<lambda>s. Pushed s push (me_send env s push)) targets))"

subsection \<open>Reselection\<close>

definition viable :: "candidate \<Rightarrow> bool" where
  "viable c \<longleftrightarrow> \<not> cd_absent c \<and> cd_snap c \<noteq> None \<and>
     cd_status c \<in> {StatusOK, StatusScopeWarn, StatusUnreachable}"

fun bucket :: "candidate list \<Rightarrow> (string, candidate list) gomap \<Rightarrow> (string, candidate list) gomap" where
  "bucket [] m = m"
| "bucket (c # cs) m =
     (if viable c then
        bucket cs (mput (cd_account c)
          ((case map_of m (cd_account c) of None \<Rightarrow> [] | Some vs \<Rightarrow> vs) @ [c]) m)
      else bucket cs m)"

definition lost_record :: "med_config \<Rightarrow> candidates \<Rightarrow> string \<Rightarrow> truth_state \<Rightarrow> truth_record" where
  "lost_record cfg cands account prev = zero_record
     \<lparr>tr_profile := pf_name (mc_profile cfg), tr_account := account, tr_format := ts_format prev,
      tr_fingerprint := ts_fingerprint prev, tr_issued := ts_issued prev,
      tr_pushed := ts_pushed prev, tr_summary := ts_summary prev,
      tr_prev_summary := ts_summary prev, tr_nodes := account_nodes cands account,
      tr_event := EventTruthLost\<rparr>"

fun lose_accounts ::
  "med_config \<Rightarrow> candidates \<Rightarrow> string list \<Rightarrow> truths \<Rightarrow> truths \<times> med_event list" where
  "lose_accounts cfg cands [] truths = (truths, [])"
| "lose_accounts cfg cands (a # as) truths =
     (let (truths', evs) = lose_accounts cfg cands as (mdel a truths)
      in (truths', (case map_of truths a of
            Some prev \<Rightarrow> if mc_notify cfg then [Notified (lost_record cfg cands a prev)] else []
          | None \<Rightarrow> []) @ evs))"

definition effective_strategy :: "med_config \<Rightarrow> string" where
  "effective_strategy cfg =
     (let strategy = vs_strategy (pf_validate (mc_profile cfg)); ss = f_strategies (mc_format cfg) in
      if strategy \<in> set ss then strategy else if ss \<noteq> [] then hd ss else strategy)"

text \<open>The loop over an account's viable candidates; \<open>best\<close> is the first of them.\<close>

fun pick_best ::
  "(snapshot \<Rightarrow> snapshot \<Rightarrow> int option) \<Rightarrow> candidate \<Rightarrow> candidate list \<Rightarrow> candidate option" where
  "pick_best cmp best [] = Some best"
| "pick_best cmp best (c # cs) =
     (case cmp (the (cd_snap c)) (the (cd_snap best)) of
        None \<Rightarrow> None
      | Some r \<Rightarrow> pick_best cmp (if r > 0 then c else best) cs)"

definition new_truth :: "med_env \<Rightarrow> string \<Rightarrow> string \<Rightarrow> candidate \<Rightarrow> truth_state" where
  "new_truth env account format_name best =
     (let now = me_select_now env account in
      \<lparr>ts_account = account, ts_fingerprint = cd_fingerprint best, ts_issued = now,
       ts_summary = cd_summary best, ts_raw_b64 = std_encode (snap_raw (the (cd_snap best))),
       ts_format = format_name, ts_pushed = now\<rparr>)"

definition restored_record ::
  "med_config \<Rightarrow> candidates \<Rightarrow> truth_state \<Rightarrow> candidate \<Rightarrow> truth_record" where
  "restored_record cfg cands ts best = zero_record
     \<lparr>tr_profile := pf_name (mc_profile cfg), tr_account := ts_account ts, tr_format := ts_format ts,
      tr_fingerprint := ts_fingerprint ts, tr_issued := ts_issued ts, tr_pushed := ts_pushed ts,
      tr_raw_b64 := ts_raw_b64 ts, tr_summary := ts_summary ts, tr_source := cd_node best,
      tr_nodes := account_nodes cands (ts_account ts), tr_event := EventTruthRestored\<rparr>"

definition propagation_record ::
  "med_config \<Rightarrow> candidates \<Rightarrow> truth_state \<Rightarrow> truth_state option \<Rightarrow> candidate \<Rightarrow> string list \<Rightarrow>
   gotime \<Rightarrow> truth_record" where
  "propagation_record cfg cands ts prev best targets now = zero_record
     \<lparr>tr_profile := pf_name (mc_profile cfg), tr_account := ts_account ts, tr_format := ts_format ts,
      tr_fingerprint := ts_fingerprint ts, tr_issued := ts_issued ts, tr_pushed := now,
      tr_raw_b64 := ts_raw_b64 ts, tr_summary := ts_summary ts, tr_prev_summary := prev_summary prev,
      tr_source := cd_node best, tr_targets := targets,
      tr_nodes := account_nodes cands (ts_account ts)\<rparr>"

definition truth_changed :: "truth_state option \<Rightarrow> candidate \<Rightarrow> bool" where
  "truth_changed prev best = (case prev of None \<Rightarrow> True
     | Some t \<Rightarrow> ts_fingerprint t \<noteq> cd_fingerprint best)"

definition cooling_down :: "med_config \<Rightarrow> med_env \<Rightarrow> string \<Rightarrow> truth_state option \<Rightarrow> bool" where
  "cooling_down cfg env account prev = (case prev of None \<Rightarrow> False
     | Some t \<Rightarrow> ps_cooldown (pf_propagate (mc_profile cfg)) > 0 \<and>
         time_sub (me_since_now env account) (ts_pushed t) < ps_cooldown (pf_propagate (mc_profile cfg)))"

text \<open>
  One turn of the loop over accounts: the truth to store, if it changed, and the messages.
\<close>

definition select_account ::
  "med_config \<Rightarrow> med_env \<Rightarrow> candidates \<Rightarrow> string \<Rightarrow> string \<Rightarrow> candidate list \<Rightarrow> truth_state option \<Rightarrow>
   (truth_state option \<times> med_event list) option" where
  "select_account cfg env cands format_name account vs prev =
     (case pick_best (f_compare (mc_format cfg) (effective_strategy cfg)) (hd vs) (tl vs) of
        None \<Rightarrow> None
      | Some best \<Rightarrow>
          let changed = truth_changed prev best in
          if changed \<and> cooling_down cfg env account prev then Some (None, [])
          else
            let ts = (if changed then new_truth env account format_name best else the prev);
                restored = (if changed \<and> prev = None \<and> mc_notify cfg
                  then [Notified (restored_record cfg cands ts best)] else []);
                (targets, pushes) = push_truth cfg env cands ts (cd_node best);
                propagated = (if targets \<noteq> [] \<and> mc_notify cfg
                  then [Notified (propagation_record cfg cands ts prev best targets (me_notify_now env account))]
                  else [])
            in Some (if changed then Some ts else None, restored @ pushes @ propagated))"

definition store_truth :: "string \<Rightarrow> truth_state option \<Rightarrow> truths \<Rightarrow> truths" where
  "store_truth account t truths = (case t of None \<Rightarrow> truths | Some ts \<Rightarrow> mput account ts truths)"

fun select_accounts ::
  "med_config \<Rightarrow> med_env \<Rightarrow> candidates \<Rightarrow> string \<Rightarrow> (string \<times> candidate list) list \<Rightarrow> truths \<Rightarrow>
   (truths \<times> med_event list) option" where
  "select_accounts cfg env cands format_name [] truths = Some (truths, [])"
| "select_accounts cfg env cands format_name ((a, vs) # rest) truths =
     (case select_account cfg env cands format_name a vs (map_of truths a) of
        None \<Rightarrow> None
      | Some (t, evs1) \<Rightarrow>
          (case select_accounts cfg env cands format_name rest (store_truth a t truths) of
             None \<Rightarrow> None
           | Some (truths2, evs2) \<Rightarrow> Some (truths2, evs1 @ evs2)))"

definition by_account :: "med_env \<Rightarrow> candidates \<Rightarrow> (string, candidate list) gomap" where
  "by_account env cands = bucket (map snd (me_cand_order env cands)) []"

definition lost_accounts :: "(string, candidate list) gomap \<Rightarrow> truths \<Rightarrow> string list" where
  "lost_accounts ba truths = sort (filter (\<lambda>a. map_of ba a = None) (map fst truths))"

definition reselect ::
  "med_config \<Rightarrow> med_env \<Rightarrow> string \<Rightarrow> mediator \<Rightarrow> (mediator \<times> med_event list) option" where
  "reselect cfg env format_name m =
     (let cands = md_cands m; ba = by_account env cands;
          (truths1, lost) = lose_accounts cfg cands (lost_accounts ba (md_truths m)) (md_truths m)
      in if ba = [] then
           Some (m\<lparr>md_truths := truths1, md_mirror := mirror_of truths1 cands\<rparr>, lost)
         else case select_accounts cfg env cands format_name (me_account_order env ba) truths1 of
             None \<Rightarrow> None
           | Some (truths2, evs) \<Rightarrow>
               Some (m\<lparr>md_truths := truths2, md_mirror := mirror_of truths2 cands\<rparr>, lost @ evs))"

subsection \<open>The handlers\<close>

definition downgrade :: "validation_status \<Rightarrow> live_check \<Rightarrow> validation_status" where
  "downgrade status live =
     (if lc_performed live \<and> lc_result live \<in> {StatusExpired, StatusRevoked, StatusUnreachable} \<and>
         status = StatusOK
      then lc_result live else status)"

definition on_report ::
  "med_config \<Rightarrow> med_env \<Rightarrow> session \<Rightarrow> snapshot_report \<Rightarrow> mediator \<Rightarrow> (mediator \<times> med_event list) option" where
  "on_report cfg env s p m =
     (case base64_decode (sr_raw_b64 p) of
        Inl _ \<Rightarrow> Some (m, [])
      | Inr raw \<Rightarrow>
          (case f_parse (mc_format cfg) raw of
             Inl _ \<Rightarrow>
               Some (m\<lparr>md_cands := mput (se_node s)
                 \<lparr>cd_node = se_node s, cd_account = sr_account p, cd_session = s, cd_snap = None,
                  cd_fingerprint = [], cd_status = StatusParseError, cd_reported = me_report_now env,
                  cd_path = sr_path p, cd_summary = None, cd_live = [], cd_absent = False,
                  cd_applied = []\<rparr> (md_cands m)\<rparr>, [])
           | Inr snap \<Rightarrow>
               let res = f_validate (mc_format cfg) snap (local_opts (me_validate_now env));
                   status = downgrade (vr_status res) (sr_live p)
               in reselect cfg env (sr_format p) (m\<lparr>md_cands := mput (se_node s)
                    \<lparr>cd_node = se_node s, cd_account = sr_account p, cd_session = s, cd_snap = Some snap,
                     cd_fingerprint = snap_fingerprint snap, cd_status = status,
                     cd_reported = me_report_now env, cd_path = sr_path p, cd_summary = sr_summary p,
                     cd_live = lc_result (sr_live p), cd_absent = False, cd_applied = []\<rparr> (md_cands m)\<rparr>)))"

definition on_absent ::
  "med_config \<Rightarrow> med_env \<Rightarrow> session \<Rightarrow> snapshot_absent \<Rightarrow> mediator \<Rightarrow> (mediator \<times> med_event list) option" where
  "on_absent cfg env s p m =
     reselect cfg env (pf_format (mc_profile cfg)) (m\<lparr>md_cands := mput (se_node s)
       \<lparr>cd_node = se_node s, cd_account = sa_account p, cd_session = s, cd_snap = None,
        cd_fingerprint = [], cd_status = [], cd_reported = me_report_now env, cd_path = [],
        cd_summary = None, cd_live = [], cd_absent = True, cd_applied = []\<rparr> (md_cands m)\<rparr>)"

definition on_ack :: "session \<Rightarrow> truth_ack \<Rightarrow> mediator \<Rightarrow> mediator" where
  "on_ack s p m =
     (let c = (case map_of (md_cands m) (se_node s) of
            Some c \<Rightarrow> c
          | None \<Rightarrow> \<lparr>cd_node = se_node s, cd_account = ta_account p, cd_session = s, cd_snap = None,
              cd_fingerprint = [], cd_status = [], cd_reported = zero_time, cd_path = [],
              cd_summary = None, cd_live = [], cd_absent = True, cd_applied = []\<rparr>)
      in m\<lparr>md_cands := mput (se_node s) (if ta_ok p then c\<lparr>cd_applied := ta_fingerprint p\<rparr> else c)
            (md_cands m)\<rparr>)"

definition on_disconnect ::
  "med_config \<Rightarrow> med_env \<Rightarrow> string \<Rightarrow> mediator \<Rightarrow> (mediator \<times> med_event list) option" where
  "on_disconnect cfg env nid m =
     reselect cfg env (pf_format (mc_profile cfg)) (m\<lparr>md_cands := mdel nid (md_cands m)\<rparr>)"

text \<open>One turn of \<open>run\<close>: the branch of the \<open>select\<close> that was taken.\<close>

datatype med_input =
    InReport session snapshot_report
  | InAbsent session snapshot_absent
  | InAck session truth_ack
  | InDisconnect string

definition med_turn ::
  "med_config \<Rightarrow> med_env \<Rightarrow> med_input \<Rightarrow> mediator \<Rightarrow> (mediator \<times> med_event list) option" where
  "med_turn cfg env inp m = (case inp of
     InReport s p \<Rightarrow> on_report cfg env s p m
   | InAbsent s p \<Rightarrow> on_absent cfg env s p m
   | InAck s p \<Rightarrow> Some (on_ack s p m, [])
   | InDisconnect nid \<Rightarrow> on_disconnect cfg env nid m)"

end
