(* ===== verification/Claude_Creds.thy ===== *)
theory Claude_Creds
  imports Formats
begin

text \<open>
  pkg/formats/claudecreds: the format of Claude Code's .credentials.json. Parsing, comparison,
  validation with its GET-only live check, redaction, and the account read from the peer
  metadata file. The usage probe is not modelled: its arithmetic is on floating-point numbers.
\<close>

subsection \<open>Parsing\<close>

record oauth_block =
  ob_access :: string
  ob_refresh :: string
  ob_expires :: int
  ob_scopes :: "string list"
  ob_subscription :: string
  ob_tier :: string
  ob_legacy :: string

definition zero_oauth :: oauth_block where
  "zero_oauth = \<lparr>ob_access = [], ob_refresh = [], ob_expires = 0, ob_scopes = [],
     ob_subscription = [], ob_tier = [], ob_legacy = []\<rparr>"

definition dec_oauth_member :: "string \<times> json \<Rightarrow> oauth_block \<Rightarrow> oauth_block option" where
  "dec_oauth_member m b = (case m of (k, j) \<Rightarrow>
     if key_is k ''accessToken'' then dec_field dec_string ob_access ob_access_update j b
     else if key_is k ''refreshToken'' then dec_field dec_string ob_refresh ob_refresh_update j b
     else if key_is k ''expiresAt'' then dec_field dec_int64 ob_expires ob_expires_update j b
     else if key_is k ''scopes'' then dec_field dec_string_slice ob_scopes ob_scopes_update j b
     else if key_is k ''subscriptionType'' then dec_field dec_string ob_subscription ob_subscription_update j b
     else if key_is k ''rateLimitTier'' then dec_field dec_string ob_tier ob_tier_update j b
     else if key_is k ''access_token'' then dec_field dec_string ob_legacy ob_legacy_update j b
     else Some b)"

definition dec_claude_file :: "json \<Rightarrow> oauth_block option" where
  "dec_claude_file j = dec_struct (\<lambda>(k, v) b.
     if key_is k ''claudeAiOauth'' then dec_struct dec_oauth_member v b else Some b) j zero_oauth"

definition claude_parse :: "string \<Rightarrow> gerr + snapshot" where
  "claude_parse raw =
     (if raw = [] then Inl (wrap_s ErrParseFailed ''empty credential bytes'' [])
      else
        let body = trim_prefix raw utf8_bom in
        case Option.bind (json_unmarshal body) dec_claude_file of
          None \<Rightarrow> Inl (wrap_e json_error ErrParseFailed ''decode claude-credentials-json-format'' [])
        | Some f \<Rightarrow>
            let access = (if ob_access f = [] then ob_legacy f else ob_access f) in
            if access = [] then Inl (wrap_s ErrParseFailed ''missing claudeAiOauth.accessToken'' [])
            else if ob_refresh f = [] then
              Inl (wrap_s ErrParseFailed ''missing claudeAiOauth.refreshToken'' [])
            else if ob_expires f = 0 then
              Inl (wrap_s ErrParseFailed ''missing or zero claudeAiOauth.expiresAt'' [])
            else Inr (SClaude \<lparr>cl_access = access, cl_refresh = ob_refresh f,
              cl_expires = unix_milli (ob_expires f), cl_scopes = ob_scopes f,
              cl_subscription = ob_subscription f, cl_tier = ob_tier f, cl_raw = raw,
              cl_fingerprint = sha256_hex raw, cl_identity = take 16 (sha256_hex access)\<rparr>))"

subsection \<open>Comparison, validation, redaction\<close>

definition StrategyExpiresAtMax :: string where "StrategyExpiresAtMax = ''expires_at_max''"

definition claude_compare :: "string \<Rightarrow> snapshot \<Rightarrow> snapshot \<Rightarrow> int option" where
  "claude_compare strategy a b =
     (if strategy \<noteq> StrategyExpiresAtMax then None
      else Some (cmp_time (snap_expires a) (snap_expires b)))"

definition LiveCheckDefaultTimeout :: duration where "LiveCheckDefaultTimeout = seconds 5"

definition claude_live_check :: "claude_snap \<Rightarrow> validate_opts \<Rightarrow> gotime \<Rightarrow> validation_result" where
  "claude_live_check snap opts checked_at =
     (let timeout = (if vo_timeout opts \<le> 0 then LiveCheckDefaultTimeout else vo_timeout opts);
          res = (\<lambda>st d. \<lparr>vr_status = st, vr_detail = d, vr_checked = checked_at\<rparr>)
      in case vo_http opts timeout (''Bearer '' @ cl_access snap) of
           BuildErr e \<Rightarrow> res StatusUnreachable (''build live-check request: '' @ e)
         | DoErr e \<Rightarrow> res StatusUnreachable e
         | Resp code status \<Rightarrow>
             if code = 200 then res StatusOK []
             else if code = 401 then res StatusExpired ''live check returned 401''
             else if code = 403 then
               res StatusScopeWarn ''live check returned 403 (token alive, scopes insufficient)''
             else if code \<ge> 500 then res StatusUnreachable (''live check upstream '' @ status)
             else res StatusUnreachable (''live check unexpected status '' @ status))"

definition claude_validate :: "snapshot \<Rightarrow> validate_opts \<Rightarrow> validation_result" where
  "claude_validate snap opts =
     (let checked_at = vo_now opts; e = snap_expires snap in
      if is_zero_time e \<or> \<not> time_before checked_at e then
        \<lparr>vr_status = StatusExpired, vr_detail = ''expiresAt has passed'', vr_checked = checked_at\<rparr>
      else if \<not> vo_live opts then
        \<lparr>vr_status = StatusOK, vr_detail = [], vr_checked = checked_at\<rparr>
      else case snap of
          SClaude cs \<Rightarrow> claude_live_check cs opts checked_at
        | _ \<Rightarrow> \<lparr>vr_status = StatusOK,
               vr_detail = ''live check skipped: foreign Snapshot implementation'',
               vr_checked = checked_at\<rparr>)"

definition claude_redact :: "snapshot \<Rightarrow> summary" where
  "claude_redact snap = (case snap of
     SClaude cs \<Rightarrow> \<lparr>sm_identity = cl_identity cs, sm_subscription = cl_subscription cs,
       sm_fp_short = fp_short (cl_fingerprint cs), sm_tail4 = tail4 (cl_access cs),
       sm_expires = cl_expires cs, sm_scopes = cl_scopes cs, sm_extra = []\<rparr>
   | _ \<Rightarrow> foreign_summary snap)"

subsection \<open>The account\<close>

record claude_meta =
  me_uuid :: string
  me_email :: string
  me_org :: string

definition dec_account_member :: "string \<times> json \<Rightarrow> claude_meta \<Rightarrow> claude_meta option" where
  "dec_account_member m b = (case m of (k, j) \<Rightarrow>
     if key_is k ''accountUuid'' then dec_field dec_string me_uuid me_uuid_update j b
     else if key_is k ''emailAddress'' then dec_field dec_string me_email me_email_update j b
     else if key_is k ''organizationUuid'' then dec_field dec_string me_org me_org_update j b
     else Some b)"

definition dec_claude_meta :: "json \<Rightarrow> claude_meta option" where
  "dec_claude_meta j = dec_struct (\<lambda>(k, v) b.
     if key_is k ''oauthAccount'' then dec_struct dec_account_member v b else Some b) j
     \<lparr>me_uuid = [], me_email = [], me_org = []\<rparr>"

definition meta_path_candidates :: "host_env \<Rightarrow> string \<Rightarrow> string list" where
  "meta_path_candidates env path =
     (if path = [] then []
      else if he_is_dir env path then
        [path_join [path_dir path, ''.claude.json''], path_join [path, ''.config.json'']]
      else if path_base path = ''.credentials.json'' then
        (let cfg = path_dir path in
         [path_join [path_dir cfg, ''.claude.json''], path_join [cfg, ''.config.json'']])
      else [path]) @
     (let dir = he_getenv env ''CLAUDE_CONFIG_DIR'' in
      if dir \<noteq> [] then [path_join [dir, ''.claude.json'']] else []) @
     (case he_home env of
        Inr home \<Rightarrow> if home \<noteq> [] then
            [path_join [home, ''.claude.json''], path_join [home, ''.claude'', ''.config.json'']]
          else []
      | Inl _ \<Rightarrow> [])"

fun read_meta :: "host_env \<Rightarrow> string list \<Rightarrow> gerr + claude_meta option" where
  "read_meta env [] = Inr None"
| "read_meta env (p # ps) = (case he_read env p of
     Inl e \<Rightarrow> if errors_is e NotExist then read_meta env ps
       else Inl (wrap_e e ErrParseFailed ''read claude meta %s'' [ArgS p])
   | Inr raw \<Rightarrow> (case Option.bind (json_unmarshal raw) dec_claude_meta of
        None \<Rightarrow> read_meta env ps
      | Some m \<Rightarrow> Inr (Some m)))"

definition read_claude_meta :: "host_env \<Rightarrow> string \<Rightarrow> gerr + claude_meta option" where
  "read_claude_meta env path = read_meta env (meta_path_candidates env path)"

definition claude_account :: "host_env \<Rightarrow> snapshot option \<Rightarrow> string \<Rightarrow> gerr + string" where
  "claude_account env snap path = ebind (read_claude_meta env path) (\<lambda>r. case r of
     None \<Rightarrow> Inr []
   | Some m \<Rightarrow> if me_uuid m \<noteq> [] then Inr (me_uuid m)
       else if me_email m \<noteq> [] then Inr (me_email m) else Inr [])"

definition claude_display :: "host_env \<Rightarrow> snapshot \<Rightarrow> string \<Rightarrow> gerr + string" where
  "claude_display env snap path = ebind (read_claude_meta env path) (\<lambda>r. case r of
     None \<Rightarrow> Inr []
   | Some m \<Rightarrow> if me_email m \<noteq> [] then Inr (me_email m) else Inr [])"

definition claude_credential_path :: "string \<Rightarrow> string" where
  "claude_credential_path dir = path_join [dir, ''.credentials.json'']"

definition claude_watch_paths :: "string \<Rightarrow> string list" where
  "claude_watch_paths dir = (let home = path_dir dir in
     [path_join [dir, ''.credentials.json''], path_join [home, ''.claude.json''],
      path_join [dir, ''.config.json'']])"

definition claude_format :: format_ops where
  "claude_format = \<lparr>f_name = ''claude-credentials-json-format'',
     f_strategies = [StrategyExpiresAtMax], f_parse = claude_parse, f_validate = claude_validate,
     f_compare = claude_compare, f_redact = claude_redact,
     f_account = Some claude_account, f_display = Some claude_display,
     f_credential_path = Some claude_credential_path, f_watch_paths = Some claude_watch_paths\<rparr>"

subsection \<open>Correctness\<close>

lemma claude_parse_Inr:
  assumes "claude_parse raw = Inr s"
  obtains c where "s = SClaude c" "cl_raw c = raw" "cl_fingerprint c = sha256_hex raw"
    "cl_access c \<noteq> []" "cl_refresh c \<noteq> []" "raw \<noteq> []"
    "cl_identity c = take 16 (sha256_hex (cl_access c))"
  using assms that unfolding claude_parse_def Let_def
  by (auto split: if_splits option.splits)

lemma claude_parse_error: "claude_parse raw = Inl e \<Longrightarrow> is_err e ErrParseFailed"
  unfolding claude_parse_def Let_def by (auto split: if_splits option.splits)

lemma claude_live_status:
  "vr_status (claude_live_check cs opt t) \<in> {StatusOK, StatusExpired, StatusScopeWarn, StatusUnreachable}"
  "vr_checked (claude_live_check cs opt t) = t"
  unfolding claude_live_check_def Let_def by (simp_all split: http_outcome.split)

lemma claude_validate_expired:
  "is_zero_time (snap_expires s) \<or> \<not> vo_now opt < snap_expires s \<Longrightarrow>
   vr_status (claude_validate s opt) = StatusExpired"
  by (auto simp: claude_validate_def time_defs)

lemma claude_compare_iff:
  "claude_compare st a b = Some c \<longleftrightarrow>
   st = StrategyExpiresAtMax \<and> c = cmp_time (snap_expires a) (snap_expires b)"
  by (auto simp: claude_compare_def)

lemma claude_format_sel [simp]:
  "f_strategies claude_format = [StrategyExpiresAtMax]" "f_parse claude_format = claude_parse"
  "f_validate claude_format = claude_validate" "f_compare claude_format = claude_compare"
  "f_name claude_format = ''claude-credentials-json-format''"
  "f_redact claude_format = claude_redact"
  "f_account claude_format = Some claude_account" "f_display claude_format = Some claude_display"
  "f_credential_path claude_format = Some claude_credential_path"
  "f_watch_paths claude_format = Some claude_watch_paths"
  by (simp_all add: claude_format_def)

lemma claude_validate_checked: "vr_checked (claude_validate s opt) = vo_now opt"
  by (simp add: claude_validate_def Let_def claude_live_status split: snapshot.split)

interpretation claude: format_contract claude_format "\<lambda>s. \<exists>c. s = SClaude c"
proof (unfold_locales, unfold claude_format_sel)
  fix w s assume p: "claude_parse w = Inr s"
  show "\<exists>c. s = SClaude c" "snap_raw s = w" "snap_fingerprint s = sha256_hex w"
    using p by (auto elim!: claude_parse_Inr)
next
  fix st a b d c k
  assume c: "claude_compare st a b = Some c"
  then show "claude_compare st b a = Some (- c)"
    by (simp add: claude_compare_iff cmp_time_swap [of "snap_expires a"])
  assume "claude_compare st b d = Some k" "0 \<le> c" "0 \<le> k"
  with c show "\<exists>g. claude_compare st a d = Some g \<and> 0 \<le> g"
    by (auto simp: claude_compare_iff cmp_time_simps)
next
  show "\<exists>e. claude_parse [] = Inl e" by (simp add: claude_parse_def)
  show "\<exists>c. claude_compare st a b = Some c" if "st \<in> set [StrategyExpiresAtMax]" for st a b
    using that by (simp add: claude_compare_iff)
  show "claude_compare st a b = None" if "st \<notin> set [StrategyExpiresAtMax]" for st a b
    using that by (simp add: claude_compare_def)
  fix s opt
  have "StatusExpired \<noteq> StatusOK" by (simp add: status_defs)
  then show "vr_status (claude_validate s opt) \<noteq> StatusOK" if "is_zero_time (snap_expires s)"
    using that by (simp add: claude_validate_expired)
  show "vr_status (claude_validate s opt) \<noteq> StatusOK" if "\<not> vo_now opt < snap_expires s"
    using that by (simp add: claude_validate_expired status_defs)
qed (simp_all add: claude_parse_error claude_validate_checked)

end
