(* ===== verification/Codex_Auth.thy ===== *)
theory Codex_Auth
  imports Formats
begin

text \<open>
  pkg/formats/codexauth: the format of the Codex CLI's auth.json. The expiry is the \<open>exp\<close> claim of
  the access token, the account comes from the claims of the id token; a token that is not a
  decodable JWT leaves both unknown. The usage probe is not modelled.
\<close>

subsection \<open>JWT claims\<close>

type_synonym claims = "(string \<times> json) list"

text \<open>The payload segment of a JWT: unpadded URL base64, with padded as a fallback.\<close>

definition jwt_payload :: "string \<Rightarrow> string option" where
  "jwt_payload seg = (case rawurl_decode seg of Some p \<Rightarrow> Some p | None \<Rightarrow> url_decode seg)"

definition b64_error :: gerr where "b64_error = Ext ''encoding/base64''"

definition decode_jwt_claims :: "string \<Rightarrow> gerr + claims" where
  "decode_jwt_claims jwt =
     (let parts = split_on (CHR ''.'') jwt in
      if length parts < 2 then Inl (wrap_s ErrParseFailed ''JWT has fewer than 2 segments'' [])
      else case jwt_payload (parts ! 1) of
        None \<Rightarrow> Inl (wrap_e b64_error ErrParseFailed ''decode JWT claims segment'' [])
      | Some payload \<Rightarrow>
          (case json_decode payload of
             Some (JObj ms) \<Rightarrow> Inr ms
           | Some JNull \<Rightarrow> Inr []
           | _ \<Rightarrow> Inl (wrap_e json_error ErrParseFailed ''parse JWT claims JSON'' [])))"

definition jwt_exp :: "string \<Rightarrow> gerr + gotime" where
  "jwt_exp jwt = ebind (decode_jwt_claims jwt) (\<lambda>c. case obj_get c ''exp'' of
     None \<Rightarrow> Inl (wrap_s ErrParseFailed ''JWT has no exp claim'' [])
   | Some (JNum l) \<Rightarrow> (case parse_int64 l of
        None \<Rightarrow> Inl (wrap_e (Ext ''strconv'') ErrParseFailed ''JWT exp not an integer'' [])
      | Some n \<Rightarrow> Inr (unix_sec n))
   | Some _ \<Rightarrow> Inl (wrap_s ErrParseFailed ''JWT exp has unexpected type'' []))"

definition claim_or_empty :: "claims \<Rightarrow> string \<Rightarrow> string" where
  "claim_or_empty c k = (case get_string c k of Some s \<Rightarrow> s | None \<Rightarrow> [])"

definition jwt_email :: "string \<Rightarrow> gerr + string" where
  "jwt_email jwt = (if jwt = [] then Inr []
     else ebind (decode_jwt_claims jwt) (\<lambda>c.
       if claim_or_empty c ''email'' \<noteq> [] then Inr (claim_or_empty c ''email'')
       else case get_object c ''https://api.openai.com/profile'' of
         Some p \<Rightarrow> Inr (claim_or_empty p ''email'')
       | None \<Rightarrow> Inr []))"

definition jwt_chatgpt_account_id :: "string \<Rightarrow> gerr + string" where
  "jwt_chatgpt_account_id jwt = (if jwt = [] then Inr []
     else ebind (decode_jwt_claims jwt) (\<lambda>c.
       case get_object c ''https://api.openai.com/auth'' of
         None \<Rightarrow> Inr []
       | Some auth \<Rightarrow> Inr (claim_or_empty auth ''chatgpt_account_id'')))"

definition jwt_chatgpt_user_id :: "string \<Rightarrow> gerr + string" where
  "jwt_chatgpt_user_id jwt = (if jwt = [] then Inr []
     else ebind (decode_jwt_claims jwt) (\<lambda>c.
       case get_object c ''https://api.openai.com/auth'' of
         None \<Rightarrow> Inr []
       | Some auth \<Rightarrow>
           if claim_or_empty auth ''chatgpt_user_id'' \<noteq> [] then Inr (claim_or_empty auth ''chatgpt_user_id'')
           else if claim_or_empty auth ''chatgpt_account_id'' \<noteq> []
             then Inr (claim_or_empty auth ''chatgpt_account_id'')
           else Inr []))"

text \<open>\<open>x, _ := f()\<close>: the zero value on an error.\<close>

definition or_zero :: "'a \<Rightarrow> gerr + 'a \<Rightarrow> 'a" where
  "or_zero z m = (case m of Inl _ \<Rightarrow> z | Inr x \<Rightarrow> x)"

subsection \<open>Parsing\<close>

record token_data =
  td_id_token :: string
  td_access :: string
  td_refresh :: string
  td_account_id :: string

record codex_file =
  cf_auth_mode :: string
  cf_api_key :: string
  cf_tokens :: "token_data option"
  cf_last_refresh :: "gotime option"
  cf_agent :: json

definition zero_tokens :: token_data where
  "zero_tokens = \<lparr>td_id_token = [], td_access = [], td_refresh = [], td_account_id = []\<rparr>"

definition dec_token_member :: "string \<times> json \<Rightarrow> token_data \<Rightarrow> token_data option" where
  "dec_token_member m b = (case m of (k, j) \<Rightarrow>
     if key_is k ''id_token'' then dec_field dec_string td_id_token td_id_token_update j b
     else if key_is k ''access_token'' then dec_field dec_string td_access td_access_update j b
     else if key_is k ''refresh_token'' then dec_field dec_string td_refresh td_refresh_update j b
     else if key_is k ''account_id'' then dec_field dec_string td_account_id td_account_id_update j b
     else Some b)"

definition dec_any :: "json \<Rightarrow> json \<Rightarrow> json option" where
  "dec_any j old = (if json_any_ok j then Some j else None)"

definition dec_codex_member :: "string \<times> json \<Rightarrow> codex_file \<Rightarrow> codex_file option" where
  "dec_codex_member m b = (case m of (k, j) \<Rightarrow>
     if key_is k ''auth_mode'' then dec_field dec_string cf_auth_mode cf_auth_mode_update j b
     else if key_is k ''OPENAI_API_KEY'' then dec_field dec_string cf_api_key cf_api_key_update j b
     else if key_is k ''tokens'' then
       dec_field (dec_ptr (dec_struct dec_token_member) zero_tokens) cf_tokens cf_tokens_update j b
     else if key_is k ''last_refresh'' then
       dec_field (dec_ptr dec_time zero_time) cf_last_refresh cf_last_refresh_update j b
     else if key_is k ''agent_identity'' then dec_field dec_any cf_agent cf_agent_update j b
     else Some b)"

definition dec_codex_file :: "json \<Rightarrow> codex_file option" where
  "dec_codex_file j = dec_struct dec_codex_member j
     \<lparr>cf_auth_mode = [], cf_api_key = [], cf_tokens = None, cf_last_refresh = None, cf_agent = JNull\<rparr>"

definition codex_snapshot :: "string \<Rightarrow> codex_file \<Rightarrow> token_data \<Rightarrow> codex_snap" where
  "codex_snapshot raw f t =
     (let e = or_zero zero_time (jwt_exp (td_access t));
          email1 = or_zero [] (jwt_email (td_id_token t));
          email = (if email1 = [] then or_zero [] (jwt_email (td_access t)) else email1)
      in \<lparr>cx_auth_mode = cf_auth_mode f, cx_access = td_access t,
          cx_refresh = td_refresh t, cx_id_token = td_id_token t,
          cx_account_id = td_account_id t, cx_jwt_exp = e,
          cx_last_refresh = (case cf_last_refresh f of None \<Rightarrow> zero_time | Some r \<Rightarrow> r),
          cx_email = email,
          cx_user_id = or_zero [] (jwt_chatgpt_user_id (td_id_token t)),
          cx_chatgpt_account = or_zero [] (jwt_chatgpt_account_id (td_id_token t)),
          cx_raw = raw, cx_fingerprint = sha256_hex raw,
          cx_identity = take 16 (sha256_hex (td_access t))\<rparr>)"

definition codex_parse :: "string \<Rightarrow> gerr + snapshot" where
  "codex_parse raw =
     (if raw = [] then Inl (wrap_s ErrParseFailed ''empty codex auth bytes'' [])
      else
        let body = trim_prefix raw utf8_bom in
        case Option.bind (json_unmarshal body) dec_codex_file of
          None \<Rightarrow> Inl (wrap_e json_error ErrParseFailed ''decode codex-auth-json-format'' [])
        | Some f \<Rightarrow> (case cf_tokens f of
            None \<Rightarrow> Inl (wrap_s ErrParseFailed ''missing tokens.access_token'' [])
          | Some t \<Rightarrow>
              if td_access t = [] then Inl (wrap_s ErrParseFailed ''missing tokens.access_token'' [])
              else if td_refresh t = [] then
                Inl (wrap_s ErrParseFailed ''missing tokens.refresh_token'' [])
              else
                Inr (SCodex (codex_snapshot raw f t))))"

subsection \<open>Comparison, validation, redaction, account\<close>

definition StrategyJWTExpMax :: string where "StrategyJWTExpMax = ''jwt_exp_max''"

definition codex_compare :: "string \<Rightarrow> snapshot \<Rightarrow> snapshot \<Rightarrow> int option" where
  "codex_compare strategy a b =
     (if strategy \<noteq> StrategyJWTExpMax then None
      else case (a, b) of
        (SCodex x, SCodex y) \<Rightarrow>
          Some (if time_after (cx_jwt_exp x) (cx_jwt_exp y) then 1
                else if time_before (cx_jwt_exp x) (cx_jwt_exp y) then -1
                else cmp_time (cx_last_refresh x) (cx_last_refresh y))
      | _ \<Rightarrow> Some (cmp_time (snap_expires a) (snap_expires b)))"

definition expirySafetySkew :: duration where "expirySafetySkew = minutes 5"

definition codex_validate :: "snapshot \<Rightarrow> validate_opts \<Rightarrow> validation_result" where
  "codex_validate snap opts =
     (let checked_at = vo_now opts;
          res = (\<lambda>st d. \<lparr>vr_status = st, vr_detail = d, vr_checked = checked_at\<rparr>)
      in case snap of
        SCodex cs \<Rightarrow>
          if is_zero_time (cx_jwt_exp cs) then
            res StatusScopeWarn ''access_token JWT exp not parseable''
          else if \<not> time_before (time_add checked_at expirySafetySkew) (cx_jwt_exp cs) then
            res StatusExpired ''access_token JWT exp has passed or is within refresh safety window''
          else res StatusOK []
      | _ \<Rightarrow>
          if is_zero_time (snap_expires snap) \<or> \<not> time_before checked_at (snap_expires snap) then
            res StatusExpired ''JWT exp has passed''
          else res StatusOK [])"

definition codex_redact :: "snapshot \<Rightarrow> summary" where
  "codex_redact snap = (case snap of
     SCodex cs \<Rightarrow>
       let put = (\<lambda>b k v m. if b then mput k v m else m);
           extra = put (\<not> is_zero_time (cx_last_refresh cs)) ''last_refresh'' (format_utc (cx_last_refresh cs))
             (put (cx_account_id cs \<noteq> []) ''account_id'' (cx_account_id cs)
               (put (cx_email cs \<noteq> []) ''email'' (cx_email cs)
                 (put (cx_auth_mode cs \<noteq> []) ''auth_mode'' (cx_auth_mode cs) [])))
       in \<lparr>sm_identity = cx_identity cs, sm_subscription = [],
          sm_fp_short = fp_short (cx_fingerprint cs), sm_tail4 = tail4 (cx_access cs),
          sm_expires = cx_jwt_exp cs, sm_scopes = [], sm_extra = extra\<rparr>
   | _ \<Rightarrow> foreign_summary snap)"

definition codex_account :: "host_env \<Rightarrow> snapshot option \<Rightarrow> string \<Rightarrow> gerr + string" where
  "codex_account env snap path = (case snap of
     Some (SCodex cs) \<Rightarrow>
       if cx_user_id cs \<noteq> [] then Inr (cx_user_id cs)
       else if cx_account_id cs \<noteq> [] then Inr (cx_account_id cs)
       else if cx_email cs \<noteq> [] then Inr (cx_email cs)
       else Inr []
   | _ \<Rightarrow> Inr [])"

definition codex_display :: "host_env \<Rightarrow> snapshot \<Rightarrow> string \<Rightarrow> gerr + string" where
  "codex_display env snap path = (case snap of
     SCodex cs \<Rightarrow> if cx_email cs \<noteq> [] then Inr (cx_email cs) else Inr []
   | _ \<Rightarrow> Inr [])"

definition codex_credential_path :: "string \<Rightarrow> string" where
  "codex_credential_path dir = path_join [dir, ''auth.json'']"

definition codex_format :: format_ops where
  "codex_format = \<lparr>f_name = ''codex-auth-json-format'', f_strategies = [StrategyJWTExpMax],
     f_parse = codex_parse, f_validate = codex_validate, f_compare = codex_compare,
     f_redact = codex_redact, f_account = Some codex_account, f_display = Some codex_display,
     f_credential_path = Some codex_credential_path, f_watch_paths = None\<rparr>"

lemma codex_format_sel [simp]:
  "f_name codex_format = ''codex-auth-json-format''"
  "f_strategies codex_format = [StrategyJWTExpMax]" "f_parse codex_format = codex_parse"
  "f_validate codex_format = codex_validate" "f_compare codex_format = codex_compare"
  "f_redact codex_format = codex_redact"
  "f_account codex_format = Some codex_account" "f_display codex_format = Some codex_display"
  "f_credential_path codex_format = Some codex_credential_path"
  "f_watch_paths codex_format = None"
  by (simp_all add: codex_format_def)

subsection \<open>Correctness\<close>

lemma codex_parse_Inr:
  assumes "codex_parse raw = Inr s"
  obtains c where "s = SCodex c" "cx_raw c = raw" "cx_fingerprint c = sha256_hex raw"
    "cx_access c \<noteq> []" "cx_refresh c \<noteq> []" "raw \<noteq> []"
    "cx_identity c = take 16 (sha256_hex (cx_access c))"
    "cx_jwt_exp c = or_zero zero_time (jwt_exp (cx_access c))"
    "cx_user_id c = or_zero [] (jwt_chatgpt_user_id (cx_id_token c))"
proof -
  obtain f t where "s = SCodex (codex_snapshot raw f t)" "td_access t \<noteq> []" "td_refresh t \<noteq> []" "raw \<noteq> []"
    using assms unfolding codex_parse_def Let_def by (auto split: if_splits option.splits)
  with that show ?thesis by (simp add: codex_snapshot_def Let_def)
qed

lemma codex_parse_error: "codex_parse raw = Inl e \<Longrightarrow> is_err e ErrParseFailed"
  unfolding codex_parse_def Let_def by (auto split: if_splits option.splits)

text \<open>The order the comparison of two codex snapshots decides: expiry first, then last refresh.\<close>

definition codex_older :: "codex_snap \<Rightarrow> codex_snap \<Rightarrow> bool" where
  "codex_older x y \<longleftrightarrow> cx_jwt_exp x < cx_jwt_exp y \<or>
     cx_jwt_exp x = cx_jwt_exp y \<and> cx_last_refresh x \<le> cx_last_refresh y"

lemma codex_compare_own:
  "codex_compare st (SCodex x) (SCodex y) = Some c \<Longrightarrow> 0 \<le> c \<longleftrightarrow> codex_older y x"
  by (auto simp: codex_compare_def codex_older_def time_defs cmp_time_simps split: if_splits)

lemma codex_compare_swap:
  "codex_compare st (SCodex x) (SCodex y) = Some c \<Longrightarrow> codex_compare st (SCodex y) (SCodex x) = Some (- c)"
  by (auto simp: codex_compare_def time_defs cmp_time_swap [of "cx_last_refresh x"] split: if_splits)

lemma codex_older_trans: "codex_older x y \<Longrightarrow> codex_older y z \<Longrightarrow> codex_older x z"
  by (auto simp: codex_older_def)

lemma codex_validate_checked: "vr_checked (codex_validate s opt) = vo_now opt"
  by (simp add: codex_validate_def Let_def split: snapshot.split)

lemma codex_validate_not_ok:
  "is_zero_time (snap_expires s) \<or> \<not> vo_now opt < snap_expires s \<Longrightarrow>
   vr_status (codex_validate s opt) \<noteq> StatusOK"
  by (cases s)
    (auto simp: codex_validate_def Let_def time_defs expirySafetySkew_def minutes_def status_defs)

interpretation codex: format_contract codex_format "\<lambda>s. \<exists>c. s = SCodex c"
proof (unfold_locales, unfold codex_format_sel)
  fix w s assume p: "codex_parse w = Inr s"
  show "\<exists>c. s = SCodex c" "snap_raw s = w" "snap_fingerprint s = sha256_hex w"
    using p by (auto elim!: codex_parse_Inr)
next
  fix st a b d c k
  assume c: "codex_compare st a b = Some c" "\<exists>x. a = SCodex x" "\<exists>x. b = SCodex x"
  then show "codex_compare st b a = Some (- c)" using codex_compare_swap by blast
  assume k: "codex_compare st b d = Some k" "\<exists>x. d = SCodex x" "0 \<le> c" "0 \<le> k"
  obtain x y z where s: "a = SCodex x" "b = SCodex y" "d = SCodex z" using c k by blast
  have "codex_older z x" using c k codex_compare_own codex_older_trans unfolding s by blast
  moreover obtain g where g: "codex_compare st a d = Some g"
    using c(1) unfolding s by (auto simp: codex_compare_def split: if_splits)
  ultimately show "\<exists>g. codex_compare st a d = Some g \<and> 0 \<le> g"
    using codex_compare_own unfolding s by blast
next
  show "\<exists>e. codex_parse [] = Inl e" by (simp add: codex_parse_def)
  show "\<exists>c. codex_compare st a b = Some c"
    if "st \<in> set [StrategyJWTExpMax]" "\<exists>c. a = SCodex c" "\<exists>c. b = SCodex c" for st a b
    using that by (auto simp: codex_compare_def)
  show "codex_compare st a b = None" if "st \<notin> set [StrategyJWTExpMax]" for st a b
    using that by (simp add: codex_compare_def)
qed (simp_all add: codex_parse_error codex_validate_checked codex_validate_not_ok)

end
