(* ===== verification/Gemini_Oauth.thy ===== *)
theory Gemini_Oauth
  imports Codex_Auth
begin

text \<open>
  pkg/formats/geminioauth: the format of the Gemini CLI's oauth_creds.json, a credentials object
  of Google's auth library. An absent expiry date is the zero time; validation applies the
  library's five-minute eager-refresh window. The usage probe is not modelled.
\<close>

subsection \<open>Parsing\<close>

record gemini_file =
  gf_access :: "string option"
  gf_refresh :: "string option"
  gf_scope :: "string option"
  gf_token_type :: "string option"
  gf_id_token :: "string option"
  gf_expiry :: "int option"

definition dec_string_ptr :: "json \<Rightarrow> string option \<Rightarrow> string option option" where
  "dec_string_ptr = dec_ptr dec_string []"

definition dec_gemini_member :: "string \<times> json \<Rightarrow> gemini_file \<Rightarrow> gemini_file option" where
  "dec_gemini_member m b = (case m of (k, j) \<Rightarrow>
     if key_is k ''access_token'' then dec_field dec_string_ptr gf_access gf_access_update j b
     else if key_is k ''refresh_token'' then dec_field dec_string_ptr gf_refresh gf_refresh_update j b
     else if key_is k ''scope'' then dec_field dec_string_ptr gf_scope gf_scope_update j b
     else if key_is k ''token_type'' then dec_field dec_string_ptr gf_token_type gf_token_type_update j b
     else if key_is k ''id_token'' then dec_field dec_string_ptr gf_id_token gf_id_token_update j b
     else if key_is k ''expiry_date'' then
       dec_field (dec_ptr dec_int64 0) gf_expiry gf_expiry_update j b
     else Some b)"

definition dec_gemini_file :: "json \<Rightarrow> gemini_file option" where
  "dec_gemini_file j = dec_struct dec_gemini_member j
     \<lparr>gf_access = None, gf_refresh = None, gf_scope = None, gf_token_type = None,
      gf_id_token = None, gf_expiry = None\<rparr>"

text \<open>\<open>(sub, email)\<close> of an id token, empty on any failure.\<close>

definition decode_id_token_account :: "string \<Rightarrow> string \<times> string" where
  "decode_id_token_account jwt =
     (let parts = split_on (CHR ''.'') jwt in
      if length parts < 2 then ([], [])
      else case jwt_payload (parts ! 1) of
        None \<Rightarrow> ([], [])
      | Some payload \<Rightarrow>
          (case json_unmarshal payload of
             Some (JObj ms) \<Rightarrow>
               if json_any_ok (JObj ms) then (claim_or_empty ms ''sub'', claim_or_empty ms ''email'')
               else ([], [])
           | _ \<Rightarrow> ([], [])))"

definition non_empty :: "string option \<Rightarrow> string option" where
  "non_empty p = (case p of None \<Rightarrow> None | Some s \<Rightarrow> if s = [] then None else Some s)"

definition gemini_snapshot :: "string \<Rightarrow> gemini_file \<Rightarrow> string \<Rightarrow> string \<Rightarrow> gemini_snap" where
  "gemini_snapshot raw f access refresh =
     (let acct = (case gf_id_token f of None \<Rightarrow> ([], []) | Some t \<Rightarrow> decode_id_token_account t)
      in \<lparr>gm_access = access, gm_refresh = refresh,
          gm_id_token = (case gf_id_token f of None \<Rightarrow> [] | Some t \<Rightarrow> t),
          gm_token_type = (case gf_token_type f of None \<Rightarrow> [] | Some t \<Rightarrow> t),
          gm_scopes = (case non_empty (gf_scope f) of None \<Rightarrow> [] | Some sc \<Rightarrow> str_fields sc),
          gm_expiry = (case gf_expiry f of None \<Rightarrow> zero_time
            | Some ms \<Rightarrow> if ms > 0 then unix_milli ms else zero_time),
          gm_sub = fst acct, gm_email = snd acct, gm_raw = raw,
          gm_fingerprint = sha256_hex raw, gm_identity = take 16 (sha256_hex access)\<rparr>)"

definition gemini_parse :: "string \<Rightarrow> gerr + snapshot" where
  "gemini_parse raw =
     (if raw = [] then Inl (wrap_s ErrParseFailed ''empty gemini oauth bytes'' [])
      else
        case Option.bind (json_unmarshal (trim_prefix raw utf8_bom)) dec_gemini_file of
          None \<Rightarrow> Inl (wrap_e json_error ErrParseFailed ''decode gemini-oauth-creds-json-format'' [])
        | Some f \<Rightarrow> (case non_empty (gf_access f) of
            None \<Rightarrow> Inl (wrap_s ErrParseFailed ''missing access_token'' [])
          | Some access \<Rightarrow> (case non_empty (gf_refresh f) of
              None \<Rightarrow> Inl (wrap_s ErrParseFailed ''missing refresh_token'' [])
            | Some refresh \<Rightarrow> Inr (SGemini (gemini_snapshot raw f access refresh)))))"

subsection \<open>Comparison, validation, redaction, account\<close>

definition StrategyExpiryDateMax :: string where "StrategyExpiryDateMax = ''expiry_date_max''"

definition gemini_compare :: "string \<Rightarrow> snapshot \<Rightarrow> snapshot \<Rightarrow> int option" where
  "gemini_compare strategy a b =
     (if strategy \<noteq> StrategyExpiryDateMax then None
      else Some (cmp_time (snap_expires a) (snap_expires b)))"

definition eagerRefreshThreshold :: duration where "eagerRefreshThreshold = minutes 5"

definition gemini_validate :: "snapshot \<Rightarrow> validate_opts \<Rightarrow> validation_result" where
  "gemini_validate snap opts =
     (let checked_at = vo_now opts; e = snap_expires snap;
          res = (\<lambda>st d. \<lparr>vr_status = st, vr_detail = d, vr_checked = checked_at\<rparr>)
      in if is_zero_time e then res StatusExpired ''expiry_date is absent''
         else if \<not> time_before (time_add checked_at eagerRefreshThreshold) e then
           res StatusExpired ''expiry_date within 5-minute eager-refresh window''
         else res StatusOK [])"

definition gemini_redact :: "snapshot \<Rightarrow> summary" where
  "gemini_redact snap = (case snap of
     SGemini cs \<Rightarrow>
       let extra1 = (if gm_token_type cs \<noteq> [] then mput ''token_type'' (gm_token_type cs) [] else []);
           extra = (if gm_email cs \<noteq> [] then mput ''email'' (gm_email cs) extra1 else extra1)
       in \<lparr>sm_identity = gm_identity cs, sm_subscription = [],
          sm_fp_short = fp_short (gm_fingerprint cs), sm_tail4 = tail4 (gm_access cs),
          sm_expires = gm_expiry cs, sm_scopes = gm_scopes cs, sm_extra = extra\<rparr>
   | _ \<Rightarrow> foreign_summary snap)"

definition gemini_account :: "host_env \<Rightarrow> snapshot option \<Rightarrow> string \<Rightarrow> gerr + string" where
  "gemini_account env snap path = (case snap of
     Some (SGemini cs) \<Rightarrow> if gm_sub cs \<noteq> [] then Inr (gm_sub cs)
       else if gm_email cs \<noteq> [] then Inr (gm_email cs) else Inr []
   | _ \<Rightarrow> Inr [])"

definition gemini_display :: "host_env \<Rightarrow> snapshot \<Rightarrow> string \<Rightarrow> gerr + string" where
  "gemini_display env snap path = (case snap of
     SGemini cs \<Rightarrow> if gm_email cs \<noteq> [] then Inr (gm_email cs) else Inr []
   | _ \<Rightarrow> Inr [])"

definition gemini_credential_path :: "string \<Rightarrow> string" where
  "gemini_credential_path dir = path_join [dir, ''oauth_creds.json'']"

definition gemini_format :: format_ops where
  "gemini_format = \<lparr>f_name = ''gemini-oauth-creds-json-format'',
     f_strategies = [StrategyExpiryDateMax], f_parse = gemini_parse, f_validate = gemini_validate,
     f_compare = gemini_compare, f_redact = gemini_redact,
     f_account = Some gemini_account, f_display = Some gemini_display,
     f_credential_path = Some gemini_credential_path, f_watch_paths = None\<rparr>"

lemma gemini_format_sel [simp]:
  "f_name gemini_format = ''gemini-oauth-creds-json-format''"
  "f_strategies gemini_format = [StrategyExpiryDateMax]" "f_parse gemini_format = gemini_parse"
  "f_validate gemini_format = gemini_validate" "f_compare gemini_format = gemini_compare"
  "f_redact gemini_format = gemini_redact"
  "f_account gemini_format = Some gemini_account" "f_display gemini_format = Some gemini_display"
  "f_credential_path gemini_format = Some gemini_credential_path"
  "f_watch_paths gemini_format = None"
  by (simp_all add: gemini_format_def)

subsection \<open>Correctness\<close>

lemma gemini_parse_Inr:
  assumes "gemini_parse raw = Inr s"
  obtains c where "s = SGemini c" "gm_raw c = raw" "gm_fingerprint c = sha256_hex raw"
    "gm_access c \<noteq> []" "gm_refresh c \<noteq> []" "raw \<noteq> []"
    "gm_identity c = take 16 (sha256_hex (gm_access c))"
proof -
  obtain f a r where "s = SGemini (gemini_snapshot raw f a r)" "a \<noteq> []" "r \<noteq> []" "raw \<noteq> []"
    using assms unfolding gemini_parse_def non_empty_def by (auto split: if_splits option.splits)
  with that show ?thesis by (simp add: gemini_snapshot_def Let_def)
qed

lemma gemini_parse_error: "gemini_parse raw = Inl e \<Longrightarrow> is_err e ErrParseFailed"
  unfolding gemini_parse_def by (auto split: if_splits option.splits)

lemma gemini_compare_iff:
  "gemini_compare st a b = Some c \<longleftrightarrow>
   st = StrategyExpiryDateMax \<and> c = cmp_time (snap_expires a) (snap_expires b)"
  by (auto simp: gemini_compare_def)

lemma gemini_validate_not_ok:
  "is_zero_time (snap_expires s) \<or> \<not> vo_now opt < snap_expires s \<Longrightarrow>
   vr_status (gemini_validate s opt) \<noteq> StatusOK"
  by (auto simp: gemini_validate_def Let_def time_defs eagerRefreshThreshold_def minutes_def status_defs)

interpretation gemini: format_contract gemini_format "\<lambda>s. \<exists>c. s = SGemini c"
proof (unfold_locales, unfold gemini_format_sel)
  fix w s assume p: "gemini_parse w = Inr s"
  show "\<exists>c. s = SGemini c" "snap_raw s = w" "snap_fingerprint s = sha256_hex w"
    using p by (auto elim!: gemini_parse_Inr)
next
  fix st a b d c k
  assume c: "gemini_compare st a b = Some c"
  then show "gemini_compare st b a = Some (- c)"
    by (simp add: gemini_compare_iff cmp_time_swap [of "snap_expires a"])
  assume "gemini_compare st b d = Some k" "0 \<le> c" "0 \<le> k"
  with c show "\<exists>g. gemini_compare st a d = Some g \<and> 0 \<le> g"
    by (auto simp: gemini_compare_iff cmp_time_simps)
next
  show "\<exists>e. gemini_parse [] = Inl e" by (simp add: gemini_parse_def)
  show "\<exists>c. gemini_compare st a b = Some c" if "st \<in> set [StrategyExpiryDateMax]" for st a b
    using that by (simp add: gemini_compare_iff)
  show "gemini_compare st a b = None" if "st \<notin> set [StrategyExpiryDateMax]" for st a b
    using that by (simp add: gemini_compare_def)
  show "vr_checked (gemini_validate s opt) = vo_now opt" for s opt
    by (simp add: gemini_validate_def Let_def)
qed (simp_all add: gemini_parse_error gemini_validate_not_ok)

end
