(* ===== verification/Builtin_Formats.thy ===== *)
theory Builtin_Formats
  imports Claude_Creds Gemini_Oauth
begin

text \<open>
  The three formats together: the registry the package \<open>init\<close> functions build, and the facts that
  hold of every one of them.
\<close>

definition builtin_formats :: "format_ops list" where
  "builtin_formats = [claude_format, codex_format, gemini_format]"

fun register_all :: "format_ops list \<Rightarrow> registry \<Rightarrow> registry option" where
  "register_all [] r = Some r"
| "register_all (f # fs) r = Option.bind (register (Some f) r) (register_all fs)"

text \<open>The dynamic type a format's snapshots have.\<close>

definition own_snapshot :: "format_ops \<Rightarrow> snapshot \<Rightarrow> bool" where
  "own_snapshot f s = (case s of
     SClaude _ \<Rightarrow> f_name f = f_name claude_format
   | SCodex _ \<Rightarrow> f_name f = f_name codex_format
   | SGemini _ \<Rightarrow> f_name f = f_name gemini_format)"

lemma own_snapshot_builtin:
  "own_snapshot claude_format = (\<lambda>s. \<exists>c. s = SClaude c)"
  "own_snapshot codex_format = (\<lambda>s. \<exists>c. s = SCodex c)"
  "own_snapshot gemini_format = (\<lambda>s. \<exists>c. s = SGemini c)"
  by (auto simp: own_snapshot_def fun_eq_iff split: snapshot.splits)

lemma builtin_contract:
  assumes "f \<in> set builtin_formats"
  shows "format_contract f (own_snapshot f)"
proof -
  consider "f = claude_format" | "f = codex_format" | "f = gemini_format"
    using assms by (auto simp: builtin_formats_def)
  then show ?thesis
    by cases (simp_all add: own_snapshot_builtin claude.format_contract_axioms
        codex.format_contract_axioms gemini.format_contract_axioms)
qed

lemma register_all_ok: "registry_ok r \<Longrightarrow> register_all fs r = Some r' \<Longrightarrow> registry_ok r'"
proof (induction fs arbitrary: r)
  case (Cons f fs)
  then obtain q where "register (Some f) r = Some q" "register_all fs q = Some r'"
    by (auto simp: bind_eq_Some_conv)
  then show ?case using Cons.IH [of q] Cons.prems(1) register_ok by blast
qed simp

lemma builtin_names: "distinct (map f_name builtin_formats)" "[] \<notin> set (map f_name builtin_formats)"
  by (simp_all add: builtin_formats_def)

lemma register_all_fresh:
  assumes "distinct (map f_name fs)" "[] \<notin> set (map f_name fs)" "\<forall>f \<in> set fs. registry_get r (f_name f) = None"
  shows "\<exists>r'. register_all fs r = Some r' \<and>
    (\<forall>n. registry_get r' n = (case find (\<lambda>f. f_name f = n) fs of Some f \<Rightarrow> Some f | None \<Rightarrow> registry_get r n))"
  using assms
proof (induction fs arbitrary: r)
  case (Cons f fs)
  then obtain q where q: "register (Some f) r = Some q"
    by (auto simp: register_def registry_get_def)
  have g: "registry_get q n = (if n = f_name f then Some f else registry_get r n)" for n
    by (rule register_get) (rule q)
  have "\<forall>h \<in> set fs. registry_get q (f_name h) = None"
    using Cons.prems by (auto simp: g image_iff)
  from Cons.IH [OF _ _ this] Cons.prems obtain r' where
    "register_all fs q = Some r'"
    "\<forall>n. registry_get r' n = (case find (\<lambda>f. f_name f = n) fs of Some f \<Rightarrow> Some f | None \<Rightarrow> registry_get q n)"
    by auto
  moreover have "find (\<lambda>h. f_name h = f_name f) fs = None"
    using Cons.prems(1) by (auto simp: find_None_iff image_iff)
  ultimately show ?case using q by (auto simp: g split: option.splits)
qed simp

end
