(* ===== verification/Mediator_Props.thy ===== *)
theory Mediator_Props
  imports Mediator Builtin_Formats
begin

text \<open>
  The facts behind the mediator's properties: what the selection loop picks, what the buckets
  hold, what one reselection does to truths and mirror, and the invariant of the actor.
\<close>

subsection \<open>The selection loop\<close>

context format_contract
begin

lemma pick_best_max:
  assumes "st \<in> set (f_strategies fmt)" "\<forall>c \<in> set (b # cs). own (the (cd_snap c))"
  shows "\<exists>best. pick_best (f_compare fmt st) b cs = Some best \<and> best \<in> set (b # cs) \<and>
    (\<forall>c \<in> set (b # cs). \<exists>k. f_compare fmt st (the (cd_snap best)) (the (cd_snap c)) = Some k \<and> 0 \<le> k)"
  using assms(2)
proof (induction cs arbitrary: b)
  case Nil
  then show ?case using compare_refl [OF assms(1)] by auto
next
  case (Cons c cs)
  let ?sn = "\<lambda>c. the (cd_snap c)"
  have ownb: "own (?sn b)" "own (?sn c)" using Cons.prems by auto
  obtain r where r: "f_compare fmt st (?sn c) (?sn b) = Some r"
    using compare_total [OF assms(1) ownb(2,1)] by blast
  define n where "n = (if r > 0 then c else b)"
  have nin: "n \<in> {b, c}" by (simp add: n_def)
  have "\<forall>d \<in> set (n # cs). own (?sn d)" using Cons.prems nin by auto
  from Cons.IH [OF this] obtain best where best:
    "pick_best (f_compare fmt st) n cs = Some best" "best \<in> set (n # cs)"
    "\<forall>d \<in> set (n # cs). \<exists>k. f_compare fmt st (?sn best) (?sn d) = Some k \<and> 0 \<le> k" by blast
  have nb: "\<exists>k. f_compare fmt st (?sn n) (?sn d) = Some k \<and> 0 \<le> k" if "d \<in> {b, c}" for d
    using that compare_refl [OF assms(1)] ownb r compare_swap [OF r ownb(2,1)]
    by (auto simp: n_def split: if_splits)
  have "\<exists>k. f_compare fmt st (?sn best) (?sn d) = Some k \<and> 0 \<le> k" if d: "d \<in> {b, c}" for d
  proof -
    obtain k where k: "f_compare fmt st (?sn best) (?sn n) = Some k" "0 \<le> k" using best(3) by auto
    obtain l where l: "f_compare fmt st (?sn n) (?sn d) = Some l" "0 \<le> l" using nb [OF d] by blast
    have "own (?sn best)" "own (?sn n)" "own (?sn d)" using Cons.prems best(2) nin d by auto
    then show ?thesis using compare_trans [OF k(1) l(1)] k(2) l(2) by blast
  qed
  then show ?case using best r nin by (auto simp: n_def)
qed

end

lemma pick_best_mem: "pick_best cmp b cs = Some best \<Longrightarrow> best \<in> set (b # cs)"
  by (induction cs arbitrary: b) (auto split: option.splits if_splits)

subsection \<open>Buckets\<close>

lemma gomap_ok_bucket: "gomap_ok m \<Longrightarrow> gomap_ok (bucket cs m)"
  by (induction cs m rule: bucket.induct) simp_all

definition viable_in :: "string \<Rightarrow> candidate \<Rightarrow> bool" where
  "viable_in a c \<longleftrightarrow> viable c \<and> cd_account c = a"

lemma bucket_get:
  "map_of (bucket cs m) a =
     (let vs = filter (viable_in a) cs in
      if vs = [] then map_of m a else Some ((case map_of m a of None \<Rightarrow> [] | Some ws \<Rightarrow> ws) @ vs))"
proof (induction cs m rule: bucket.induct)
  case (2 c cs m)
  then show ?case by (auto simp: viable_in_def Let_def gm.get_put split: option.splits)
qed (simp add: Let_def)

lemma by_account_get:
  "map_of (by_account env cands) a =
     (let vs = filter (viable_in a) (map snd (me_cand_order env cands)) in if vs = [] then None else Some vs)"
  by (simp add: by_account_def bucket_get Let_def)

lemma gomap_ok_by_account: "gomap_ok (by_account env cands)"
  by (simp add: by_account_def gomap_ok_bucket)

lemma snd_image: "c \<in> snd ` set xs \<longleftrightarrow> (\<exists>n. (n, c) \<in> set xs)"
  by force

lemma by_account_Some:
  assumes "map_of (by_account env cands) a = Some vs" "range_ok (me_cand_order env)"
  shows "vs \<noteq> []" "c \<in> set vs \<longleftrightarrow> (\<exists>n. (n, c) \<in> set cands) \<and> viable_in a c"
  using assms by (auto simp: by_account_get Let_def range_ok_set snd_image split: if_splits)

lemma by_account_None:
  assumes "range_ok (me_cand_order env)"
  shows "map_of (by_account env cands) a = None \<longleftrightarrow> (\<forall>(n, c) \<in> set cands. \<not> viable_in a c)"
  using assms by (auto simp: by_account_get Let_def range_ok_set filter_empty_conv)

subsection \<open>Lost accounts\<close>

lemma lose_accounts_get:
  "map_of (fst (lose_accounts cfg cands as truths)) a = (if a \<in> set as then None else map_of truths a)"
proof (induction as arbitrary: truths)
  case (Cons x xs)
  then show ?case by (auto simp: split_beta gm.get_del)
qed simp

lemma lose_accounts_ok: "gomap_ok truths \<Longrightarrow> gomap_ok (fst (lose_accounts cfg cands as truths))"
  by (induction as arbitrary: truths) (auto simp: split_beta)

lemma lose_accounts_events:
  assumes "ev \<in> set (snd (lose_accounts cfg cands as truths))"
  obtains a t where "ev = Notified (lost_record cfg cands a t)" "a \<in> set as"
    "map_of truths a = Some t" "mc_notify cfg"
  using assms
proof (induction as arbitrary: truths thesis)
  case (Cons x xs)
  from Cons.prems(2) consider
      t where "map_of truths x = Some t" "mc_notify cfg" "ev = Notified (lost_record cfg cands x t)"
    | "ev \<in> set (snd (lose_accounts cfg cands xs (mdel x truths)))"
    by (cases "map_of truths x") (auto simp: split_beta split: if_splits)
  then show ?case
  proof cases
    case 1
    then show ?thesis using Cons.prems(1) by simp
  next
    case 2
    then show ?thesis
      by (rule Cons.IH [rotated]) (auto intro: Cons.prems(1) simp: gm.get_del split: if_splits)
  qed
qed simp

lemma lost_accounts_set:
  "a \<in> set (lost_accounts ba truths) \<longleftrightarrow> map_of truths a \<noteq> None \<and> map_of ba a = None"
  by (auto simp: lost_accounts_def map_of_eq_None_iff)

lemma after_lost:
  "map_of (fst (lose_accounts cfg cands (lost_accounts ba truths) truths)) a =
     (if map_of ba a = None then None else map_of truths a)"
  by (auto simp: lose_accounts_get lost_accounts_set)

subsection \<open>One account\<close>

text \<open>The truth an account has after its turn.\<close>

definition truth_after :: "truth_state option \<Rightarrow> truth_state option \<Rightarrow> truth_state option" where
  "truth_after prev t = (case t of None \<Rightarrow> prev | Some ts \<Rightarrow> Some ts)"

lemma store_truth_get:
  "map_of (store_truth a t truths) b = (if b = a then truth_after (map_of truths a) t else map_of truths b)"
  by (auto simp: store_truth_def truth_after_def gm.get_put split: option.splits)

lemma store_truth_ok: "gomap_ok truths \<Longrightarrow> gomap_ok (store_truth a t truths)"
  by (simp add: store_truth_def split: option.splits)

lemma push_truth_events:
  "Pushed s p r \<in> set (snd (push_truth cfg env cands ts src)) \<longleftrightarrow>
   p = truth_push_of cfg ts \<and> r = me_send env s p \<and>
   (\<exists>nid. (nid, s) \<in> set (me_session_order env (me_sessions env)) \<and> push_target cfg cands ts src nid)"
  by (auto simp: push_truth_def Let_def image_iff)

lemma push_truth_no_notify: "Notified n \<notin> set (snd (push_truth cfg env cands ts src))"
  by (auto simp: push_truth_def Let_def)

lemma select_account_cases:
  assumes "select_account cfg env cands fn a vs prev = Some (t, evs)"
  obtains (suppressed) best where
      "pick_best (f_compare (mc_format cfg) (effective_strategy cfg)) (hd vs) (tl vs) = Some best"
      "truth_changed prev best" "cooling_down cfg env a prev" "t = None" "evs = []"
  | (changed) best where
      "pick_best (f_compare (mc_format cfg) (effective_strategy cfg)) (hd vs) (tl vs) = Some best"
      "truth_changed prev best" "\<not> cooling_down cfg env a prev" "t = Some (new_truth env a fn best)"
      "\<And>s p r. Pushed s p r \<in> set evs \<longleftrightarrow>
         Pushed s p r \<in> set (snd (push_truth cfg env cands (new_truth env a fn best) (cd_node best)))"
  | (unchanged) best ts where
      "pick_best (f_compare (mc_format cfg) (effective_strategy cfg)) (hd vs) (tl vs) = Some best"
      "prev = Some ts" "ts_fingerprint ts = cd_fingerprint best" "t = None"
      "\<And>s p r. Pushed s p r \<in> set evs \<longleftrightarrow>
         Pushed s p r \<in> set (snd (push_truth cfg env cands ts (cd_node best)))"
proof -
  obtain best where b: "pick_best (f_compare (mc_format cfg) (effective_strategy cfg)) (hd vs) (tl vs) = Some best"
    using assms by (auto simp: select_account_def split: option.splits)
  show ?thesis
  proof (cases "truth_changed prev best")
    case True
    then show ?thesis
      using assms b suppressed changed
      by (auto simp: select_account_def Let_def split_beta split: if_splits)
  next
    case False
    then obtain ts where "prev = Some ts" "ts_fingerprint ts = cd_fingerprint best"
      by (auto simp: truth_changed_def split: option.splits)
    with False b assms show ?thesis
      by (intro unchanged [of best ts]) (auto simp: select_account_def Let_def split_beta split: if_splits)
  qed
qed

lemma cooling_down_Some: "cooling_down cfg env a prev \<Longrightarrow> \<exists>t. prev = Some t"
  by (auto simp: cooling_down_def split: option.splits)

lemma new_truth_sel [simp]:
  "ts_account (new_truth env a fn best) = a" "ts_fingerprint (new_truth env a fn best) = cd_fingerprint best"
  "ts_raw_b64 (new_truth env a fn best) = std_encode (snap_raw (the (cd_snap best)))"
  "ts_format (new_truth env a fn best) = fn" "ts_summary (new_truth env a fn best) = cd_summary best"
  "ts_pushed (new_truth env a fn best) = me_select_now env a"
  "ts_issued (new_truth env a fn best) = me_select_now env a"
  by (simp_all add: new_truth_def Let_def)

lemma select_account_defined:
  assumes "select_account cfg env cands fn a vs prev = Some (t, evs)"
  shows "truth_after prev t \<noteq> None"
  using assms
  by (cases rule: select_account_cases) (auto simp: truth_after_def dest: cooling_down_Some)

lemma select_account_push:
  assumes "select_account cfg env cands fn a vs prev = Some (t, evs)" "Pushed s p r \<in> set evs"
  shows "\<exists>ts best nid. truth_after prev t = Some ts \<and> p = truth_push_of cfg ts \<and> r = me_send env s p \<and>
    (nid, s) \<in> set (me_session_order env (me_sessions env)) \<and> push_target cfg cands ts (cd_node best) nid \<and>
    ts_fingerprint ts = cd_fingerprint best \<and>
    pick_best (f_compare (mc_format cfg) (effective_strategy cfg)) (hd vs) (tl vs) = Some best"
  using assms(1)
proof (cases rule: select_account_cases)
  case (changed best)
  then show ?thesis using assms(2) by (simp add: push_truth_events truth_after_def)
next
  case (unchanged best ts)
  then show ?thesis using assms(2) by (simp add: push_truth_events truth_after_def)
qed (use assms(2) in simp)

subsection \<open>All accounts\<close>

lemma select_accounts_spec:
  assumes "select_accounts cfg env cands fn l truths = Some (truths', evs)" "distinct (map fst l)"
  shows "\<And>a. a \<notin> fst ` set l \<Longrightarrow> map_of truths' a = map_of truths a"
    "\<And>a vs. (a, vs) \<in> set l \<Longrightarrow> \<exists>t evs'. select_account cfg env cands fn a vs (map_of truths a) = Some (t, evs') \<and>
       map_of truths' a = truth_after (map_of truths a) t \<and> set evs' \<subseteq> set evs"
    "\<And>ev. ev \<in> set evs \<Longrightarrow> \<exists>a vs t evs'. (a, vs) \<in> set l \<and> ev \<in> set evs' \<and>
       select_account cfg env cands fn a vs (map_of truths a) = Some (t, evs') \<and>
       map_of truths' a = truth_after (map_of truths a) t"
    "gomap_ok truths \<Longrightarrow> gomap_ok truths'"
proof -
  have main: "(\<forall>a. a \<notin> fst ` set l \<longrightarrow> map_of truths' a = map_of truths a) \<and>
    (\<forall>(a, vs) \<in> set l. \<exists>t evs'. select_account cfg env cands fn a vs (map_of truths a) = Some (t, evs') \<and>
       map_of truths' a = truth_after (map_of truths a) t \<and> set evs' \<subseteq> set evs) \<and>
    (\<forall>ev \<in> set evs. \<exists>a vs t evs'. (a, vs) \<in> set l \<and> ev \<in> set evs' \<and>
       select_account cfg env cands fn a vs (map_of truths a) = Some (t, evs') \<and>
       map_of truths' a = truth_after (map_of truths a) t) \<and> (gomap_ok truths \<longrightarrow> gomap_ok truths')"
    using assms
  proof (induction l arbitrary: truths evs)
    case (Cons x l)
    obtain a vs where x: "x = (a, vs)" by (cases x)
    with Cons.prems(1) obtain t evs1 evs2 where s:
      "select_account cfg env cands fn a vs (map_of truths a) = Some (t, evs1)"
      "select_accounts cfg env cands fn l (store_truth a t truths) = Some (truths', evs2)"
      "evs = evs1 @ evs2" by (auto split: option.splits)
    have d: "distinct (map fst l)" "a \<notin> fst ` set l" using Cons.prems(2) x by auto
    note IH = Cons.IH [OF s(2) d(1)]
    have other: "map_of (store_truth a t truths) b = map_of truths b" if "b \<in> fst ` set l" for b
      using that d(2) by (auto simp: store_truth_get)
    have here: "map_of truths' a = truth_after (map_of truths a) t"
      using IH d(2) by (simp add: store_truth_get)
    have 1: "\<forall>b. b \<notin> fst ` set (x # l) \<longrightarrow> map_of truths' b = map_of truths b"
      using IH x by (simp add: store_truth_get)
    have 2: "\<forall>(b, ws) \<in> set (x # l). \<exists>t evs'. select_account cfg env cands fn b ws (map_of truths b) = Some (t, evs') \<and>
       map_of truths' b = truth_after (map_of truths b) t \<and> set evs' \<subseteq> set evs"
    proof (intro ballI, clarify)
      fix b ws assume b: "(b, ws) \<in> set (x # l)"
      show "\<exists>t evs'. select_account cfg env cands fn b ws (map_of truths b) = Some (t, evs') \<and>
         map_of truths' b = truth_after (map_of truths b) t \<and> set evs' \<subseteq> set evs"
      proof (cases "(b, ws) \<in> set l")
        case True
        then have "b \<in> fst ` set l" by force
        then have o: "map_of (store_truth a t truths) b = map_of truths b" by (rule other)
        show ?thesis using IH True s(3) unfolding o [symmetric] by fastforce
      next
        case False
        then show ?thesis using b x s here by auto
      qed
    qed
    have 3: "\<forall>ev \<in> set evs. \<exists>b ws t evs'. (b, ws) \<in> set (x # l) \<and> ev \<in> set evs' \<and>
       select_account cfg env cands fn b ws (map_of truths b) = Some (t, evs') \<and>
       map_of truths' b = truth_after (map_of truths b) t"
    proof
      fix ev assume ev: "ev \<in> set evs"
      show "\<exists>b ws t evs'. (b, ws) \<in> set (x # l) \<and> ev \<in> set evs' \<and>
         select_account cfg env cands fn b ws (map_of truths b) = Some (t, evs') \<and>
         map_of truths' b = truth_after (map_of truths b) t"
      proof (cases "ev \<in> set evs1")
        case True
        then show ?thesis using x s here by auto
      next
        case False
        then have "ev \<in> set evs2" using ev s(3) by simp
        with IH obtain b ws t' evs' where b: "(b, ws) \<in> set l" "ev \<in> set evs'"
          "select_account cfg env cands fn b ws (map_of (store_truth a t truths) b) = Some (t', evs')"
          "map_of truths' b = truth_after (map_of (store_truth a t truths) b) t'" by blast
        then have "b \<in> fst ` set l" by force
        then show ?thesis using b other by (metis list.set_intros(2))
      qed
    qed
    show ?case using 1 2 3 IH store_truth_ok by blast
  qed auto
  show "\<And>a. a \<notin> fst ` set l \<Longrightarrow> map_of truths' a = map_of truths a" using main by blast
  show "\<And>a vs. (a, vs) \<in> set l \<Longrightarrow> \<exists>t evs'. select_account cfg env cands fn a vs (map_of truths a) = Some (t, evs') \<and>
       map_of truths' a = truth_after (map_of truths a) t \<and> set evs' \<subseteq> set evs" using main by blast
  show "\<And>ev. ev \<in> set evs \<Longrightarrow> \<exists>a vs t evs'. (a, vs) \<in> set l \<and> ev \<in> set evs' \<and>
       select_account cfg env cands fn a vs (map_of truths a) = Some (t, evs') \<and>
       map_of truths' a = truth_after (map_of truths a) t" using main by blast
  show "gomap_ok truths \<Longrightarrow> gomap_ok truths'" using main by blast
qed

subsection \<open>One reselection\<close>

definition env_ok :: "med_env \<Rightarrow> bool" where
  "env_ok env \<longleftrightarrow> range_ok (me_cand_order env) \<and> range_ok (me_account_order env) \<and>
     range_ok (me_session_order env)"

lemma account_order_facts:
  assumes "range_ok (me_account_order env)"
  shows "distinct (map fst (me_account_order env (by_account env cands)))"
    "(a, vs) \<in> set (me_account_order env (by_account env cands)) \<longleftrightarrow> map_of (by_account env cands) a = Some vs"
    "a \<in> fst ` set (me_account_order env (by_account env cands)) \<longleftrightarrow> map_of (by_account env cands) a \<noteq> None"
proof -
  let ?l = "me_account_order env (by_account env cands)"
  have "gomap_ok ?l" using assms gomap_ok_by_account by (simp add: range_ok_gomap)
  then show "distinct (map fst ?l)" by (simp add: gomap_ok_def)
  have st: "set ?l = set (by_account env cands)" using assms by (rule range_ok_set)
  show "(a, vs) \<in> set ?l \<longleftrightarrow> map_of (by_account env cands) a = Some vs"
    unfolding st using gomap_ok_by_account by (simp add: gm.entries_get)
  show "a \<in> fst ` set ?l \<longleftrightarrow> map_of (by_account env cands) a \<noteq> None"
    unfolding st by (simp add: map_of_eq_None_iff)
qed

text \<open>A reselection is the removal of lost accounts followed by the loop over the others.\<close>

lemma reselect_form:
  assumes "reselect cfg env fn m = Some (m', evs)" "range_ok (me_account_order env)"
  defines "ba \<equiv> by_account env (md_cands m)"
  defines "lose \<equiv> lose_accounts cfg (md_cands m) (lost_accounts ba (md_truths m)) (md_truths m)"
  obtains evs2 where
    "select_accounts cfg env (md_cands m) fn (me_account_order env ba) (fst lose) = Some (md_truths m', evs2)"
    "evs = snd lose @ evs2" "md_cands m' = md_cands m" "md_mirror m' = mirror_of (md_truths m') (md_cands m)"
proof (cases "ba = []")
  case True
  then have "me_account_order env ba = []" using assms(2) by (simp add: range_ok_Nil)
  with True show ?thesis using assms(1) that
    by (auto simp: reselect_def Let_def split_beta lose_def ba_def)
next
  case False
  with assms(1) that show ?thesis
    by (auto simp: reselect_def Let_def split_beta lose_def ba_def split: option.splits)
qed

lemma reselect_keeps:
  assumes "reselect cfg env fn m = Some (m', evs)" "env_ok env"
  shows "md_cands m' = md_cands m" "md_mirror m' = mirror_of (md_truths m') (md_cands m)"
    "gomap_ok (md_truths m) \<Longrightarrow> gomap_ok (md_truths m')"
proof -
  have ord: "range_ok (me_account_order env)" using assms(2) by (simp add: env_ok_def)
  obtain evs2 where sel: "select_accounts cfg env (md_cands m) fn
      (me_account_order env (by_account env (md_cands m)))
      (fst (lose_accounts cfg (md_cands m) (lost_accounts (by_account env (md_cands m)) (md_truths m)) (md_truths m)))
      = Some (md_truths m', evs2)"
    and "md_cands m' = md_cands m" "md_mirror m' = mirror_of (md_truths m') (md_cands m)"
    using reselect_form [OF assms(1) ord] by blast
  then show "md_cands m' = md_cands m" "md_mirror m' = mirror_of (md_truths m') (md_cands m)" by simp_all
  show "gomap_ok (md_truths m')" if "gomap_ok (md_truths m)"
    using select_accounts_spec(4) [OF sel account_order_facts(1) [OF ord]] lose_accounts_ok [OF that] by simp
qed

text \<open>After it, the accounts with a truth are the accounts with a viable candidate.\<close>

lemma reselect_truths:
  assumes "reselect cfg env fn m = Some (m', evs)" "env_ok env"
  defines "ba \<equiv> by_account env (md_cands m)"
  shows "map_of ba a = None \<Longrightarrow> map_of (md_truths m') a = None"
    and "map_of ba a = Some vs \<Longrightarrow> \<exists>t evs'.
      select_account cfg env (md_cands m) fn a vs (map_of (md_truths m) a) = Some (t, evs') \<and>
      map_of (md_truths m') a = truth_after (map_of (md_truths m) a) t \<and> set evs' \<subseteq> set evs"
    and "Pushed s p r \<in> set evs \<Longrightarrow> \<exists>a vs t evs'. map_of ba a = Some vs \<and> Pushed s p r \<in> set evs' \<and>
      select_account cfg env (md_cands m) fn a vs (map_of (md_truths m) a) = Some (t, evs') \<and>
      map_of (md_truths m') a = truth_after (map_of (md_truths m) a) t"
proof -
  let ?lose = "lose_accounts cfg (md_cands m) (lost_accounts ba (md_truths m)) (md_truths m)"
  have ord: "range_ok (me_account_order env)" using assms(2) by (simp add: env_ok_def)
  obtain evs2 where sel: "select_accounts cfg env (md_cands m) fn (me_account_order env ba) (fst ?lose)
      = Some (md_truths m', evs2)" and evs: "evs = snd ?lose @ evs2"
    using reselect_form [OF assms(1) ord] unfolding ba_def by blast
  note af = account_order_facts [OF ord, where cands = "md_cands m", folded ba_def]
  note sp = select_accounts_spec [OF sel af(1)]
  have t1: "map_of (fst ?lose) b = (if map_of ba b = None then None else map_of (md_truths m) b)" for b
    by (rule after_lost)
  show "map_of ba a = None \<Longrightarrow> map_of (md_truths m') a = None"
    using sp(1) [of a] af(3) t1 by simp
  show "map_of ba a = Some vs \<Longrightarrow> \<exists>t evs'.
      select_account cfg env (md_cands m) fn a vs (map_of (md_truths m) a) = Some (t, evs') \<and>
      map_of (md_truths m') a = truth_after (map_of (md_truths m) a) t \<and> set evs' \<subseteq> set evs"
    using sp(2) [of a vs] af(2) t1 [of a] evs by auto
  show "\<exists>a vs t evs'. map_of ba a = Some vs \<and> Pushed s p r \<in> set evs' \<and>
      select_account cfg env (md_cands m) fn a vs (map_of (md_truths m) a) = Some (t, evs') \<and>
      map_of (md_truths m') a = truth_after (map_of (md_truths m) a) t" if "Pushed s p r \<in> set evs"
  proof -
    have "Pushed s p r \<notin> set (snd ?lose)" by (auto elim: lose_accounts_events)
    then have "Pushed s p r \<in> set evs2" using that evs by simp
    from sp(3) [OF this] obtain b ws t evs' where b: "(b, ws) \<in> set (me_account_order env ba)"
      "Pushed s p r \<in> set evs'" "select_account cfg env (md_cands m) fn b ws (map_of (fst ?lose) b) = Some (t, evs')"
      "map_of (md_truths m') b = truth_after (map_of (fst ?lose) b) t" by blast
    moreover from b(1) have "map_of ba b = Some ws" using af(2) by blast
    ultimately show ?thesis using t1 [of b] by auto
  qed
qed

subsection \<open>The invariant of the actor\<close>

text \<open>
  A candidate's snapshot is the parse of its own bytes and its fingerprint is the snapshot's; a
  truth's base64 decodes to bytes that parse to a snapshot with the truth's fingerprint; keys are
  the accounts and nodes of what they hold; the mirror shows the truths.
\<close>

definition cand_ok :: "format_ops \<Rightarrow> candidate \<Rightarrow> bool" where
  "cand_ok fmt c = (case cd_snap c of None \<Rightarrow> True
     | Some s \<Rightarrow> (case f_parse fmt (snap_raw s) of Inl _ \<Rightarrow> False
         | Inr s' \<Rightarrow> s' = s \<and> cd_fingerprint c = snap_fingerprint s))"

definition truth_ok :: "format_ops \<Rightarrow> truth_state \<Rightarrow> bool" where
  "truth_ok fmt t = (case std_decode (ts_raw_b64 t) of None \<Rightarrow> False
     | Some w \<Rightarrow> (case f_parse fmt w of Inl _ \<Rightarrow> False | Inr s \<Rightarrow> snap_fingerprint s = ts_fingerprint t))"

definition mirror_sync :: "mediator \<Rightarrow> bool" where
  "mirror_sync m \<longleftrightarrow>
     map (\<lambda>(a, t). (a, t\<lparr>mt_nodes := []\<rparr>)) (md_mirror m) = mirror_of (md_truths m) []"

definition med_inv :: "format_ops \<Rightarrow> mediator \<Rightarrow> bool" where
  "med_inv fmt m \<longleftrightarrow> gomap_ok (md_cands m) \<and> gomap_ok (md_truths m) \<and>
     (\<forall>(n, c) \<in> set (md_cands m). cd_node c = n \<and> cand_ok fmt c) \<and>
     (\<forall>(a, t) \<in> set (md_truths m). ts_account t = a \<and> truth_ok fmt t) \<and> mirror_sync m"

lemma new_mediator_inv: "med_inv fmt new_mediator"
  by (simp add: med_inv_def new_mediator_def mirror_sync_def mirror_of_def)

lemma mirror_of_sync: "md_mirror m = mirror_of (md_truths m) cands \<Longrightarrow> mirror_sync m"
  by (simp add: mirror_sync_def mirror_of_def split_beta account_nodes_def sort_compact_def)

lemma med_inv_cand: "med_inv fmt m \<Longrightarrow> map_of (md_cands m) n = Some c \<Longrightarrow> cd_node c = n \<and> cand_ok fmt c"
  by (auto simp: med_inv_def dest: map_of_SomeD)

lemma med_inv_truth: "med_inv fmt m \<Longrightarrow> map_of (md_truths m) a = Some t \<Longrightarrow> ts_account t = a \<and> truth_ok fmt t"
  by (auto simp: med_inv_def dest: map_of_SomeD)

lemma med_inv_put:
  assumes "med_inv fmt m" "cd_node c = n" "cand_ok fmt c"
  shows "med_inv fmt (m\<lparr>md_cands := mput n c (md_cands m)\<rparr>)"
proof -
  have "(k, d) \<in> set (mput n c (md_cands m)) \<longleftrightarrow> (if k = n then d = c else (k, d) \<in> set (md_cands m))" for k d
    using assms(1) by (intro gm.entries_put) (simp add: med_inv_def)
  then show ?thesis using assms by (auto simp: med_inv_def mirror_sync_def split: if_splits)
qed

lemma med_inv_del:
  assumes "med_inv fmt m"
  shows "med_inv fmt (m\<lparr>md_cands := mdel n (md_cands m)\<rparr>)"
proof -
  have "(k, d) \<in> set (mdel n (md_cands m)) \<longleftrightarrow> k \<noteq> n \<and> (k, d) \<in> set (md_cands m)" for k d
    using assms by (intro gm.entries_del) (simp add: med_inv_def)
  then show ?thesis using assms by (auto simp: med_inv_def mirror_sync_def)
qed

text \<open>What the invariant gives for the candidates of a bucket.\<close>

lemma bucket_cands:
  assumes "med_inv fmt m" "map_of (by_account env (md_cands m)) a = Some vs" "range_ok (me_cand_order env)"
  shows "vs \<noteq> []" "c \<in> set vs \<Longrightarrow> cd_account c = a \<and> viable c \<and> map_of (md_cands m) (cd_node c) = Some c \<and>
    (\<exists>s. cd_snap c = Some s \<and> f_parse fmt (snap_raw s) = Inr s \<and> cd_fingerprint c = snap_fingerprint s)"
proof -
  note b = by_account_Some [OF assms(2,3)]
  show "vs \<noteq> []" using b(1) .
  assume "c \<in> set vs"
  then obtain n where n: "(n, c) \<in> set (md_cands m)" "viable_in a c" using b(2) by blast
  then have "map_of (md_cands m) n = Some c" using assms(1) by (simp add: med_inv_def gm.entries_get)
  with med_inv_cand [OF assms(1) this] n(2)
  show "cd_account c = a \<and> viable c \<and> map_of (md_cands m) (cd_node c) = Some c \<and>
    (\<exists>s. cd_snap c = Some s \<and> f_parse fmt (snap_raw s) = Inr s \<and> cd_fingerprint c = snap_fingerprint s)"
    by (auto simp: viable_in_def viable_def cand_ok_def split: option.splits sum.splits)
qed

lemma effective_strategy_mem: "f_strategies (mc_format cfg) \<noteq> [] \<Longrightarrow> effective_strategy cfg \<in> set (f_strategies (mc_format cfg))"
  by (simp add: effective_strategy_def Let_def)

text \<open>The candidate an account's loop picks: it exists and no viable candidate is newer.\<close>

lemma best_exists:
  assumes "format_contract (mc_format cfg) own" "med_inv (mc_format cfg) m"
    "map_of (by_account env (md_cands m)) a = Some vs" "range_ok (me_cand_order env)"
  shows "\<exists>best. pick_best (f_compare (mc_format cfg) (effective_strategy cfg)) (hd vs) (tl vs) = Some best \<and>
    best \<in> set vs \<and> (\<forall>c \<in> set vs. \<exists>k. f_compare (mc_format cfg) (effective_strategy cfg)
      (the (cd_snap best)) (the (cd_snap c)) = Some k \<and> 0 \<le> k)"
proof -
  note bc = bucket_cands [OF assms(2-4)]
  note st = effective_strategy_mem [OF format_contract.has_strategy [OF assms(1)]]
  have "\<forall>c \<in> set vs. own (the (cd_snap c))"
    using bc(2) format_contract.parse_own [OF assms(1)] by fastforce
  moreover have "hd vs # tl vs = vs" using bc(1) by simp
  ultimately show ?thesis
    using format_contract.pick_best_max [OF assms(1) st, of "hd vs" "tl vs"] by simp
qed

lemma select_account_total:
  assumes "format_contract (mc_format cfg) own" "med_inv (mc_format cfg) m"
    "map_of (by_account env (md_cands m)) a = Some vs" "range_ok (me_cand_order env)"
  shows "\<exists>t evs. select_account cfg env (md_cands m) fn a vs prev = Some (t, evs)"
  using best_exists [OF assms] by (auto simp: select_account_def Let_def split_beta)

lemma select_accounts_total:
  assumes "\<And>a vs prev. (a, vs) \<in> set l \<Longrightarrow> \<exists>t evs. select_account cfg env cands fn a vs prev = Some (t, evs)"
  shows "\<exists>r. select_accounts cfg env cands fn l truths = Some r"
  using assms
proof (induction l arbitrary: truths)
  case (Cons x l)
  obtain a vs where x: "x = (a, vs)" by (cases x)
  obtain t evs where "select_account cfg env cands fn a vs (map_of truths a) = Some (t, evs)"
    using Cons.prems x by (meson list.set_intros(1))
  moreover obtain r where "select_accounts cfg env cands fn l (store_truth a t truths) = Some r"
    using Cons by (meson list.set_intros(2))
  ultimately show ?case by (simp add: x split_beta)
qed simp

text \<open>No handler panics: every comparison is of two own snapshots under a supported strategy.\<close>

lemma reselect_total:
  assumes "format_contract (mc_format cfg) own" "med_inv (mc_format cfg) m" "env_ok env"
  shows "\<exists>m' evs. reselect cfg env fn m = Some (m', evs)"
proof -
  have ord: "range_ok (me_cand_order env)" "range_ok (me_account_order env)"
    using assms(3) by (simp_all add: env_ok_def)
  let ?ba = "by_account env (md_cands m)"
  let ?lose = "lose_accounts cfg (md_cands m) (lost_accounts ?ba (md_truths m)) (md_truths m)"
  have "\<exists>r. select_accounts cfg env (md_cands m) fn (me_account_order env ?ba) (fst ?lose) = Some r"
    by (rule select_accounts_total, rule select_account_total [OF assms(1,2) _ ord(1)])
      (simp add: account_order_facts(2) [OF ord(2)])
  then obtain r where r: "select_accounts cfg env (md_cands m) fn (me_account_order env ?ba) (fst ?lose) = Some r" ..
  show ?thesis by (cases r) (simp add: reselect_def Let_def split_beta r)
qed

lemma new_truth_ok:
  assumes "f_parse fmt (snap_raw s) = Inr s" "cd_snap best = Some s" "cd_fingerprint best = snap_fingerprint s"
  shows "truth_ok fmt (new_truth env a fn best)"
  using assms by (simp add: truth_ok_def std.dec_enc)

lemma reselect_inv:
  assumes "med_inv (mc_format cfg) m" "env_ok env" "reselect cfg env fn m = Some (m', evs)"
  shows "med_inv (mc_format cfg) m'"
proof -
  note k = reselect_keeps [OF assms(3,2)]
  have ord: "range_ok (me_cand_order env)" using assms(2) by (simp add: env_ok_def)
  have ok: "gomap_ok (md_truths m')" using k(3) assms(1) by (simp add: med_inv_def)
  have t: "ts_account t = a \<and> truth_ok (mc_format cfg) t" if at: "(a, t) \<in> set (md_truths m')" for a t
  proof -
    have m': "map_of (md_truths m') a = Some t" using at ok by (simp add: gm.entries_get)
    then obtain vs where vs: "map_of (by_account env (md_cands m)) a = Some vs"
      using reselect_truths(1) [OF assms(3,2)] by fastforce
    from reselect_truths(2) [OF assms(3,2) vs] obtain u evs' where
      sel: "select_account cfg env (md_cands m) fn a vs (map_of (md_truths m) a) = Some (u, evs')"
      and after: "map_of (md_truths m') a = truth_after (map_of (md_truths m) a) u" by blast
    note bc = bucket_cands [OF assms(1) vs ord]
    from sel show ?thesis
    proof (cases rule: select_account_cases)
      case (changed best)
      then have "best \<in> set vs" using pick_best_mem bc(1) by (metis list.collapse)
      from bc(2) [OF this] obtain sn where "cd_snap best = Some sn"
        "f_parse (mc_format cfg) (snap_raw sn) = Inr sn" "cd_fingerprint best = snap_fingerprint sn" by blast
      then have ok: "truth_ok (mc_format cfg) (new_truth env a fn best)" by (intro new_truth_ok)
      from changed m' after have "t = new_truth env a fn best" by (simp add: truth_after_def)
      with ok show ?thesis by simp
    qed (use m' after med_inv_truth [OF assms(1)] in \<open>simp_all add: truth_after_def\<close>)
  qed
  show ?thesis using assms(1) k(1,2) ok t mirror_of_sync [of m']
    by (auto simp: med_inv_def)
qed

subsection \<open>The handlers\<close>

text \<open>The candidates a turn starts its reselection from, when it reselects, and the format name.\<close>

definition cands_before :: "med_config \<Rightarrow> med_env \<Rightarrow> med_input \<Rightarrow> mediator \<Rightarrow> (mediator \<times> string) option" where
  "cands_before cfg env inp m = (case inp of
     InReport s p \<Rightarrow>
       (case base64_decode (sr_raw_b64 p) of Inl _ \<Rightarrow> None
        | Inr raw \<Rightarrow> (case f_parse (mc_format cfg) raw of Inl _ \<Rightarrow> None
            | Inr snap \<Rightarrow> Some (m\<lparr>md_cands := mput (se_node s)
                    \<lparr>cd_node = se_node s, cd_account = sr_account p, cd_session = s, cd_snap = Some snap,
                     cd_fingerprint = snap_fingerprint snap,
                     cd_status = downgrade (vr_status (f_validate (mc_format cfg) snap
                       (local_opts (me_validate_now env)))) (sr_live p),
                     cd_reported = me_report_now env, cd_path = sr_path p, cd_summary = sr_summary p,
                     cd_live = lc_result (sr_live p), cd_absent = False, cd_applied = []\<rparr> (md_cands m)\<rparr>,
                   sr_format p)))
   | InAbsent s p \<Rightarrow> Some (m\<lparr>md_cands := mput (se_node s)
       \<lparr>cd_node = se_node s, cd_account = sa_account p, cd_session = s, cd_snap = None,
        cd_fingerprint = [], cd_status = [], cd_reported = me_report_now env, cd_path = [],
        cd_summary = None, cd_live = [], cd_absent = True, cd_applied = []\<rparr> (md_cands m)\<rparr>,
       pf_format (mc_profile cfg))
   | InAck s p \<Rightarrow> None
   | InDisconnect nid \<Rightarrow> Some (m\<lparr>md_cands := mdel nid (md_cands m)\<rparr>, pf_format (mc_profile cfg)))"

text \<open>Every turn either reselects from there or sends nothing and leaves truths and mirror alone.\<close>

lemma med_turn_reselect:
  "cands_before cfg env inp m = Some (m1, fn) \<Longrightarrow> med_turn cfg env inp m = reselect cfg env fn m1"
  by (auto simp: cands_before_def med_turn_def on_report_def on_absent_def on_disconnect_def Let_def
      split: med_input.splits sum.splits)

lemma med_turn_quiet:
  assumes "cands_before cfg env inp m = None"
  shows "\<exists>m'. med_turn cfg env inp m = Some (m', []) \<and> md_truths m' = md_truths m \<and> md_mirror m' = md_mirror m"
  using assms
  by (auto simp: cands_before_def med_turn_def on_report_def on_ack_def Let_def
      split: med_input.splits sum.splits)

text \<open>The turns that reselect: those of a report that parses, of an absence and of a disconnect. An acknowledgement
  and a report that cannot be decoded or parsed do not.\<close>

definition reselects :: "med_config \<Rightarrow> med_input \<Rightarrow> bool" where
  "reselects cfg inp = (case inp of
     InReport s p \<Rightarrow> (case base64_decode (sr_raw_b64 p) of Inl _ \<Rightarrow> False
       | Inr raw \<Rightarrow> (case f_parse (mc_format cfg) raw of Inl _ \<Rightarrow> False | Inr _ \<Rightarrow> True))
   | InAbsent s p \<Rightarrow> True | InAck s p \<Rightarrow> False | InDisconnect nid \<Rightarrow> True)"

lemma reselects_iff: "reselects cfg inp \<longleftrightarrow> (\<exists>m1 fn. cands_before cfg env inp m = Some (m1, fn))"
  by (auto simp: reselects_def cands_before_def split: med_input.splits sum.splits)

lemma downgrade_parse_ok:
  "f_parse fmt raw = Inr s \<Longrightarrow> format_contract fmt own \<Longrightarrow> f_parse fmt (snap_raw s) = Inr s"
  using format_contract.reparse by blast

lemma cands_before_inv:
  assumes "format_contract (mc_format cfg) own" "med_inv (mc_format cfg) m"
    "cands_before cfg env inp m = Some (m1, fn)"
  shows "med_inv (mc_format cfg) m1"
  using assms(2,3) downgrade_parse_ok [OF _ assms(1)]
  by (auto simp: cands_before_def cand_ok_def intro!: med_inv_put med_inv_del
      split: med_input.splits sum.splits)

lemma quiet_inv:
  assumes "med_inv (mc_format cfg) m" "cands_before cfg env inp m = None"
    "med_turn cfg env inp m = Some (m', evs)"
  shows "med_inv (mc_format cfg) m'"
proof (cases inp)
  case (InReport s p)
  then show ?thesis using assms
    by (auto simp: cands_before_def med_turn_def on_report_def cand_ok_def intro!: med_inv_put
        split: sum.splits)
next
  case (InAck s p)
  have "cand_ok (mc_format cfg) c \<Longrightarrow> cand_ok (mc_format cfg) (c\<lparr>cd_applied := x\<rparr>)" for c x
    by (simp add: cand_ok_def split: option.splits sum.splits)
  with InAck assms med_inv_cand [OF assms(1)] show ?thesis
    by (auto simp: med_turn_def on_ack_def Let_def cand_ok_def intro!: med_inv_put split: option.splits)
qed (use assms in \<open>simp_all add: cands_before_def\<close>)

lemma med_turn_inv:
  assumes "format_contract (mc_format cfg) own" "med_inv (mc_format cfg) m" "env_ok env"
    "med_turn cfg env inp m = Some (m', evs)"
  shows "med_inv (mc_format cfg) m'"
proof (cases "cands_before cfg env inp m")
  case None
  then show ?thesis by (rule quiet_inv [OF assms(2) _ assms(4)])
next
  case (Some x)
  obtain m1 fn where x: "x = (m1, fn)" by (cases x)
  have m1: "med_inv (mc_format cfg) m1" by (rule cands_before_inv [OF assms(1,2) Some [unfolded x]])
  have "reselect cfg env fn m1 = Some (m', evs)"
    using assms(4) Some x med_turn_reselect by metis
  then show ?thesis by (rule reselect_inv [OF m1 assms(3)])
qed

lemma med_turn_total:
  assumes "format_contract (mc_format cfg) own" "med_inv (mc_format cfg) m" "env_ok env"
  shows "\<exists>m' evs. med_turn cfg env inp m = Some (m', evs)"
proof (cases "cands_before cfg env inp m")
  case None
  then show ?thesis using med_turn_quiet by blast
next
  case (Some x)
  obtain m1 fn where x: "x = (m1, fn)" by (cases x)
  have m1: "med_inv (mc_format cfg) m1" by (rule cands_before_inv [OF assms(1,2) Some [unfolded x]])
  show ?thesis using reselect_total [OF assms(1) m1 assms(3), of fn] Some x med_turn_reselect by metis
qed

subsection \<open>Reachable states\<close>

inductive med_reach :: "med_config \<Rightarrow> mediator \<Rightarrow> bool" for cfg where
  start: "med_reach cfg new_mediator"
| turn: "med_reach cfg m \<Longrightarrow> env_ok env \<Longrightarrow> med_turn cfg env inp m = Some (m', evs) \<Longrightarrow> med_reach cfg m'"

lemma med_reach_inv:
  assumes "med_reach cfg m" "mc_format cfg \<in> set builtin_formats"
  shows "med_inv (mc_format cfg) m"
  using assms(1)
proof (induction rule: med_reach.induct)
  case start
  show ?case by (rule new_mediator_inv)
next
  case (turn m env inp m' evs)
  then show ?case using med_turn_inv [OF builtin_contract [OF assms(2)]] by blast
qed

lemma turn_push:
  assumes "env_ok env" "med_turn cfg env inp m = Some (m', evs)" "Pushed s p r \<in> set evs"
  obtains m1 fn a vs t evs' where "cands_before cfg env inp m = Some (m1, fn)"
    "reselect cfg env fn m1 = Some (m', evs)" "md_cands m' = md_cands m1"
    "map_of (by_account env (md_cands m1)) a = Some vs"
    "select_account cfg env (md_cands m1) fn a vs (map_of (md_truths m1) a) = Some (t, evs')"
    "Pushed s p r \<in> set evs'" "map_of (md_truths m') a = truth_after (map_of (md_truths m1) a) t"
proof (cases "cands_before cfg env inp m")
  case None
  then show ?thesis using med_turn_quiet [OF None] assms(2,3) by auto
next
  case (Some x)
  obtain m1 fn where x: "x = (m1, fn)" by (cases x)
  then have r: "reselect cfg env fn m1 = Some (m', evs)"
    using assms(2) Some med_turn_reselect by metis
  from reselect_truths(3) [OF r assms(1,3)] reselect_keeps(1) [OF r assms(1)] show ?thesis
    using that [OF Some [unfolded x] r] by blast
qed

subsection \<open>Properties\<close>

text \<open>C5: In every reachable state, for each of the three formats, every turn of the actor
  returns: no handler panics in \<open>Compare\<close>, whatever the input and the runtime's choices.\<close>

theorem mediator_never_panics:
  assumes "mc_format cfg \<in> set builtin_formats" "med_reach cfg m" "env_ok env"
  shows "\<exists>m' evs. med_turn cfg env inp m = Some (m', evs)"
  using med_turn_total [OF builtin_contract [OF assms(1)] med_reach_inv [OF assms(2,1)] assms(3)] .

lemma push_facts:
  assumes "mc_format cfg \<in> set builtin_formats" "med_reach cfg m" "env_ok env"
    "med_turn cfg env inp m = Some (m', evs)" "Pushed s p r \<in> set evs"
  shows "\<exists>nid c t. (nid, s) \<in> set (me_sessions env) \<and> map_of (md_cands m') nid = Some c \<and>
    cd_account c = tp_account p \<and>
    (ps_mode (pf_propagate (mc_profile cfg)) = PropagateModeAll \<or> cd_absent c \<or>
     cd_fingerprint c \<noteq> tp_fingerprint p) \<and>
    map_of (md_truths m') (tp_account p) = Some t \<and> p = truth_push_of cfg t"
proof -
  obtain m1 :: mediator and fn a vs t evs' where f: "md_cands m' = md_cands m1"
    "select_account cfg env (md_cands m1) fn a vs (map_of (md_truths m1) a) = Some (t, evs')"
    "Pushed s p r \<in> set evs'" "map_of (md_truths m') a = truth_after (map_of (md_truths m1) a) t"
    by (rule turn_push [OF assms(3-5)]) blast
  from select_account_push [OF f(2,3)] obtain ts nid and best :: candidate where ts:
    "truth_after (map_of (md_truths m1) a) t = Some ts" "p = truth_push_of cfg ts"
    "(nid, s) \<in> set (me_session_order env (me_sessions env))"
    "push_target cfg (md_cands m1) ts (cd_node best) nid" by blast
  have "med_inv (mc_format cfg) m'" by (rule med_reach_inv [OF med_reach.turn assms(1)]) (fact assms)+
  then have a: "ts_account ts = a" using med_inv_truth f(4) ts(1) by simp
  have "(nid, s) \<in> set (me_sessions env)" using ts(3) assms(3) by (simp add: env_ok_def range_ok_set)
  moreover obtain c where "map_of (md_cands m1) nid = Some c" "cd_account c = a"
    "ps_mode (pf_propagate (mc_profile cfg)) = PropagateModeAll \<or> cd_absent c \<or> cd_fingerprint c \<noteq> ts_fingerprint ts"
    using ts(4) a by (auto simp: push_target_def in_account_def stale_def split: option.splits)
  ultimately show ?thesis using f(1,4) ts(1,2) a by (auto simp: truth_push_of_def)
qed

text \<open>C1: A truth for an account is only ever sent to a connected node whose latest candidate
  carries that account, and, unless the mode is \<open>to_all\<close>, only when that candidate is absent or
  holds other bytes; it is the truth the actor has stored for that account.\<close>

theorem push_partition:
  assumes "mc_format cfg \<in> set builtin_formats" "med_reach cfg m" "env_ok env"
    "med_turn cfg env inp m = Some (m', evs)" "Pushed s p r \<in> set evs"
  shows "\<exists>nid c t. (nid, s) \<in> set (me_sessions env) \<and> map_of (md_cands m') nid = Some c \<and>
    cd_account c = tp_account p \<and>
    (ps_mode (pf_propagate (mc_profile cfg)) = PropagateModeAll \<or> cd_absent c \<or>
     cd_fingerprint c \<noteq> tp_fingerprint p) \<and>
    map_of (md_truths m') (tp_account p) = Some t \<and> p = truth_push_of cfg t"
  by (rule push_facts [OF assms])

lemma push_bytes:
  assumes "mc_format cfg \<in> set builtin_formats" "med_reach cfg m" "env_ok env"
    "med_turn cfg env inp m = Some (m', evs)" "Pushed s p r \<in> set evs"
  shows "\<exists>w sn. base64_decode (tp_raw_b64 p) = Inr w \<and> f_parse (mc_format cfg) w = Inr sn \<and>
    tp_fingerprint p = sha256_hex w"
proof -
  note fc = builtin_contract [OF assms(1)]
  have inv: "med_inv (mc_format cfg) m'" by (rule med_reach_inv [OF med_reach.turn assms(1)]) (fact assms)+
  obtain m1 :: mediator and fn a vs t evs' where f:
    "select_account cfg env (md_cands m1) fn a vs (map_of (md_truths m1) a) = Some (t, evs')"
    "Pushed s p r \<in> set evs'" "map_of (md_truths m') a = truth_after (map_of (md_truths m1) a) t"
    by (rule turn_push [OF assms(3-5)]) blast
  from select_account_push [OF f(1,2)] obtain ts where ts: "map_of (md_truths m') a = Some ts"
    "p = truth_push_of cfg ts" using f(3) by auto
  then obtain w sn where w: "std_decode (ts_raw_b64 ts) = Some w" "f_parse (mc_format cfg) w = Inr sn"
    "snap_fingerprint sn = ts_fingerprint ts"
    using med_inv_truth [OF inv ts(1)] by (auto simp: truth_ok_def split: option.splits sum.splits)
  have "ts_raw_b64 ts \<noteq> []"
  proof
    assume "ts_raw_b64 ts = []"
    then have "w = []" using w(1) by (simp add: std_decode_def b64_decode_def)
    with w(2) show False using format_contract.parse_empty [OF fc] by simp
  qed
  with w ts(2) show ?thesis
    using format_contract.parse_fingerprint [OF fc w(2)]
    by (simp add: base64_decode_def truth_push_of_def)
qed

text \<open>C2: Every truth sent is intact: its base64 decodes to bytes whose SHA-256 is its fingerprint
  and which parse under the profile's format.\<close>

theorem push_integrity:
  assumes "mc_format cfg \<in> set builtin_formats" "med_reach cfg m" "env_ok env"
    "med_turn cfg env inp m = Some (m', evs)" "Pushed s p r \<in> set evs"
  shows "\<exists>w sn. base64_decode (tp_raw_b64 p) = Inr w \<and> f_parse (mc_format cfg) w = Inr sn \<and>
    tp_fingerprint p = sha256_hex w"
  by (rule push_bytes [OF assms])

lemma truths_viable:
  assumes "env_ok env" "cands_before cfg env inp m = Some (m1, fn)"
    "med_turn cfg env inp m = Some (m', evs)"
  shows "(map_of (md_truths m') a \<noteq> None \<longleftrightarrow> (\<exists>n c. (n, c) \<in> set (md_cands m') \<and> viable_in a c)) \<and>
    md_mirror m' = mirror_of (md_truths m') (md_cands m')"
proof -
  have r: "reselect cfg env fn m1 = Some (m', evs)" using med_turn_reselect assms(2,3) by metis
  have "range_ok (me_cand_order env)" using assms(1) by (simp add: env_ok_def)
  note bn = by_account_None [OF this, of "md_cands m1" a]
  note k = reselect_keeps [OF r assms(1)]
  have "map_of (md_truths m') a \<noteq> None \<longleftrightarrow> map_of (by_account env (md_cands m1)) a \<noteq> None"
    using reselect_truths(1,2) [OF r assms(1)] select_account_defined
    by (cases "map_of (by_account env (md_cands m1)) a") (simp, metis option.distinct(1))
  then show ?thesis using k bn by auto
qed

text \<open>After a report that parses, an absence or a disconnect, the accounts that have a truth
  are exactly the accounts of the viable candidates, and the mirror shows these truths with, for
  each account, the sorted names of the nodes whose candidate carries it.\<close>

theorem truths_of_viable_accounts:
  assumes "env_ok env" "cands_before cfg env inp m = Some (m1, fn)"
    "med_turn cfg env inp m = Some (m', evs)"
  shows "(map_of (md_truths m') a \<noteq> None \<longleftrightarrow> (\<exists>n c. (n, c) \<in> set (md_cands m') \<and> viable_in a c)) \<and>
    md_mirror m' = mirror_of (md_truths m') (md_cands m')"
  by (rule truths_viable [OF assms])

lemma cands_before_keeps:
  "cands_before cfg env inp m = Some (m1, fn) \<Longrightarrow> md_truths m1 = md_truths m \<and> md_mirror m1 = md_mirror m"
  by (auto simp: cands_before_def split: med_input.splits sum.splits)

text \<open>How a reselecting turn treats one account that has a truth afterwards.\<close>

lemma turn_account:
  assumes "env_ok env" "cands_before cfg env inp m = Some (m1, fn)"
    "med_turn cfg env inp m = Some (m', evs)" "map_of (md_truths m') a = Some t"
  shows "\<exists>vs u evs'. map_of (by_account env (md_cands m')) a = Some vs \<and>
    select_account cfg env (md_cands m') fn a vs (map_of (md_truths m) a) = Some (u, evs') \<and>
    truth_after (map_of (md_truths m) a) u = Some t \<and> set evs' \<subseteq> set evs"
proof -
  have r: "reselect cfg env fn m1 = Some (m', evs)" using med_turn_reselect assms(2,3) by metis
  note k = reselect_keeps [OF r assms(1)] cands_before_keeps [OF assms(2)]
  obtain vs where vs: "map_of (by_account env (md_cands m1)) a = Some vs"
    using reselect_truths(1) [OF r assms(1)] assms(4) by fastforce
  from reselect_truths(2) [OF r assms(1) vs] vs k assms(4) show ?thesis by auto
qed

lemma best_or_cooling:
  assumes "mc_format cfg \<in> set builtin_formats" "med_reach cfg m" "env_ok env"
    "cands_before cfg env inp m = Some (m1, fn)" "med_turn cfg env inp m = Some (m', evs)"
    "map_of (md_truths m') a = Some t"
  shows "(\<exists>n best. map_of (md_cands m') n = Some best \<and> viable_in a best \<and>
      ts_fingerprint t = cd_fingerprint best \<and>
      (\<forall>(n', c) \<in> set (md_cands m'). viable_in a c \<longrightarrow>
        (\<exists>k. f_compare (mc_format cfg) (effective_strategy cfg) (the (cd_snap best)) (the (cd_snap c)) = Some k \<and> 0 \<le> k)))
    \<or> (map_of (md_truths m) a = Some t \<and>
      time_sub (me_since_now env a) (ts_pushed t) < ps_cooldown (pf_propagate (mc_profile cfg)))"
proof -
  note fc = builtin_contract [OF assms(1)]
  have inv: "med_inv (mc_format cfg) m'"
    by (rule med_reach_inv [OF med_reach.turn [OF assms(2,3,5)] assms(1)])
  have o: "range_ok (me_cand_order env)" using assms(3) by (simp add: env_ok_def)
  from turn_account [OF assms(3-6)] obtain vs u evs' where
    vs: "map_of (by_account env (md_cands m')) a = Some vs"
    and sel: "select_account cfg env (md_cands m') fn a vs (map_of (md_truths m) a) = Some (u, evs')"
    and t: "truth_after (map_of (md_truths m) a) u = Some t" by blast
  from best_exists [OF fc inv vs o] obtain best where
    b: "pick_best (f_compare (mc_format cfg) (effective_strategy cfg)) (hd vs) (tl vs) = Some best" "best \<in> set vs"
    "\<forall>c \<in> set vs. \<exists>k. f_compare (mc_format cfg) (effective_strategy cfg)
      (the (cd_snap best)) (the (cd_snap c)) = Some k \<and> 0 \<le> k" by blast
  have mem: "c \<in> set vs" if "(n', c) \<in> set (md_cands m')" "viable_in a c" for n' c
    using that by_account_Some(2) [OF vs o] by blast
  have best: "map_of (md_cands m') (cd_node best) = Some best" "viable_in a best"
    using bucket_cands(2) [OF inv vs o b(2)] by (simp_all add: viable_in_def)
  show ?thesis
  proof (cases "ts_fingerprint t = cd_fingerprint best")
    case True
    then show ?thesis using best b(3) mem by blast
  next
    case False
    with sel b(1) t show ?thesis
      by (cases rule: select_account_cases) (auto simp: truth_after_def cooling_down_def split: option.splits)
  qed
qed

text \<open>C3: In a turn that reselects the truth chosen for an account is the newest: it is that of a viable candidate of the
  account which the format's comparison puts below no other, unless the account's previous truth
  was kept because it was pushed less than the cooldown ago. Any other turn leaves all truths as they are and sends nothing.\<close>

theorem truth_is_newest:
  assumes "mc_format cfg \<in> set builtin_formats" "med_reach cfg m" "env_ok env" "med_turn cfg env inp m = Some (m', evs)"
  shows "if reselects cfg inp then
      (case map_of (md_truths m') a of
         None \<Rightarrow> True
       | Some t \<Rightarrow> (\<exists>n best. map_of (md_cands m') n = Some best \<and> viable_in a best \<and>
           ts_fingerprint t = cd_fingerprint best \<and>
           (\<forall>(n', c) \<in> set (md_cands m'). viable_in a c \<longrightarrow>
             (\<exists>k. f_compare (mc_format cfg) (effective_strategy cfg) (the (cd_snap best)) (the (cd_snap c)) = Some k \<and> 0 \<le> k)))
         \<or> (map_of (md_truths m) a = Some t \<and>
           time_sub (me_since_now env a) (ts_pushed t) < ps_cooldown (pf_propagate (mc_profile cfg))))
    else md_truths m' = md_truths m \<and> evs = []"
proof (cases "reselects cfg inp")
  case True
  then obtain m1 fn where "cands_before cfg env inp m = Some (m1, fn)" unfolding reselects_iff [where env = env and m = m] by blast
  then show ?thesis using True best_or_cooling [OF assms(1-3) _ assms(4)] by (auto split: option.split)
next
  case False
  then have "cands_before cfg env inp m = None" unfolding reselects_iff [where env = env and m = m] by (cases "cands_before cfg env inp m") auto
  from med_turn_quiet [OF this] show ?thesis using assms(4) False by auto
qed

text \<open>C7: While an account's truth is younger than the cooldown, a turn that would change it
  neither changes it nor sends anything of that account.\<close>

theorem cooldown_holds:
  assumes "mc_format cfg \<in> set builtin_formats" "med_reach cfg m" "env_ok env"
    "med_turn cfg env inp m = Some (m', evs)" "map_of (md_truths m) a = Some t"
    "time_sub (me_since_now env a) (ts_pushed t) < ps_cooldown (pf_propagate (mc_profile cfg))"
    "0 < ps_cooldown (pf_propagate (mc_profile cfg))"
  shows "map_of (md_truths m') a \<in> {None, Some t} \<and>
    (\<forall>s p r. Pushed s p r \<in> set evs \<longrightarrow> tp_account p = a \<longrightarrow> p = truth_push_of cfg t)"
proof -
  have cool: "cooling_down cfg env a (Some t)" using assms(6,7) by (simp add: cooling_down_def)
  have keep: "map_of (md_truths m') a \<in> {None, Some t}"
  proof (cases "cands_before cfg env inp m")
    case None
    then show ?thesis using med_turn_quiet [OF None] assms(4,5) by auto
  next
    case (Some x)
    obtain m1 fn where x: "x = (m1, fn)" by (cases x)
    show ?thesis
    proof (cases "map_of (md_truths m') a")
      case (Some t')
      from turn_account [OF assms(3) \<open>cands_before cfg env inp m = Some x\<close> [unfolded x] assms(4) Some]
      obtain vs u evs' where
        "select_account cfg env (md_cands m') fn a vs (Some t) = Some (u, evs')"
        "truth_after (Some t) u = Some t'" using assms(5) by auto
      then show ?thesis using cool Some
        by (cases rule: select_account_cases) (auto simp: truth_after_def)
    qed simp
  qed
  have "p = truth_push_of cfg t" if ev: "Pushed s p r \<in> set evs" and ac: "tp_account p = a" for s p r
  proof -
    obtain t' where "map_of (md_truths m') a = Some t'" "p = truth_push_of cfg t'"
      using push_facts [OF assms(1-4) ev] ac by blast
    with keep show ?thesis by auto
  qed
  with keep show ?thesis by blast
qed

text \<open>The push pass leaves nobody behind: every connected node of the account that is absent or
  holds other bytes is a target, when the account is not cooling down.\<close>

lemma select_account_targets:
  assumes "select_account cfg env cands fn a vs prev = Some (t, evs)" "truth_after prev t = Some ts"
    "\<not> cooling_down cfg env a prev" "(nid, s) \<in> set (me_session_order env (me_sessions env))"
    "map_of cands nid = Some c" "cd_account c = ts_account ts"
    "cd_absent c \<or> cd_fingerprint c \<noteq> ts_fingerprint ts"
    and best: "\<And>b. pick_best (f_compare (mc_format cfg) (effective_strategy cfg)) (hd vs) (tl vs) = Some b \<Longrightarrow>
      map_of cands (cd_node b) = Some b \<and> \<not> cd_absent b"
  shows "Pushed s (truth_push_of cfg ts) (me_send env s (truth_push_of cfg ts)) \<in> set evs"
proof -
  have tgt: "push_target cfg cands ts (cd_node b) nid"
    if "pick_best (f_compare (mc_format cfg) (effective_strategy cfg)) (hd vs) (tl vs) = Some b"
      "ts_fingerprint ts = cd_fingerprint b" for b
  proof -
    have "nid \<noteq> cd_node b" using best [OF that(1)] that(2) assms(5,7) by auto
    then show ?thesis using assms(5-7) by (simp add: push_target_def in_account_def stale_def)
  qed
  from assms(1) show ?thesis
  proof (cases rule: select_account_cases)
    case (changed b)
    with assms(2) have "ts = new_truth env a fn b" by (simp add: truth_after_def)
    with changed tgt [of b] assms(4) show ?thesis by (auto simp: push_truth_events)
  next
    case (unchanged b ts')
    with assms(2) have "ts' = ts" by (simp add: truth_after_def)
    with unchanged tgt [of b] assms(4) show ?thesis by (auto simp: push_truth_events)
  qed (use assms(3) in simp)
qed

text \<open>C4: A turn that reselects - one of a report that parses, of an absence or of a disconnect - leaves no connected node of an account behind: unless the account's
  earlier truth is still cooling down, every connected node whose candidate carries the account and
  is absent or holds other bytes than the account's truth is sent that truth in this turn.\<close>

theorem push_complete:
  assumes "mc_format cfg \<in> set builtin_formats" "med_reach cfg m" "env_ok env"
    "reselects cfg inp" "med_turn cfg env inp m = Some (m', evs)"
    "map_of (md_truths m') a = Some t" "\<not> cooling_down cfg env a (map_of (md_truths m) a)"
    "(nid, s) \<in> set (me_sessions env)" "map_of (md_cands m') nid = Some c" "cd_account c = a"
    "cd_absent c \<or> cd_fingerprint c \<noteq> ts_fingerprint t"
  shows "Pushed s (truth_push_of cfg t) (me_send env s (truth_push_of cfg t)) \<in> set evs"
proof -
  have inv: "med_inv (mc_format cfg) m'"
    by (rule med_reach_inv [OF med_reach.turn [OF assms(2,3,5)] assms(1)])
  have o: "range_ok (me_cand_order env)" "range_ok (me_session_order env)"
    using assms(3) by (simp_all add: env_ok_def)
  obtain m1 fn where before: "cands_before cfg env inp m = Some (m1, fn)"
    using assms(4) unfolding reselects_iff [where env = env and m = m] by blast
  from turn_account [OF assms(3) before assms(5,6)] obtain vs u evs' where
    vs: "map_of (by_account env (md_cands m')) a = Some vs"
    and sel: "select_account cfg env (md_cands m') fn a vs (map_of (md_truths m) a) = Some (u, evs')"
    and t: "truth_after (map_of (md_truths m) a) u = Some t" and sub: "set evs' \<subseteq> set evs" by blast
  note bc = bucket_cands [OF inv vs o(1)]
  have "map_of (md_cands m') (cd_node b) = Some b \<and> \<not> cd_absent b"
    if "pick_best (f_compare (mc_format cfg) (effective_strategy cfg)) (hd vs) (tl vs) = Some b" for b
    using pick_best_mem [OF that] bc by (auto simp: viable_def)
  moreover have "ts_account t = a" using med_inv_truth [OF inv assms(6)] by simp
  ultimately have "Pushed s (truth_push_of cfg t) (me_send env s (truth_push_of cfg t)) \<in> set evs'"
    using assms(7-11) range_ok_set [OF o(2)] by (intro select_account_targets [OF sel t]) simp_all
  with sub show ?thesis by blast
qed

subsection \<open>Notifications\<close>

lemma lose_accounts_notified:
  "a \<in> set as \<Longrightarrow> map_of truths a = Some t \<Longrightarrow> mc_notify cfg \<Longrightarrow>
   Notified (lost_record cfg cands a t) \<in> set (snd (lose_accounts cfg cands as truths))"
proof (induction as arbitrary: truths)
  case (Cons x xs)
  then show ?case by (cases "x = a") (auto simp: split_beta gm.get_del)
qed simp

lemma select_account_restored:
  assumes "select_account cfg env cands fn a vs prev = Some (t, evs)" "Notified r \<in> set evs"
    "tr_event r = EventTruthRestored"
  shows "prev = None \<and> mc_notify cfg \<and> (\<exists>ts. truth_after prev t = Some ts \<and> tr_account r = ts_account ts)"
  using assms push_truth_no_notify
  by (auto simp: select_account_def Let_def split_beta truth_after_def restored_record_def
      propagation_record_def zero_record_def EventTruthRestored_def split: option.splits if_splits)

lemma select_account_no_lost:
  assumes "select_account cfg env cands fn a vs prev = Some (t, evs)" "Notified r \<in> set evs"
  shows "tr_event r \<noteq> EventTruthLost"
  using assms push_truth_no_notify
  by (auto simp: select_account_def Let_def split_beta restored_record_def EventTruthRestored_def
      EventTruthLost_def propagation_record_def zero_record_def split: option.splits if_splits)

lemma select_account_restores:
  assumes "select_account cfg env cands fn a vs None = Some (t, evs)" "mc_notify cfg"
  shows "\<exists>r. Notified r \<in> set evs \<and> tr_event r = EventTruthRestored \<and> tr_account r = a"
  using assms
  by (auto simp: select_account_def Let_def split_beta truth_changed_def cooling_down_def
      restored_record_def split: option.splits)

lemma reselect_events:
  assumes "reselect cfg env fn m = Some (m', evs)" "env_ok env"
  defines "ba \<equiv> by_account env (md_cands m)"
  shows "ev \<in> set evs \<longleftrightarrow>
    ev \<in> set (snd (lose_accounts cfg (md_cands m) (lost_accounts ba (md_truths m)) (md_truths m))) \<or>
    (\<exists>a vs t evs'. map_of ba a = Some vs \<and> ev \<in> set evs' \<and>
      select_account cfg env (md_cands m) fn a vs (map_of (md_truths m) a) = Some (t, evs') \<and>
      map_of (md_truths m') a = truth_after (map_of (md_truths m) a) t)" (is "_ \<longleftrightarrow> _ \<or> ?sel")
proof -
  let ?lose = "lose_accounts cfg (md_cands m) (lost_accounts ba (md_truths m)) (md_truths m)"
  have ord: "range_ok (me_account_order env)" using assms(2) by (simp add: env_ok_def)
  obtain evs2 where sel: "select_accounts cfg env (md_cands m) fn (me_account_order env ba) (fst ?lose)
      = Some (md_truths m', evs2)" and evs: "evs = snd ?lose @ evs2"
    using reselect_form [OF assms(1) ord] unfolding ba_def by blast
  note af = account_order_facts [OF ord, where cands = "md_cands m", folded ba_def]
  have t1: "map_of (fst ?lose) b = (if map_of ba b = None then None else map_of (md_truths m) b)" for b
    by (rule after_lost)
  have "?sel" if "ev \<in> set evs2"
    using select_accounts_spec(3) [OF sel af(1) that] af(2) t1 by fastforce
  moreover have "ev \<in> set evs" if "?sel"
    using that reselect_truths(2) [OF assms(1,2)] unfolding ba_def by fastforce
  ultimately show ?thesis using evs by auto
qed

text \<open>C6: When a turn reselects, the notifier is told of a lost truth for exactly the accounts that
  had a truth before it and have none after it, and of a restored truth for exactly the accounts
  that had none before and have one after.\<close>

theorem notifications_are_transitions:
  assumes "mc_format cfg \<in> set builtin_formats" "med_reach cfg m" "env_ok env" "mc_notify cfg"
    "cands_before cfg env inp m = Some (m1, fn)" "med_turn cfg env inp m = Some (m', evs)"
  shows "((\<exists>r. Notified r \<in> set evs \<and> tr_event r = EventTruthLost \<and> tr_account r = a) \<longleftrightarrow>
      map_of (md_truths m) a \<noteq> None \<and> map_of (md_truths m') a = None) \<and>
    ((\<exists>r. Notified r \<in> set evs \<and> tr_event r = EventTruthRestored \<and> tr_account r = a) \<longleftrightarrow>
      map_of (md_truths m) a = None \<and> map_of (md_truths m') a \<noteq> None)"
proof -
  have r: "reselect cfg env fn m1 = Some (m', evs)" using med_turn_reselect assms(5,6) by metis
  have inv: "med_inv (mc_format cfg) m'"
    by (rule med_reach_inv [OF med_reach.turn [OF assms(2,3,6)] assms(1)])
  note same = cands_before_keeps [OF assms(5)]
  let ?ba = "by_account env (md_cands m1)"
  let ?ls = "snd (lose_accounts cfg (md_cands m1) (lost_accounts ?ba (md_truths m1)) (md_truths m1))"
  note ev = reselect_events [OF r assms(3)]
  note tr = reselect_truths [OF r assms(3)]
  have defd: "map_of (md_truths m') b \<noteq> None \<longleftrightarrow> map_of ?ba b \<noteq> None" for b
    using tr(1,2) [of b] select_account_defined by (cases "map_of ?ba b") (simp, metis option.distinct(1))
  have lost: "(\<exists>r. Notified r \<in> set ?ls \<and> tr_event r = e \<and> tr_account r = a) \<longleftrightarrow>
      e = EventTruthLost \<and> map_of (md_truths m) a \<noteq> None \<and> map_of ?ba a = None" for e
  proof
    assume "\<exists>r. Notified r \<in> set ?ls \<and> tr_event r = e \<and> tr_account r = a"
    then show "e = EventTruthLost \<and> map_of (md_truths m) a \<noteq> None \<and> map_of ?ba a = None"
      using same by (auto elim!: lose_accounts_events simp: lost_record_def lost_accounts_set)
  next
    assume h: "e = EventTruthLost \<and> map_of (md_truths m) a \<noteq> None \<and> map_of ?ba a = None"
    then obtain t where "map_of (md_truths m1) a = Some t" using same by auto
    with h have "Notified (lost_record cfg (md_cands m1) a t) \<in> set ?ls"
      using assms(4) by (intro lose_accounts_notified) (simp_all add: lost_accounts_set)
    with h show "\<exists>r. Notified r \<in> set ?ls \<and> tr_event r = e \<and> tr_account r = a"
      by (auto simp: lost_record_def)
  qed
  have 1: "(\<exists>r. Notified r \<in> set evs \<and> tr_event r = EventTruthLost \<and> tr_account r = a) \<longleftrightarrow>
      map_of (md_truths m) a \<noteq> None \<and> map_of (md_truths m') a = None"
    using lost [of EventTruthLost] ev select_account_no_lost defd [of a] by (metis (no_types, lifting))
  have 2: "map_of (md_truths m) a = None \<and> map_of (md_truths m') a \<noteq> None"
    if n: "Notified r \<in> set evs" and e: "tr_event r = EventTruthRestored" and ac: "tr_account r = a" for r
  proof -
    have "Notified r \<notin> set ?ls" using e
      by (auto elim!: lose_accounts_events simp: lost_record_def EventTruthLost_def EventTruthRestored_def)
    then obtain b vs t evs' where b: "Notified r \<in> set evs'"
      "select_account cfg env (md_cands m1) fn b vs (map_of (md_truths m1) b) = Some (t, evs')"
      "map_of (md_truths m') b = truth_after (map_of (md_truths m1) b) t"
      using n ev by blast
    from select_account_restored [OF b(2,1) e] b(3) same obtain ts where
      "map_of (md_truths m) b = None" "map_of (md_truths m') b = Some ts" "tr_account r = ts_account ts" by auto
    with ac med_inv_truth [OF inv] show ?thesis by fastforce
  qed
  have 3: "\<exists>r. Notified r \<in> set evs \<and> tr_event r = EventTruthRestored \<and> tr_account r = a"
    if d: "map_of (md_truths m) a = None" "map_of (md_truths m') a \<noteq> None"
  proof -
    obtain vs where vs: "map_of ?ba a = Some vs" using d(2) defd by blast
    from tr(2) [OF vs] d(1) same obtain t evs' where
      "select_account cfg env (md_cands m1) fn a vs None = Some (t, evs')" "set evs' \<subseteq> set evs" by auto
    with select_account_restores [OF this(1) assms(4)] show ?thesis by blast
  qed
  have "(\<exists>r. Notified r \<in> set evs \<and> tr_event r = EventTruthRestored \<and> tr_account r = a) \<longleftrightarrow>
      map_of (md_truths m) a = None \<and> map_of (md_truths m') a \<noteq> None"
    by (rule iffI, elim exE conjE, rule 2, assumption+, elim conjE, rule 3)
  with 1 show ?thesis by (rule conjI)
qed

subsection \<open>Reports\<close>

lemma builtin_local_status:
  assumes "f \<in> set builtin_formats"
  shows "vr_status (f_validate f snap (local_opts t)) \<in> {StatusOK, StatusExpired, StatusScopeWarn}"
  using assms
  by (auto simp: builtin_formats_def claude_validate_def codex_validate_def gemini_validate_def Let_def
      local_opts_def split: snapshot.splits)

lemma on_report_cand:
  assumes "base64_decode (sr_raw_b64 p) = Inr raw" "f_parse (mc_format cfg) raw = Inr sn" "env_ok env"
    "med_turn cfg env (InReport s p) m = Some (m', evs)"
  obtains c where "map_of (md_cands m') (se_node s) = Some c" "cd_snap c = Some sn" "\<not> cd_absent c"
    "cd_account c = sr_account p" "cd_fingerprint c = snap_fingerprint sn"
    "cd_status c = downgrade (vr_status (f_validate (mc_format cfg) sn (local_opts (me_validate_now env)))) (sr_live p)"
proof -
  from assms(1,2) obtain m1 :: mediator and c where m1: "cands_before cfg env (InReport s p) m = Some (m1, sr_format p)"
    "md_cands m1 = mput (se_node s) c (md_cands m)" "cd_snap c = Some sn" "\<not> cd_absent c"
    "cd_account c = sr_account p" "cd_fingerprint c = snap_fingerprint sn"
    "cd_status c = downgrade (vr_status (f_validate (mc_format cfg) sn (local_opts (me_validate_now env)))) (sr_live p)"
    by (simp add: cands_before_def)
  have "reselect cfg env (sr_format p) m1 = Some (m', evs)"
    using med_turn_reselect [OF m1(1)] assms(4) by simp
  from reselect_keeps(1) [OF this assms(3)] m1 that show ?thesis by (simp add: gm.get_put)
qed

text \<open>A client's live check can only lower the status of what it reports: after a report that
  parses, the node's candidate has status ok only if the server's own validation of the reported
  bytes says ok and the client did not report expired, revoked or unreachable; after a report of
  expired or revoked the candidate can be chosen only where the server's validation says
  scope_warn.\<close>

theorem live_check_only_downgrades:
  assumes "mc_format cfg \<in> set builtin_formats" "env_ok env" "base64_decode (sr_raw_b64 p) = Inr raw"
    "f_parse (mc_format cfg) raw = Inr sn" "med_turn cfg env (InReport s p) m = Some (m', evs)"
  shows "\<exists>c. map_of (md_cands m') (se_node s) = Some c \<and> cd_snap c = Some sn \<and>
    (cd_status c = StatusOK \<longleftrightarrow>
      vr_status (f_validate (mc_format cfg) sn (local_opts (me_validate_now env))) = StatusOK \<and>
      \<not> (lc_performed (sr_live p) \<and> lc_result (sr_live p) \<in> {StatusExpired, StatusRevoked, StatusUnreachable})) \<and>
    (lc_performed (sr_live p) \<and> lc_result (sr_live p) \<in> {StatusExpired, StatusRevoked} \<longrightarrow>
      (viable c \<longleftrightarrow> vr_status (f_validate (mc_format cfg) sn (local_opts (me_validate_now env))) = StatusScopeWarn))"
proof -
  obtain c where c: "map_of (md_cands m') (se_node s) = Some c" "cd_snap c = Some sn" "\<not> cd_absent c"
    "cd_status c = downgrade (vr_status (f_validate (mc_format cfg) sn (local_opts (me_validate_now env)))) (sr_live p)"
    by (rule on_report_cand [OF assms(3,4,2,5)])
  have "vr_status (f_validate (mc_format cfg) sn (local_opts (me_validate_now env)))
      \<in> {StatusOK, StatusExpired, StatusScopeWarn}" by (rule builtin_local_status [OF assms(1)])
  with c show ?thesis by (auto simp: viable_def downgrade_def status_defs)
qed

text \<open>A report whose bytes do not parse changes nothing but the reporter's candidate, which can no
  longer be chosen: no truth is dropped, nothing is sent and the mirror stays as it was, until
  another message makes the actor reselect.\<close>

theorem parse_failure_is_silent:
  assumes "base64_decode (sr_raw_b64 p) = Inr raw" "f_parse (mc_format cfg) raw = Inl e"
  shows "\<exists>c m'. med_turn cfg env (InReport s p) m = Some (m', []) \<and> md_truths m' = md_truths m \<and>
    md_mirror m' = md_mirror m \<and> md_cands m' = mput (se_node s) c (md_cands m) \<and>
    cd_status c = StatusParseError \<and> \<not> viable c"
  using assms by (simp add: med_turn_def on_report_def viable_def) (rule exI, rule conjI, rule refl, simp)

text \<open>A turn touches the candidate of one node only, the one its message comes from.\<close>

theorem turn_frame:
  assumes "env_ok env" "med_turn cfg env inp m = Some (m', evs)"
    "n \<noteq> (case inp of InReport s p \<Rightarrow> se_node s | InAbsent s p \<Rightarrow> se_node s | InAck s p \<Rightarrow> se_node s
      | InDisconnect nid \<Rightarrow> nid)"
  shows "map_of (md_cands m') n = map_of (md_cands m) n"
proof (cases "cands_before cfg env inp m")
  case None
  with assms(2,3) show ?thesis
    by (auto simp: cands_before_def med_turn_def on_report_def on_ack_def Let_def gm.get_put
        split: med_input.splits sum.splits)
next
  case (Some x)
  obtain m1 fn where x: "x = (m1, fn)" by (cases x)
  then have "reselect cfg env fn m1 = Some (m', evs)" using Some assms(2) med_turn_reselect by metis
  from reselect_keeps(1) [OF this assms(1)] Some x assms(3) show ?thesis
    by (auto simp: cands_before_def gm.get_put gm.get_del split: med_input.splits sum.splits)
qed

end
