(* ===== verification/Format_Props.thy ===== *)
theory Format_Props
  imports Builtin_Formats
begin

text \<open>
  What holds of every one of the three credential formats: parsing keeps the bytes and hashes them,
  comparison is a total preorder, validation has the margins the code documents, redaction hides
  the tokens, and the registry built at start-up knows exactly the three. Each statement is about
  the code's own parsers, comparisons and validators, through the contract of the formats.
\<close>

lemma builtin_cases:
  assumes "f \<in> set builtin_formats"
  obtains "f = claude_format" | "f = codex_format" | "f = gemini_format"
  using assms by (auto simp: builtin_formats_def)

subsection \<open>Parsing\<close>

text \<open>C36: Parsing either fails with an error of the category ErrParseFailed, or gives a snapshot of
  the format's own type whose raw bytes are exactly the input and whose fingerprint is the
  64-digit SHA-256 of the input; parsing those raw bytes again gives the same snapshot.\<close>

theorem parse_is_faithful:
  assumes "f \<in> set builtin_formats"
  shows "case f_parse f w of
      Inl e \<Rightarrow> is_err e ErrParseFailed
    | Inr s \<Rightarrow> own_snapshot f s \<and> w \<noteq> [] \<and> snap_raw s = w \<and> snap_fingerprint s = sha256_hex w \<and>
        length (snap_fingerprint s) = 64 \<and> f_parse f (snap_raw s) = Inr s"
proof (cases "f_parse f w")
  case (Inl e)
  then show ?thesis using format_contract.parse_error [OF builtin_contract [OF assms]] by simp
next
  case (Inr s)
  note fc = builtin_contract [OF assms]
  from Inr show ?thesis
    using format_contract.parse_own [OF fc Inr] format_contract.parse_raw [OF fc Inr]
      format_contract.parse_fingerprint [OF fc Inr] format_contract.parse_nonempty [OF fc Inr]
    by simp
qed

theorem parse_is_faithful_witness:
  "case f_parse claude_format ''{}'' of
      Inl e \<Rightarrow> is_err e ErrParseFailed
    | Inr s \<Rightarrow> own_snapshot claude_format s \<and> ''{}'' \<noteq> [] \<and> snap_raw s = ''{}'' \<and>
        snap_fingerprint s = sha256_hex ''{}'' \<and>
        length (snap_fingerprint s) = 64 \<and> f_parse claude_format (snap_raw s) = Inr s"
  by (rule parse_is_faithful) (simp add: builtin_formats_def)

text \<open>A parsed snapshot has non-empty access and refresh tokens, its identity is the first
  16 hex digits of the SHA-256 of the access token, and the expiry of a codex snapshot is that of its
  own access token.\<close>

theorem parse_requires_tokens:
  assumes "f \<in> set builtin_formats" "f_parse f w = Inr s"
  shows "case s of
      SClaude c \<Rightarrow> cl_access c \<noteq> [] \<and> cl_refresh c \<noteq> [] \<and> cl_identity c = take 16 (sha256_hex (cl_access c))
    | SCodex c \<Rightarrow> cx_access c \<noteq> [] \<and> cx_refresh c \<noteq> [] \<and> cx_identity c = take 16 (sha256_hex (cx_access c)) \<and>
        cx_jwt_exp c = or_zero zero_time (jwt_exp (cx_access c))
    | SGemini c \<Rightarrow> gm_access c \<noteq> [] \<and> gm_refresh c \<noteq> [] \<and> gm_identity c = take 16 (sha256_hex (gm_access c))"
  using assms(1)
proof (cases rule: builtin_cases)
  case 1
  then show ?thesis using assms(2) by (auto elim!: claude_parse_Inr)
next
  case 2
  then show ?thesis using assms(2) by (auto elim!: codex_parse_Inr)
next
  case 3
  then show ?thesis using assms(2) by (auto elim!: gemini_parse_Inr)
qed

subsection \<open>Comparison\<close>

text \<open>C37: Under a strategy the format supports, comparison of its own snapshots never panics and is a
  total preorder with a sign: it is antisymmetric in its sign, reflexive and transitive.\<close>

theorem compare_is_total_preorder:
  assumes "f \<in> set builtin_formats" "st \<in> set (f_strategies f)"
    "own_snapshot f a" "own_snapshot f b" "own_snapshot f c"
  shows "\<exists>ab bc ac. f_compare f st a b = Some ab \<and> f_compare f st b a = Some (- ab) \<and>
    f_compare f st b c = Some bc \<and> f_compare f st a c = Some ac \<and> f_compare f st a a = Some 0 \<and>
    (0 \<le> ab \<and> 0 \<le> bc \<longrightarrow> 0 \<le> ac)"
proof -
  note fc = builtin_contract [OF assms(1)]
  obtain ab bc ac where d: "f_compare f st a b = Some ab" "f_compare f st b c = Some bc" "f_compare f st a c = Some ac"
    using format_contract.compare_total [OF fc assms(2)] assms(3-5) by meson
  moreover have "0 \<le> ab \<and> 0 \<le> bc \<longrightarrow> 0 \<le> ac"
    using format_contract.compare_trans [OF fc d(1,2) assms(3-5)] d(3) by auto
  ultimately show ?thesis
    using format_contract.compare_swap [OF fc d(1) assms(3,4)] format_contract.compare_refl [OF fc assms(2,3)]
    by blast
qed

definition some_codex :: "gotime \<Rightarrow> gotime \<Rightarrow> snapshot" where
  "some_codex e r = SCodex \<lparr>cx_auth_mode = [], cx_access = ''access'', cx_refresh = ''refresh'',
     cx_id_token = [], cx_account_id = [], cx_jwt_exp = e, cx_last_refresh = r, cx_email = [],
     cx_user_id = [], cx_chatgpt_account = [], cx_raw = ''x'', cx_fingerprint = [], cx_identity = []\<rparr>"

theorem compare_is_total_preorder_witness:
  "\<exists>ab ac. f_compare codex_format StrategyJWTExpMax (some_codex 3 2) (some_codex 3 1) = Some ab \<and>
    f_compare codex_format StrategyJWTExpMax (some_codex 3 1) (some_codex 3 2) = Some (- ab) \<and>
    f_compare codex_format StrategyJWTExpMax (some_codex 3 2) (some_codex 2 9) = Some ac \<and>
    f_compare codex_format StrategyJWTExpMax (some_codex 3 2) (some_codex 3 2) = Some 0"
  using compare_is_total_preorder [of codex_format StrategyJWTExpMax "some_codex 3 2" "some_codex 3 1" "some_codex 2 9"]
  by (auto simp: builtin_formats_def some_codex_def own_snapshot_builtin)

subsection \<open>Validation\<close>

text \<open>How far before the expiry a format stops calling a credential valid.\<close>

definition expiry_margin :: "snapshot \<Rightarrow> duration" where
  "expiry_margin s = (case s of SClaude _ \<Rightarrow> 0 | SCodex _ \<Rightarrow> expirySafetySkew | SGemini _ \<Rightarrow> eagerRefreshThreshold)"

text \<open>C38: Without a live check a format calls its own snapshot ok exactly when the expiry is known and
  lies more than the format's margin after the reading of the clock: no margin for claude,
  five minutes for codex and gemini. With a live check an ok still needs an expiry in the future:
  the upstream answer cannot revive an expired credential.\<close>

theorem validate_margins:
  assumes "f \<in> set builtin_formats" "own_snapshot f s"
  shows "(vr_status (f_validate f s (local_opts now)) = StatusOK \<longleftrightarrow>
      snap_expires s \<noteq> zero_time \<and> now + expiry_margin s < snap_expires s) \<and>
    (vr_status (f_validate f s opts) = StatusOK \<longrightarrow> vo_now opts < snap_expires s)"
proof (rule conjI)
  show "vr_status (f_validate f s (local_opts now)) = StatusOK \<longleftrightarrow>
      snap_expires s \<noteq> zero_time \<and> now + expiry_margin s < snap_expires s"
    using assms(1)
  proof (cases rule: builtin_cases)
    case 1
    then obtain c where "s = SClaude c" using assms(2) by (auto simp: own_snapshot_builtin)
    with 1 show ?thesis
      by (simp add: claude_validate_def Let_def local_opts_def expiry_margin_def time_defs status_defs)
  next
    case 2
    then obtain c where "s = SCodex c" using assms(2) by (auto simp: own_snapshot_builtin)
    with 2 show ?thesis
      by (simp add: codex_validate_def Let_def local_opts_def expiry_margin_def time_defs status_defs)
  next
    case 3
    then obtain c where "s = SGemini c" using assms(2) by (auto simp: own_snapshot_builtin)
    with 3 show ?thesis
      by (simp add: gemini_validate_def Let_def local_opts_def expiry_margin_def time_defs status_defs)
  qed
  show "vr_status (f_validate f s opts) = StatusOK \<longrightarrow> vo_now opts < snap_expires s"
    using format_contract.validate_past [OF builtin_contract [OF assms(1)]] by blast
qed

theorem validate_margins_witness:
  "vr_status (codex_validate (some_codex (minutes 15 + 1) 0) (local_opts (minutes 10))) = StatusOK \<and>
   vr_status (codex_validate (some_codex (minutes 15) 0) (local_opts (minutes 10))) \<noteq> StatusOK"
proof -
  have c: "codex_format \<in> set builtin_formats" "own_snapshot codex_format (some_codex e r)" for e r
    by (simp_all add: builtin_formats_def some_codex_def own_snapshot_builtin)
  have "snap_expires (some_codex e r) = e" "expiry_margin (some_codex e r) = minutes 5" for e r
    by (simp_all add: some_codex_def expiry_margin_def expirySafetySkew_def)
  then show ?thesis
    using validate_margins [OF c, of "minutes 15 + 1" 0 "minutes 10"]
      validate_margins [OF c, of "minutes 15" 0 "minutes 10"]
    by (simp add: minutes_def zero_time_def)
qed

subsection \<open>Redaction\<close>

text \<open>Redaction does not disclose tokens: the summary of a snapshot is the same for any other access
  token with the same last four characters, any other refresh or id token and any other raw bytes, as long
  as the stored fingerprint and identity (hashes) are; what it shows of the access token has at most four characters.\<close>

theorem redact_hides_tokens:
  "(tail4 a = tail4 (cl_access c) \<longrightarrow>
      claude_redact (SClaude (c\<lparr>cl_access := a, cl_refresh := r, cl_raw := w\<rparr>)) = claude_redact (SClaude c)) \<and>
   (tail4 a = tail4 (cx_access x) \<longrightarrow>
      codex_redact (SCodex (x\<lparr>cx_access := a, cx_refresh := r, cx_id_token := i, cx_raw := w\<rparr>)) = codex_redact (SCodex x)) \<and>
   (tail4 a = tail4 (gm_access g) \<longrightarrow>
      gemini_redact (SGemini (g\<lparr>gm_access := a, gm_refresh := r, gm_id_token := i, gm_raw := w\<rparr>)) = gemini_redact (SGemini g)) \<and>
   length (sm_tail4 (claude_redact (SClaude c))) \<le> 4 \<and> length (sm_tail4 (codex_redact (SCodex x))) \<le> 4 \<and>
   length (sm_tail4 (gemini_redact (SGemini g))) \<le> 4"
  by (simp add: claude_redact_def codex_redact_def gemini_redact_def Let_def length_tail4)

definition some_claude :: "string \<Rightarrow> string \<Rightarrow> claude_snap" where
  "some_claude a r = \<lparr>cl_access = a, cl_refresh = r, cl_expires = 0, cl_scopes = [], cl_subscription = [],
     cl_tier = [], cl_raw = [], cl_fingerprint = ''0123456789abcdef'', cl_identity = ''0123''\<rparr>"

theorem redact_hides_tokens_witness:
  "claude_redact (SClaude (some_claude ''secret-zz99'' ''other'')) = claude_redact (SClaude (some_claude ''token-zz99'' ''r''))"
proof -
  have t: "tail4 ''secret-zz99'' = tail4 (cl_access (some_claude ''token-zz99'' ''r''))"
    by (simp add: some_claude_def tail4_def)
  from redact_hides_tokens [of "''secret-zz99''" "some_claude ''token-zz99'' ''r''" "[]" "''other''"
      undefined "[]" undefined] t
  have "claude_redact (SClaude (some_claude ''token-zz99'' ''r''\<lparr>cl_access := ''secret-zz99'',
      cl_refresh := ''other'', cl_raw := []\<rparr>)) = claude_redact (SClaude (some_claude ''token-zz99'' ''r''))"
    by simp
  then show ?thesis by (simp add: some_claude_def)
qed

subsection \<open>The registry\<close>

text \<open>Registering the three formats at start-up never panics, and the registry then finds each
  of them under its own name and nothing else.\<close>

theorem registry_knows_the_formats:
  "\<exists>r. register_all builtin_formats [] = Some r \<and> registry_ok r \<and>
    registry_get r ''claude-credentials-json-format'' = Some claude_format \<and>
    registry_get r ''codex-auth-json-format'' = Some codex_format \<and>
    registry_get r ''gemini-oauth-creds-json-format'' = Some gemini_format \<and>
    set (registry_list r) = f_name ` set builtin_formats"
proof -
  from register_all_fresh [OF builtin_names, of "[]"] obtain r where
    r: "register_all builtin_formats [] = Some r"
    and g: "\<forall>n. registry_get r n = (case find (\<lambda>f. f_name f = n) builtin_formats of Some f \<Rightarrow> Some f | None \<Rightarrow> registry_get [] n)"
    by (auto simp: registry_get_def)
  have "n \<in> set (registry_list r) \<longleftrightarrow> n \<in> f_name ` set builtin_formats" for n
    using spec [OF g, of n] registry_get_def [of "[]" n] by (simp add: registry_list_mem builtin_formats_def)
  then have l: "set (registry_list r) = f_name ` set builtin_formats" by blast
  have "registry_ok r" by (rule register_all_ok [OF registry_ok_Nil r])
  then show ?thesis using r g l by (auto simp: builtin_formats_def)
qed

text \<open>The paths a profile watches start with its credential file, are cleaned, and contain no
  path twice; the credential path is never empty and never the current directory.\<close>

theorem watch_paths_are_clean:
  assumes "resolve_watch_paths f dir = Inr ws"
  shows "(\<exists>p rest. resolve_credential_path f dir = Inr p \<and> p \<noteq> [] \<and> p \<noteq> ''.'' \<and> ws = p # rest) \<and> distinct ws \<and>
    (\<forall>w \<in> set ws. path_clean w = w \<and> w \<noteq> ''.'')"
proof -
  obtain p rest where p: "resolve_credential_path f dir = Inr p" "ws = p # rest"
    using resolve_watch_paths_Inr(1) [OF assms] by blast
  then show ?thesis
    using resolve_watch_paths_Inr(2,3) [OF assms] resolve_credential_path_Inr(1,2) [OF p(1)] by auto
qed

lemma some_watch_paths:
  "resolve_watch_paths claude_format ''/h/.c'' = Inr [''/h/.c/.credentials.json'', ''/h/.claude.json'', ''/h/.c/.config.json'']"
proof -
  have c: "claude_credential_path ''/h/.c'' = ''/h/.c/.credentials.json''" by code_simp
  have w: "claude_watch_paths ''/h/.c'' = [''/h/.c/.credentials.json'', ''/h/.claude.json'', ''/h/.c/.config.json'']"
    by code_simp
  have p1: "path_clean ''/h/.c/.credentials.json'' = ''/h/.c/.credentials.json''" by code_simp
  have p2: "path_clean ''/h/.claude.json'' = ''/h/.claude.json''" by code_simp
  have p3: "path_clean ''/h/.c/.config.json'' = ''/h/.c/.config.json''" by code_simp
  show ?thesis
    by (simp add: resolve_watch_paths_def resolve_credential_path_def Let_def c w p1 p2 p3)
qed

theorem watch_paths_are_clean_witness:
  "distinct [''/h/.c/.credentials.json'', ''/h/.claude.json'', ''/h/.c/.config.json''] \<and>
    path_clean ''/h/.claude.json'' = ''/h/.claude.json''"
  using watch_paths_are_clean [OF some_watch_paths] by simp

end
