(* ===== verification/Mediator_Scenario.thy ===== *)
theory Mediator_Scenario
  imports Mediator_Props Format_Props
begin

text \<open>
  A concrete run of a gemini profile with two nodes of one account: node \<open>b\<close> is connected and holds
  nothing, node \<open>a\<close> then reports credentials, which makes them the account's truth and sends it to
  \<open>b\<close>. The facts about this run apply the theorems of the development to a concrete input. The
  hash of the reported bytes is the only part that is not evaluated.
\<close>

definition demo_json :: json where
  "demo_json = JObj [(''access_token'', JStr ''acc-1234''), (''refresh_token'', JStr ''ref-5678''),
     (''expiry_date'', JNum ''2000000000000'')]"

definition demo_raw :: string where "demo_raw = json_text demo_json"

definition demo_snap :: snapshot where
  "demo_snap = SGemini (gemini_snapshot demo_raw
     \<lparr>gf_access = Some ''acc-1234'', gf_refresh = Some ''ref-5678'', gf_scope = None,
      gf_token_type = None, gf_id_token = None, gf_expiry = Some 2000000000000\<rparr>
     ''acc-1234'' ''ref-5678'')"

definition demo_profile :: profile where
  "demo_profile = \<lparr>pf_name = ''demo'', pf_format = ''gemini-oauth-creds-json-format'',
     pf_dir = ''/creds'', pf_watch_files = [], pf_allowed = [''a'', ''b''],
     pf_reverse = [],
     pf_validate = \<lparr>vs_strategy = [], vs_live_check = False, vs_timeout = 0\<rparr>,
     pf_propagate = \<lparr>ps_mode = PropagateModeStaleOnly, ps_cooldown = seconds 2\<rparr>\<rparr>"

definition demo_cfg :: med_config where
  "demo_cfg = \<lparr>mc_profile = demo_profile, mc_format = gemini_format,
     mc_target = ''/creds/oauth_creds.json'', mc_notify = True\<rparr>"

definition demo_session :: "nat \<Rightarrow> string \<Rightarrow> session" where
  "demo_session i n = \<lparr>se_id = i, se_profile = ''demo'', se_peer = n,
     se_identity = n, se_mode = AuthModeMTLS, se_node = n\<rparr>"

definition demo_now :: gotime where "demo_now = seconds 1500000000"

definition demo_env :: med_env where
  "demo_env = \<lparr>me_cand_order = (\<lambda>x. x), me_account_order = (\<lambda>x. x), me_session_order = (\<lambda>x. x),
     me_validate_now = demo_now, me_report_now = demo_now, me_since_now = (\<lambda>_. demo_now),
     me_select_now = (\<lambda>_. demo_now), me_notify_now = (\<lambda>_. demo_now),
     me_sessions = [(''a'', demo_session 0 ''a''), (''b'', demo_session 1 ''b'')],
     me_send = (\<lambda>_ _. None)\<rparr>"

definition demo_absent :: med_input where
  "demo_absent = InAbsent (demo_session 1 ''b'')
     \<lparr>sa_profile = ''demo'', sa_account = ''acct'', sa_path = ''/b/oauth_creds.json''\<rparr>"

definition demo_report :: med_input where
  "demo_report = InReport (demo_session 0 ''a'')
     \<lparr>sr_profile = ''demo'', sr_account = ''acct'', sr_path = ''/a/oauth_creds.json'',
      sr_format = ''gemini-oauth-creds-json-format'', sr_fingerprint = [], sr_summary = None,
      sr_live = zero_live_check, sr_raw_size = 0, sr_raw_b64 = std_encode demo_raw\<rparr>"

definition demo_cand_b :: candidate where
  "demo_cand_b = \<lparr>cd_node = ''b'', cd_account = ''acct'', cd_session = demo_session 1 ''b'',
     cd_snap = None, cd_fingerprint = [], cd_status = [], cd_reported = demo_now, cd_path = [],
     cd_summary = None, cd_live = [], cd_absent = True, cd_applied = []\<rparr>"

definition demo_cand_a :: candidate where
  "demo_cand_a = \<lparr>cd_node = ''a'', cd_account = ''acct'', cd_session = demo_session 0 ''a'',
     cd_snap = Some demo_snap, cd_fingerprint = sha256_hex demo_raw, cd_status = StatusOK,
     cd_reported = demo_now, cd_path = ''/a/oauth_creds.json'', cd_summary = None, cd_live = [],
     cd_absent = False, cd_applied = []\<rparr>"

definition demo_truth :: truth_state where
  "demo_truth = \<lparr>ts_account = ''acct'', ts_fingerprint = sha256_hex demo_raw, ts_issued = demo_now,
     ts_summary = None, ts_raw_b64 = std_encode demo_raw, ts_format = ''gemini-oauth-creds-json-format'',
     ts_pushed = demo_now\<rparr>"

definition demo_push :: truth_push where "demo_push = truth_push_of demo_cfg demo_truth"

definition demo_waiting :: mediator where
  "demo_waiting = \<lparr>md_cands = [(''b'', demo_cand_b)], md_truths = [], md_mirror = []\<rparr>"

definition demo_cands :: candidates where
  "demo_cands = mput ''a'' demo_cand_a [(''b'', demo_cand_b)]"

definition demo_settled :: mediator where
  "demo_settled = \<lparr>md_cands = demo_cands, md_truths = [(''acct'', demo_truth)],
     md_mirror = mirror_of [(''acct'', demo_truth)] demo_cands\<rparr>"

lemmas demo_defs = demo_profile_def demo_cfg_def demo_session_def demo_now_def demo_env_def
  demo_absent_def demo_report_def demo_cand_b_def demo_cand_a_def demo_truth_def demo_push_def
  demo_waiting_def demo_cands_def

lemma demo_cfg_sel [simp]: "mc_format demo_cfg = gemini_format" "mc_profile demo_cfg = demo_profile"
  "mc_notify demo_cfg = True"
  by (simp_all add: demo_cfg_def)

lemma demo_format [simp]: "gemini_format \<in> set builtin_formats"
  by (simp add: builtin_formats_def)

lemma demo_env_sel [simp]: "me_account_order demo_env = (\<lambda>x. x)" "me_session_order demo_env = (\<lambda>x. x)"
  "me_cand_order demo_env = (\<lambda>x. x)" "me_validate_now demo_env = demo_now"
  "me_report_now demo_env = demo_now" "me_since_now demo_env a = demo_now"
  by (simp_all add: demo_env_def)

lemma demo_env_ok [simp]: "env_ok demo_env"
  by (simp add: env_ok_def demo_env_def)

lemma demo_unmarshal: "json_unmarshal demo_raw = Some demo_json"
  unfolding demo_raw_def by (rule json_unmarshal_text) (code_simp, code_simp)

lemma demo_decode: "dec_gemini_file demo_json = Some \<lparr>gf_access = Some ''acc-1234'',
    gf_refresh = Some ''ref-5678'', gf_scope = None, gf_token_type = None, gf_id_token = None,
    gf_expiry = Some 2000000000000\<rparr>"
  by code_simp

lemma demo_bom: "trim_prefix demo_raw utf8_bom = demo_raw" and demo_raw_ne [simp]: "demo_raw \<noteq> []"
  by code_simp+

lemma demo_parse [simp]: "gemini_parse demo_raw = Inr demo_snap"
  by (simp add: gemini_parse_def demo_bom demo_unmarshal demo_decode non_empty_def demo_snap_def)

lemma demo_snap_sel [simp]: "snap_fingerprint demo_snap = sha256_hex demo_raw"
  "snap_raw demo_snap = demo_raw" "snap_expires demo_snap = seconds 2000000000"
  by (simp_all add: demo_snap_def gemini_snapshot_def unix_milli_def seconds_def)

lemma demo_validate: "vr_status (gemini_validate demo_snap (local_opts demo_now)) = StatusOK"
  by (simp add: gemini_validate_def time_defs demo_now_def local_opts_def duration_defs zero_time_def
      eagerRefreshThreshold_def)

subsection \<open>The turns of the run\<close>

lemma demo_turn1: "med_turn demo_cfg demo_env demo_absent new_mediator = Some (demo_waiting, [])"
  by (simp add: med_turn_def on_absent_def reselect_def by_account_def viable_def lost_accounts_def
      mirror_of_def new_mediator_def demo_defs)

lemma demo_base64: "base64_decode (std_encode demo_raw) = Inr demo_raw"
proof -
  have "std_encode demo_raw \<noteq> []" by (simp add: std_encode_def b64_encode_Nil_iff)
  then show ?thesis by (simp add: base64_decode_def std.dec_enc)
qed

lemma demo_strategy: "effective_strategy demo_cfg = StrategyExpiryDateMax"
  by (simp add: effective_strategy_def demo_profile_def StrategyExpiryDateMax_def)

lemma demo_by_account: "by_account demo_env demo_cands = [(''acct'', [demo_cand_a])]"
  by (simp add: by_account_def viable_def demo_defs)

lemma demo_targets: "push_truth demo_cfg demo_env demo_cands demo_truth ''a'' =
    ([''b''], [Pushed (demo_session 1 ''b'') demo_push None])"
  by (simp add: push_truth_def push_target_def in_account_def stale_def PropagateModeStaleOnly_def
      PropagateModeAll_def demo_defs)

lemma demo_select: "select_account demo_cfg demo_env demo_cands ''gemini-oauth-creds-json-format'' ''acct''
     [demo_cand_a] None = Some (Some demo_truth,
       [Notified (restored_record demo_cfg demo_cands demo_truth demo_cand_a),
        Pushed (demo_session 1 ''b'') demo_push None,
        Notified (propagation_record demo_cfg demo_cands demo_truth None demo_cand_a [''b''] demo_now)])"
proof -
  have t: "new_truth demo_env ''acct'' ''gemini-oauth-creds-json-format'' demo_cand_a = demo_truth"
    by (simp add: new_truth_def demo_cand_a_def demo_env_def demo_truth_def)
  have n: "cd_node demo_cand_a = ''a''" "me_notify_now demo_env a = demo_now" for a
    by (simp_all add: demo_cand_a_def demo_env_def)
  show ?thesis by (simp add: select_account_def truth_changed_def cooling_down_def t n demo_targets)
qed

lemma demo_turn2: "med_turn demo_cfg demo_env demo_report demo_waiting = Some (demo_settled,
    [Notified (restored_record demo_cfg demo_cands demo_truth demo_cand_a),
     Pushed (demo_session 1 ''b'') demo_push None,
     Notified (propagation_record demo_cfg demo_cands demo_truth None demo_cand_a [''b''] demo_now)])"
proof -
  have "med_turn demo_cfg demo_env demo_report demo_waiting =
    reselect demo_cfg demo_env ''gemini-oauth-creds-json-format'' (demo_waiting\<lparr>md_cands := demo_cands\<rparr>)"
    using demo_validate
    by (simp add: med_turn_def on_report_def demo_report_def demo_base64 Let_def downgrade_def
        zero_live_check_def demo_cands_def demo_waiting_def demo_cand_a_def demo_env_def demo_session_def)
  also have "\<dots> = Some (demo_settled,
    [Notified (restored_record demo_cfg demo_cands demo_truth demo_cand_a),
     Pushed (demo_session 1 ''b'') demo_push None,
     Notified (propagation_record demo_cfg demo_cands demo_truth None demo_cand_a [''b''] demo_now)])"
    by (simp add: reselect_def Let_def demo_by_account lost_accounts_def demo_waiting_def demo_settled_def
        demo_select store_truth_def)
  finally show ?thesis .
qed

lemma demo_reach1: "med_reach demo_cfg demo_waiting"
  by (rule med_reach.turn [OF med_reach.start demo_env_ok demo_turn1])

lemma demo_reach2: "med_reach demo_cfg demo_settled"
  by (rule med_reach.turn [OF demo_reach1 demo_env_ok demo_turn2])

lemma demo_sel [simp]: "md_truths demo_settled = [(''acct'', demo_truth)]"
  "md_cands demo_settled = demo_cands" "md_truths demo_waiting = []"
  "md_cands demo_waiting = [(''b'', demo_cand_b)]" "md_truths new_mediator = []"
  by (simp_all add: demo_settled_def demo_waiting_def new_mediator_def)

lemma demo_push_in: "Pushed (demo_session 1 ''b'') demo_push None \<in>
    set [Notified (restored_record demo_cfg demo_cands demo_truth demo_cand_a),
     Pushed (demo_session 1 ''b'') demo_push None,
     Notified (propagation_record demo_cfg demo_cands demo_truth None demo_cand_a [''b''] demo_now)]"
  by simp

lemma demo_before: "\<exists>m1. cands_before demo_cfg demo_env demo_report demo_waiting =
    Some (m1, ''gemini-oauth-creds-json-format'')"
  by (simp add: cands_before_def demo_report_def demo_base64)

lemma demo_cand_b_get: "map_of demo_cands ''b'' = Some demo_cand_b"
  by (simp add: demo_cands_def)

lemma demo_push_account: "tp_account demo_push = ''acct''"
  by (simp add: demo_push_def truth_push_of_def demo_truth_def)

subsection \<open>Two runs that show limits of the design\<close>

definition demo_ghost :: candidate where
  "demo_ghost = demo_cand_b\<lparr>cd_reported := zero_time\<rparr>"

definition demo_late_ack :: med_input where
  "demo_late_ack = InAck (demo_session 1 ''b'') (zero_truth_ack\<lparr>ta_profile := ''demo'', ta_account := ''acct''\<rparr>)"

lemma demo_ack: "med_turn demo_cfg demo_env demo_late_ack new_mediator =
    Some (new_mediator\<lparr>md_cands := [(''b'', demo_ghost)]\<rparr>, [])"
  by (simp add: med_turn_def on_ack_def demo_late_ack_def new_mediator_def demo_ghost_def demo_cand_b_def
      zero_truth_ack_def demo_session_def)

lemma demo_ghost_reach: "med_reach demo_cfg (new_mediator\<lparr>md_cands := [(''b'', demo_ghost)]\<rparr>)"
  by (rule med_reach.turn [OF med_reach.start demo_env_ok demo_ack])

lemma demo_ghost_before: "cands_before demo_cfg demo_env demo_report (new_mediator\<lparr>md_cands := [(''b'', demo_ghost)]\<rparr>) =
    Some (new_mediator\<lparr>md_cands := mput ''a'' demo_cand_a [(''b'', demo_ghost)]\<rparr>, ''gemini-oauth-creds-json-format'')"
  using demo_validate
  by (simp add: cands_before_def demo_report_def demo_base64 downgrade_def zero_live_check_def
      demo_cand_a_def demo_session_def)

lemma demo_ghost_push:
  "\<exists>m' evs p. med_turn demo_cfg demo_env demo_report (new_mediator\<lparr>md_cands := [(''b'', demo_ghost)]\<rparr>) = Some (m', evs) \<and>
     Pushed (demo_session 1 ''b'') p None \<in> set evs"
proof -
  let ?c = "mput ''a'' demo_cand_a [(''b'', demo_ghost)]"
  obtain m' evs where t: "med_turn demo_cfg demo_env demo_report (new_mediator\<lparr>md_cands := [(''b'', demo_ghost)]\<rparr>)
      = Some (m', evs)"
    using med_turn_total [OF builtin_contract med_reach_inv [OF demo_ghost_reach] demo_env_ok,
      of demo_report] by fastforce
  then have r: "reselect demo_cfg demo_env ''gemini-oauth-creds-json-format'' (new_mediator\<lparr>md_cands := ?c\<rparr>) = Some (m', evs)"
    using med_turn_reselect [OF demo_ghost_before] by simp
  have ba: "by_account demo_env ?c = [(''acct'', [demo_cand_a])]"
    by (simp add: by_account_def viable_def demo_defs demo_ghost_def)
  from reselect_truths(2) [OF r demo_env_ok, of "''acct''"] ba obtain u evs' where
    sel: "select_account demo_cfg demo_env ?c ''gemini-oauth-creds-json-format'' ''acct'' [demo_cand_a] None = Some (u, evs')"
    and sub: "set evs' \<subseteq> set evs" by auto
  have ta: "truth_after None u = Some (new_truth demo_env ''acct'' ''gemini-oauth-creds-json-format'' demo_cand_a)"
    using sel by (cases rule: select_account_cases) (auto simp: truth_after_def cooling_down_def)
  have "Pushed (demo_session 1 ''b'') p (me_send demo_env (demo_session 1 ''b'') p) \<in> set evs'"
    if "p = truth_push_of demo_cfg (new_truth demo_env ''acct'' ''gemini-oauth-creds-json-format'' demo_cand_a)" for p
    unfolding that
    by (rule select_account_targets [OF sel ta, of "''b''" _ demo_ghost])
      (auto simp: cooling_down_def demo_env_def demo_ghost_def demo_cand_b_def demo_cand_a_def)
  moreover have "me_send demo_env s p = None" for s p by (simp add: demo_env_def)
  ultimately show ?thesis using t sub by auto
qed

text \<open>A node that never sent a report or an absence is sent an account's truth once it has
  acknowledged one: the candidate that the acknowledgement makes carries the account the
  acknowledgement names.\<close>

theorem ack_admits_unreported_node:
  "\<exists>m env inp m' evs p. med_reach demo_cfg m \<and> env_ok env \<and>
    med_turn demo_cfg env demo_late_ack new_mediator = Some (m, []) \<and>
    (\<exists>r. inp = InReport (demo_session 0 ''a'') r) \<and> med_turn demo_cfg env inp m = Some (m', evs) \<and>
    Pushed (demo_session 1 ''b'') p None \<in> set evs"
  using demo_ack demo_ghost_reach demo_ghost_push demo_env_ok unfolding demo_report_def by blast

text \<open>A truth can be shown when no candidate supports it: after the only source of a truth
  reports bytes that do not parse, the truth is still stored and mirrored.\<close>

theorem truth_outlives_candidates:
  "\<exists>m t. med_reach demo_cfg m \<and> map_of (md_truths m) ''acct'' = Some t \<and>
     map_of (md_mirror m) ''acct'' \<noteq> None \<and> filter (\<lambda>(n, c). viable c) (md_cands m) = []"
proof -
  let ?inp = "InReport (demo_session 0 ''a'') (zero_snapshot_report\<lparr>sr_raw_b64 := std_encode ''x''\<rparr>)"
  have d: "base64_decode (std_encode ''x'') = Inr ''x''" by code_simp
  have "json_unmarshal (trim_prefix ''x'' utf8_bom) = None" by code_simp
  then have p: "\<exists>e. gemini_parse ''x'' = Inl e" by (simp add: gemini_parse_def)
  obtain c where t: "med_turn demo_cfg demo_env ?inp demo_settled =
      Some (demo_settled\<lparr>md_cands := mput ''a'' c demo_cands\<rparr>, [])" "\<not> viable c"
    using p d by (auto simp: med_turn_def on_report_def viable_def demo_session_def demo_settled_def)
  have "med_reach demo_cfg (demo_settled\<lparr>md_cands := mput ''a'' c demo_cands\<rparr>)"
    by (rule med_reach.turn [OF demo_reach2 demo_env_ok t(1)])
  moreover have "filter (\<lambda>(n, c). viable c) (mput ''a'' c demo_cands) = []"
    using t(2) by (simp add: demo_cands_def viable_def demo_cand_b_def)
  ultimately show ?thesis
    by (intro exI [of _ "demo_settled\<lparr>md_cands := mput ''a'' c demo_cands\<rparr>"])
      (simp add: demo_settled_def mirror_of_def)
qed

subsection \<open>The theorems at this run\<close>

theorem mediator_never_panics_witness:
  "\<exists>m' evs. med_turn demo_cfg demo_env (InDisconnect ''a'') demo_settled = Some (m', evs)"
  by (rule mediator_never_panics [OF _ demo_reach2]) simp_all

theorem push_partition_witness:
  "\<exists>nid c t. (nid, demo_session 1 ''b'') \<in> set (me_sessions demo_env) \<and>
    map_of (md_cands demo_settled) nid = Some c \<and> cd_account c = ''acct'' \<and>
    map_of (md_truths demo_settled) ''acct'' = Some t \<and> demo_push = truth_push_of demo_cfg t"
  using push_partition [OF _ demo_reach1 demo_env_ok demo_turn2 demo_push_in]
  unfolding demo_push_account demo_cfg_sel by (auto simp del: demo_sel)

theorem push_integrity_witness:
  "\<exists>w sn. base64_decode (tp_raw_b64 demo_push) = Inr w \<and> f_parse (mc_format demo_cfg) w = Inr sn \<and>
    tp_fingerprint demo_push = sha256_hex w"
  by (rule push_integrity [OF _ demo_reach1 demo_env_ok demo_turn2 demo_push_in]) simp

theorem truths_of_viable_accounts_witness:
  "(map_of (md_truths demo_settled) ''acct'' \<noteq> None \<longleftrightarrow>
     (\<exists>n c. (n, c) \<in> set (md_cands demo_settled) \<and> viable_in ''acct'' c)) \<and>
   md_mirror demo_settled = mirror_of (md_truths demo_settled) (md_cands demo_settled)"
proof -
  obtain m1 where "cands_before demo_cfg demo_env demo_report demo_waiting =
    Some (m1, ''gemini-oauth-creds-json-format'')" using demo_before by blast
  from truths_of_viable_accounts [OF demo_env_ok this demo_turn2] show ?thesis .
qed

lemma demo_reselects: "reselects demo_cfg demo_report"
  using demo_before reselects_iff [of demo_cfg demo_report demo_env demo_waiting] by blast

theorem truth_is_newest_witness:
  "\<exists>n best. map_of (md_cands demo_settled) n = Some best \<and> viable_in ''acct'' best \<and>
      ts_fingerprint demo_truth = cd_fingerprint best"
  using truth_is_newest [OF _ demo_reach1 demo_env_ok demo_turn2, of "''acct''"] demo_reselects
  unfolding demo_cfg_sel by (auto simp del: demo_sel(2))

theorem cooldown_holds_witness:
  "\<exists>m' evs. med_turn demo_cfg demo_env (InDisconnect ''b'') demo_settled = Some (m', evs) \<and>
    map_of (md_truths m') ''acct'' \<in> {None, Some demo_truth}"
proof -
  obtain m' evs where t: "med_turn demo_cfg demo_env (InDisconnect ''b'') demo_settled = Some (m', evs)"
    using med_turn_total [OF builtin_contract med_reach_inv [OF demo_reach2] demo_env_ok,
      of "InDisconnect ''b''"] by fastforce
  have "map_of (md_truths m') ''acct'' \<in> {None, Some demo_truth}"
    using cooldown_holds [OF _ demo_reach2 demo_env_ok t, of "''acct''" demo_truth]
    by (simp add: demo_truth_def demo_profile_def time_sub_def min_int64_def max_int64_def duration_defs)
  with t show ?thesis by blast
qed

theorem push_complete_witness:
  "Pushed (demo_session 1 ''b'') (truth_push_of demo_cfg demo_truth)
     (me_send demo_env (demo_session 1 ''b'') (truth_push_of demo_cfg demo_truth)) \<in>
    set [Notified (restored_record demo_cfg demo_cands demo_truth demo_cand_a),
     Pushed (demo_session 1 ''b'') demo_push None,
     Notified (propagation_record demo_cfg demo_cands demo_truth None demo_cand_a [''b''] demo_now)]"
proof -
  from push_complete [OF _ demo_reach1 demo_env_ok demo_reselects demo_turn2, of "''acct''" demo_truth "''b''"
      "demo_session 1 ''b''" demo_cand_b]
  show ?thesis
    by (simp add: demo_cand_b_get cooling_down_def) (simp add: demo_env_def demo_cand_b_def)
qed

theorem notifications_are_transitions_witness:
  "\<exists>r. Notified r \<in> set [Notified (restored_record demo_cfg demo_cands demo_truth demo_cand_a),
      Pushed (demo_session 1 ''b'') demo_push None,
      Notified (propagation_record demo_cfg demo_cands demo_truth None demo_cand_a [''b''] demo_now)] \<and>
    tr_event r = EventTruthRestored \<and> tr_account r = ''acct''"
proof -
  obtain m1 where "cands_before demo_cfg demo_env demo_report demo_waiting =
    Some (m1, ''gemini-oauth-creds-json-format'')" using demo_before by blast
  from notifications_are_transitions [OF _ demo_reach1 demo_env_ok _ this demo_turn2, of "''acct''"]
  show ?thesis by (simp only: demo_cfg_sel demo_format demo_sel) simp
qed

theorem live_check_only_downgrades_witness:
  "\<exists>c. map_of (md_cands demo_settled) ''a'' = Some c \<and> cd_snap c = Some demo_snap \<and> cd_status c = StatusOK"
proof -
  have v: "vr_status (f_validate (mc_format demo_cfg) demo_snap (local_opts (me_validate_now demo_env))) = StatusOK"
    by (simp add: demo_validate)
  from live_check_only_downgrades [OF _ demo_env_ok _ _ demo_turn2 [unfolded demo_report_def],
      of demo_raw demo_snap]
  show ?thesis using v by (simp add: demo_base64 zero_live_check_def demo_session_def)
qed

theorem parse_failure_is_silent_witness:
  "\<exists>c m'. med_turn demo_cfg demo_env (InReport (demo_session 0 ''a'')
      (zero_snapshot_report\<lparr>sr_raw_b64 := std_encode ''x''\<rparr>)) demo_settled = Some (m', []) \<and>
    md_truths m' = md_truths demo_settled \<and> md_mirror m' = md_mirror demo_settled \<and>
    md_cands m' = mput ''a'' c (md_cands demo_settled) \<and> cd_status c = StatusParseError \<and> \<not> viable c"
proof -
  have d: "base64_decode (std_encode ''x'') = Inr ''x''" by code_simp
  have "json_unmarshal (trim_prefix ''x'' utf8_bom) = None" by code_simp
  then obtain e where "gemini_parse ''x'' = Inl e" by (simp add: gemini_parse_def)
  with parse_failure_is_silent [of "zero_snapshot_report\<lparr>sr_raw_b64 := std_encode ''x''\<rparr>" "''x''" demo_cfg e
      demo_env "demo_session 0 ''a''" demo_settled] d
  show ?thesis by (simp add: demo_session_def)
qed

theorem turn_frame_witness:
  "map_of (md_cands demo_settled) ''b'' = map_of (md_cands demo_waiting) ''b''"
  by (rule turn_frame [OF demo_env_ok demo_turn2]) (simp add: demo_report_def demo_session_def)

theorem parse_requires_tokens_witness:
  "case demo_snap of
      SClaude c \<Rightarrow> cl_access c \<noteq> [] \<and> cl_refresh c \<noteq> [] \<and> cl_identity c = take 16 (sha256_hex (cl_access c))
    | SCodex c \<Rightarrow> cx_access c \<noteq> [] \<and> cx_refresh c \<noteq> [] \<and> cx_identity c = take 16 (sha256_hex (cx_access c)) \<and>
        cx_jwt_exp c = or_zero zero_time (jwt_exp (cx_access c))
    | SGemini c \<Rightarrow> gm_access c \<noteq> [] \<and> gm_refresh c \<noteq> [] \<and> gm_identity c = take 16 (sha256_hex (gm_access c))"
  by (rule parse_requires_tokens [of gemini_format demo_raw]) simp_all

end
