(* ===== verification/Safeio.thy ===== *)
theory Safeio
  imports Go_Path Go_Time Go_Encoding
begin

text \<open>
  internal/safeio: atomic writes, backups, roll-back, locks and zeroing. The files are a partial map from
  paths to contents and mode. A call of the operating system can fail: its outcome is a field of
  \<open>io_env\<close>, \<open>None\<close> when it succeeds. An operation returns its error and its trace, the states of the
  files it goes through, the first of which is the state it starts in: what a crash or another process
  can find is a state of the trace.
\<close>

type_synonym file_mode = "32 word"

record disk_file =
  fl_data :: string
  fl_mode :: file_mode

type_synonym files = "string \<rightharpoonup> disk_file"

text \<open>A failed write has put some bytes of the data into the file. \<open>io_random\<close> is what \<open>rand.Read\<close> gives.\<close>

record io_env =
  io_stat_dir :: "gerr option"
  io_is_dir :: bool
  io_random :: "gerr + string"
  io_open :: "gerr option"
  io_umask :: file_mode
  io_write :: "(nat \<times> gerr) option"
  io_sync :: "gerr option"
  io_close :: "gerr option"
  io_chmod :: "gerr option"
  io_rename :: "gerr option"
  io_remove :: "gerr option"

definition CredentialsFileMode :: file_mode where "CredentialsFileMode = 0x180"

unbundle bit_operations_syntax

definition read_file :: "gerr option \<Rightarrow> files \<Rightarrow> string \<Rightarrow> gerr + string" where
  "read_file fault fs path = (case fault of Some e \<Rightarrow> Inl e
     | None \<Rightarrow> (case fs path of None \<Rightarrow> Inl NotExist | Some f \<Rightarrow> Inr (fl_data f)))"

definition remove_file :: "gerr option \<Rightarrow> string \<Rightarrow> files \<Rightarrow> files" where
  "remove_file fault path fs = (case fault of Some _ \<Rightarrow> fs | None \<Rightarrow> fs(path := None))"

text \<open>\<open>O_WRONLY|O_CREATE|O_EXCL\<close>: the file must be new; it is made empty, with the mode less the umask.\<close>

definition open_excl :: "io_env \<Rightarrow> string \<Rightarrow> file_mode \<Rightarrow> files \<Rightarrow> gerr + files" where
  "open_excl env path perm fs = (case io_open env of Some e \<Rightarrow> Inl e
     | None \<Rightarrow> if fs path \<noteq> None then Inl (Ext ''file exists'')
         else Inr (fs(path \<mapsto> \<lparr>fl_data = [], fl_mode = perm AND NOT (io_umask env)\<rparr>)))"

definition make_temp_path :: "io_env \<Rightarrow> string \<Rightarrow> gerr + string" where
  "make_temp_path env dst = (case io_random env of Inl e \<Rightarrow> Inl e
     | Inr rnd \<Rightarrow> Inr (dst @ ''.tmp.'' @ hex_encode rnd))"

definition set_data :: "string \<Rightarrow> string \<Rightarrow> files \<Rightarrow> files" where
  "set_data path d fs = fs(path := map_option (\<lambda>f. f\<lparr>fl_data := d\<rparr>) (fs path))"

definition set_mode :: "string \<Rightarrow> file_mode \<Rightarrow> files \<Rightarrow> files" where
  "set_mode path m fs = fs(path := map_option (\<lambda>f. f\<lparr>fl_mode := m\<rparr>) (fs path))"

definition rename_file :: "string \<Rightarrow> string \<Rightarrow> files \<Rightarrow> files" where
  "rename_file src dst fs = (fs(dst := fs src))(src := None)"

definition atomic_write :: "io_env \<Rightarrow> string \<Rightarrow> string \<Rightarrow> file_mode \<Rightarrow> files \<Rightarrow> gerr option \<times> files list" where
  "atomic_write env dst data perm fs =
     (let dir = path_dir dst;
          parent = (case io_stat_dir env of Some e \<Rightarrow> Some e
            | None \<Rightarrow> if io_is_dir env then None else Some (Errorf ''parent is not a directory'' [] None))
      in case parent of
        Some e \<Rightarrow> (Some (wrap_e e ErrApplyFailed ''parent dir inaccessible: %s'' [ArgS dir]), [fs])
      | None \<Rightarrow> (case make_temp_path env dst of
          Inl e \<Rightarrow> (Some (wrap_e e ErrApplyFailed ''temp path alloc'' []), [fs])
        | Inr tmp \<Rightarrow> (case open_excl env tmp perm fs of
            Inl e \<Rightarrow> (Some (wrap_e e ErrApplyFailed ''open temp %s'' [ArgS tmp]), [fs])
          | Inr fs1 \<Rightarrow>
              let fail = (\<lambda>e msg tr. (Some (wrap_e e ErrApplyFailed msg []), tr @ [remove_file (io_remove env) tmp (last tr)]))
              in case io_write env of
                Some (n, e) \<Rightarrow> fail e ''write temp'' [fs, fs1, set_data tmp (take n data) fs1]
              | None \<Rightarrow>
                  let fs2 = set_data tmp data fs1 in
                  case io_sync env of
                    Some e \<Rightarrow> fail e ''fsync temp'' [fs, fs1, fs2]
                  | None \<Rightarrow> (case io_close env of
                      Some e \<Rightarrow> fail e ''close temp'' [fs, fs1, fs2]
                    | None \<Rightarrow> (case io_chmod env of
                        Some e \<Rightarrow> fail e ''chmod temp'' [fs, fs1, fs2]
                      | None \<Rightarrow>
                          let fs3 = set_mode tmp perm fs2 in
                          case io_rename env of
                            Some e \<Rightarrow> fail e ''rename into place'' [fs, fs1, fs2, fs3]
                          | None \<Rightarrow> (None, [fs, fs1, fs2, fs3, rename_file tmp dst fs3]))))))"

definition backup_path :: "string \<Rightarrow> int \<Rightarrow> string" where
  "backup_path dst nanos = dst @ ''.bak.'' @ int_text nanos"

text \<open>\<open>ReadWithBackup\<close>: the contents, the path of the copy and the trace.\<close>

definition read_with_backup ::
  "gerr option \<Rightarrow> int \<Rightarrow> io_env \<Rightarrow> string \<Rightarrow> files \<Rightarrow> (gerr + string \<times> string) \<times> files list" where
  "read_with_backup fault nanos env dst fs = (case read_file fault fs dst of
     Inl e \<Rightarrow> (Inl (wrap_e e ErrApplyFailed ''read %s'' [ArgS dst]), [fs])
   | Inr data \<Rightarrow>
       let backup = backup_path dst nanos;
           (r, tr) = atomic_write env backup data CredentialsFileMode fs
       in (case r of Some e \<Rightarrow> Inl e | None \<Rightarrow> Inr (data, backup), tr))"

definition rollback :: "gerr option \<Rightarrow> gerr option \<Rightarrow> string \<Rightarrow> string \<Rightarrow> files \<Rightarrow> gerr option \<times> files" where
  "rollback stat_fault rename_fault backup dst fs =
     (case (if fs backup = None then Some NotExist else stat_fault) of
        Some e \<Rightarrow> (Some (wrap_e e ErrApplyFailed ''backup missing %s'' [ArgS backup]), fs)
      | None \<Rightarrow> (case rename_fault of
          Some e \<Rightarrow> (Some (wrap_e e ErrApplyFailed ''rename %s -> %s'' [ArgS backup, ArgS dst]), fs)
        | None \<Rightarrow> (None, rename_file backup dst fs)))"

text \<open>\<open>try_lock\<close> is the outcome of flock's \<open>TryLock\<close> or \<open>TryLockContext\<close>. A duration in a message is its nanoseconds.\<close>

definition MsgLockTimeout :: string where "MsgLockTimeout = ''failed to acquire lock within %s''"

definition lock_file :: "duration \<Rightarrow> gerr + bool \<Rightarrow> string \<Rightarrow> gerr option" where
  "lock_file timeout try_lock dst =
     (let lock_path = dst @ ''.lock'' in
      if timeout \<le> 0 then
        (case try_lock of
           Inl e \<Rightarrow> Some (wrap_e e ErrLockTimeout ''try-lock %s'' [ArgS lock_path])
         | Inr False \<Rightarrow> Some (wrap_s ErrLockTimeout MsgLockTimeout [ArgD 0])
         | Inr True \<Rightarrow> None)
      else
        (case try_lock of
           Inl e \<Rightarrow> if errors_is e DeadlineExceeded
             then Some (wrap_e e ErrLockTimeout MsgLockTimeout [ArgD timeout])
             else Some (wrap_e e ErrLockTimeout ''lock %s'' [ArgS lock_path])
         | Inr False \<Rightarrow> Some (wrap_s ErrLockTimeout MsgLockTimeout [ArgD timeout])
         | Inr True \<Rightarrow> None))"

definition zeroize :: "string \<Rightarrow> string" where
  "zeroize b = replicate (length b) (CHR 0x00)"

subsection \<open>Atomicity\<close>

text \<open>The temporary file of a write; it is never the file itself.\<close>

definition temp_of :: "io_env \<Rightarrow> string \<Rightarrow> string" where
  "temp_of env dst = (case make_temp_path env dst of Inl _ \<Rightarrow> dst @ ''.tmp.'' | Inr t \<Rightarrow> t)"

lemma temp_of_ne [simp]: "temp_of env dst \<noteq> dst" "dst \<noteq> temp_of env dst"
  by (auto simp: temp_of_def make_temp_path_def split: sum.splits)

text \<open>A state that a write of \<open>f\<close> to \<open>dst\<close> can go through.\<close>

definition write_state :: "io_env \<Rightarrow> string \<Rightarrow> disk_file \<Rightarrow> files \<Rightarrow> files \<Rightarrow> bool" where
  "write_state env dst f fs s \<longleftrightarrow> (s dst = fs dst \<or> s dst = Some f) \<and>
     (\<forall>q. q \<noteq> dst \<longrightarrow> q \<noteq> temp_of env dst \<longrightarrow> s q = fs q) \<and>
     (s (temp_of env dst) = fs (temp_of env dst) \<or>
      (\<exists>t. s (temp_of env dst) = Some t \<and> fl_mode t AND NOT (fl_mode f) = 0))"

lemma masked [simp]: "(p AND NOT u) AND NOT p = (0 :: 'a::len word)" "p AND NOT p = (0 :: 'a::len word)"
  by (auto intro!: bit_eqI simp: bit_simps)

lemma set_data_there: "fs p = Some f \<Longrightarrow> set_data p d fs = fs(p \<mapsto> f\<lparr>fl_data := d\<rparr>)"
  by (simp add: set_data_def)

lemma set_mode_there: "fs p = Some f \<Longrightarrow> set_mode p m fs = fs(p \<mapsto> f\<lparr>fl_mode := m\<rparr>)"
  by (simp add: set_mode_def)

lemma atomic_write_cases:
  assumes "atomic_write env dst data perm fs = (r, tr)"
  obtains (refused) e where "r = Some e" "is_err e ErrApplyFailed" "tr = [fs]"
  | (failed) e ss where "r = Some e" "is_err e ErrApplyFailed" "fs (temp_of env dst) = None"
      "tr = [fs] @ map (\<lambda>f. fs(temp_of env dst \<mapsto> f)) ss @
         [remove_file (io_remove env) (temp_of env dst) (fs(temp_of env dst \<mapsto> last ss))]" "ss \<noteq> []"
      "list_all (\<lambda>f. fl_mode f AND NOT perm = 0) ss"
  | (written) ss where "r = None" "fs (temp_of env dst) = None"
      "tr = [fs] @ map (\<lambda>f. fs(temp_of env dst \<mapsto> f)) ss @ [fs(dst \<mapsto> \<lparr>fl_data = data, fl_mode = perm\<rparr>)]"
      "list_all (\<lambda>f. fl_mode f AND NOT perm = 0) ss"
proof -
  let ?tmp = "temp_of env dst"
  let ?a = "\<lparr>fl_data = [], fl_mode = perm AND NOT (io_umask env)\<rparr>"
  let ?b = "?a\<lparr>fl_data := data\<rparr>"
  show ?thesis
  proof (cases "io_stat_dir env \<noteq> None \<or> \<not> io_is_dir env \<or> (\<exists>e. io_random env = Inl e) \<or> io_open env \<noteq> None \<or> fs ?tmp \<noteq> None")
    case True
    then have "tr = [fs] \<and> (\<exists>e. r = Some e \<and> is_err e ErrApplyFailed)"
      using assms by (auto simp: atomic_write_def Let_def open_excl_def make_temp_path_def temp_of_def
          split: option.splits sum.splits if_splits)
    then show ?thesis using refused by blast
  next
    case False
    then obtain rnd where env: "io_stat_dir env = None" "io_is_dir env" "io_random env = Inr rnd" "io_open env = None" "fs ?tmp = None"
      by (cases "io_random env") auto
    have tmp: "make_temp_path env dst = Inr ?tmp" by (simp add: make_temp_path_def temp_of_def env)
    have op: "open_excl env ?tmp perm fs = Inr (fs(?tmp \<mapsto> ?a))" by (simp add: open_excl_def env)
    note eq = assms [unfolded atomic_write_def Let_def, simplified env tmp op option.case sum.case if_True, simplified]
    consider n e where "io_write env = Some (n, e)" | e where "io_write env = None" "io_sync env = Some e"
      | e where "io_write env = None" "io_sync env = None" "io_close env = Some e"
      | e where "io_write env = None" "io_sync env = None" "io_close env = None" "io_chmod env = Some e"
      | e where "io_write env = None" "io_sync env = None" "io_close env = None" "io_chmod env = None" "io_rename env = Some e"
      | "io_write env = None" "io_sync env = None" "io_close env = None" "io_chmod env = None" "io_rename env = None"
      by (metis option.exhaust surj_pair)
    then show ?thesis
    proof cases
      case 1
      with eq show ?thesis by (intro failed [of _ "[?a, ?a\<lparr>fl_data := take n data\<rparr>]"]) (auto simp: set_data_def env)
    next
      case 2
      with eq show ?thesis by (intro failed [of _ "[?a, ?b]"]) (auto simp: set_data_def env)
    next
      case 3
      with eq show ?thesis by (intro failed [of _ "[?a, ?b]"]) (auto simp: set_data_def env)
    next
      case 4
      with eq show ?thesis by (intro failed [of _ "[?a, ?b]"]) (auto simp: set_data_def env)
    next
      case 5
      with eq show ?thesis by (intro failed [of _ "[?a, ?b, \<lparr>fl_data = data, fl_mode = perm\<rparr>]"])
        (auto simp: set_data_def set_mode_def env)
    next
      case 6
      with eq show ?thesis by (intro written [of "[?a, ?b, \<lparr>fl_data = data, fl_mode = perm\<rparr>]"])
        (auto simp: set_data_def set_mode_def rename_file_def env fun_eq_iff)
    qed
  qed
qed

lemma temp_state: "list_all (\<lambda>f. fl_mode f AND NOT (fl_mode g) = 0) ss \<Longrightarrow>
    list_all (write_state env dst g fs) (map (\<lambda>f. fs(temp_of env dst \<mapsto> f)) ss)"
  by (auto simp: list_all_iff write_state_def)

lemma write_state_start [simp]: "write_state env dst g fs fs"
  by (simp add: write_state_def)

lemma write_state_done: "write_state env dst g fs (fs(dst \<mapsto> g))"
  by (simp add: write_state_def)

lemma atomic_write_states:
  assumes "atomic_write env dst data perm fs = (r, tr)"
  shows "list_all (write_state env dst \<lparr>fl_data = data, fl_mode = perm\<rparr> fs) tr" "tr \<noteq> []" "hd tr = fs"
    "r = None \<Longrightarrow> last tr = fs(dst \<mapsto> \<lparr>fl_data = data, fl_mode = perm\<rparr>)"
    "r = Some e \<Longrightarrow> is_err e ErrApplyFailed \<and> last tr dst = fs dst \<and> (io_remove env = None \<longrightarrow> last tr = fs)"
proof -
  let ?g = "\<lparr>fl_data = data, fl_mode = perm\<rparr>"
  have "list_all (write_state env dst ?g fs) tr \<and> tr \<noteq> [] \<and> hd tr = fs \<and>
      (r = None \<longrightarrow> last tr = fs(dst \<mapsto> ?g)) \<and>
      (r = Some e \<longrightarrow> is_err e ErrApplyFailed \<and> last tr dst = fs dst \<and> (io_remove env = None \<longrightarrow> last tr = fs))"
    using assms
  proof (cases rule: atomic_write_cases)
    case (refused err)
    then show ?thesis by auto
  next
    case (failed err ss)
    then have "list_all (write_state env dst ?g fs) (map (\<lambda>f. fs(temp_of env dst \<mapsto> f)) ss)"
      by (intro temp_state) simp
    moreover have "fl_mode (last ss) AND NOT perm = 0" using failed(5,6) by (simp add: list_all_iff)
    then have "write_state env dst ?g fs (remove_file (io_remove env) (temp_of env dst) (fs(temp_of env dst \<mapsto> last ss)))"
      using failed(3) by (auto simp: write_state_def remove_file_def split: option.splits)
    ultimately show ?thesis using failed by (auto simp: remove_file_def fun_upd_idem split: option.splits)
  next
    case (written ss)
    then have "list_all (write_state env dst ?g fs) (map (\<lambda>f. fs(temp_of env dst \<mapsto> f)) ss)"
      by (intro temp_state) simp
    then show ?thesis using written write_state_done by simp
  qed
  then show "list_all (write_state env dst \<lparr>fl_data = data, fl_mode = perm\<rparr> fs) tr" "tr \<noteq> []" "hd tr = fs"
    "r = None \<Longrightarrow> last tr = fs(dst \<mapsto> \<lparr>fl_data = data, fl_mode = perm\<rparr>)"
    "r = Some e \<Longrightarrow> is_err e ErrApplyFailed \<and> last tr dst = fs dst \<and> (io_remove env = None \<longrightarrow> last tr = fs)"
    by blast+
qed

text \<open>A disk that does what it is asked.\<close>

definition io_good :: "io_env \<Rightarrow> bool" where
  "io_good env = (io_stat_dir env = None \<and> io_is_dir env \<and> (case io_random env of Inl _ \<Rightarrow> False | Inr _ \<Rightarrow> True) \<and>
     io_open env = None \<and> io_write env = None \<and> io_sync env = None \<and> io_close env = None \<and> io_chmod env = None \<and>
     io_rename env = None)"

lemma atomic_write_good:
  assumes "io_good env" "fs (temp_of env dst) = None"
  shows "\<exists>tr. atomic_write env dst data perm fs = (None, tr)"
proof -
  obtain rnd where rnd: "io_random env = Inr rnd" using assms(1) by (auto simp: io_good_def split: sum.splits)
  have tmp: "make_temp_path env dst = Inr (temp_of env dst)" by (simp add: make_temp_path_def temp_of_def rnd)
  show ?thesis using assms by (simp add: atomic_write_def Let_def tmp open_excl_def io_good_def)
qed

end
