(* ===== verification/Pki.thy ===== *)
theory Pki
  imports Safeio
begin

text \<open>
  internal/pki: the certificate authority, the leaves it signs, the files they are kept in, the TLS
  configurations made of them and the verification of a leaf. \<open>crypto/x509\<close>, \<open>crypto/tls\<close> and
  \<open>encoding/pem\<close> are the record \<open>pki_lib\<close>; a private key is its scalar as text, a certificate the fields
  the code sets and reads, with its issuer and the public key that its signature opens under. File operations return their error and the states of the files they pass.
\<close>

record x509_cert =
  ce_serial :: int
  ce_cn :: string
  ce_issuer :: string
  ce_not_before :: gotime
  ce_not_after :: gotime
  ce_key_usage :: "string list"
  ce_ext_usage :: "string list"
  ce_basic :: bool
  ce_is_ca :: bool
  ce_path_len_zero :: bool
  ce_ips :: "string list"
  ce_dns :: "string list"
  ce_public :: string
  ce_signer :: string

record cert_verify_opts =
  vo_roots :: "x509_cert list"
  vo_now :: gotime
  vo_dns_name :: string
  vo_usages :: "string list"

text \<open>\<open>pl_create\<close> takes the template, the parent, the public key and the signing key, \<open>pl_pair\<close> the texts of the two files.\<close>

record pki_lib =
  pl_generate :: "gerr + string"
  pl_public :: "string \<Rightarrow> string"
  pl_serial :: "gerr + int"
  pl_create :: "x509_cert \<Rightarrow> x509_cert \<Rightarrow> string \<Rightarrow> string \<Rightarrow> gerr + string"
  pl_parse :: "string \<Rightarrow> gerr + x509_cert"
  pl_marshal_key :: "string \<Rightarrow> gerr + string"
  pl_parse_ec :: "string \<Rightarrow> gerr + string"
  pl_parse_pkcs8 :: "string \<Rightarrow> gerr + string option"
  pl_pem :: "string \<Rightarrow> string \<Rightarrow> string option"
  pl_pem_decode :: "string \<Rightarrow> (string \<times> string) option"
  pl_bundle :: "string \<Rightarrow> x509_cert list"
  pl_verify :: "x509_cert \<Rightarrow> cert_verify_opts \<Rightarrow> gerr option"
  pl_pair :: "string \<Rightarrow> string \<Rightarrow> gerr + string"

record ca =
  ca_cert :: x509_cert
  ca_key :: string

definition pemBlockCert :: string where "pemBlockCert = ''CERTIFICATE''"
definition pemBlockECKey :: string where "pemBlockECKey = ''EC PRIVATE KEY''"
definition pemBlockPKCS8 :: string where "pemBlockPKCS8 = ''PRIVATE KEY''"
definition keyFileMode :: file_mode where "keyFileMode = 0x180"
definition certFileMode :: file_mode where "certFileMode = 0x1A4"
definition MsgSANEmpty :: string where "MsgSANEmpty = ''at least one SAN (IP or DNS) entry is required''"
definition MsgNotAfterInPast :: string where "MsgNotAfterInPast = ''certificate notAfter must be in the future''"

subsection \<open>Files\<close>

text \<open>What the system answers, per path; \<open>pi_nanos\<close> is the clock when a backup of the path is named.\<close>

record pki_io =
  pi_mkdir :: "gerr option"
  pi_stat :: "string \<Rightarrow> gerr option"
  pi_rename :: "string \<Rightarrow> gerr option"
  pi_open :: "string \<Rightarrow> gerr option"
  pi_write :: "string \<Rightarrow> (nat \<times> gerr) option"
  pi_chmod :: "string \<Rightarrow> gerr option"
  pi_umask :: file_mode
  pi_nanos :: "string \<Rightarrow> int"

type_synonym step = "files \<Rightarrow> gerr option \<times> files list"

text \<open>The next step is taken in the last state, if there was no error.\<close>

definition and_then :: "step \<Rightarrow> step \<Rightarrow> step" where
  "and_then f g fs = (case f fs of
     (Some e, tr) \<Rightarrow> (Some e, tr)
   | (None, tr) \<Rightarrow> (case g (last tr) of (r, tr') \<Rightarrow> (r, tr @ tr')))"

definition as_config_error :: "string \<Rightarrow> arg list \<Rightarrow> step \<Rightarrow> step" where
  "as_config_error msg args f fs = (case f fs of (r, tr) \<Rightarrow> (map_option (\<lambda>e. wrap_e e ErrConfigInvalid msg args) r, tr))"

definition os_mkdir :: "pki_io \<Rightarrow> step" where
  "os_mkdir io fs = (pi_mkdir io, [fs])"

definition os_rename :: "pki_io \<Rightarrow> string \<Rightarrow> string \<Rightarrow> step" where
  "os_rename io src dst fs = (case pi_rename io src of Some e \<Rightarrow> (Some e, [fs]) | None \<Rightarrow> (None, [fs, rename_file src dst fs]))"

text \<open>\<open>os.WriteFile\<close> keeps the mode of a file that is there.\<close>

definition os_write_file :: "pki_io \<Rightarrow> string \<Rightarrow> string \<Rightarrow> file_mode \<Rightarrow> step" where
  "os_write_file io path data mode fs = (case pi_open io path of
     Some e \<Rightarrow> (Some e, [fs])
   | None \<Rightarrow>
       let fs1 = fs(path \<mapsto> (case fs path of Some f \<Rightarrow> f\<lparr>fl_data := []\<rparr> | None \<Rightarrow> \<lparr>fl_data = [], fl_mode = mode AND NOT (pi_umask io)\<rparr>)) in
       case pi_write io path of
         Some (n, e) \<Rightarrow> (Some e, [fs, fs1, set_data path (take n data) fs1])
       | None \<Rightarrow> (None, [fs, fs1, set_data path data fs1]))"

definition os_chmod :: "pki_io \<Rightarrow> string \<Rightarrow> file_mode \<Rightarrow> step" where
  "os_chmod io path mode fs = (case pi_chmod io path of Some e \<Rightarrow> (Some e, [fs]) | None \<Rightarrow> (None, [fs, set_mode path mode fs]))"

text \<open>A file that is not there is not moved; a stat can fail for another reason.\<close>

definition backup_if_exists :: "pki_io \<Rightarrow> string \<Rightarrow> step" where
  "backup_if_exists io path fs = (case pi_stat io path of
     Some e \<Rightarrow> if errors_is e NotExist then (None, [fs]) else (Some (wrap_e e ErrConfigInvalid ''stat %s'' [ArgS path]), [fs])
   | None \<Rightarrow> if fs path = None then (None, [fs])
       else let bak = backup_path path (pi_nanos io path) in
         as_config_error ''backup %s -> %s'' [ArgS path, ArgS bak] (os_rename io path bak) fs)"

text \<open>\<open>writeBackupAndPEM\<close> after the backup.\<close>

definition fill_file :: "pki_lib \<Rightarrow> pki_io \<Rightarrow> string \<Rightarrow> string \<Rightarrow> string \<Rightarrow> file_mode \<Rightarrow> step" where
  "fill_file lib io path block der mode fs = (case pl_pem lib block der of
     None \<Rightarrow> (Some (wrap_s ErrConfigInvalid ''encode PEM %s'' [ArgS path]), [fs])
   | Some text \<Rightarrow> and_then (as_config_error ''write %s'' [ArgS path] (os_write_file io path text mode))
       (as_config_error ''chmod %s'' [ArgS path] (os_chmod io path mode)) fs)"

definition write_backup_and_pem :: "pki_lib \<Rightarrow> pki_io \<Rightarrow> string \<Rightarrow> string \<Rightarrow> string \<Rightarrow> file_mode \<Rightarrow> step" where
  "write_backup_and_pem lib io path block der mode = and_then (backup_if_exists io path) (fill_file lib io path block der mode)"

definition write_private_key :: "pki_lib \<Rightarrow> pki_io \<Rightarrow> string \<Rightarrow> string \<Rightarrow> step" where
  "write_private_key lib io path key fs = (case pl_marshal_key lib key of
     Inl e \<Rightarrow> (Some (wrap_e e ErrConfigInvalid ''marshal EC private key'' []), [fs])
   | Inr der \<Rightarrow> write_backup_and_pem lib io path pemBlockECKey der keyFileMode fs)"

subsection \<open>Reading\<close>

definition load_cert_file :: "pki_lib \<Rightarrow> (string \<Rightarrow> gerr + string) \<Rightarrow> string \<Rightarrow> gerr + x509_cert" where
  "load_cert_file lib read path = (case read path of
     Inl e \<Rightarrow> Inl (wrap_e e ErrConfigInvalid ''read certificate %s'' [ArgS path])
   | Inr raw \<Rightarrow> (case pl_pem_decode lib raw of
       Some (block, der) \<Rightarrow>
         if block \<noteq> pemBlockCert then Inl (wrap_s ErrConfigInvalid ''no PEM CERTIFICATE block in %s'' [ArgS path])
         else (case pl_parse lib der of
             Inl e \<Rightarrow> Inl (wrap_e e ErrConfigInvalid ''parse certificate %s'' [ArgS path])
           | Inr cert \<Rightarrow> Inr cert)
     | None \<Rightarrow> Inl (wrap_s ErrConfigInvalid ''no PEM CERTIFICATE block in %s'' [ArgS path])))"

definition load_key_file :: "pki_lib \<Rightarrow> (string \<Rightarrow> gerr + string) \<Rightarrow> string \<Rightarrow> gerr + string" where
  "load_key_file lib read path = (case read path of
     Inl e \<Rightarrow> Inl (wrap_e e ErrConfigInvalid ''read key %s'' [ArgS path])
   | Inr raw \<Rightarrow> (case pl_pem_decode lib raw of
       None \<Rightarrow> Inl (wrap_s ErrConfigInvalid ''no PEM block in %s'' [ArgS path])
     | Some (block, der) \<Rightarrow>
         if block = pemBlockECKey then (case pl_parse_ec lib der of
             Inl e \<Rightarrow> Inl (wrap_e e ErrConfigInvalid ''parse EC key %s'' [ArgS path])
           | Inr key \<Rightarrow> Inr key)
         else if block = pemBlockPKCS8 then (case pl_parse_pkcs8 lib der of
             Inl e \<Rightarrow> Inl (wrap_e e ErrConfigInvalid ''parse PKCS8 key %s'' [ArgS path])
           | Inr None \<Rightarrow> Inl (wrap_s ErrConfigInvalid ''key %s is not a signer'' [ArgS path])
           | Inr (Some key) \<Rightarrow> Inr key)
         else Inl (wrap_s ErrConfigInvalid ''unsupported PEM type %q in %s'' [ArgS block, ArgS path])))"

definition load_ca :: "pki_lib \<Rightarrow> (string \<Rightarrow> gerr + string) \<Rightarrow> string \<Rightarrow> string \<Rightarrow> gerr + ca" where
  "load_ca lib read cert_path key_path =
     ebind (load_cert_file lib read cert_path) (\<lambda>cert.
     ebind (load_key_file lib read key_path) (\<lambda>key.
       if \<not> ce_is_ca cert then Inl (wrap_s ErrConfigInvalid ''certificate at %s is not a CA'' [ArgS cert_path])
       else Inr \<lparr>ca_cert = cert, ca_key = key\<rparr>))"

definition load_ca_pool :: "pki_lib \<Rightarrow> (string \<Rightarrow> gerr + string) \<Rightarrow> string \<Rightarrow> gerr + x509_cert list" where
  "load_ca_pool lib read path = (case read path of
     Inl e \<Rightarrow> Inl (wrap_e e ErrConfigInvalid ''read CA bundle %s'' [ArgS path])
   | Inr raw \<Rightarrow> if pl_bundle lib raw = [] then Inl (wrap_s ErrConfigInvalid ''no usable certificates in %s'' [ArgS path])
       else Inr (pl_bundle lib raw))"

subsection \<open>Issuing\<close>

definition random_serial :: "pki_lib \<Rightarrow> gerr + int" where
  "random_serial lib = (case pl_serial lib of Inl e \<Rightarrow> Inl (wrap_e e ErrConfigInvalid ''serial'' []) | Inr n \<Rightarrow> Inr n)"

text \<open>The fields a template leaves out are empty; the issuer and the keys are filled in by the library.\<close>

definition ca_template :: "int \<Rightarrow> string \<Rightarrow> gotime \<Rightarrow> gotime \<Rightarrow> x509_cert" where
  "ca_template serial cn now not_after =
     \<lparr>ce_serial = serial, ce_cn = cn, ce_issuer = [], ce_not_before = time_add now (- minutes 1), ce_not_after = not_after,
      ce_key_usage = [''CertSign'', ''CRLSign'', ''DigitalSignature''], ce_ext_usage = [], ce_basic = True, ce_is_ca = True,
      ce_path_len_zero = True, ce_ips = [], ce_dns = [], ce_public = [], ce_signer = []\<rparr>"

definition new_ca ::
  "pki_lib \<Rightarrow> pki_io \<Rightarrow> string \<Rightarrow> string \<Rightarrow> gotime \<Rightarrow> gotime \<Rightarrow> files \<Rightarrow> (gerr + ca) \<times> files list" where
  "new_ca lib io dir cn not_after now fs =
     (if cn = [] then (Inl (wrap_s ErrConfigInvalid ''CA common name is required'' []), [fs])
      else if time_before not_after now then (Inl (wrap_s ErrConfigInvalid MsgNotAfterInPast []), [fs])
      else case os_mkdir io fs of
        (Some e, tr) \<Rightarrow> (Inl (wrap_e e ErrConfigInvalid ''mkdir %s'' [ArgS dir]), tr)
      | (None, _) \<Rightarrow> (case pl_generate lib of
          Inl e \<Rightarrow> (Inl (wrap_e e ErrConfigInvalid ''generate CA key'' []), [fs])
        | Inr key \<Rightarrow> (case random_serial lib of
            Inl e \<Rightarrow> (Inl e, [fs])
          | Inr serial \<Rightarrow>
              let tmpl = ca_template serial cn now not_after in
              (case pl_create lib tmpl tmpl (pl_public lib key) key of
                 Inl e \<Rightarrow> (Inl (wrap_e e ErrConfigInvalid ''create CA certificate'' []), [fs])
               | Inr der \<Rightarrow> (case pl_parse lib der of
                   Inl e \<Rightarrow> (Inl (wrap_e e ErrConfigInvalid ''parse generated CA cert'' []), [fs])
                 | Inr cert \<Rightarrow> (case and_then (write_backup_and_pem lib io (path_join [dir, ''ca.crt'']) pemBlockCert der certFileMode)
                       (write_private_key lib io (path_join [dir, ''ca.key'']) key) fs of
                     (Some e, tr) \<Rightarrow> (Inl e, tr)
                   | (None, tr) \<Rightarrow> (Inr \<lparr>ca_cert = cert, ca_key = key\<rparr>, tr)))))))"

record san =
  san_ips :: "string list"
  san_dns :: "string list"

text \<open>The CA is a pointer; one with a certificate and a key is \<open>Some\<close>.\<close>

definition validate_leaf_inputs :: "ca option \<Rightarrow> string \<Rightarrow> gotime \<Rightarrow> gotime \<Rightarrow> gerr option" where
  "validate_leaf_inputs ca cn not_after now = (case ca of
     None \<Rightarrow> Some (wrap_s ErrConfigInvalid ''CA is required'' [])
   | Some c \<Rightarrow>
       if cn = [] then Some (wrap_s ErrConfigInvalid ''common name is required'' [])
       else if \<not> time_after not_after now then Some (wrap_s ErrConfigInvalid MsgNotAfterInPast [])
       else if time_after not_after (ce_not_after (ca_cert c)) then
         Some (wrap_s ErrConfigInvalid ''leaf notAfter exceeds CA notAfter'' [])
       else None)"

definition base_leaf_template :: "int \<Rightarrow> string \<Rightarrow> gotime \<Rightarrow> gotime \<Rightarrow> x509_cert" where
  "base_leaf_template serial cn now not_after =
     \<lparr>ce_serial = serial, ce_cn = cn, ce_issuer = [], ce_not_before = time_add now (- minutes 1), ce_not_after = not_after,
      ce_key_usage = [], ce_ext_usage = [], ce_basic = True, ce_is_ca = False, ce_path_len_zero = False, ce_ips = [], ce_dns = [],
      ce_public = [], ce_signer = []\<rparr>"

definition sign_and_write_leaf :: "pki_lib \<Rightarrow> pki_io \<Rightarrow> ca \<Rightarrow> x509_cert \<Rightarrow> string \<Rightarrow> string \<Rightarrow> step" where
  "sign_and_write_leaf lib io c tmpl cert_path key_path fs = (case pl_generate lib of
     Inl e \<Rightarrow> (Some (wrap_e e ErrConfigInvalid ''generate leaf key'' []), [fs])
   | Inr key \<Rightarrow> (case pl_create lib tmpl (ca_cert c) (pl_public lib key) (ca_key c) of
       Inl e \<Rightarrow> (Some (wrap_e e ErrConfigInvalid ''sign leaf certificate'' []), [fs])
     | Inr der \<Rightarrow> and_then (write_backup_and_pem lib io cert_path pemBlockCert der certFileMode)
         (write_private_key lib io key_path key) fs))"

text \<open>What \<open>IssueServer\<close> and \<open>IssueClient\<close> share after their checks; \<open>now\<close> is read again for the template.\<close>

definition issue_leaf ::
  "pki_lib \<Rightarrow> pki_io \<Rightarrow> ca \<Rightarrow> string \<Rightarrow> string \<Rightarrow> (x509_cert \<Rightarrow> x509_cert) \<Rightarrow> gotime \<Rightarrow> gotime \<Rightarrow> string \<Rightarrow> string \<Rightarrow> step" where
  "issue_leaf lib io c dir cn shape not_after now cert_name key_name fs = (case os_mkdir io fs of
     (Some e, tr) \<Rightarrow> (Some (wrap_e e ErrConfigInvalid ''mkdir %s'' [ArgS dir]), tr)
   | (None, _) \<Rightarrow> (case random_serial lib of
       Inl e \<Rightarrow> (Some e, [fs])
     | Inr serial \<Rightarrow> sign_and_write_leaf lib io c (shape (base_leaf_template serial cn now not_after))
         (path_join [dir, cert_name]) (path_join [dir, key_name]) fs))"

definition issue_server ::
  "pki_lib \<Rightarrow> pki_io \<Rightarrow> ca option \<Rightarrow> string \<Rightarrow> string \<Rightarrow> san \<Rightarrow> gotime \<Rightarrow> gotime \<Rightarrow> step" where
  "issue_server lib io c dir cn names not_after now fs = (case validate_leaf_inputs c cn not_after now of
     Some e \<Rightarrow> (Some e, [fs])
   | None \<Rightarrow> if san_ips names = [] \<and> san_dns names = [] then (Some (wrap_s ErrConfigInvalid MsgSANEmpty []), [fs])
       else issue_leaf lib io (the c) dir cn (\<lambda>t. t\<lparr>ce_key_usage := [''DigitalSignature'', ''KeyEncipherment''],
         ce_ext_usage := [''ServerAuth''], ce_ips := san_ips names, ce_dns := san_dns names\<rparr>) not_after now ''server.crt'' ''server.key'' fs)"

definition issue_client :: "pki_lib \<Rightarrow> pki_io \<Rightarrow> ca option \<Rightarrow> string \<Rightarrow> string \<Rightarrow> gotime \<Rightarrow> gotime \<Rightarrow> step" where
  "issue_client lib io c dir cn not_after now fs = (case validate_leaf_inputs c cn not_after now of
     Some e \<Rightarrow> (Some e, [fs])
   | None \<Rightarrow> issue_leaf lib io (the c) dir cn (\<lambda>t. t\<lparr>ce_key_usage := [''DigitalSignature''], ce_ext_usage := [''ClientAuth'']\<rparr>)
       not_after now ''client.crt'' ''client.key'' fs)"

subsection \<open>Verification\<close>

definition verify_server_cert ::
  "pki_lib \<Rightarrow> (string \<Rightarrow> gerr + string) \<Rightarrow> string \<Rightarrow> string \<Rightarrow> string \<Rightarrow> gotime \<Rightarrow> gerr + x509_cert" where
  "verify_server_cert lib read ca_path cert_path server_name now =
     (if server_name = [] then Inl (wrap_s ErrConfigInvalid ''server_name is required'' [])
      else ebind (load_cert_file lib read cert_path) (\<lambda>cert.
        ebind (load_ca_pool lib read ca_path) (\<lambda>pool.
          case pl_verify lib cert \<lparr>vo_roots = pool, vo_now = now, vo_dns_name = server_name, vo_usages = [''ServerAuth'']\<rparr> of
            Some e \<Rightarrow> Inl (wrap_e e ErrConfigInvalid ''verify server cert %s'' [ArgS cert_path])
          | None \<Rightarrow> Inr cert)))"

definition verify_client_cert ::
  "pki_lib \<Rightarrow> (string \<Rightarrow> gerr + string) \<Rightarrow> string \<Rightarrow> string \<Rightarrow> string \<Rightarrow> gotime \<Rightarrow> gerr + x509_cert" where
  "verify_client_cert lib read ca_path cert_path expected_cn now =
     ebind (load_cert_file lib read cert_path) (\<lambda>cert.
     ebind (load_ca_pool lib read ca_path) (\<lambda>pool.
       case pl_verify lib cert \<lparr>vo_roots = pool, vo_now = now, vo_dns_name = [], vo_usages = [''ClientAuth'']\<rparr> of
         Some e \<Rightarrow> Inl (wrap_e e ErrConfigInvalid ''verify client cert %s'' [ArgS cert_path])
       | None \<Rightarrow> if expected_cn \<noteq> [] \<and> ce_cn cert \<noteq> expected_cn then
             Inl (wrap_s ErrCNMismatch ''client CN %q does not match expected %q'' [ArgS (ce_cn cert), ArgS expected_cn])
           else Inr cert))"

text \<open>A connection's state as \<open>crypto/tls\<close> gives it: its verified chains.\<close>

definition pki_peer_cn :: "x509_cert list list option \<Rightarrow> gerr + string" where
  "pki_peer_cn state = (case state of
     None \<Rightarrow> Inl (wrap_s ErrCNMismatch ''no TLS state'' [])
   | Some ((cert # _) # _) \<Rightarrow> if ce_cn cert = [] then Inl (wrap_s ErrCNMismatch ''peer certificate has empty CN'' []) else Inr (ce_cn cert)
   | Some _ \<Rightarrow> Inl (wrap_s ErrCNMismatch ''no verified peer chain'' []))"

subsection \<open>TLS configurations\<close>

datatype client_auth = NoClientCert | VerifyIfGiven | RequireAndVerify

record tls_config =
  tc_min_version :: string
  tc_certs :: "string list"
  tc_client_cas :: "x509_cert list"
  tc_client_auth :: client_auth
  tc_root_cas :: "x509_cert list"
  tc_server_name :: string

text \<open>\<open>tls.LoadX509KeyPair\<close> reads both files.\<close>

definition load_key_pair :: "pki_lib \<Rightarrow> (string \<Rightarrow> gerr + string) \<Rightarrow> string \<Rightarrow> string \<Rightarrow> gerr + string" where
  "load_key_pair lib read cert key = ebind (read cert) (\<lambda>c. ebind (read key) (\<lambda>k. pl_pair lib c k))"

definition server_tls_config ::
  "pki_lib \<Rightarrow> (string \<Rightarrow> gerr + string) \<Rightarrow> string \<Rightarrow> string \<Rightarrow> string \<Rightarrow> bool \<Rightarrow> gerr + tls_config" where
  "server_tls_config lib read ca_path cert key require = (case load_key_pair lib read cert key of
     Inl e \<Rightarrow> Inl (wrap_e e ErrTLSHandshake ''load server keypair'' [])
   | Inr kp \<Rightarrow>
       let cfg = \<lparr>tc_min_version = ''TLS13'', tc_certs = [kp], tc_client_cas = [], tc_client_auth = NoClientCert,
         tc_root_cas = [], tc_server_name = []\<rparr> in
       if require then ebind (load_ca_pool lib read ca_path) (\<lambda>pool.
         Inr (cfg\<lparr>tc_client_cas := pool, tc_client_auth := RequireAndVerify\<rparr>))
       else if ca_path \<noteq> [] then ebind (load_ca_pool lib read ca_path) (\<lambda>pool.
         Inr (cfg\<lparr>tc_client_cas := pool, tc_client_auth := VerifyIfGiven\<rparr>))
       else Inr cfg)"

definition client_tls_config ::
  "pki_lib \<Rightarrow> (string \<Rightarrow> gerr + string) \<Rightarrow> string \<Rightarrow> string \<Rightarrow> string \<Rightarrow> string \<Rightarrow> gerr + tls_config" where
  "client_tls_config lib read ca_path cert key server_name = ebind (load_ca_pool lib read ca_path) (\<lambda>pool.
     let cfg = \<lparr>tc_min_version = ''TLS13'', tc_certs = [], tc_client_cas = [], tc_client_auth = NoClientCert,
       tc_root_cas = pool, tc_server_name = server_name\<rparr> in
     if cert = [] \<and> key = [] then Inr cfg
     else if cert = [] \<or> key = [] then Inl (wrap_s ErrTLSHandshake ''client certificate and key must be provided together'' [])
     else (case load_key_pair lib read cert key of
         Inl e \<Rightarrow> Inl (wrap_e e ErrTLSHandshake ''load client keypair'' [])
       | Inr kp \<Rightarrow> Inr (cfg\<lparr>tc_certs := [kp]\<rparr>)))"

end
