(* ===== verification/Server_Auth.thy ===== *)
theory Server_Auth
  imports Transport Config_Profiles Pki
begin

text \<open>
  internal/jwtauth and internal/server/auth.go: secrets, issuing and verifying of tokens, and the
  authentication of a connection before and after the upgrade.

  The JWT library is a third-party package: \<open>jwt_lib\<close> has the three functions the source calls, and
  \<open>jwt_lib_sound\<close> and \<open>jwt_lib_complete\<close> state what its documentation promises about them. The verified
  chains of a peer's certificate come from \<open>crypto/tls\<close> with the request.
\<close>

subsection \<open>Tokens\<close>

record jwt_claims =
  jc_profiles :: "string list"
  jc_subject :: string
  jc_issuer :: string
  jc_audience :: "string list"
  jc_issued :: "gotime option"
  jc_not_before :: "gotime option"
  jc_expires :: "gotime option"

record jwt_opts =
  jo_issuer :: string
  jo_audience :: string
  jo_leeway :: duration
  jo_now :: gotime
  jo_methods :: "string list"

text \<open>\<open>jl_parse\<close> takes the key function, which gets the token's signing method if it has one.\<close>

record jwt_lib =
  jl_date :: "gotime \<Rightarrow> gotime"
  jl_sign :: "string \<Rightarrow> jwt_claims \<Rightarrow> gerr + string"
  jl_parse :: "(string option \<Rightarrow> gerr + string) \<Rightarrow> jwt_opts \<Rightarrow> string \<Rightarrow> gerr + jwt_claims \<times> bool"

definition HS256 :: string where "HS256 = ''HS256''"
definition secretSize :: nat where "secretSize = 32"
definition defaultLeeway :: duration where "defaultLeeway = seconds 30"

definition allows_profile :: "jwt_claims \<Rightarrow> string \<Rightarrow> bool" where
  "allows_profile c name = (name \<in> set (jc_profiles c))"

definition normalize_profiles :: "string list \<Rightarrow> string list" where
  "normalize_profiles ps = foldl (\<lambda>out p. let p = trim_space p in
     if p = [] \<or> p \<in> set out then out else out @ [p]) [] ps"

text \<open>\<open>rand.Read\<close> fills the whole buffer or fails.\<close>

definition generate_secret :: "gerr + string \<Rightarrow> gerr + string" where
  "generate_secret rnd = (case rnd of
     Inl e \<Rightarrow> Inl (wrap_e e ErrConfigInvalid ''generate JWT secret'' [])
   | Inr bytes \<Rightarrow> Inr bytes)"

definition encode_secret :: "string \<Rightarrow> string" where
  "encode_secret secret = rawurl_encode secret"

text \<open>What \<open>WriteSecretFile\<close> asks the system to write, and its error.\<close>

definition write_secret_file ::
  "(string \<Rightarrow> string \<Rightarrow> gerr option) \<Rightarrow> (string \<Rightarrow> gerr option) \<Rightarrow> string \<Rightarrow> string \<Rightarrow> gerr option" where
  "write_secret_file os_write os_mode path secret =
     (if secret = [] then Some (wrap_s ErrConfigInvalid ''JWT secret must not be empty'' [])
      else case os_write path (encode_secret secret @ [CHR 0x0A]) of
        Some e \<Rightarrow> Some (wrap_e e ErrConfigInvalid ''write JWT secret %s'' [ArgS path])
      | None \<Rightarrow> (case os_mode path of
          Some e \<Rightarrow> Some (wrap_e e ErrConfigInvalid ''chmod JWT secret %s'' [ArgS path])
        | None \<Rightarrow> None))"

definition load_secret_file :: "host_env \<Rightarrow> string \<Rightarrow> gerr + string" where
  "load_secret_file env path = (case he_read env path of
     Inl e \<Rightarrow> Inl (wrap_e e ErrConfigInvalid ''read JWT secret %s'' [ArgS path])
   | Inr raw \<Rightarrow>
       let trimmed = trim_space raw in
       if trimmed = [] then Inl (wrap_s ErrConfigInvalid ''JWT secret file %s is empty'' [ArgS path])
       else (case rawurl_decode trimmed of
           Some decoded \<Rightarrow> if decoded \<noteq> [] then Inr decoded else Inr trimmed
         | None \<Rightarrow> Inr trimmed))"

definition jwt_issue ::
  "jwt_lib \<Rightarrow> string \<Rightarrow> string \<Rightarrow> string list \<Rightarrow> string \<Rightarrow> string \<Rightarrow> gotime \<Rightarrow> duration \<Rightarrow> gerr + string" where
  "jwt_issue lib secret subject profiles issuer audience now ttl =
     (let ps = normalize_profiles profiles in
      if secret = [] then Inl (wrap_s ErrConfigInvalid ''JWT secret must not be empty'' [])
      else if subject = [] then Inl (wrap_s ErrConfigInvalid ''JWT subject must not be empty'' [])
      else if ps = [] then Inl (wrap_s ErrConfigInvalid ''JWT profiles must not be empty'' [])
      else if issuer = [] \<or> audience = [] then
        Inl (wrap_s ErrConfigInvalid ''JWT issuer and audience are required'' [])
      else if ttl \<le> 0 then Inl (wrap_s ErrConfigInvalid ''JWT ttl must be positive'' [])
      else case jl_sign lib secret
          \<lparr>jc_profiles = ps, jc_subject = subject, jc_issuer = issuer, jc_audience = [audience],
           jc_issued = Some (jl_date lib now), jc_not_before = Some (jl_date lib now),
           jc_expires = Some (jl_date lib (time_add now ttl))\<rparr> of
        Inl e \<Rightarrow> Inl (wrap_e e ErrConfigInvalid ''sign JWT'' [])
      | Inr token \<Rightarrow> Inr token)"

definition jwt_key_func :: "string \<Rightarrow> string option \<Rightarrow> gerr + string" where
  "jwt_key_func secret meth =
     (let alg = (case meth of None \<Rightarrow> ''<nil>'' | Some a \<Rightarrow> a) in
      if meth = None \<or> alg \<noteq> HS256 then
        Inl (wrap_s ErrConfigInvalid ''unexpected JWT signing method %q'' [ArgS alg])
      else Inr secret)"

definition jwt_verify ::
  "jwt_lib \<Rightarrow> string \<Rightarrow> string \<Rightarrow> string \<Rightarrow> string \<Rightarrow> gotime \<Rightarrow> gerr + jwt_claims" where
  "jwt_verify lib secret token issuer audience now =
     (if secret = [] then Inl (wrap_s ErrConfigInvalid ''JWT secret must not be empty'' [])
      else if trim_space token = [] then Inl (wrap_s ErrConfigInvalid ''JWT token must not be empty'' [])
      else case jl_parse lib (jwt_key_func secret)
          \<lparr>jo_issuer = issuer, jo_audience = audience, jo_leeway = defaultLeeway, jo_now = now,
           jo_methods = [HS256]\<rparr> token of
        Inl e \<Rightarrow> Inl (wrap_e e ErrConfigInvalid ''verify JWT'' [])
      | Inr (c, ok) \<Rightarrow>
          if \<not> ok then Inl (wrap_s ErrConfigInvalid ''invalid JWT'' [])
          else
            let claims = c\<lparr>jc_profiles := normalize_profiles (jc_profiles c)\<rparr> in
            if jc_subject claims = [] then Inl (wrap_s ErrConfigInvalid ''JWT subject is required'' [])
            else if jc_profiles claims = [] then
              Inl (wrap_s ErrConfigInvalid ''JWT profiles must not be empty'' [])
            else Inr claims)"

subsection \<open>The authenticator\<close>

record jwt_server_config =
  js_secret_file :: string
  js_issuer :: string
  js_audience :: string
  js_first_frame :: "bool option"
  js_timeout :: duration
  js_timeout_raw :: string

record handshake_auth =
  hs_mode :: auth_mode
  hs_identity :: string
  hs_peer_cn :: string
  hs_profiles :: "string list"
  hs_needs_jwt :: bool

definition zero_handshake :: handshake_auth where
  "zero_handshake = \<lparr>hs_mode = [], hs_identity = [], hs_peer_cn = [], hs_profiles = [], hs_needs_jwt = False\<rparr>"

record authenticator =
  au_mode :: auth_mode
  au_secret :: string
  au_issuer :: string
  au_audience :: string
  au_first_frame :: bool
  au_timeout :: duration

definition config_default_jwt_fallback :: "bool option \<Rightarrow> bool" where
  "config_default_jwt_fallback v = (case v of None \<Rightarrow> True | Some b \<Rightarrow> b)"

definition new_authenticator :: "host_env \<Rightarrow> auth_mode \<Rightarrow> jwt_server_config \<Rightarrow> gerr + authenticator" where
  "new_authenticator env mode cfg =
     (let a = \<lparr>au_mode = mode, au_secret = [], au_issuer = [], au_audience = [],
                au_first_frame = config_default_jwt_fallback (js_first_frame cfg),
                au_timeout = js_timeout cfg\<rparr>
      in if mode \<noteq> AuthModeJWT then Inr a
         else ebind (load_secret_file env (js_secret_file cfg)) (\<lambda>secret.
           Inr (a\<lparr>au_secret := secret, au_issuer := js_issuer cfg, au_audience := js_audience cfg\<rparr>)))"

text \<open>The request: whether it came over TLS, with the verified chains of the connection, and the
  Authorization header.\<close>

record http_request =
  rq_tls :: "x509_cert list list option"
  rq_authorization :: string

definition bearer_token :: "string \<Rightarrow> gerr + string" where
  "bearer_token header = (case str_fields header of
     [scheme, token] \<Rightarrow>
       if \<not> equal_fold_ascii scheme ''Bearer'' then Inl (Errorf ''Authorization must be Bearer'' [] None)
       else if token = [] then Inl (Errorf ''Authorization token is empty'' [] None)
       else Inr token
   | _ \<Rightarrow> Inl (Errorf ''Authorization must be Bearer'' [] None))"

definition MsgJWTProfileDenied :: string where
  "MsgJWTProfileDenied = ''JWT subject %q not allowed for profile %q''"
definition MsgAuthJWTRequired :: string where "MsgAuthJWTRequired = ''auth.jwt required before hello''"
definition MsgAuthJWTInvalid :: string where "MsgAuthJWTInvalid = ''auth.jwt invalid''"

definition verify_jwt :: "jwt_lib \<Rightarrow> authenticator \<Rightarrow> gotime \<Rightarrow> string \<Rightarrow> string \<Rightarrow> gerr + jwt_claims" where
  "verify_jwt lib a now token profile =
     ebind (jwt_verify lib (au_secret a) token (au_issuer a) (au_audience a) now) (\<lambda>claims.
       if \<not> allows_profile claims profile then
         Inl (wrap_s ErrCNMismatch MsgJWTProfileDenied [ArgS (jc_subject claims), ArgS profile])
       else Inr claims)"

definition jwt_handshake :: "jwt_claims \<Rightarrow> handshake_auth" where
  "jwt_handshake claims = zero_handshake\<lparr>hs_mode := AuthModeJWT, hs_identity := jc_subject claims,
     hs_profiles := jc_profiles claims\<rparr>"

text \<open>The status code stands beside the error or the handshake.\<close>

definition pre_upgrade ::
  "jwt_lib \<Rightarrow> authenticator \<Rightarrow> gotime \<Rightarrow> http_request \<Rightarrow> string \<Rightarrow> int \<times> (gerr + handshake_auth)" where
  "pre_upgrade lib a now r profile = (case rq_tls r of
     None \<Rightarrow> (400, Inl (Errorf ''TLS required'' [] None))
   | Some state \<Rightarrow>
       if au_mode a = AuthModeMTLS then (case pki_peer_cn (Some state) of
           Inl e \<Rightarrow> (401, Inl (Errorf ''peer cert invalid: %w'' [] (Some e)))
         | Inr cn \<Rightarrow> (101, Inr (zero_handshake\<lparr>hs_mode := AuthModeMTLS, hs_identity := cn, hs_peer_cn := cn\<rparr>)))
       else
         let authz = trim_space (rq_authorization r) in
         if authz = [] then
           (if au_first_frame a then (101, Inr (zero_handshake\<lparr>hs_mode := AuthModeJWT, hs_needs_jwt := True\<rparr>))
            else (401, Inl (Errorf ''Authorization header required'' [] None)))
         else (case bearer_token authz of
             Inl e \<Rightarrow> (401, Inl e)
           | Inr token \<Rightarrow> (case verify_jwt lib a now token profile of
               Inl e \<Rightarrow> (401, Inl e)
             | Inr claims \<Rightarrow> (101, Inr (jwt_handshake claims)))))"

text \<open>What a receive on the connection gave before the deadlines.\<close>

datatype conn_read = Frame envelope | Ended | TimedOutRead

definition read_kind :: "conn_read \<Rightarrow> string \<Rightarrow> envelope option" where
  "read_kind r want = (case r of
     Frame env \<Rightarrow> if env_type env \<noteq> want then None else Some env
   | Ended \<Rightarrow> None
   | TimedOutRead \<Rightarrow> None)"

text \<open>\<open>json.Unmarshal\<close> of an envelope's payload; an absent payload is no JSON text.\<close>

definition payload_as :: "(json \<Rightarrow> 'a option) \<Rightarrow> envelope \<Rightarrow> 'a option" where
  "payload_as dec env = Option.bind (env_payload env) dec"

definition complete_jwt ::
  "jwt_lib \<Rightarrow> authenticator \<Rightarrow> gotime \<Rightarrow> conn_read \<Rightarrow> string \<Rightarrow> gerr + handshake_auth" where
  "complete_jwt lib a now r profile = (case read_kind r KindAuthJWT of
     None \<Rightarrow> Inl (Errorf MsgAuthJWTRequired [] None)
   | Some env \<Rightarrow> (case payload_as dec_auth_jwt env of
       None \<Rightarrow> Inl (Errorf MsgAuthJWTInvalid [] None)
     | Some p \<Rightarrow> (case verify_jwt lib a now (aj_token p) profile of
         Inl _ \<Rightarrow> Inl (Errorf MsgAuthJWTInvalid [] None)
       | Inr claims \<Rightarrow> Inr (jwt_handshake claims))))"

subsection \<open>The unix-socket attachment\<close>

record attach_headers =
  ah_node_id :: string
  ah_identity :: string
  ah_peer_cn :: string
  ah_auth_mode :: string

definition attach_handshake :: "attach_headers \<Rightarrow> gerr + handshake_auth" where
  "attach_handshake h =
     (let node = trim_space (ah_node_id h); ident = trim_space (ah_identity h);
          peer = trim_space (ah_peer_cn h); mode = trim_space (ah_auth_mode h);
          identity = (if ident = [] then node else ident);
          peer_cn = (if peer = [] then identity else peer);
          md = (if mode = [] then AuthModeMTLS else mode)
      in if node = [] then Inl (wrap_s ErrConfigInvalid ''X-Pangaea-Node-ID header is required'' [])
         else if md \<noteq> AuthModeMTLS \<and> md \<noteq> AuthModeJWT then
           Inl (wrap_s ErrConfigInvalid ''unsupported attach auth mode %q'' [ArgS md])
         else Inr (zero_handshake\<lparr>hs_mode := md, hs_identity := identity, hs_peer_cn := peer_cn\<rparr>))"

end
