(* ===== verification/Hub.thy ===== *)
theory Hub
  imports Mediator Server_Auth Builtin_Formats "HOL-Library.Product_Lexorder"
begin

text \<open>
  internal/server/hub.go, session.go, router.go and the read side of status.go and app.go: profile hubs
  with their sessions and mediators, registration with displacement, the handshake of a connection,
  the routing of what a session receives, and the views other parts of the server read.

  A mediator's four channels are the lists \<open>ph_reports\<close>, \<open>ph_absents\<close>, \<open>ph_acks\<close> and \<open>ph_disconnects\<close>.
  Each holds what is buffered and, behind it, what blocked senders wait to put in: a Go channel serves them in
  this order. After \<open>Stop\<close> the actor reads nothing more, so a send changes nothing. The \<open>hub\<close> field of a session
  that was registered is the entry of \<open>hb_profiles\<close> under its profile's name, which is never replaced.
\<close>

subsection \<open>State\<close>

record profile_hub =
  ph_profile :: profile
  ph_format :: format_ops
  ph_target :: string
  ph_notify :: bool
  ph_sessions :: "(string, session) gomap"
  ph_identities :: "(string, session) gomap"
  ph_mediator :: mediator
  ph_reports :: "(session \<times> snapshot_report) list"
  ph_absents :: "(session \<times> snapshot_absent) list"
  ph_acks :: "(session \<times> truth_ack) list"
  ph_disconnects :: "string list"
  ph_stopped :: bool

record hub =
  hb_profiles :: "(string, profile_hub) gomap"
  hb_notify :: bool
  hb_shutting :: bool

text \<open>What the hub does besides changing its state. A reason is a literal or the text of an error.\<close>

datatype reason = Reason string | ErrText gerr

datatype hub_effect = CloseConn session int reason | HubNotify truth_record

definition new_hub :: hub where
  "new_hub = \<lparr>hb_profiles = [], hb_notify = False, hb_shutting = False\<rparr>"

definition set_propagation_notifier :: "bool \<Rightarrow> hub \<Rightarrow> hub" where
  "set_propagation_notifier installed h = h\<lparr>hb_notify := installed\<rparr>"

definition med_config_of :: "profile_hub \<Rightarrow> med_config" where
  "med_config_of ph = \<lparr>mc_profile = ph_profile ph, mc_format = ph_format ph, mc_target = ph_target ph,
     mc_notify = ph_notify ph\<rparr>"

definition new_profile_hub :: "profile \<Rightarrow> format_ops \<Rightarrow> string \<Rightarrow> bool \<Rightarrow> profile_hub" where
  "new_profile_hub p f target notify = \<lparr>ph_profile = p, ph_format = f, ph_target = target, ph_notify = notify,
     ph_sessions = [], ph_identities = [], ph_mediator = new_mediator, ph_reports = [], ph_absents = [],
     ph_acks = [], ph_disconnects = [], ph_stopped = False\<rparr>"

definition update_profile :: "string \<Rightarrow> (profile_hub \<Rightarrow> profile_hub) \<Rightarrow> hub \<Rightarrow> hub" where
  "update_profile name f h = (case map_of (hb_profiles h) name of None \<Rightarrow> h
     | Some ph \<Rightarrow> h\<lparr>hb_profiles := mput name (f ph) (hb_profiles h)\<rparr>)"

definition MsgProfileUnknown :: string where "MsgProfileUnknown = ''profile not found: %s''"
definition MsgFormatUnknown :: string where "MsgFormatUnknown = ''format not registered: %s''"
definition MsgCNNotAllowed :: string where
  "MsgCNNotAllowed = ''client CN %q not in allowed_clients for profile %q''"
definition MsgHelloIdentityMismatch :: string where
  "MsgHelloIdentityMismatch = ''hello.node_id must match authenticated identity''"

subsection \<open>Registration\<close>

definition get_or_start_profile ::
  "registry \<Rightarrow> profile_store \<Rightarrow> string \<Rightarrow> hub \<Rightarrow> gerr + profile_hub \<times> hub" where
  "get_or_start_profile reg ps name h = (case map_of (hb_profiles h) name of
     Some ph \<Rightarrow> Inr (ph, h)
   | None \<Rightarrow> (case store_get ps name of
       None \<Rightarrow> Inl (wrap_s ErrProfileNotFound MsgProfileUnknown [ArgS name])
     | Some p \<Rightarrow> (case registry_get reg (pf_format p) of
         None \<Rightarrow> Inl (wrap_s ErrFormatNotRegistered MsgFormatUnknown [ArgS (pf_format p)])
       | Some f \<Rightarrow> (case resolve_credential_path f (pf_dir p) of
           Inl e \<Rightarrow> Inl (wrap_e e ErrConfigInvalid ''profile %q: resolve credential path from dir %q''
             [ArgS (pf_name p), ArgS (pf_dir p)])
         | Inr target \<Rightarrow>
             let ph = new_profile_hub p f target (hb_notify h)
             in Inr (ph, h\<lparr>hb_profiles := mput name ph (hb_profiles h)\<rparr>)))))"

definition is_cn_allowed :: "profile \<Rightarrow> string \<Rightarrow> bool" where
  "is_cn_allowed p cn = (cn \<in> set (pf_allowed p))"

definition snapshot_sessions :: "profile_hub \<Rightarrow> session list" where
  "snapshot_sessions ph = map snd (ph_sessions ph)"

definition snapshot_node_ids :: "profile_hub \<Rightarrow> string list" where
  "snapshot_node_ids ph = sort_compact (map se_node (snapshot_sessions ph))"

definition session_record :: "string \<Rightarrow> string \<Rightarrow> profile_hub \<Rightarrow> session \<Rightarrow> truth_record" where
  "session_record kind name ph s = zero_record\<lparr>tr_profile := name, tr_format := f_name (ph_format ph),
     tr_event := kind, tr_node := se_node s, tr_peer := se_peer s, tr_mode := se_mode s,
     tr_nodes := snapshot_node_ids ph\<rparr>"

definition register_session ::
  "registry \<Rightarrow> profile_store \<Rightarrow> string \<Rightarrow> handshake_auth \<Rightarrow> session \<Rightarrow> hub \<Rightarrow>
   gerr option \<times> hub \<times> hub_effect list" where
  "register_session reg ps name auth s h =
     (if hb_shutting h then (Some (wrap_s ErrShutdown ''hub shutting down'' []), h, [])
      else case get_or_start_profile reg ps name h of
        Inl e \<Rightarrow> (Some e, h, [])
      | Inr (ph, h1) \<Rightarrow>
          if hs_mode auth = AuthModeMTLS \<and> \<not> is_cn_allowed (ph_profile ph) (hs_identity auth) then
            (Some (wrap_s ErrCNMismatch MsgCNNotAllowed [ArgS (hs_identity auth), ArgS name]), h1, [])
          else
            let displaced = map_of (ph_identities ph) (hs_identity auth);
                ph' = ph\<lparr>ph_sessions := mput (se_node s) s (ph_sessions ph),
                         ph_identities := mput (hs_identity auth) s (ph_identities ph)\<rparr>
            in (None, h1\<lparr>hb_profiles := mput name ph' (hb_profiles h1)\<rparr>,
                (case displaced of None \<Rightarrow> []
                 | Some p \<Rightarrow> [CloseConn p 1008 (ErrText (Sentinel ErrSessionDisplaced))]) @
                (if hb_notify h1 then [HubNotify (session_record EventSessionConnected name ph' s)] else [])))"

text \<open>\<open>NotifyDisconnect\<close>, \<open>Report\<close>, \<open>Absent\<close> and \<open>Ack\<close>.\<close>

definition notify_disconnect :: "string \<Rightarrow> profile_hub \<Rightarrow> profile_hub" where
  "notify_disconnect nid ph = (if ph_stopped ph then ph else ph\<lparr>ph_disconnects := ph_disconnects ph @ [nid]\<rparr>)"

definition med_report :: "session \<Rightarrow> snapshot_report \<Rightarrow> profile_hub \<Rightarrow> profile_hub" where
  "med_report s p ph = (if ph_stopped ph then ph else ph\<lparr>ph_reports := ph_reports ph @ [(s, p)]\<rparr>)"

definition med_absent :: "session \<Rightarrow> snapshot_absent \<Rightarrow> profile_hub \<Rightarrow> profile_hub" where
  "med_absent s p ph = (if ph_stopped ph then ph else ph\<lparr>ph_absents := ph_absents ph @ [(s, p)]\<rparr>)"

definition med_ack :: "session \<Rightarrow> truth_ack \<Rightarrow> profile_hub \<Rightarrow> profile_hub" where
  "med_ack s p ph = (if ph_stopped ph then ph else ph\<lparr>ph_acks := ph_acks ph @ [(s, p)]\<rparr>)"

definition unregister_session :: "session \<Rightarrow> hub \<Rightarrow> hub \<times> hub_effect list" where
  "unregister_session s h = (case map_of (hb_profiles h) (se_profile s) of
     None \<Rightarrow> (h, [])
   | Some ph \<Rightarrow>
       let removed = (map_of (ph_sessions ph) (se_node s) = Some s);
           ph1 = (if removed then ph\<lparr>ph_sessions := mdel (se_node s) (ph_sessions ph)\<rparr> else ph);
           ph2 = (if map_of (ph_identities ph1) (se_identity s) = Some s
                  then ph1\<lparr>ph_identities := mdel (se_identity s) (ph_identities ph1)\<rparr> else ph1);
           ph3 = (if removed then notify_disconnect (se_node s) ph2 else ph2)
       in (h\<lparr>hb_profiles := mput (se_profile s) ph3 (hb_profiles h)\<rparr>,
           if removed \<and> hb_notify h
           then [HubNotify (session_record EventSessionDisconnected (pf_name (ph_profile ph)) ph3 s)] else []))"

definition stop_profile :: "profile_hub \<Rightarrow> profile_hub" where
  "stop_profile ph = ph\<lparr>ph_stopped := True\<rparr>"

definition hub_shutdown :: "hub \<Rightarrow> hub \<times> hub_effect list" where
  "hub_shutdown h =
     (h\<lparr>hb_shutting := True, hb_profiles := map (\<lambda>(n, ph). (n, stop_profile ph)) (hb_profiles h)\<rparr>,
      concat (map (\<lambda>(n, ph). map (\<lambda>s. CloseConn s 1001 (Reason ''server shutdown'')) (snapshot_sessions ph))
        (hb_profiles h)))"

subsection \<open>What a session receives\<close>

text \<open>The report of a peer's error is only logged.\<close>

datatype handled =
    ToReport snapshot_report | ToAbsent snapshot_absent | ToAck truth_ack
  | ProtocolError string | PeerError

definition session_handle :: "session \<Rightarrow> envelope \<Rightarrow> handled" where
  "session_handle s env =
     (if env_type env = KindSnapshotReport then
        (case payload_as dec_snapshot_report env of
           None \<Rightarrow> ProtocolError ''invalid snapshot.report payload''
         | Some p \<Rightarrow> if sr_profile p \<noteq> se_profile s then ProtocolError ''profile mismatch in snapshot.report''
             else ToReport p)
      else if env_type env = KindSnapshotAbsent then
        (case payload_as dec_snapshot_absent env of
           None \<Rightarrow> ProtocolError ''invalid snapshot.absent payload''
         | Some p \<Rightarrow> if sa_profile p \<noteq> se_profile s then ProtocolError ''profile mismatch in snapshot.absent''
             else ToAbsent p)
      else if env_type env = KindTruthAck then
        (case payload_as dec_truth_ack env of
           None \<Rightarrow> ProtocolError ''invalid truth.ack payload''
         | Some p \<Rightarrow> ToAck p)
      else if env_type env \<in> {KindAuthJWT, KindHello, KindWelcome, KindSnapshotRequest, KindTruthPush} then
        ProtocolError ''unexpected message for server direction''
      else if env_type env = KindError then
        PeerError
      else ProtocolError ''unknown message kind'')"

definition hub_receive :: "session \<Rightarrow> envelope \<Rightarrow> hub \<Rightarrow> hub \<times> hub_effect list" where
  "hub_receive s env h = (case session_handle s env of
     ToReport p \<Rightarrow> (update_profile (se_profile s) (med_report s p) h, [])
   | ToAbsent p \<Rightarrow> (update_profile (se_profile s) (med_absent s p) h, [])
   | ToAck p \<Rightarrow> (update_profile (se_profile s) (med_ack s p) h, [])
   | ProtocolError msg \<Rightarrow> (h, [CloseConn s 1002 (Reason msg)])
   | PeerError \<Rightarrow> (h, []))"

subsection \<open>What a session sends\<close>

text \<open>The three senders of session.go: \<open>Marshal\<close>, \<open>json.Unmarshal\<close> into an envelope, \<open>Send\<close>.\<close>

definition send_payload ::
  "(envelope \<Rightarrow> gerr option) \<Rightarrow> string \<Rightarrow> string \<Rightarrow> gotime \<Rightarrow> json \<Rightarrow> gerr option" where
  "send_payload send kind eid ts j = (case marshal kind EnvelopeV eid ts (Some (Inr j)) of
     Inl e \<Rightarrow> Some e
   | Inr data \<Rightarrow> (case Option.bind (json_unmarshal data) (\<lambda>v. dec_struct dec_envelope_member v zero_envelope) of
       None \<Rightarrow> Some json_error
     | Some env \<Rightarrow> send env))"

definition send_welcome ::
  "(envelope \<Rightarrow> gerr option) \<Rightarrow> string \<Rightarrow> gotime \<Rightarrow> string \<Rightarrow> truth_meta option \<Rightarrow> gerr option" where
  "send_welcome send eid ts version known =
     send_payload send KindWelcome eid ts (enc_welcome_msg \<lparr>wl_version = version, wl_truth = known\<rparr>)"

definition send_truth_push :: "(envelope \<Rightarrow> gerr option) \<Rightarrow> string \<Rightarrow> gotime \<Rightarrow> truth_push \<Rightarrow> gerr option" where
  "send_truth_push send eid ts push = send_payload send KindTruthPush eid ts (enc_truth_push push)"

definition send_snapshot_request ::
  "(envelope \<Rightarrow> gerr option) \<Rightarrow> string \<Rightarrow> gotime \<Rightarrow> snapshot_request \<Rightarrow> gerr option" where
  "send_snapshot_request send eid ts req = send_payload send KindSnapshotRequest eid ts (enc_snapshot_request req)"

text \<open>\<open>request\<close> is the outcome of \<open>sendSnapshotRequest\<close> on each session, in the order of the range.\<close>

definition request_snapshot ::
  "profile_store \<Rightarrow> (session \<Rightarrow> snapshot_request \<Rightarrow> gerr option) \<Rightarrow> string \<Rightarrow> string \<Rightarrow> hub \<Rightarrow> gerr + nat" where
  "request_snapshot ps request profile why h = (case map_of (hb_profiles h) profile of
     None \<Rightarrow> if store_get ps profile = None
       then Inl (wrap_s ErrProfileNotFound MsgProfileUnknown [ArgS profile]) else Inr 0
   | Some ph \<Rightarrow> Inr (length (filter (\<lambda>s. request s \<lparr>sq_profile = profile, sq_reason = why\<rparr> = None)
       (snapshot_sessions ph))))"

subsection \<open>The handshake of a connection\<close>

datatype serve_result = Rejected int reason | Serving session

text \<open>Everything \<open>serveConn\<close> does before it registers: \<open>Inl\<close> is the close it makes.\<close>

definition serve_handshake ::
  "jwt_lib \<Rightarrow> authenticator option \<Rightarrow> gotime \<Rightarrow> string \<Rightarrow> handshake_auth \<Rightarrow> conn_read \<Rightarrow> conn_read \<Rightarrow> nat \<Rightarrow>
   (int \<times> reason) + handshake_auth \<times> session" where
  "serve_handshake lib auth now profile hs0 jwt_read hello_read sid =
     (case (if hs_needs_jwt hs0 then
              (case auth of None \<Rightarrow> Inl (1008, Reason MsgAuthJWTRequired)
               | Some a \<Rightarrow> (case complete_jwt lib a now jwt_read profile of
                   Inl e \<Rightarrow> Inl (1008, ErrText e) | Inr hs \<Rightarrow> Inr hs))
            else Inr hs0) of
        Inl c \<Rightarrow> Inl c
      | Inr hs \<Rightarrow> (case read_kind hello_read KindHello of
          None \<Rightarrow> Inl (1002, Reason ''hello required'')
        | Some env \<Rightarrow> (case payload_as dec_hello env of
            None \<Rightarrow> Inl (1002, Reason ''hello payload invalid'')
          | Some hello \<Rightarrow>
              if hl_node_id hello = [] then Inl (1002, Reason ''hello payload invalid'')
              else if hs_identity hs \<noteq> [] \<and> hl_node_id hello \<noteq> hs_identity hs then
                Inl (1008, Reason MsgHelloIdentityMismatch)
              else Inr (hs, \<lparr>se_id = sid, se_profile = profile, se_peer = hs_peer_cn hs,
                se_identity = hs_identity hs, se_mode = hs_mode hs, se_node = hl_node_id hello\<rparr>))))"

text \<open>\<open>welcome\<close> is the outcome of \<open>sendWelcome\<close> on the new session.\<close>

definition serve_conn ::
  "jwt_lib \<Rightarrow> registry \<Rightarrow> profile_store \<Rightarrow> authenticator option \<Rightarrow> gotime \<Rightarrow> string \<Rightarrow> handshake_auth \<Rightarrow>
   conn_read \<Rightarrow> conn_read \<Rightarrow> nat \<Rightarrow> (session \<Rightarrow> gerr option) \<Rightarrow> hub \<Rightarrow> serve_result \<times> hub \<times> hub_effect list" where
  "serve_conn lib reg ps auth now profile hs0 jwt_read hello_read sid welcome h =
     (case serve_handshake lib auth now profile hs0 jwt_read hello_read sid of
        Inl (code, why) \<Rightarrow> (Rejected code why, h, [])
      | Inr (hs, s) \<Rightarrow> (case register_session reg ps profile hs s h of
          (Some e, h1, effs) \<Rightarrow> (Rejected 1008 (ErrText e), h1, effs)
        | (None, h1, effs) \<Rightarrow> (case welcome s of
            Some e \<Rightarrow> (let (h2, effs2) = unregister_session s h1
              in (Rejected 1011 (Reason ''welcome failed''), h2, effs @ effs2))
          | None \<Rightarrow> (Serving s, h1, effs))))"

text \<open>The HTTP handler before the upgrade: a status with an error, or the handshake to serve.\<close>

definition handle_ws ::
  "jwt_lib \<Rightarrow> profile_store \<Rightarrow> authenticator \<Rightarrow> gotime \<Rightarrow> http_request \<Rightarrow> string \<Rightarrow> int \<times> (gerr + handshake_auth)" where
  "handle_ws lib ps a now r name = (if store_get ps name = None
     then (404, Inl (Errorf ''unknown profile: %s'' [ArgS name] None))
     else pre_upgrade lib a now r name)"

subsection \<open>Views\<close>

record profile_truth =
  pt_profile :: string
  pt_format :: string
  pt_account :: string
  pt_truth :: mirror_truth

definition hub_snapshot_truths :: "hub \<Rightarrow> profile_truth list" where
  "hub_snapshot_truths h = concat (map (\<lambda>(n, ph). map (\<lambda>(a, t).
      \<lparr>pt_profile = pf_name (ph_profile ph), pt_format = f_name (ph_format ph), pt_account = a, pt_truth = t\<rparr>)
      (snapshot_truths (ph_mediator ph))) (hb_profiles h))"

definition snapshot_profile_nodes :: "hub \<Rightarrow> string \<Rightarrow> string list" where
  "snapshot_profile_nodes h profile = (case map_of (hb_profiles h) profile of None \<Rightarrow> []
     | Some ph \<Rightarrow> sort_compact (map se_node (snapshot_sessions ph)))"

text \<open>\<open>notifierTruthSource\<close>: the truths, and a record without truth for every other profile, in order.\<close>

definition truth_source :: "hub \<Rightarrow> profile_store \<Rightarrow> truth_record list" where
  "truth_source h ps =
     (let raw = hub_snapshot_truths h;
          known = map (\<lambda>t. zero_record\<lparr>tr_profile := pt_profile t, tr_account := pt_account t,
            tr_format := pt_format t, tr_fingerprint := mt_fingerprint (pt_truth t),
            tr_issued := mt_issued (pt_truth t), tr_pushed := mt_pushed (pt_truth t),
            tr_raw_b64 := mt_raw_b64 (pt_truth t), tr_summary := mt_summary (pt_truth t),
            tr_nodes := mt_nodes (pt_truth t)\<rparr>) raw;
          rest = filter (\<lambda>p. pf_name p \<notin> set (map pt_profile raw)) (store_list ps);
          missing = map (\<lambda>p. zero_record\<lparr>tr_profile := pf_name p, tr_format := pf_format p,
            tr_no_truth := True, tr_nodes := snapshot_profile_nodes h (pf_name p)\<rparr>) rest
      in sort_key (\<lambda>r. (tr_profile r, tr_account r)) (known @ missing))"

record session_status =
  ss_node :: string
  ss_peer :: string
  ss_identity :: string
  ss_mode :: string

record profile_status =
  pst_name :: string
  pst_format :: string
  pst_sessions :: "session_status list"

definition status_report :: "hub \<Rightarrow> profile_store \<Rightarrow> profile_status list" where
  "status_report h ps = map (\<lambda>p. \<lparr>pst_name = pf_name p, pst_format = pf_format p,
     pst_sessions = (case map_of (hb_profiles h) (pf_name p) of None \<Rightarrow> []
       | Some ph \<Rightarrow> map (\<lambda>s. \<lparr>ss_node = se_node s, ss_peer = se_peer s, ss_identity = se_identity s,
           ss_mode = se_mode s\<rparr>) (snapshot_sessions ph))\<rparr>) (store_list ps)"

end
