(* ===== verification/Transport_Conn.thy ===== *)
theory Transport_Conn
  imports Transport
begin

text \<open>
  internal/transport/wsconn.go: the connection wrapper. Its state is the receive queue, the close
  flag (\<open>closing\<close>, \<open>doneCh\<close> and \<open>closeOnce\<close> change together), the recorded error, the frames handed to the
  websocket library, and whether each pump still runs. Every iteration of a pump and every call
  of \<open>Close\<close> is a function on that state; what the library and the scheduler decide (what a read
  or write returned, which branch of a \<open>select\<close> was taken) are arguments. The step relation
  interleaves them.
\<close>

datatype ws_frame = TextFrame string | PingFrame | CloseFrame int string

record ws_conn =
  wc_cap :: nat
  wc_queue :: "envelope list"
  wc_recv_closed :: bool
  wc_done :: bool
  wc_err :: "gerr option"
  wc_wire :: "ws_frame list"
  wc_reading :: bool
  wc_writing :: bool

definition ChannelBuf :: nat where "ChannelBuf = 64"

definition new_conn :: "int \<Rightarrow> ws_conn" where
  "new_conn recv_buf = \<lparr>wc_cap = (if recv_buf \<le> 0 then ChannelBuf else nat recv_buf), wc_queue = [],
     wc_recv_closed = False, wc_done = False, wc_err = None, wc_wire = [],
     wc_reading = True, wc_writing = True\<rparr>"

text \<open>\<open>websocket.IsCloseError\<close> for a normal closure or a peer going away.\<close>

definition clean_close :: "gerr \<Rightarrow> bool" where
  "clean_close e = (case e of WsCloseError code _ \<Rightarrow> code = 1000 \<or> code = 1001 | _ \<Rightarrow> False)"

definition record_err :: "gerr \<Rightarrow> ws_conn \<Rightarrow> ws_conn" where
  "record_err e c = (if clean_close e then c
     else if wc_err c = None then c\<lparr>wc_err := Some e\<rparr> else c)"

definition tear_down :: "ws_conn \<Rightarrow> ws_conn" where
  "tear_down c = (if wc_done c then c else c\<lparr>wc_done := True\<rparr>)"

definition conn_close :: "int \<Rightarrow> string \<Rightarrow> ws_conn \<Rightarrow> ws_conn" where
  "conn_close code reason c = (if wc_done c then c
     else c\<lparr>wc_wire := wc_wire c @ [CloseFrame code reason], wc_done := True\<rparr>)"

text \<open>\<open>deliver\<close>: insert, dropping the oldest envelopes until there is room.\<close>

fun deliver :: "nat \<Rightarrow> envelope \<Rightarrow> envelope list \<Rightarrow> envelope list" where
  "deliver cap env [] = (if 0 < cap then [env] else [])"
| "deliver cap env (x # q) = (if length (x # q) < cap then x # q @ [env] else deliver cap env q)"

definition stop_reading :: "gerr \<Rightarrow> ws_conn \<Rightarrow> ws_conn" where
  "stop_reading e c = (tear_down (record_err e c))\<lparr>wc_recv_closed := True, wc_reading := False\<rparr>"

text \<open>One iteration of \<open>readLoop\<close> on what \<open>ReadMessage\<close> returned.\<close>

definition read_step :: "gerr + string \<Rightarrow> ws_conn \<Rightarrow> ws_conn" where
  "read_step inp c = (case inp of
     Inl e \<Rightarrow> stop_reading e c
   | Inr msg \<Rightarrow> (case unmarshal msg of
       Inl e \<Rightarrow> stop_reading e c
     | Inr env \<Rightarrow> c\<lparr>wc_queue := deliver (wc_cap c) env (wc_queue c)\<rparr>))"

text \<open>
  One iteration of \<open>writeLoop\<close> on a queued message: the state after it and the sender's answer.
\<close>

datatype write_outcome = WriteOk | CloseSent | TimedOut gerr | WriteFailed gerr

definition close_sent :: gerr where "close_sent = Ext ''websocket: close sent''"

definition stop_writing :: "gerr \<Rightarrow> ws_conn \<Rightarrow> ws_conn" where
  "stop_writing e c = (tear_down (record_err e c))\<lparr>wc_writing := False\<rparr>"

definition write_step :: "string \<Rightarrow> write_outcome \<Rightarrow> ws_conn \<Rightarrow> gerr option \<times> ws_conn" where
  "write_step data r c = (case r of
     WriteOk \<Rightarrow> (None, c\<lparr>wc_wire := wc_wire c @ [TextFrame data]\<rparr>)
   | CloseSent \<Rightarrow> (Some ConnClosed, stop_writing close_sent c)
   | TimedOut e \<Rightarrow> (Some WriteTimedOut, stop_writing e c)
   | WriteFailed e \<Rightarrow> (Some e, stop_writing e c))"

definition ping_step :: "gerr option \<Rightarrow> ws_conn \<Rightarrow> ws_conn" where
  "ping_step r c = (case r of None \<Rightarrow> c\<lparr>wc_wire := wc_wire c @ [PingFrame]\<rparr>
     | Some e \<Rightarrow> stop_writing e c)"

text \<open>\<open>Send\<close>: the guard, the encoding, then two selects.\<close>

datatype 'a sel = Ready 'a | DoneCh | CtxDone gerr

definition conn_send :: "envelope \<Rightarrow> unit sel \<Rightarrow> gerr option sel \<Rightarrow> ws_conn \<Rightarrow> gerr option" where
  "conn_send env hand_off answer c =
     (if wc_done c then Some ConnClosed
      else case encode_envelope env of
        Inl e \<Rightarrow> Some e
      | Inr data \<Rightarrow> (case hand_off of
          DoneCh \<Rightarrow> Some ConnClosed
        | CtxDone e \<Rightarrow> Some e
        | Ready _ \<Rightarrow> (case answer of Ready r \<Rightarrow> r | DoneCh \<Rightarrow> Some ConnClosed | CtxDone e \<Rightarrow> Some e)))"

inductive conn_step :: "ws_conn \<Rightarrow> ws_conn \<Rightarrow> bool" where
  read_pump: "wc_reading c \<Longrightarrow> conn_step c (read_step inp c)"
| consume: "wc_queue c = env # q \<Longrightarrow> conn_step c (c\<lparr>wc_queue := q\<rparr>)"
| write_pump: "wc_writing c \<Longrightarrow> encode_envelope env = Inr data \<Longrightarrow> conn_step c (snd (write_step data r c))"
| ping_tick: "wc_writing c \<Longrightarrow> conn_step c (ping_step p c)"
| writer_exit: "wc_writing c \<Longrightarrow> wc_done c \<Longrightarrow> conn_step c (c\<lparr>wc_writing := False\<rparr>)"
| close_call: "conn_step c (conn_close code reason c)"

inductive_cases conn_stepE: "conn_step c c'"

inductive conn_reach :: "int \<Rightarrow> ws_conn \<Rightarrow> bool" for buf where
  start: "conn_reach buf (new_conn buf)"
| step: "conn_reach buf c \<Longrightarrow> conn_step c c' \<Longrightarrow> conn_reach buf c'"

subsection \<open>Invariants\<close>

lemmas conn_defs = record_err_def tear_down_def conn_close_def stop_reading_def read_step_def
  stop_writing_def write_step_def ping_step_def

definition is_close :: "ws_frame \<Rightarrow> bool" where
  "is_close f = (case f of CloseFrame _ _ \<Rightarrow> True | _ \<Rightarrow> False)"

definition conn_inv :: "ws_conn \<Rightarrow> bool" where
  "conn_inv c \<longleftrightarrow> 0 < wc_cap c \<and> length (wc_queue c) \<le> wc_cap c \<and>
     (\<forall>e \<in> set (wc_queue c). valid_kind (env_type e) \<and> env_v e = EnvelopeV) \<and>
     wc_recv_closed c = (\<not> wc_reading c) \<and> (\<not> wc_reading c \<longrightarrow> wc_done c) \<and>
     (\<not> wc_writing c \<longrightarrow> wc_done c) \<and>
     length (filter is_close (wc_wire c)) \<le> (if wc_done c then 1 else 0)"

lemma deliver_room: "length q < cap \<Longrightarrow> deliver cap env q = q @ [env]"
  by (cases q) auto

lemma deliver_newest:
  "0 < cap \<Longrightarrow> length q \<le> cap \<Longrightarrow> deliver cap env q = drop (Suc (length q) - cap) (q @ [env])"
  by (cases q) (auto simp: drop_Cons' not_less deliver_room not_le)

lemma deliver_length: "length q \<le> cap \<Longrightarrow> length (deliver cap env q) \<le> cap"
  by (induction q) auto

lemma deliver_set: "set (deliver cap env q) \<subseteq> insert env (set q)"
  by (induction q) auto

lemma new_conn_inv: "conn_inv (new_conn buf)"
  by (simp add: conn_inv_def new_conn_def ChannelBuf_def)

lemma record_err_inv: "conn_inv (record_err e c) = conn_inv c"
  by (simp add: conn_inv_def record_err_def)

lemma tear_down_inv: "conn_inv c \<Longrightarrow> conn_inv (tear_down c)"
  by (auto simp: conn_inv_def tear_down_def split: if_splits)

lemma read_step_inv:
  assumes "conn_inv c"
  shows "conn_inv (read_step inp c)"
proof -
  have stop: "conn_inv (stop_reading e c)" for e
    using assms by (auto simp: conn_inv_def stop_reading_def tear_down_def record_err_def split: if_splits)
  have ok: "conn_inv (c\<lparr>wc_queue := deliver (wc_cap c) env (wc_queue c)\<rparr>)"
    if "unmarshal msg = Inr env" for msg env
    using assms unmarshal_Inr [OF that] deliver_set [of "wc_cap c" env "wc_queue c"]
    by (auto simp: conn_inv_def deliver_length)
  show ?thesis using stop ok by (auto simp: read_step_def split: sum.splits)
qed

lemma stop_writing_inv: "conn_inv c \<Longrightarrow> conn_inv (stop_writing e c)"
  by (auto simp: conn_inv_def stop_writing_def tear_down_def record_err_def split: if_splits)

lemma write_step_inv: "conn_inv c \<Longrightarrow> conn_inv (snd (write_step data r c))"
  by (cases r) (simp_all add: write_step_def stop_writing_inv, simp add: conn_inv_def is_close_def)

lemma ping_step_inv: "conn_inv c \<Longrightarrow> conn_inv (ping_step p c)"
  by (cases p) (simp_all add: ping_step_def stop_writing_inv, simp add: conn_inv_def is_close_def)

lemma conn_close_inv: "conn_inv c \<Longrightarrow> conn_inv (conn_close code reason c)"
  by (auto simp: conn_inv_def conn_close_def is_close_def)

lemma conn_step_inv: "conn_step c c' \<Longrightarrow> conn_inv c \<Longrightarrow> conn_inv c'"
proof (induction rule: conn_step.induct)
  case (consume c env q)
  then show ?case by (auto simp: conn_inv_def)
next
  case (writer_exit c)
  then show ?case by (auto simp: conn_inv_def)
qed (simp_all add: read_step_inv write_step_inv ping_step_inv conn_close_inv)

lemma conn_reach_inv: "conn_reach buf c \<Longrightarrow> conn_inv c"
  by (induction rule: conn_reach.induct) (auto intro: new_conn_inv conn_step_inv)

text \<open>The recorded error is the first that is not a clean close, and the close flag is final.\<close>

lemma conn_step_sticky:
  assumes "conn_step c c'"
  shows "wc_err c = Some e \<Longrightarrow> wc_err c' = Some e" "wc_done c \<Longrightarrow> wc_done c'" "wc_cap c' = wc_cap c"
  using assms
  by (induction rule: conn_step.induct)
    (auto simp: conn_defs split: sum.splits write_outcome.splits option.splits)

end
