(* ===== verification/Transport_Props.thy ===== *)
theory Transport_Props
  imports Transport_Conn
begin

text \<open>
  What the wire protocol and the connection wrapper guarantee: only well-formed envelopes come out
  of the codec, what one side sends is what the other side reads, the receive queue keeps the
  newest envelopes, the first error stays recorded and at most one close frame is written.
\<close>

subsection \<open>The codec\<close>

text \<open>Whatever bytes arrive, the codec either refuses them with an error of the category
  ErrInvalidMessage or returns an envelope of the protocol's version and of one of its nine kinds.\<close>

theorem codec_accepts_only_valid:
  "case unmarshal w of
     Inl e \<Rightarrow> is_err e ErrInvalidMessage
   | Inr env \<Rightarrow> env_v env = EnvelopeV \<and> valid_kind (env_type env)"
  using unmarshal_error [of w] unmarshal_Inr [of w] by (simp split: sum.splits)

lemma json_raw_wf: "text_ok p \<Longrightarrow> text_ok (Some (json_raw p))"
  by (auto simp: text_ok_def json_raw_def split: option.splits)

text \<open>An envelope as it was read is written and read back as itself.\<close>

lemma received_wire:
  assumes "envelope_ok e" "valid_kind (env_type e)" "env_v e = EnvelopeV" "time_writable (env_ts e)"
  shows "encode_envelope (received e) = Inr (json_text (enc_envelope (received e)))"
    "unmarshal (json_text (enc_envelope (received e))) = Inr (received e)"
proof -
  have ok: "envelope_ok (received e)"
    using assms(1) json_raw_wf by (simp add: envelope_ok_def received_def)
  have same: "received (received e) = received e" by (simp add: received_def json_raw_def)
  show "unmarshal (json_text (enc_envelope (received e))) = Inr (received e)"
    using unmarshal_text [OF ok] assms(2,3) same by (simp add: received_def)
  show "encode_envelope (received e) = Inr (json_text (enc_envelope (received e)))"
    using assms(2-4) by (simp add: encode_envelope_Inr) (simp add: received_def)
qed

text \<open>C39: An envelope survives the wire: what \<open>Marshal\<close> writes for a valid kind, \<open>Unmarshal\<close> reads back with
  the same kind, id, time and payload; and what \<open>Conn.Send\<close> then writes for the envelope that was
  read is read back as the same envelope by the peer.\<close>

theorem envelope_survives_the_wire:
  assumes "marshal kind v i t payload = Inr w" "payload = map_option Inr p" "valid_utf8 i" "time_ok t" "text_ok p"
  shows "\<exists>env w'. unmarshal w = Inr env \<and>
    env = \<lparr>env_type = kind, env_v = v, env_id = i, env_ts = t, env_payload = Some (json_raw p)\<rparr> \<and>
    encode_envelope env = Inr w' \<and> unmarshal w' = Inr env"
proof -
  let ?e = "\<lparr>env_type = kind, env_v = v, env_id = i, env_ts = t, env_payload = p\<rparr>"
  from assms(1,2) have k: "valid_kind kind" "v = EnvelopeV" "time_writable t" "w = json_text (enc_envelope ?e)"
    by (cases p; auto simp: marshal_def split: if_splits)+
  have ok: "envelope_ok ?e" using assms(3-5) by (simp add: envelope_ok_def)
  then have "unmarshal w = Inr (received ?e)" using k by (simp add: unmarshal_text)
  then show ?thesis using received_wire [OF ok] k by (simp add: received_def)
qed

definition some_instant :: gotime where "some_instant = seconds 1000000000"

lemma some_instant_ok: "time_ok some_instant" and some_instant_writable: "time_writable some_instant"
  by code_simp+

theorem envelope_survives_the_wire_witness:
  "\<exists>w env w'. marshal KindTruthAck EnvelopeV ''id-1'' some_instant (Some (Inr JNull)) = Inr w \<and> unmarshal w = Inr env \<and>
    env = \<lparr>env_type = KindTruthAck, env_v = EnvelopeV, env_id = ''id-1'', env_ts = some_instant,
      env_payload = Some (json_raw (Some JNull))\<rparr> \<and>
    encode_envelope env = Inr w' \<and> unmarshal w' = Inr env"
proof -
  obtain w where w: "marshal KindTruthAck EnvelopeV ''id-1'' some_instant (Some (Inr JNull)) = Inr w"
    by (simp add: marshal_def valid_kind_def some_instant_writable)
  have "valid_utf8 ''id-1''" by (rule ascii_utf8) simp
  from envelope_survives_the_wire [OF w _ this some_instant_ok, of "Some JNull"] w show ?thesis
    by (auto simp: text_ok_def)
qed

text \<open>Each payload of the protocol is read back as it was written: hello, welcome, auth.jwt,
  snapshot.request, snapshot.report, snapshot.absent, truth.push, truth.ack and error. The conditions
  are on times (representable in RFC 3339) and sizes (of 64 bits).\<close>

theorem payloads_round_trip:
  "(hello_ok h \<longrightarrow> dec_hello (enc_hello h) = Some h) \<and>
   (welcome_msg_ok wl \<longrightarrow> dec_welcome_msg (enc_welcome_msg wl) = Some wl) \<and>
   (auth_jwt_ok aj \<longrightarrow> dec_auth_jwt (enc_auth_jwt aj) = Some aj) \<and>
   (snapshot_request_ok rq \<longrightarrow> dec_snapshot_request (enc_snapshot_request rq) = Some rq) \<and>
   (snapshot_report_ok rp \<longrightarrow> dec_snapshot_report (enc_snapshot_report rp) = Some rp) \<and>
   (snapshot_absent_ok ab \<longrightarrow> dec_snapshot_absent (enc_snapshot_absent ab) = Some ab) \<and>
   (truth_push_ok tp \<longrightarrow> dec_truth_push (enc_truth_push tp) = Some tp) \<and>
   (truth_ack_ok ta \<longrightarrow> dec_truth_ack (enc_truth_ack ta) = Some ta) \<and>
   (error_payload_ok er \<longrightarrow> dec_error_payload (enc_error_payload er) = Some er)"
  by (simp add: hello_rt welcome_msg_rt auth_jwt_rt snapshot_request_rt snapshot_report_rt
      snapshot_absent_rt truth_push_rt truth_ack_rt error_payload_rt)

definition some_push :: truth_push where
  "some_push = \<lparr>tp_profile = ''p'', tp_account = ''a'', tp_format = ''f'', tp_fingerprint = ''00'',
     tp_raw_b64 = ''eA=='', tp_target = ''/x'', tp_issued = some_instant, tp_summary = None\<rparr>"

theorem payloads_round_trip_witness: "dec_truth_push (enc_truth_push some_push) = Some some_push"
proof -
  have "truth_push_ok some_push" by (simp add: truth_push_ok_def some_push_def some_instant_ok)
  with payloads_round_trip [where tp = some_push] show ?thesis by blast
qed

text \<open>A generated identifier has the shape of a version 4 UUID whatever the random source returns
  or whether it fails: 36 characters, dashes at the four places, the version digit and the variant.\<close>

theorem new_id_is_uuid4:
  assumes "length buf = 16"
  shows "length (new_id buf failed ns) = 36 \<and>
    map ((!) (new_id buf failed ns)) [8, 13, 18, 23] = ''----'' \<and>
    new_id buf failed ns ! 14 = CHR ''4'' \<and> new_id buf failed ns ! 19 \<in> set ''89ab''"
  by (intro conjI new_id_shape [OF assms])

theorem new_id_is_uuid4_witness:
  "length (new_id (replicate 16 (CHR ''x'')) True 12345) = 36 \<and>
    map ((!) (new_id (replicate 16 (CHR ''x'')) True 12345)) [8, 13, 18, 23] = ''----'' \<and>
    new_id (replicate 16 (CHR ''x'')) True 12345 ! 14 = CHR ''4'' \<and>
    new_id (replicate 16 (CHR ''x'')) True 12345 ! 19 \<in> set ''89ab''"
  by (rule new_id_is_uuid4) simp

subsection \<open>The connection\<close>

text \<open>C40: In every reachable state of a connection the receive queue holds at most its capacity, every
  envelope in it has the protocol's version and a known kind, the receive channel is closed
  exactly when the reader has stopped, a pump that has stopped has torn the connection down, and at
  most one close frame was ever written.\<close>

theorem connection_invariant:
  assumes "conn_reach buf c"
  shows "0 < wc_cap c \<and> length (wc_queue c) \<le> wc_cap c \<and>
    (\<forall>e \<in> set (wc_queue c). valid_kind (env_type e) \<and> env_v e = EnvelopeV) \<and>
    wc_recv_closed c = (\<not> wc_reading c) \<and> (\<not> wc_reading c \<or> \<not> wc_writing c \<longrightarrow> wc_done c) \<and>
    length (filter is_close (wc_wire c)) \<le> (if wc_done c then 1 else 0)"
  using conn_reach_inv [OF assms] by (auto simp: conn_inv_def)

lemma closed_conn_reach: "conn_reach 0 (conn_close 1000 ''bye'' (new_conn 0))"
  by (rule conn_reach.step [OF conn_reach.start conn_step.close_call])

theorem connection_invariant_witness:
  "length (filter is_close (wc_wire (conn_close 1000 ''bye'' (new_conn 0)))) \<le> 1"
  using connection_invariant [OF closed_conn_reach] by (auto split: if_splits)

text \<open>The receive queue keeps the newest envelopes: after a message is read, the queue is what was
  queued before followed by the new envelope, less the oldest envelopes that do not fit.\<close>

theorem queue_keeps_newest:
  assumes "conn_reach buf c" "unmarshal msg = Inr env"
  shows "wc_queue (read_step (Inr msg) c) =
      drop (Suc (length (wc_queue c)) - wc_cap c) (wc_queue c @ [env]) \<and>
    last (wc_queue (read_step (Inr msg) c)) = env"
proof -
  have i: "0 < wc_cap c" "length (wc_queue c) \<le> wc_cap c"
    using conn_reach_inv [OF assms(1)] by (simp_all add: conn_inv_def)
  then have "wc_queue (read_step (Inr msg) c) = drop (Suc (length (wc_queue c)) - wc_cap c) (wc_queue c @ [env])"
    using assms(2) by (simp add: read_step_def deliver_newest)
  moreover have "Suc (length (wc_queue c)) - wc_cap c \<le> length (wc_queue c)" using i by simp
  ultimately show ?thesis by simp
qed

definition some_envelope :: envelope where
  "some_envelope = \<lparr>env_type = KindHello, env_v = EnvelopeV, env_id = ''i'', env_ts = some_instant, env_payload = Some JNull\<rparr>"

theorem queue_keeps_newest_witness:
  "wc_queue (read_step (Inr (json_text (enc_envelope some_envelope))) (new_conn 1)) = [some_envelope]"
proof -
  have "valid_utf8 ''i''" by (rule ascii_utf8) simp
  then have "unmarshal (json_text (enc_envelope some_envelope)) = Inr (received some_envelope)"
    by (intro unmarshal_text) (simp_all add: some_envelope_def envelope_ok_def some_instant_ok text_ok_def valid_kind_def)
  moreover have "received some_envelope = some_envelope" by (simp add: received_def some_envelope_def json_raw_def)
  ultimately show ?thesis
    using queue_keeps_newest [OF conn_reach.start [of 1], of "json_text (enc_envelope some_envelope)" some_envelope]
    by (simp add: new_conn_def)
qed

text \<open>Once a connection has recorded an error, no later step changes it, and a connection that is
  done stays done: a caller asking for the error after the connection ended sees the first failure.\<close>

theorem first_error_sticks:
  assumes "conn_step\<^sup>*\<^sup>* c c'" "wc_err c = Some e"
  shows "wc_err c' = Some e \<and> (wc_done c \<longrightarrow> wc_done c') \<and> wc_cap c' = wc_cap c"
  using assms
proof (induction rule: rtranclp_induct)
  case (step y z)
  then show ?case using conn_step_sticky [OF step.hyps(2)] by auto
qed simp

theorem first_error_sticks_witness:
  "wc_err (read_step (Inl Canceled) (ping_step (Some (Ext ''broken pipe'')) (new_conn 4))) = Some (Ext ''broken pipe'')"
proof -
  let ?c = "ping_step (Some (Ext ''broken pipe'')) (new_conn 4)"
  have "conn_step ?c (read_step (Inl Canceled) ?c)"
    by (rule conn_step.read_pump) (simp add: conn_defs new_conn_def clean_close_def)
  then have s: "conn_step\<^sup>*\<^sup>* ?c (read_step (Inl Canceled) ?c)" by (rule r_into_rtranclp)
  have "wc_err ?c = Some (Ext ''broken pipe'')" by (simp add: conn_defs new_conn_def clean_close_def)
  from first_error_sticks [OF s this] show ?thesis by simp
qed

end
