(* ===== verification/Server_Auth_Props.thy ===== *)
theory Server_Auth_Props
  imports Server_Auth Transport_Props
begin

text \<open>
  Correctness of secrets, tokens and handshakes. What the JWT library promises is stated in two
  predicates: a token it accepts has a valid signature and claims that satisfy the options; a token
  it signed is accepted under the same key while the claims satisfy the options. A small concrete
  library shows that they can hold.
\<close>

subsection \<open>Trimming what was written to a file\<close>

definition printable :: "char \<Rightarrow> bool" where
  "printable c \<longleftrightarrow> 33 \<le> byte_of c \<and> byte_of c < 127"

lemma space_encodings_unprintable:
  "list_all (\<lambda>w. w \<noteq> [] \<and> \<not> printable (hd w) \<and> \<not> printable (last w)) space_encodings"
  by (simp add: space_encodings_def printable_def)

lemma strip_prefix_head: "w \<noteq> [] \<Longrightarrow> hd w \<noteq> c \<Longrightarrow> strip_prefix w (c # s) = None"
  by (cases w) auto

lemma strip_space_printable:
  assumes "printable c"
  shows "strip_space (c # s) = None" "strip_space_rev (c # s) = None"
proof -
  have "strip_prefix w (c # s) = None" "strip_prefix (rev w) (c # s) = None" if "w \<in> set space_encodings" for w
    using that space_encodings_unprintable assms
    by (auto simp: list_all_iff hd_rev intro!: strip_prefix_head)
  then show "strip_space (c # s) = None" "strip_space_rev (c # s) = None"
    by (simp_all add: strip_space_def strip_space_rev_def strip_any_None)
qed

lemma strip_space_rev_newline: "strip_space_rev (CHR 0x0A # s) = Some s"
  by (simp add: strip_space_rev_def space_encodings_def)

lemma trim_printable_line:
  assumes "s \<noteq> []" "printable (hd s)" "printable (last s)"
  shows "trim_space (s @ [CHR 0x0A]) = s" "trim_space s = s"
proof -
  have l: "strip_space (s @ t) = None" for t
    using assms(1,2) by (cases s) (simp_all add: strip_space_printable)
  have r: "strip_space_rev (rev s) = None"
    using assms(1,3) by (cases s rule: rev_cases) (simp_all add: strip_space_printable)
  have "drop_spaces strip_space_rev (CHR 0x0A # rev s) = rev s"
    by (subst drop_spaces.simps) (simp add: strip_space_rev_newline drop_spaces_None r)
  then show "trim_space (s @ [CHR 0x0A]) = s"
    using l by (simp add: trim_space_def trim_left_def trim_right_def drop_spaces_None)
  show "trim_space s = s" using l [of "[]"] r by (simp add: trim_space_id)
qed

lemma rawurl_printable: "c \<in> set (rawurl_encode s) \<Longrightarrow> printable c"
proof -
  have d: "printable (url_digit n)" if "n < 64" for n
    using that by (cases rule: digit_cases [of n]) (simp_all add: printable_def url_digit_def Let_def of_char_of)
  show "c \<in> set (rawurl_encode s) \<Longrightarrow> printable c"
    using rawurl64.encode_digits [of c s] d unfolding rawurl_encode_def by (auto simp: printable_def)
qed

text \<open>A secret written to its file is the secret that is loaded from it, for every non-empty secret.\<close>

theorem secret_file_round_trip:
  assumes "secret \<noteq> []" "he_read env path = Inr (encode_secret secret @ [CHR 0x0A])"
  shows "write_secret_file (\<lambda>p d. if p = path \<and> d = encode_secret secret @ [CHR 0x0A] then None else Some NotExist)
      (\<lambda>_. None) path secret = None \<and>
    load_secret_file env path = Inr secret"
proof -
  have ne: "encode_secret secret \<noteq> []" using assms(1) by (simp add: encode_secret_def rawurl_encode_def b64_encode_Nil_iff)
  then have "hd (encode_secret secret) \<in> set (rawurl_encode secret)" "last (encode_secret secret) \<in> set (rawurl_encode secret)"
    by (simp_all add: encode_secret_def)
  then have "trim_space (encode_secret secret @ [CHR 0x0A]) = encode_secret secret"
    using ne rawurl_printable by (intro trim_printable_line) blast+
  then show ?thesis
    using assms ne by (simp add: load_secret_file_def write_secret_file_def Let_def encode_secret_def rawurl.dec_enc)
qed

definition some_secret_host :: "string \<Rightarrow> host_env" where
  "some_secret_host raw = \<lparr>he_read = (\<lambda>_. Inr raw), he_is_dir = (\<lambda>_. False), he_lookup = (\<lambda>_. None), he_home = Inr []\<rparr>"

theorem secret_file_round_trip_witness:
  "load_secret_file (some_secret_host (encode_secret ''k3y'' @ [CHR 0x0A])) ''/jwt.key'' = Inr ''k3y''"
  using secret_file_round_trip [of "''k3y''" "some_secret_host (encode_secret ''k3y'' @ [CHR 0x0A])" "''/jwt.key''"]
  by (simp add: some_secret_host_def)

subsection \<open>Profile lists\<close>

lemma normalize_profiles_snoc: "normalize_profiles (ps @ [p]) =
   (if trim_space p = [] \<or> trim_space p \<in> set (normalize_profiles ps) then normalize_profiles ps
    else normalize_profiles ps @ [trim_space p])"
  by (simp add: normalize_profiles_def Let_def)

lemma normalize_profiles_set:
  "set (normalize_profiles ps) = trim_space ` set ps - {[]} \<and> distinct (normalize_profiles ps)"
proof (induction ps rule: rev_induct)
  case Nil
  show ?case by (simp add: normalize_profiles_def)
next
  case (snoc p ps)
  then show ?case by (auto simp: normalize_profiles_snoc)
qed

lemma normalize_profiles_id:
  "distinct ps \<Longrightarrow> \<forall>p \<in> set ps. p \<noteq> [] \<and> trim_space p = p \<Longrightarrow> normalize_profiles ps = ps"
proof (induction ps rule: rev_induct)
  case Nil
  show ?case by (simp add: normalize_profiles_def)
next
  case (snoc p ps)
  then show ?case by (simp add: normalize_profiles_snoc)
qed

lemma normalize_profiles_idem [simp]: "normalize_profiles (normalize_profiles ps) = normalize_profiles ps"
proof (rule normalize_profiles_id)
  show "\<forall>p \<in> set (normalize_profiles ps). p \<noteq> [] \<and> trim_space p = p"
    using normalize_profiles_set [of ps] by auto
qed (use normalize_profiles_set in blast)

subsection \<open>What the JWT library promises\<close>

text \<open>\<open>sig_ok secret token claims\<close> says that the token is the claims with a valid HS256 signature.\<close>

definition claims_hold :: "jwt_opts \<Rightarrow> jwt_claims \<Rightarrow> bool" where
  "claims_hold o1 c \<longleftrightarrow> (jo_issuer o1 \<noteq> [] \<longrightarrow> jc_issuer c = jo_issuer o1) \<and>
     (jo_audience o1 \<noteq> [] \<longrightarrow> jo_audience o1 \<in> set (jc_audience c)) \<and>
     (\<forall>e. jc_expires c = Some e \<longrightarrow> jo_now o1 < e + jo_leeway o1) \<and>
     (\<forall>n. jc_not_before c = Some n \<longrightarrow> n \<le> jo_now o1 + jo_leeway o1)"

definition jwt_lib_sound :: "jwt_lib \<Rightarrow> (string \<Rightarrow> string \<Rightarrow> jwt_claims \<Rightarrow> bool) \<Rightarrow> bool" where
  "jwt_lib_sound lib sig_ok \<longleftrightarrow> (\<forall>kf o1 token c ok. jl_parse lib kf o1 token = Inr (c, ok) \<longrightarrow> ok \<longrightarrow>
     jo_methods o1 = [HS256] \<longrightarrow>
     (\<exists>key. kf (Some HS256) = Inr key \<and> sig_ok key token c) \<and> claims_hold o1 c)"

definition claims_text :: "jwt_claims \<Rightarrow> bool" where
  "claims_text c \<longleftrightarrow> list_all valid_utf8 (jc_subject c # jc_issuer c # jc_profiles c @ jc_audience c) \<and>
     list_all (\<lambda>t. case t of None \<Rightarrow> True | Some x \<Rightarrow> 0 \<le> x \<and> x < 2 ^ 53 * 1000000000)
       [jc_issued c, jc_not_before c, jc_expires c]"

definition jwt_lib_complete :: "jwt_lib \<Rightarrow> bool" where
  "jwt_lib_complete lib \<longleftrightarrow> (\<forall>t. t - 1000000000 < jl_date lib t \<and> jl_date lib t \<le> t \<and> (0 \<le> t \<longrightarrow> 0 \<le> jl_date lib t)) \<and>
     (\<forall>key c token kf o1. jl_sign lib key c = Inr token \<longrightarrow> claims_text c \<longrightarrow> kf (Some HS256) = Inr key \<longrightarrow>
       HS256 \<in> set (jo_methods o1) \<longrightarrow> claims_hold o1 c \<longrightarrow>
       trim_space token \<noteq> [] \<and> jl_parse lib kf o1 token = Inr (c, True))"

lemma jwt_lib_completeD:
  assumes "jwt_lib_complete lib" "jl_sign lib key c = Inr token" "claims_text c" "kf (Some HS256) = Inr key"
    "HS256 \<in> set (jo_methods o1)" "claims_hold o1 c"
  shows "trim_space token \<noteq> []" "jl_parse lib kf o1 token = Inr (c, True)"
  using assms unfolding jwt_lib_complete_def by blast+

subsection \<open>Tokens\<close>

lemma verified_token_facts:
  assumes "jwt_lib_sound lib sig_ok" "jwt_verify lib secret token issuer audience now = Inr c"
    "issuer \<noteq> []" "audience \<noteq> []"
  shows "\<exists>c0. sig_ok secret token c0 \<and> c = c0\<lparr>jc_profiles := normalize_profiles (jc_profiles c0)\<rparr> \<and>
    jc_subject c \<noteq> [] \<and> jc_profiles c \<noteq> [] \<and> distinct (jc_profiles c) \<and> [] \<notin> set (jc_profiles c) \<and>
    jc_issuer c = issuer \<and> audience \<in> set (jc_audience c) \<and>
    (case jc_expires c of None \<Rightarrow> True | Some e \<Rightarrow> now < e + seconds 30) \<and>
    (case jc_not_before c of None \<Rightarrow> True | Some n \<Rightarrow> n \<le> now + seconds 30)"
proof -
  let ?o = "\<lparr>jo_issuer = issuer, jo_audience = audience, jo_leeway = defaultLeeway, jo_now = now, jo_methods = [HS256]\<rparr>"
  obtain c0 where p: "jl_parse lib (jwt_key_func secret) ?o token = Inr (c0, True)"
    and c: "c = c0\<lparr>jc_profiles := normalize_profiles (jc_profiles c0)\<rparr>" "jc_subject c \<noteq> []" "jc_profiles c \<noteq> []"
    using assms(2) by (auto simp: jwt_verify_def Let_def split: if_splits sum.splits prod.splits)
  from assms(1) p have "\<exists>key. jwt_key_func secret (Some HS256) = Inr key \<and> sig_ok key token c0" "claims_hold ?o c0"
    unfolding jwt_lib_sound_def by fastforce+
  then have s: "sig_ok secret token c0" "claims_hold ?o c0" by (auto simp: jwt_key_func_def)
  then show ?thesis using c assms(3,4) normalize_profiles_set [of "jc_profiles c0"]
    by (intro exI [of _ c0]) (auto simp: claims_hold_def defaultLeeway_def split: option.splits)
qed

text \<open>A token that \<open>Verify\<close> accepts carries a valid HS256 signature under the server's secret, names
  the expected issuer and audience, is within its validity period up to thirty seconds, and has a
  subject and a list of different, trimmed, non-empty profiles.\<close>

theorem verified_token_is_authentic:
  assumes "jwt_lib_sound lib sig_ok" "jwt_verify lib secret token issuer audience now = Inr c"
    "issuer \<noteq> []" "audience \<noteq> []"
  shows "\<exists>c0. sig_ok secret token c0 \<and> c = c0\<lparr>jc_profiles := normalize_profiles (jc_profiles c0)\<rparr> \<and>
    jc_subject c \<noteq> [] \<and> jc_profiles c \<noteq> [] \<and> distinct (jc_profiles c) \<and> [] \<notin> set (jc_profiles c) \<and>
    jc_issuer c = issuer \<and> audience \<in> set (jc_audience c) \<and>
    (case jc_expires c of None \<Rightarrow> True | Some e \<Rightarrow> now < e + seconds 30) \<and>
    (case jc_not_before c of None \<Rightarrow> True | Some n \<Rightarrow> n \<le> now + seconds 30)"
  by (rule verified_token_facts [OF assms])

lemma jwt_issue_cases:
  assumes "jwt_issue lib secret subject profiles issuer audience now ttl = Inr token"
  obtains c where "jl_sign lib secret c = Inr token" "secret \<noteq> []" "subject \<noteq> []" "issuer \<noteq> []" "audience \<noteq> []" "0 < ttl"
    "normalize_profiles profiles \<noteq> []"
    "c = \<lparr>jc_profiles = normalize_profiles profiles, jc_subject = subject, jc_issuer = issuer, jc_audience = [audience],
           jc_issued = Some (jl_date lib now), jc_not_before = Some (jl_date lib now),
           jc_expires = Some (jl_date lib (time_add now ttl))\<rparr>"
  using assms that by (auto simp: jwt_issue_def Let_def split: if_splits sum.splits)

text \<open>C12: An issued token is accepted by \<open>Verify\<close> under the same secret, issuer and audience at every
  moment from thirty seconds before it was issued until it expires and twenty-nine seconds more, with
  the subject it was issued for and its normalized profiles; hence it allows exactly the non-blank profiles
  asked for.\<close>

theorem issued_token_verifies:
  assumes "jwt_lib_complete lib" "jwt_issue lib secret subject profiles issuer audience now ttl = Inr token"
    "list_all valid_utf8 (subject # issuer # audience # normalize_profiles profiles)"
    "0 \<le> jl_date lib now" "now + ttl < 2 ^ 53 * 1000000000"
    "now - seconds 30 \<le> later" "later < now + ttl + seconds 29"
  shows "\<exists>c. jwt_verify lib secret token issuer audience later = Inr c \<and> jc_subject c = subject \<and>
    jc_profiles c = normalize_profiles profiles \<and>
    (allows_profile c p \<longleftrightarrow> p \<noteq> [] \<and> p \<in> trim_space ` set profiles)"
proof -
  let ?o = "\<lparr>jo_issuer = issuer, jo_audience = audience, jo_leeway = defaultLeeway, jo_now = later, jo_methods = [HS256]\<rparr>"
  from jwt_issue_cases [OF assms(2)] obtain c where c: "jl_sign lib secret c = Inr token" "secret \<noteq> []" "subject \<noteq> []"
    "issuer \<noteq> []" "audience \<noteq> []" "0 < ttl" "normalize_profiles profiles \<noteq> []"
    "c = \<lparr>jc_profiles = normalize_profiles profiles, jc_subject = subject, jc_issuer = issuer, jc_audience = [audience],
           jc_issued = Some (jl_date lib now), jc_not_before = Some (jl_date lib now),
           jc_expires = Some (jl_date lib (now + ttl))\<rparr>"
    by (metis time_add_def)
  have d: "t - 1000000000 < jl_date lib t" "jl_date lib t \<le> t" "0 \<le> t \<Longrightarrow> 0 \<le> jl_date lib t" for t
    using assms(1) by (simp_all add: jwt_lib_complete_def)
  have e: "0 \<le> jl_date lib (now + ttl)" using assms(4) d(2) [of now] c(6) by (intro d(3)) simp
  have "claims_text c" using assms(3,5) c(6) d(2) [of now] d(2) [of "now + ttl"] assms(4) e
    by (auto simp: claims_text_def c(8))
  moreover have "claims_hold ?o c"
    using assms(6,7) d(2) [of now] d(1) [of "now + ttl"]
    by (simp add: claims_hold_def c(8) defaultLeeway_def seconds_def)
  moreover have "jwt_key_func secret (Some HS256) = Inr secret" by (simp add: jwt_key_func_def)
  ultimately have p: "trim_space token \<noteq> []" "jl_parse lib (jwt_key_func secret) ?o token = Inr (c, True)"
    using jwt_lib_completeD [OF assms(1) c(1), of "jwt_key_func secret" ?o] by simp_all
  then have "jwt_verify lib secret token issuer audience later = Inr c"
    using c(2,3,7) by (simp add: jwt_verify_def Let_def c(8))
  then show ?thesis using normalize_profiles_set [of profiles] by (auto simp: c(8) allows_profile_def)
qed

subsection \<open>A concrete library\<close>

text \<open>It knows one token, that of fixed claims under one key.\<close>

definition demo_claims :: jwt_claims where
  "demo_claims = \<lparr>jc_profiles = [''demo''], jc_subject = ''node-a'', jc_issuer = ''iss'', jc_audience = [''aud''],
     jc_issued = Some (seconds 1000), jc_not_before = Some (seconds 1000), jc_expires = Some (seconds 1060)\<rparr>"

definition claims_holdb :: "jwt_opts \<Rightarrow> jwt_claims \<Rightarrow> bool" where
  "claims_holdb o1 c = ((jo_issuer o1 = [] \<or> jc_issuer c = jo_issuer o1) \<and>
     (jo_audience o1 = [] \<or> jo_audience o1 \<in> set (jc_audience c)) \<and>
     (case jc_expires c of None \<Rightarrow> True | Some e \<Rightarrow> jo_now o1 < e + jo_leeway o1) \<and>
     (case jc_not_before c of None \<Rightarrow> True | Some n \<Rightarrow> n \<le> jo_now o1 + jo_leeway o1))"

lemma claims_holdb: "claims_holdb o1 c = claims_hold o1 c"
  by (auto simp: claims_holdb_def claims_hold_def split: option.splits)

definition demo_jwt_lib :: jwt_lib where
  "demo_jwt_lib = \<lparr>jl_date = (\<lambda>t. t div 1000000000 * 1000000000),
     jl_sign = (\<lambda>key c. if key = ''k3y'' \<and> c = demo_claims then Inr ''tok'' else Inl (Ext ''jwt'')),
     jl_parse = (\<lambda>kf o1 token. if token = ''tok'' \<and> HS256 \<in> set (jo_methods o1) \<and>
         kf (Some HS256) = Inr ''k3y'' \<and> claims_holdb o1 demo_claims
       then Inr (demo_claims, True) else Inl (Ext ''jwt''))\<rparr>"

definition demo_signed :: "string \<Rightarrow> string \<Rightarrow> jwt_claims \<Rightarrow> bool" where
  "demo_signed key token c \<longleftrightarrow> key = ''k3y'' \<and> token = ''tok'' \<and> c = demo_claims"

lemma demo_lib_sound: "jwt_lib_sound demo_jwt_lib demo_signed"
  by (auto simp: jwt_lib_sound_def demo_jwt_lib_def demo_signed_def claims_holdb split: if_splits)

lemma trim_tok: "trim_space ''tok'' = ''tok''"
  by (rule trim_printable_line) (simp_all add: printable_def)

lemma demo_lib_complete: "jwt_lib_complete demo_jwt_lib"
proof -
  have "t - 1000000000 < t div 1000000000 * 1000000000 \<and> t div 1000000000 * 1000000000 \<le> t" for t :: int
    using div_mult_mod_eq [of t 1000000000] pos_mod_bound [of 1000000000 t] pos_mod_sign [of 1000000000 t]
    by linarith
  moreover have "0 \<le> t \<longrightarrow> 0 \<le> t div 1000000000 * 1000000000" for t :: int
    by (simp add: pos_imp_zdiv_nonneg_iff)
  ultimately show ?thesis
    by (simp add: jwt_lib_complete_def demo_jwt_lib_def trim_tok claims_holdb)
qed

lemma trim_demo: "trim_space ''demo'' = ''demo''"
  by (rule trim_printable_line) (simp_all add: printable_def)

lemma demo_issue:
  "jwt_issue demo_jwt_lib ''k3y'' ''node-a'' [''demo''] ''iss'' ''aud'' (seconds 1000) (seconds 60) = Inr ''tok''"
  by (simp add: jwt_issue_def normalize_profiles_def trim_demo demo_jwt_lib_def demo_claims_def seconds_def time_add_def)

theorem issued_token_verifies_witness:
  "\<exists>c. jwt_verify demo_jwt_lib ''k3y'' ''tok'' ''iss'' ''aud'' (seconds 1080) = Inr c \<and> jc_subject c = ''node-a''"
proof -
  have n: "normalize_profiles [''demo''] = [''demo'']" by (simp add: normalize_profiles_def trim_demo)
  have "list_all valid_utf8 [''node-a'', ''iss'', ''aud'', ''demo'']" by (simp add: ascii_utf8)
  with issued_token_verifies [OF demo_lib_complete demo_issue, of "seconds 1080"] n show ?thesis
    by (simp add: demo_jwt_lib_def seconds_def) blast
qed

lemma demo_verify: "jwt_verify demo_jwt_lib ''k3y'' ''tok'' ''iss'' ''aud'' (seconds 1000) = Inr demo_claims"
  by (simp add: jwt_verify_def trim_tok demo_jwt_lib_def jwt_key_func_def claims_holdb_def demo_claims_def
      defaultLeeway_def seconds_def normalize_profiles_def trim_demo HS256_def)

theorem verified_token_is_authentic_witness:
  "\<exists>c0 c. demo_signed ''k3y'' ''tok'' c0 \<and>
    jwt_verify demo_jwt_lib ''k3y'' ''tok'' ''iss'' ''aud'' (seconds 1000) = Inr c \<and> jc_issuer c = ''iss''"
  using verified_token_is_authentic [OF demo_lib_sound demo_verify] demo_verify by auto

end
