(* ===== verification/Hub_Props.thy ===== *)
theory Hub_Props
  imports Hub Mediator_Props Server_Auth_Props
begin

text \<open>
  The server as a whole: connections that are admitted, sessions that receive and leave, mediators
  that take turns, reloads and shutdown, interleaved in any order. The invariant of the reachable states
  says which sessions can be registered; with it the theorems about one mediator become theorems
  about what the server sends to whom.
\<close>

subsection \<open>A mediator's turn inside the hub\<close>

datatype channel = ChReport | ChAbsent | ChAck | ChDisconnect

definition next_input :: "channel \<Rightarrow> profile_hub \<Rightarrow> (med_input \<times> profile_hub) option" where
  "next_input ch ph = (case ch of
     ChReport \<Rightarrow> (case ph_reports ph of [] \<Rightarrow> None | (s, p) # q \<Rightarrow> Some (InReport s p, ph\<lparr>ph_reports := q\<rparr>))
   | ChAbsent \<Rightarrow> (case ph_absents ph of [] \<Rightarrow> None | (s, p) # q \<Rightarrow> Some (InAbsent s p, ph\<lparr>ph_absents := q\<rparr>))
   | ChAck \<Rightarrow> (case ph_acks ph of [] \<Rightarrow> None | (s, p) # q \<Rightarrow> Some (InAck s p, ph\<lparr>ph_acks := q\<rparr>))
   | ChDisconnect \<Rightarrow> (case ph_disconnects ph of [] \<Rightarrow> None | n # q \<Rightarrow> Some (InDisconnect n, ph\<lparr>ph_disconnects := q\<rparr>)))"

definition profile_turn ::
  "channel \<Rightarrow> med_env \<Rightarrow> profile_hub \<Rightarrow> (profile_hub \<times> med_event list) option" where
  "profile_turn ch env ph = (if ph_stopped ph then None else case next_input ch ph of
     None \<Rightarrow> None
   | Some (inp, ph') \<Rightarrow>
       (case med_turn (med_config_of ph) (env\<lparr>me_sessions := ph_sessions ph\<rparr>) inp (ph_mediator ph) of
          None \<Rightarrow> None
        | Some (m', evs) \<Rightarrow> Some (ph'\<lparr>ph_mediator := m'\<rparr>, evs)))"

definition hub_turn :: "string \<Rightarrow> channel \<Rightarrow> med_env \<Rightarrow> hub \<Rightarrow> (hub \<times> med_event list) option" where
  "hub_turn name ch env h = (case map_of (hb_profiles h) name of
     None \<Rightarrow> None
   | Some ph \<Rightarrow> (case profile_turn ch env ph of
       None \<Rightarrow> None
     | Some (ph', evs) \<Rightarrow> Some (h\<lparr>hb_profiles := mput name ph' (hb_profiles h)\<rparr>, evs)))"

subsection \<open>The server\<close>

definition builtin_registry :: registry where
  "builtin_registry = (case register_all builtin_formats [] of None \<Rightarrow> [] | Some r \<Rightarrow> r)"

text \<open>Where a connection comes from, with what the log keeps of it: from the TLS listener a request, the time
  of the upgrade, the first frame then read and the time after it; from the unix attach socket the headers
  of its request.\<close>

datatype origin = FromTls http_request gotime conn_read gotime | FromSocket attach_headers conn_read gotime

fun origin_frame :: "origin \<Rightarrow> conn_read" where
  "origin_frame (FromTls r now jr now') = jr"
| "origin_frame (FromSocket hdr jr now') = jr"

fun origin_clock :: "origin \<Rightarrow> gotime" where
  "origin_clock (FromTls r now jr now') = now'"
| "origin_clock (FromSocket hdr jr now') = now'"

text \<open>\<open>sv_origin\<close> is a log, kept for the theorems only: every session the server made, with its origin.\<close>

record server =
  sv_hub :: hub
  sv_store :: profile_store
  sv_auth :: authenticator
  sv_next :: nat
  sv_live :: "session list"
  sv_origin :: "(session \<times> origin) list"

text \<open>The TLS listener serves with the server's authenticator, the unix socket with none.\<close>

inductive admitted_handshake ::
  "jwt_lib \<Rightarrow> profile_store \<Rightarrow> authenticator \<Rightarrow> string \<Rightarrow> origin \<Rightarrow> authenticator option \<Rightarrow> handshake_auth \<Rightarrow> bool" where
  tls: "handle_ws lib ps a now r name = (101, Inr hs) \<Longrightarrow> admitted_handshake lib ps a name (FromTls r now jr now') (Some a) hs"
| unix: "store_get ps name \<noteq> None \<Longrightarrow> attach_handshake hdr = Inr hs \<Longrightarrow>
     admitted_handshake lib ps a name (FromSocket hdr jr now') None hs"

inductive srv_step :: "jwt_lib \<Rightarrow> server \<Rightarrow> server \<Rightarrow> bool" for lib where
  connect: "admitted_handshake lib (sv_store v) (sv_auth v) name org auth hs0 \<Longrightarrow>
     serve_conn lib builtin_registry (sv_store v) auth (origin_clock org) name hs0 (origin_frame org) hr (sv_next v) welcome (sv_hub v)
       = (Serving s, h, effs) \<Longrightarrow>
     srv_step lib v (v\<lparr>sv_hub := h, sv_next := Suc (sv_next v), sv_live := s # sv_live v, sv_origin := (s, org) # sv_origin v\<rparr>)"
| refuse: "admitted_handshake lib (sv_store v) (sv_auth v) name org auth hs0 \<Longrightarrow>
     serve_conn lib builtin_registry (sv_store v) auth (origin_clock org) name hs0 (origin_frame org) hr (sv_next v) welcome (sv_hub v)
       = (Rejected code why, h, effs) \<Longrightarrow>
     srv_step lib v (v\<lparr>sv_hub := h, sv_next := Suc (sv_next v)\<rparr>)"
| receive: "s \<in> set (sv_live v) \<Longrightarrow> srv_step lib v (v\<lparr>sv_hub := fst (hub_receive s env (sv_hub v))\<rparr>)"
| leave: "s \<in> set (sv_live v) \<Longrightarrow>
     srv_step lib v (v\<lparr>sv_hub := fst (unregister_session s (sv_hub v)), sv_live := removeAll s (sv_live v)\<rparr>)"
| turn: "env_ok env \<Longrightarrow> hub_turn name ch env (sv_hub v) = Some (h, evs) \<Longrightarrow> srv_step lib v (v\<lparr>sv_hub := h\<rparr>)"
| reload: "srv_step lib v (v\<lparr>sv_store := snd (store_reload yaml env path (sv_store v))\<rparr>)"
| shutdown: "srv_step lib v (v\<lparr>sv_hub := fst (hub_shutdown (sv_hub v))\<rparr>)"

inductive srv_reach :: "jwt_lib \<Rightarrow> server \<Rightarrow> bool" for lib where
  start: "srv_reach lib \<lparr>sv_hub = set_propagation_notifier b new_hub, sv_store = new_profile_store ps,
     sv_auth = a, sv_next = 0, sv_live = [], sv_origin = []\<rparr>"
| step: "srv_reach lib v \<Longrightarrow> srv_step lib v v' \<Longrightarrow> srv_reach lib v'"

subsection \<open>The invariant\<close>

definition admitted :: "profile_hub \<Rightarrow> session \<Rightarrow> bool" where
  "admitted ph s \<longleftrightarrow> se_profile s = pf_name (ph_profile ph) \<and> se_identity s \<in> {[], se_node s} \<and>
     (se_mode s = AuthModeMTLS \<longrightarrow> is_cn_allowed (ph_profile ph) (se_identity s))"

definition ph_inv :: "string \<Rightarrow> profile_hub \<Rightarrow> bool" where
  "ph_inv n ph \<longleftrightarrow> pf_name (ph_profile ph) = n \<and> ph_format ph \<in> set builtin_formats \<and>
     gomap_ok (ph_sessions ph) \<and> gomap_ok (ph_identities ph) \<and>
     (\<forall>(k, s) \<in> set (ph_sessions ph). se_node s = k \<and> admitted ph s) \<and>
     (\<forall>(k, s) \<in> set (ph_identities ph). se_identity s = k \<and> admitted ph s) \<and>
     (\<forall>(s, p) \<in> set (ph_reports ph). admitted ph s \<and> sr_profile p = n) \<and>
     (\<forall>(s, p) \<in> set (ph_absents ph). admitted ph s \<and> sa_profile p = n) \<and>
     (\<forall>(s, p) \<in> set (ph_acks ph). admitted ph s) \<and>
     med_reach (med_config_of ph) (ph_mediator ph)"

definition hub_inv :: "hub \<Rightarrow> bool" where
  "hub_inv h \<longleftrightarrow> gomap_ok (hb_profiles h) \<and> (\<forall>(n, ph) \<in> set (hb_profiles h). ph_inv n ph)"

definition live_in :: "hub \<Rightarrow> session \<Rightarrow> bool" where
  "live_in h s \<longleftrightarrow> (\<exists>ph. map_of (hb_profiles h) (se_profile s) = Some ph \<and> admitted ph s)"

definition srv_inv :: "server \<Rightarrow> bool" where
  "srv_inv v \<longleftrightarrow> hub_inv (sv_hub v) \<and> (\<forall>s \<in> set (sv_live v). live_in (sv_hub v) s)"

text \<open>What a change of the other fields leaves alone.\<close>

lemma admitted_update [simp]:
  "admitted (ph\<lparr>ph_sessions := x0\<rparr>) s = admitted ph s"
  "admitted (ph\<lparr>ph_identities := x1\<rparr>) s = admitted ph s"
  "admitted (ph\<lparr>ph_mediator := x2\<rparr>) s = admitted ph s"
  "admitted (ph\<lparr>ph_reports := x3\<rparr>) s = admitted ph s"
  "admitted (ph\<lparr>ph_absents := x4\<rparr>) s = admitted ph s"
  "admitted (ph\<lparr>ph_acks := x5\<rparr>) s = admitted ph s"
  "admitted (ph\<lparr>ph_disconnects := x6\<rparr>) s = admitted ph s"
  "admitted (ph\<lparr>ph_stopped := x7\<rparr>) s = admitted ph s"
  by (simp_all add: admitted_def)

lemma med_config_of_update [simp]:
  "med_config_of (ph\<lparr>ph_sessions := x0\<rparr>) = med_config_of ph"
  "med_config_of (ph\<lparr>ph_identities := x1\<rparr>) = med_config_of ph"
  "med_config_of (ph\<lparr>ph_mediator := x2\<rparr>) = med_config_of ph"
  "med_config_of (ph\<lparr>ph_reports := x3\<rparr>) = med_config_of ph"
  "med_config_of (ph\<lparr>ph_absents := x4\<rparr>) = med_config_of ph"
  "med_config_of (ph\<lparr>ph_acks := x5\<rparr>) = med_config_of ph"
  "med_config_of (ph\<lparr>ph_disconnects := x6\<rparr>) = med_config_of ph"
  "med_config_of (ph\<lparr>ph_stopped := x7\<rparr>) = med_config_of ph"
  by (simp_all add: med_config_of_def)

lemma hub_inv_get: "hub_inv h \<Longrightarrow> map_of (hb_profiles h) n = Some ph \<Longrightarrow> ph_inv n ph"
  by (auto simp: hub_inv_def dest: map_of_SomeD)

lemma hub_inv_put:
  assumes "hub_inv h" "ph_inv n ph"
  shows "hub_inv (h\<lparr>hb_profiles := mput n ph (hb_profiles h)\<rparr>)"
proof -
  have "(k, q) \<in> set (mput n ph (hb_profiles h)) \<longleftrightarrow> (if k = n then q = ph else (k, q) \<in> set (hb_profiles h))" for k q
    using assms(1) by (intro gm.entries_put) (simp add: hub_inv_def)
  then show ?thesis using assms by (auto simp: hub_inv_def split: if_splits)
qed

text \<open>A change of a profile hub that keeps its profile keeps the sessions admitted.\<close>

lemma admitted_same: "ph_profile ph' = ph_profile ph \<Longrightarrow> admitted ph' s = admitted ph s"
  by (simp add: admitted_def)

lemma live_in_put:
  assumes "live_in h s" "map_of (hb_profiles h) n = Some ph" "ph_profile ph' = ph_profile ph"
  shows "live_in (h\<lparr>hb_profiles := mput n ph' (hb_profiles h)\<rparr>) s"
  using assms(1,2) by (cases "se_profile s = n") (simp_all add: live_in_def gm.get_put admitted_same [OF assms(3)])

lemma live_in_new:
  assumes "live_in h s" "map_of (hb_profiles h) n = None"
  shows "live_in (h\<lparr>hb_profiles := mput n ph' (hb_profiles h)\<rparr>) s"
  using assms by (cases "se_profile s = n") (simp_all add: live_in_def gm.get_put)

subsection \<open>Every operation keeps it\<close>

lemma find_first_spec: "find P xs = Some x \<Longrightarrow> x \<in> set xs \<and> P x"
  by (metis find_Some_iff nth_mem)

lemma builtin_registry_get:
  assumes "registry_get builtin_registry n = Some f"
  shows "f \<in> set builtin_formats" "f_name f = n"
proof -
  have e: "registry_get [] n = None" by (simp add: registry_get_def)
  from register_all_fresh [OF builtin_names, of "[]"] obtain r where
    r: "register_all builtin_formats [] = Some r"
    and g: "registry_get r n = (case find (\<lambda>f. f_name f = n) builtin_formats of Some f \<Rightarrow> Some f | None \<Rightarrow> registry_get [] n)"
    by (auto simp: registry_get_def)
  have "builtin_registry = r" by (simp add: builtin_registry_def r)
  then have "find (\<lambda>f. f_name f = n) builtin_formats = Some f"
    using assms g e by (cases "find (\<lambda>f. f_name f = n) builtin_formats") simp_all
  from find_first_spec [OF this] show "f \<in> set builtin_formats" "f_name f = n" by simp_all
qed

lemma new_profile_hub_inv:
  "f \<in> set builtin_formats \<Longrightarrow> pf_name p = n \<Longrightarrow> ph_inv n (new_profile_hub p f target b)"
  by (simp add: ph_inv_def new_profile_hub_def med_reach.start)

lemma get_or_start_cases:
  assumes "get_or_start_profile builtin_registry ps name h = Inr (ph, h1)"
  obtains (cached) "map_of (hb_profiles h) name = Some ph" "h1 = h"
  | (started) p f target where "map_of (hb_profiles h) name = None" "store_get ps name = Some p"
      "f \<in> set builtin_formats" "f_name f = pf_format p" "resolve_credential_path f (pf_dir p) = Inr target"
      "pf_name p = name" "ph = new_profile_hub p f target (hb_notify h)"
      "h1 = h\<lparr>hb_profiles := mput name ph (hb_profiles h)\<rparr>"
proof (cases "map_of (hb_profiles h) name")
  case None
  with assms obtain p f target where p: "store_get ps name = Some p"
    and f: "registry_get builtin_registry (pf_format p) = Some f"
    and g: "resolve_credential_path f (pf_dir p) = Inr target" "ph = new_profile_hub p f target (hb_notify h)"
      "h1 = h\<lparr>hb_profiles := mput name ph (hb_profiles h)\<rparr>"
    by (auto simp: get_or_start_profile_def Let_def split: option.splits sum.splits)
  have "pf_name p = name" using p by (auto simp: store_get_def dest: find_profile_Some)
  then show ?thesis by (rule started [OF None p builtin_registry_get [OF f] g(1) _ g(2,3)])
next
  case (Some q)
  with assms have "q = ph" "h1 = h" by (simp_all add: get_or_start_profile_def)
  with Some cached show ?thesis by simp
qed

lemma get_or_start_inv:
  assumes "get_or_start_profile builtin_registry ps name h = Inr (ph, h1)" "hub_inv h"
  shows "hub_inv h1" "map_of (hb_profiles h1) name = Some ph" "live_in h s \<Longrightarrow> live_in h1 s"
    "hb_notify h1 = hb_notify h"
proof -
  have "hub_inv h1 \<and> map_of (hb_profiles h1) name = Some ph \<and> (live_in h s \<longrightarrow> live_in h1 s) \<and>
    hb_notify h1 = hb_notify h"
    using assms(1)
  proof (cases rule: get_or_start_cases)
    case cached
    then show ?thesis using assms(2) by simp
  next
    case (started p f target)
    then show ?thesis using hub_inv_put [OF assms(2) new_profile_hub_inv [OF started(3,6)]] live_in_new
      by (simp add: gm.get_put)
  qed
  then show "hub_inv h1" "map_of (hb_profiles h1) name = Some ph" "live_in h s \<Longrightarrow> live_in h1 s"
    "hb_notify h1 = hb_notify h" by blast+
qed

text \<open>Putting an admitted session under its node and identity.\<close>

lemma ph_inv_put_session:
  assumes "ph_inv n ph" "admitted ph s"
  shows "ph_inv n (ph\<lparr>ph_sessions := mput (se_node s) s (ph_sessions ph),
     ph_identities := mput (se_identity s) s (ph_identities ph)\<rparr>)"
proof -
  have ok: "gomap_ok (ph_sessions ph)" "gomap_ok (ph_identities ph)" using assms(1) by (simp_all add: ph_inv_def)
  note e = gm.entries_put [OF ok(1)] gm.entries_put [OF ok(2)]
  show ?thesis using assms ok
    by (auto simp: ph_inv_def e admitted_def med_config_of_def split: if_splits)
qed

lemma ph_inv_del_session:
  assumes "ph_inv n ph"
  shows "ph_inv n (ph\<lparr>ph_sessions := mdel k (ph_sessions ph)\<rparr>)"
    "ph_inv n (ph\<lparr>ph_identities := mdel k (ph_identities ph)\<rparr>)"
proof -
  have ok: "gomap_ok (ph_sessions ph)" "gomap_ok (ph_identities ph)" using assms(1) by (simp_all add: ph_inv_def)
  note e = gm.entries_del [OF ok(1)] gm.entries_del [OF ok(2)]
  show "ph_inv n (ph\<lparr>ph_sessions := mdel k (ph_sessions ph)\<rparr>)"
    "ph_inv n (ph\<lparr>ph_identities := mdel k (ph_identities ph)\<rparr>)"
    using assms ok by (auto simp: ph_inv_def e admitted_def med_config_of_def)
qed

lemma ph_inv_queues:
  assumes "ph_inv n ph"
  shows "admitted ph s \<Longrightarrow> sr_profile r = n \<Longrightarrow> ph_inv n (med_report s r ph)"
    "admitted ph s \<Longrightarrow> sa_profile a = n \<Longrightarrow> ph_inv n (med_absent s a ph)"
    "admitted ph s \<Longrightarrow> ph_inv n (med_ack s k ph)" "ph_inv n (notify_disconnect nid ph)" "ph_inv n (stop_profile ph)"
proof -
  note inv = assms [unfolded ph_inv_def]
  show "admitted ph s \<Longrightarrow> sr_profile r = n \<Longrightarrow> ph_inv n (med_report s r ph)"
    using inv by (auto simp: ph_inv_def med_report_def admitted_def med_config_of_def)
  show "admitted ph s \<Longrightarrow> sa_profile a = n \<Longrightarrow> ph_inv n (med_absent s a ph)"
    using inv by (auto simp: ph_inv_def med_absent_def admitted_def med_config_of_def)
  show "admitted ph s \<Longrightarrow> ph_inv n (med_ack s k ph)"
    using inv by (auto simp: ph_inv_def med_ack_def admitted_def med_config_of_def)
  show "ph_inv n (notify_disconnect nid ph)"
    using inv by (auto simp: ph_inv_def notify_disconnect_def admitted_def med_config_of_def)
  show "ph_inv n (stop_profile ph)"
    using inv by (auto simp: ph_inv_def stop_profile_def admitted_def med_config_of_def)
qed

lemma queue_profile [simp]:
  "ph_profile (med_report s r ph) = ph_profile ph" "ph_profile (med_absent s a ph) = ph_profile ph"
  "ph_profile (med_ack s k ph) = ph_profile ph" "ph_profile (notify_disconnect nid ph) = ph_profile ph"
  "ph_profile (stop_profile ph) = ph_profile ph"
  by (simp_all add: med_report_def med_absent_def med_ack_def notify_disconnect_def stop_profile_def)

lemma register_inv:
  assumes "register_session builtin_registry ps name auth s h = (r, h', effs)" "hub_inv h"
    "se_profile s = name" "se_identity s = hs_identity auth" "se_mode s = hs_mode auth" "se_identity s \<in> {[], se_node s}"
  shows "hub_inv h'" "live_in h t \<Longrightarrow> live_in h' t" "r = None \<Longrightarrow> live_in h' s"
proof -
  have "hub_inv h' \<and> (live_in h t \<longrightarrow> live_in h' t) \<and> (r = None \<longrightarrow> live_in h' s)"
  proof (cases "hb_shutting h")
    case True
    then show ?thesis using assms(1,2) by (auto simp: register_session_def)
  next
    case False
    show ?thesis
    proof (cases "get_or_start_profile builtin_registry ps name h")
      case (Inl e)
      then show ?thesis using False assms(1,2) by (auto simp: register_session_def)
    next
      case (Inr x)
      obtain ph h1 where x: "x = (ph, h1)" by (cases x)
      note g = get_or_start_inv [OF Inr [unfolded x] assms(2)]
      note inv = hub_inv_get [OF g(1,2)]
      show ?thesis
      proof (cases "hs_mode auth = AuthModeMTLS \<and> \<not> is_cn_allowed (ph_profile ph) (hs_identity auth)")
        case True
        then show ?thesis using False Inr x assms(1) g(1,3) by (auto simp: register_session_def)
      next
        case ok: False
        let ?ph = "ph\<lparr>ph_sessions := mput (se_node s) s (ph_sessions ph),
                      ph_identities := mput (se_identity s) s (ph_identities ph)\<rparr>"
        from ok False Inr x assms(1,4) have h': "r = None" "h' = h1\<lparr>hb_profiles := mput name ?ph (hb_profiles h1)\<rparr>"
          by (auto simp: register_session_def Let_def split: if_splits)
        have adm: "admitted ph s" using inv ok assms(3-6) by (auto simp: admitted_def ph_inv_def)
        then have "hub_inv h'" using hub_inv_put [OF g(1) ph_inv_put_session [OF inv]] h' by simp
        moreover have "live_in h' t" if "live_in h t"
          unfolding h' using live_in_put [OF g(3) [OF that] g(2), of ?ph] by simp
        moreover have "live_in h' s" using adm assms(3) h' by (auto simp: live_in_def gm.get_put admitted_def)
        ultimately show ?thesis by simp
      qed
    qed
  qed
  then show "hub_inv h'" "live_in h t \<Longrightarrow> live_in h' t" "r = None \<Longrightarrow> live_in h' s" by auto
qed

lemma unregister_inv:
  assumes "hub_inv h"
  shows "hub_inv (fst (unregister_session s h))" "live_in h t \<Longrightarrow> live_in (fst (unregister_session s h)) t"
proof -
  have "hub_inv (fst (unregister_session s h)) \<and> (live_in h t \<longrightarrow> live_in (fst (unregister_session s h)) t)"
  proof (cases "map_of (hb_profiles h) (se_profile s)")
    case None
    then show ?thesis using assms by (simp add: unregister_session_def)
  next
    case (Some ph)
    note inv = hub_inv_get [OF assms Some]
    obtain ph' where ph': "fst (unregister_session s h) = h\<lparr>hb_profiles := mput (se_profile s) ph' (hb_profiles h)\<rparr>"
      "ph_inv (se_profile s) ph'" "ph_profile ph' = ph_profile ph"
      using Some ph_inv_del_session [OF inv] ph_inv_del_session(2) [OF ph_inv_del_session(1) [OF inv]] inv
        ph_inv_queues(4)
      by (simp add: unregister_session_def Let_def)
    show ?thesis unfolding ph'(1) using hub_inv_put [OF assms ph'(2)] live_in_put [OF _ Some ph'(3)] by blast
  qed
  then show "hub_inv (fst (unregister_session s h))" "live_in h t \<Longrightarrow> live_in (fst (unregister_session s h)) t" by auto
qed

lemma receive_inv:
  assumes "hub_inv h" "live_in h s"
  shows "hub_inv (fst (hub_receive s env h))" "live_in h t \<Longrightarrow> live_in (fst (hub_receive s env h)) t"
proof -
  obtain ph where ph: "map_of (hb_profiles h) (se_profile s) = Some ph" "admitted ph s"
    using assms(2) by (auto simp: live_in_def)
  note inv = hub_inv_get [OF assms(1) ph(1)]
  have step: "hub_inv (update_profile (se_profile s) f h) \<and>
      (live_in h t \<longrightarrow> live_in (update_profile (se_profile s) f h) t)"
    if "ph_inv (se_profile s) (f ph)" "ph_profile (f ph) = ph_profile ph" for f
    using hub_inv_put [OF assms(1) that(1)] live_in_put [OF _ ph(1) that(2), of t]
    by (simp add: update_profile_def ph(1))
  have "hub_inv (fst (hub_receive s env h)) \<and> (live_in h t \<longrightarrow> live_in (fst (hub_receive s env h)) t)"
  proof (cases "session_handle s env")
    case (ToReport p)
    then have "sr_profile p = se_profile s"
      by (auto simp: session_handle_def split: if_splits option.splits)
    then show ?thesis using step [of "med_report s p"] ph_inv_queues(1) [OF inv ph(2)] ToReport
      by (simp add: hub_receive_def)
  next
    case (ToAbsent p)
    then have "sa_profile p = se_profile s"
      by (auto simp: session_handle_def split: if_splits option.splits)
    then show ?thesis using step [of "med_absent s p"] ph_inv_queues(2) [OF inv ph(2)] ToAbsent
      by (simp add: hub_receive_def)
  next
    case (ToAck p)
    then show ?thesis using step [of "med_ack s p"] ph_inv_queues(3) [OF inv ph(2)]
      by (simp add: hub_receive_def)
  qed (use assms(1) in \<open>simp_all add: hub_receive_def\<close>)
  then show "hub_inv (fst (hub_receive s env h))" "live_in h t \<Longrightarrow> live_in (fst (hub_receive s env h)) t" by auto
qed

lemma ph_inv_drop:
  "ph_inv n ph \<Longrightarrow> ph_reports ph = x # q \<Longrightarrow> ph_inv n (ph\<lparr>ph_reports := q\<rparr>)"
  "ph_inv n ph \<Longrightarrow> ph_absents ph = y # u \<Longrightarrow> ph_inv n (ph\<lparr>ph_absents := u\<rparr>)"
  "ph_inv n ph \<Longrightarrow> ph_acks ph = z # w \<Longrightarrow> ph_inv n (ph\<lparr>ph_acks := w\<rparr>)"
  "ph_inv n ph \<Longrightarrow> ph_inv n (ph\<lparr>ph_disconnects := ns\<rparr>)"
  by (simp_all add: ph_inv_def)

lemma ph_inv_mediator:
  "ph_inv n ph \<Longrightarrow> med_reach (med_config_of ph) m \<Longrightarrow> ph_inv n (ph\<lparr>ph_mediator := m\<rparr>)"
  by (simp add: ph_inv_def)

lemma next_input_inv:
  assumes "next_input ch ph = Some (inp, ph')" "ph_inv n ph"
  shows "ph_inv n ph'" "ph_mediator ph' = ph_mediator ph" "ph_profile ph' = ph_profile ph"
    "ph_sessions ph' = ph_sessions ph" "med_config_of ph' = med_config_of ph"
proof -
  have "ph_inv n ph' \<and> ph_mediator ph' = ph_mediator ph \<and> ph_profile ph' = ph_profile ph \<and>
    ph_sessions ph' = ph_sessions ph \<and> med_config_of ph' = med_config_of ph"
  proof (cases ch)
    case ChReport
    with assms show ?thesis by (cases "ph_reports ph") (auto simp: next_input_def ph_inv_drop)
  next
    case ChAbsent
    with assms show ?thesis by (cases "ph_absents ph") (auto simp: next_input_def ph_inv_drop)
  next
    case ChAck
    with assms show ?thesis by (cases "ph_acks ph") (auto simp: next_input_def ph_inv_drop)
  next
    case ChDisconnect
    with assms show ?thesis by (cases "ph_disconnects ph") (auto simp: next_input_def ph_inv_drop)
  qed
  then show "ph_inv n ph'" "ph_mediator ph' = ph_mediator ph" "ph_profile ph' = ph_profile ph"
    "ph_sessions ph' = ph_sessions ph" "med_config_of ph' = med_config_of ph" by blast+
qed

lemma env_ok_sessions [simp]: "env_ok (env\<lparr>me_sessions := x\<rparr>) = env_ok env"
  by (simp add: env_ok_def)

lemma profile_turn_form:
  assumes "profile_turn ch env ph = Some (ph', evs)" "ph_inv n ph"
  obtains inp m' where "med_turn (med_config_of ph) (env\<lparr>me_sessions := ph_sessions ph\<rparr>) inp (ph_mediator ph)
      = Some (m', evs)" "ph_mediator ph' = m'" "ph_profile ph' = ph_profile ph" "ph_sessions ph' = ph_sessions ph"
    "\<not> ph_stopped ph" "env_ok env \<Longrightarrow> ph_inv n ph'"
proof -
  from assms(1) obtain inp q m' where n: "\<not> ph_stopped ph" "next_input ch ph = Some (inp, q)"
    and t: "med_turn (med_config_of ph) (env\<lparr>me_sessions := ph_sessions ph\<rparr>) inp (ph_mediator ph) = Some (m', evs)"
    and ph': "ph' = q\<lparr>ph_mediator := m'\<rparr>"
    by (auto simp: profile_turn_def split: if_splits option.splits prod.splits)
  note q = next_input_inv [OF n(2) assms(2)]
  have reach: "med_reach (med_config_of ph) m'" if "env_ok env"
    using assms(2) med_reach.turn [OF _ _ t] that by (simp add: ph_inv_def)
  have "ph_inv n (q\<lparr>ph_mediator := m'\<rparr>)" if "env_ok env"
    using ph_inv_mediator [OF q(1)] reach [OF that] by (simp add: q(5))
  with that [OF t] n(1) q ph' show ?thesis by simp
qed

lemma hub_turn_inv:
  assumes "hub_turn name ch env h = Some (h', evs)" "hub_inv h" "env_ok env"
  shows "hub_inv h'" "live_in h t \<Longrightarrow> live_in h' t"
proof -
  from assms(1) obtain ph ph' where ph: "map_of (hb_profiles h) name = Some ph"
    and t: "profile_turn ch env ph = Some (ph', evs)" and h': "h' = h\<lparr>hb_profiles := mput name ph' (hb_profiles h)\<rparr>"
    by (auto simp: hub_turn_def split: option.splits)
  note inv = hub_inv_get [OF assms(2) ph]
  have "ph_profile ph' = ph_profile ph" "ph_inv name ph'"
    by (rule profile_turn_form [OF t inv]; use assms(3) in simp)+
  then show "hub_inv h'" "live_in h t \<Longrightarrow> live_in h' t"
    using hub_inv_put [OF assms(2)] live_in_put [OF _ ph] by (simp_all add: h')
qed

lemma shutdown_inv:
  assumes "hub_inv h"
  shows "hub_inv (fst (hub_shutdown h))" "live_in h t \<Longrightarrow> live_in (fst (hub_shutdown h)) t"
proof -
  have keys: "map fst (map (\<lambda>(n, ph). (n, stop_profile ph)) xs) = map fst xs" for xs :: "(string \<times> profile_hub) list"
    by (induction xs) auto
  have "gomap_ok (map (\<lambda>(n, ph). (n, stop_profile ph)) (hb_profiles h))"
    using assms unfolding hub_inv_def gomap_ok_def keys by simp
  then show "hub_inv (fst (hub_shutdown h))"
    using assms ph_inv_queues(5) by (auto simp: hub_inv_def hub_shutdown_def)
  have "map_of (map (\<lambda>(n, ph). (n, stop_profile ph)) xs) k = map_option stop_profile (map_of xs k)" for xs k
    by (induction xs) auto
  note m = this [of "hb_profiles h" "se_profile t"]
  show "live_in h t \<Longrightarrow> live_in (fst (hub_shutdown h)) t"
    by (auto simp: live_in_def hub_shutdown_def m admitted_same [OF queue_profile(5)])
qed

text \<open>What a completed handshake says of the session.\<close>

lemma serve_handshake_form:
  assumes "serve_handshake lib auth now profile hs0 jr hr sid = Inr (hs, s)"
  shows "se_profile s = profile" "se_identity s = hs_identity hs" "se_mode s = hs_mode hs" "se_id s = sid"
    "se_peer s = hs_peer_cn hs" "se_identity s \<in> {[], se_node s}" "se_node s \<noteq> []"
    "if hs_needs_jwt hs0 then \<exists>a. auth = Some a \<and> complete_jwt lib a now jr profile = Inr hs else hs = hs0"
  using assms
  by (auto simp: serve_handshake_def split: if_splits option.splits sum.splits)

lemma serve_conn_inv:
  assumes "serve_conn lib builtin_registry ps auth now profile hs0 jr hr sid welcome h = (r, h', effs)" "hub_inv h"
  shows "hub_inv h'" "live_in h t \<Longrightarrow> live_in h' t" "r = Serving s \<Longrightarrow> live_in h' s"
proof -
  have "hub_inv h' \<and> (live_in h t \<longrightarrow> live_in h' t) \<and> (r = Serving s \<longrightarrow> live_in h' s)"
  proof (cases "serve_handshake lib auth now profile hs0 jr hr sid")
    case (Inl c)
    then show ?thesis using assms by (auto simp: serve_conn_def split: prod.splits)
  next
    case (Inr x)
    obtain hs q where x: "x = (hs, q)" by (cases x)
    obtain r1 h1 effs1 where reg: "register_session builtin_registry ps profile hs q h = (r1, h1, effs1)"
      by (cases "register_session builtin_registry ps profile hs q h")
    note f = serve_handshake_form [OF Inr [unfolded x]]
    note inv = register_inv [OF reg assms(2) f(1-3,6)]
    obtain h2 effs2 where un: "unregister_session q h1 = (h2, effs2)" by (cases "unregister_session q h1")
    show ?thesis
      using assms(1) inv un unregister_inv [OF inv(1), of q] unregister_inv(2) [OF inv(1), of t q]
      by (auto simp: serve_conn_def Inr x reg un split: option.splits)
  qed
  then show "hub_inv h'" "live_in h t \<Longrightarrow> live_in h' t" "r = Serving s \<Longrightarrow> live_in h' s" by auto
qed

lemma srv_step_inv:
  assumes "srv_step lib v v'" "srv_inv v"
  shows "srv_inv v'"
  using assms(1)
proof (cases rule: srv_step.cases)
  case connect
  then show ?thesis using serve_conn_inv [OF connect(3)] assms(2) by (auto simp: srv_inv_def)
next
  case refuse
  then show ?thesis using serve_conn_inv [OF refuse(3)] assms(2) by (auto simp: srv_inv_def)
next
  case (receive s env)
  then show ?thesis using receive_inv [of "sv_hub v" s] assms(2) by (auto simp: srv_inv_def)
next
  case (leave s)
  then show ?thesis using unregister_inv [of "sv_hub v"] assms(2) by (auto simp: srv_inv_def)
next
  case turn
  then show ?thesis using hub_turn_inv [OF turn(3)] assms(2) by (auto simp: srv_inv_def)
next
  case reload
  then show ?thesis using assms(2) by (simp add: srv_inv_def)
next
  case shutdown
  then show ?thesis using shutdown_inv assms(2) by (auto simp: srv_inv_def)
qed

lemma srv_reach_inv: "srv_reach lib v \<Longrightarrow> srv_inv v"
proof (induction rule: srv_reach.induct)
  case (start b ps)
  show ?case by (simp add: srv_inv_def hub_inv_def set_propagation_notifier_def new_hub_def gomap_ok_def)
next
  case (step v v')
  from srv_step_inv [OF step.hyps(2) step.IH] show ?case .
qed

subsection \<open>What a session's identity rests on\<close>

text \<open>The token a connection presented and the time the server looked at it: the Authorization header's if it has one,
  else the first frame's, where the server takes it from there.\<close>

definition presented_token :: "authenticator \<Rightarrow> http_request \<Rightarrow> gotime \<Rightarrow> conn_read \<Rightarrow> gotime \<Rightarrow> (string \<times> gotime) option" where
  "presented_token a r now jr now' =
     (let h = trim_space (rq_authorization r) in
      if h \<noteq> [] then (case bearer_token h of Inl e \<Rightarrow> None | Inr t \<Rightarrow> Some (t, now))
      else if \<not> au_first_frame a then None
      else (case Option.bind (read_kind jr KindAuthJWT) (payload_as dec_auth_jwt) of
        None \<Rightarrow> None | Some p \<Rightarrow> Some (aj_token p, now')))"

text \<open>A token vouches for an identity: it is signed with the server's secret for the server's issuer and audience, names the
  profile, and is inside its validity period up to thirty seconds.\<close>

definition token_vouches ::
  "(string \<Rightarrow> string \<Rightarrow> jwt_claims \<Rightarrow> bool) \<Rightarrow> authenticator \<Rightarrow> string \<Rightarrow> gotime \<Rightarrow> string \<Rightarrow> string \<Rightarrow> bool" where
  "token_vouches sig_ok a token t profile ident \<longleftrightarrow> (\<exists>c. sig_ok (au_secret a) token c \<and> jc_subject c = ident \<and>
     profile \<in> set (normalize_profiles (jc_profiles c)) \<and> jc_issuer c = au_issuer a \<and> au_audience a \<in> set (jc_audience c) \<and>
     (case jc_expires c of None \<Rightarrow> True | Some e \<Rightarrow> t < e + seconds 30) \<and>
     (case jc_not_before c of None \<Rightarrow> True | Some n \<Rightarrow> n \<le> t + seconds 30))"

text \<open>What vouches for a session: over TLS the peer's verified certificate or the presented token, by the server's mode; over the
  socket, which the host's own access rights protect, the headers.\<close>

definition vouched :: "(string \<Rightarrow> string \<Rightarrow> jwt_claims \<Rightarrow> bool) \<Rightarrow> authenticator \<Rightarrow> session \<Rightarrow> origin \<Rightarrow> bool" where
  "vouched sig_ok a s org \<longleftrightarrow> (case org of
     FromTls r now jr now' \<Rightarrow>
       if au_mode a = AuthModeMTLS then se_mode s = AuthModeMTLS \<and>
         (\<exists>cert rest more. rq_tls r = Some ((cert # rest) # more) \<and> ce_cn cert = se_identity s)
       else se_mode s = AuthModeJWT \<and> rq_tls r \<noteq> None \<and>
         (\<exists>token t. presented_token a r now jr now' = Some (token, t) \<and> token_vouches sig_ok a token t (se_profile s) (se_identity s))
   | FromSocket hdr jr now' \<Rightarrow> trim_space (ah_node_id hdr) \<noteq> [] \<and>
       se_identity s = (if trim_space (ah_identity hdr) = [] then trim_space (ah_node_id hdr) else trim_space (ah_identity hdr)) \<and>
       se_mode s = (if trim_space (ah_auth_mode hdr) = [] then AuthModeMTLS else trim_space (ah_auth_mode hdr)) \<and>
       se_mode s \<in> {AuthModeMTLS, AuthModeJWT})"

definition sourced :: "(string \<Rightarrow> string \<Rightarrow> jwt_claims \<Rightarrow> bool) \<Rightarrow> server \<Rightarrow> session \<Rightarrow> bool" where
  "sourced sig_ok v s \<longleftrightarrow> se_identity s \<noteq> [] \<and> se_node s = se_identity s \<and>
     (\<exists>org. (s, org) \<in> set (sv_origin v) \<and> vouched sig_ok (sv_auth v) s org)"

text \<open>The library's promise, for the server's authenticator.\<close>

definition jwt_trusted :: "jwt_lib \<Rightarrow> (string \<Rightarrow> string \<Rightarrow> jwt_claims \<Rightarrow> bool) \<Rightarrow> authenticator \<Rightarrow> bool" where
  "jwt_trusted lib sig_ok a \<longleftrightarrow> jwt_lib_sound lib sig_ok \<and> au_issuer a \<noteq> [] \<and> au_audience a \<noteq> []"

lemma pki_peer_cnD: "pki_peer_cn st = Inr cn \<Longrightarrow> cn \<noteq> [] \<and> (\<exists>cert rest more. st = Some ((cert # rest) # more) \<and> ce_cn cert = cn)"
  by (auto simp: pki_peer_cn_def split: option.splits list.splits if_splits)

lemma verified_token_vouches:
  assumes "jwt_trusted lib sig_ok a" "verify_jwt lib a t token name = Inr c"
  shows "token_vouches sig_ok a token t name (jc_subject c)" "jc_subject c \<noteq> []"
proof -
  from assms(2) have jv: "jwt_verify lib (au_secret a) token (au_issuer a) (au_audience a) t = Inr c" "allows_profile c name"
    by (auto simp: verify_jwt_def ebind_def split: sum.splits if_splits)
  note tr = assms(1) [unfolded jwt_trusted_def]
  obtain c0 where c0: "sig_ok (au_secret a) token c0" "c = c0\<lparr>jc_profiles := normalize_profiles (jc_profiles c0)\<rparr>"
    "jc_subject c \<noteq> []" "jc_issuer c = au_issuer a" "au_audience a \<in> set (jc_audience c)"
    "case jc_expires c of None \<Rightarrow> True | Some e \<Rightarrow> t < e + seconds 30"
    "case jc_not_before c of None \<Rightarrow> True | Some n \<Rightarrow> n \<le> t + seconds 30"
    using verified_token_facts [OF _ jv(1)] tr by blast
  then show "jc_subject c \<noteq> []" "token_vouches sig_ok a token t name (jc_subject c)"
    using jv(2) by (auto simp: token_vouches_def allows_profile_def intro!: exI [of _ c0])
qed

text \<open>An admitted connection that opens a session is vouched for.\<close>

lemma attach_handshake_form:
  assumes "attach_handshake hdr = Inr hs"
  shows "trim_space (ah_node_id hdr) \<noteq> []" "hs_identity hs \<noteq> []" "\<not> hs_needs_jwt hs"
    "hs_identity hs = (if trim_space (ah_identity hdr) = [] then trim_space (ah_node_id hdr) else trim_space (ah_identity hdr))"
    "hs_mode hs = (if trim_space (ah_auth_mode hdr) = [] then AuthModeMTLS else trim_space (ah_auth_mode hdr))"
    "hs_mode hs \<in> {AuthModeMTLS, AuthModeJWT}"
  using assms by (auto simp: attach_handshake_def Let_def zero_handshake_def split: if_splits)

lemma pre_upgrade_form:
  assumes "pre_upgrade lib a now r name = (101, Inr hs)"
  shows "if au_mode a = AuthModeMTLS then pki_peer_cn (rq_tls r) = Inr (hs_identity hs) \<and> hs_mode hs = AuthModeMTLS \<and> \<not> hs_needs_jwt hs
    else rq_tls r \<noteq> None \<and>
      (if trim_space (rq_authorization r) = [] then au_first_frame a \<and> hs_needs_jwt hs
       else \<exists>token c. bearer_token (trim_space (rq_authorization r)) = Inr token \<and> verify_jwt lib a now token name = Inr c \<and>
         hs = jwt_handshake c)"
  using assms
  by (auto simp: pre_upgrade_def Let_def zero_handshake_def split: option.splits sum.splits if_splits)

lemma complete_jwt_form:
  assumes "complete_jwt lib a now jr name = Inr hs"
  obtains p c where "Option.bind (read_kind jr KindAuthJWT) (payload_as dec_auth_jwt) = Some p"
    "verify_jwt lib a now (aj_token p) name = Inr c" "hs = jwt_handshake c"
  using assms by (auto simp: complete_jwt_def split: option.splits sum.splits)

lemma jwt_handshake_sel [simp]: "hs_mode (jwt_handshake c) = AuthModeJWT" "hs_identity (jwt_handshake c) = jc_subject c"
  "\<not> hs_needs_jwt (jwt_handshake c)"
  by (simp_all add: jwt_handshake_def zero_handshake_def)

lemma tls_session_vouched:
  assumes tr: "jwt_trusted lib sig_ok a" and ws: "handle_ws lib ps a now r name = (101, Inr hs0)"
    and sh: "serve_handshake lib (Some a) now' name hs0 jr hr sid = Inr (hs, s)"
  shows "vouched sig_ok a s (FromTls r now jr now')" "se_identity s \<noteq> []"
proof -
  note f = serve_handshake_form [OF sh]
  have pre: "pre_upgrade lib a now r name = (101, Inr hs0)" using ws by (auto simp: handle_ws_def split: if_splits)
  note form = pre_upgrade_form [OF pre]
  have "vouched sig_ok a s (FromTls r now jr now') \<and> se_identity s \<noteq> []"
  proof (cases "au_mode a = AuthModeMTLS")
    case True
    with form have hs0: "pki_peer_cn (rq_tls r) = Inr (hs_identity hs0)" "hs_mode hs0 = AuthModeMTLS" "\<not> hs_needs_jwt hs0" by simp_all
    then have "hs = hs0" using f(8) by simp
    with True hs0 f(2,3) pki_peer_cnD [OF hs0(1)] show ?thesis by (simp add: vouched_def)
  next
    case jwt: False
    have "\<exists>token t c. presented_token a r now jr now' = Some (token, t) \<and> verify_jwt lib a t token name = Inr c \<and> hs = jwt_handshake c"
    proof (cases "trim_space (rq_authorization r) = []")
      case True
      then have c: "au_first_frame a" "complete_jwt lib a now' jr name = Inr hs" using form jwt f(8) by auto
      obtain p c where "Option.bind (read_kind jr KindAuthJWT) (payload_as dec_auth_jwt) = Some p"
        "verify_jwt lib a now' (aj_token p) name = Inr c" "hs = jwt_handshake c" by (rule complete_jwt_form [OF c(2)])
      then show ?thesis using True c(1) by (auto simp: presented_token_def)
    next
      case False
      then obtain token c where "bearer_token (trim_space (rq_authorization r)) = Inr token" "verify_jwt lib a now token name = Inr c"
        "hs0 = jwt_handshake c" using form jwt by auto
      moreover from this have "hs = hs0" using f(8) by simp
      ultimately show ?thesis using False by (auto simp: presented_token_def)
    qed
    then obtain token t c where p: "presented_token a r now jr now' = Some (token, t)" "verify_jwt lib a t token name = Inr c"
      "hs = jwt_handshake c" by blast
    from form jwt have "rq_tls r \<noteq> None" by simp
    with jwt p f(1-3) verified_token_vouches [OF tr p(2)] show ?thesis by (auto simp: vouched_def)
  qed
  then show "vouched sig_ok a s (FromTls r now jr now')" "se_identity s \<noteq> []" by blast+
qed

lemma session_vouched:
  assumes "jwt_trusted lib sig_ok a" "admitted_handshake lib ps a name org auth hs0"
    and sh: "serve_handshake lib auth (origin_clock org) name hs0 (origin_frame org) hr sid = Inr (hs, s)"
  shows "vouched sig_ok a s org" "se_identity s \<noteq> []" "se_node s = se_identity s"
proof -
  note f = serve_handshake_form [OF sh]
  have "vouched sig_ok a s org \<and> se_identity s \<noteq> []" using assms(2)
  proof cases
    case (tls now r jr now')
    then show ?thesis using tls_session_vouched [OF assms(1) tls(3), of now' jr hr sid hs s] sh by simp
  next
    case (unix hdr jr now')
    note a = attach_handshake_form [OF unix(4)]
    have "hs = hs0" using f(8) a(3) by simp
    then show ?thesis using unix(1) a f(2,3) by (simp add: vouched_def)
  qed
  then show "vouched sig_ok a s org" "se_identity s \<noteq> []" "se_node s = se_identity s" using f(6) by auto
qed

text \<open>The sessions that are registered somewhere. Only a connection that is served adds one.\<close>

definition hub_sessions :: "hub \<Rightarrow> session set" where
  "hub_sessions h = (\<Union>(n, ph) \<in> set (hb_profiles h). snd ` set (ph_sessions ph))"

lemma mput_sub: "set (mput k v m) \<subseteq> insert (k, v) (set m)"
  by (induction m) auto

lemma mdel_sub: "set (mdel k m) \<subseteq> set m"
  by (auto simp: AList.delete_eq)

lemma hub_sessions_get: "map_of (hb_profiles h) n = Some ph \<Longrightarrow> snd ` set (ph_sessions ph) \<subseteq> hub_sessions h"
  using map_of_SomeD [of "hb_profiles h" n ph] by (force simp: hub_sessions_def)

lemma hub_sessions_put:
  assumes "hub_inv h"
  shows "hub_sessions (h\<lparr>hb_profiles := mput n ph (hb_profiles h)\<rparr>) \<subseteq> hub_sessions h \<union> snd ` set (ph_sessions ph)"
  using mput_sub [of n ph "hb_profiles h"] by (fastforce simp: hub_sessions_def)

lemma hub_sessions_change:
  assumes "hub_inv h" "map_of (hb_profiles h) n = Some ph" "set (ph_sessions ph') \<subseteq> set (ph_sessions ph)"
  shows "hub_sessions (h\<lparr>hb_profiles := mput n ph' (hb_profiles h)\<rparr>) \<subseteq> hub_sessions h"
  using hub_sessions_put [OF assms(1), of n ph'] hub_sessions_get [OF assms(2)] image_mono [OF assms(3), of snd] by blast

lemma hub_sessions_update:
  assumes "hub_inv h" "\<And>ph. ph_sessions (f ph) = ph_sessions ph"
  shows "hub_sessions (update_profile n f h) \<subseteq> hub_sessions h"
  using hub_sessions_change [OF assms(1)] assms(2) by (simp add: update_profile_def split: option.split)

lemma queue_sessions [simp]:
  "ph_sessions (med_report s r ph) = ph_sessions ph" "ph_sessions (med_absent s a ph) = ph_sessions ph"
  "ph_sessions (med_ack s k ph) = ph_sessions ph" "ph_sessions (notify_disconnect nid ph) = ph_sessions ph"
  "ph_sessions (stop_profile ph) = ph_sessions ph"
  by (simp_all add: med_report_def med_absent_def med_ack_def notify_disconnect_def stop_profile_def)

lemma receive_sessions: "hub_inv h \<Longrightarrow> hub_sessions (fst (hub_receive s env h)) \<subseteq> hub_sessions h"
  by (auto simp: hub_receive_def split: handled.split dest!: hub_sessions_update [THEN subsetD, rotated 2])

lemma unregister_sessions: "hub_inv h \<Longrightarrow> hub_sessions (fst (unregister_session s h)) \<subseteq> hub_sessions h"
proof (cases "map_of (hb_profiles h) (se_profile s)")
  case (Some ph)
  assume "hub_inv h"
  note ch = hub_sessions_change [OF this Some]
  obtain ph' where "fst (unregister_session s h) = h\<lparr>hb_profiles := mput (se_profile s) ph' (hb_profiles h)\<rparr>"
    "ph_sessions ph' = ph_sessions ph \<or> ph_sessions ph' = mdel (se_node s) (ph_sessions ph)"
    using Some by (simp add: unregister_session_def Let_def)
  then show ?thesis using ch [of ph'] mdel_sub [of "se_node s" "ph_sessions ph"] by auto
qed (simp add: unregister_session_def)

lemma turn_sessions:
  assumes "hub_turn name ch env h = Some (h', evs)" "hub_inv h"
  shows "hub_sessions h' \<subseteq> hub_sessions h"
proof -
  from assms(1) obtain ph ph' where ph: "map_of (hb_profiles h) name = Some ph"
    and t: "profile_turn ch env ph = Some (ph', evs)" and h': "h' = h\<lparr>hb_profiles := mput name ph' (hb_profiles h)\<rparr>"
    by (auto simp: hub_turn_def split: option.splits)
  have "ph_sessions ph' = ph_sessions ph" by (rule profile_turn_form [OF t hub_inv_get [OF assms(2) ph]])
  then show ?thesis using hub_sessions_change [OF assms(2) ph] h' by simp
qed

lemma shutdown_sessions: "hub_sessions (fst (hub_shutdown h)) = hub_sessions h"
  by (simp add: hub_sessions_def hub_shutdown_def split_def image_image)

lemma get_or_start_sessions:
  assumes "get_or_start_profile builtin_registry ps name h = Inr (ph, h1)" "hub_inv h"
  shows "hub_sessions h1 \<subseteq> hub_sessions h"
  using assms(1)
proof (cases rule: get_or_start_cases)
  case (started p f target)
  then show ?thesis using hub_sessions_put [OF assms(2), of name ph] by (simp add: new_profile_hub_def)
qed simp

lemma register_form:
  assumes "register_session reg ps name auth s h = (None, h', effs)"
  obtains ph h1 where "get_or_start_profile reg ps name h = Inr (ph, h1)"
    "hs_mode auth = AuthModeMTLS \<Longrightarrow> is_cn_allowed (ph_profile ph) (hs_identity auth)"
    "h' = h1\<lparr>hb_profiles := mput name (ph\<lparr>ph_sessions := mput (se_node s) s (ph_sessions ph),
        ph_identities := mput (hs_identity auth) s (ph_identities ph)\<rparr>) (hb_profiles h1)\<rparr>"
    "\<And>p. map_of (ph_identities ph) (hs_identity auth) = Some p \<Longrightarrow>
       CloseConn p 1008 (ErrText (Sentinel ErrSessionDisplaced)) \<in> set effs"
  using assms
  by (auto simp: register_session_def Let_def split: if_splits sum.splits prod.splits)

lemma serve_conn_form:
  assumes "serve_conn lib reg ps auth now profile hs0 jr hr sid wl h = (Serving s, h', effs)"
  obtains hs where "serve_handshake lib auth now profile hs0 jr hr sid = Inr (hs, s)"
    "register_session reg ps profile hs s h = (None, h', effs)"
  using assms by (auto simp: serve_conn_def Let_def split: sum.splits prod.splits option.splits)

lemma register_sessions:
  assumes "register_session builtin_registry ps name auth s h = (r, h', effs)" "hub_inv h"
  shows "hub_sessions h' \<subseteq> (if r = None then insert s (hub_sessions h) else hub_sessions h)"
proof (cases r)
  case None
  from assms(1) [unfolded None] obtain ph h1 where g: "get_or_start_profile builtin_registry ps name h = Inr (ph, h1)"
    and h': "h' = h1\<lparr>hb_profiles := mput name (ph\<lparr>ph_sessions := mput (se_node s) s (ph_sessions ph),
        ph_identities := mput (hs_identity auth) s (ph_identities ph)\<rparr>) (hb_profiles h1)\<rparr>" by (rule register_form)
  note inv = get_or_start_inv [OF g assms(2)]
  let ?ph = "ph\<lparr>ph_sessions := mput (se_node s) s (ph_sessions ph), ph_identities := mput (hs_identity auth) s (ph_identities ph)\<rparr>"
  have "snd ` set (mput (se_node s) s (ph_sessions ph)) \<subseteq> insert s (snd ` set (ph_sessions ph))"
    using mput_sub [of "se_node s" s "ph_sessions ph"] by force
  also have "\<dots> \<subseteq> insert s (hub_sessions h)"
    using hub_sessions_get [OF inv(2)] get_or_start_sessions [OF g assms(2)] by blast
  finally have "snd ` set (ph_sessions ?ph) \<subseteq> insert s (hub_sessions h)" by simp
  moreover have "hub_sessions h' \<subseteq> hub_sessions h1 \<union> snd ` set (ph_sessions ?ph)"
    unfolding h' by (rule hub_sessions_put [OF inv(1)])
  ultimately have "hub_sessions h' \<subseteq> insert s (hub_sessions h)"
    using get_or_start_sessions [OF g assms(2)] Un_least [of "hub_sessions h1" "insert s (hub_sessions h)" "snd ` set (ph_sessions ?ph)"]
    by (meson subset_insertI2 subset_trans)
  then show ?thesis using None by simp
next
  case (Some e)
  then show ?thesis using assms get_or_start_sessions [of ps name h]
    by (auto simp: register_session_def Let_def split: if_splits sum.splits prod.splits)
qed

text \<open>A session whose welcome could not be sent leaves no trace.\<close>

lemma mput_put: "mput k v (mput k w m) = mput k v m"
  by (induction m) auto

lemma mdel_put_sub: "set (mdel k (mput k v m)) \<subseteq> set m"
  using mdel_sub [of k] by (induction m) auto

lemma withdrawn_sessions:
  assumes "register_session builtin_registry ps (se_profile s) auth s h = (None, h1, effs)" "hub_inv h"
  shows "hub_sessions (fst (unregister_session s h1)) \<subseteq> hub_sessions h"
proof -
  from assms(1) obtain ph h0 where g: "get_or_start_profile builtin_registry ps (se_profile s) h = Inr (ph, h0)"
    and h1: "h1 = h0\<lparr>hb_profiles := mput (se_profile s) (ph\<lparr>ph_sessions := mput (se_node s) s (ph_sessions ph),
        ph_identities := mput (hs_identity auth) s (ph_identities ph)\<rparr>) (hb_profiles h0)\<rparr>" by (rule register_form)
  note inv = get_or_start_inv [OF g assms(2)]
  obtain ph' where p: "fst (unregister_session s h1) = h0\<lparr>hb_profiles := mput (se_profile s) ph' (hb_profiles h0)\<rparr>"
    "ph_sessions ph' = mdel (se_node s) (mput (se_node s) s (ph_sessions ph))"
    by (simp add: unregister_session_def h1 gm.get_put Let_def mput_put)
  then show ?thesis
    using hub_sessions_change [OF inv(1,2), of ph'] mdel_put_sub [of "se_node s" s "ph_sessions ph"] get_or_start_sessions [OF g assms(2)]
    by auto
qed

lemma serve_conn_sessions:
  assumes "serve_conn lib builtin_registry ps auth now profile hs0 jr hr sid welcome h = (r, h', effs)" "hub_inv h"
  shows "hub_sessions h' \<subseteq> (case r of Serving s \<Rightarrow> insert s (hub_sessions h) | Rejected code why \<Rightarrow> hub_sessions h)"
proof (cases "serve_handshake lib auth now profile hs0 jr hr sid")
  case (Inl c)
  then show ?thesis using assms by (auto simp: serve_conn_def split: prod.splits)
next
  case (Inr x)
  obtain hs q where x: "x = (hs, q)" by (cases x)
  obtain r1 h1 effs1 where reg: "register_session builtin_registry ps profile hs q h = (r1, h1, effs1)"
    by (cases "register_session builtin_registry ps profile hs q h")
  obtain h2 effs2 where un: "unregister_session q h1 = (h2, effs2)" by (cases "unregister_session q h1")
  have q: "se_profile q = profile" using serve_handshake_form(1) [OF Inr [unfolded x]] .
  have "r1 = None \<Longrightarrow> hub_sessions h2 \<subseteq> hub_sessions h"
    using withdrawn_sessions [of ps q hs h h1 effs1] reg un assms(2) q by simp
  then show ?thesis
    using assms(1) register_sessions [OF reg assms(2)] un
    by (auto simp: serve_conn_def Inr x reg split: option.splits)
qed

text \<open>Hence every registered session is vouched for.\<close>

definition origin_inv :: "(string \<Rightarrow> string \<Rightarrow> jwt_claims \<Rightarrow> bool) \<Rightarrow> server \<Rightarrow> bool" where
  "origin_inv sig_ok v \<longleftrightarrow> (\<forall>s \<in> hub_sessions (sv_hub v). sourced sig_ok v s)"

lemma sourced_update [simp]:
  "sourced sig_ok (v\<lparr>sv_hub := h\<rparr>) s = sourced sig_ok v s" "sourced sig_ok (v\<lparr>sv_store := ps\<rparr>) s = sourced sig_ok v s"
  "sourced sig_ok (v\<lparr>sv_next := n\<rparr>) s = sourced sig_ok v s" "sourced sig_ok (v\<lparr>sv_live := ss\<rparr>) s = sourced sig_ok v s"
  by (simp_all add: sourced_def)

lemma origin_inv_sub:
  assumes "origin_inv sig_ok v" "hub_sessions (sv_hub v') \<subseteq> hub_sessions (sv_hub v)"
    "\<And>s. sourced sig_ok v s \<Longrightarrow> sourced sig_ok v' s"
  shows "origin_inv sig_ok v'"
  using assms by (auto simp: origin_inv_def)

lemma srv_step_origin:
  assumes "srv_step lib v v'" "srv_inv v" "origin_inv sig_ok v" "jwt_trusted lib sig_ok (sv_auth v)"
  shows "origin_inv sig_ok v'"
proof -
  have h: "hub_inv (sv_hub v)" using assms(2) by (simp add: srv_inv_def)
  note sub = origin_inv_sub [OF assms(3)]
  from assms(1) show ?thesis
  proof (cases rule: srv_step.cases)
    case (connect name orig auth hs0 hr wl s h1 effs)
    obtain hs where sh: "serve_handshake lib auth (origin_clock orig) name hs0 (origin_frame orig) hr (sv_next v) = Inr (hs, s)"
      by (rule serve_conn_form [OF connect(3)])
    have "sourced sig_ok v' s" using session_vouched [OF assms(4) connect(2) sh] connect(1) by (auto simp: sourced_def)
    moreover have "sourced sig_ok v t \<Longrightarrow> sourced sig_ok v' t" for t using connect(1) by (auto simp: sourced_def)
    ultimately show ?thesis
      using serve_conn_sessions [OF connect(3) h] assms(3) connect(1) by (auto simp: origin_inv_def)
  next
    case refuse
    then show ?thesis using serve_conn_sessions [OF refuse(3) h] by (intro sub) simp_all
  next
    case receive
    then show ?thesis using receive_sessions [OF h] by (intro sub) simp_all
  next
    case leave
    then show ?thesis using unregister_sessions [OF h] by (intro sub) simp_all
  next
    case turn
    then show ?thesis using turn_sessions [OF turn(3) h] by (intro sub) simp_all
  next
    case reload
    then show ?thesis by (intro sub) simp_all
  next
    case shutdown
    then show ?thesis using shutdown_sessions by (intro sub) simp_all
  qed
qed

lemma srv_step_auth: "srv_step lib v v' \<Longrightarrow> sv_auth v' = sv_auth v"
  by (erule srv_step.cases) simp_all

lemma srv_reach_origin: "srv_reach lib v \<Longrightarrow> jwt_trusted lib sig_ok (sv_auth v) \<Longrightarrow> origin_inv sig_ok v"
proof (induction rule: srv_reach.induct)
  case (start b ps a)
  show ?case by (simp add: origin_inv_def hub_sessions_def set_propagation_notifier_def new_hub_def)
next
  case (step v v')
  then show ?case using srv_step_origin [OF step.hyps(2) srv_reach_inv [OF step.hyps(1)]] srv_step_auth [OF step.hyps(2)] by simp
qed

lemma registered_sourced:
  assumes "srv_reach lib v" "jwt_trusted lib sig_ok (sv_auth v)" "map_of (hb_profiles (sv_hub v)) n = Some ph"
    "(k, s) \<in> set (ph_sessions ph)"
  shows "sourced sig_ok v s"
  using srv_reach_origin [OF assms(1,2)] hub_sessions_get [OF assms(3)] assms(4) by (force simp: origin_inv_def)

end
