(* ===== verification/Server_Props.thy ===== *)
theory Server_Props
  imports Hub_Props Mediator_Scenario
begin

text \<open>
  What the server guarantees over every interleaving of connections, messages, turns, reloads and
  shutdown: who is registered, who is sent which credentials, what a connection's identity rests on,
  how a reconnection displaces a session, and that a push arrives as it was made. A run of the
  server with two nodes applies them.
\<close>

subsection \<open>Sessions\<close>

text \<open>C10: In every reachable state of the server a session is registered under its node id in the hub of its own profile, and
  the node id is its identity, which is not empty and was vouched for when the connection came: over TLS by the verified
  certificate or by a signed token that names the profile, over the unix socket by the request's headers. A session
  in certificate mode is on the profile's list of allowed clients; the list is not asked for sessions in token mode. A
  node id has one session.\<close>

theorem registered_sessions_are_admitted:
  assumes "srv_reach lib v" "jwt_trusted lib sig_ok (sv_auth v)" "map_of (hb_profiles (sv_hub v)) n = Some ph"
  shows "distinct (map fst (ph_sessions ph)) \<and>
    (\<forall>(k, s) \<in> set (ph_sessions ph). se_profile s = n \<and> se_node s = k \<and> sourced sig_ok v s \<and>
      (se_mode s = AuthModeMTLS \<longrightarrow> is_cn_allowed (ph_profile ph) (se_identity s)))"
proof -
  have "ph_inv n ph" using srv_reach_inv [OF assms(1)] hub_inv_get assms(3) by (auto simp: srv_inv_def)
  then show ?thesis using registered_sourced [OF assms] by (auto simp: ph_inv_def admitted_def gomap_ok_def)
qed

text \<open>The list of allowed clients is for certificates only: a token for the profile registers a session whatever the list says.\<close>

lemma tokens_skip_the_list:
  assumes "\<not> hb_shutting h" "get_or_start_profile reg ps name h = Inr (ph, h1)" "hs_mode auth = AuthModeJWT"
    "pf_allowed (ph_profile ph) = []"
  shows "fst (register_session reg ps name auth s h) = None"
  using assms by (simp add: register_session_def AuthModeJWT_def AuthModeMTLS_def Let_def)

text \<open>Session ids are fresh.\<close>

lemma live_ids: "srv_reach lib v \<Longrightarrow> s \<in> set (sv_live v) \<Longrightarrow> se_id s < sv_next v"
proof (induction arbitrary: s rule: srv_reach.induct)
  case (step v v')
  from step.hyps(2) show ?case
  proof (cases rule: srv_step.cases)
    case (connect name orig auth hs0 hr wl s1 h effs)
    have "se_id s1 = sv_next v" using connect(3)
      by (auto simp: serve_conn_def Let_def dest: serve_handshake_form(4) split: sum.splits prod.splits option.splits)
    then show ?thesis using connect step.prems step.IH by (auto simp: less_Suc_eq)
  qed (use step in \<open>auto simp: less_Suc_eq\<close>)
qed simp

lemma mput_same: "map_of m k = Some v \<Longrightarrow> mput k v m = m"
  by (induction m) auto

text \<open>C11: A node that connects again displaces its former session: the server closes the old connection
  with code 1008, the new session takes over the node id and the identity, and when the old
  connection's handler unregisters, nothing changes: the mediator is told of no disconnect.\<close>

theorem reconnect_displaces:
  assumes "srv_reach lib v" "p \<in> set (sv_live v)"
    "map_of (hb_profiles (sv_hub v)) name = Some ph" "map_of (ph_identities ph) (se_identity s) = Some p"
    "se_identity s \<noteq> []"
    "serve_conn lib builtin_registry (sv_store v) auth now name hs0 jr hr (sv_next v) wl (sv_hub v) = (Serving s, h, effs)"
  shows "CloseConn p 1008 (ErrText (Sentinel ErrSessionDisplaced)) \<in> set effs \<and>
    (\<exists>ph'. map_of (hb_profiles h) name = Some ph' \<and> map_of (ph_sessions ph') (se_node s) = Some s \<and>
       map_of (ph_identities ph') (se_identity s) = Some s) \<and>
    se_node p = se_node s \<and> unregister_session p h = (h, [])"
proof -
  obtain hs where hs: "serve_handshake lib auth now name hs0 jr hr (sv_next v) = Inr (hs, s)"
    and reg: "register_session builtin_registry (sv_store v) name hs s (sv_hub v) = (None, h, effs)"
    by (rule serve_conn_form [OF assms(6)])
  note f = serve_handshake_form [OF hs]
  from reg obtain q h1 where g: "get_or_start_profile builtin_registry (sv_store v) name (sv_hub v) = Inr (q, h1)"
    and h: "h = h1\<lparr>hb_profiles := mput name (q\<lparr>ph_sessions := mput (se_node s) s (ph_sessions q),
        ph_identities := mput (hs_identity hs) s (ph_identities q)\<rparr>) (hb_profiles h1)\<rparr>"
    and c: "map_of (ph_identities q) (hs_identity hs) = Some p \<Longrightarrow>
       CloseConn p 1008 (ErrText (Sentinel ErrSessionDisplaced)) \<in> set effs"
    by (rule register_form) blast
  have q: "q = ph" using g assms(3) by (simp add: get_or_start_profile_def)
  have inv: "ph_inv name ph" using srv_reach_inv [OF assms(1)] hub_inv_get assms(3) by (auto simp: srv_inv_def)
  have "(se_identity s, p) \<in> set (ph_identities ph)" using assms(4) by (simp add: map_of_SomeD)
  then have p: "se_identity p = se_identity s" "se_profile p = name" "se_node p = se_identity s"
    using inv assms(5) by (auto simp: ph_inv_def admitted_def)
  have n: "se_node s = se_identity s" using f(6) assms(5) by auto
  have "p \<noteq> s" using live_ids [OF assms(1,2)] f(4) by auto
  let ?ph = "ph\<lparr>ph_sessions := mput (se_node s) s (ph_sessions ph), ph_identities := mput (se_identity s) s (ph_identities ph)\<rparr>"
  have get: "map_of (hb_profiles h) name = Some ?ph" using f(2) by (simp add: h q gm.get_put)
  have "unregister_session p h = (h\<lparr>hb_profiles := mput name ?ph (hb_profiles h)\<rparr>, [])"
    using \<open>p \<noteq> s\<close> p n get by (auto simp: unregister_session_def gm.get_put)
  also have "\<dots> = (h, [])" using mput_same [OF get] by simp
  finally show ?thesis using c assms(4) f(2) p n get by (simp add: q gm.get_put)
qed

text \<open>Once a profile has its hub, registration does not look at the profile store again: a client whose
  name a reload removed from the allowed clients still registers, until the server restarts.\<close>

theorem registration_ignores_reload:
  assumes "map_of (hb_profiles h) name = Some ph"
  shows "register_session reg ps name auth s h = register_session reg ps' name auth s h"
  using assms by (simp add: register_session_def get_or_start_profile_def)

subsection \<open>What is sent to whom\<close>

text \<open>C8: The server sends credentials only to sessions that were vouched for. A push made by a mediator's turn in any
  reachable state goes to a session that is registered for that profile under the node it goes to; that node is the
  session's identity, which the verified certificate, a signed token naming the profile, or the headers of a connection to
  the unix socket vouched for, and in certificate mode it is on the list of allowed clients. The push names the
  profile, carries the truth of its account, and the node is a candidate of that account.\<close>

theorem server_pushes_are_authorised:
  assumes "srv_reach lib v" "jwt_trusted lib sig_ok (sv_auth v)" "env_ok env" "hub_turn name ch env (sv_hub v) = Some (h, evs)"
    "Pushed s p r \<in> set evs"
  shows "\<exists>ph ph' nid c t. map_of (hb_profiles (sv_hub v)) name = Some ph \<and> map_of (hb_profiles h) name = Some ph' \<and>
    map_of (ph_sessions ph) nid = Some s \<and> se_profile s = name \<and> se_node s = nid \<and> sourced sig_ok v s \<and>
    (se_mode s = AuthModeMTLS \<longrightarrow> is_cn_allowed (ph_profile ph) (se_identity s)) \<and>
    tp_profile p = name \<and> map_of (md_cands (ph_mediator ph')) nid = Some c \<and> cd_account c = tp_account p \<and>
    map_of (md_truths (ph_mediator ph')) (tp_account p) = Some t \<and> p = truth_push_of (med_config_of ph) t"
proof -
  from assms(4) obtain ph ph' where ph: "map_of (hb_profiles (sv_hub v)) name = Some ph"
    and t: "profile_turn ch env ph = Some (ph', evs)" and h: "h = (sv_hub v)\<lparr>hb_profiles := mput name ph' (hb_profiles (sv_hub v))\<rparr>"
    by (auto simp: hub_turn_def split: option.splits)
  have inv: "ph_inv name ph" using srv_reach_inv [OF assms(1)] hub_inv_get ph by (auto simp: srv_inv_def)
  obtain inp m' where m: "med_turn (med_config_of ph) (env\<lparr>me_sessions := ph_sessions ph\<rparr>) inp (ph_mediator ph) = Some (m', evs)"
    and m': "ph_mediator ph' = m'" by (rule profile_turn_form [OF t inv])
  have b: "mc_format (med_config_of ph) \<in> set builtin_formats" "med_reach (med_config_of ph) (ph_mediator ph)"
    using inv by (simp_all add: ph_inv_def med_config_of_def)
  have e: "env_ok (env\<lparr>me_sessions := ph_sessions ph\<rparr>)" using assms(3) by simp
  obtain nid c t where f: "(nid, s) \<in> set (ph_sessions ph)" "map_of (md_cands m') nid = Some c" "cd_account c = tp_account p"
    "map_of (md_truths m') (tp_account p) = Some t" "p = truth_push_of (med_config_of ph) t"
    using push_facts [OF b e m assms(5)] by auto
  have s: "se_node s = nid" "admitted ph s" "gomap_ok (ph_sessions ph)" "pf_name (ph_profile ph) = name"
    using inv f(1) by (auto simp: ph_inv_def)
  have "map_of (ph_sessions ph) nid = Some s" using f(1) s(3) by (simp add: gomap_ok_def)
  moreover have "sourced sig_ok v s" by (rule registered_sourced [OF assms(1,2) ph f(1)])
  moreover have "tp_profile p = name" using f(5) s(4) by (simp add: truth_push_of_def med_config_of_def)
  ultimately show ?thesis using ph h s f m'
    by (intro exI [of _ ph] exI [of _ ph'] exI [of _ nid] exI [of _ c] exI [of _ t]) (auto simp: admitted_def gm.get_put)
qed

text \<open>C9: A served connection's identity was vouched for. Over TLS it is the non-empty common name of the verified certificate,
  or under tokens the subject of the token that the connection presented: signed with the server's secret for its issuer and audience,
  naming the profile, and at most thirty seconds outside its validity period. Over the unix attach socket, which
  authenticates nobody itself, it is what the headers say, the node id if they name no identity. The session's node
  id is that identity, and the profile is known.\<close>

theorem served_identity_is_authenticated:
  assumes "jwt_trusted lib sig_ok a" "admitted_handshake lib ps a name org auth hs0"
    "serve_conn lib reg ps auth (origin_clock org) name hs0 (origin_frame org) hr sid wl h = (Serving s, h', effs)"
  shows "vouched sig_ok a s org \<and> se_identity s \<noteq> [] \<and> se_node s = se_identity s \<and> se_profile s = name \<and>
    store_get ps name \<noteq> None"
proof -
  obtain hs where hs: "serve_handshake lib auth (origin_clock org) name hs0 (origin_frame org) hr sid = Inr (hs, s)"
    by (rule serve_conn_form [OF assms(3)])
  have "store_get ps name \<noteq> None" using assms(2) by cases (auto simp: handle_ws_def split: if_splits)
  then show ?thesis using session_vouched [OF assms(1,2) hs] serve_handshake_form(1) [OF hs] by simp
qed

text \<open>A push arrives as it was made. What the session hands to its connection, once written as a frame
  and read by the client, is a truth.push message whose payload is the push: bytes, fingerprint, path and time.\<close>

theorem push_arrives_intact:
  assumes "valid_utf8 eid" "time_ok ts" "time_writable ts" "truth_push_ok push" "text_ok (Some (enc_truth_push push))"
  shows "\<exists>env w env'. (\<forall>send. send_truth_push send eid ts push = send env) \<and> encode_envelope env = Inr w \<and>
    unmarshal w = Inr env' \<and> env_type env' = KindTruthPush \<and> payload_as dec_truth_push env' = Some push"
proof -
  let ?e = "\<lparr>env_type = KindTruthPush, env_v = EnvelopeV, env_id = eid, env_ts = ts,
    env_payload = Some (enc_truth_push push)\<rparr>"
  have k: "valid_kind KindTruthPush" by (simp add: valid_kind_def)
  have ok: "envelope_ok ?e" using assms(1,2,5) by (simp add: envelope_ok_def)
  have m: "marshal KindTruthPush EnvelopeV eid ts (Some (Inr (enc_truth_push push))) = Inr (json_text (enc_envelope ?e))"
    using k assms(3) by (simp add: marshal_def)
  have "json_unmarshal (json_text (enc_envelope ?e)) = Some (enc_envelope ?e)"
    by (intro json_unmarshal_text enc_envelope_wf) (use ok k in simp_all)
  moreover have "dec_struct dec_envelope_member (enc_envelope ?e) zero_envelope = Some (received ?e)"
    using assms(2) by (intro dec_enc_envelope) simp_all
  ultimately have "send_truth_push send eid ts push = send (received ?e)" for send
    by (simp add: send_truth_push_def send_payload_def m)
  moreover have "payload_as dec_truth_push (received ?e) = Some push"
    using truth_push_rt [OF assms(4)] by (simp add: payload_as_def received_def json_raw_def)
  ultimately show ?thesis using received_wire [OF ok] k assms(3)
    by (intro exI [of _ "received ?e"] exI [of _ "json_text (enc_envelope (received ?e))"])
       (simp add: received_def)
qed

end
