(* ===== verification/Server_Scenario.thy ===== *)
theory Server_Scenario
  imports Server_Props
begin

text \<open>
  A run of the whole server: nodes \<open>a\<close> and \<open>b\<close> connect with certificates, \<open>b\<close> sends that it holds
  nothing, \<open>a\<close> sends its credentials, the mediator takes its two turns. It ends in the state of the
  mediator's run of Mediator_Scenario, and the theorems about the server are applied to it.
\<close>

declare One_nat_def [simp del]

definition demo_store :: profile_store where "demo_store = new_profile_store (Some [demo_profile])"

definition demo_auth :: authenticator where
  "demo_auth = \<lparr>au_mode = AuthModeMTLS, au_secret = [], au_issuer = ''iss'', au_audience = ''aud'', au_first_frame = False,
     au_timeout = 0\<rparr>"

definition demo_request :: "string \<Rightarrow> http_request" where
  "demo_request n = \<lparr>rq_tls = Some [[base_leaf_template 1 n 0 0]], rq_authorization = []\<rparr>"

text \<open>A connection over TLS: everything at one instant, the first frame is the hello itself.\<close>

definition demo_origin :: "string \<Rightarrow> origin" where
  "demo_origin n = FromTls (demo_request n) demo_now Ended demo_now"

definition demo_handshake :: "string \<Rightarrow> handshake_auth" where
  "demo_handshake n = \<lparr>hs_mode = AuthModeMTLS, hs_identity = n, hs_peer_cn = n, hs_profiles = [], hs_needs_jwt = False\<rparr>"

definition demo_frame :: "string \<Rightarrow> json \<Rightarrow> envelope" where
  "demo_frame kind j = \<lparr>env_type = kind, env_v = EnvelopeV, env_id = [], env_ts = demo_now, env_payload = Some j\<rparr>"

definition demo_hello :: "string \<Rightarrow> conn_read" where
  "demo_hello n = Frame (demo_frame KindHello (enc_hello \<lparr>hl_node_id = n, hl_version = [], hl_os = [], hl_caps = []\<rparr>))"

definition demo_ph0 :: profile_hub where
  "demo_ph0 = new_profile_hub demo_profile gemini_format ''/creds/oauth_creds.json'' True"

definition demo_ph_a :: profile_hub where
  "demo_ph_a = demo_ph0\<lparr>ph_sessions := [(''a'', demo_session 0 ''a'')], ph_identities := [(''a'', demo_session 0 ''a'')]\<rparr>"

definition demo_ph_ab :: profile_hub where
  "demo_ph_ab = demo_ph0\<lparr>ph_sessions := [(''a'', demo_session 0 ''a''), (''b'', demo_session 1 ''b'')],
     ph_identities := [(''a'', demo_session 0 ''a''), (''b'', demo_session 1 ''b'')]\<rparr>"

definition demo_absence :: snapshot_absent where
  "demo_absence = \<lparr>sa_profile = ''demo'', sa_account = ''acct'', sa_path = ''/b/oauth_creds.json''\<rparr>"

definition demo_reported :: snapshot_report where
  "demo_reported = \<lparr>sr_profile = ''demo'', sr_account = ''acct'', sr_path = ''/a/oauth_creds.json'',
      sr_format = ''gemini-oauth-creds-json-format'', sr_fingerprint = [], sr_summary = None,
      sr_live = zero_live_check, sr_raw_size = 0, sr_raw_b64 = std_encode demo_raw\<rparr>"

definition demo_hub :: "profile_hub \<Rightarrow> hub" where
  "demo_hub ph = \<lparr>hb_profiles = [(''demo'', ph)], hb_notify = True, hb_shutting = False\<rparr>"

definition demo_server :: "profile_hub \<Rightarrow> server" where
  "demo_server ph = \<lparr>sv_hub = demo_hub ph, sv_store = demo_store, sv_auth = demo_auth, sv_next = 2,
     sv_live = [demo_session 1 ''b'', demo_session 0 ''a''],
     sv_origin = [(demo_session 1 ''b'', demo_origin ''b''), (demo_session 0 ''a'', demo_origin ''a'')]\<rparr>"

lemma demo_store_get [simp]: "store_get demo_store ''demo'' = Some demo_profile"
  by (simp add: demo_store_def store_get_def new_profile_store_def demo_profile_def)

lemma demo_registry [simp]: "registry_get builtin_registry ''gemini-oauth-creds-json-format'' = Some gemini_format"
proof -
  have e: "registry_get [] n = None" for n by (simp add: registry_get_def)
  from register_all_fresh [OF builtin_names, of "[]"] e obtain r where
    r: "register_all builtin_formats [] = Some r"
    and g: "registry_get r ''gemini-oauth-creds-json-format'' = (case find (\<lambda>f. f_name f = ''gemini-oauth-creds-json-format'')
        builtin_formats of Some f \<Rightarrow> Some f | None \<Rightarrow> registry_get [] ''gemini-oauth-creds-json-format'')"
    by (auto simp: registry_get_def)
  have "find (\<lambda>f. f_name f = ''gemini-oauth-creds-json-format'') builtin_formats = Some gemini_format"
    by (simp add: builtin_formats_def)
  then show ?thesis using r g by (simp add: builtin_registry_def)
qed

lemma demo_resolve [simp]: "resolve_credential_path gemini_format ''/creds'' = Inr ''/creds/oauth_creds.json''"
  by code_simp

lemma demo_profile_sel [simp]: "pf_name demo_profile = ''demo''" "pf_dir demo_profile = ''/creds''"
  "pf_format demo_profile = ''gemini-oauth-creds-json-format''" "pf_allowed demo_profile = [''a'', ''b'']"
  by (simp_all add: demo_profile_def)

subsection \<open>Two nodes connect\<close>

lemma demo_ws [simp]:
  "n \<noteq> [] \<Longrightarrow> handle_ws lib demo_store demo_auth now (demo_request n) ''demo'' = (101, Inr (demo_handshake n))"
  by (simp add: handle_ws_def pre_upgrade_def demo_request_def demo_auth_def demo_handshake_def zero_handshake_def
      pki_peer_cn_def base_leaf_template_def)

lemma demo_admitted: "n \<noteq> [] \<Longrightarrow>
    admitted_handshake lib demo_store demo_auth ''demo'' (demo_origin n) (Some demo_auth) (demo_handshake n)"
  unfolding demo_origin_def by (rule admitted_handshake.tls) simp

lemma demo_origin_sel [simp]: "origin_frame (demo_origin n) = Ended" "origin_clock (demo_origin n) = demo_now"
  by (simp_all add: demo_origin_def)

lemma demo_trusted: "jwt_trusted demo_jwt_lib demo_signed demo_auth"
  by (simp add: jwt_trusted_def demo_lib_sound demo_auth_def)

lemma demo_session_sel [simp]: "se_id (demo_session i n) = i" "se_profile (demo_session i n) = ''demo''"
  "se_identity (demo_session i n) = n" "se_mode (demo_session i n) = AuthModeMTLS" "se_node (demo_session i n) = n"
  by (simp_all add: demo_session_def)

lemma demo_handshake_sel [simp]: "hs_mode (demo_handshake n) = AuthModeMTLS" "hs_identity (demo_handshake n) = n"
  "hs_needs_jwt (demo_handshake n) = False" "hs_peer_cn (demo_handshake n) = n"
  by (simp_all add: demo_handshake_def)

lemma demo_serve_handshake [simp]:
  "n \<noteq> [] \<Longrightarrow> serve_handshake lib (Some demo_auth) now ''demo'' (demo_handshake n) jr (demo_hello n) i =
    Inr (demo_handshake n, demo_session i n)"
  by (simp add: serve_handshake_def demo_hello_def demo_frame_def read_kind_def payload_as_def demo_session_def
      hello_rt hello_ok_def)

lemma demo_ph0_sel [simp]: "ph_profile demo_ph0 = demo_profile" "ph_sessions demo_ph0 = []" "ph_identities demo_ph0 = []"
  "ph_mediator demo_ph0 = new_mediator" "ph_reports demo_ph0 = []" "ph_absents demo_ph0 = []" "ph_format demo_ph0 = gemini_format"
  "ph_stopped demo_ph0 = False" "med_config_of demo_ph0 = demo_cfg"
  by (simp_all add: demo_ph0_def new_profile_hub_def med_config_of_def demo_cfg_def)

lemma demo_hub_sel [simp]: "hb_profiles (demo_hub ph) = [(''demo'', ph)]" "hb_shutting (demo_hub ph) = False"
  "(demo_hub ph)\<lparr>hb_profiles := [(''demo'', ph')]\<rparr> = demo_hub ph'"
  by (simp_all add: demo_hub_def)

lemma demo_start: "get_or_start_profile builtin_registry demo_store ''demo'' (set_propagation_notifier True new_hub) =
    Inr (demo_ph0, demo_hub demo_ph0)"
  by (simp add: get_or_start_profile_def new_hub_def set_propagation_notifier_def demo_ph0_def demo_hub_def Let_def)

lemma demo_register:
  assumes "get_or_start_profile builtin_registry demo_store ''demo'' h = Inr (ph, demo_hub ph)" "\<not> hb_shutting h"
    "ph_profile ph = demo_profile" "n \<in> {''a'', ''b''}" "ph_identities ph = ph_sessions ph"
    "ph' = ph\<lparr>ph_sessions := mput n (demo_session i n) (ph_sessions ph), ph_identities := mput n (demo_session i n) (ph_sessions ph)\<rparr>"
  shows "\<exists>effs. serve_conn lib builtin_registry demo_store (Some demo_auth) now ''demo'' (demo_handshake n)
    jr (demo_hello n) i (\<lambda>_. None) h = (Serving (demo_session i n), demo_hub ph', effs)"
proof -
  have "n \<noteq> []" "is_cn_allowed demo_profile n" using assms(4) by (auto simp: is_cn_allowed_def)
  then show ?thesis using assms by (simp add: serve_conn_def register_session_def Let_def)
qed

lemma demo_connect_a: "\<exists>effs. serve_conn lib builtin_registry demo_store (Some demo_auth) now ''demo'' (demo_handshake ''a'')
    jr (demo_hello ''a'') 0 (\<lambda>_. None) (set_propagation_notifier True new_hub) = (Serving (demo_session 0 ''a''), demo_hub demo_ph_a, effs)"
  by (rule demo_register [OF demo_start]) (simp_all add: set_propagation_notifier_def new_hub_def demo_ph_a_def)

lemma demo_connect_b: "\<exists>effs. serve_conn lib builtin_registry demo_store (Some demo_auth) now ''demo'' (demo_handshake ''b'')
    jr (demo_hello ''b'') 1 (\<lambda>_. None) (demo_hub demo_ph_a) = (Serving (demo_session 1 ''b''), demo_hub demo_ph_ab, effs)"
  by (rule demo_register [where ph = demo_ph_a]) (simp_all add: get_or_start_profile_def demo_ph_a_def demo_ph_ab_def)

lemma demo_connected: "srv_reach lib (demo_server demo_ph_ab)"
proof -
  define v0 where "v0 = \<lparr>sv_hub = set_propagation_notifier True new_hub, sv_store = demo_store, sv_auth = demo_auth, sv_next = 0,
    sv_live = [], sv_origin = []\<rparr>"
  have r0: "srv_reach lib v0" unfolding v0_def demo_store_def by (rule srv_reach.start)
  from demo_connect_a obtain effs where c: "serve_conn lib builtin_registry (sv_store v0) (Some demo_auth)
      (origin_clock (demo_origin ''a'')) ''demo'' (demo_handshake ''a'') (origin_frame (demo_origin ''a'')) (demo_hello ''a'')
      (sv_next v0) (\<lambda>_. None) (sv_hub v0) = (Serving (demo_session 0 ''a''), demo_hub demo_ph_a, effs)"
    by (fastforce simp: v0_def)
  define v1 where "v1 = v0\<lparr>sv_hub := demo_hub demo_ph_a, sv_next := Suc (sv_next v0), sv_live := demo_session 0 ''a'' # sv_live v0,
    sv_origin := (demo_session 0 ''a'', demo_origin ''a'') # sv_origin v0\<rparr>"
  have st: "sv_store v0 = demo_store" "sv_store v1 = demo_store" "sv_auth v0 = demo_auth" "sv_auth v1 = demo_auth"
    by (simp_all add: v0_def v1_def)
  have r1: "srv_reach lib v1" unfolding v1_def
    by (rule srv_reach.step [OF r0 srv_step.connect [OF _ c]]) (simp add: st demo_admitted)
  from demo_connect_b obtain effs2 where d: "serve_conn lib builtin_registry (sv_store v1) (Some demo_auth)
      (origin_clock (demo_origin ''b'')) ''demo'' (demo_handshake ''b'') (origin_frame (demo_origin ''b'')) (demo_hello ''b'')
      (sv_next v1) (\<lambda>_. None) (sv_hub v1) = (Serving (demo_session 1 ''b''), demo_hub demo_ph_ab, effs2)"
    by (fastforce simp: v0_def v1_def One_nat_def)
  have "srv_reach lib (v1\<lparr>sv_hub := demo_hub demo_ph_ab, sv_next := Suc (sv_next v1), sv_live := demo_session 1 ''b'' # sv_live v1,
      sv_origin := (demo_session 1 ''b'', demo_origin ''b'') # sv_origin v1\<rparr>)"
    by (rule srv_reach.step [OF r1 srv_step.connect [OF _ d]]) (simp add: st demo_admitted)
  then show ?thesis by (simp add: v1_def v0_def demo_server_def numeral_2_eq_2)
qed

subsection \<open>Their messages and the mediator's turns\<close>

definition demo_ph_sent :: profile_hub where
  "demo_ph_sent = demo_ph_ab\<lparr>ph_absents := [(demo_session 1 ''b'', demo_absence)], ph_reports := [(demo_session 0 ''a'', demo_reported)]\<rparr>"

definition demo_ph_waiting :: profile_hub where
  "demo_ph_waiting = demo_ph_ab\<lparr>ph_reports := [(demo_session 0 ''a'', demo_reported)], ph_mediator := demo_waiting\<rparr>"

definition demo_ph_settled :: profile_hub where
  "demo_ph_settled = demo_ph_ab\<lparr>ph_mediator := demo_settled\<rparr>"

lemma demo_receive_b: "hub_receive (demo_session 1 ''b'') (demo_frame KindSnapshotAbsent (enc_snapshot_absent demo_absence)) (demo_hub demo_ph_ab)
    = (demo_hub (demo_ph_ab\<lparr>ph_absents := [(demo_session 1 ''b'', demo_absence)]\<rparr>), [])"
proof -
  have "session_handle (demo_session 1 ''b'') (demo_frame KindSnapshotAbsent (enc_snapshot_absent demo_absence)) = ToAbsent demo_absence"
    by (simp add: session_handle_def demo_frame_def payload_as_def snapshot_absent_rt snapshot_absent_ok_def
        demo_absence_def kind_defs)
  then show ?thesis
    by (simp add: hub_receive_def update_profile_def med_absent_def demo_ph_ab_def)
qed

lemma demo_reported_ok: "snapshot_report_ok demo_reported"
  by code_simp

lemma sr_profile_demo: "sr_profile demo_reported = ''demo''"
  by (simp add: demo_reported_def)

lemma demo_receive_a: "hub_receive (demo_session 0 ''a'') (demo_frame KindSnapshotReport (enc_snapshot_report demo_reported))
      (demo_hub (demo_ph_ab\<lparr>ph_absents := [(demo_session 1 ''b'', demo_absence)]\<rparr>))
    = (demo_hub demo_ph_sent, [])"
proof -
  have "session_handle (demo_session 0 ''a'') (demo_frame KindSnapshotReport (enc_snapshot_report demo_reported)) = ToReport demo_reported"
    by (simp add: session_handle_def demo_frame_def payload_as_def snapshot_report_rt demo_reported_ok sr_profile_demo)
  then show ?thesis
    by (simp add: hub_receive_def update_profile_def med_report_def demo_ph_sent_def demo_ph_ab_def)
qed

lemma demo_turn_env [simp]: "demo_env\<lparr>me_sessions := ph_sessions demo_ph_ab\<rparr> = demo_env" "med_config_of demo_ph_ab = demo_cfg"
  by (simp_all add: demo_env_def demo_ph_ab_def)

lemma demo_ph_ab_sel [simp]: "ph_mediator demo_ph_ab = new_mediator" "ph_stopped demo_ph_ab = False" "ph_reports demo_ph_ab = []"
  "demo_ph_ab\<lparr>ph_absents := []\<rparr> = demo_ph_ab"
  by (simp_all add: demo_ph_ab_def demo_ph0_def new_profile_hub_def)

lemma demo_inputs: "InAbsent (demo_session 1 ''b'') demo_absence = demo_absent" "InReport (demo_session 0 ''a'') demo_reported = demo_report"
  by (simp_all add: demo_absent_def demo_absence_def demo_report_def demo_reported_def)

lemma demo_profile_turn:
  assumes "\<not> ph_stopped ph" "next_input ch ph = Some (inp, q)" "med_config_of ph = demo_cfg" "ph_sessions ph = ph_sessions demo_ph_ab"
    "med_turn demo_cfg demo_env inp (ph_mediator ph) = Some (m, evs)" "ph' = q\<lparr>ph_mediator := m\<rparr>"
  shows "hub_turn ''demo'' ch demo_env (demo_hub ph) = Some (demo_hub ph', evs)"
  using assms by (simp add: hub_turn_def profile_turn_def)

lemma demo_med_config: "ph_profile ph = demo_profile \<Longrightarrow> ph_format ph = gemini_format \<Longrightarrow>
    ph_target ph = ''/creds/oauth_creds.json'' \<Longrightarrow> ph_notify ph \<Longrightarrow> med_config_of ph = demo_cfg"
  by (simp add: med_config_of_def demo_cfg_def)

lemma demo_hub_turn1: "hub_turn ''demo'' ChAbsent demo_env (demo_hub demo_ph_sent) = Some (demo_hub demo_ph_waiting, [])"
proof -
  have "next_input ChAbsent demo_ph_sent = Some (demo_absent, demo_ph_sent\<lparr>ph_absents := []\<rparr>)"
    unfolding demo_inputs [symmetric] by (simp add: next_input_def demo_ph_sent_def)
  then show ?thesis
    by (rule demo_profile_turn [rotated]) (simp_all add: demo_turn1 demo_ph_sent_def demo_ph_waiting_def demo_ph_ab_def demo_ph0_def new_profile_hub_def demo_med_config)
qed

lemma demo_hub_turn2: "hub_turn ''demo'' ChReport demo_env (demo_hub demo_ph_waiting) = Some (demo_hub demo_ph_settled,
    [Notified (restored_record demo_cfg demo_cands demo_truth demo_cand_a),
     Pushed (demo_session 1 ''b'') demo_push None,
     Notified (propagation_record demo_cfg demo_cands demo_truth None demo_cand_a [''b''] demo_now)])"
proof -
  have "next_input ChReport demo_ph_waiting = Some (demo_report, demo_ph_waiting\<lparr>ph_reports := []\<rparr>)"
    unfolding demo_inputs [symmetric] by (simp add: next_input_def demo_ph_waiting_def)
  then show ?thesis
    by (rule demo_profile_turn [rotated]) (simp_all add: demo_turn2 demo_ph_settled_def demo_ph_waiting_def demo_ph_ab_def demo_ph0_def new_profile_hub_def demo_med_config)
qed

lemma demo_server_sel [simp]: "sv_hub (demo_server ph) = demo_hub ph" "sv_live (demo_server ph) = [demo_session 1 ''b'', demo_session 0 ''a'']"
  "(demo_server ph)\<lparr>sv_hub := demo_hub ph'\<rparr> = demo_server ph'" 
  "sv_store (demo_server ph) = demo_store" "sv_next (demo_server ph) = 2" "sv_auth (demo_server ph) = demo_auth"
  by (simp_all add: demo_server_def demo_hub_def)

lemma demo_server_receive:
  assumes "srv_reach lib (demo_server ph)" "s \<in> set (sv_live (demo_server ph))" "hub_receive s env (demo_hub ph) = (demo_hub ph', effs)"
  shows "srv_reach lib (demo_server ph')"
  using srv_reach.step [OF assms(1) srv_step.receive [OF assms(2), where env = env]] assms(3) by simp

lemma demo_server_waiting: "srv_reach lib (demo_server demo_ph_waiting)"
proof -
  have "srv_reach lib (demo_server (demo_ph_ab\<lparr>ph_absents := [(demo_session 1 ''b'', demo_absence)]\<rparr>))"
    by (rule demo_server_receive [OF demo_connected _ demo_receive_b]) simp
  then have "srv_reach lib (demo_server demo_ph_sent)"
    by (rule demo_server_receive [OF _ _ demo_receive_a]) simp
  moreover have "srv_step lib (demo_server demo_ph_sent) (demo_server demo_ph_waiting)"
    using srv_step.turn [of demo_env "''demo''" ChAbsent "demo_server demo_ph_sent" "demo_hub demo_ph_waiting" "[]" lib]
      demo_hub_turn1 by simp
  ultimately show ?thesis by (rule srv_reach.step)
qed

subsection \<open>The theorems at this run\<close>

theorem registered_sessions_are_admitted_witness:
  "\<exists>ph. map_of (hb_profiles (sv_hub (demo_server demo_ph_waiting))) ''demo'' = Some ph \<and> (''b'', demo_session 1 ''b'') \<in> set (ph_sessions ph) \<and>
    sourced demo_signed (demo_server demo_ph_waiting) (demo_session 1 ''b'')"
proof -
  have "(''b'', demo_session 1 ''b'') \<in> set (ph_sessions demo_ph_waiting)" by (simp add: demo_ph_waiting_def demo_ph_ab_def)
  then show ?thesis
    using registered_sessions_are_admitted [OF demo_server_waiting, of demo_jwt_lib demo_signed "''demo''" demo_ph_waiting] demo_trusted by auto
qed

theorem server_pushes_are_authorised_witness:
  "se_profile (demo_session 1 ''b'') = ''demo'' \<and> tp_profile demo_push = ''demo'' \<and>
   hub_turn ''demo'' ChReport demo_env (sv_hub (demo_server demo_ph_waiting)) \<noteq> None"
  using server_pushes_are_authorised [OF demo_server_waiting _ demo_env_ok, of demo_jwt_lib demo_signed "''demo''" ChReport "demo_hub demo_ph_settled" _
      "demo_session 1 ''b''" demo_push None] demo_hub_turn2 demo_trusted by auto

theorem reconnect_displaces_witness:
  "\<exists>h effs. serve_conn demo_jwt_lib builtin_registry (sv_store (demo_server demo_ph_ab)) (Some demo_auth) demo_now ''demo''
      (demo_handshake ''a'') Ended (demo_hello ''a'') (sv_next (demo_server demo_ph_ab)) (\<lambda>_. None) (sv_hub (demo_server demo_ph_ab))
      = (Serving (demo_session 2 ''a''), h, effs) \<and> unregister_session (demo_session 0 ''a'') h = (h, [])"
proof -
  have "\<exists>effs. serve_conn demo_jwt_lib builtin_registry (sv_store (demo_server demo_ph_ab)) (Some demo_auth) demo_now ''demo''
      (demo_handshake ''a'') Ended (demo_hello ''a'') (sv_next (demo_server demo_ph_ab)) (\<lambda>_. None) (sv_hub (demo_server demo_ph_ab))
      = (Serving (demo_session 2 ''a''), demo_hub (demo_ph_ab\<lparr>ph_sessions := mput ''a'' (demo_session 2 ''a'') (ph_sessions demo_ph_ab),
          ph_identities := mput ''a'' (demo_session 2 ''a'') (ph_sessions demo_ph_ab)\<rparr>), effs)"
    unfolding demo_server_sel
    by (rule demo_register [where ph = demo_ph_ab]) (simp_all add: get_or_start_profile_def demo_ph_ab_def)
  then obtain h effs where s: "serve_conn demo_jwt_lib builtin_registry (sv_store (demo_server demo_ph_ab)) (Some demo_auth) demo_now ''demo''
      (demo_handshake ''a'') Ended (demo_hello ''a'') (sv_next (demo_server demo_ph_ab)) (\<lambda>_. None) (sv_hub (demo_server demo_ph_ab))
      = (Serving (demo_session 2 ''a''), h, effs)" by blast
  have "unregister_session (demo_session 0 ''a'') h = (h, [])"
    using reconnect_displaces [OF demo_connected _ _ _ _ s, of "demo_session 0 ''a''" demo_ph_ab]
    by (simp add: demo_ph_ab_def)
  with s show ?thesis by blast
qed

text \<open>The store that a reload left allows nobody.\<close>

definition closed_store :: profile_store where
  "closed_store = new_profile_store (Some [demo_profile\<lparr>pf_allowed := []\<rparr>])"

theorem registration_ignores_reload_witness:
  "\<exists>h1 effs. register_session builtin_registry closed_store ''demo'' (demo_handshake ''b'') (demo_session 1 ''b'') (demo_hub demo_ph_a)
    = (None, h1, effs) \<and> map_option (\<lambda>p. is_cn_allowed p ''b'') (store_get closed_store ''demo'') = Some False"
proof -
  have s: "map_option (\<lambda>p. is_cn_allowed p ''b'') (store_get closed_store ''demo'') = Some False"
    by (simp add: closed_store_def store_get_def new_profile_store_def demo_profile_def is_cn_allowed_def)
  have "\<exists>h1 effs. register_session builtin_registry demo_store ''demo'' (demo_handshake ''b'') (demo_session 1 ''b'') (demo_hub demo_ph_a)
    = (None, h1, effs)"
    by (simp add: register_session_def get_or_start_profile_def demo_ph_a_def is_cn_allowed_def Let_def)
  then show ?thesis
    using s registration_ignores_reload [of "demo_hub demo_ph_a" "''demo''" demo_ph_a builtin_registry demo_store
      "demo_handshake ''b''" "demo_session 1 ''b''" closed_store] by simp
qed

definition token_auth :: authenticator where
  "token_auth = \<lparr>au_mode = AuthModeJWT, au_secret = ''k3y'', au_issuer = ''iss'', au_audience = ''aud'', au_first_frame = True,
     au_timeout = 0\<rparr>"

definition token_handshake :: handshake_auth where
  "token_handshake = zero_handshake\<lparr>hs_mode := AuthModeJWT, hs_needs_jwt := True\<rparr>"

definition token_session :: session where
  "token_session = \<lparr>se_id = 7, se_profile = ''demo'', se_peer = [], se_identity = ''node-a'', se_mode = AuthModeJWT,
     se_node = ''node-a''\<rparr>"

lemma token_ws: "handle_ws demo_jwt_lib demo_store token_auth now \<lparr>rq_tls = Some [], rq_authorization = []\<rparr> ''demo''
    = (101, Inr token_handshake)"
proof -
  have "trim_space [] = []" by (simp add: trim_space_id)
  then show ?thesis
    by (simp add: handle_ws_def pre_upgrade_def token_auth_def token_handshake_def AuthModeJWT_def AuthModeMTLS_def)
qed

lemma token_serves: "\<exists>h effs. serve_conn demo_jwt_lib builtin_registry demo_store (Some token_auth) (seconds 1000) ''demo'' token_handshake
    (Frame (demo_frame KindAuthJWT (enc_auth_jwt \<lparr>aj_token = ''tok''\<rparr>))) (demo_hello ''node-a'') 7 (\<lambda>_. None)
    (set_propagation_notifier True new_hub) = (Serving token_session, h, effs)"
proof -
  have "verify_jwt demo_jwt_lib token_auth (seconds 1000) ''tok'' ''demo'' = Inr demo_claims"
    by (simp add: verify_jwt_def token_auth_def demo_verify allows_profile_def demo_claims_def)
  then have c: "complete_jwt demo_jwt_lib token_auth (seconds 1000) (Frame (demo_frame KindAuthJWT (enc_auth_jwt \<lparr>aj_token = ''tok''\<rparr>))) ''demo''
      = Inr (jwt_handshake demo_claims)" 
    by (simp add: complete_jwt_def read_kind_def demo_frame_def payload_as_def auth_jwt_rt auth_jwt_ok_def)
  have hello: "read_kind (demo_hello n) KindHello =
      Some (demo_frame KindHello (enc_hello \<lparr>hl_node_id = n, hl_version = [], hl_os = [], hl_caps = []\<rparr>))" for n
    by (simp add: read_kind_def demo_hello_def demo_frame_def)
  have "serve_handshake demo_jwt_lib (Some token_auth) (seconds 1000) ''demo'' token_handshake
      (Frame (demo_frame KindAuthJWT (enc_auth_jwt \<lparr>aj_token = ''tok''\<rparr>))) (demo_hello ''node-a'') 7
    = Inr (jwt_handshake demo_claims, token_session)"
    by (simp add: serve_handshake_def c hello token_handshake_def zero_handshake_def hello_rt hello_ok_def payload_as_def
        jwt_handshake_def demo_claims_def token_session_def)
      (simp add: demo_frame_def hello_rt hello_ok_def)
  then show ?thesis
    using demo_start
    by (simp add: serve_conn_def register_session_def jwt_handshake_def AuthModeJWT_def AuthModeMTLS_def Let_def
        set_propagation_notifier_def new_hub_def)
qed

theorem served_identity_is_authenticated_witness:
  "vouched demo_signed token_auth token_session (FromTls \<lparr>rq_tls = Some [], rq_authorization = []\<rparr> (seconds 1000)
     (Frame (demo_frame KindAuthJWT (enc_auth_jwt \<lparr>aj_token = ''tok''\<rparr>))) (seconds 1000))"
proof -
  let ?org = "FromTls \<lparr>rq_tls = Some [], rq_authorization = []\<rparr> (seconds 1000)
     (Frame (demo_frame KindAuthJWT (enc_auth_jwt \<lparr>aj_token = ''tok''\<rparr>))) (seconds 1000)"
  obtain h effs where s: "serve_conn demo_jwt_lib builtin_registry demo_store (Some token_auth) (origin_clock ?org) ''demo'' token_handshake
    (origin_frame ?org) (demo_hello ''node-a'') 7 (\<lambda>_. None) (set_propagation_notifier True new_hub) = (Serving token_session, h, effs)"
    using token_serves by auto
  have "jwt_trusted demo_jwt_lib demo_signed token_auth" by (simp add: jwt_trusted_def demo_lib_sound token_auth_def)
  from served_identity_is_authenticated [OF this admitted_handshake.tls [OF token_ws] s] show ?thesis by simp
qed

theorem push_arrives_intact_witness:
  "\<exists>env w env'. send_truth_push (\<lambda>e. if e = env then None else Some NotExist) ''id-1'' some_instant some_push = None \<and> encode_envelope env = Inr w \<and>
    unmarshal w = Inr env' \<and> payload_as dec_truth_push env' = Some some_push"
proof -
  have "valid_utf8 ''id-1''" by (rule ascii_utf8) simp
  moreover have "truth_push_ok some_push" by (simp add: truth_push_ok_def some_push_def some_instant_ok)
  moreover have "text_ok (Some (enc_truth_push some_push))" by code_simp
  ultimately show ?thesis
    using push_arrives_intact [of "''id-1''" some_instant some_push] some_instant_ok some_instant_writable by auto
qed

end
