(* ===== verification/Config_Props.thy ===== *)
theory Config_Props
  imports Config_Profiles
begin

text \<open>
  What loading the profiles file guarantees, what a reload may change, and the rules of path
  expansion. The YAML decoder is a parameter; the witnesses give it a fixed file.
\<close>

text \<open>A profiles file either fails to load with an error of the category ErrConfigInvalid or gives
  at least one profile, all with different names, each with a name, a format, a cleaned directory,
  cleaned watch files, a non-empty list of non-empty allowed clients, well-formed reverse targets
  for different nodes, a known propagation mode and durations that are not negative.\<close>

theorem load_profiles_valid:
  "case load_profiles yaml env path of
     Inl e \<Rightarrow> is_err e ErrConfigInvalid
   | Inr ps \<Rightarrow> ps \<noteq> [] \<and> list_all profile_ok ps \<and> distinct (map pf_name ps)"
  using load_profiles_error load_profiles_Inr by (auto split: sum.splits)

text \<open>A reload that fails leaves the store as it was; a reload that succeeds makes exactly the new
  profiles visible to \<open>Get\<close> and \<open>List\<close> and leaves the new list in the channel of every subscriber, even
  of one that never read an earlier one.\<close>

theorem reload_is_atomic:
  "case store_reload yaml env path s of
     (Some e, s') \<Rightarrow> s' = s \<and> is_err e ErrConfigInvalid
   | (None, s') \<Rightarrow> \<exists>ps. load_profiles yaml env path = Inr ps \<and> store_list s' = ps \<and>
       (\<forall>p \<in> set ps. store_get s' (pf_name p) = Some p) \<and>
       (\<forall>n. n \<notin> pf_name ` set ps \<longleftrightarrow> store_get s' n = None) \<and>
       length (st_channels s') = length (st_channels s) \<and> set (st_channels s') \<subseteq> {Some ps}"
proof (cases "load_profiles yaml env path")
  case (Inl e)
  then show ?thesis by (simp add: store_reload_def load_profiles_error)
next
  case (Inr ps)
  from load_profiles_Inr(3) [OF Inr] Inr show ?thesis
    by (auto simp: store_reload_def store_list_def store_get_def find_profile_unique find_profile_None)
qed

definition some_host :: host_env where
  "some_host = \<lparr>he_read = (\<lambda>p. if p = ''/p.yml'' then Inr ''yaml'' else Inl NotExist), he_is_dir = (\<lambda>_. False),
     he_lookup = (\<lambda>n. if n = ''CLAUDE_CONFIG_DIR'' then Some ''/cfg'' else None), he_home = Inr ''/home/u''\<rparr>"

definition some_raw_profile :: raw_profile where
  "some_raw_profile = \<lparr>rf_name = ''p'', rf_format = ''f'', rf_dir = ''/d'', rf_watch_files = [],
     rf_allowed = [''n''], rf_reverse = [],
     rf_validate = \<lparr>rv_strategy = [], rv_live_check = False, rv_timeout = []\<rparr>,
     rf_propagate = \<lparr>rp_mode = [], rp_cooldown = []\<rparr>\<rparr>"

definition some_profile :: profile where
  "some_profile = \<lparr>pf_name = ''p'', pf_format = ''f'', pf_dir = ''/d'', pf_watch_files = [],
     pf_allowed = [''n''], pf_reverse = [],
     pf_validate = \<lparr>vs_strategy = [], vs_live_check = False, vs_timeout = 0\<rparr>,
     pf_propagate = \<lparr>ps_mode = PropagateModeStaleOnly, ps_cooldown = defaultPropagateCooldown\<rparr>\<rparr>"

lemma some_load: "load_profiles (\<lambda>_. Inr [some_raw_profile]) some_host ''/p.yml'' = Inr [some_profile]"
proof -
  have "expand_path some_host ''/d'' = Inr ''/d''" by code_simp
  then show ?thesis
    by (simp add: load_profiles_def parse_profiles_def some_host_def [of] some_raw_profile_def
        convert_profile_def convert_validate_def convert_propagate_def propagate_mode_defs some_profile_def)
qed

theorem reload_is_atomic_witness:
  "\<exists>s'. store_reload (\<lambda>_. Inr [some_raw_profile]) some_host ''/p.yml''
      (snd (store_subscribe (new_profile_store None))) = (None, s') \<and>
    store_get s' ''p'' = Some some_profile \<and> set (st_channels s') \<subseteq> {Some [some_profile]}"
  using reload_is_atomic [of "\<lambda>_. Inr [some_raw_profile]" some_host "''/p.yml''"
      "snd (store_subscribe (new_profile_store None))"] some_load
  by (auto simp: store_reload_def some_profile_def)

text \<open>Path expansion is predictable: with a non-empty CLAUDE_CONFIG_DIR a path under \<open>~/.claude/\<close> goes
  to that directory, \<open>~/.claude\<close> itself is that directory, every other \<open>~/\<close> path goes to the home
  directory, a result is always cleaned, and every failure is of the category ErrConfigInvalid.\<close>

theorem expand_path_rules:
  assumes "he_lookup env EnvClaudeConfigDir = Some cfg" "cfg \<noteq> []" "he_home env = Inr home"
  shows "expand_path env (''~/.claude/'' @ rest) = Inr (path_clean (cfg @ ''/'' @ rest)) \<and>
    expand_path env ''~/.claude'' = Inr (path_clean cfg) \<and>
    expand_path env ''~'' = Inr (path_clean home) \<and>
    (\<not> has_prefix p ''.claude/'' \<and> p \<noteq> ''.claude'' \<longrightarrow>
      expand_path env (''~/'' @ p) = Inr (path_clean (home @ ''/'' @ p))) \<and>
    (case expand_path env q of Inl e \<Rightarrow> is_err e ErrConfigInvalid | Inr r \<Rightarrow> r = [] \<or> path_clean r = r)"
proof (intro conjI impI)
  show "expand_path env (''~/.claude/'' @ rest) = Inr (path_clean (cfg @ ''/'' @ rest))"
    by (rule expand_path_claude_dir [OF assms(1,2)])
  show "expand_path env ''~/.claude'' = Inr (path_clean cfg)"
    using assms by (simp add: expand_path_def he_getenv_def Let_def)
  show "expand_path env ''~'' = Inr (path_clean home)"
    using assms by (simp add: expand_path_def he_getenv_def Let_def has_prefix_iff expand_home_def)
  show "expand_path env (''~/'' @ p) = Inr (path_clean (home @ ''/'' @ p))"
    if "\<not> has_prefix p ''.claude/'' \<and> p \<noteq> ''.claude''"
    using that assms by (auto simp: expand_path_def he_getenv_def Let_def has_prefix_iff expand_home_def trim_prefix_def)
  show "case expand_path env q of Inl e \<Rightarrow> is_err e ErrConfigInvalid | Inr r \<Rightarrow> r = [] \<or> path_clean r = r"
    using expand_path_error [of env q] expand_path_clean [of env q] by (auto split: sum.splits)
qed

theorem expand_path_rules_witness:
  "expand_path some_host (''~/'' @ ''.codex'') = Inr (path_clean (''/home/u'' @ ''/'' @ ''.codex''))"
proof -
  have "\<not> has_prefix ''.codex'' ''.claude/''" by (simp add: has_prefix_iff)
  with expand_path_rules [of some_host "''/cfg''" "''/home/u''" "[]" "''.codex''" "[]"] show ?thesis
    by (simp add: some_host_def EnvClaudeConfigDir_def)
qed

end
