(* ===== verification/Config_Server.thy ===== *)
theory Config_Server
  imports Config_Profiles Server_Auth
begin

text \<open>
  internal/config/server.go: the server's configuration file, its validation, the expansion of its paths and the
  notifier's settings. The YAML decoder is a parameter; it calls the code's own \<open>UnmarshalYAML\<close> for the SSH
  nodes. The webhook sinks that the code declares one by one with the same fields share a record.
\<close>

subsection \<open>The notifier's settings\<close>

record telegram_route =
  tgr_profile :: string
  tgr_account :: string
  tgr_chat_id :: string

record telegram_config =
  tg_enabled :: bool
  tg_bot_token_env :: string
  tg_default_chat_id :: string
  tg_interval :: duration
  tg_interval_raw :: string
  tg_probe_timeout :: duration
  tg_probe_timeout_raw :: string
  tg_silent :: bool
  tg_routes :: "telegram_route list"
  tg_endpoint :: string

text \<open>A route's \<open>wr_env\<close> and a sink's \<open>wc_default_env\<close> name environment variables: \<open>webhook_url_env\<close>, for ntfy
  \<open>topic_url_env\<close>.\<close>

record webhook_route =
  wr_profile :: string
  wr_account :: string
  wr_env :: string

type_synonym slack_route = webhook_route
type_synonym discord_route = webhook_route
type_synonym mattermost_route = webhook_route
type_synonym ntfy_route = webhook_route
type_synonym teams_route = webhook_route

record webhook_config =
  wc_enabled :: bool
  wc_default_env :: string
  wc_interval :: duration
  wc_interval_raw :: string
  wc_probe_timeout :: duration
  wc_probe_timeout_raw :: string
  wc_routes :: "webhook_route list"

type_synonym slack_config = webhook_config
type_synonym discord_config = webhook_config
type_synonym mattermost_config = webhook_config

record ntfy_config = webhook_config +
  nt_auth_token_env :: string
  nt_priority :: int
  nt_tags :: string

record teams_config = webhook_config +
  te_theme_color :: string

record notifier_config =
  nc_telegram :: telegram_config
  nc_slack :: slack_config
  nc_discord :: discord_config
  nc_mattermost :: mattermost_config
  nc_ntfy :: ntfy_config
  nc_teams :: teams_config

text \<open>\<open>parseDur\<close>: the new value of the field.\<close>

definition parse_dur :: "duration \<Rightarrow> string \<Rightarrow> string \<Rightarrow> gerr + duration" where
  "parse_dur out raw label = (if raw = [] then Inr out
     else case parse_duration raw of
       None \<Rightarrow> Inl (wrap_e duration_error ErrConfigInvalid ''%s %q'' [ArgS label, ArgS raw])
     | Some d \<Rightarrow> Inr d)"

fun check_route_envs :: "string \<Rightarrow> nat \<Rightarrow> webhook_route list \<Rightarrow> gerr option" where
  "check_route_envs fmt i [] = None"
| "check_route_envs fmt i (r # rs) =
     (if wr_env r = [] then Some (wrap_s ErrConfigInvalid fmt [ArgD (int i)])
      else check_route_envs fmt (Suc i) rs)"

text \<open>The part the five webhook sinks have in common: the labels of the durations and the two messages differ.\<close>

definition post_process_webhook ::
  "string \<Rightarrow> string \<Rightarrow> string \<Rightarrow> string \<Rightarrow> 'a webhook_config_scheme \<Rightarrow> gerr + 'a webhook_config_scheme" where
  "post_process_webhook interval_label timeout_label need route_fmt c =
     ebind (parse_dur (wc_interval c) (wc_interval_raw c) interval_label) (\<lambda>i.
     ebind (parse_dur (wc_probe_timeout c) (wc_probe_timeout_raw c) timeout_label) (\<lambda>t.
       let c' = c\<lparr>wc_interval := i, wc_probe_timeout := t\<rparr> in
       if \<not> wc_enabled c then Inr c'
       else if wc_default_env c = [] \<and> wc_routes c = [] then Inl (wrap_s ErrConfigInvalid need [])
       else case check_route_envs route_fmt 0 (wc_routes c) of
         Some e \<Rightarrow> Inl e
       | None \<Rightarrow> Inr c'))"

definition post_process_slack :: "slack_config \<Rightarrow> gerr + slack_config" where
  "post_process_slack = post_process_webhook ''notifier.slack.interval'' ''notifier.slack.probe_timeout''
     ''notifier.slack needs default_webhook_url_env or at least one route''
     ''notifier.slack.routes[%d].webhook_url_env is required''"

definition post_process_discord :: "discord_config \<Rightarrow> gerr + discord_config" where
  "post_process_discord = post_process_webhook ''notifier.discord.interval'' ''notifier.discord.probe_timeout''
     ''notifier.discord needs default_webhook_url_env or at least one route''
     ''notifier.discord.routes[%d].webhook_url_env is required''"

definition post_process_mattermost :: "mattermost_config \<Rightarrow> gerr + mattermost_config" where
  "post_process_mattermost = post_process_webhook ''notifier.mattermost.interval'' ''notifier.mattermost.probe_timeout''
     ''notifier.mattermost needs default_webhook_url_env or at least one route''
     ''notifier.mattermost.routes[%d].webhook_url_env is required''"

definition post_process_ntfy :: "ntfy_config \<Rightarrow> gerr + ntfy_config" where
  "post_process_ntfy n = ebind (post_process_webhook ''notifier.ntfy.interval'' ''notifier.ntfy.probe_timeout''
     ''notifier.ntfy needs default_topic_url_env or at least one route''
     ''notifier.ntfy.routes[%d].topic_url_env is required'' n) (\<lambda>c.
     if wc_enabled n \<and> nt_priority n \<noteq> 0 \<and> (nt_priority n < 1 \<or> nt_priority n > 5) then
       Inl (wrap_s ErrConfigInvalid ''notifier.ntfy.priority must be 1..5 (got %d)'' [ArgD (nt_priority n)])
     else Inr c)"

definition post_process_teams :: "teams_config \<Rightarrow> gerr + teams_config" where
  "post_process_teams = post_process_webhook ''notifier.teams.interval'' ''notifier.teams.probe_timeout''
     ''notifier.teams needs default_webhook_url_env or at least one route''
     ''notifier.teams.routes[%d].webhook_url_env is required''"

definition post_process_telegram :: "telegram_config \<Rightarrow> gerr + telegram_config" where
  "post_process_telegram t =
     ebind (if tg_interval_raw t = [] then Inr t
            else case parse_duration (tg_interval_raw t) of
              None \<Rightarrow> Inl (wrap_e duration_error ErrConfigInvalid ''notifier.telegram.interval %q'' [ArgS (tg_interval_raw t)])
            | Some d \<Rightarrow> Inr (t\<lparr>tg_interval := d\<rparr>)) (\<lambda>t1.
     ebind (if tg_probe_timeout_raw t1 = [] then Inr t1
            else case parse_duration (tg_probe_timeout_raw t1) of
              None \<Rightarrow> Inl (wrap_e duration_error ErrConfigInvalid ''notifier.telegram.probe_timeout %q'' [ArgS (tg_probe_timeout_raw t1)])
            | Some d \<Rightarrow> Inr (t1\<lparr>tg_probe_timeout := d\<rparr>)) (\<lambda>t2.
       if \<not> tg_enabled t2 then Inr t2
       else if tg_bot_token_env t2 = [] then
         Inl (wrap_s ErrConfigInvalid ''notifier.telegram.bot_token_env is required when telegram is enabled'' [])
       else if tg_default_chat_id t2 = [] \<and> tg_routes t2 = [] then
         Inl (wrap_s ErrConfigInvalid ''notifier.telegram needs default_chat_id or at least one route'' [])
       else Inr t2))"

definition post_process_notifier :: "notifier_config \<Rightarrow> gerr + notifier_config" where
  "post_process_notifier n =
     ebind (post_process_telegram (nc_telegram n)) (\<lambda>t.
     ebind (post_process_slack (nc_slack n)) (\<lambda>s.
     ebind (post_process_discord (nc_discord n)) (\<lambda>d.
     ebind (post_process_mattermost (nc_mattermost n)) (\<lambda>m.
     ebind (post_process_ntfy (nc_ntfy n)) (\<lambda>y.
     ebind (post_process_teams (nc_teams n)) (\<lambda>e.
       Inr \<lparr>nc_telegram = t, nc_slack = s, nc_discord = d, nc_mattermost = m, nc_ntfy = y, nc_teams = e\<rparr>))))))"

subsection \<open>The server's file\<close>

record pki_paths =
  pk_ca_cert :: string
  pk_server_cert :: string
  pk_server_key :: string

record log_config =
  lc_level :: string
  lc_format :: string

record self_node_config =
  sn_enabled :: bool
  sn_client_cert :: string
  sn_client_key :: string

record ssh_node =
  sh_node_id :: string
  sh_target :: string
  sh_port :: int
  sh_use_ssh_config :: bool
  sh_reverse_addr :: string
  sh_command :: string
  sh_config_path :: string

text \<open>The auxiliary struct of \<open>UnmarshalYAML\<close>.\<close>

record ssh_node_aux =
  sx_node_id :: string
  sx_target :: string
  sx_port :: int
  sx_use_ssh_config :: "bool option"
  sx_reverse_addr :: string
  sx_command :: string
  sx_config_path :: string

definition ssh_node_of_aux :: "ssh_node_aux \<Rightarrow> ssh_node" where
  "ssh_node_of_aux x = \<lparr>sh_node_id = sx_node_id x, sh_target = sx_target x, sh_port = sx_port x,
     sh_use_ssh_config = (case sx_use_ssh_config x of None \<Rightarrow> True | Some b \<Rightarrow> b),
     sh_reverse_addr = sx_reverse_addr x, sh_command = sx_command x, sh_config_path = sx_config_path x\<rparr>"

record server_config =
  sc_listen :: string
  sc_auth_mode :: auth_mode
  sc_pki :: pki_paths
  sc_jwt :: jwt_server_config
  sc_ssh_nodes :: "ssh_node list"
  sc_log :: log_config
  sc_profiles_file :: string
  sc_self_node :: self_node_config
  sc_notifier :: notifier_config

definition PingInterval :: duration where "PingInterval = seconds 30"
definition ReadTimeout :: duration where "ReadTimeout = PingInterval + seconds 15"

fun validate_ssh_nodes :: "string list \<Rightarrow> ssh_node list \<Rightarrow> gerr option" where
  "validate_ssh_nodes seen [] = None"
| "validate_ssh_nodes seen (n # ns) =
     (if sh_node_id n = [] then Some (wrap_s ErrConfigInvalid ''ssh_nodes.node_id is required'' [])
      else if sh_target n = [] then
        Some (wrap_s ErrConfigInvalid ''ssh_nodes[%s].target is required'' [ArgS (sh_node_id n)])
      else if sh_port n < 0 \<or> sh_port n > 65535 then
        Some (wrap_s ErrConfigInvalid ''ssh_nodes[%s].port must be 0 or between 1 and 65535'' [ArgS (sh_node_id n)])
      else if sh_node_id n \<in> set seen then
        Some (wrap_s ErrConfigInvalid ''duplicate ssh_nodes.node_id %q'' [ArgS (sh_node_id n)])
      else validate_ssh_nodes (sh_node_id n # seen) ns)"

definition validate_auth_timeout :: "jwt_server_config \<Rightarrow> gerr + jwt_server_config" where
  "validate_auth_timeout j = (if js_timeout_raw j = [] then Inr (j\<lparr>js_timeout := ReadTimeout\<rparr>)
     else case parse_duration (js_timeout_raw j) of
       None \<Rightarrow> Inl (wrap_e duration_error ErrConfigInvalid ''server.jwt.auth_timeout %q'' [ArgS (js_timeout_raw j)])
     | Some d \<Rightarrow> if d \<le> 0 then Inl (wrap_s ErrConfigInvalid ''server.jwt.auth_timeout must be positive'' [])
         else Inr (j\<lparr>js_timeout := d\<rparr>))"

definition validate_server :: "server_config \<Rightarrow> gerr + server_config" where
  "validate_server c0 =
     ebind (normalize_auth_mode (sc_auth_mode c0)) (\<lambda>mode.
     ebind (validate_auth_timeout (sc_jwt c0)) (\<lambda>jwt.
       let c = c0\<lparr>sc_auth_mode := mode, sc_jwt := jwt\<rparr> in
       if sc_listen c = [] then Inl (wrap_s ErrConfigInvalid ''server.listen is required'' [])
       else if pk_server_cert (sc_pki c) = [] \<or> pk_server_key (sc_pki c) = [] then
         Inl (wrap_s ErrConfigInvalid ''server.pki.{server_cert,server_key} are required'' [])
       else if sc_auth_mode c = AuthModeMTLS \<and> pk_ca_cert (sc_pki c) = [] then
         Inl (wrap_s ErrConfigInvalid ''server.pki.ca_cert is required when auth_mode=mtls'' [])
       else if sc_profiles_file c = [] then Inl (wrap_s ErrConfigInvalid ''server.profiles_file is required'' [])
       else case validate_ssh_nodes [] (sc_ssh_nodes c) of
         Some e \<Rightarrow> Inl e
       | None \<Rightarrow>
           if sn_enabled (sc_self_node c) \<and> (sn_client_cert (sc_self_node c) = [] \<or> sn_client_key (sc_self_node c) = []) then
             Inl (wrap_s ErrConfigInvalid ''self_node.client_cert and self_node.client_key are required when enabled'' [])
           else if sc_auth_mode c = AuthModeJWT \<and> js_secret_file (sc_jwt c) = [] then
             Inl (wrap_s ErrConfigInvalid ''server.jwt.secret_key_file is required when auth_mode=jwt'' [])
           else if sc_auth_mode c = AuthModeJWT \<and> js_issuer (sc_jwt c) = [] then
             Inl (wrap_s ErrConfigInvalid ''server.jwt.issuer is required when auth_mode=jwt'' [])
           else if sc_auth_mode c = AuthModeJWT \<and> js_audience (sc_jwt c) = [] then
             Inl (wrap_s ErrConfigInvalid ''server.jwt.audience is required when auth_mode=jwt'' [])
           else Inr c))"

text \<open>An empty path is left alone.\<close>

definition expand_if_set :: "host_env \<Rightarrow> string \<Rightarrow> gerr + string" where
  "expand_if_set env p = (if p = [] then Inr [] else expand_path env p)"

definition expand_server_paths :: "host_env \<Rightarrow> server_config \<Rightarrow> gerr + server_config" where
  "expand_server_paths env c =
     ebind (expand_if_set env (pk_ca_cert (sc_pki c))) (\<lambda>ca.
     ebind (expand_if_set env (pk_server_cert (sc_pki c))) (\<lambda>cert.
     ebind (expand_if_set env (pk_server_key (sc_pki c))) (\<lambda>key.
     ebind (expand_if_set env (js_secret_file (sc_jwt c))) (\<lambda>secret.
     ebind (expand_if_set env (sc_profiles_file c)) (\<lambda>profiles.
     ebind (expand_if_set env (sn_client_cert (sc_self_node c))) (\<lambda>scert.
     ebind (expand_if_set env (sn_client_key (sc_self_node c))) (\<lambda>skey.
       Inr (c\<lparr>sc_pki := (sc_pki c)\<lparr>pk_ca_cert := ca, pk_server_cert := cert, pk_server_key := key\<rparr>,
              sc_jwt := (sc_jwt c)\<lparr>js_secret_file := secret\<rparr>, sc_profiles_file := profiles,
              sc_self_node := (sc_self_node c)\<lparr>sn_client_cert := scert, sn_client_key := skey\<rparr>\<rparr>))))))))"

definition load_server ::
  "((ssh_node_aux \<Rightarrow> ssh_node) \<Rightarrow> string \<Rightarrow> gerr + server_config) \<Rightarrow> host_env \<Rightarrow> string \<Rightarrow> gerr + server_config" where
  "load_server yaml env path = (case he_read env path of
     Inl e \<Rightarrow> if errors_is e NotExist then Inl (wrap_e e ErrConfigInvalid MsgConfigMissing [ArgS path])
       else Inl (wrap_e e ErrConfigInvalid ''read %s'' [ArgS path])
   | Inr raw \<Rightarrow> (case yaml ssh_node_of_aux raw of
       Inl e \<Rightarrow> Inl (wrap_e e ErrConfigInvalid ''parse %s'' [ArgS path])
     | Inr c \<Rightarrow>
         ebind (validate_server c) (\<lambda>c1.
         ebind (expand_server_paths env c1) (\<lambda>c2.
         ebind (post_process_notifier (sc_notifier c2)) (\<lambda>n. Inr (c2\<lparr>sc_notifier := n\<rparr>))))))"

end
