(* ===== verification/Config_Server_Props.thy ===== *)
theory Config_Server_Props
  imports Config_Server
begin

text \<open>What a server configuration that was loaded guarantees, and the category of every error.\<close>

definition webhook_ok :: "'a webhook_config_scheme \<Rightarrow> bool" where
  "webhook_ok c = (if wc_enabled c then (wc_default_env c \<noteq> [] \<or> wc_routes c \<noteq> []) \<and>
     list_all (\<lambda>r. wr_env r \<noteq> []) (wc_routes c) else True)"

definition notifier_ok :: "notifier_config \<Rightarrow> bool" where
  "notifier_ok n \<longleftrightarrow> webhook_ok (nc_slack n) \<and> webhook_ok (nc_discord n) \<and> webhook_ok (nc_mattermost n) \<and>
     webhook_ok (nc_ntfy n) \<and> webhook_ok (nc_teams n) \<and>
     (if wc_enabled (nc_ntfy n) then nt_priority (nc_ntfy n) \<in> {0..5} else True) \<and>
     (if tg_enabled (nc_telegram n) then tg_bot_token_env (nc_telegram n) \<noteq> [] \<and>
        (tg_default_chat_id (nc_telegram n) \<noteq> [] \<or> tg_routes (nc_telegram n) \<noteq> []) else True)"

definition ssh_ok :: "ssh_node \<Rightarrow> bool" where
  "ssh_ok s \<longleftrightarrow> sh_node_id s \<noteq> [] \<and> sh_target s \<noteq> [] \<and> sh_port s \<in> {0..65535}"

text \<open>The fields that a path expansion may change are clean when they are set.\<close>

definition server_ok :: "server_config \<Rightarrow> bool" where
  "server_ok c \<longleftrightarrow> sc_listen c \<noteq> [] \<and> sc_auth_mode c \<in> {AuthModeMTLS, AuthModeJWT} \<and>
     pk_server_cert (sc_pki c) \<noteq> [] \<and> pk_server_key (sc_pki c) \<noteq> [] \<and> sc_profiles_file c \<noteq> [] \<and>
     path_clean (sc_profiles_file c) = sc_profiles_file c \<and>
     (if sc_auth_mode c = AuthModeMTLS then pk_ca_cert (sc_pki c) \<noteq> []
      else js_secret_file (sc_jwt c) \<noteq> [] \<and> js_issuer (sc_jwt c) \<noteq> [] \<and> js_audience (sc_jwt c) \<noteq> []) \<and>
     0 < js_timeout (sc_jwt c) \<and>
     (if sn_enabled (sc_self_node c) then sn_client_cert (sc_self_node c) \<noteq> [] \<and> sn_client_key (sc_self_node c) \<noteq> []
      else True) \<and>
     list_all ssh_ok (sc_ssh_nodes c) \<and> distinct (map sh_node_id (sc_ssh_nodes c)) \<and> notifier_ok (sc_notifier c)"

subsection \<open>The notifier\<close>

lemma parse_dur_error: "parse_dur x raw l = Inl e \<Longrightarrow> is_err e ErrConfigInvalid"
  by (auto simp: parse_dur_def split: if_splits option.splits)

lemma check_route_envs_None: "check_route_envs fmt i rs = None \<longleftrightarrow> list_all (\<lambda>r. wr_env r \<noteq> []) rs"
  by (induction rs arbitrary: i) auto

lemma check_route_envs_error: "check_route_envs fmt i rs = Some e \<Longrightarrow> is_err e ErrConfigInvalid"
  by (induction rs arbitrary: i) (auto split: if_splits)

lemma webhook_Inr:
  assumes "post_process_webhook a b m f c = Inr c'"
  shows "webhook_ok c'" "\<exists>i t. c' = c\<lparr>wc_interval := i, wc_probe_timeout := t\<rparr>"
  using assms
  by (auto simp: post_process_webhook_def ebind_Inr_iff Let_def webhook_ok_def check_route_envs_None
      split: if_splits option.splits)

lemma webhook_error: "post_process_webhook a b m f c = Inl e \<Longrightarrow> is_err e ErrConfigInvalid"
  by (auto simp: post_process_webhook_def ebind_Inl_iff Let_def parse_dur_error check_route_envs_error
      split: if_splits option.splits)

lemmas sink_defs = post_process_slack_def post_process_discord_def post_process_mattermost_def post_process_teams_def

lemma ntfy_Inr: "post_process_ntfy n = Inr c \<Longrightarrow> webhook_ok c \<and> (if wc_enabled c then nt_priority c \<in> {0..5} else True)"
proof -
  assume "post_process_ntfy n = Inr c"
  then obtain a b m f where p: "post_process_webhook a b m f n = Inr c"
    and pr: "\<not> (wc_enabled n \<and> nt_priority n \<noteq> 0 \<and> (nt_priority n < 1 \<or> nt_priority n > 5))"
    by (auto simp: post_process_ntfy_def ebind_Inr_iff split: if_splits)
  obtain i t where c: "c = n\<lparr>wc_interval := i, wc_probe_timeout := t\<rparr>" using webhook_Inr(2) [OF p] by blast
  show ?thesis using webhook_Inr(1) [OF p] pr by (auto simp: c)
qed

lemma telegram_Inr:
  "post_process_telegram t = Inr c \<Longrightarrow> (if tg_enabled c then tg_bot_token_env c \<noteq> [] \<and>
     (tg_default_chat_id c \<noteq> [] \<or> tg_routes c \<noteq> []) else True)"
  by (auto simp: post_process_telegram_def ebind_Inr_iff split: if_splits option.splits)

lemma telegram_error: "post_process_telegram t = Inl e \<Longrightarrow> is_err e ErrConfigInvalid"
  by (auto simp: post_process_telegram_def ebind_Inl_iff split: if_splits option.splits)

lemma notifier_Inr: "post_process_notifier n = Inr c \<Longrightarrow> notifier_ok c"
  by (auto simp: post_process_notifier_def ebind_Inr_iff notifier_ok_def sink_defs
      dest: webhook_Inr(1) ntfy_Inr telegram_Inr)

lemma notifier_error: "post_process_notifier n = Inl e \<Longrightarrow> is_err e ErrConfigInvalid"
  by (auto simp: post_process_notifier_def ebind_Inl_iff sink_defs post_process_ntfy_def
      dest: webhook_error telegram_error split: if_splits)

subsection \<open>The server\<close>

lemma ssh_None: "validate_ssh_nodes seen ns = None \<longleftrightarrow>
    list_all ssh_ok ns \<and> distinct (map sh_node_id ns) \<and> set (map sh_node_id ns) \<inter> set seen = {}"
  by (induction ns arbitrary: seen) (auto simp: ssh_ok_def)

lemma ssh_error: "validate_ssh_nodes seen ns = Some e \<Longrightarrow> is_err e ErrConfigInvalid"
  by (induction ns arbitrary: seen) (auto split: if_splits)

lemma auth_timeout_Inr: "validate_auth_timeout j = Inr j' \<Longrightarrow> 0 < js_timeout j' \<and>
    (\<exists>t. j' = j\<lparr>js_timeout := t\<rparr>)"
  by (auto simp: validate_auth_timeout_def ReadTimeout_def PingInterval_def seconds_def split: if_splits option.splits)

lemma auth_timeout_error: "validate_auth_timeout j = Inl e \<Longrightarrow> is_err e ErrConfigInvalid"
  by (auto simp: validate_auth_timeout_def split: if_splits option.splits)

lemma normalize_mode_Inr: "normalize_auth_mode m = Inr m' \<Longrightarrow> m' \<in> {AuthModeMTLS, AuthModeJWT}"
  by (auto simp: normalize_auth_mode_def split: if_splits)

lemma normalize_mode_error: "normalize_auth_mode m = Inl e \<Longrightarrow> is_err e ErrConfigInvalid"
  by (auto simp: normalize_auth_mode_def split: if_splits)

definition validated :: "server_config \<Rightarrow> bool" where
  "validated c \<longleftrightarrow> sc_listen c \<noteq> [] \<and> sc_auth_mode c \<in> {AuthModeMTLS, AuthModeJWT} \<and>
     pk_server_cert (sc_pki c) \<noteq> [] \<and> pk_server_key (sc_pki c) \<noteq> [] \<and> sc_profiles_file c \<noteq> [] \<and>
     (if sc_auth_mode c = AuthModeMTLS then pk_ca_cert (sc_pki c) \<noteq> []
      else js_secret_file (sc_jwt c) \<noteq> [] \<and> js_issuer (sc_jwt c) \<noteq> [] \<and> js_audience (sc_jwt c) \<noteq> []) \<and>
     0 < js_timeout (sc_jwt c) \<and>
     (if sn_enabled (sc_self_node c) then sn_client_cert (sc_self_node c) \<noteq> [] \<and> sn_client_key (sc_self_node c) \<noteq> []
      else True) \<and>
     list_all ssh_ok (sc_ssh_nodes c) \<and> distinct (map sh_node_id (sc_ssh_nodes c))"

lemma validate_server_Inr:
  assumes "validate_server c0 = Inr c"
  shows "validated c"
proof -
  obtain mode jwt where m: "normalize_auth_mode (sc_auth_mode c0) = Inr mode"
    and j: "validate_auth_timeout (sc_jwt c0) = Inr jwt"
    using assms by (auto simp: validate_server_def ebind_Inr_iff)
  let ?c = "c0\<lparr>sc_auth_mode := mode, sc_jwt := jwt\<rparr>"
  note step = assms [unfolded validate_server_def m j ebind_simps Let_def if_Inl_Inr_iff]
  have s: "validate_ssh_nodes [] (sc_ssh_nodes c0) = None"
    using step by (cases "validate_ssh_nodes [] (sc_ssh_nodes c0)") simp_all
  have c: "c = ?c" using step s by (simp add: if_Inl_Inr_iff)
  have "sc_listen c \<noteq> []" "pk_server_cert (sc_pki c) \<noteq> []" "pk_server_key (sc_pki c) \<noteq> []" "sc_profiles_file c \<noteq> []"
    "sc_auth_mode c = AuthModeMTLS \<Longrightarrow> pk_ca_cert (sc_pki c) \<noteq> []"
    "sn_enabled (sc_self_node c) \<Longrightarrow> sn_client_cert (sc_self_node c) \<noteq> [] \<and> sn_client_key (sc_self_node c) \<noteq> []"
    "sc_auth_mode c = AuthModeJWT \<Longrightarrow> js_secret_file (sc_jwt c) \<noteq> [] \<and> js_issuer (sc_jwt c) \<noteq> [] \<and> js_audience (sc_jwt c) \<noteq> []"
    using step s c by (simp_all add: if_Inl_Inr_iff)
  moreover have "sc_auth_mode c \<in> {AuthModeMTLS, AuthModeJWT}" "0 < js_timeout (sc_jwt c)"
    using normalize_mode_Inr [OF m] auth_timeout_Inr [OF j] c by simp_all
  moreover have "list_all ssh_ok (sc_ssh_nodes c)" "distinct (map sh_node_id (sc_ssh_nodes c))"
    using s c by (simp_all add: ssh_None)
  ultimately show ?thesis unfolding validated_def by (cases "sc_auth_mode c = AuthModeMTLS") simp_all
qed

lemma fails_parts [fails_intro]: "fails_as ErrConfigInvalid (normalize_auth_mode m)"
  "fails_as ErrConfigInvalid (validate_auth_timeout j)" "fails_as ErrConfigInvalid (expand_path env p)"
  "fails_as ErrConfigInvalid (post_process_notifier n)"
  by (rule fails_asI; erule normalize_mode_error auth_timeout_error expand_path_error notifier_error)+

lemma fails_ssh [fails_intro]: "validate_ssh_nodes seen ns = Some e \<Longrightarrow> fails_as ErrConfigInvalid (Inl e)"
  by (simp add: fails_as_def ssh_error)

lemma validate_server_fails [fails_intro]: "fails_as ErrConfigInvalid (validate_server c)"
  unfolding validate_server_def by (intro fails_intro)

lemma expand_if_set_Inr: "expand_if_set env p = Inr q \<Longrightarrow> (q = [] \<longleftrightarrow> p = []) \<and> (p = [] \<or> path_clean q = q)"
  using expand_path_clean [of env p q] path_clean_nonempty [of q]
  by (auto simp: expand_if_set_def split: if_splits)

lemma expand_server_fails [fails_intro]: "fails_as ErrConfigInvalid (expand_server_paths env c)"
  unfolding expand_server_paths_def expand_if_set_def by (intro fails_intro)

lemma expand_server_Inr:
  assumes "expand_server_paths env c = Inr c'" "validated c"
  shows "validated c' \<and> path_clean (sc_profiles_file c') = sc_profiles_file c' \<and> sc_notifier c' = sc_notifier c"
proof -
  from assms(1) obtain ca cert key secret profiles scert skey where
    e: "expand_if_set env (pk_ca_cert (sc_pki c)) = Inr ca" "expand_if_set env (pk_server_cert (sc_pki c)) = Inr cert"
      "expand_if_set env (pk_server_key (sc_pki c)) = Inr key" "expand_if_set env (js_secret_file (sc_jwt c)) = Inr secret"
      "expand_if_set env (sc_profiles_file c) = Inr profiles" "expand_if_set env (sn_client_cert (sc_self_node c)) = Inr scert"
      "expand_if_set env (sn_client_key (sc_self_node c)) = Inr skey"
    and c': "c' = c\<lparr>sc_pki := (sc_pki c)\<lparr>pk_ca_cert := ca, pk_server_cert := cert, pk_server_key := key\<rparr>,
              sc_jwt := (sc_jwt c)\<lparr>js_secret_file := secret\<rparr>, sc_profiles_file := profiles,
              sc_self_node := (sc_self_node c)\<lparr>sn_client_cert := scert, sn_client_key := skey\<rparr>\<rparr>"
    by (auto simp: expand_server_paths_def ebind_Inr_iff)
  have empty: "(q = []) = (p = [])" if "expand_if_set env p = Inr q" for p q using expand_if_set_Inr [OF that] by simp
  have "path_clean profiles = profiles"
    using expand_if_set_Inr [OF e(5)] assms(2) by (simp add: validated_def)
  then show ?thesis using assms(2) by (simp add: c' validated_def e [THEN empty])
qed

lemma load_server_fails: "fails_as ErrConfigInvalid (load_server yaml env path)"
  unfolding load_server_def by (intro fails_intro)

text \<open>Loading the server's configuration either fails with an error of the category ErrConfigInvalid or gives a
  configuration in which everything the server relies on is set: the listener, the certificate, the profiles
  file as a clean path, what the authentication mode needs, a positive authentication timeout, SSH nodes
  with different ids and valid ports, and for every enabled notifier a destination.\<close>

theorem load_server_valid:
  "case load_server yaml env path of Inl e \<Rightarrow> is_err e ErrConfigInvalid | Inr c \<Rightarrow> server_ok c"
proof (cases "load_server yaml env path")
  case (Inl e)
  then show ?thesis using fails_asD [OF load_server_fails] by simp
next
  case (Inr c)
  then obtain c0 c1 c2 n where v: "validate_server c0 = Inr c1" and x: "expand_server_paths env c1 = Inr c2"
    and n: "post_process_notifier (sc_notifier c2) = Inr n" and c: "c = c2\<lparr>sc_notifier := n\<rparr>"
    by (auto simp: load_server_def ebind_Inr_iff split: sum.splits if_splits)
  show ?thesis using expand_server_Inr [OF x validate_server_Inr [OF v]] notifier_Inr [OF n]
    by (simp add: Inr c server_ok_def validated_def)
qed

end
