(* ===== verification/Config_Client.thy ===== *)
theory Config_Client
  imports Config_Server
begin

text \<open>
  internal/config/client.go: the client's configuration file, its conversion from the raw form with durations as
  text, its validation and the expansion of its paths. The YAML decoder is a parameter.
\<close>

record jwt_client_config =
  jk_token_env :: string
  jk_token_file :: string
  jk_send_via :: string

record profile_binding =
  pb_name :: string
  pb_format :: string
  pb_dir :: string
  pb_watch_files :: "string list"
  pb_account_meta_path :: string

record client_pki_paths =
  cp_ca_cert :: string
  cp_client_cert :: string
  cp_client_key :: string

record reverse_pki_paths =
  rk_ca_cert :: string
  rk_server_cert :: string
  rk_server_key :: string

record reverse_config =
  rc_listen :: string
  rc_pki :: reverse_pki_paths
  rc_allowed_peers :: "string list"

record reconnect_config =
  rn_initial_delay :: duration
  rn_jitter :: duration
  rn_max_delay :: duration

record raw_reconnect_config =
  rr_initial_delay :: string
  rr_jitter :: string
  rr_max_delay :: string

record cli_upgrade_config =
  cu_enabled :: bool
  cu_initial_delay :: duration
  cu_interval :: duration

record raw_cli_upgrade_config =
  ru_enabled :: "bool option"
  ru_initial_delay :: string
  ru_interval :: string

text \<open>\<open>MaintenanceConfig\<close> has one field, the settings of the upgrades.\<close>

record client_config =
  cc_server :: string
  cc_auth_mode :: auth_mode
  cc_jwt :: jwt_client_config
  cc_reverse :: reverse_config
  cc_node_id :: string
  cc_profiles :: "profile_binding list"
  cc_pki :: client_pki_paths
  cc_reconnect :: reconnect_config
  cc_cli_upgrade :: cli_upgrade_config
  cc_log :: log_config

record raw_client_config =
  xc_server :: string
  xc_auth_mode :: auth_mode
  xc_jwt :: jwt_client_config
  xc_reverse :: reverse_config
  xc_node_id :: string
  xc_profiles :: "profile_binding list"
  xc_pki :: client_pki_paths
  xc_reconnect :: raw_reconnect_config
  xc_cli_upgrade :: raw_cli_upgrade_config
  xc_log :: log_config

definition wssScheme :: string where "wssScheme = ''wss://''"
definition ReconnectInitial :: duration where "ReconnectInitial = seconds 5"
definition ReconnectMax :: duration where "ReconnectMax = seconds 60"
definition ReconnectJitter :: duration where "ReconnectJitter = seconds 1"
definition ReconnectTLSFailure :: duration where "ReconnectTLSFailure = seconds 60"

definition parse_dur_or_zero :: "string \<Rightarrow> string \<Rightarrow> gerr + duration" where
  "parse_dur_or_zero s label = (if s = [] then Inr 0
     else case parse_duration s of
       None \<Rightarrow> Inl (wrap_e duration_error ErrConfigInvalid ''%s: %q'' [ArgS label, ArgS s])
     | Some d \<Rightarrow> if d < 0 then Inl (wrap_s ErrConfigInvalid ''%s must be non-negative'' [ArgS label]) else Inr d)"

definition convert_reconnect :: "raw_reconnect_config \<Rightarrow> gerr + reconnect_config" where
  "convert_reconnect rc =
     ebind (parse_dur_or_zero (rr_initial_delay rc) ''reconnect.initial_delay'') (\<lambda>i.
     ebind (parse_dur_or_zero (rr_jitter rc) ''reconnect.jitter'') (\<lambda>j.
     ebind (parse_dur_or_zero (rr_max_delay rc) ''reconnect.max_delay'') (\<lambda>m.
       Inr \<lparr>rn_initial_delay = (if i = 0 then ReconnectInitial else i),
            rn_jitter = (if j = 0 then ReconnectJitter else j),
            rn_max_delay = (if m = 0 then ReconnectMax else m)\<rparr>)))"

definition convert_cli_upgrade :: "raw_cli_upgrade_config \<Rightarrow> gerr + cli_upgrade_config" where
  "convert_cli_upgrade rc =
     (let enabled = (case ru_enabled rc of None \<Rightarrow> True | Some b \<Rightarrow> b) in
      ebind (parse_dur_or_zero (ru_initial_delay rc) ''maintenance.cli_upgrade.initial_delay'') (\<lambda>i.
      ebind (parse_dur_or_zero (ru_interval rc) ''maintenance.cli_upgrade.interval'') (\<lambda>n.
        Inr \<lparr>cu_enabled = enabled, cu_initial_delay = (if i > 0 then i else minutes 10),
             cu_interval = (if n > 0 then n else hours 24)\<rparr>)))"

fun validate_bindings :: "string list \<Rightarrow> nat \<Rightarrow> profile_binding list \<Rightarrow> gerr option" where
  "validate_bindings seen i [] = None"
| "validate_bindings seen i (p # ps) =
     (if pb_name p = [] then Some (wrap_s ErrConfigInvalid ''client.profiles[%d].name is required'' [ArgD (int i)])
      else if pb_name p \<in> set seen then
        Some (wrap_s ErrConfigInvalid ''client.profiles: duplicate name %q'' [ArgS (pb_name p)])
      else if pb_dir p = [] then
        Some (wrap_s ErrConfigInvalid ''client.profiles[%d] (%s): dir must not be empty'' [ArgD (int i), ArgS (pb_name p)])
      else validate_bindings (pb_name p # seen) (Suc i) ps)"

definition validate_client :: "client_config \<Rightarrow> gerr + client_config" where
  "validate_client c0 =
     ebind (normalize_auth_mode (cc_auth_mode c0)) (\<lambda>mode.
     ebind (normalize_jwt_send_via (jk_send_via (cc_jwt c0))) (\<lambda>via.
       let c = c0\<lparr>cc_auth_mode := mode, cc_jwt := (cc_jwt c0)\<lparr>jk_send_via := via\<rparr>\<rparr> in
       if cc_server c = [] \<or> \<not> has_prefix (cc_server c) wssScheme then
         Inl (wrap_s ErrConfigInvalid ''client.server must start with %q'' [ArgS wssScheme])
       else if cc_node_id c = [] then Inl (wrap_s ErrConfigInvalid ''client.node_id is required'' [])
       else if cc_profiles c = [] then
         Inl (wrap_s ErrConfigInvalid ''client.profiles must list at least one binding'' [])
       else case validate_bindings [] 0 (cc_profiles c) of
         Some e \<Rightarrow> Inl e
       | None \<Rightarrow>
           if cp_ca_cert (cc_pki c) = [] then Inl (wrap_s ErrConfigInvalid ''client.pki.ca_cert is required'' [])
           else if cc_auth_mode c = AuthModeMTLS \<and> (cp_client_cert (cc_pki c) = [] \<or> cp_client_key (cc_pki c) = []) then
             Inl (wrap_s ErrConfigInvalid ''client.pki.{client_cert,client_key} are required when auth_mode=mtls'' [])
           else if cc_auth_mode c = AuthModeJWT \<and> jk_token_env (cc_jwt c) = [] \<and> jk_token_file (cc_jwt c) = [] then
             Inl (wrap_s ErrConfigInvalid
               ''client.jwt.token_env or client.jwt.token_file is required when auth_mode=jwt'' [])
           else Inr c))"

fun expand_files :: "host_env \<Rightarrow> string \<Rightarrow> string list \<Rightarrow> gerr + string list" where
  "expand_files env dir [] = Inr []"
| "expand_files env dir (f # fs) = ebind (expand_path_from_dir env dir f) (\<lambda>v.
     ebind (expand_files env dir fs) (\<lambda>vs. Inr (path_clean v # vs)))"

definition expand_binding :: "host_env \<Rightarrow> profile_binding \<Rightarrow> gerr + profile_binding" where
  "expand_binding env b =
     ebind (expand_path env (pb_dir b)) (\<lambda>dir.
     ebind (if pb_account_meta_path b = [] then Inr []
            else ebind (expand_path_from_dir env dir (pb_account_meta_path b)) (\<lambda>v. Inr (path_clean v))) (\<lambda>meta.
     ebind (expand_files env dir (pb_watch_files b)) (\<lambda>watch.
       Inr (b\<lparr>pb_dir := dir, pb_account_meta_path := meta, pb_watch_files := watch\<rparr>))))"

fun expand_bindings :: "host_env \<Rightarrow> profile_binding list \<Rightarrow> gerr + profile_binding list" where
  "expand_bindings env [] = Inr []"
| "expand_bindings env (b # bs) = ebind (expand_binding env b) (\<lambda>b'.
     ebind (expand_bindings env bs) (\<lambda>bs'. Inr (b' # bs')))"

definition expand_client_paths :: "host_env \<Rightarrow> client_config \<Rightarrow> gerr + client_config" where
  "expand_client_paths env c =
     ebind (expand_if_set env (cp_ca_cert (cc_pki c))) (\<lambda>ca.
     ebind (expand_if_set env (cp_client_cert (cc_pki c))) (\<lambda>cert.
     ebind (expand_if_set env (cp_client_key (cc_pki c))) (\<lambda>key.
     ebind (expand_if_set env (jk_token_file (cc_jwt c))) (\<lambda>token.
     ebind (expand_if_set env (rk_ca_cert (rc_pki (cc_reverse c)))) (\<lambda>rca.
     ebind (expand_if_set env (rk_server_cert (rc_pki (cc_reverse c)))) (\<lambda>rcert.
     ebind (expand_if_set env (rk_server_key (rc_pki (cc_reverse c)))) (\<lambda>rkey.
     ebind (expand_bindings env (cc_profiles c)) (\<lambda>bs.
       Inr (c\<lparr>cc_pki := \<lparr>cp_ca_cert = ca, cp_client_cert = cert, cp_client_key = key\<rparr>,
              cc_jwt := (cc_jwt c)\<lparr>jk_token_file := token\<rparr>,
              cc_reverse := (cc_reverse c)\<lparr>rc_pki := \<lparr>rk_ca_cert = rca, rk_server_cert = rcert, rk_server_key = rkey\<rparr>\<rparr>,
              cc_profiles := bs\<rparr>)))))))))"

definition load_client :: "(string \<Rightarrow> gerr + raw_client_config) \<Rightarrow> host_env \<Rightarrow> string \<Rightarrow> gerr + client_config" where
  "load_client yaml env path = (case he_read env path of
     Inl e \<Rightarrow> if errors_is e NotExist then Inl (wrap_e e ErrConfigInvalid MsgConfigMissing [ArgS path])
       else Inl (wrap_e e ErrConfigInvalid ''read %s'' [ArgS path])
   | Inr raw \<Rightarrow> (case yaml raw of
       Inl e \<Rightarrow> Inl (wrap_e e ErrConfigInvalid ''parse %s'' [ArgS path])
     | Inr rc \<Rightarrow>
         ebind (convert_reconnect (xc_reconnect rc)) (\<lambda>rec.
         ebind (convert_cli_upgrade (xc_cli_upgrade rc)) (\<lambda>cli.
         ebind (validate_client \<lparr>cc_server = xc_server rc, cc_auth_mode = xc_auth_mode rc, cc_jwt = xc_jwt rc,
             cc_reverse = xc_reverse rc, cc_node_id = xc_node_id rc, cc_profiles = xc_profiles rc, cc_pki = xc_pki rc,
             cc_reconnect = rec, cc_cli_upgrade = cli, cc_log = xc_log rc\<rparr>) (\<lambda>c.
           expand_client_paths env c)))))"

subsection \<open>What a loaded configuration guarantees\<close>

definition binding_ok :: "profile_binding \<Rightarrow> bool" where
  "binding_ok b \<longleftrightarrow> pb_name b \<noteq> [] \<and> pb_dir b \<noteq> [] \<and> path_clean (pb_dir b) = pb_dir b \<and>
     list_all (\<lambda>w. path_clean w = w) (pb_watch_files b)"

definition client_ok :: "client_config \<Rightarrow> bool" where
  "client_ok c \<longleftrightarrow> has_prefix (cc_server c) wssScheme \<and> cc_node_id c \<noteq> [] \<and> cc_profiles c \<noteq> [] \<and>
     list_all binding_ok (cc_profiles c) \<and> distinct (map pb_name (cc_profiles c)) \<and>
     cc_auth_mode c \<in> {AuthModeMTLS, AuthModeJWT} \<and>
     jk_send_via (cc_jwt c) \<in> {JWTSendViaAuto, JWTSendViaHeader, JWTSendViaFirstFrame} \<and>
     cp_ca_cert (cc_pki c) \<noteq> [] \<and>
     (if cc_auth_mode c = AuthModeMTLS then cp_client_cert (cc_pki c) \<noteq> [] \<and> cp_client_key (cc_pki c) \<noteq> []
      else jk_token_env (cc_jwt c) \<noteq> [] \<or> jk_token_file (cc_jwt c) \<noteq> []) \<and>
     0 < rn_initial_delay (cc_reconnect c) \<and> 0 < rn_jitter (cc_reconnect c) \<and> 0 < rn_max_delay (cc_reconnect c) \<and>
     0 < cu_initial_delay (cc_cli_upgrade c) \<and> 0 < cu_interval (cc_cli_upgrade c)"

lemma parse_dur_or_zero_Inr: "parse_dur_or_zero s l = Inr d \<Longrightarrow> 0 \<le> d"
  by (auto simp: parse_dur_or_zero_def split: if_splits option.splits)

lemma parse_dur_or_zero_fails [fails_intro]: "fails_as ErrConfigInvalid (parse_dur_or_zero s l)"
  unfolding parse_dur_or_zero_def by (intro fails_intro)

lemma convert_reconnect_Inr:
  "convert_reconnect rc = Inr r \<Longrightarrow> 0 < rn_initial_delay r \<and> 0 < rn_jitter r \<and> 0 < rn_max_delay r"
  by (auto simp: convert_reconnect_def ebind_Inr_iff ReconnectInitial_def ReconnectMax_def ReconnectJitter_def
      seconds_def dest!: parse_dur_or_zero_Inr)

lemma convert_cli_upgrade_Inr: "convert_cli_upgrade rc = Inr u \<Longrightarrow> 0 < cu_initial_delay u \<and> 0 < cu_interval u"
  by (auto simp: convert_cli_upgrade_def ebind_Inr_iff Let_def minutes_def hours_def)

lemma validate_bindings_None: "validate_bindings seen i bs = None \<longleftrightarrow>
    list_all (\<lambda>b. pb_name b \<noteq> [] \<and> pb_dir b \<noteq> []) bs \<and> distinct (map pb_name bs) \<and> set (map pb_name bs) \<inter> set seen = {}"
  by (induction bs arbitrary: seen i) auto

lemma validate_bindings_fails [fails_intro]:
  "validate_bindings seen i bs = Some e \<Longrightarrow> fails_as ErrConfigInvalid (Inl e)"
  by (induction bs arbitrary: seen i) (auto simp: fails_as_def split: if_splits)

lemma normalize_fails [fails_intro]: "fails_as ErrConfigInvalid (normalize_auth_mode m)"
  "fails_as ErrConfigInvalid (normalize_jwt_send_via v)"
  unfolding normalize_auth_mode_def normalize_jwt_send_via_def by (intro fails_intro)+

lemma expand_fails [fails_intro]: "fails_as ErrConfigInvalid (expand_path env p)"
  "fails_as ErrConfigInvalid (expand_path_from_dir env b p)" "fails_as ErrConfigInvalid (expand_if_set env p)"
  by (auto intro!: fails_asI simp: expand_path_error expand_path_from_dir_error expand_if_set_def split: if_splits)

lemma expand_files_fails [fails_intro]: "fails_as ErrConfigInvalid (expand_files env dir fs)"
  by (induction fs) (auto intro!: fails_intro)

lemma expand_binding_fails [fails_intro]: "fails_as ErrConfigInvalid (expand_binding env b)"
  unfolding expand_binding_def by (intro fails_intro)

lemma expand_bindings_fails [fails_intro]: "fails_as ErrConfigInvalid (expand_bindings env bs)"
  by (induction bs) (auto intro!: fails_intro)

lemma load_client_fails: "fails_as ErrConfigInvalid (load_client yaml env path)"
  unfolding load_client_def convert_reconnect_def convert_cli_upgrade_def validate_client_def expand_client_paths_def
  by (intro fails_intro)

lemma expand_files_Inr: "expand_files env dir fs = Inr ws \<Longrightarrow> list_all (\<lambda>w. path_clean w = w) ws"
  by (induction fs arbitrary: ws) (auto simp: ebind_Inr_iff)

lemma expand_binding_Inr:
  assumes "expand_binding env b = Inr b'" "pb_name b \<noteq> []" "pb_dir b \<noteq> []"
  shows "binding_ok b'" "pb_name b' = pb_name b"
proof -
  from assms(1) obtain dir meta watch where d: "expand_path env (pb_dir b) = Inr dir"
    and w: "expand_files env dir (pb_watch_files b) = Inr watch"
    and b': "b' = b\<lparr>pb_dir := dir, pb_account_meta_path := meta, pb_watch_files := watch\<rparr>"
    by (auto simp: expand_binding_def ebind_Inr_iff)
  have "path_clean dir = dir" using expand_path_clean [OF d] assms(3) by simp
  then have "dir \<noteq> []" using path_clean_nonempty [of dir] by metis
  then show "binding_ok b'" "pb_name b' = pb_name b"
    using \<open>path_clean dir = dir\<close> expand_files_Inr [OF w] assms(2) by (simp_all add: b' binding_ok_def)
qed

lemma expand_bindings_Inr:
  "expand_bindings env bs = Inr bs' \<Longrightarrow> list_all (\<lambda>b. pb_name b \<noteq> [] \<and> pb_dir b \<noteq> []) bs \<Longrightarrow>
   list_all binding_ok bs' \<and> map pb_name bs' = map pb_name bs"
  by (induction bs arbitrary: bs') (auto simp: ebind_Inr_iff expand_binding_Inr)

end
