(* ===== verification/Config_Client_Props.thy ===== *)
theory Config_Client_Props
  imports Config_Client Config_Server_Props
begin

text \<open>What a client configuration that was loaded guarantees.\<close>

definition client_validated :: "client_config \<Rightarrow> bool" where
  "client_validated c \<longleftrightarrow> has_prefix (cc_server c) wssScheme \<and> cc_node_id c \<noteq> [] \<and> cc_profiles c \<noteq> [] \<and>
     list_all (\<lambda>b. pb_name b \<noteq> [] \<and> pb_dir b \<noteq> []) (cc_profiles c) \<and> distinct (map pb_name (cc_profiles c)) \<and>
     cc_auth_mode c \<in> {AuthModeMTLS, AuthModeJWT} \<and>
     jk_send_via (cc_jwt c) \<in> {JWTSendViaAuto, JWTSendViaHeader, JWTSendViaFirstFrame} \<and>
     cp_ca_cert (cc_pki c) \<noteq> [] \<and>
     (if cc_auth_mode c = AuthModeMTLS then cp_client_cert (cc_pki c) \<noteq> [] \<and> cp_client_key (cc_pki c) \<noteq> []
      else jk_token_env (cc_jwt c) \<noteq> [] \<or> jk_token_file (cc_jwt c) \<noteq> [])"

lemma normalize_via_Inr: "normalize_jwt_send_via v = Inr w \<Longrightarrow> w \<in> {JWTSendViaAuto, JWTSendViaHeader, JWTSendViaFirstFrame}"
  by (auto simp: normalize_jwt_send_via_def split: if_splits)

lemma validate_client_Inr:
  assumes "validate_client c0 = Inr c"
  shows "client_validated c" "cc_reconnect c = cc_reconnect c0" "cc_cli_upgrade c = cc_cli_upgrade c0"
proof -
  obtain mode via where m: "normalize_auth_mode (cc_auth_mode c0) = Inr mode"
    and v: "normalize_jwt_send_via (jk_send_via (cc_jwt c0)) = Inr via"
    using assms by (auto simp: validate_client_def ebind_Inr_iff)
  note step = assms [unfolded validate_client_def m v ebind_simps Let_def if_Inl_Inr_iff]
  have s: "validate_bindings [] 0 (cc_profiles c0) = None"
    using step by (cases "validate_bindings [] 0 (cc_profiles c0)") simp_all
  have c: "c = c0\<lparr>cc_auth_mode := mode, cc_jwt := (cc_jwt c0)\<lparr>jk_send_via := via\<rparr>\<rparr>"
    using step s by (simp add: if_Inl_Inr_iff)
  have "has_prefix (cc_server c) wssScheme" "cc_node_id c \<noteq> []" "cc_profiles c \<noteq> []" "cp_ca_cert (cc_pki c) \<noteq> []"
    "cc_auth_mode c = AuthModeMTLS \<Longrightarrow> cp_client_cert (cc_pki c) \<noteq> [] \<and> cp_client_key (cc_pki c) \<noteq> []"
    "cc_auth_mode c = AuthModeJWT \<Longrightarrow> jk_token_env (cc_jwt c) \<noteq> [] \<or> jk_token_file (cc_jwt c) \<noteq> []"
    using step s c by (auto simp: if_Inl_Inr_iff)
  moreover have "cc_auth_mode c \<in> {AuthModeMTLS, AuthModeJWT}"
    "jk_send_via (cc_jwt c) \<in> {JWTSendViaAuto, JWTSendViaHeader, JWTSendViaFirstFrame}"
    using normalize_mode_Inr [OF m] normalize_via_Inr [OF v] c by simp_all
  moreover have "list_all (\<lambda>b. pb_name b \<noteq> [] \<and> pb_dir b \<noteq> []) (cc_profiles c)" "distinct (map pb_name (cc_profiles c))"
    using s c by (simp_all add: validate_bindings_None)
  ultimately show "client_validated c" unfolding client_validated_def by (cases "cc_auth_mode c = AuthModeMTLS") simp_all
  show "cc_reconnect c = cc_reconnect c0" "cc_cli_upgrade c = cc_cli_upgrade c0" by (simp_all add: c)
qed

lemma expand_client_Inr:
  assumes "expand_client_paths env c = Inr c'" "client_validated c" "0 < rn_initial_delay (cc_reconnect c)"
    "0 < rn_jitter (cc_reconnect c)" "0 < rn_max_delay (cc_reconnect c)" "0 < cu_initial_delay (cc_cli_upgrade c)"
    "0 < cu_interval (cc_cli_upgrade c)"
  shows "client_ok c'"
proof -
  from assms(1) obtain ca cert key token rca rcert rkey bs where
    e: "expand_if_set env (cp_ca_cert (cc_pki c)) = Inr ca" "expand_if_set env (cp_client_cert (cc_pki c)) = Inr cert"
      "expand_if_set env (cp_client_key (cc_pki c)) = Inr key" "expand_if_set env (jk_token_file (cc_jwt c)) = Inr token"
    and b: "expand_bindings env (cc_profiles c) = Inr bs"
    and c': "c' = c\<lparr>cc_pki := \<lparr>cp_ca_cert = ca, cp_client_cert = cert, cp_client_key = key\<rparr>,
              cc_jwt := (cc_jwt c)\<lparr>jk_token_file := token\<rparr>,
              cc_reverse := (cc_reverse c)\<lparr>rc_pki := \<lparr>rk_ca_cert = rca, rk_server_cert = rcert, rk_server_key = rkey\<rparr>\<rparr>,
              cc_profiles := bs\<rparr>"
    by (auto simp: expand_client_paths_def ebind_Inr_iff)
  have empty: "(q = []) = (p = [])" if "expand_if_set env p = Inr q" for p q using expand_if_set_Inr [OF that] by simp
  have bs: "list_all binding_ok bs" "map pb_name bs = map pb_name (cc_profiles c)"
    using expand_bindings_Inr [OF b] assms(2) by (simp_all add: client_validated_def)
  have "bs \<noteq> []" using bs(2) assms(2) by (auto simp: client_validated_def)
  then show ?thesis using assms(2-7) bs
    by (cases "cc_auth_mode c = AuthModeMTLS") (simp_all add: c' client_ok_def client_validated_def e [THEN empty])
qed

text \<open>Loading the client's configuration either fails with an error of the category ErrConfigInvalid or gives a
  configuration that is complete: a wss server, a node id, bindings with different names and clean paths,
  the credentials of the authentication mode, and positive delays, so that no timer of the client can be
  created with an interval that panics.\<close>

theorem load_client_valid:
  "case load_client yaml env path of Inl e \<Rightarrow> is_err e ErrConfigInvalid | Inr c \<Rightarrow> client_ok c"
proof (cases "load_client yaml env path")
  case (Inl e)
  then show ?thesis using fails_asD [OF load_client_fails] by simp
next
  case (Inr c)
  then obtain rc :: raw_client_config and rec cli c1 where r: "convert_reconnect (xc_reconnect rc) = Inr rec"
    and u: "convert_cli_upgrade (xc_cli_upgrade rc) = Inr cli"
    and v: "validate_client \<lparr>cc_server = xc_server rc, cc_auth_mode = xc_auth_mode rc, cc_jwt = xc_jwt rc,
             cc_reverse = xc_reverse rc, cc_node_id = xc_node_id rc, cc_profiles = xc_profiles rc, cc_pki = xc_pki rc,
             cc_reconnect = rec, cc_cli_upgrade = cli, cc_log = xc_log rc\<rparr> = Inr c1" (is "validate_client ?c0 = _")
    and x: "expand_client_paths env c1 = Inr c"
    by (auto simp: load_client_def ebind_Inr_iff split: sum.splits if_splits)
  have c0: "cc_reconnect ?c0 = rec" "cc_cli_upgrade ?c0 = cli" by simp_all
  show ?thesis using expand_client_Inr [OF x] validate_client_Inr [OF v] convert_reconnect_Inr [OF r]
      convert_cli_upgrade_Inr [OF u] c0 by (simp add: Inr)
qed

end
