(* ===== verification/Mediator_Spec.thy ===== *)
theory Mediator_Spec
  imports Mediator_Scenario
begin

text \<open>
  What a profile's mediator promises, without clocks, maps, orders of ranges, formats or messages: who holds which copy of
  which account, and which copy is the account's truth. The mediator refines this machine step by step.
\<close>

subsection \<open>The abstract machine\<close>

text \<open>What is known of a node: the account it is in, the fingerprint of its copy if it has one, and whether the copy is fit
  to be the truth.\<close>

record holding =
  ho_account :: string
  ho_copy :: "string option"
  ho_fit :: bool

record spec_state =
  sp_holds :: "string \<rightharpoonup> holding"
  sp_truth :: "string \<rightharpoonup> string"

definition spec_start :: spec_state where "spec_start = \<lparr>sp_holds = Map.empty, sp_truth = Map.empty\<rparr>"

definition fit_in :: "spec_state \<Rightarrow> string \<Rightarrow> holding \<Rightarrow> bool" where
  "fit_in st a h \<longleftrightarrow> (\<exists>n. sp_holds st n = Some h) \<and> ho_account h = a \<and> ho_fit h"

text \<open>An order to copy: the node, the account and the fingerprint. In the mode \<open>to_all\<close> a node that has the copy may be sent it.\<close>

type_synonym order = "string \<times> string \<times> string"

definition order_ok :: "bool \<Rightarrow> spec_state \<Rightarrow> order \<Rightarrow> bool" where
  "order_ok all st ord = (case ord of (n, a, fp) \<Rightarrow> sp_truth st a = Some fp \<and>
     (case sp_holds st n of None \<Rightarrow> False | Some h \<Rightarrow> ho_account h = a \<and> (all \<or> ho_copy h \<noteq> Some fp)))"

inductive spec_step :: "bool \<Rightarrow> spec_state \<Rightarrow> order set \<Rightarrow> spec_state \<Rightarrow> bool" for all where
  note_only: "h = sp_holds st n \<or> (\<exists>x. h = Some x \<and> \<not> ho_fit x) \<Longrightarrow>
    spec_step all st {} (st\<lparr>sp_holds := (sp_holds st)(n := h)\<rparr>)"
| decide: "sp_holds st' = (sp_holds st)(n := h) \<Longrightarrow>
    (\<And>a. sp_truth st' a = None \<longleftrightarrow> (\<nexists>x. fit_in st' a x)) \<Longrightarrow>
    (\<And>a fp. sp_truth st' a = Some fp \<Longrightarrow> sp_truth st a = Some fp \<or> (\<exists>x. fit_in st' a x \<and> ho_copy x = Some fp)) \<Longrightarrow>
    (\<And>ord. ord \<in> orders \<Longrightarrow> order_ok all st' ord) \<Longrightarrow> spec_step all st orders st'"

subsection \<open>The abstraction\<close>

definition holding_of :: "candidate \<Rightarrow> holding" where
  "holding_of c = \<lparr>ho_account = cd_account c, ho_copy = (if cd_absent c then None else Some (cd_fingerprint c)), ho_fit = viable c\<rparr>"

definition abs_med :: "mediator \<Rightarrow> spec_state" where
  "abs_med m = \<lparr>sp_holds = (\<lambda>n. map_option holding_of (map_of (md_cands m) n)),
     sp_truth = (\<lambda>a. map_option ts_fingerprint (map_of (md_truths m) a))\<rparr>"

definition orders_of :: "med_event list \<Rightarrow> order set" where
  "orders_of evs = {(se_node s, tp_account p, tp_fingerprint p) |s p r. Pushed s p r \<in> set evs}"

definition to_all :: "med_config \<Rightarrow> bool" where
  "to_all cfg = (ps_mode (pf_propagate (mc_profile cfg)) = PropagateModeAll)"

lemma abs_start [simp]: "abs_med new_mediator = spec_start"
  by (simp add: abs_med_def new_mediator_def spec_start_def)

lemma abs_sel [simp]: "sp_holds (abs_med m) n = map_option holding_of (map_of (md_cands m) n)"
  "sp_truth (abs_med m) a = map_option ts_fingerprint (map_of (md_truths m) a)"
  by (simp_all add: abs_med_def)

lemma holding_of_sel [simp]: "ho_account (holding_of c) = cd_account c" "ho_fit (holding_of c) = viable c"
  "ho_copy (holding_of c) = (if cd_absent c then None else Some (cd_fingerprint c))"
  by (simp_all add: holding_of_def)

lemma abs_put: "abs_med (m\<lparr>md_cands := mput n c (md_cands m)\<rparr>) =
    (abs_med m)\<lparr>sp_holds := (sp_holds (abs_med m))(n := Some (holding_of c))\<rparr>"
  by (simp add: abs_med_def update_conv fun_eq_iff)

lemma holds_of_cands:
  "md_cands m' = md_cands m1 \<Longrightarrow> sp_holds (abs_med m') = sp_holds (abs_med m1)"
  by (simp add: abs_med_def)

lemma cands_before_holds:
  assumes "cands_before cfg env inp m = Some (m1, fn)" "gomap_ok (md_cands m)"
  shows "md_truths m1 = md_truths m \<and> (\<exists>n h. sp_holds (abs_med m1) = (sp_holds (abs_med m))(n := h))"
  using assms
  by (auto simp: cands_before_def abs_put gm.get_del abs_med_def fun_eq_iff update_conv
      split: med_input.splits sum.splits intro!: exI)

lemma fit_abs:
  assumes "gomap_ok (md_cands m)"
  shows "(\<exists>x. fit_in (abs_med m) a x) \<longleftrightarrow> (\<exists>n c. (n, c) \<in> set (md_cands m) \<and> viable_in a c)"
    "map_of (md_cands m) n = Some c \<Longrightarrow> viable_in a c \<Longrightarrow> fit_in (abs_med m) a (holding_of c)"
  using assms by (force simp: fit_in_def viable_in_def gomap_ok_def)+

lemma quiet_step:
  assumes "cands_before cfg env inp m = None" "med_turn cfg env inp m = Some (m', evs)"
  shows "spec_step all (abs_med m) (orders_of evs) (abs_med m')"
proof -
  have e: "evs = []" using med_turn_quiet [OF assms(1)] assms(2) by auto
  have "\<exists>n h. (h = sp_holds (abs_med m) n \<or> (\<exists>x. h = Some x \<and> \<not> ho_fit x)) \<and>
      abs_med m' = (abs_med m)\<lparr>sp_holds := (sp_holds (abs_med m))(n := h)\<rparr>"
  proof (cases inp)
    case (InReport s p)
    then have "m' = m \<or> (\<exists>c. m' = m\<lparr>md_cands := mput (se_node s) c (md_cands m)\<rparr> \<and> \<not> viable c)"
      using assms by (auto simp: cands_before_def med_turn_def on_report_def viable_def split: sum.splits)
    then show ?thesis
    proof
      assume "m' = m"
      then show ?thesis by (intro exI [of _ undefined] exI [of _ "sp_holds (abs_med m) undefined"]) (simp add: fun_upd_idem abs_med_def)
    next
      assume "\<exists>c. m' = m\<lparr>md_cands := mput (se_node s) c (md_cands m)\<rparr> \<and> \<not> viable c"
      then obtain c where "m' = m\<lparr>md_cands := mput (se_node s) c (md_cands m)\<rparr>" "\<not> viable c" by blast
      then show ?thesis by (intro exI [of _ "se_node s"] exI [of _ "Some (holding_of c)"]) (simp add: abs_put)
    qed
  next
    case (InAck s p)
    then have m': "m' = on_ack s p m" using assms(2) by (simp add: med_turn_def)
    show ?thesis
    proof (cases "map_of (md_cands m) (se_node s)")
      case None
      then have "\<exists>c. m' = m\<lparr>md_cands := mput (se_node s) c (md_cands m)\<rparr> \<and> \<not> viable c"
        unfolding m' on_ack_def by (auto simp: viable_def Let_def)
      then obtain c where "m' = m\<lparr>md_cands := mput (se_node s) c (md_cands m)\<rparr>" "\<not> viable c" by blast
      then show ?thesis by (intro exI [of _ "se_node s"] exI [of _ "Some (holding_of c)"]) (simp add: abs_put)
    next
      case (Some c)
      then have "\<exists>c'. m' = m\<lparr>md_cands := mput (se_node s) c' (md_cands m)\<rparr> \<and> holding_of c' = holding_of c"
        unfolding m' on_ack_def
        by (intro exI [of _ "if ta_ok p then c\<lparr>cd_applied := ta_fingerprint p\<rparr> else c"]) (simp add: holding_of_def viable_def)
      then show ?thesis using Some by (auto simp: abs_put intro!: exI [of _ "se_node s"])
    qed
  qed (use assms(1) in \<open>simp_all add: cands_before_def\<close>)
  then obtain n h where "h = sp_holds (abs_med m) n \<or> (\<exists>x. h = Some x \<and> \<not> ho_fit x)"
    "abs_med m' = (abs_med m)\<lparr>sp_holds := (sp_holds (abs_med m))(n := h)\<rparr>" by blast
  then show ?thesis using spec_step.note_only [of h "abs_med m" n all] e by (simp add: orders_of_def del: abs_sel)
qed

lemma truth_from_fit:
  assumes "med_inv (mc_format cfg) m'" "env_ok env" "cands_before cfg env inp m = Some (m1, fn)"
    "med_turn cfg env inp m = Some (m', evs)" "map_of (md_truths m') a = Some t"
  shows "map_option ts_fingerprint (map_of (md_truths m) a) = Some (ts_fingerprint t) \<or>
    (\<exists>x. fit_in (abs_med m') a x \<and> ho_copy x = Some (ts_fingerprint t))"
proof -
  obtain vs u evs' where f: "map_of (by_account env (md_cands m')) a = Some vs"
    "select_account cfg env (md_cands m') fn a vs (map_of (md_truths m) a) = Some (u, evs')"
    "truth_after (map_of (md_truths m) a) u = Some t" using turn_account [OF assms(2-5)] by blast
  have "range_ok (me_cand_order env)" using assms(2) by (simp add: env_ok_def)
  note bc = bucket_cands [OF assms(1) f(1) this]
  from f(2) show ?thesis
  proof (cases rule: select_account_cases)
    case (changed best)
    then have "best \<in> set vs" using pick_best_mem bc(1) by (metis list.collapse)
    then have b: "viable_in a best" "map_of (md_cands m') (cd_node best) = Some best" "\<not> cd_absent best"
      using bc(2) by (auto simp: viable_in_def viable_def)
    have "gomap_ok (md_cands m')" using assms(1) by (simp add: med_inv_def)
    from fit_abs(2) [OF this b(2,1)] b(3) changed(4) f(3) show ?thesis
      by (intro disjI2 exI [of _ "holding_of best"]) (auto simp: truth_after_def)
  qed (use f(3) in \<open>simp_all add: truth_after_def\<close>)
qed

text \<open>C13: The mediator refines the abstract machine: whatever the input, the clock readings, the orders in which maps are
  ranged over and the outcomes of the sends, a turn of a reachable mediator is a step of the machine between the
  abstractions, and its messages are orders of that step. So the truth of an account is lost exactly when no
  fit copy is left, is only ever replaced by a copy some fit node of that account holds, and is only ordered to
  nodes of the account that lack it.\<close>

theorem mediator_refines_spec:
  assumes "mc_format cfg \<in> set builtin_formats" "med_reach cfg m" "env_ok env"
    "list_all (\<lambda>(n, s). se_node s = n) (me_sessions env)" "med_turn cfg env inp m = Some (m', evs)"
  shows "spec_step (to_all cfg) (abs_med m) (orders_of evs) (abs_med m') \<and> abs_med new_mediator = spec_start"
proof (cases "cands_before cfg env inp m")
  case None
  then show ?thesis using quiet_step assms(5) by simp
next
  case (Some x)
  obtain m1 fn where x: "cands_before cfg env inp m = Some (m1, fn)" using Some by (cases x) simp
  have inv: "med_inv (mc_format cfg) m" "med_inv (mc_format cfg) m'"
    using med_reach_inv assms(1,2) med_reach.turn [OF assms(2,3,5)] by blast+
  have r: "reselect cfg env fn m1 = Some (m', evs)" using med_turn_reselect x assms(5) by metis
  have ok: "gomap_ok (md_cands m)" "gomap_ok (md_cands m')" using inv by (simp_all add: med_inv_def)
  obtain n h where nh: "sp_holds (abs_med m') = (sp_holds (abs_med m))(n := h)"
    using cands_before_holds [OF x ok(1)] holds_of_cands [OF reselect_keeps(1) [OF r assms(3)]] by auto
  have "spec_step (to_all cfg) (abs_med m) (orders_of evs) (abs_med m')"
  proof (rule spec_step.decide [OF nh])
    show "sp_truth (abs_med m') a = None \<longleftrightarrow> (\<nexists>x. fit_in (abs_med m') a x)" for a
      using truths_viable [OF assms(3) x assms(5), of a] fit_abs(1) [OF ok(2), of a] by auto
    show "sp_truth (abs_med m') a = Some fp \<Longrightarrow>
        sp_truth (abs_med m) a = Some fp \<or> (\<exists>x. fit_in (abs_med m') a x \<and> ho_copy x = Some fp)" for a fp
      using truth_from_fit [OF inv(2) assms(3) x assms(5), of a] by auto
    show "order_ok (to_all cfg) (abs_med m') ord" if ord: "ord \<in> orders_of evs" for ord
    proof -
      obtain s :: session and p :: truth_push and res where o1: "ord = (se_node s, tp_account p, tp_fingerprint p)" "Pushed s p res \<in> set evs"
        using ord unfolding orders_of_def by blast
      from push_facts [OF assms(1-3,5) o1(2)] assms(4) show ?thesis
        by (auto simp: o1(1) order_ok_def to_all_def list_all_iff truth_push_of_def)
    qed
  qed
  then show ?thesis by simp
qed

theorem mediator_refines_spec_witness:
  "spec_step (to_all demo_cfg) (abs_med demo_waiting)
    {(''b'', ''acct'', sha256_hex demo_raw)} (abs_med demo_settled)"
proof -
  have "list_all (\<lambda>(n, s). se_node s = n) (me_sessions demo_env)"
    by (simp add: demo_env_def demo_session_def)
  from mediator_refines_spec [OF _ demo_reach1 demo_env_ok this demo_turn2] show ?thesis
    by (simp add: orders_of_def demo_push_def truth_push_of_def demo_truth_def demo_session_def) 
qed

end
