(* ===== verification/Client_Apply.thy ===== *)
theory Client_Apply
  imports Safeio Transport
begin

text \<open>
  internal/client/apply.go: how a node writes the credentials it is sent. The outcome of every system
  call and lock attempt is in \<open>apply_env\<close>; each write has its own \<open>io_env\<close>.
\<close>

record apply_env =
  ap_read :: "gerr option"
  ap_try_lock :: "nat \<Rightarrow> gerr + bool"
  ap_wait :: "nat \<Rightarrow> gerr option"
  ap_stat :: "gerr option"
  ap_backup_read :: "gerr option"
  ap_nanos :: int
  ap_backup_write :: io_env
  ap_write :: io_env
  ap_reread :: "gerr option"
  ap_restore_read :: "gerr option"
  ap_restore_write :: io_env
  ap_restore_remove :: "gerr option"
  ap_remove :: "gerr option"

definition LockAcquireTimeout :: duration where "LockAcquireTimeout = milliseconds 500"
definition LockRetryMax :: nat where "LockRetryMax = 3"
definition MsgApplyVerifyFailed :: string where
  "MsgApplyVerifyFailed = ''applied file did not match expected fingerprint''"

definition hash_hex :: "string \<Rightarrow> string" where "hash_hex b = sha256_hex b"

text \<open>The retries: the last error, \<open>None\<close> once the lock is held. \<open>ap_wait\<close> is the context's error when it
  ends during the pause.\<close>

fun acquire_lock :: "apply_env \<Rightarrow> string \<Rightarrow> nat \<Rightarrow> nat \<Rightarrow> gerr option \<Rightarrow> gerr option" where
  "acquire_lock env path 0 attempt lock_err = lock_err"
| "acquire_lock env path (Suc n) attempt lock_err =
     (case lock_file LockAcquireTimeout (ap_try_lock env attempt) path of
        None \<Rightarrow> None
      | Some e \<Rightarrow>
          if \<not> is_err e ErrLockTimeout then Some e
          else (case ap_wait env attempt of
              Some c \<Rightarrow> Some c
            | None \<Rightarrow> acquire_lock env path n (Suc attempt) (Some e)))"

definition restore_backup :: "apply_env \<Rightarrow> string \<Rightarrow> string \<Rightarrow> files \<Rightarrow> gerr option \<times> files list" where
  "restore_backup env backup dst fs = (case read_file (ap_restore_read env) fs backup of
     Inl e \<Rightarrow> (Some e, [fs])
   | Inr data \<Rightarrow> (case atomic_write (ap_restore_write env) dst data CredentialsFileMode fs of
       (Some e, tr) \<Rightarrow> (Some e, tr)
     | (None, tr) \<Rightarrow> (None, tr @ [remove_file (ap_restore_remove env) backup (last tr)])))"

definition undo :: "apply_env \<Rightarrow> string option \<Rightarrow> string \<Rightarrow> files list \<Rightarrow> files list" where
  "undo env backup path tr = (case backup of None \<Rightarrow> tr
     | Some b \<Rightarrow> tr @ snd (restore_backup env b path (last tr)))"

text \<open>From the atomic write to the end of \<open>writeOne\<close>.\<close>

definition write_verified ::
  "apply_env \<Rightarrow> string \<Rightarrow> string \<Rightarrow> string \<Rightarrow> string option \<Rightarrow> files list \<Rightarrow> gerr option \<times> files list" where
  "write_verified env want raw path backup tr0 =
     (let (r, tr1) = atomic_write (ap_write env) path raw CredentialsFileMode (last tr0); tr = tr0 @ tr1
      in case r of
        Some e \<Rightarrow> (Some e, undo env backup path tr)
      | None \<Rightarrow> (case read_file (ap_reread env) (last tr) path of
          Inl e \<Rightarrow> (Some (wrap_e e ErrApplyFailed ''re-read after write'' []), undo env backup path tr)
        | Inr got \<Rightarrow>
            if hash_hex got \<noteq> want then
              (Some (wrap_s ErrApplyFailed MsgApplyVerifyFailed []), undo env backup path tr)
            else (None, (case backup of None \<Rightarrow> tr | Some b \<Rightarrow> tr @ [remove_file (ap_remove env) b (last tr)]))))"

definition write_one :: "apply_env \<Rightarrow> string \<Rightarrow> string \<Rightarrow> string \<Rightarrow> files \<Rightarrow> gerr option \<times> files list" where
  "write_one env want raw path fs =
     (if (case read_file (ap_read env) fs path of Inl _ \<Rightarrow> False | Inr cur \<Rightarrow> hash_hex cur = want) then (None, [fs])
      else case acquire_lock env path LockRetryMax 0 None of
        Some e \<Rightarrow> (Some e, [fs])
      | None \<Rightarrow>
          if ap_stat env = None \<and> fs path \<noteq> None then
            (case read_with_backup (ap_backup_read env) (ap_nanos env) (ap_backup_write env) path fs of
               (Inl e, tr) \<Rightarrow> (Some e, tr)
             | (Inr (_, backup), tr) \<Rightarrow> write_verified env want raw path (Some backup) tr)
          else write_verified env want raw path None [fs])"

text \<open>\<open>err_text\<close> is the \<open>Error\<close> method of an error.\<close>

definition nack :: "truth_push \<Rightarrow> string \<Rightarrow> truth_ack" where
  "nack push why = zero_truth_ack\<lparr>ta_profile := tp_profile push, ta_fingerprint := tp_fingerprint push, ta_reason := why\<rparr>"

definition apply_truth ::
  "(gerr \<Rightarrow> string) \<Rightarrow> apply_env \<Rightarrow> truth_push \<Rightarrow> string \<Rightarrow> files \<Rightarrow> truth_ack \<times> files list" where
  "apply_truth err_text env push candidate_path fs = (case std_decode (tp_raw_b64 push) of
     None \<Rightarrow> (nack push (''invalid raw_b64: '' @ err_text (Ext ''base64'')), [fs])
   | Some raw \<Rightarrow>
       let target = (if tp_target push = candidate_path then tp_target push else candidate_path)
       in if target = [] then (nack push ''candidate path is empty'', [fs])
          else (case write_one env (tp_fingerprint push) raw target fs of
              (Some e, tr) \<Rightarrow> (nack push (err_text e), tr)
            | (None, tr) \<Rightarrow> (zero_truth_ack\<lparr>ta_profile := tp_profile push, ta_fingerprint := tp_fingerprint push,
                ta_ok := True\<rparr>, tr)))"

end
