(* ===== verification/Client_Agent.thy ===== *)
theory Client_Agent
  imports Client_Apply Config_Client Builtin_Formats
begin

text \<open>
  internal/client/agent.go, conn.go, jwt.go and util.go: the agent of one profile binding. Its reports, its reaction
  to what the server sends, how it opens a session and how it reconnects. The outcome of a send, of the
  clock and of the random source are parameters; the watcher only tells that something changed.
\<close>

subsection \<open>The agents of a configuration\<close>

record watch_event =
  we_path :: string
  we_exists :: bool
  we_modified :: gotime
  we_size :: int

record agent =
  ag_cfg :: client_config
  ag_format :: format_ops
  ag_profile :: string
  ag_dir :: string
  ag_path :: string
  ag_watch_paths :: "string list"
  ag_account_meta :: string
  ag_version :: string
  ag_fail_fast :: bool
  ag_jwt_override :: string
  ag_first_frame :: bool
  ag_pending :: "(string, watch_event) gomap"
  ag_refresh_at :: gotime
  ag_refresh_fp :: string
  ag_refresh_reason :: string

text \<open>The loop of \<open>dedupePaths\<close>: \<open>seen\<close> and \<open>out\<close> hold the same paths.\<close>

definition dedupe_paths :: "string list \<Rightarrow> string list" where
  "dedupe_paths paths = foldl (\<lambda>out p. let q = path_clean p in
     if q = ''.'' \<or> q = [] then out else if q \<in> set out then out else out @ [q]) [] paths"

definition resolve_format :: "registry \<Rightarrow> profile_binding \<Rightarrow> gerr + format_ops" where
  "resolve_format reg b =
     ebind (if pb_format b = [] then
              (case registry_list reg of
                 [] \<Rightarrow> Inl (wrap_s ErrFormatNotRegistered ''no formats registered'' [])
               | [n] \<Rightarrow> Inr n
               | ns \<Rightarrow> Inl (wrap_s ErrConfigInvalid ''profile %q: format is required (registered: %v)''
                   [ArgS (pb_name b), ArgL ns]))
            else Inr (pb_format b)) (\<lambda>name.
       case registry_get reg name of
         None \<Rightarrow> Inl (wrap_s ErrFormatNotRegistered ''profile %q: format %q not registered'' [ArgS (pb_name b), ArgS name])
       | Some f \<Rightarrow> Inr f)"

definition resolve_binding_paths :: "format_ops \<Rightarrow> profile_binding \<Rightarrow> gerr + string \<times> string list" where
  "resolve_binding_paths f b = (case resolve_credential_path f (pb_dir b) of
     Inl e \<Rightarrow> Inl (wrap_e e ErrConfigInvalid ''profile %q: resolve credential path from dir %q''
       [ArgS (pb_name b), ArgS (pb_dir b)])
   | Inr cred \<Rightarrow>
       ebind (if pb_watch_files b \<noteq> [] then Inr (cred # pb_watch_files b)
              else (case resolve_watch_paths f (pb_dir b) of
                Inl e \<Rightarrow> Inl (wrap_e e ErrConfigInvalid ''profile %q: resolve watch paths from dir %q''
                  [ArgS (pb_name b), ArgS (pb_dir b)])
              | Inr ws \<Rightarrow> Inr ws)) (\<lambda>watch.
         Inr (cred, dedupe_paths (watch @ (if pb_account_meta_path b = [] then [] else [pb_account_meta_path b])))))"

definition new_agent ::
  "client_config \<Rightarrow> string \<Rightarrow> bool \<Rightarrow> string \<Rightarrow> profile_binding \<Rightarrow> format_ops \<Rightarrow> string \<Rightarrow> string list \<Rightarrow> agent" where
  "new_agent cfg version fail_fast token b f path watch =
     \<lparr>ag_cfg = cfg, ag_format = f, ag_profile = pb_name b, ag_dir = pb_dir b, ag_path = path, ag_watch_paths = watch,
      ag_account_meta = pb_account_meta_path b, ag_version = version, ag_fail_fast = fail_fast, ag_jwt_override = token,
      ag_first_frame = False, ag_pending = [], ag_refresh_at = zero_time, ag_refresh_fp = [], ag_refresh_reason = []\<rparr>"

fun build_agents_for ::
  "registry \<Rightarrow> client_config \<Rightarrow> string \<Rightarrow> bool \<Rightarrow> string \<Rightarrow> profile_binding list \<Rightarrow> gerr + agent list" where
  "build_agents_for reg cfg version fail_fast token [] = Inr []"
| "build_agents_for reg cfg version fail_fast token (b # bs) =
     ebind (resolve_format reg b) (\<lambda>f.
     ebind (resolve_binding_paths f b) (\<lambda>(path, watch).
     ebind (build_agents_for reg cfg version fail_fast token bs) (\<lambda>rest.
       Inr (new_agent cfg version fail_fast token b f path watch # rest))))"

definition build_agents :: "registry \<Rightarrow> client_config \<Rightarrow> string \<Rightarrow> bool \<Rightarrow> string \<Rightarrow> gerr + agent list" where
  "build_agents reg cfg version fail_fast token = build_agents_for reg cfg version fail_fast token (cc_profiles cfg)"

definition check_server_url :: "string \<Rightarrow> gerr option" where
  "check_server_url u = (if \<not> has_prefix u ''wss://'' then
     Some (wrap_s ErrConfigInvalid ''server URL must start with wss://: %q'' [ArgS u]) else None)"

subsection \<open>Accounts\<close>

definition account_hint :: "agent \<Rightarrow> string" where
  "account_hint a = (if ag_account_meta a \<noteq> [] then ag_account_meta a else ag_dir a)"

text \<open>\<open>None\<close> is the nil snapshot of \<open>resolveAccountWithoutSnapshot\<close>.\<close>

definition resolve_account :: "host_env \<Rightarrow> agent \<Rightarrow> snapshot option \<Rightarrow> string" where
  "resolve_account env a snap = (case f_account (ag_format a) of
     None \<Rightarrow> []
   | Some account \<Rightarrow> (case account env snap (account_hint a) of Inl _ \<Rightarrow> [] | Inr i \<Rightarrow> i))"

definition enrich_account_display :: "host_env \<Rightarrow> agent \<Rightarrow> snapshot \<Rightarrow> summary \<Rightarrow> summary" where
  "enrich_account_display env a snap s = (case f_display (ag_format a) of
     None \<Rightarrow> s
   | Some display \<Rightarrow> (case display env snap (account_hint a) of
       Inl _ \<Rightarrow> s
     | Inr raw \<Rightarrow> (let label = trim_space raw in
         if label = [] then s else s\<lparr>sm_extra := mput ''display_account'' label (sm_extra s)\<rparr>)))"

text \<open>\<open>json.Marshal\<close> of a summary; it fails when the expiry has no RFC 3339 form. Map keys are written in order.\<close>

definition enc_summary :: "summary \<Rightarrow> json option" where
  "enc_summary s = (if \<not> time_writable (sm_expires s) then None else Some (JObj (
     [(''identity'', JStr (sm_identity s))] @ opt_string ''subscription'' (sm_subscription s) @
     [(''fingerprint_short'', JStr (sm_fp_short s))] @ opt_string ''token_tail4'' (sm_tail4 s) @
     [(''expires_at'', json_time (sm_expires s))] @ opt_strings ''scopes'' (sm_scopes s) @
     (if sm_extra s = [] then [] else
        [(''extra'', JObj (map (\<lambda>(k, v). (k, JStr v)) (sort_key fst (sm_extra s))))]))))"

subsection \<open>Reports\<close>

text \<open>What an agent sends.\<close>

datatype outgoing = OutAuthJWT auth_jwt | OutHello hello | OutReport snapshot_report | OutAbsent snapshot_absent | OutAck truth_ack

fun out_kind :: "outgoing \<Rightarrow> string" where
  "out_kind (OutAuthJWT _) = KindAuthJWT"
| "out_kind (OutHello _) = KindHello"
| "out_kind (OutReport _) = KindSnapshotReport"
| "out_kind (OutAbsent _) = KindSnapshotAbsent"
| "out_kind (OutAck _) = KindTruthAck"

fun out_payload :: "outgoing \<Rightarrow> json" where
  "out_payload (OutAuthJWT p) = enc_auth_jwt p"
| "out_payload (OutHello p) = enc_hello p"
| "out_payload (OutReport p) = enc_snapshot_report p"
| "out_payload (OutAbsent p) = enc_snapshot_absent p"
| "out_payload (OutAck p) = enc_truth_ack p"

definition send_envelope :: "(envelope \<Rightarrow> gerr option) \<Rightarrow> string \<Rightarrow> gotime \<Rightarrow> outgoing \<Rightarrow> gerr option" where
  "send_envelope send eid now m = (case marshal (out_kind m) EnvelopeV eid now (Some (Inr (out_payload m))) of
     Inl e \<Rightarrow> Some e
   | Inr data \<Rightarrow> (case Option.bind (json_unmarshal data) (\<lambda>v. dec_struct dec_envelope_member v zero_envelope) of
       None \<Rightarrow> Some json_error
     | Some env \<Rightarrow> send env))"

definition read_file_if_exists :: "host_env \<Rightarrow> string \<Rightarrow> gerr + string option" where
  "read_file_if_exists env path = (case he_read env path of
     Inl e \<Rightarrow> if errors_is e NotExist then Inr None else Inl e
   | Inr b \<Rightarrow> Inr (Some b))"

definition absent_report :: "host_env \<Rightarrow> agent \<Rightarrow> snapshot_absent" where
  "absent_report env a = \<lparr>sa_profile = ag_profile a, sa_account = resolve_account env a None, sa_path = ag_path a\<rparr>"

text \<open>The report, and whether a refresh of the credentials is started beside it.\<close>

definition report_event :: "host_env \<Rightarrow> gotime \<Rightarrow> agent \<Rightarrow> outgoing \<times> bool" where
  "report_event env now a = (case read_file_if_exists env (ag_path a) of
     Inl _ \<Rightarrow> (OutAbsent (absent_report env a), False)
   | Inr None \<Rightarrow> (OutAbsent (absent_report env a), False)
   | Inr (Some raw) \<Rightarrow> (case f_parse (ag_format a) raw of
       Inl _ \<Rightarrow> (OutAbsent (absent_report env a), False)
     | Inr snap \<Rightarrow>
         let res = f_validate (ag_format a) snap (local_opts now);
             summary = enrich_account_display env a snap (f_redact (ag_format a) snap)
         in (OutReport \<lparr>sr_profile = ag_profile a, sr_account = resolve_account env a (Some snap), sr_path = ag_path a,
               sr_format = f_name (ag_format a), sr_fingerprint = snap_fingerprint snap, sr_summary = enc_summary summary,
               sr_live = \<lparr>lc_performed = False, lc_result = vr_status res, lc_checked = vr_checked res\<rparr>,
               sr_raw_size = int (length raw), sr_raw_b64 = std_encode raw\<rparr>,
             vr_status res = StatusExpired)))"

subsection \<open>What the server sends\<close>

text \<open>The answer to an envelope: an error that ends the session, or what is sent, if anything; and the trace of the files.\<close>

definition handle_envelope ::
  "(gerr \<Rightarrow> string) \<Rightarrow> host_env \<Rightarrow> gotime \<Rightarrow> apply_env \<Rightarrow> agent \<Rightarrow> envelope \<Rightarrow> files \<Rightarrow>
   (gerr + (outgoing \<times> bool) option) \<times> files list" where
  "handle_envelope err_text env now disk a e fs =
     (if env_type e = KindTruthPush then
        (case payload_as dec_truth_push e of
           None \<Rightarrow> (Inl (wrap_e json_error ErrInvalidMessage ''truth.push payload'' []), [fs])
         | Some push \<Rightarrow> (let (ack, tr) = apply_truth err_text disk push (ag_path a) fs
             in (Inr (Some (OutAck ack, False)), tr)))
      else if env_type e = KindSnapshotRequest then
        (case payload_as dec_snapshot_request e of
           None \<Rightarrow> (Inl (wrap_e json_error ErrInvalidMessage ''snapshot.request payload'' []), [fs])
         | Some req \<Rightarrow>
             if sq_profile req \<noteq> [] \<and> sq_profile req \<noteq> ag_profile a then (Inr None, [fs])
             else (Inr (Some (report_event env now a)), [fs]))
      else if env_type e = KindError then (Inr None, [fs])
      else if env_type e \<in> {KindAuthJWT, KindWelcome, KindHello, KindSnapshotReport, KindSnapshotAbsent, KindTruthAck} then
        (Inl (wrap_s ErrInvalidMessage ''unexpected envelope kind %q'' [ArgS (env_type e)]), [fs])
      else (Inl (wrap_s ErrInvalidMessage ''unknown envelope kind %q'' [ArgS (env_type e)]), [fs]))"

subsection \<open>Watcher events between sessions\<close>

definition buffer_event :: "watch_event \<Rightarrow> agent \<Rightarrow> agent" where
  "buffer_event ev a = a\<lparr>ag_pending := mput (we_path ev) ev (ag_pending a)\<rparr>"

text \<open>One tick of the writer: the events it reports, in the order of the range.\<close>

definition drain_pending :: "agent \<Rightarrow> watch_event list \<times> agent" where
  "drain_pending a = (map snd (ag_pending a), a\<lparr>ag_pending := []\<rparr>)"

definition flush_pending :: "host_env \<Rightarrow> gotime \<Rightarrow> agent \<Rightarrow> (outgoing \<times> bool) \<times> agent" where
  "flush_pending env now a = (report_event env now a, a\<lparr>ag_pending := []\<rparr>)"

subsection \<open>Tokens\<close>

definition load_jwt_token :: "host_env \<Rightarrow> agent \<Rightarrow> gerr + string" where
  "load_jwt_token env a =
     (if ag_jwt_override a \<noteq> [] then Inr (trim_space (ag_jwt_override a))
      else
        let name = trim_space (jk_token_env (cc_jwt (ag_cfg a))) in
        if name \<noteq> [] then
          (let token = trim_space (he_getenv env name) in
           if token = [] then Inl (wrap_s ErrConfigInvalid ''JWT token env %q is empty'' [ArgS name]) else Inr token)
        else
          let path = jk_token_file (cc_jwt (ag_cfg a)) in
          case he_read env path of
            Inl e \<Rightarrow> Inl (wrap_e e ErrConfigInvalid ''read JWT token file %s'' [ArgS path])
          | Inr raw \<Rightarrow> (let token = trim_space raw in
              if token = [] then Inl (wrap_s ErrConfigInvalid ''JWT token file %s is empty'' [ArgS path]) else Inr token))"

definition effective_jwt_send_via :: "agent \<Rightarrow> string" where
  "effective_jwt_send_via a =
     (if cc_auth_mode (ag_cfg a) \<noteq> AuthModeJWT then []
      else if jk_send_via (cc_jwt (ag_cfg a)) = JWTSendViaAuto \<and> ag_first_frame a then JWTSendViaFirstFrame
      else jk_send_via (cc_jwt (ag_cfg a)))"

text \<open>The Authorization header of the dial, if it sends one.\<close>

definition dial_headers :: "agent \<Rightarrow> string \<Rightarrow> string option" where
  "dial_headers a token =
     (if cc_auth_mode (ag_cfg a) \<noteq> AuthModeJWT then None
      else if effective_jwt_send_via a = JWTSendViaHeader \<or> effective_jwt_send_via a = JWTSendViaAuto
      then Some (''Bearer '' @ token) else None)"

definition agent_dial :: "host_env \<Rightarrow> agent \<Rightarrow> gerr + string option" where
  "agent_dial env a =
     (if cc_auth_mode (ag_cfg a) = AuthModeJWT then ebind (load_jwt_token env a) (\<lambda>token. Inr (dial_headers a token))
      else Inr None)"

text \<open>\<open>errors.As\<close> for a close error: the error itself, or depth first anything it unwraps to.\<close>

fun as_close_error :: "gerr \<Rightarrow> (int \<times> string) option" where
  "as_close_error (WsCloseError code text) = Some (code, text)"
| "as_close_error (Wrapped s i f a) = (case as_close_error s of Some c \<Rightarrow> Some c
     | None \<Rightarrow> (case i of None \<Rightarrow> None | Some e \<Rightarrow> as_close_error e))"
| "as_close_error (Errorf f a i) = (case i of None \<Rightarrow> None | Some e \<Rightarrow> as_close_error e)"
| "as_close_error e = None"

definition should_switch_jwt_to_first_frame :: "gerr \<Rightarrow> bool" where
  "should_switch_jwt_to_first_frame e = (case as_close_error e of
     None \<Rightarrow> False
   | Some (code, text) \<Rightarrow> code = 1008 \<and> text = MsgAuthJWTRequired)"

subsection \<open>Opening a session\<close>

text \<open>What receiving gives: an envelope, or the closed connection with its error, if it has one. A context ends where the list does.\<close>

datatype arrival = Arrived envelope | ConnEnded "gerr option"

fun await_kind :: "string \<Rightarrow> gerr \<Rightarrow> arrival list \<Rightarrow> gerr + envelope" where
  "await_kind want ctx_err [] = Inl ctx_err"
| "await_kind want ctx_err (ConnEnded (Some e) # rs) = Inl e"
| "await_kind want ctx_err (ConnEnded None # rs) =
     Inl (wrap_s ErrInvalidMessage ''connection closed before %q'' [ArgS want])"
| "await_kind want ctx_err (Arrived env # rs) = (if env_type env = want then Inr env else await_kind want ctx_err rs)"

fun send_all :: "(outgoing \<Rightarrow> gerr option) \<Rightarrow> outgoing list \<Rightarrow> gerr option" where
  "send_all send [] = None"
| "send_all send (m # ms) = (case send m of Some e \<Rightarrow> Some e | None \<Rightarrow> send_all send ms)"

definition hello_of :: "string \<Rightarrow> agent \<Rightarrow> hello" where
  "hello_of os a = \<lparr>hl_node_id = cc_node_id (ag_cfg a), hl_version = ag_version a, hl_os = os, hl_caps = []\<rparr>"

definition opening_frames :: "host_env \<Rightarrow> string \<Rightarrow> agent \<Rightarrow> gerr + outgoing list" where
  "opening_frames env os a =
     (if cc_auth_mode (ag_cfg a) = AuthModeJWT \<and> effective_jwt_send_via a = JWTSendViaFirstFrame then
        ebind (load_jwt_token env a) (\<lambda>token. Inr [OutAuthJWT \<lparr>aj_token = token\<rparr>, OutHello (hello_of os a)])
      else Inr [OutHello (hello_of os a)])"

text \<open>\<open>session\<close> up to the two pumps: the error it returns, if any, and the agent after it.\<close>

definition session_open ::
  "host_env \<Rightarrow> gotime \<Rightarrow> string \<Rightarrow> (outgoing \<Rightarrow> gerr option) \<Rightarrow> gerr \<Rightarrow> arrival list \<Rightarrow> agent \<Rightarrow> gerr option \<times> agent" where
  "session_open env now os send ctx_err arrivals a = (case opening_frames env os a of
     Inl e \<Rightarrow> (Some e, a)
   | Inr frames \<Rightarrow> (case send_all send frames of
       Some e \<Rightarrow> (Some e, a)
     | None \<Rightarrow> (case await_kind KindWelcome ctx_err arrivals of
         Inl e \<Rightarrow> (Some e,
           if cc_auth_mode (ag_cfg a) = AuthModeJWT \<and> jk_send_via (cc_jwt (ag_cfg a)) = JWTSendViaAuto \<and>
              effective_jwt_send_via a = JWTSendViaAuto \<and> should_switch_jwt_to_first_frame e
           then a\<lparr>ag_first_frame := True\<rparr> else a)
       | Inr _ \<Rightarrow>
           let a1 = (if cc_auth_mode (ag_cfg a) = AuthModeJWT \<and> effective_jwt_send_via a = JWTSendViaHeader
                     then a\<lparr>ag_first_frame := False\<rparr> else a);
               (rep, a2) = flush_pending env now a1
           in (send (fst rep), a2))))"

subsection \<open>Reconnecting\<close>

text \<open>The doubling loop; the product wraps.\<close>

fun grow_delay :: "nat \<Rightarrow> duration \<Rightarrow> duration \<Rightarrow> duration" where
  "grow_delay 0 delay mx = delay"
| "grow_delay (Suc n) delay mx = (if delay < mx then grow_delay n (wrap64 (delay * 2)) mx else delay)"

text \<open>\<open>rnd n\<close> is what \<open>rand.Int63n(n)\<close> returns for a positive \<open>n\<close>; for another one it panics, which is \<open>None\<close>.\<close>

definition backoff_delay :: "client_config \<Rightarrow> nat \<Rightarrow> gerr option \<Rightarrow> (int \<Rightarrow> int) \<Rightarrow> duration option" where
  "backoff_delay cfg attempt err rnd =
     (if (case err of None \<Rightarrow> False | Some e \<Rightarrow> is_err e ErrTLSHandshake) then Some ReconnectTLSFailure
      else
        let rc = cc_reconnect cfg;
            initial = (if rn_initial_delay rc \<le> 0 then ReconnectInitial else rn_initial_delay rc);
            mx = (if rn_max_delay rc \<le> 0 then ReconnectMax else rn_max_delay rc);
            jitter = (if rn_jitter rc < 0 then 0 else rn_jitter rc);
            grown = grow_delay (attempt - 1) initial mx;
            delay = (if grown > mx then mx else grown)
        in if jitter > 0 then
             (let n = wrap64 (jitter * 2) in
              if n \<le> 0 then None
              else let d = wrap64 (delay + (rnd n - jitter)) in Some (if d < 0 then 0 else d))
           else Some delay)"

text \<open>One round of the loop: a dial that failed, or a session that ended with its error, and whether the
  context is still alive when the loop looks.\<close>

datatype round = DialFailed gerr | SessionEnded "gerr option" bool

text \<open>The waits of the loop and the attempt count after each round; it returns when the context ended.\<close>

fun reconnect_loop :: "client_config \<Rightarrow> (nat \<Rightarrow> int \<Rightarrow> int) \<Rightarrow> nat \<Rightarrow> round list \<Rightarrow> (nat \<times> duration option) list" where
  "reconnect_loop cfg rnd attempt [] = []"
| "reconnect_loop cfg rnd attempt (DialFailed e # rs) =
     (Suc attempt, backoff_delay cfg (Suc attempt) (Some e) (rnd (length rs))) # reconnect_loop cfg rnd (Suc attempt) rs"
| "reconnect_loop cfg rnd attempt (SessionEnded e alive # rs) =
     (if alive then (1, backoff_delay cfg 1 e (rnd (length rs))) # reconnect_loop cfg rnd 1 rs else [])"

end
