(* ===== verification/Client_Agent_Props.thy ===== *)
theory Client_Agent_Props
  imports Client_Agent
begin

text \<open>The agent: the closed form of the reconnect delay, the watched paths, how a token is sent.\<close>

subsection \<open>Reconnect delays\<close>

lemma grow_delay_closed:
  assumes "0 < d" "mx \<le> 2 ^ 62"
  shows "min (grow_delay n d mx) mx = min (d * 2 ^ n) mx"
  using assms
proof (induction n arbitrary: d)
  case (Suc n)
  show ?case
  proof (cases "d < mx")
    case True
    then have "wrap64 (d * 2) = d * 2" using Suc.prems by (simp add: wrap64_def)
    then show ?thesis using Suc True by (simp add: ac_simps)
  next
    case False
    have "d * 1 \<le> d * 2 ^ Suc n" using Suc.prems by (intro mult_left_mono one_le_power) auto
    then show ?thesis using False by simp
  qed
qed simp

definition jittered :: "duration \<Rightarrow> duration \<Rightarrow> duration \<Rightarrow> bool" where
  "jittered base j d = (max 0 (base - j) \<le> d \<and> d \<le> base + max 0 (j - 1))"

text \<open>The two settings after the defaults of \<open>backoffDelay\<close>.\<close>

definition first_delay :: "client_config \<Rightarrow> duration" where
  "first_delay cfg = (let i = rn_initial_delay (cc_reconnect cfg) in if i \<le> 0 then ReconnectInitial else i)"

definition last_delay :: "client_config \<Rightarrow> duration" where
  "last_delay cfg = (let m = rn_max_delay (cc_reconnect cfg) in if m \<le> 0 then ReconnectMax else m)"

lemma delays_positive [simp]: "0 < first_delay cfg" "0 < last_delay cfg"
  by (auto simp: first_delay_def last_delay_def Let_def ReconnectInitial_def ReconnectMax_def seconds_def)

definition delay_base :: "client_config \<Rightarrow> nat \<Rightarrow> duration" where
  "delay_base cfg attempt = min (first_delay cfg * 2 ^ (attempt - 1)) (last_delay cfg)"

text \<open>C17: The reconnect delay is the closed form of exponential back-off: attempt k waits min(initial * 2^(k-1), max),
  moved by less than the jitter and never negative; after a failed TLS handshake it is a minute. It does not panic
  and does not wrap as long as max and jitter are at most 2^62 nanoseconds (146 years).\<close>

theorem backoff_closed_form:
  assumes "last_delay cfg \<le> 2 ^ 62" "rn_jitter (cc_reconnect cfg) < 2 ^ 62"
    "\<And>n. 0 < n \<Longrightarrow> 0 \<le> rnd n \<and> rnd n < n"
  shows "case backoff_delay cfg attempt err rnd of None \<Rightarrow> False | Some d \<Rightarrow>
    if (case err of None \<Rightarrow> False | Some e \<Rightarrow> is_err e ErrTLSHandshake) then d = seconds 60
    else jittered (delay_base cfg attempt) (max 0 (rn_jitter (cc_reconnect cfg))) d"
proof (cases "case err of None \<Rightarrow> False | Some e \<Rightarrow> is_err e ErrTLSHandshake")
  case True
  then show ?thesis by (simp add: backoff_delay_def ReconnectTLSFailure_def)
next
  case False
  let ?j = "rn_jitter (cc_reconnect cfg)"
  have base: "min (grow_delay (attempt - 1) (first_delay cfg) (last_delay cfg)) (last_delay cfg) = delay_base cfg attempt"
    using assms(1) by (simp add: delay_base_def grow_delay_closed)
  have range: "0 \<le> delay_base cfg attempt" "delay_base cfg attempt \<le> 2 ^ 62"
    using assms(1) by (auto simp: delay_base_def less_imp_le)
  have eq: "backoff_delay cfg attempt err rnd = (if 0 < ?j then
      (if wrap64 (?j * 2) \<le> 0 then None else let d = wrap64 (delay_base cfg attempt + (rnd (wrap64 (?j * 2)) - ?j))
        in Some (if d < 0 then 0 else d)) else Some (delay_base cfg attempt))"
    unfolding backoff_delay_def using False base [symmetric]
    by (auto simp: Let_def first_delay_def last_delay_def min_def)
  show ?thesis
  proof (cases "0 < ?j")
    case True
    then have w: "wrap64 (?j * 2) = ?j * 2" using assms(2) by (simp add: wrap64_def)
    with True have r: "0 \<le> rnd (?j * 2)" "rnd (?j * 2) < ?j * 2" using assms(3) [of "?j * 2"] by auto
    have "wrap64 (delay_base cfg attempt + (rnd (?j * 2) - ?j)) = delay_base cfg attempt + (rnd (?j * 2) - ?j)"
      using r range True assms(2) by (simp add: wrap64_def)
    then show ?thesis using r range True False by (auto simp: eq w Let_def jittered_def)
  next
    case False
    then show ?thesis using range \<open>\<not> (case err of None \<Rightarrow> False | Some e \<Rightarrow> is_err e ErrTLSHandshake)\<close>
      by (auto simp: eq jittered_def)
  qed
qed

text \<open>A node that runs one profile and sends its token the automatic way.\<close>

definition some_client :: client_config where
  "some_client = \<lparr>cc_server = ''wss://h'', cc_auth_mode = AuthModeJWT,
     cc_jwt = \<lparr>jk_token_env = [], jk_token_file = ''/t'', jk_send_via = JWTSendViaAuto\<rparr>,
     cc_reverse = \<lparr>rc_listen = [], rc_pki = \<lparr>rk_ca_cert = [], rk_server_cert = [], rk_server_key = []\<rparr>, rc_allowed_peers = []\<rparr>,
     cc_node_id = ''n'', cc_profiles = [], cc_pki = \<lparr>cp_ca_cert = [], cp_client_cert = [], cp_client_key = []\<rparr>,
     cc_reconnect = \<lparr>rn_initial_delay = 0, rn_jitter = seconds 1, rn_max_delay = 0\<rparr>,
     cc_cli_upgrade = \<lparr>cu_enabled = False, cu_initial_delay = 0, cu_interval = 0\<rparr>, cc_log = \<lparr>lc_level = [], lc_format = []\<rparr>\<rparr>"

theorem backoff_closed_form_witness:
  "jittered (delay_base some_client 3) (seconds 1) (the (backoff_delay some_client 3 None (\<lambda>_. 0))) \<and>
    delay_base some_client 3 = seconds 20"
proof -
  have j: "rn_jitter (cc_reconnect some_client) = seconds 1" by (simp add: some_client_def)
  have m: "last_delay some_client = seconds 60" by (simp add: last_delay_def some_client_def ReconnectMax_def)
  have "delay_base some_client 3 = seconds 20"
    by (simp add: delay_base_def m) (simp add: first_delay_def some_client_def ReconnectInitial_def seconds_def)
  then show ?thesis
    using backoff_closed_form [where cfg = some_client and rnd = "\<lambda>_. 0" and attempt = 3 and err = None] by (auto simp: m j seconds_def split: option.splits)
qed

subsection \<open>Paths without repetitions\<close>

text \<open>The first occurrence of each element, in order.\<close>

definition firsts :: "'a list \<Rightarrow> 'a list" where "firsts xs = rev (remdups (rev xs))"

lemma firsts_Nil [simp]: "firsts [] = []"
  by (simp add: firsts_def)

lemma firsts_snoc: "firsts (xs @ [x]) = (if x \<in> set xs then firsts xs else firsts xs @ [x])"
  by (simp add: firsts_def)

lemma set_firsts [simp]: "set (firsts xs) = set xs"
  by (simp add: firsts_def)

lemma dedupe_paths_firsts: "dedupe_paths ps = firsts (filter (\<lambda>q. q \<noteq> ''.'' \<and> q \<noteq> []) (map path_clean ps))"
  by (induction ps rule: rev_induct) (simp_all add: dedupe_paths_def Let_def firsts_snoc)

lemma dedupe_clean_snoc: "dedupe_clean (ps @ [p]) out = dedupe_clean [p] (dedupe_clean ps out)"
  by (induction ps arbitrary: out) (simp_all add: Let_def)

lemma dedupe_clean_firsts: "dedupe_clean ps [] = firsts (filter (\<lambda>q. q \<noteq> ''.'' \<and> q \<noteq> []) (map path_clean ps))"
  by (induction ps rule: rev_induct) (simp_all add: dedupe_clean_snoc Let_def firsts_snoc)

lemma dedupe_paths_clean: "dedupe_paths ps = dedupe_clean ps []"
  by (simp add: dedupe_paths_firsts dedupe_clean_firsts)

lemma unique_strings_firsts: "unique_strings xs = firsts (filter (\<lambda>x. x \<noteq> []) xs)"
  by (induction xs rule: rev_induct) (simp_all add: unique_strings_def firsts_snoc)

text \<open>The three hand-written de-duplications, of the client, of the format registry and of the path expansion,
  are the same reference function: the first occurrences, in order, of the elements that are kept; and the
  client watches the credential file first and no path twice.\<close>

theorem dedup_is_first_occurrences:
  "dedupe_paths ps = firsts (filter (\<lambda>q. q \<noteq> ''.'' \<and> q \<noteq> []) (map path_clean ps)) \<and>
   dedupe_paths ps = dedupe_clean ps [] \<and> unique_strings xs = firsts (filter (\<lambda>x. x \<noteq> []) xs) \<and>
   (case resolve_binding_paths f b of Inl e \<Rightarrow> is_err e ErrConfigInvalid
    | Inr (cred, ws) \<Rightarrow> resolve_credential_path f (pb_dir b) = Inr cred \<and> distinct ws \<and> (\<exists>rest. ws = cred # rest))"
proof (intro conjI)
  show "case resolve_binding_paths f b of Inl e \<Rightarrow> is_err e ErrConfigInvalid
    | Inr (cred, ws) \<Rightarrow> resolve_credential_path f (pb_dir b) = Inr cred \<and> distinct ws \<and> (\<exists>rest. ws = cred # rest)"
  proof (cases "resolve_credential_path f (pb_dir b)")
    case (Inr cred)
    note c = resolve_credential_path_Inr [OF Inr]
    have first: "distinct (dedupe_paths (cred # ws)) \<and> (\<exists>rest. dedupe_paths (cred # ws) = cred # rest)" for ws
      unfolding dedupe_paths_clean using c dedupe_clean_prefix [of ws "[cred]"] dedupe_clean_distinct [of "[cred]" ws] by auto
    show ?thesis
    proof (cases "pb_watch_files b = []")
      case True
      show ?thesis
      proof (cases "resolve_watch_paths f (pb_dir b)")
        case (Inr ws)
        then obtain rest where "ws = cred # rest"
          using resolve_watch_paths_Inr(1) [OF Inr] \<open>resolve_credential_path f (pb_dir b) = Inr cred\<close> by auto
        then show ?thesis using Inr first True \<open>resolve_credential_path f (pb_dir b) = Inr cred\<close>
          by (simp add: resolve_binding_paths_def)
      qed (use True Inr in \<open>simp add: resolve_binding_paths_def\<close>)
    qed (use Inr first in \<open>simp add: resolve_binding_paths_def\<close>)
  qed (simp add: resolve_binding_paths_def)
qed (simp_all add: dedupe_paths_firsts dedupe_clean_firsts unique_strings_firsts)

end
