(* ===== verification/Session_Opening.thy ===== *)
theory Session_Opening
  imports Server_Scenario Client_Agent_Props
begin

text \<open>
  The client and the server together: what the agent dials with and sends first, read by the server's handshake. A
  message is followed from the agent through the codec to the frame the other side decodes.
\<close>

subsection \<open>Messages on the wire\<close>

text \<open>What the peer decodes of a message.\<close>

definition frame_of :: "string \<Rightarrow> gotime \<Rightarrow> outgoing \<Rightarrow> envelope" where
  "frame_of eid ts m = received \<lparr>env_type = out_kind m, env_v = EnvelopeV, env_id = eid, env_ts = ts,
     env_payload = Some (out_payload m)\<rparr>"

lemma valid_out_kind [simp]: "valid_kind (out_kind m)"
  by (cases m) (simp_all add: valid_kind_def)

lemma frame_of_sel [simp]: "env_type (frame_of eid ts m) = out_kind m" "env_v (frame_of eid ts m) = EnvelopeV"
  "payload_as dec (frame_of eid ts m) = dec (out_payload m)"
  by (simp_all add: frame_of_def received_def payload_as_def json_raw_def)

lemma sent_frame:
  assumes "valid_utf8 eid" "time_ok ts" "time_writable ts" "text_ok (Some (out_payload m))"
  shows "send_envelope send eid ts m = send (frame_of eid ts m)"
    "\<exists>w. encode_envelope (frame_of eid ts m) = Inr w \<and> unmarshal w = Inr (frame_of eid ts m)"
proof -
  let ?e = "\<lparr>env_type = out_kind m, env_v = EnvelopeV, env_id = eid, env_ts = ts, env_payload = Some (out_payload m)\<rparr>"
  have ok: "envelope_ok ?e" using assms by (simp add: envelope_ok_def)
  have "json_unmarshal (json_text (enc_envelope ?e)) = Some (enc_envelope ?e)"
    by (intro json_unmarshal_text enc_envelope_wf) (use ok in simp_all)
  moreover have "dec_struct dec_envelope_member (enc_envelope ?e) zero_envelope = Some (received ?e)"
    using assms(2) by (intro dec_enc_envelope) simp_all
  ultimately show "send_envelope send eid ts m = send (frame_of eid ts m)"
    using assms(3) by (simp add: send_envelope_def marshal_def frame_of_def)
  show "\<exists>w. encode_envelope (frame_of eid ts m) = Inr w \<and> unmarshal w = Inr (frame_of eid ts m)"
    using received_wire [OF ok] assms(3) by (simp add: frame_of_def)
qed

subsection \<open>The header\<close>

lemma take_field_printable: "list_all printable s \<Longrightarrow> take_field (s @ t) = (s @ fst (take_field t), snd (take_field t))"
proof (induction s)
  case (Cons c s)
  then show ?case by (subst take_field.simps) (simp add: strip_space_printable split: prod.splits)
qed simp

lemma trim_left_printable: "printable c \<Longrightarrow> trim_left (c # s) = c # s"
  by (simp add: trim_left_def drop_spaces_None strip_space_printable)

lemma strip_blank [simp]: "strip_space (CHR 0x20 # s) = Some s"
  by (simp add: strip_space_def space_encodings_def)

lemma trim_left_blank: "printable c \<Longrightarrow> trim_left (CHR 0x20 # c # s) = c # s"
  unfolding trim_left_def by (subst drop_spaces.simps) (simp add: drop_spaces_None strip_space_printable)

lemma fields_one:
  assumes "s \<noteq> []" "list_all printable s"
  shows "str_fields s = [s]"
proof -
  have "take_field s = (s, [])" using take_field_printable [OF assms(2), of "[]"] by (simp add: take_field.simps)
  moreover have "trim_left s = s" using assms by (cases s) (simp_all add: trim_left_printable)
  moreover have "str_fields [] = []" by (simp add: str_fields.simps trim_left_def drop_spaces.simps strip_space_def space_encodings_def)
  ultimately show ?thesis using assms by (subst str_fields.simps) (simp add: Let_def)
qed

lemma fields_two:
  assumes "s \<noteq> []" "list_all printable s" "t \<noteq> []" "list_all printable t"
  shows "str_fields (s @ CHR 0x20 # t) = [s, t]"
proof -
  obtain c cs where t: "t = c # cs" "printable c" using assms(3,4) by (cases t) auto
  have blank: "take_field (CHR 0x20 # t) = ([], CHR 0x20 # t)"
    by (subst take_field.simps) simp
  have "take_field (s @ CHR 0x20 # t) = (s, CHR 0x20 # t)"
    using take_field_printable [OF assms(2), of "CHR 0x20 # t"] blank by simp
  moreover have "trim_left (s @ CHR 0x20 # t) = s @ CHR 0x20 # t" using assms(1,2) by (cases s) (simp_all add: trim_left_printable)
  moreover have "str_fields (CHR 0x20 # t) = str_fields t"
    using t trim_left_blank [of c cs] trim_left_printable [of c cs] take_field_printable [OF assms(4), of "[]"]
    by (subst (1 2) str_fields.simps) (simp add: Let_def take_field.simps [of "[]"])
  ultimately show ?thesis using assms by (subst str_fields.simps) (simp add: Let_def fields_one)
qed

definition token_ok :: "string \<Rightarrow> bool" where "token_ok t = (t \<noteq> [] \<and> list_all printable t)"

lemma bearer_read:
  assumes "token_ok token"
  shows "trim_space (''Bearer '' @ token) = ''Bearer '' @ token" "bearer_token (''Bearer '' @ token) = Inr token"
proof -
  have "last (''Bearer '' @ token) = last token" "list_all printable ''Bearer''"
    using assms by (simp_all add: token_ok_def printable_def)
  then show "trim_space (''Bearer '' @ token) = ''Bearer '' @ token"
    using assms by (intro trim_printable_line) (simp_all add: token_ok_def list_all_iff printable_def)
  have "''Bearer '' @ token = ''Bearer'' @ CHR 0x20 # token" by simp
  then have "str_fields (''Bearer '' @ token) = [''Bearer'', token]"
    using assms fields_two [of "''Bearer''" token] by (simp add: token_ok_def printable_def)
  then show "bearer_token (''Bearer '' @ token) = Inr token"
    using assms by (simp add: bearer_token_def equal_fold_ascii_def token_ok_def)
qed

subsection \<open>Opening a session with a token\<close>

text \<open>The client and the server agree on who the token is for.\<close>

definition token_fits ::
  "jwt_lib \<Rightarrow> authenticator \<Rightarrow> gotime \<Rightarrow> string \<Rightarrow> host_env \<Rightarrow> agent \<Rightarrow> string \<Rightarrow> jwt_claims \<Rightarrow> bool" where
  "token_fits lib srv now profile env a token claims =
     (cc_auth_mode (ag_cfg a) = AuthModeJWT \<and> load_jwt_token env a = Inr token \<and> token_ok token \<and>
      au_mode srv = AuthModeJWT \<and> au_first_frame srv \<and> verify_jwt lib srv now token profile = Inr claims \<and>
      jc_subject claims = cc_node_id (ag_cfg a) \<and> jc_subject claims \<noteq> [])"

definition jwt_frames :: "string \<Rightarrow> agent \<Rightarrow> string \<Rightarrow> outgoing list" where
  "jwt_frames os a token = [OutAuthJWT \<lparr>aj_token = token\<rparr>, OutHello (hello_of os a)]"

text \<open>The session a server makes for the token.\<close>

definition session_of :: "jwt_claims \<Rightarrow> string \<Rightarrow> nat \<Rightarrow> session" where
  "session_of claims profile sid = \<lparr>se_id = sid, se_profile = profile, se_peer = [], se_identity = jc_subject claims,
     se_mode = AuthModeJWT, se_node = jc_subject claims\<rparr>"

lemma header_accepted:
  assumes "token_fits lib srv now profile env a token claims" "store_get ps profile \<noteq> None"
  shows "handle_ws lib ps srv now \<lparr>rq_tls = Some peer, rq_authorization = ''Bearer '' @ token\<rparr> profile =
      (101, Inr (jwt_handshake claims))"
    "handle_ws lib ps srv now \<lparr>rq_tls = Some peer, rq_authorization = []\<rparr> profile =
      (101, Inr (zero_handshake\<lparr>hs_mode := AuthModeJWT, hs_needs_jwt := True\<rparr>))"
  using assms bearer_read [of token]
  by (simp_all add: token_fits_def handle_ws_def pre_upgrade_def Let_def AuthModeJWT_def AuthModeMTLS_def)

lemma frames_accepted:
  assumes "token_fits lib srv now profile env a token claims"
    "hs = jwt_handshake claims \<or> hs = zero_handshake\<lparr>hs_mode := AuthModeJWT, hs_needs_jwt := True\<rparr>"
  shows "serve_handshake lib (Some srv) now profile hs (Frame (frame_of i t (OutAuthJWT \<lparr>aj_token = token\<rparr>)))
      (Frame (frame_of j u (OutHello (hello_of os a)))) sid = Inr (jwt_handshake claims, session_of claims profile sid)"
  using assms
  by (auto simp: token_fits_def serve_handshake_def complete_jwt_def read_kind_def auth_jwt_rt auth_jwt_ok_def hello_rt
      hello_ok_def hello_of_def session_of_def jwt_handshake_def zero_handshake_def)

lemma client_side:
  assumes "cc_auth_mode (ag_cfg a) = AuthModeJWT" "load_jwt_token env a = Inr token"
    "jk_send_via (cc_jwt (ag_cfg a)) \<in> {JWTSendViaAuto, JWTSendViaHeader, JWTSendViaFirstFrame}"
  shows "if effective_jwt_send_via a = JWTSendViaFirstFrame
    then agent_dial env a = Inr None \<and> opening_frames env os a = Inr (jwt_frames os a token)
    else agent_dial env a = Inr (Some (''Bearer '' @ token)) \<and> opening_frames env os a = Inr [OutHello (hello_of os a)]"
  using assms
  by (auto simp: agent_dial_def dial_headers_def opening_frames_def effective_jwt_send_via_def jwt_frames_def ebind_def
      JWTSendViaAuto_def JWTSendViaHeader_def JWTSendViaFirstFrame_def)

text \<open>C15: A node with a token that fits opens a session, however it is set to send the token: the token goes out once,
  in the header or in the first frame but not in both, the server accepts the upgrade, reads it from where it is, and makes
  a session of the node the token names.\<close>

theorem token_session_opens:
  assumes "token_fits lib srv now profile env a token claims" "store_get ps profile \<noteq> None"
    "jk_send_via (cc_jwt (ag_cfg a)) \<in> {JWTSendViaAuto, JWTSendViaHeader, JWTSendViaFirstFrame}"
  shows "\<exists>header frames hs. agent_dial env a = Inr header \<and> opening_frames env os a = Inr frames \<and>
    handle_ws lib ps srv now \<lparr>rq_tls = Some peer, rq_authorization = (case header of None \<Rightarrow> [] | Some x \<Rightarrow> x)\<rparr> profile =
      (101, Inr hs) \<and>
    (if hs_needs_jwt hs then header = None \<and> frames = jwt_frames os a token
     else header = Some (''Bearer '' @ token) \<and> frames = [OutHello (hello_of os a)]) \<and>
    serve_handshake lib (Some srv) now profile hs (Frame (frame_of i t (hd frames))) (Frame (frame_of j u (last frames))) sid =
      Inr (jwt_handshake claims, session_of claims profile sid)"
proof -
  note f = assms(1) [unfolded token_fits_def]
  note side = client_side [OF f [THEN conjunct1] f [THEN conjunct2, THEN conjunct1] assms(3), of os]
  have direct: "serve_handshake lib (Some srv) now profile (jwt_handshake claims) r (Frame (frame_of j u (OutHello (hello_of os a)))) sid =
      Inr (jwt_handshake claims, session_of claims profile sid)" for r
    using frames_accepted [OF assms(1), of "jwt_handshake claims"]
    by (simp add: serve_handshake_def jwt_handshake_def zero_handshake_def)
  show ?thesis
  proof (cases "effective_jwt_send_via a = JWTSendViaFirstFrame")
    case True
    with side have "agent_dial env a = Inr None" "opening_frames env os a = Inr (jwt_frames os a token)" by simp_all
    then show ?thesis
      using header_accepted(2) [OF assms(1,2)] frames_accepted [OF assms(1), of "zero_handshake\<lparr>hs_mode := AuthModeJWT, hs_needs_jwt := True\<rparr>"]
      by (simp add: jwt_frames_def)
  next
    case False
    with side have "agent_dial env a = Inr (Some (''Bearer '' @ token))" "opening_frames env os a = Inr [OutHello (hello_of os a)]"
      by simp_all
    then show ?thesis
      using header_accepted(1) [OF assms(1,2)] direct by (simp add: jwt_handshake_def zero_handshake_def)
  qed
qed

text \<open>The demonstration node and server of the token scenario.\<close>

definition token_agent :: agent where
  "token_agent = \<lparr>ag_cfg = some_client\<lparr>cc_node_id := ''node-a''\<rparr>, ag_format = hd builtin_formats, ag_profile = ''demo'', ag_dir = ''/d'',
     ag_path = ''/d/c'', ag_watch_paths = [''/d/c''], ag_account_meta = [], ag_version = ''1'', ag_fail_fast = False,
     ag_jwt_override = ''tok'', ag_first_frame = False, ag_pending = [], ag_refresh_at = zero_time, ag_refresh_fp = [],
     ag_refresh_reason = []\<rparr>"

lemma token_fits_demo: "token_fits demo_jwt_lib token_auth (seconds 1000) ''demo'' env token_agent ''tok'' demo_claims"
proof -
  have "verify_jwt demo_jwt_lib token_auth (seconds 1000) ''tok'' ''demo'' = Inr demo_claims"
    by (simp add: verify_jwt_def token_auth_def demo_verify allows_profile_def demo_claims_def)
  then show ?thesis
    by (simp add: token_fits_def token_agent_def some_client_def load_jwt_token_def trim_tok token_ok_def printable_def
        token_auth_def demo_claims_def)
qed

lemma token_agent_auto: "jk_send_via (cc_jwt (ag_cfg token_agent)) = JWTSendViaAuto" "\<not> ag_first_frame token_agent"
  by (simp_all add: token_agent_def some_client_def)

theorem token_session_opens_witness:
  "\<exists>frames hs. opening_frames (some_secret_host []) ''linux'' token_agent = Inr frames \<and>
    serve_handshake demo_jwt_lib (Some token_auth) (seconds 1000) ''demo'' hs (Frame (frame_of ''1'' demo_now (hd frames)))
      (Frame (frame_of ''2'' demo_now (last frames))) 7 = Inr (jwt_handshake demo_claims, session_of demo_claims ''demo'' 7)"
  using token_session_opens [OF token_fits_demo, where ps = demo_store and env = "some_secret_host []" and peer = "[]" and os = "''linux''"
      and i = "''1''" and t = demo_now and j = "''2''" and u = demo_now and sid = 7]
  by (auto simp: token_agent_auto)

subsection \<open>A proxy that drops the header\<close>

text \<open>C16: With the automatic setting a node whose Authorization header is lost on the way is served on its second attempt: the
  server answers its hello with a 1008 close, the client records that close as the connection's error, changes to
  the first frame, dials again without a header and is served.\<close>

theorem stripped_header_recovers:
  assumes "token_fits lib srv now profile env a token claims" "store_get ps profile \<noteq> None"
    "jk_send_via (cc_jwt (ag_cfg a)) = JWTSendViaAuto" "\<not> ag_first_frame a"
  defines "a' \<equiv> a\<lparr>ag_first_frame := True\<rparr>" and "lost \<equiv> WsCloseError 1008 MsgAuthJWTRequired"
  shows "\<exists>hs. handle_ws lib ps srv now \<lparr>rq_tls = Some peer, rq_authorization = []\<rparr> profile = (101, Inr hs) \<and>
    opening_frames env os a = Inr [OutHello (hello_of os a)] \<and>
    serve_handshake lib (Some srv) now profile hs (Frame (frame_of i t (OutHello (hello_of os a)))) r sid =
      Inl (1008, ErrText (Errorf MsgAuthJWTRequired [] None)) \<and>
    session_open env cnow os (\<lambda>_. None) ctx [ConnEnded (wc_err (read_step (Inl lost) (new_conn buf)))] a = (Some lost, a') \<and>
    agent_dial env a' = Inr None \<and> opening_frames env os a' = Inr (jwt_frames os a' token) \<and>
    serve_handshake lib (Some srv) now profile hs (Frame (frame_of j u (hd (jwt_frames os a' token))))
      (Frame (frame_of k w (last (jwt_frames os a' token)))) sid' = Inr (jwt_handshake claims, session_of claims profile sid')"
proof -
  note f = assms(1) [unfolded token_fits_def]
  let ?hs = "zero_handshake\<lparr>hs_mode := AuthModeJWT, hs_needs_jwt := True\<rparr>"
  have "load_jwt_token env a' = load_jwt_token env a" by (simp add: a'_def load_jwt_token_def Let_def)
  then have fits': "token_fits lib srv now profile env a' token claims"
    using f by (auto simp: token_fits_def a'_def)
  have via: "effective_jwt_send_via a = JWTSendViaAuto" "effective_jwt_send_via a' = JWTSendViaFirstFrame"
    using f assms(3,4) by (simp_all add: effective_jwt_send_via_def a'_def JWTSendViaFirstFrame_def)
  have frames: "opening_frames env os a = Inr [OutHello (hello_of os a)]"
    using via by (simp add: opening_frames_def JWTSendViaAuto_def JWTSendViaFirstFrame_def)
  have conn: "wc_err (read_step (Inl lost) (new_conn buf)) = Some lost"
    by (simp add: lost_def read_step_def stop_reading_def record_err_def clean_close_def tear_down_def new_conn_def)
  have "session_open env cnow os (\<lambda>_. None) ctx [ConnEnded (Some lost)] a = (Some lost, a')"
    using f assms(3) via
    by (simp add: session_open_def frames a'_def should_switch_jwt_to_first_frame_def lost_def)
  moreover have "agent_dial env a' = Inr None" "opening_frames env os a' = Inr (jwt_frames os a' token)"
    using client_side [of a' env token os] f via assms(3) fits' by (simp_all add: a'_def token_fits_def)
  moreover have "serve_handshake lib (Some srv) now profile ?hs (Frame (frame_of i t (OutHello (hello_of os a)))) r sid =
      Inl (1008, ErrText (Errorf MsgAuthJWTRequired [] None))"
    by (simp add: serve_handshake_def complete_jwt_def read_kind_def KindHello_def KindAuthJWT_def)
  moreover have "serve_handshake lib (Some srv) now profile ?hs (Frame (frame_of j u (hd (jwt_frames os a' token))))
      (Frame (frame_of k w (last (jwt_frames os a' token)))) sid' = Inr (jwt_handshake claims, session_of claims profile sid')"
    using frames_accepted [OF fits'] by (simp add: jwt_frames_def)
  ultimately show ?thesis
    using header_accepted(2) [OF assms(1,2), of peer] frames by (intro exI [of _ ?hs]) (simp add: conn)
qed

theorem stripped_header_recovers_witness:
  "session_open (some_secret_host []) demo_now ''linux'' (\<lambda>_. None) DeadlineExceeded
      [ConnEnded (wc_err (read_step (Inl (WsCloseError 1008 MsgAuthJWTRequired)) (new_conn 0)))] token_agent =
    (Some (WsCloseError 1008 MsgAuthJWTRequired), token_agent\<lparr>ag_first_frame := True\<rparr>) \<and>
   agent_dial (some_secret_host []) (token_agent\<lparr>ag_first_frame := True\<rparr>) = Inr None"
  using stripped_header_recovers [OF token_fits_demo [of "some_secret_host []"], of demo_store "[]"
      "''linux''" "''1''" demo_now TimedOutRead 1 demo_now DeadlineExceeded 0 "''2''" demo_now "''3''" demo_now 2]
  by (auto simp: token_agent_auto)

end
