(* ===== verification/Client_Apply_Props.thy ===== *)
theory Client_Apply_Props
  imports Client_Apply
begin

text \<open>
  What the disk can look like while a node applies a truth, and afterwards: no state of the run has a torn
  credential file, success means the file has the fingerprint, failure leaves or restores the former
  bytes. One gap is shown too: without a former file a rejected write stays.
\<close>

subsection \<open>Names of the files\<close>

lemma backup_names [simp]: "backup_path path n \<noteq> path" "path \<noteq> backup_path path n"
  "temp_of env (backup_path path n) \<noteq> path" "temp_of env path \<noteq> backup_path path n"
  "path \<noteq> temp_of env (backup_path path n)" "backup_path path n \<noteq> temp_of env path"
  by (auto simp: backup_path_def temp_of_def make_temp_path_def split: sum.splits)

subsection \<open>States of the run\<close>

text \<open>The credential file is as it was, or has all the new bytes, or all its former bytes again.\<close>

definition whole :: "files \<Rightarrow> string \<Rightarrow> string \<Rightarrow> files \<Rightarrow> bool" where
  "whole fs path raw s = (s path = fs path \<or> s path = Some \<lparr>fl_data = raw, fl_mode = CredentialsFileMode\<rparr> \<or>
     (case fs path of None \<Rightarrow> False | Some f \<Rightarrow> s path = Some \<lparr>fl_data = fl_data f, fl_mode = CredentialsFileMode\<rparr>))"

lemma whole_start [simp]: "whole fs path raw fs"
  by (simp add: whole_def)

lemma whole_remove [simp]: "b \<noteq> path \<Longrightarrow> whole fs path raw (remove_file r b s) = whole fs path raw s"
  by (simp add: whole_def remove_file_def split: option.splits)

text \<open>What a backup leaves: the copy beside the untouched file.\<close>

lemma backup_states:
  assumes "read_with_backup fault nanos env path fs = (r, tr)"
  shows "list_all (\<lambda>s. s path = fs path) tr" "tr \<noteq> []" "hd tr = fs"
    "r = Inr (d, b) \<Longrightarrow> b = backup_path path nanos \<and>
       (\<exists>f. fs path = Some f \<and> last tr = fs(b \<mapsto> \<lparr>fl_data = fl_data f, fl_mode = CredentialsFileMode\<rparr>))"
    "r = Inl e \<Longrightarrow> is_err e ErrApplyFailed"
proof -
  let ?b = "backup_path path nanos"
  have "list_all (\<lambda>s. s path = fs path) tr \<and> tr \<noteq> [] \<and> hd tr = fs \<and>
    (r = Inr (d, b) \<longrightarrow> b = ?b \<and> (\<exists>f. fs path = Some f \<and>
      last tr = fs(b \<mapsto> \<lparr>fl_data = fl_data f, fl_mode = CredentialsFileMode\<rparr>))) \<and> (r = Inl e \<longrightarrow> is_err e ErrApplyFailed)"
  proof (cases "read_file fault fs path")
    case (Inl err)
    then show ?thesis using assms by (auto simp: read_with_backup_def)
  next
    case (Inr data)
    obtain r1 tr1 where w: "atomic_write env ?b data CredentialsFileMode fs = (r1, tr1)" by fastforce
    obtain f where f: "fs path = Some f" "fl_data f = data"
      using Inr by (auto simp: read_file_def split: option.splits)
    have eq: "tr = tr1" "r = (case r1 of Some e \<Rightarrow> Inl e | None \<Rightarrow> Inr (data, ?b))"
      using assms by (simp_all add: read_with_backup_def Inr w Let_def)
    have "list_all (\<lambda>s. s path = fs path) tr1"
      using atomic_write_states(1) [OF w] by (auto simp: list_all_iff write_state_def)
    then show ?thesis using atomic_write_states(2-5) [OF w] eq f by (auto split: option.splits)
  qed
  then show "list_all (\<lambda>s. s path = fs path) tr" "tr \<noteq> []" "hd tr = fs"
    "r = Inr (d, b) \<Longrightarrow> b = backup_path path nanos \<and>
       (\<exists>f. fs path = Some f \<and> last tr = fs(b \<mapsto> \<lparr>fl_data = fl_data f, fl_mode = CredentialsFileMode\<rparr>))"
    "r = Inl e \<Longrightarrow> is_err e ErrApplyFailed" by blast+
qed

text \<open>What the copy is good for.\<close>

definition copy_of :: "files \<Rightarrow> string \<Rightarrow> string option \<Rightarrow> files \<Rightarrow> bool" where
  "copy_of fs path backup s \<longleftrightarrow> (\<forall>b. backup = Some b \<longrightarrow> (\<exists>x f. b = backup_path path x \<and> fs path = Some f \<and>
     s b = Some \<lparr>fl_data = fl_data f, fl_mode = CredentialsFileMode\<rparr>))"

lemma undo_states:
  assumes "copy_of fs path backup (last tr)" "list_all (whole fs path raw) tr" "tr \<noteq> []"
  shows "list_all (whole fs path raw) (undo env backup path tr)" "undo env backup path tr \<noteq> []"
    "hd (undo env backup path tr) = hd tr"
proof -
  have "list_all (whole fs path raw) (undo env backup path tr) \<and> undo env backup path tr \<noteq> [] \<and>
    hd (undo env backup path tr) = hd tr"
  proof (cases backup)
    case None
    then show ?thesis using assms by (simp add: undo_def)
  next
    case (Some b)
    then obtain x f where b: "b = backup_path path x" "fs path = Some f"
      "last tr b = Some \<lparr>fl_data = fl_data f, fl_mode = CredentialsFileMode\<rparr>"
      using assms(1) by (auto simp: copy_of_def)
    obtain r1 tr1 where w: "atomic_write (ap_restore_write env) path (fl_data f) CredentialsFileMode (last tr) = (r1, tr1)"
      by fastforce
    have last: "whole fs path raw (last tr)" using assms(2,3) by (simp add: list_all_iff)
    have "list_all (whole fs path raw) tr1"
      using atomic_write_states(1) [OF w] last b(2) by (auto simp: list_all_iff write_state_def whole_def)
    then have "list_all (whole fs path raw) (snd (restore_backup env b path (last tr)))"
      using last w b atomic_write_states(2) [OF w]
      by (auto simp: restore_backup_def read_file_def list_all_iff split: option.splits)
    then show ?thesis using assms(2,3) Some by (simp add: undo_def)
  qed
  then show "list_all (whole fs path raw) (undo env backup path tr)" "undo env backup path tr \<noteq> []"
    "hd (undo env backup path tr) = hd tr" by blast+
qed

text \<open>A restore that the disk allows.\<close>

definition restore_good :: "apply_env \<Rightarrow> string \<Rightarrow> files \<Rightarrow> bool" where
  "restore_good env path fs = (ap_restore_read env = None \<and> io_good (ap_restore_write env) \<and>
     io_remove (ap_write env) = None \<and> fs (temp_of (ap_restore_write env) path) = None)"

lemma undo_restores:
  assumes "copy_of fs path (Some b) (last tr)" "fs path = Some f" "ap_restore_read env = None"
    "io_good (ap_restore_write env)" "last tr (temp_of (ap_restore_write env) path) = None"
  shows "last (undo env (Some b) path tr) path = Some \<lparr>fl_data = fl_data f, fl_mode = CredentialsFileMode\<rparr>"
proof -
  obtain x where b: "b = backup_path path x" "last tr b = Some \<lparr>fl_data = fl_data f, fl_mode = CredentialsFileMode\<rparr>"
    using assms(1,2) by (auto simp: copy_of_def)
  obtain tr1 where w: "atomic_write (ap_restore_write env) path (fl_data f) CredentialsFileMode (last tr) = (None, tr1)"
    using atomic_write_good [where fs = "last tr" and dst = path, OF assms(4,5)] by blast
  have "restore_backup env b path (last tr) = (None, tr1 @ [remove_file (ap_restore_remove env) b (last tr1)])"
    by (simp add: restore_backup_def read_file_def b(2) assms(3) w)
  then show ?thesis using atomic_write_states(4) [OF w refl] b(1)
    by (simp add: undo_def remove_file_def split: option.splits)
qed

lemma write_verified_states:
  assumes "write_verified env want raw path backup tr0 = (r, tr)" "copy_of fs path backup (last tr0)"
    "list_all (\<lambda>s. s path = fs path) tr0" "tr0 \<noteq> []"
  shows "list_all (whole fs path raw) tr" "tr \<noteq> []" "hd tr = hd tr0"
    "r = None \<Longrightarrow> hash_hex raw = want \<and> last tr path = Some \<lparr>fl_data = raw, fl_mode = CredentialsFileMode\<rparr>"
    "r = Some e \<Longrightarrow> is_err e ErrApplyFailed"
    "r = Some e \<Longrightarrow> backup = Some b \<Longrightarrow> fs path = Some f \<Longrightarrow> restore_good env path (last tr0) \<Longrightarrow>
       \<exists>m. last tr path = Some \<lparr>fl_data = fl_data f, fl_mode = m\<rparr>"
proof -
  obtain r1 tr1 where w: "atomic_write (ap_write env) path raw CredentialsFileMode (last tr0) = (r1, tr1)" by fastforce
  note st = atomic_write_states [OF w]
  let ?g = "\<lparr>fl_data = raw, fl_mode = CredentialsFileMode\<rparr>"
  let ?tr = "tr0 @ tr1"
  have last0: "last tr0 path = fs path" using assms(3,4) by (simp add: list_all_iff)
  have "list_all (whole fs path raw) tr0" using assms(3) by (simp add: list_all_iff whole_def)
  moreover have "list_all (whole fs path raw) tr1" using st(1) last0 by (auto simp: list_all_iff write_state_def whole_def)
  ultimately have ok: "list_all (whole fs path raw) ?tr" "?tr \<noteq> []" "last ?tr = last tr1" "hd ?tr = hd tr0"
    using st(2) assms(4) by simp_all
  have frame: "last tr1 q = last tr0 q" if "q \<noteq> path" "q \<noteq> temp_of (ap_write env) path" for q
  proof -
    have "write_state (ap_write env) path ?g (last tr0) (last tr1)" using st(1,2) by (simp add: list_all_iff)
    then show ?thesis using that by (simp add: write_state_def)
  qed
  have copy: "copy_of fs path backup (last ?tr)"
    unfolding copy_of_def
  proof (intro allI impI)
    fix b assume "backup = Some b"
    then obtain x f where "b = backup_path path x" "fs path = Some f"
      "last tr0 b = Some \<lparr>fl_data = fl_data f, fl_mode = CredentialsFileMode\<rparr>"
      using assms(2) by (auto simp: copy_of_def)
    then show "\<exists>x f. b = backup_path path x \<and> fs path = Some f \<and>
        last ?tr b = Some \<lparr>fl_data = fl_data f, fl_mode = CredentialsFileMode\<rparr>"
      using frame [of b] ok(3) by auto
  qed
  note un = undo_states [OF copy ok(1,2), of env]
  have res: "\<exists>m. last (undo env backup path ?tr) path = Some \<lparr>fl_data = fl_data f, fl_mode = m\<rparr>"
    if "backup = Some b" "fs path = Some f" "restore_good env path (last tr0)"
  proof -
    have "last tr1 (temp_of (ap_restore_write env) path) = None"
    proof (cases r1)
      case None
      then show ?thesis using st(4) that(3) by (simp add: restore_good_def)
    next
      case (Some err)
      then have "last tr1 = last tr0" using st(5) that(3) by (simp add: restore_good_def)
      then show ?thesis using that(3) by (simp add: restore_good_def)
    qed
    then show ?thesis using undo_restores [of fs path b ?tr f env] copy that ok(3) by (auto simp: restore_good_def)
  qed
  have "list_all (whole fs path raw) tr \<and> tr \<noteq> [] \<and> hd tr = hd tr0 \<and>
    (r = None \<longrightarrow> hash_hex raw = want \<and> last tr path = Some ?g) \<and> (r = Some e \<longrightarrow> is_err e ErrApplyFailed) \<and>
    (r = Some e \<longrightarrow> backup = Some b \<longrightarrow> fs path = Some f \<longrightarrow> restore_good env path (last tr0) \<longrightarrow>
       (\<exists>m. last tr path = Some \<lparr>fl_data = fl_data f, fl_mode = m\<rparr>))"
  proof (cases "\<exists>err. (r, tr) = (Some err, undo env backup path ?tr) \<and> is_err err ErrApplyFailed")
    case True
    then show ?thesis using un ok(4) res by auto
  next
    case False
    then have r1: "r1 = None" using assms(1) st(5) by (cases r1) (auto simp: write_verified_def w Let_def)
    then have fin: "last tr1 = (last tr0)(path \<mapsto> ?g)" by (rule st(4))
    have "hash_hex raw = want \<and> r = None \<and> tr = (case backup of None \<Rightarrow> ?tr | Some b \<Rightarrow> ?tr @ [remove_file (ap_remove env) b (last ?tr)])"
      using assms(1) False r1 ok(3) fin
      by (auto simp: write_verified_def w read_file_def Let_def split: option.splits if_splits)
    moreover have "b' \<noteq> path" if "backup = Some b'" for b' using assms(2) that by (auto simp: copy_of_def)
    moreover have "whole fs path raw (last tr1)" using ok(1) st(2) by (simp add: list_all_iff)
    ultimately show ?thesis using ok fin st(2) assms(4)
      by (cases backup) (auto simp: remove_file_def whole_def split: option.splits)
  qed
  then show "list_all (whole fs path raw) tr" "tr \<noteq> []" "hd tr = hd tr0"
    "r = None \<Longrightarrow> hash_hex raw = want \<and> last tr path = Some \<lparr>fl_data = raw, fl_mode = CredentialsFileMode\<rparr>"
    "r = Some e \<Longrightarrow> is_err e ErrApplyFailed"
    "r = Some e \<Longrightarrow> backup = Some b \<Longrightarrow> fs path = Some f \<Longrightarrow> restore_good env path (last tr0) \<Longrightarrow>
       \<exists>m. last tr path = Some \<lparr>fl_data = fl_data f, fl_mode = m\<rparr>" by blast+
qed

lemma write_one_states:
  assumes "write_one env want raw path fs = (r, tr)"
  shows "list_all (whole fs path raw) tr" "tr \<noteq> []" "hd tr = fs"
    "r = None \<Longrightarrow> \<exists>f. last tr path = Some f \<and> hash_hex (fl_data f) = want \<and> (tr = [fs] \<or> fl_data f = raw)"
    "r = Some e \<Longrightarrow> fs path = Some f \<Longrightarrow> ap_stat env = None \<Longrightarrow> restore_good env path fs \<Longrightarrow>
       \<exists>m. last tr path = Some \<lparr>fl_data = fl_data f, fl_mode = m\<rparr>"
proof -
  have "list_all (whole fs path raw) tr \<and> tr \<noteq> [] \<and> hd tr = fs \<and>
    (r = None \<longrightarrow> (\<exists>f. last tr path = Some f \<and> hash_hex (fl_data f) = want \<and> (tr = [fs] \<or> fl_data f = raw))) \<and>
    (r = Some e \<longrightarrow> fs path = Some f \<longrightarrow> ap_stat env = None \<longrightarrow> restore_good env path fs \<longrightarrow>
       (\<exists>m. last tr path = Some \<lparr>fl_data = fl_data f, fl_mode = m\<rparr>))"
  proof (cases "case read_file (ap_read env) fs path of Inl _ \<Rightarrow> False | Inr cur \<Rightarrow> hash_hex cur = want")
    case True
    then show ?thesis using assms
      by (auto simp: write_one_def read_file_def split: sum.splits option.splits)
  next
    case read: False
    show ?thesis
    proof (cases "acquire_lock env path LockRetryMax 0 None")
      case (Some c)
      then show ?thesis using assms read by (auto simp: write_one_def intro!: exI [of _ "fl_mode f"])
    next
      case lock: None
      show ?thesis
      proof (cases "ap_stat env = None \<and> fs path \<noteq> None")
        case False
        then have w: "write_verified env want raw path None [fs] = (r, tr)"
          using assms read lock by (auto simp: write_one_def)
        have "copy_of fs path None (last [fs])" by (simp add: copy_of_def)
        note st = write_verified_states [OF w this]
        show ?thesis using st False by auto
      next
        case True
        obtain b tr0 where bk: "read_with_backup (ap_backup_read env) (ap_nanos env) (ap_backup_write env) path fs = (b, tr0)"
          by fastforce
        note bs = backup_states [OF bk]
        have last0: "last tr0 path = fs path" using bs(1,2) by (simp add: list_all_iff)
        show ?thesis
        proof (cases b)
          case (Inl c)
          then have "r = Some c" "tr = tr0" using assms read lock True bk by (auto simp: write_one_def)
          moreover have "list_all (whole fs path raw) tr0" using bs(1) by (simp add: list_all_iff whole_def)
          moreover have "\<exists>m. last tr0 path = Some \<lparr>fl_data = fl_data f, fl_mode = m\<rparr>" if "fs path = Some f"
            using last0 that by (cases f) simp
          ultimately show ?thesis using bs(2,3) by simp
        next
          case (Inr x)
          obtain d bp where x: "x = (d, bp)" by (cases x)
          have w: "write_verified env want raw path (Some bp) tr0 = (r, tr)"
            using assms read lock True bk by (auto simp: write_one_def Inr x)
          from bs(4) [of d bp] obtain g where g: "bp = backup_path path (ap_nanos env)" "fs path = Some g"
            "last tr0 = fs(bp \<mapsto> \<lparr>fl_data = fl_data g, fl_mode = CredentialsFileMode\<rparr>)" by (auto simp: Inr x)
          then have c: "copy_of fs path (Some bp) (last tr0)" by (auto simp: copy_of_def)
          note st = write_verified_states [OF w c bs(1,2)]
          have "restore_good env path (last tr0) = restore_good env path fs"
            by (simp add: restore_good_def g(1,3))
          then show ?thesis using st(1-4) st(6) [of e bp f] bs(3) by auto
        qed
      qed
    qed
  qed
  then show "list_all (whole fs path raw) tr" "tr \<noteq> []" "hd tr = fs"
    "r = None \<Longrightarrow> \<exists>f. last tr path = Some f \<and> hash_hex (fl_data f) = want \<and> (tr = [fs] \<or> fl_data f = raw)"
    "r = Some e \<Longrightarrow> fs path = Some f \<Longrightarrow> ap_stat env = None \<Longrightarrow> restore_good env path fs \<Longrightarrow>
       \<exists>m. last tr path = Some \<lparr>fl_data = fl_data f, fl_mode = m\<rparr>" by blast+
qed

lemma apply_truth_alt: "apply_truth err_text env push path fs = (case std_decode (tp_raw_b64 push) of
     None \<Rightarrow> (nack push (''invalid raw_b64: '' @ err_text (Ext ''base64'')), [fs])
   | Some raw \<Rightarrow> if path = [] then (nack push ''candidate path is empty'', [fs])
       else (case write_one env (tp_fingerprint push) raw path fs of
           (Some e, tr) \<Rightarrow> (nack push (err_text e), tr)
         | (None, tr) \<Rightarrow> (zero_truth_ack\<lparr>ta_profile := tp_profile push, ta_fingerprint := tp_fingerprint push,
             ta_ok := True\<rparr>, tr)))"
  by (cases "std_decode (tp_raw_b64 push)"; cases "tp_target push = path") (simp_all add: apply_truth_def Let_def)

subsection \<open>Properties\<close>

text \<open>\<open>AtomicWrite\<close> is atomic. Whatever call fails and whenever the machine stops, the file has its former
  contents or all of the new ones, other files are untouched, and the temporary file never has a permission
  that was not asked for. An error is of the category ErrApplyFailed and leaves every file as it was if the
  temporary file could be removed; success leaves exactly the new contents.\<close>

theorem atomic_write_is_atomic:
  "case atomic_write env dst data perm fs of (r, tr) \<Rightarrow>
     hd tr = fs \<and> filter (\<lambda>s. \<not> write_state env dst \<lparr>fl_data = data, fl_mode = perm\<rparr> fs s) tr = [] \<and>
     (case r of None \<Rightarrow> last tr = fs(dst \<mapsto> \<lparr>fl_data = data, fl_mode = perm\<rparr>)
      | Some e \<Rightarrow> is_err e ErrApplyFailed \<and> last tr dst = fs dst \<and> (if io_remove env = None then last tr = fs else True))"
proof -
  obtain r tr where w: "atomic_write env dst data perm fs = (r, tr)" by fastforce
  show ?thesis using atomic_write_states [OF w] by (auto simp: w list_all_iff split: option.splits)
qed

text \<open>C21: Applying a truth never shows a torn credential file: in every state of the run, whatever fails, the
  file is as it was before, or has all the bytes of the push, or all its former bytes again.\<close>

theorem apply_never_tears:
  assumes "std_decode (tp_raw_b64 push) = Some raw"
  shows "case apply_truth err_text env push path fs of (ack, tr) \<Rightarrow>
    hd tr = fs \<and> filter (\<lambda>s. \<not> whole fs path raw s) tr = []"
proof -
  obtain r tr where w: "write_one env (tp_fingerprint push) raw path fs = (r, tr)" by fastforce
  show ?thesis using write_one_states(1-3) [OF w] assms
    by (cases r) (auto simp: apply_truth_alt w list_all_iff)
qed

lemma ack_facts:
  assumes "apply_truth err_text env push path fs = (ack, tr)"
  shows "ta_profile ack = tp_profile push \<and> ta_fingerprint ack = tp_fingerprint push \<and>
    (if ta_ok ack then
       (\<exists>f. last tr path = Some f \<and> sha256_hex (fl_data f) = tp_fingerprint push \<and>
         (if tr = [fs] then fs path = Some f else std_decode (tp_raw_b64 push) = Some (fl_data f)))
     else if ap_stat env = None \<and> restore_good env path fs then
       (case fs path of None \<Rightarrow> True | Some f \<Rightarrow> map_option fl_data (last tr path) = Some (fl_data f))
     else True)"
proof (cases "std_decode (tp_raw_b64 push)")
  case None
  then show ?thesis using assms by (auto simp: apply_truth_alt nack_def zero_truth_ack_def split: option.splits)
next
  case (Some raw)
  show ?thesis
  proof (cases "path = []")
    case True
    then have "tr = [fs]" "ack = nack push ''candidate path is empty''"
      using assms Some by (auto simp: apply_truth_alt)
    then show ?thesis by (auto simp: nack_def zero_truth_ack_def split: option.splits)
  next
    case False
    obtain r tr1 where w: "write_one env (tp_fingerprint push) raw path fs = (r, tr1)" by fastforce
    note st = write_one_states [OF w]
    show ?thesis
    proof (cases r)
      case None
      then have "tr = tr1" "ack = zero_truth_ack\<lparr>ta_profile := tp_profile push, ta_fingerprint := tp_fingerprint push, ta_ok := True\<rparr>"
        using assms Some False w by (auto simp: apply_truth_alt)
      then show ?thesis using st(4) [OF None] Some by (auto simp: zero_truth_ack_def hash_hex_def)
    next
      case (Some e)
      then have "tr = tr1" "ack = nack push (err_text e)"
        using assms \<open>std_decode (tp_raw_b64 push) = Some raw\<close> False w by (auto simp: apply_truth_alt)
      then show ?thesis using st(5) [OF Some]
        by (auto simp: nack_def zero_truth_ack_def split: option.splits)
    qed
  qed
qed

text \<open>C22: An acknowledgement tells the truth about the file. A positive one means that the file has the
  pushed fingerprint, and the pushed bytes unless it had the fingerprint already; after a negative one
  the file has its former bytes, provided the disk lets the backup be written back.\<close>

theorem ack_reflects_the_disk:
  "case apply_truth err_text env push path fs of (ack, tr) \<Rightarrow>
    ta_profile ack = tp_profile push \<and> ta_fingerprint ack = tp_fingerprint push \<and>
    (if ta_ok ack then
       (\<exists>f. last tr path = Some f \<and> sha256_hex (fl_data f) = tp_fingerprint push \<and>
         (if tr = [fs] then fs path = Some f else std_decode (tp_raw_b64 push) = Some (fl_data f)))
     else if ap_stat env = None \<and> restore_good env path fs then
       (case fs path of None \<Rightarrow> True | Some f \<Rightarrow> map_option fl_data (last tr path) = Some (fl_data f))
     else True)"
  by (cases "apply_truth err_text env push path fs") (simp add: ack_facts)

text \<open>A node applies a truth without looking at the account, the profile or the format it names: only the
  echo in the acknowledgement depends on them.\<close>

theorem apply_ignores_account:
  "apply_truth err_text env (push\<lparr>tp_profile := p, tp_account := a, tp_format := f\<rparr>) path fs =
   (case apply_truth err_text env push path fs of (ack, tr) \<Rightarrow> (ack\<lparr>ta_profile := p\<rparr>, tr))"
  by (auto simp: apply_truth_alt nack_def zero_truth_ack_def Let_def split: option.splits prod.splits)

text \<open>Nothing keeps a good disk from applying a push whose bytes have its fingerprint.\<close>

definition disk_good :: "apply_env \<Rightarrow> string \<Rightarrow> files \<Rightarrow> bool" where
  "disk_good env path fs = (ap_try_lock env 0 = Inr True \<and> ap_backup_read env = None \<and>
     io_good (ap_backup_write env) \<and> fs (temp_of (ap_backup_write env) (backup_path path (ap_nanos env))) = None \<and>
     io_good (ap_write env) \<and> fs (temp_of (ap_write env) path) = None \<and> ap_reread env = None)"

lemma write_verified_good:
  assumes "io_good (ap_write env)" "last tr0 (temp_of (ap_write env) path) = None" "ap_reread env = None" "hash_hex raw = want"
  shows "\<exists>tr. write_verified env want raw path backup tr0 = (None, tr)"
proof -
  obtain tr where w: "atomic_write (ap_write env) path raw CredentialsFileMode (last tr0) = (None, tr)"
    using atomic_write_good [where fs = "last tr0" and dst = path, OF assms(1,2)] by blast
  show ?thesis using atomic_write_states(2,4) [OF w] assms(3,4)
    by (simp add: write_verified_def Let_def w read_file_def)
qed

lemma lock_good: "ap_try_lock env 0 = Inr True \<Longrightarrow> acquire_lock env path LockRetryMax 0 None = None"
  by (simp add: LockRetryMax_def numeral_3_eq_3 lock_file_def LockAcquireTimeout_def milliseconds_def)

lemma temp_backup_ne: "temp_of env path \<noteq> temp_of env' (backup_path path n)"
  by (auto simp: temp_of_def make_temp_path_def backup_path_def split: sum.splits)

lemma write_one_good:
  assumes "disk_good env path fs" "hash_hex raw = want"
  shows "\<exists>tr. write_one env want raw path fs = (None, tr)"
proof (cases "case read_file (ap_read env) fs path of Inl _ \<Rightarrow> False | Inr cur \<Rightarrow> hash_hex cur = want")
  case True
  then show ?thesis by (simp add: write_one_def)
next
  case False
  have l: "acquire_lock env path LockRetryMax 0 None = None" using assms(1) lock_good by (simp add: disk_good_def)
  show ?thesis
  proof (cases "ap_stat env = None \<and> fs path \<noteq> None")
    case True
    then obtain f where f: "fs path = Some f" by auto
    let ?b = "backup_path path (ap_nanos env)"
    obtain tr where w: "atomic_write (ap_backup_write env) ?b (fl_data f) CredentialsFileMode fs = (None, tr)"
      using atomic_write_good [of "ap_backup_write env" fs ?b "fl_data f" CredentialsFileMode] assms(1)
      by (auto simp: disk_good_def)
    have b: "read_with_backup (ap_backup_read env) (ap_nanos env) (ap_backup_write env) path fs = (Inr (fl_data f, ?b), tr)"
      using assms(1) f w by (simp add: read_with_backup_def read_file_def disk_good_def)
    have "last tr (temp_of (ap_write env) path) = None"
      using atomic_write_states(4) [OF w refl] assms(1) by (simp add: disk_good_def)
    then show ?thesis using write_verified_good [of env tr path raw want "Some ?b"] assms False l True b
      by (simp add: write_one_def disk_good_def)
  next
    case no: False
    then show ?thesis using write_verified_good [of env "[fs]" path raw want None] assms False l
      by (auto simp: write_one_def disk_good_def)
  qed
qed

lemma apply_good:
  assumes "disk_good env path fs" "path \<noteq> []" "std_decode (tp_raw_b64 push) = Some raw" "sha256_hex raw = tp_fingerprint push"
  shows "\<exists>tr. apply_truth err_text env push path fs =
    (zero_truth_ack\<lparr>ta_profile := tp_profile push, ta_fingerprint := tp_fingerprint push, ta_ok := True\<rparr>, tr)"
proof -
  have "hash_hex raw = tp_fingerprint push" using assms(4) by (simp add: hash_hex_def)
  from write_one_good [OF assms(1) this] obtain tr where "write_one env (tp_fingerprint push) raw path fs = (None, tr)" by blast
  then show ?thesis using assms by (simp add: apply_truth_alt)
qed

text \<open>A push whose bytes do not have its fingerprint is refused after the bytes were written; on a node that
  had no credential file there is no backup, and the refused bytes stay in the file.\<close>

theorem unverified_file_stays:
  assumes "fs path = None" "path \<noteq> []" "std_decode (tp_raw_b64 push) = Some raw" "sha256_hex raw \<noteq> tp_fingerprint push"
    "ap_try_lock env 0 = Inr True" "io_good (ap_write env)" "fs (temp_of (ap_write env) path) = None" "ap_reread env = None"
  shows "\<exists>tr. apply_truth err_text env push path fs =
      (nack push (err_text (wrap_s ErrApplyFailed MsgApplyVerifyFailed [])), tr) \<and>
    last tr path = Some \<lparr>fl_data = raw, fl_mode = CredentialsFileMode\<rparr>"
proof -
  obtain tr where w: "atomic_write (ap_write env) path raw CredentialsFileMode fs = (None, tr)"
    using atomic_write_good [where fs = fs and dst = path, OF assms(6,7)] by blast
  have l: "acquire_lock env path LockRetryMax 0 None = None"
    by (rule lock_good) (rule assms(5))
  have r: "(case read_file (ap_read env) fs path of Inl _ \<Rightarrow> False | Inr cur \<Rightarrow> hash_hex cur = tp_fingerprint push) = False"
    using assms(1) by (simp add: read_file_def split: option.splits)
  have "write_verified env (tp_fingerprint push) raw path None [fs] =
      (Some (wrap_s ErrApplyFailed MsgApplyVerifyFailed []), [fs] @ tr)"
    using atomic_write_states(2,4) [OF w] assms(4,8)
    by (simp add: write_verified_def Let_def w read_file_def hash_hex_def undo_def)
  then have "write_one env (tp_fingerprint push) raw path fs = (Some (wrap_s ErrApplyFailed MsgApplyVerifyFailed []), [fs] @ tr)"
    using r l assms(1) by (simp add: write_one_def)
  then show ?thesis using atomic_write_states(2,4) [OF w] assms(2,3) by (simp add: apply_truth_alt)
qed

subsection \<open>Concrete runs\<close>

definition demo_io :: io_env where
  "demo_io = \<lparr>io_stat_dir = None, io_is_dir = True, io_random = Inr ''abcd'', io_open = None, io_umask = 0x12, io_write = None,
     io_sync = None, io_close = None, io_chmod = None, io_rename = None, io_remove = None\<rparr>"

definition demo_apply :: apply_env where
  "demo_apply = \<lparr>ap_read = None, ap_try_lock = (\<lambda>_. Inr True), ap_wait = (\<lambda>_. None), ap_stat = None, ap_backup_read = None,
     ap_nanos = 7, ap_backup_write = demo_io, ap_write = demo_io, ap_reread = None, ap_restore_read = None,
     ap_restore_write = demo_io, ap_restore_remove = None, ap_remove = None\<rparr>"

definition apply_push :: "string \<Rightarrow> truth_push" where
  "apply_push fp = zero_truth_push\<lparr>tp_profile := ''p'', tp_raw_b64 := ''eA=='', tp_fingerprint := fp\<rparr>"

lemma apply_push_raw: "std_decode (tp_raw_b64 (apply_push fp)) = Some ''x''"
  by (simp add: apply_push_def) code_simp

theorem apply_never_tears_witness:
  "hd (snd (apply_truth (\<lambda>_. []) demo_apply (apply_push ''00'') ''/c'' Map.empty)) = Map.empty"
  using apply_never_tears [OF apply_push_raw [of "''00''"], where err_text = "\<lambda>_. []" and env = demo_apply and path = "''/c''" and fs = Map.empty]
  by (cases "apply_truth (\<lambda>_. []) demo_apply (apply_push ''00'') ''/c'' Map.empty") simp

lemma sha256_not_00: "sha256_hex x \<noteq> ''00''"
proof
  assume "sha256_hex x = ''00''"
  then have "length (sha256_hex x) = 2" by simp
  then show False by simp
qed

theorem unverified_file_stays_witness:
  "\<exists>tr. apply_truth (\<lambda>_. []) demo_apply (apply_push ''00'') ''/c'' Map.empty = (nack (apply_push ''00'') [], tr) \<and>
    last tr ''/c'' = Some \<lparr>fl_data = ''x'', fl_mode = CredentialsFileMode\<rparr>"
  using unverified_file_stays [of Map.empty "''/c''" "apply_push ''00''" "''x''" demo_apply "\<lambda>_. []"]
  by (simp add: apply_push_raw sha256_not_00 demo_apply_def io_good_def demo_io_def) (simp add: apply_push_def zero_truth_push_def sha256_not_00)

end
