(* ===== verification/Delivery.thy ===== *)
theory Delivery
  imports Mediator_Scenario Session_Opening Client_Apply_Props
begin

text \<open>
  The way of a truth: decided by the mediator, sent to a node, written by its agent and reported back to the mediator.
\<close>

text \<open>A host whose files are those of the trace.\<close>

definition files_host :: "host_env \<Rightarrow> files \<Rightarrow> host_env" where
  "files_host env fs = env\<lparr>he_read := read_file None fs\<rparr>"

lemma write_one_writes:
  assumes "disk_good disk path fs" "hash_hex raw = want"
    "case fs path of None \<Rightarrow> True | Some f \<Rightarrow> hash_hex (fl_data f) \<noteq> want"
  shows "\<exists>tr. write_one disk want raw path fs = (None, tr) \<and> last tr path = Some \<lparr>fl_data = raw, fl_mode = CredentialsFileMode\<rparr>"
proof -
  obtain tr where w: "write_one disk want raw path fs = (None, tr)" using write_one_good [OF assms(1,2)] by blast
  obtain f where f: "last tr path = Some f" "hash_hex (fl_data f) = want" "tr = [fs] \<or> fl_data f = raw"
    using write_one_states(4) [OF w refl] by blast
  have "tr \<noteq> [fs]" using f assms(3) by auto
  then have "fl_data f = raw" using f(3) by simp
  moreover have "whole fs path raw (last tr)"
    using write_one_states(1,2) [OF w] by (simp add: list_all_iff)
  ultimately show ?thesis using w f(1,2) assms(3) by (cases "fs path") (auto simp: whole_def)
qed

lemma report_of_file:
  assumes "format_contract (ag_format a) own" "fs (ag_path a) = Some f" "f_parse (ag_format a) (fl_data f) = Inr sn"
  shows "\<exists>rep nudge. report_event (files_host env fs) now a = (OutReport rep, nudge) \<and>
    sr_fingerprint rep = sha256_hex (fl_data f) \<and> sr_raw_b64 rep = std_encode (fl_data f) \<and>
    sr_profile rep = ag_profile a \<and> sr_format rep = f_name (ag_format a)"
  using assms format_contract.parse_fingerprint [OF assms(1,3)]
  by (simp add: report_event_def read_file_if_exists_def files_host_def read_file_def Let_def)

lemma report_settles:
  assumes "mc_format cfg \<in> set builtin_formats" "f_parse (mc_format cfg) w = Inr sn" "sr_raw_b64 rep = std_encode w"
  shows "\<exists>m3. cands_before cfg env (InReport s rep) m = Some (m3, sr_format rep) \<and>
    (\<exists>c. map_of (md_cands m3) (se_node s) = Some c \<and> cd_fingerprint c = sha256_hex w \<and> \<not> cd_absent c \<and> cd_account c = sr_account rep)"
proof -
  note fc = builtin_contract [OF assms(1)]
  have "w \<noteq> []" using assms(2) format_contract.parse_empty [OF fc] by auto
  then have "std_encode w \<noteq> []" by (simp add: std_encode_def b64_encode_Nil_iff)
  then have "base64_decode (sr_raw_b64 rep) = Inr w" by (simp add: base64_decode_def assms(3) std.dec_enc)
  then show ?thesis using assms(2) format_contract.parse_fingerprint [OF fc assms(2)] by (simp add: cands_before_def update_conv)
qed

text \<open>C14: Delivery. A truth the mediator sends, received as it was sent by an agent of the profile's format whose file
  differs and whose disk works, is written to the agent's file: exactly the decoded bytes, with mode 0600. The agent
  acknowledges it, its next report carries the truth's fingerprint and bytes, and after that report the
  mediator does not count the node as stale for this truth: a delivered truth is not sent again.\<close>

theorem delivery_converges:
  assumes "mc_format cfg \<in> set builtin_formats" "med_reach cfg m" "env_ok env"
    "med_turn cfg env inp m = Some (m', evs)" "Pushed s push r \<in> set evs"
    "env_type msg = KindTruthPush" "payload_as dec_truth_push msg = Some push"
    "ag_format a = mc_format cfg" "ag_path a \<noteq> []" "disk_good disk (ag_path a) fs"
    "case fs (ag_path a) of None \<Rightarrow> True | Some f \<Rightarrow> sha256_hex (fl_data f) \<noteq> tp_fingerprint push"
  shows "\<exists>w tr rep nudge m3.
    std_decode (tp_raw_b64 push) = Some w \<and>
    handle_envelope err_text host now disk a msg fs = (Inr (Some (OutAck (zero_truth_ack\<lparr>ta_profile := tp_profile push,
      ta_fingerprint := tp_fingerprint push, ta_ok := True\<rparr>), False)), tr) \<and>
    last tr (ag_path a) = Some \<lparr>fl_data = w, fl_mode = CredentialsFileMode\<rparr> \<and>
    report_event (files_host host (last tr)) now' a = (OutReport rep, nudge) \<and>
    sr_fingerprint rep = tp_fingerprint push \<and> sr_raw_b64 rep = std_encode w \<and>
    cands_before cfg next_env (InReport sess rep) med = Some (m3, sr_format rep) \<and>
    stale (md_cands m3) (ts\<lparr>ts_fingerprint := tp_fingerprint push\<rparr>) src (se_node sess) = False"
proof -
  obtain w sn where w: "base64_decode (tp_raw_b64 push) = Inr w" "f_parse (mc_format cfg) w = Inr sn"
    "tp_fingerprint push = sha256_hex w" using push_bytes [OF assms(1-5)] by blast
  then have dec: "std_decode (tp_raw_b64 push) = Some w" by (auto simp: base64_decode_def split: if_splits option.splits)
  obtain tr where tr: "write_one disk (tp_fingerprint push) w (ag_path a) fs = (None, tr)"
    "last tr (ag_path a) = Some \<lparr>fl_data = w, fl_mode = CredentialsFileMode\<rparr>"
    using write_one_writes [OF assms(10), of w "tp_fingerprint push"] w(3) assms(11)
    unfolding hash_hex_def by metis
  have h: "handle_envelope err_text host now disk a msg fs = (Inr (Some (OutAck (zero_truth_ack\<lparr>ta_profile := tp_profile push,
      ta_fingerprint := tp_fingerprint push, ta_ok := True\<rparr>), False)), tr)"
    using assms(6,7,9) dec tr(1) by (simp add: handle_envelope_def apply_truth_alt)
  note fc = builtin_contract [OF assms(1), folded assms(8)]
  obtain rep nudge where rep: "report_event (files_host host (last tr)) now' a = (OutReport rep, nudge)"
    "sr_fingerprint rep = sha256_hex w" "sr_raw_b64 rep = std_encode w"
    using report_of_file [where fs = "last tr" and env = host and now = now', OF fc tr(2)] w(2) assms(8) by fastforce
  obtain m3 c where m3: "cands_before cfg next_env (InReport sess rep) med = Some (m3, sr_format rep)"
    "map_of (md_cands m3) (se_node sess) = Some c" "cd_fingerprint c = sha256_hex w" "\<not> cd_absent c"
    using report_settles [OF assms(1) w(2) rep(3)] by blast
  show ?thesis using dec h tr(2) rep m3 w(3) by (intro exI) (auto simp: stale_def)
qed

definition demo_agent :: agent where "demo_agent = token_agent\<lparr>ag_format := mc_format demo_cfg\<rparr>"

definition push_frame :: envelope where "push_frame = demo_frame KindTruthPush (enc_truth_push demo_push)"

lemma push_frame_sel [simp]: "env_type push_frame = KindTruthPush" "payload_as dec_truth_push push_frame = Some demo_push"
proof -
  have "time_ok demo_now" by code_simp
  then have "truth_push_ok demo_push" by (simp add: truth_push_ok_def demo_push_def truth_push_of_def demo_truth_def)
  then show "payload_as dec_truth_push push_frame = Some demo_push"
    by (simp add: push_frame_def demo_frame_def payload_as_def truth_push_rt)
qed (simp add: push_frame_def demo_frame_def)

theorem delivery_converges_witness:
  "\<exists>w tr. std_decode (tp_raw_b64 demo_push) = Some w \<and>
    handle_envelope (\<lambda>_. []) (some_secret_host []) demo_now demo_apply demo_agent push_frame Map.empty =
      (Inr (Some (OutAck (zero_truth_ack\<lparr>ta_profile := tp_profile demo_push, ta_fingerprint := tp_fingerprint demo_push,
        ta_ok := True\<rparr>), False)), tr) \<and>
    last tr ''/d/c'' = Some \<lparr>fl_data = w, fl_mode = CredentialsFileMode\<rparr>"
proof -
  have a: "ag_format demo_agent = mc_format demo_cfg" "ag_path demo_agent = ''/d/c''"
    by (simp_all add: demo_agent_def token_agent_def)
  have "disk_good demo_apply ''/d/c'' Map.empty" by (simp add: disk_good_def demo_apply_def demo_io_def io_good_def)
  then show ?thesis
    using delivery_converges [OF _ demo_reach1 demo_env_ok demo_turn2 demo_push_in push_frame_sel a(1),
        where disk = demo_apply and fs = Map.empty and err_text = "\<lambda>_. []" and host = "some_secret_host []" and now = demo_now and now' = demo_now
          and next_env = demo_env and sess = "demo_session 1 ''b''" and med = demo_settled and ts = demo_truth and src = "''a''"]
    by (simp add: a) blast
qed

end
