(* ===== verification/Client_Refresh.thy ===== *)
theory Client_Refresh
  imports Client_Agent
begin

text \<open>
  internal/client/refresh.go: an agent nudges the provider's own command line program to renew credentials that expired or
  soon will. The clock, the search path and what the programs did are parameters; the log records are values.
\<close>

definition refreshNearExpiry :: duration where "refreshNearExpiry = minutes 30"
definition refreshCooldown :: duration where "refreshCooldown = hours 2"
definition refreshSettleWindow :: duration where "refreshSettleWindow = seconds 10"
definition refreshPollInterval :: duration where "refreshPollInterval = milliseconds 500"

definition claudeFormatName :: string where "claudeFormatName = ''claude-credentials-json-format''"
definition codexFormatName :: string where "codexFormatName = ''codex-auth-json-format''"
definition geminiFormatName :: string where "geminiFormatName = ''gemini-oauth-creds-json-format''"

lemmas format_names = claudeFormatName_def codexFormatName_def geminiFormatName_def

record refresh_command =
  rf_name :: string
  rf_args :: "string list"
  rf_env :: "string list"
  rf_dir :: string
  rf_description :: string

definition supports_refresh_nudge :: "string \<Rightarrow> bool" where
  "supports_refresh_nudge n = (n \<in> {claudeFormatName, codexFormatName, geminiFormatName})"

subsection \<open>When to nudge\<close>

definition should_refresh_nudge :: "gotime \<Rightarrow> snapshot \<Rightarrow> validation_result \<Rightarrow> bool" where
  "should_refresh_nudge now snap res =
     (if vr_status res = StatusExpired \<or> vr_status res = StatusRevoked then True
      else if vr_status res = StatusOK then
        (let e = snap_expires snap in
         if is_zero_time e then False else time_after e now \<and> time_sub e now \<le> refreshNearExpiry)
      else False)"

text \<open>The candidate, if there is one, and the buffer with the file's bytes, if it was read.\<close>

definition refresh_candidate ::
  "host_env \<Rightarrow> gotime \<Rightarrow> gotime \<Rightarrow> agent \<Rightarrow> (string \<times> validation_result) option \<times> string option" where
  "refresh_candidate env validate_now now a = (case read_file_if_exists env (ag_path a) of
     Inl _ \<Rightarrow> (None, None)
   | Inr None \<Rightarrow> (None, None)
   | Inr (Some raw) \<Rightarrow> (case f_parse (ag_format a) raw of
       Inl _ \<Rightarrow> (None, Some raw)
     | Inr snap \<Rightarrow>
         let res = f_validate (ag_format a) snap (local_opts validate_now)
         in if \<not> should_refresh_nudge now snap res then (None, Some raw)
            else (Some (snap_fingerprint snap, res), Some raw)))"

text \<open>Whether the attempt may be made, and the agent after it.\<close>

definition claim_refresh_attempt :: "gotime \<Rightarrow> string \<Rightarrow> string \<Rightarrow> agent \<Rightarrow> bool \<times> agent" where
  "claim_refresh_attempt now fp why a =
     (if ag_refresh_fp a = fp \<and> ag_refresh_reason a = why \<and> \<not> is_zero_time (ag_refresh_at a) \<and>
         time_sub now (ag_refresh_at a) < refreshCooldown
      then (False, a)
      else (True, a\<lparr>ag_refresh_at := now, ag_refresh_fp := fp, ag_refresh_reason := why\<rparr>))"

subsection \<open>The commands\<close>

record claude_refresh_file =
  kf_refresh :: string
  kf_scopes :: "string list"

definition dec_claude_refresh_file :: "json \<Rightarrow> claude_refresh_file option" where
  "dec_claude_refresh_file j = dec_struct (\<lambda>(k, v) f.
     if key_is k ''claudeAiOauth'' then dec_struct (\<lambda>(k, v) f.
         if key_is k ''refreshToken'' then dec_field dec_string kf_refresh kf_refresh_update v f
         else if key_is k ''scopes'' then dec_field dec_string_slice kf_scopes kf_scopes_update v f
         else Some f) v f
     else Some f) j \<lparr>kf_refresh = [], kf_scopes = []\<rparr>"

definition claude_commands :: "string \<Rightarrow> string \<Rightarrow> claude_refresh_file \<Rightarrow> refresh_command list" where
  "claude_commands tmp dir f =
     [\<lparr>rf_name = ''claude'', rf_args = [''auth'', ''login''],
       rf_env = [''CLAUDE_CONFIG_DIR='' @ dir, ''CLAUDE_CODE_OAUTH_REFRESH_TOKEN='' @ kf_refresh f] @
         (if kf_scopes f = [] then [] else [''CLAUDE_CODE_OAUTH_SCOPES='' @ join_with '' '' (kf_scopes f)]),
       rf_dir = tmp, rf_description = ''claude auth login''\<rparr>,
      \<lparr>rf_name = ''claude'', rf_args = [''-p'', ''Reply with OK only.'', ''--permission-mode'', ''plan'', ''--tools'', [],
         ''--output-format'', ''text''],
       rf_env = [''CLAUDE_CONFIG_DIR='' @ dir], rf_dir = tmp, rf_description = ''claude --print oneshot''\<rparr>]"

definition claude_refresh_commands :: "string \<Rightarrow> agent \<Rightarrow> string \<Rightarrow> gerr + refresh_command list" where
  "claude_refresh_commands tmp a raw = (case Option.bind (json_unmarshal raw) dec_claude_refresh_file of
     None \<Rightarrow> Inl json_error
   | Some f \<Rightarrow> if kf_refresh f = [] then Inl (Errorf ''claude refresh token missing'' [] None)
       else Inr (claude_commands tmp (ag_dir a) f))"

definition gemini_home_parent :: "string \<Rightarrow> string option" where
  "gemini_home_parent dir = (let d = path_clean dir in
     if path_base d \<noteq> ''.gemini'' then None else Some (path_dir d))"

text \<open>The program itself, then the same through a login shell.\<close>

definition with_login_shell :: "string \<Rightarrow> string \<Rightarrow> string list \<Rightarrow> string list \<Rightarrow> string \<Rightarrow> string \<Rightarrow> refresh_command list" where
  "with_login_shell name tmp args env what label =
     [\<lparr>rf_name = name, rf_args = args, rf_env = env, rf_dir = tmp, rf_description = what\<rparr>,
      \<lparr>rf_name = ''bash'', rf_args = [''-lic'', ''exec '' @ name @ '' \"$@\"'', label] @ args, rf_env = env, rf_dir = tmp,
       rf_description = what @ '' via login shell''\<rparr>]"

definition gemini_refresh_commands :: "string \<Rightarrow> agent \<Rightarrow> refresh_command list" where
  "gemini_refresh_commands tmp a = (case gemini_home_parent (ag_dir a) of
     None \<Rightarrow> []
   | Some home \<Rightarrow> with_login_shell ''gemini'' tmp
       [''-p'', ''Reply with OK only.'', ''--skip-trust'', ''--approval-mode'', ''plan'', ''--output-format'', ''json'',
        ''--model'', ''gemini-2.5-flash'']
       [''HOME='' @ home, ''GEMINI_CLI_TRUST_WORKSPACE=true'', ''TERM=xterm-256color'']
       ''gemini oneshot prompt'' ''gemini-refresh'')"

definition codex_refresh_commands :: "string \<Rightarrow> agent \<Rightarrow> refresh_command list" where
  "codex_refresh_commands tmp a = with_login_shell ''codex'' tmp
     [''exec'', ''--skip-git-repo-check'', ''--sandbox'', ''read-only'', ''--ephemeral'', ''--ignore-user-config'',
      ''--color'', ''never'', ''-C'', tmp, ''Reply with OK only. Do not run any tools or shell commands.'']
     [''CODEX_HOME='' @ ag_dir a] ''codex exec oneshot'' ''codex-refresh''"

definition refresh_commands :: "string \<Rightarrow> agent \<Rightarrow> string \<Rightarrow> gerr + refresh_command list" where
  "refresh_commands tmp a raw =
     (if f_name (ag_format a) = claudeFormatName then claude_refresh_commands tmp a raw
      else if f_name (ag_format a) = geminiFormatName then Inr (gemini_refresh_commands tmp a)
      else if f_name (ag_format a) = codexFormatName then Inr (codex_refresh_commands tmp a)
      else Inl (Errorf ''refresh nudge unsupported for format %q'' [ArgS (f_name (ag_format a))] None))"

definition filter_available :: "(string \<Rightarrow> bool) \<Rightarrow> refresh_command list \<Rightarrow> refresh_command list" where
  "filter_available in_path cmds = filter (\<lambda>c. rf_name c \<noteq> [] \<and> in_path (rf_name c)) cmds"

subsection \<open>Waiting for the file to change\<close>

text \<open>One round of the loop: what the read gave, the clock after it, and whether the pause ran to its end.\<close>

record poll =
  po_read :: "gerr + string option"
  po_now :: gotime
  po_alive :: bool

definition changed_to :: "format_ops \<Rightarrow> string \<Rightarrow> gerr + string option \<Rightarrow> string option" where
  "changed_to f old r = (case r of
     Inr (Some raw) \<Rightarrow> (case f_parse f raw of
       Inl _ \<Rightarrow> None
     | Inr snap \<Rightarrow> if snap_fingerprint snap \<noteq> old then Some (snap_fingerprint snap) else None)
   | _ \<Rightarrow> None)"

text \<open>\<open>None\<close> when the fuel is used up.\<close>

fun wait_for_mutation ::
  "nat \<Rightarrow> format_ops \<Rightarrow> string \<Rightarrow> gotime \<Rightarrow> (nat \<Rightarrow> poll) \<Rightarrow> nat \<Rightarrow> (bool \<times> string) option" where
  "wait_for_mutation 0 f old deadline polls k = None"
| "wait_for_mutation (Suc fuel) f old deadline polls k = (case changed_to f old (po_read (polls k)) of
     Some fp \<Rightarrow> Some (True, fp)
   | None \<Rightarrow>
       if \<not> time_before (po_now (polls k)) deadline then Some (False, old)
       else if \<not> po_alive (polls k) then Some (False, old)
       else wait_for_mutation fuel f old deadline polls (Suc k))"

definition RefreshPolls :: nat where "RefreshPolls = 21"

definition refresh_err_text :: "(gerr \<Rightarrow> string) \<Rightarrow> gerr \<Rightarrow> string \<Rightarrow> string" where
  "refresh_err_text err_text e out = (let text = trim_space out in
     if text = [] then err_text e
     else err_text e @ '': '' @ (if length text > 300 then take 300 text @ ''...'' else text))"

subsection \<open>A nudge\<close>

datatype nudge_event =
    NudgeUnavailable gerr string
  | NudgeSkipped string string
  | NudgeUpdated string string string "string option"
  | NudgeFailed nat string string string
  | NudgeNoChange string string

record refresh_env =
  re_host :: host_env
  re_validate_now :: gotime
  re_now :: gotime
  re_claim_now :: gotime
  re_in_path :: "string \<Rightarrow> bool"
  re_tmp :: string
  re_run :: "nat \<Rightarrow> gerr option \<times> string"
  re_wait_start :: "nat \<Rightarrow> gotime"
  re_polls :: "nat \<Rightarrow> nat \<Rightarrow> poll"

text \<open>The loop over the commands: those that were run and what was logged.\<close>

fun run_nudges ::
  "(gerr \<Rightarrow> string) \<Rightarrow> refresh_env \<Rightarrow> format_ops \<Rightarrow> string \<Rightarrow> nat \<Rightarrow> refresh_command list \<Rightarrow>
   (refresh_command list \<times> nudge_event list) option" where
  "run_nudges err_text env f fp i [] = Some ([], [])"
| "run_nudges err_text env f fp i (c # cs) =
     (case wait_for_mutation RefreshPolls f fp (time_add (re_wait_start env i) refreshSettleWindow) (re_polls env i) 0 of
        None \<Rightarrow> None
      | Some (changed, new_fp) \<Rightarrow> (case re_run env i of
          (Some e, out) \<Rightarrow>
            if changed then Some ([c], [NudgeUpdated (rf_description c) fp new_fp (Some (refresh_err_text err_text e out))])
            else map_option (\<lambda>(run, evs). (c # run, NudgeFailed i (rf_description c) (refresh_err_text err_text e out) fp # evs))
              (run_nudges err_text env f fp (Suc i) cs)
        | (None, out) \<Rightarrow>
            if changed then Some ([c], [NudgeUpdated (rf_description c) fp new_fp None])
            else Some ([c], [NudgeNoChange (rf_description c) fp])))"

text \<open>The commands run, the log, the agent, and the buffer of the file's bytes as it is left.\<close>

definition maybe_refresh ::
  "(gerr \<Rightarrow> string) \<Rightarrow> refresh_env \<Rightarrow> agent \<Rightarrow>
   (refresh_command list \<times> nudge_event list \<times> agent \<times> string option) option" where
  "maybe_refresh err_text env a = (case refresh_candidate (re_host env) (re_validate_now env) (re_now env) a of
     (None, buf) \<Rightarrow> Some ([], [], a, buf)
   | (Some (fp, res), buf) \<Rightarrow>
       let left = map_option zeroize buf in
       case refresh_commands (re_tmp env) a (the buf) of
         Inl e \<Rightarrow> Some ([], [NudgeUnavailable e fp], a, left)
       | Inr all \<Rightarrow>
           let cmds = filter_available (re_in_path env) all in
           if cmds = [] then Some ([], [NudgeSkipped (f_name (ag_format a)) fp], a, left)
           else (case claim_refresh_attempt (re_claim_now env) fp (vr_detail res) a of
               (False, a1) \<Rightarrow> Some ([], [], a1, left)
             | (True, a1) \<Rightarrow> map_option (\<lambda>(run, evs). (run, evs, a1, left))
                 (run_nudges err_text env (ag_format a) fp 0 cmds)))"

end
