(* ===== verification/Client_Refresh_Props.thy ===== *)
theory Client_Refresh_Props
  imports Client_Refresh Format_Props Client_Agent_Props
begin

text \<open>When an agent runs a provider's program, how often, with what, and that it stops waiting.\<close>

subsection \<open>Waiting ends\<close>

definition polls_advance :: "gotime \<Rightarrow> (nat \<Rightarrow> poll) \<Rightarrow> bool" where
  "polls_advance start polls \<longleftrightarrow> (\<forall>k. start + int k * refreshPollInterval \<le> po_now (polls k))"

lemma wait_ends:
  assumes "polls_advance start polls" "RefreshPolls \<le> fuel + k" "k < RefreshPolls"
  shows "\<exists>r. wait_for_mutation fuel f old (time_add start refreshSettleWindow) polls k = Some r"
  using assms(2,3)
proof (induction fuel arbitrary: k)
  case (Suc fuel)
  show ?case
  proof (cases "Suc k < RefreshPolls")
    case True
    then obtain r where "wait_for_mutation fuel f old (time_add start refreshSettleWindow) polls (Suc k) = Some r"
      using Suc.IH [of "Suc k"] Suc.prems by auto
    then show ?thesis by (auto split: option.splits)
  next
    case False
    then have "k = 20" using Suc.prems by (simp add: RefreshPolls_def)
    moreover have "start + int k * refreshPollInterval \<le> po_now (polls k)" using assms(1) by (simp add: polls_advance_def)
    ultimately have "\<not> time_before (po_now (polls k)) (time_add start refreshSettleWindow)"
      by (simp add: time_defs refreshPollInterval_def refreshSettleWindow_def seconds_def milliseconds_def)
    then show ?thesis by (cases "changed_to f old (po_read (polls k))") auto
  qed
qed simp

lemma nudges_end:
  assumes "\<And>i. polls_advance (re_wait_start env i) (re_polls env i)"
  shows "\<exists>r. run_nudges err_text env f fp i cs = Some r"
proof (induction cs arbitrary: i)
  case (Cons c cs)
  obtain changed new_fp where w: "wait_for_mutation RefreshPolls f fp (time_add (re_wait_start env i) refreshSettleWindow)
      (re_polls env i) 0 = Some (changed, new_fp)"
    using wait_ends [OF assms [of i], of RefreshPolls 0 f fp] by (auto simp: RefreshPolls_def)
  obtain run evs where "run_nudges err_text env f fp (Suc i) cs = Some (run, evs)" using Cons by fast
  then show ?case using w by (cases "re_run env i") (auto split: option.splits)
qed simp

text \<open>A nudge ends: if each pause lasts at least the poll interval, the agent stops waiting after at most 21 looks at the
  file for each command it ran, so the whole nudge returns.\<close>

theorem refresh_terminates:
  assumes "\<And>i k. re_wait_start env i + int k * refreshPollInterval \<le> po_now (re_polls env i k)"
  shows "\<exists>r. maybe_refresh err_text env a = Some r"
proof -
  have "polls_advance (re_wait_start env i) (re_polls env i)" for i using assms by (simp add: polls_advance_def)
  from nudges_end [OF this] have n: "\<exists>x y. run_nudges err_text env f fp i cs = Some (x, y)" for f fp i cs by fast
  show ?thesis
  proof (cases "refresh_candidate (re_host env) (re_validate_now env) (re_now env) a")
    case (Pair c buf)
    then show ?thesis using n [of "ag_format a"]
      by (cases c) (auto simp: maybe_refresh_def Let_def split: sum.splits prod.splits bool.splits)
  qed
qed

subsection \<open>When and how often\<close>

text \<open>The file calls for a nudge: it parses, and is expired, revoked or valid for at most half an hour more.\<close>

definition due :: "refresh_env \<Rightarrow> agent \<Rightarrow> string \<Rightarrow> string \<Rightarrow> bool" where
  "due env a fp why \<longleftrightarrow> (\<exists>raw snap. he_read (re_host env) (ag_path a) = Inr raw \<and> f_parse (ag_format a) raw = Inr snap \<and>
     snap_fingerprint snap = fp \<and>
     (let res = f_validate (ag_format a) snap (local_opts (re_validate_now env))
      in vr_detail res = why \<and> (vr_status res \<in> {StatusExpired, StatusRevoked} \<or>
        vr_status res = StatusOK \<and> re_now env < snap_expires snap \<and>
        snap_expires snap - re_now env \<le> minutes 30)))"

lemma candidate_due:
  assumes "refresh_candidate (re_host env) (re_validate_now env) (re_now env) a = (Some (fp, res), buf)"
  shows "due env a fp (vr_detail res)"
proof -
  obtain raw where r: "read_file_if_exists (re_host env) (ag_path a) = Inr (Some raw)"
    using assms by (auto simp: refresh_candidate_def split: sum.splits option.splits)
  then have raw: "he_read (re_host env) (ag_path a) = Inr raw"
    by (auto simp: read_file_if_exists_def split: sum.splits if_splits)
  obtain snap where p: "f_parse (ag_format a) raw = Inr snap"
    using assms r by (auto simp: refresh_candidate_def split: sum.splits)
  let ?res = "f_validate (ag_format a) snap (local_opts (re_validate_now env))"
  have f: "should_refresh_nudge (re_now env) snap ?res" "fp = snap_fingerprint snap" "res = ?res"
    using assms r p by (auto simp: refresh_candidate_def Let_def split: if_splits)
  have "vr_status ?res \<in> {StatusExpired, StatusRevoked} \<or>
        vr_status ?res = StatusOK \<and> re_now env < snap_expires snap \<and> snap_expires snap - re_now env \<le> minutes 30"
    using f(1) by (auto simp: should_refresh_nudge_def Let_def time_defs refreshNearExpiry_def minutes_def min_int64_def
        max_int64_def split: if_splits)
  then show ?thesis unfolding due_def Let_def using raw p f(2,3) by blast
qed

lemma refresh_attempt:
  assumes "maybe_refresh err_text env a = Some (run, evs, a', buf)" "run \<noteq> []"
  obtains fp why where "due env a fp why" "claim_refresh_attempt (re_claim_now env) fp why a = (True, a')"
proof -
  obtain c b where c: "refresh_candidate (re_host env) (re_validate_now env) (re_now env) a = (c, b)" by fastforce
  obtain fp res where cand: "refresh_candidate (re_host env) (re_validate_now env) (re_now env) a = (Some (fp, res), b)"
    using assms c by (cases c) (auto simp: maybe_refresh_def)
  have "claim_refresh_attempt (re_claim_now env) fp (vr_detail res) a = (True, a')"
    using assms cand
    by (auto simp: maybe_refresh_def Let_def split: sum.splits if_splits prod.splits bool.splits)
  with candidate_due [OF cand] show ?thesis by (rule that)
qed

lemma claim_sel:
  assumes "claim_refresh_attempt now fp why a = (True, a')"
  shows "ag_refresh_at a' = now" "ag_refresh_fp a' = fp" "ag_refresh_reason a' = why"
    "ag_refresh_fp a = fp \<Longrightarrow> ag_refresh_reason a = why \<Longrightarrow> is_zero_time (ag_refresh_at a) \<or> refreshCooldown \<le> time_sub now (ag_refresh_at a)"
  using assms by (auto simp: claim_refresh_attempt_def split: if_splits)

text \<open>C20: A provider's program is only run for a file that is expired, revoked or within half an hour of its expiry, and if a
  second nudge runs a program within two hours of the first, then the file or the reason has changed.\<close>

theorem refresh_due_and_rare:
  assumes "maybe_refresh err_text env a = Some (run, evs, a', buf)" "run \<noteq> []"
    "maybe_refresh err_text later a' = Some (run2, evs2, a2, buf2)" "run2 \<noteq> []"
    "re_claim_now later < re_claim_now env + hours 2" "\<not> is_zero_time (re_claim_now env)"
  shows "\<exists>fp why fp2 why2. due env a fp why \<and> due later a' fp2 why2 \<and> (fp, why) \<noteq> (fp2, why2)"
proof -
  obtain fp why where one: "due env a fp why" "claim_refresh_attempt (re_claim_now env) fp why a = (True, a')"
    by (rule refresh_attempt [OF assms(1,2)])
  obtain fp2 why2 where two: "due later a' fp2 why2" "claim_refresh_attempt (re_claim_now later) fp2 why2 a' = (True, a2)"
    by (rule refresh_attempt [OF assms(3,4)])
  have "time_sub (re_claim_now later) (re_claim_now env) < refreshCooldown"
    using assms(5) by (auto simp: time_sub_def refreshCooldown_def hours_def min_int64_def)
  then have "(fp, why) \<noteq> (fp2, why2)"
    using claim_sel(4) [OF two(2)] claim_sel(1-3) [OF one(2)] assms(6) by auto
  then show ?thesis using one(1) two(1) by blast
qed

text \<open>A node whose file reads \<open>w\<close>, with a format that takes every file for expired credentials; the program runs and changes nothing.\<close>

definition stuck_format :: format_ops where
  "stuck_format = codex_format\<lparr>f_parse := (\<lambda>w. Inr (SCodex \<lparr>cx_auth_mode = [], cx_access = w, cx_refresh = [], cx_id_token = [],
       cx_account_id = [], cx_jwt_exp = zero_time, cx_last_refresh = zero_time, cx_email = [], cx_user_id = [],
       cx_chatgpt_account = [], cx_raw = w, cx_fingerprint = w, cx_identity = []\<rparr>)),
     f_validate := (\<lambda>s o1. \<lparr>vr_status = StatusExpired, vr_detail = [], vr_checked = vo_now o1\<rparr>)\<rparr>"

definition stuck_agent :: agent where
  "stuck_agent = new_agent some_client [] False []
     \<lparr>pb_name = ''p'', pb_format = [], pb_dir = ''/d'', pb_watch_files = [], pb_account_meta_path = []\<rparr> stuck_format ''/d/c'' []"

definition stuck_env :: "string \<Rightarrow> gotime \<Rightarrow> refresh_env" where
  "stuck_env w t = \<lparr>re_host = \<lparr>he_read = (\<lambda>_. Inr w), he_is_dir = (\<lambda>_. False), he_lookup = (\<lambda>_. None), he_home = Inr []\<rparr>,
     re_validate_now = t, re_now = t, re_claim_now = t, re_in_path = (\<lambda>_. True), re_tmp = ''/tmp'', re_run = (\<lambda>_. (None, [])),
     re_wait_start = (\<lambda>_. t), re_polls = (\<lambda>_ k. \<lparr>po_read = Inr None, po_now = t + seconds (11 + int k), po_alive = True\<rparr>)\<rparr>"

theorem refresh_terminates_witness: "\<exists>r. maybe_refresh (\<lambda>_. []) (stuck_env ''x'' (hours 1)) stuck_agent = Some r"
proof (rule refresh_terminates)
  show "re_wait_start (stuck_env ''x'' (hours 1)) i + int k * refreshPollInterval \<le> po_now (re_polls (stuck_env ''x'' (hours 1)) i k)" for i k
    by (simp add: stuck_env_def refreshPollInterval_def seconds_def milliseconds_def)
qed

lemma stuck_run: "\<exists>c evs buf. maybe_refresh (\<lambda>_. []) (stuck_env w t) (stuck_agent\<lparr>ag_refresh_at := u, ag_refresh_fp := v\<rparr>) =
    (if v = w \<and> \<not> is_zero_time u \<and> time_sub t u < refreshCooldown
     then Some ([], [], stuck_agent\<lparr>ag_refresh_at := u, ag_refresh_fp := v\<rparr>, buf)
     else Some ([c], evs, stuck_agent\<lparr>ag_refresh_at := t, ag_refresh_fp := w\<rparr>, buf))"
proof -
  have wait: "wait_for_mutation RefreshPolls stuck_format w (time_add t refreshSettleWindow)
      (\<lambda>k. \<lparr>po_read = Inr None, po_now = t + seconds (11 + int k), po_alive = True\<rparr>) 0 = Some (False, w)"
    by (simp add: RefreshPolls_def numeral_eq_Suc changed_to_def time_defs refreshSettleWindow_def seconds_def)
  have names: "f_name stuck_format = codexFormatName" "codexFormatName \<noteq> claudeFormatName" "codexFormatName \<noteq> geminiFormatName"
    by (simp_all add: stuck_format_def codex_format_def format_names)
  have cand: "refresh_candidate (re_host (stuck_env w t)) (re_validate_now (stuck_env w t)) (re_now (stuck_env w t))
      (stuck_agent\<lparr>ag_refresh_at := u, ag_refresh_fp := v\<rparr>) =
      (Some (w, \<lparr>vr_status = StatusExpired, vr_detail = [], vr_checked = t\<rparr>), Some w)"
    by (simp add: refresh_candidate_def read_file_if_exists_def stuck_env_def stuck_agent_def new_agent_def stuck_format_def
        should_refresh_nudge_def local_opts_def)
  obtain c cs where cs: "filter_available (re_in_path (stuck_env w t)) (codex_refresh_commands (re_tmp (stuck_env w t))
      (stuck_agent\<lparr>ag_refresh_at := u, ag_refresh_fp := v\<rparr>)) = c # cs"
    by (simp add: filter_available_def codex_refresh_commands_def with_login_shell_def stuck_env_def)
  have agent: "ag_format stuck_agent = stuck_format" "ag_refresh_reason stuck_agent = []"
    by (simp_all add: stuck_agent_def new_agent_def)
  have agent': "stuck_agent\<lparr>ag_refresh_at := x, ag_refresh_fp := y, ag_refresh_reason := []\<rparr> = stuck_agent\<lparr>ag_refresh_at := x, ag_refresh_fp := y\<rparr>" for x y
    by (simp add: stuck_agent_def new_agent_def)
  show ?thesis
    using wait cs cand names agent agent'
    by (auto simp: maybe_refresh_def refresh_commands_def claim_refresh_attempt_def Let_def stuck_env_def)
qed

theorem refresh_due_and_rare_witness:
  "\<exists>fp why fp2 why2. due (stuck_env ''x'' (hours 1)) stuck_agent fp why \<and>
    due (stuck_env ''y'' (hours 2)) (stuck_agent\<lparr>ag_refresh_at := hours 1, ag_refresh_fp := ''x''\<rparr>) fp2 why2 \<and> (fp, why) \<noteq> (fp2, why2)"
proof -
  have "stuck_agent\<lparr>ag_refresh_at := zero_time, ag_refresh_fp := []\<rparr> = stuck_agent" by (simp add: stuck_agent_def new_agent_def)
  with stuck_run [of "''x''" "hours 1" "[]" zero_time] obtain c evs buf where
    one: "maybe_refresh (\<lambda>_. []) (stuck_env ''x'' (hours 1)) stuck_agent =
      Some ([c], evs, stuck_agent\<lparr>ag_refresh_at := hours 1, ag_refresh_fp := ''x''\<rparr>, buf)" by auto
  from stuck_run [of "''y''" "hours 2" "''x''" "hours 1"] obtain c2 evs2 buf2 where
    two: "maybe_refresh (\<lambda>_. []) (stuck_env ''y'' (hours 2)) (stuck_agent\<lparr>ag_refresh_at := hours 1, ag_refresh_fp := ''x''\<rparr>) =
      Some ([c2], evs2, stuck_agent\<lparr>ag_refresh_at := hours 2, ag_refresh_fp := ''y''\<rparr>, buf2)" by auto
  show ?thesis
    by (rule refresh_due_and_rare [OF one _ two]) (simp_all add: stuck_env_def hours_def is_zero_time_def zero_time_def)
qed

subsection \<open>The refresh token\<close>

definition public_part :: "refresh_command \<Rightarrow> string \<times> string list \<times> string \<times> string" where
  "public_part c = (rf_name c, rf_args c, rf_dir c, rf_description c)"

text \<open>The refresh token goes to the provider's program only in its environment: the program, its arguments, its
  directory and what is logged of it are the same whatever the file holds; and the token is in the
  environment of the login command alone.\<close>

theorem refresh_token_stays_in_environment:
  "case (refresh_commands tmp a raw, refresh_commands tmp a raw') of
     (Inr cs, Inr cs') \<Rightarrow> map public_part cs = map public_part cs' \<and> map rf_env (tl cs) = map rf_env (tl cs')
   | _ \<Rightarrow> True"
  by (auto simp: refresh_commands_def claude_refresh_commands_def claude_commands_def public_part_def
      split: sum.splits option.splits)

subsection \<open>A byte order mark\<close>

lemma bom_no_json: "json_unmarshal (utf8_bom @ s) = None"
proof -
  have "json_value (CHR 0xEF # r) = None" for r
    by (subst json_value.simps) (simp add: json_number_def num_sign_def num_int_def json_digits1_def is_digit_def)
  moreover have "skip_ws (utf8_bom @ s) = utf8_bom @ s" by (simp add: skip_ws_def utf8_bom_def json_space_def)
  ultimately show ?thesis by (simp add: json_unmarshal_def utf8_bom_def)
qed

text \<open>The parser accepts a credentials file that begins with a byte order mark; the nudge decodes the same bytes with the mark,
  fails, and runs nothing. Such credentials are never renewed.\<close>

lemma bom_never_renewed:
  assumes "he_read (re_host env) (ag_path a) = Inr (utf8_bom @ s)" "ag_format a = claude_format"
  shows "\<exists>evs buf. maybe_refresh err_text env a = Some ([], evs, a, buf)"
proof -
  obtain c b where c: "refresh_candidate (re_host env) (re_validate_now env) (re_now env) a = (c, b)" by fastforce
  have "read_file_if_exists (re_host env) (ag_path a) = Inr (Some (utf8_bom @ s))"
    using assms(1) by (simp add: read_file_if_exists_def)
  then have "c \<noteq> None \<Longrightarrow> b = Some (utf8_bom @ s)"
    using c by (auto simp: refresh_candidate_def Let_def split: sum.splits if_splits)
  then show ?thesis using assms(2) c
    by (cases c) (auto simp: maybe_refresh_def refresh_commands_def claude_refresh_commands_def claude_format_def
        claudeFormatName_def bom_no_json)
qed

end
