(* ===== verification/Client_Maintenance.thy ===== *)
theory Client_Maintenance
  imports Client_Refresh Client_Agent_Props
begin

text \<open>
  internal/client/maintenance.go: keeping the provider programs up to date with npm. What a command did and what its context
  said are parameters; the log records are values.
\<close>

definition cli_upgrade_package :: "string \<Rightarrow> string" where
  "cli_upgrade_package fmt =
     (if fmt = claudeFormatName then ''@anthropic-ai/claude-code''
      else if fmt = codexFormatName then ''@openai/codex''
      else if fmt = geminiFormatName then ''@google/gemini-cli''
      else [])"

text \<open>The set \<open>seen\<close> as a map, ranged over in the order of \<open>ord\<close>, then sorted. An agent always has its format.\<close>

fun packages_seen :: "agent list \<Rightarrow> (string, unit) gomap \<Rightarrow> (string, unit) gomap" where
  "packages_seen [] seen = seen"
| "packages_seen (a # as) seen = (let pkg = cli_upgrade_package (f_name (ag_format a)) in
     packages_seen as (if pkg = [] then seen else mput pkg () seen))"

definition packages_for_agents ::
  "((string \<times> unit) list \<Rightarrow> (string \<times> unit) list) \<Rightarrow> agent list \<Rightarrow> string list" where
  "packages_for_agents ord agents = sort (map fst (ord (packages_seen agents [])))"

record upgrade_maintainer =
  um_cfg :: cli_upgrade_config
  um_packages :: "string list"

definition new_maintainer ::
  "((string \<times> unit) list \<Rightarrow> (string \<times> unit) list) \<Rightarrow> cli_upgrade_config \<Rightarrow> agent list \<Rightarrow> upgrade_maintainer option" where
  "new_maintainer ord cfg agents =
     (if \<not> cu_enabled cfg then None
      else let packages = packages_for_agents ord agents in
        if packages = [] then None else Some \<lparr>um_cfg = cfg, um_packages = packages\<rparr>)"

subsection \<open>Is a package installed\<close>

text \<open>\<open>ctx.Err()\<close> after the call of \<open>cancel\<close>, from what it was before: a context that has not ended yet is cancelled by it.\<close>

definition err_after_cancel :: "gerr option \<Rightarrow> gerr option" where
  "err_after_cancel before = (case before of None \<Rightarrow> Some Canceled | Some e \<Rightarrow> Some e)"

definition is_context_error :: "gerr option \<Rightarrow> bool" where
  "is_context_error e = (case e of None \<Rightarrow> False | Some x \<Rightarrow> errors_is x Canceled \<or> errors_is x DeadlineExceeded)"

definition npm_check_command :: "string \<Rightarrow> string \<Rightarrow> refresh_command" where
  "npm_check_command tmp pkg =
     \<lparr>rf_name = ''bash'',
      rf_args = [''-lic'',
        ''command -v npm >/dev/null 2>&1 || exit 127; npm list -g \"$1\" --depth=0 >/dev/null 2>&1 || exit 42'',
        ''pangaea-cli-upgrade-check'', pkg],
      rf_env = [], rf_dir = tmp, rf_description = ''npm global package check''\<rparr>"

text \<open>\<open>result\<close> is the error of the command, \<open>before\<close> that of its context when it returned, \<open>exit_code\<close> that of an \<open>*exec.ExitError\<close> or \<open>-1\<close>.\<close>

definition npm_installed :: "(gerr \<Rightarrow> int) \<Rightarrow> gerr option \<Rightarrow> gerr option \<Rightarrow> bool \<times> gerr option" where
  "npm_installed exit_code before result = (case result of
     None \<Rightarrow> (True, None)
   | Some e \<Rightarrow>
       let ctx = err_after_cancel before in
       if is_context_error ctx then (False, ctx)
       else if exit_code e = 42 then (False, None)
       else (False, Some e))"

subsection \<open>An upgrade\<close>

definition maintenance_output_text :: "string \<Rightarrow> string" where
  "maintenance_output_text out = (let lines = str_fields (trim_space out) in
     if lines = [] then []
     else join_with '' '' (if length lines > 40 then take 40 lines @ [''...''] else lines))"

datatype upgrade_event =
    UpgradeNoBash
  | UpgradeCheckFailed string gerr
  | UpgradeNothing "string list"
  | UpgradeFailed "string list" string
  | UpgradeCompleted "string list" string

definition upgrade_command :: "string \<Rightarrow> string list \<Rightarrow> refresh_command" where
  "upgrade_command tmp installed =
     \<lparr>rf_name = ''bash'', rf_args = [''-lic'', ''exec npm install -g \"$@\"'', ''pangaea-cli-upgrade''] @
        map (\<lambda>p. p @ ''@latest'') installed,
      rf_env = [], rf_dir = tmp, rf_description = ''npm global CLI upgrade''\<rparr>"

record upgrade_env =
  ue_bash :: bool
  ue_tmp :: string
  ue_exit_code :: "gerr \<Rightarrow> int"
  ue_check :: "string \<Rightarrow> gerr option \<times> gerr option"
  ue_upgrade :: "gerr option \<times> string"

definition check_package :: "upgrade_env \<Rightarrow> string \<Rightarrow> bool \<times> gerr option" where
  "check_package env pkg = (case ue_check env pkg of (before, result) \<Rightarrow> npm_installed (ue_exit_code env) before result)"

text \<open>The commands run and the log.\<close>

definition upgrade_once ::
  "(gerr \<Rightarrow> string) \<Rightarrow> upgrade_env \<Rightarrow> upgrade_maintainer \<Rightarrow> refresh_command list \<times> upgrade_event list" where
  "upgrade_once err_text env m =
     (if \<not> ue_bash env then ([], [UpgradeNoBash])
      else
        let checks = map (npm_check_command (ue_tmp env)) (um_packages m);
            failed = concat (map (\<lambda>p. case snd (check_package env p) of None \<Rightarrow> [] | Some e \<Rightarrow> [UpgradeCheckFailed p e]) (um_packages m));
            installed = filter (\<lambda>p. snd (check_package env p) = None \<and> fst (check_package env p)) (um_packages m)
        in if installed = [] then (checks, failed @ [UpgradeNothing (um_packages m)])
           else (checks @ [upgrade_command (ue_tmp env) installed],
             failed @ [(case ue_upgrade env of
                (Some e, out) \<Rightarrow> UpgradeFailed installed (refresh_err_text err_text e out)
              | (None, out) \<Rightarrow> UpgradeCompleted installed (maintenance_output_text out))]))"

subsection \<open>What it does\<close>

lemma packages_seen_keys:
  "fst ` set (packages_seen as seen) = fst ` set seen \<union> ((\<lambda>a. cli_upgrade_package (f_name (ag_format a))) ` set as - {[]})"
  by (induction as arbitrary: seen) (auto simp: Let_def dom_update)

lemma packages_seen_ok: "gomap_ok seen \<Longrightarrow> gomap_ok (packages_seen as seen)"
  by (induction as arbitrary: seen) (simp_all add: Let_def)

text \<open>The packages kept up to date are the sorted set of the npm packages of the agents' formats, whatever the order in
  which the set is ranged over.\<close>

theorem packages_are_the_sorted_set:
  assumes "range_ok ord"
  shows "packages_for_agents ord agents =
    sorted_list_of_set ((\<lambda>a. cli_upgrade_package (f_name (ag_format a))) ` set agents - {[]})"
proof -
  let ?m = "packages_seen agents []"
  have ok: "distinct (map fst ?m)" using packages_seen_ok [of "[]" agents] by (simp add: gomap_ok_def)
  then have p: "mset (ord ?m) = mset ?m" using assms by (simp add: range_ok_def)
  then have "distinct (map fst (ord ?m))" using ok by (metis mset_eq_imp_distinct_iff mset_map)
  moreover have "set (map fst (ord ?m)) = (\<lambda>a. cli_upgrade_package (f_name (ag_format a))) ` set agents - {[]}"
    using packages_seen_keys [of agents "[]"] p by (metis (no_types, lifting) Un_empty_left empty_set image_empty list.set_map mset_eq_setD)
  ultimately show ?thesis unfolding packages_for_agents_def
    by (metis sorted_list_of_set.sorted_key_list_of_set_unique sorted_list_of_set_sort_remdups distinct_remdups_id)
qed

definition codex_agent :: agent where
  "codex_agent = new_agent some_client [] False []
     \<lparr>pb_name = ''p'', pb_format = [], pb_dir = ''/d'', pb_watch_files = [], pb_account_meta_path = []\<rparr> codex_format ''/d/c'' []"

theorem packages_are_the_sorted_set_witness: "packages_for_agents rev [codex_agent, codex_agent] = [''@openai/codex'']"
proof -
  have "range_ok rev" by (simp add: range_ok_def)
  moreover have "cli_upgrade_package (f_name (ag_format codex_agent)) = ''@openai/codex''"
    by (simp add: codex_agent_def new_agent_def codex_format_def cli_upgrade_package_def format_names)
  ultimately show ?thesis using packages_are_the_sorted_set [of rev "[codex_agent, codex_agent]"] by simp
qed

text \<open>A package whose check fails, for whatever reason, is reported as a failed check: the context's error is read
  after the context was cancelled, so the branch that recognises the exit code of a missing package is never taken.
  What is upgraded is exactly what the check found.\<close>

theorem missing_package_is_a_failed_check:
  assumes "case before of None \<Rightarrow> True | Some c \<Rightarrow> c = Canceled \<or> c = DeadlineExceeded"
  shows "npm_installed exit_code before result =
    (case result of None \<Rightarrow> (True, None) | Some e \<Rightarrow> (False, Some (case before of None \<Rightarrow> Canceled | Some c \<Rightarrow> c)))"
  using assms by (auto simp: npm_installed_def err_after_cancel_def is_context_error_def Let_def split: option.splits)

theorem missing_package_is_a_failed_check_witness:
  "npm_installed (\<lambda>_. 42) None (Some (Ext ''exit status 42'')) = (False, Some Canceled)"
  using missing_package_is_a_failed_check [of None "\<lambda>_. 42" "Some (Ext ''exit status 42'')"] by simp

end
