(* ===== verification/Client_Reverse.thy ===== *)
theory Client_Reverse
  imports Client_Maintenance
begin

text \<open>
  The entry points of internal/client: \<open>Run\<close> of agent.go and \<open>RunReverse\<close> of reverse.go, up to the goroutines they start, and the
  listener of a reverse client, to which the server connects. TLS set-up and the websocket upgrade are parameters.
\<close>

definition agent_version :: "string \<Rightarrow> string" where
  "agent_version v = (if v = [] then ''dev'' else v)"

text \<open>\<open>tls\<close> is the error of building the TLS configuration, \<open>None\<close> also when the caller gave one.\<close>

definition client_run ::
  "registry \<Rightarrow> ((string \<times> unit) list \<Rightarrow> (string \<times> unit) list) \<Rightarrow> gerr option \<Rightarrow> client_config \<Rightarrow> string \<Rightarrow> bool \<Rightarrow> string \<Rightarrow>
   gerr + agent list \<times> upgrade_maintainer option" where
  "client_run reg ord tls cfg version fail_fast token = (case check_server_url (cc_server cfg) of
     Some e \<Rightarrow> Inl e
   | None \<Rightarrow>
       if cc_profiles cfg = [] then Inl (wrap_s ErrConfigInvalid ''client.profiles must not be empty'' [])
       else (case tls of Some e \<Rightarrow> Inl e
         | None \<Rightarrow> ebind (build_agents reg cfg (agent_version version) fail_fast token) (\<lambda>agents.
             Inr (agents, new_maintainer ord (cc_cli_upgrade cfg) agents))))"

text \<open>The end of \<open>Run\<close>: what it makes of the group's error.\<close>

definition client_exit :: "gerr option \<Rightarrow> gerr option" where
  "client_exit e = (case e of None \<Rightarrow> None | Some x \<Rightarrow> if errors_is x Canceled then None else Some x)"

definition DefaultReverseWSPath :: string where "DefaultReverseWSPath = ''/reverse/profile/''"

definition validate_reverse_config :: "client_config \<Rightarrow> gerr option" where
  "validate_reverse_config cfg =
     (let r = cc_reverse cfg; bad = (\<lambda>m. Some (wrap_s ErrConfigInvalid m [])) in
      if rc_listen r = [] then bad ''client.reverse.listen is required''
      else if rk_ca_cert (rc_pki r) = [] then bad ''client.reverse.pki.ca_cert is required''
      else if rk_server_cert (rc_pki r) = [] \<or> rk_server_key (rc_pki r) = [] then
        bad ''client.reverse.pki.{server_cert,server_key} are required''
      else if rc_allowed_peers r = [] then bad ''client.reverse.allowed_peers must not be empty''
      else None)"

text \<open>A connection is its number. A reverse agent holds the agent and the connection it serves.\<close>

record reverse_agent =
  ra_agent :: agent
  ra_conn :: "nat option"

type_synonym reverse_agents = "(string, reverse_agent) gomap"

fun by_profile :: "agent list \<Rightarrow> reverse_agents \<Rightarrow> reverse_agents" where
  "by_profile [] m = m"
| "by_profile (a # as) m = by_profile as (mput (ag_profile a) \<lparr>ra_agent = a, ra_conn = None\<rparr> m)"

text \<open>The start: \<open>tls\<close> and \<open>listen\<close> are the errors of the TLS set-up and of the listener.\<close>

definition reverse_run ::
  "registry \<Rightarrow> ((string \<times> unit) list \<Rightarrow> (string \<times> unit) list) \<Rightarrow> gerr option \<Rightarrow> gerr option \<Rightarrow> client_config \<Rightarrow> string \<Rightarrow>
   bool \<Rightarrow> string \<Rightarrow> gerr + reverse_agents \<times> upgrade_maintainer option" where
  "reverse_run reg ord tls listen cfg version fail_fast token = (case validate_reverse_config cfg of
     Some e \<Rightarrow> Inl e
   | None \<Rightarrow> ebind (build_agents reg cfg (agent_version version) fail_fast token) (\<lambda>agents.
       case tls of Some e \<Rightarrow> Inl e
       | None \<Rightarrow> (case listen of Some e \<Rightarrow> Inl e
         | None \<Rightarrow> Inr (by_profile agents [], new_maintainer ord (cc_cli_upgrade cfg) agents))))"

text \<open>The handler before the upgrade: a status with its text, or the profile and the peer to serve.\<close>

record reverse_request =
  rv_path :: string
  rv_tls :: "(gerr + string) option"

definition reverse_handler ::
  "reverse_agents \<Rightarrow> string list \<Rightarrow> reverse_request \<Rightarrow> (int \<times> string) + (string \<times> string)" where
  "reverse_handler agents allowed r =
     (let profile = trim_space (trim_prefix (rv_path r) DefaultReverseWSPath) in
      if map_of agents profile = None then Inl (404, ''unknown profile'')
      else (case rv_tls r of
          None \<Rightarrow> Inl (400, ''TLS required'')
        | Some (Inl _) \<Rightarrow> Inl (401, ''peer cert invalid'')
        | Some (Inr cn) \<Rightarrow> if cn \<notin> set allowed then Inl (403, ''peer not allowed'') else Inr (profile, cn)))"

text \<open>\<open>serve\<close> before the session, with the connection it closes with a 1008, and after it.\<close>

definition serve_begin :: "nat \<Rightarrow> reverse_agent \<Rightarrow> reverse_agent \<times> nat option" where
  "serve_begin conn r = (r\<lparr>ra_conn := Some conn\<rparr>, ra_conn r)"

definition serve_end :: "nat \<Rightarrow> reverse_agent \<Rightarrow> reverse_agent" where
  "serve_end conn r = (if ra_conn r = Some conn then r\<lparr>ra_conn := None\<rparr> else r)"

text \<open>Connections come and go in any order; a connection is served once.\<close>

datatype reverse_move = Arrives nat | Leaves nat

record reverse_state =
  rs_agent :: reverse_agent
  rs_open :: "nat list"
  rs_closed :: "nat list"

inductive reverse_step :: "reverse_state \<Rightarrow> reverse_move \<Rightarrow> reverse_state \<Rightarrow> bool" where
  arrive: "conn \<notin> set (rs_open st) \<Longrightarrow> conn \<notin> set (rs_closed st) \<Longrightarrow> serve_begin conn (rs_agent st) = (r, prev) \<Longrightarrow>
    reverse_step st (Arrives conn) \<lparr>rs_agent = r, rs_open = conn # rs_open st,
      rs_closed = (case prev of None \<Rightarrow> rs_closed st | Some p \<Rightarrow> p # rs_closed st)\<rparr>"
| leave: "conn \<in> set (rs_open st) \<Longrightarrow>
    reverse_step st (Leaves conn) \<lparr>rs_agent = serve_end conn (rs_agent st), rs_open = removeAll conn (rs_open st),
      rs_closed = conn # rs_closed st\<rparr>"

inductive reverse_reach :: "agent \<Rightarrow> reverse_state \<Rightarrow> bool" for a where
  start: "reverse_reach a \<lparr>rs_agent = \<lparr>ra_agent = a, ra_conn = None\<rparr>, rs_open = [], rs_closed = []\<rparr>"
| step: "reverse_reach a st \<Longrightarrow> reverse_step st mv st' \<Longrightarrow> reverse_reach a st'"

text \<open>At most one session of a profile has a connection that is not closed; it is the newest, and the one the agent holds.\<close>

definition reverse_inv :: "reverse_state \<Rightarrow> bool" where
  "reverse_inv st \<longleftrightarrow> (case ra_conn (rs_agent st) of
     None \<Rightarrow> set (rs_open st) \<subseteq> set (rs_closed st)
   | Some c \<Rightarrow> c \<in> set (rs_open st) \<and> c \<notin> set (rs_closed st) \<and> set (rs_open st) \<subseteq> insert c (set (rs_closed st)))"

lemma reverse_step_inv: "reverse_step st mv st' \<Longrightarrow> reverse_inv st \<Longrightarrow> reverse_inv st'"
  by (induction rule: reverse_step.induct)
    (auto simp: reverse_inv_def serve_begin_def serve_end_def split: option.splits if_splits)

lemma reverse_reach_inv: "reverse_reach a st \<Longrightarrow> reverse_inv st"
proof (induction rule: reverse_reach.induct)
  case start
  then show ?case by (simp add: reverse_inv_def)
qed (rule reverse_step_inv)

text \<open>Whatever the order in which servers connect to a reverse client and their sessions end, a profile has at most one
  connection that has not been closed, and it is the one the agent holds: a newer connection closes the older,
  and the end of an older session does not let go of the newer.\<close>

theorem reverse_one_live_connection:
  assumes "reverse_reach a st"
  shows "filter (\<lambda>c. c \<notin> set (rs_closed st) \<and> ra_conn (rs_agent st) \<noteq> Some c) (rs_open st) = [] \<and>
    (case ra_conn (rs_agent st) of None \<Rightarrow> True | Some c \<Rightarrow> c \<in> set (rs_open st) \<and> c \<notin> set (rs_closed st))"
  using reverse_reach_inv [OF assms] by (auto simp: reverse_inv_def filter_empty_conv split: option.splits)

theorem reverse_one_live_connection_witness:
  "ra_conn (rs_agent \<lparr>rs_agent = \<lparr>ra_agent = codex_agent, ra_conn = Some 2\<rparr>, rs_open = [2], rs_closed = [1, 1]\<rparr>) = Some 2 \<and>
   (2::nat) \<notin> set (rs_closed \<lparr>rs_agent = \<lparr>ra_agent = codex_agent, ra_conn = Some 2\<rparr>, rs_open = [2], rs_closed = [1, 1]\<rparr>)"
proof -
  have a: "reverse_step \<lparr>rs_agent = \<lparr>ra_agent = codex_agent, ra_conn = None\<rparr>, rs_open = [], rs_closed = []\<rparr> (Arrives 1)
      \<lparr>rs_agent = \<lparr>ra_agent = codex_agent, ra_conn = Some 1\<rparr>, rs_open = [1], rs_closed = []\<rparr>"
    by (rule reverse_step.arrive [THEN back_subst [of "reverse_step _ _"]]) (auto simp: serve_begin_def)
  have b: "reverse_step \<lparr>rs_agent = \<lparr>ra_agent = codex_agent, ra_conn = Some 1\<rparr>, rs_open = [1], rs_closed = []\<rparr> (Arrives 2)
      \<lparr>rs_agent = \<lparr>ra_agent = codex_agent, ra_conn = Some 2\<rparr>, rs_open = [2, 1], rs_closed = [1]\<rparr>"
    by (rule reverse_step.arrive [THEN back_subst [of "reverse_step _ _"]]) (auto simp: serve_begin_def)
  have c: "reverse_step \<lparr>rs_agent = \<lparr>ra_agent = codex_agent, ra_conn = Some 2\<rparr>, rs_open = [2, 1], rs_closed = [1]\<rparr> (Leaves 1)
      \<lparr>rs_agent = \<lparr>ra_agent = codex_agent, ra_conn = Some 2\<rparr>, rs_open = [2], rs_closed = [1, 1]\<rparr>"
    by (rule reverse_step.leave [THEN back_subst [of "reverse_step _ _"]]) (auto simp: serve_end_def)
  have "reverse_reach codex_agent \<lparr>rs_agent = \<lparr>ra_agent = codex_agent, ra_conn = Some 2\<rparr>, rs_open = [2], rs_closed = [1, 1]\<rparr>"
    using reverse_reach.start [of codex_agent] a b c by (blast intro: reverse_reach.step)
  from reverse_one_live_connection [OF this] show ?thesis by simp
qed

end
