(* ===== verification/Watcher.thy ===== *)
theory Watcher
  imports Client_Agent
begin

text \<open>
  internal/watcher: from the raw notifications of the file system to settled events. The notifications, the clock and what
  \<open>os.Stat\<close> sees are inputs; the loop's three maps, the event channel and one function per branch of its \<open>select\<close> are the model.
\<close>

definition WatcherDebounceCore :: duration where "WatcherDebounceCore = milliseconds 50"
definition WatcherStableWindow :: duration where "WatcherStableWindow = milliseconds 200"
definition WatcherDefaultQueue :: int where "WatcherDefaultQueue = 64"

record watch_options =
  wo_debounce :: duration
  wo_stable :: duration
  wo_queue :: int

definition with_defaults :: "watch_options \<Rightarrow> watch_options" where
  "with_defaults o1 =
     \<lparr>wo_debounce = (if wo_debounce o1 \<le> 0 then WatcherDebounceCore else wo_debounce o1),
      wo_stable = (if wo_stable o1 \<le> 0 then WatcherStableWindow else wo_stable o1),
      wo_queue = (if wo_queue o1 \<le> 0 then WatcherDefaultQueue else wo_queue o1)\<rparr>"

text \<open>What \<open>os.Stat\<close> gives: \<open>None\<close> for an error, otherwise size and modification time.\<close>

type_synonym stat_fn = "string \<Rightarrow> (int \<times> gotime) option"

record watch_sample =
  wp_t :: gotime
  wp_seen :: "(int \<times> gotime) option"

record fs_watcher =
  fw_paths :: "string list"
  fw_dirs :: "string list"
  fw_opts :: watch_options
  fw_queue :: "watch_event list"
  fw_pending :: "(string, gotime) gomap"
  fw_last :: "(string, watch_event) gomap"
  fw_stable :: "(string, watch_sample) gomap"

subsection \<open>Making a watcher\<close>

fun abs_paths :: "(string \<Rightarrow> gerr + string) \<Rightarrow> string list \<Rightarrow> string list \<Rightarrow> gerr + string list" where
  "abs_paths to_abs [] out = Inr out"
| "abs_paths to_abs (p # ps) out = (case to_abs p of
     Inl e \<Rightarrow> Inl (wrap_e e ErrConfigInvalid ''watcher: abs path %q'' [ArgS p])
   | Inr ap \<Rightarrow> abs_paths to_abs ps (if ap \<in> set out then out else out @ [ap]))"

fun parent_dirs :: "(string \<Rightarrow> gerr option) \<Rightarrow> string list \<Rightarrow> string list \<Rightarrow> gerr + string list" where
  "parent_dirs stat_dir [] dirs = Inr dirs"
| "parent_dirs stat_dir (p # ps) dirs = (case stat_dir (path_dir p) of
     Some e \<Rightarrow> Inl (if errors_is e NotExist
       then wrap_e e ErrConfigInvalid ''watcher: parent directory missing for %q'' [ArgS p]
       else wrap_e e ErrConfigInvalid ''watcher: stat parent %q'' [ArgS (path_dir p)])
   | None \<Rightarrow> parent_dirs stat_dir ps (if path_dir p \<in> set dirs then dirs else dirs @ [path_dir p]))"

definition new_watcher ::
  "(string \<Rightarrow> gerr + string) \<Rightarrow> (string \<Rightarrow> gerr option) \<Rightarrow> string list \<Rightarrow> watch_options \<Rightarrow> gerr + fs_watcher" where
  "new_watcher to_abs stat_dir paths opts =
     (if paths = [] then Inl (wrap_s ErrConfigInvalid ''watcher: paths must not be empty'' [])
      else ebind (abs_paths to_abs paths []) (\<lambda>ps. ebind (parent_dirs stat_dir ps []) (\<lambda>dirs.
        Inr \<lparr>fw_paths = ps, fw_dirs = dirs, fw_opts = with_defaults opts, fw_queue = [], fw_pending = [], fw_last = [],
          fw_stable = []\<rparr>)))"

subsection \<open>Publishing\<close>

text \<open>The send, and while the channel is full the removal of its oldest event.\<close>

fun push_event :: "nat \<Rightarrow> watch_event \<Rightarrow> watch_event list \<Rightarrow> watch_event list" where
  "push_event cap ev [] = [ev]"
| "push_event cap ev (x # q) = (if length (x # q) < cap then x # q @ [ev] else push_event cap ev q)"

definition queue_cap :: "fs_watcher \<Rightarrow> nat" where "queue_cap w = nat (wo_queue (fw_opts w))"

definition publish_event :: "watch_event \<Rightarrow> fs_watcher \<Rightarrow> fs_watcher" where
  "publish_event ev w = w\<lparr>fw_last := mput (we_path ev) ev (fw_last w), fw_queue := push_event (queue_cap w) ev (fw_queue w)\<rparr>"

definition seen_event :: "string \<Rightarrow> (int \<times> gotime) option \<Rightarrow> watch_event" where
  "seen_event p seen = (case seen of
     None \<Rightarrow> \<lparr>we_path = p, we_exists = False, we_modified = zero_time, we_size = 0\<rparr>
   | Some (sz, mt) \<Rightarrow> \<lparr>we_path = p, we_exists = True, we_modified = mt, we_size = sz\<rparr>)"

definition build_event :: "stat_fn \<Rightarrow> string \<Rightarrow> watch_event" where "build_event stat p = seen_event p (stat p)"

text \<open>\<open>Start\<close> after the notification system is set up, whose error is the parameter \<open>init\<close>.\<close>

definition start_watcher :: "gerr option \<Rightarrow> stat_fn \<Rightarrow> fs_watcher \<Rightarrow> gerr + fs_watcher" where
  "start_watcher init stat w = (case init of
     Some e \<Rightarrow> Inl (wrap_e e ErrConfigInvalid ''watcher: fsnotify init'' [])
   | None \<Rightarrow> Inr (foldl (\<lambda>w p. publish_event (build_event stat p) w) w (fw_paths w)))"

subsection \<open>The loop\<close>

definition raw_event :: "string \<Rightarrow> gotime \<Rightarrow> fs_watcher \<Rightarrow> fs_watcher" where
  "raw_event name now w = foldl (\<lambda>w p. if name = p
       then w\<lparr>fw_pending := mput p now (fw_pending w), fw_stable := mdel p (fw_stable w)\<rparr> else w) w (fw_paths w)"

text \<open>One pending path at a tick: the event, if it is settled.\<close>

definition settle :: "gotime \<Rightarrow> stat_fn \<Rightarrow> string \<Rightarrow> fs_watcher \<Rightarrow> watch_event option \<times> fs_watcher" where
  "settle now stat p w =
     (let seen = stat p;
          same = (case map_of (fw_stable w) p of None \<Rightarrow> False | Some s \<Rightarrow> wp_seen s = seen)
      in if same \<and> wo_stable (fw_opts w) \<le> time_sub now (wp_t (the (map_of (fw_stable w) p))) then
           (let ev = seen_event p seen; w1 = publish_event ev w
            in (Some ev, w1\<lparr>fw_stable := mdel p (fw_stable w1), fw_pending := mdel p (fw_pending w1)\<rparr>))
         else if same then (None, w)
         else (None, w\<lparr>fw_stable := mput p \<lparr>wp_t = now, wp_seen = seen\<rparr> (fw_stable w)\<rparr>))"

fun settle_all :: "gotime \<Rightarrow> stat_fn \<Rightarrow> string list \<Rightarrow> fs_watcher \<Rightarrow> watch_event list \<times> fs_watcher" where
  "settle_all now stat [] w = ([], w)"
| "settle_all now stat (p # ps) w = (let (e, w1) = settle now stat p w; (es, w2) = settle_all now stat ps w1
     in ((case e of None \<Rightarrow> es | Some ev \<Rightarrow> ev # es), w2))"

text \<open>The pending paths that have been quiet long enough, in the order \<open>ord\<close> of the range.\<close>

definition quiet_paths ::
  "((string \<times> gotime) list \<Rightarrow> (string \<times> gotime) list) \<Rightarrow> gotime \<Rightarrow> fs_watcher \<Rightarrow> string list" where
  "quiet_paths ord now w =
     map fst (filter (\<lambda>(p, t). wo_debounce (fw_opts w) \<le> time_sub now t) (ord (fw_pending w)))"

definition tick ::
  "((string \<times> gotime) list \<Rightarrow> (string \<times> gotime) list) \<Rightarrow> gotime \<Rightarrow> stat_fn \<Rightarrow> fs_watcher \<Rightarrow> watch_event list \<times> fs_watcher" where
  "tick ord now stat w = settle_all now stat (quiet_paths ord now w) w"

text \<open>The consumer's receive.\<close>

definition take_event :: "fs_watcher \<Rightarrow> (watch_event \<times> fs_watcher) option" where
  "take_event w = (case fw_queue w of [] \<Rightarrow> None | ev # q \<Rightarrow> Some (ev, w\<lparr>fw_queue := q\<rparr>))"

end
