(* ===== verification/Watcher_Props.thy ===== *)
theory Watcher_Props
  imports Watcher
begin

text \<open>What an event of the watcher means, that a settled change is reported, and what the bounded channel keeps.\<close>

subsection \<open>The channel\<close>

lemma push_event_newest:
  "0 < cap \<Longrightarrow> length q \<le> cap \<Longrightarrow> push_event cap ev q = drop (Suc (length q) - cap) (q @ [ev])"
proof (induction q)
  case (Cons x q)
  then show ?case by (cases q) (auto simp: not_less le_Suc_eq)
qed simp

subsection \<open>One path at a tick\<close>

text \<open>What happens to a path depends on its own sample alone.\<close>

definition stays :: "gotime \<Rightarrow> (int \<times> gotime) option \<Rightarrow> duration \<Rightarrow> watch_sample option \<Rightarrow> bool" where
  "stays now seen window s = (case s of None \<Rightarrow> False | Some x \<Rightarrow> wp_seen x = seen \<and> \<not> window \<le> time_sub now (wp_t x))"

definition settles :: "gotime \<Rightarrow> (int \<times> gotime) option \<Rightarrow> duration \<Rightarrow> watch_sample option \<Rightarrow> bool" where
  "settles now seen window s = (case s of None \<Rightarrow> False | Some x \<Rightarrow> wp_seen x = seen \<and> window \<le> time_sub now (wp_t x))"

lemma publish_sel [simp]: "fw_pending (publish_event ev w) = fw_pending w" "fw_stable (publish_event ev w) = fw_stable w"
  "fw_opts (publish_event ev w) = fw_opts w" "fw_paths (publish_event ev w) = fw_paths w"
  by (simp_all add: publish_event_def)

lemma settle_facts:
  assumes "gomap_ok (fw_stable w)" "gomap_ok (fw_pending w)" "settle now stat p w = (e, w')"
  defines "old \<equiv> map_of (fw_stable w) p" and "S \<equiv> wo_stable (fw_opts w)"
  shows "e = (if settles now (stat p) S old then Some (seen_event p (stat p)) else None)"
    "map_of (fw_stable w') q = (if q \<noteq> p then map_of (fw_stable w) q else if settles now (stat p) S old then None
       else if stays now (stat p) S old then old else Some \<lparr>wp_t = now, wp_seen = stat p\<rparr>)"
    "map_of (fw_pending w') q = (if q = p \<and> settles now (stat p) S old then None else map_of (fw_pending w) q)"
    "fw_opts w' = fw_opts w" "fw_paths w' = fw_paths w" "gomap_ok (fw_stable w')" "gomap_ok (fw_pending w')"
  using assms(1-3) unfolding assms(4,5)
  by (auto simp: settle_def Let_def settles_def stays_def gm.get_del update_conv split: option.splits if_splits)

text \<open>What a pass over the paths \<open>ps\<close> does.\<close>

definition passed :: "gotime \<Rightarrow> stat_fn \<Rightarrow> string list \<Rightarrow> fs_watcher \<Rightarrow> watch_event list \<Rightarrow> fs_watcher \<Rightarrow> bool" where
  "passed now stat ps w es w' \<longleftrightarrow>
     (\<forall>ev. ev \<in> set es \<longleftrightarrow> (\<exists>p \<in> set ps. settles now (stat p) (wo_stable (fw_opts w)) (map_of (fw_stable w) p) \<and> ev = seen_event p (stat p))) \<and>
     (\<forall>q. map_of (fw_stable w') q = (if q \<notin> set ps then map_of (fw_stable w) q
       else if settles now (stat q) (wo_stable (fw_opts w)) (map_of (fw_stable w) q) then None
       else if stays now (stat q) (wo_stable (fw_opts w)) (map_of (fw_stable w) q) then map_of (fw_stable w) q
       else Some \<lparr>wp_t = now, wp_seen = stat q\<rparr>)) \<and>
     (\<forall>q. map_of (fw_pending w') q = (if q \<in> set ps \<and> settles now (stat q) (wo_stable (fw_opts w)) (map_of (fw_stable w) q) then None
       else map_of (fw_pending w) q)) \<and>
     fw_opts w' = fw_opts w \<and> fw_paths w' = fw_paths w \<and> gomap_ok (fw_stable w') \<and> gomap_ok (fw_pending w')"

lemma settle_all_passed:
  assumes "distinct ps" "gomap_ok (fw_stable w)" "gomap_ok (fw_pending w)" "settle_all now stat ps w = (es, w')"
  shows "passed now stat ps w es w'"
  using assms
proof (induction ps arbitrary: w es)
  case (Cons p ps)
  obtain e w1 where s: "settle now stat p w = (e, w1)" by fastforce
  obtain es2 where r: "settle_all now stat ps w1 = (es2, w')" "es = (case e of None \<Rightarrow> es2 | Some ev \<Rightarrow> ev # es2)"
    using Cons.prems(4) s by (auto split: prod.splits)
  note f = settle_facts [OF Cons.prems(2,3) s]
  have IH: "passed now stat ps w1 es2 w'" using Cons.IH [OF _ f(6,7) r(1)] Cons.prems(1) by simp
  have same: "map_of (fw_stable w1) q = map_of (fw_stable w) q" if "q \<in> set ps" for q
    using that Cons.prems(1) f(2) [of q] by auto
  let ?S = "wo_stable (fw_opts w)"
  have ev: "ev \<in> set es \<longleftrightarrow> (\<exists>q \<in> set (p # ps). settles now (stat q) ?S (map_of (fw_stable w) q) \<and> ev = seen_event q (stat q))" for ev
  proof -
    have "ev \<in> set es2 \<longleftrightarrow> (\<exists>q \<in> set ps. settles now (stat q) ?S (map_of (fw_stable w) q) \<and> ev = seen_event q (stat q))"
      using IH same by (simp add: passed_def f(4) cong: bex_cong)
    then show ?thesis using r(2) f(1) by (auto split: if_splits)
  qed
  have st: "map_of (fw_stable w') q = (if q \<notin> set (p # ps) then map_of (fw_stable w) q
       else if settles now (stat q) ?S (map_of (fw_stable w) q) then None
       else if stays now (stat q) ?S (map_of (fw_stable w) q) then map_of (fw_stable w) q
       else Some \<lparr>wp_t = now, wp_seen = stat q\<rparr>)" for q
  proof -
    have "map_of (fw_stable w') q = (if q \<notin> set ps then map_of (fw_stable w1) q
       else if settles now (stat q) ?S (map_of (fw_stable w1) q) then None
       else if stays now (stat q) ?S (map_of (fw_stable w1) q) then map_of (fw_stable w1) q
       else Some \<lparr>wp_t = now, wp_seen = stat q\<rparr>)" using IH by (simp add: passed_def f(4))
    then show ?thesis using same [of q] Cons.prems(1) by (cases "q = p"; cases "q \<in> set ps") (simp_all add: f(2))
  qed
  have pe: "map_of (fw_pending w') q = (if q \<in> set (p # ps) \<and> settles now (stat q) ?S (map_of (fw_stable w) q) then None
       else map_of (fw_pending w) q)" for q
  proof -
    have "map_of (fw_pending w') q = (if q \<in> set ps \<and> settles now (stat q) ?S (map_of (fw_stable w1) q) then None
       else map_of (fw_pending w1) q)" using IH by (simp add: passed_def f(4))
    then show ?thesis using same [of q] Cons.prems(1) by (cases "q = p"; cases "q \<in> set ps") (simp_all add: f(3))
  qed
  have "fw_opts w' = fw_opts w \<and> fw_paths w' = fw_paths w \<and> gomap_ok (fw_stable w') \<and> gomap_ok (fw_pending w')"
    using IH by (simp add: passed_def f(4,5))
  with ev st pe show ?case unfolding passed_def by blast
qed (auto simp: passed_def)

subsection \<open>Runs\<close>

text \<open>What happened, the newest first: a raw notification and the clock at it; a tick with what it saw and published; a receive.\<close>

datatype watch_label = Raw string gotime | Tick gotime stat_fn "watch_event list" | Taken

inductive watch_run :: "fs_watcher \<Rightarrow> watch_label list \<Rightarrow> fs_watcher \<Rightarrow> bool" for w0 where
  start: "watch_run w0 [] w0"
| raw: "watch_run w0 ls w \<Longrightarrow> p \<in> set (fw_paths w) \<Longrightarrow> watch_run w0 (Raw p t # ls) (raw_event p t w)"
| ticked: "watch_run w0 ls w \<Longrightarrow> range_ok ord \<Longrightarrow> tick ord now stat w = (es, w') \<Longrightarrow> watch_run w0 (Tick now stat es # ls) w'"
| received: "watch_run w0 ls w \<Longrightarrow> take_event w = Some (ev, w') \<Longrightarrow> watch_run w0 (Taken # ls) w'"

text \<open>The time of the last notification of a path, and whether a sample was taken since.\<close>

fun last_raw :: "string \<Rightarrow> watch_label list \<Rightarrow> gotime option" where
  "last_raw p [] = None"
| "last_raw p (Raw q t # ls) = (if q = p then Some t else last_raw p ls)"
| "last_raw p (_ # ls) = last_raw p ls"

fun sampled :: "string \<Rightarrow> watch_sample \<Rightarrow> watch_label list \<Rightarrow> bool" where
  "sampled p s [] = False"
| "sampled p s (Raw q t # ls) = (q \<noteq> p \<and> sampled p s ls)"
| "sampled p s (Tick t stat es # ls) = (t = wp_t s \<and> stat p = wp_seen s \<or> sampled p s ls)"
| "sampled p s (Taken # ls) = sampled p s ls"

definition fresh :: "fs_watcher \<Rightarrow> bool" where "fresh w \<longleftrightarrow> fw_pending w = [] \<and> fw_stable w = []"

definition watch_inv :: "fs_watcher \<Rightarrow> watch_label list \<Rightarrow> fs_watcher \<Rightarrow> bool" where
  "watch_inv w0 ls w \<longleftrightarrow> gomap_ok (fw_stable w) \<and> gomap_ok (fw_pending w) \<and> fw_opts w = fw_opts w0 \<and> fw_paths w = fw_paths w0 \<and>
     (\<forall>p t. map_of (fw_pending w) p = Some t \<longrightarrow> last_raw p ls = Some t) \<and>
     (\<forall>p s. map_of (fw_stable w) p = Some s \<longrightarrow> sampled p s ls \<and>
        (\<exists>t. map_of (fw_pending w) p = Some t \<and> wo_debounce (fw_opts w) \<le> time_sub (wp_t s) t))"

lemma raw_event_fold:
  "foldl (\<lambda>w p. if name = p then w\<lparr>fw_pending := mput p now (fw_pending w), fw_stable := mdel p (fw_stable w)\<rparr> else w) w ps =
    (if name \<in> set ps then w\<lparr>fw_pending := mput name now (fw_pending w), fw_stable := mdel name (fw_stable w)\<rparr> else w)"
  by (induction ps arbitrary: w) (auto simp: update_triv delete_idem)

lemma quiet_paths_set:
  assumes "range_ok ord" "gomap_ok (fw_pending w)"
  shows "distinct (quiet_paths ord now w)"
    "p \<in> set (quiet_paths ord now w) \<longleftrightarrow> (\<exists>t. map_of (fw_pending w) p = Some t \<and> wo_debounce (fw_opts w) \<le> time_sub now t)"
proof -
  have m: "mset (ord (fw_pending w)) = mset (fw_pending w)" using assms(1) by (simp add: range_ok_def)
  then have d: "distinct (map fst (ord (fw_pending w)))" using assms(2) by (metis gomap_ok_def mset_eq_imp_distinct_iff mset_map)
  then show "distinct (quiet_paths ord now w)" unfolding quiet_paths_def by (rule distinct_map_filter)
  have "set (ord (fw_pending w)) = set (fw_pending w)" using m by (metis mset_eq_setD)
  then show "p \<in> set (quiet_paths ord now w) \<longleftrightarrow> (\<exists>t. map_of (fw_pending w) p = Some t \<and> wo_debounce (fw_opts w) \<le> time_sub now t)"
    using assms(2) by (force simp: quiet_paths_def gomap_ok_def)
qed

lemma watch_run_inv:
  assumes "watch_run w0 ls w" "fresh w0"
  shows "watch_inv w0 ls w"
  using assms
proof (induction rule: watch_run.induct)
  case start
  then show ?case by (simp add: watch_inv_def fresh_def gomap_ok_def)
next
  case (raw ls w p t)
  then have "watch_inv w0 ls w" by simp
  then show ?case using raw(2)
    by (auto simp: watch_inv_def raw_event_def raw_event_fold gm.get_del update_conv)
next
  case (ticked ls w ord now stat es w')
  then have inv: "watch_inv w0 ls w" by simp
  then have ok: "gomap_ok (fw_stable w)" "gomap_ok (fw_pending w)" by (simp_all add: watch_inv_def)
  note q = quiet_paths_set [OF ticked(2) ok(2), where now = now]
  have P: "passed now stat (quiet_paths ord now w) w es w'"
    using settle_all_passed [OF q(1) ok] ticked(3) by (simp add: tick_def)
  have pend: "map_of (fw_pending w') p = Some t \<Longrightarrow> map_of (fw_pending w) p = Some t" for p t
    using P by (auto simp: passed_def split: if_splits)
  have "sampled p s (Tick now stat es # ls) \<and>
      (\<exists>t. map_of (fw_pending w') p = Some t \<and> wo_debounce (fw_opts w) \<le> time_sub (wp_t s) t)"
    if s: "map_of (fw_stable w') p = Some s" for p s
  proof (cases "p \<in> set (quiet_paths ord now w)")
    case False
    then have "map_of (fw_stable w) p = Some s" "map_of (fw_pending w') p = map_of (fw_pending w) p"
      using P s by (auto simp: passed_def)
    then show ?thesis using inv by (auto simp: watch_inv_def)
  next
    case True
    then obtain t where t: "map_of (fw_pending w) p = Some t" "wo_debounce (fw_opts w) \<le> time_sub now t" using q(2) by auto
    have ns: "\<not> settles now (stat p) (wo_stable (fw_opts w)) (map_of (fw_stable w) p)" using P True s by (auto simp: passed_def)
    then have pe: "map_of (fw_pending w') p = Some t" using P t(1) by (simp add: passed_def)
    show ?thesis
    proof (cases "stays now (stat p) (wo_stable (fw_opts w)) (map_of (fw_stable w) p)")
      case True
      then have "map_of (fw_stable w) p = Some s" using P ns \<open>p \<in> set (quiet_paths ord now w)\<close> s by (simp add: passed_def)
      then show ?thesis using inv pe t(1) by (fastforce simp: watch_inv_def)
    next
      case False
      then have "s = \<lparr>wp_t = now, wp_seen = stat p\<rparr>" using P ns \<open>p \<in> set (quiet_paths ord now w)\<close> s by (simp add: passed_def)
      then show ?thesis using pe t(2) by simp
    qed
  qed
  then show ?case using inv P pend by (simp add: watch_inv_def passed_def)
next
  case (received ls w ev w')
  then have "watch_inv w0 ls w" "w' = w\<lparr>fw_queue := tl (fw_queue w)\<rparr>"
    by (auto simp: take_event_def split: list.splits)
  then show ?case by (auto simp: watch_inv_def)
qed

text \<open>An event that a tick publishes is settled: the path was seen in the same state at two ticks at least the stable window
  apart, the first of them at least the debounce time after the last notification of the path, and no notification came in
  between. The notification is then used up.\<close>

lemma ticked_event_settled:
  assumes "fresh w0" "watch_run w0 ls w" "range_ok ord" "tick ord now stat w = (es, w')" "ev \<in> set es"
  shows "\<exists>t s. last_raw (we_path ev) ls = Some t \<and> sampled (we_path ev) s ls \<and>
    ev = seen_event (we_path ev) (wp_seen s) \<and> stat (we_path ev) = wp_seen s \<and>
    wo_debounce (fw_opts w0) \<le> time_sub (wp_t s) t \<and> wo_stable (fw_opts w0) \<le> time_sub now (wp_t s) \<and>
    map_of (fw_pending w') (we_path ev) = None"
proof -
  have inv: "watch_inv w0 ls w" by (rule watch_run_inv) fact+
  then have ok: "gomap_ok (fw_stable w)" "gomap_ok (fw_pending w)" by (simp_all add: watch_inv_def)
  note q = quiet_paths_set [OF assms(3) ok(2), where now = now]
  have P: "passed now stat (quiet_paths ord now w) w es w'"
    using settle_all_passed [OF q(1) ok] assms(4) by (simp add: tick_def)
  obtain p where p: "p \<in> set (quiet_paths ord now w)" "settles now (stat p) (wo_stable (fw_opts w)) (map_of (fw_stable w) p)"
    "ev = seen_event p (stat p)" using P assms(5) by (auto simp: passed_def)
  have path: "we_path ev = p" using p(3) by (auto simp: seen_event_def split: option.splits)
  obtain s where s: "map_of (fw_stable w) p = Some s" "wp_seen s = stat p" "wo_stable (fw_opts w) \<le> time_sub now (wp_t s)"
    using p(2) by (auto simp: settles_def split: option.splits)
  obtain t where t: "map_of (fw_pending w) p = Some t" "sampled p s ls" "wo_debounce (fw_opts w) \<le> time_sub (wp_t s) t"
    using inv s(1) unfolding watch_inv_def by blast
  have "last_raw p ls = Some t" "fw_opts w = fw_opts w0" using inv t(1) by (simp_all add: watch_inv_def)
  moreover have "map_of (fw_pending w') p = None" using P p(1,2) by (simp add: passed_def)
  ultimately show ?thesis using s t p(3) unfolding path by (intro exI [of _ t] exI [of _ s]) simp
qed

text \<open>Every event in the channel was put there by \<open>Start\<close> or by a tick.\<close>

lemma push_event_set: "set (push_event cap ev q) \<subseteq> insert ev (set q)"
  by (induction q) auto

lemma publish_queue: "set (fw_queue (publish_event ev w)) \<subseteq> insert ev (set (fw_queue w))"
  using push_event_set by (simp add: publish_event_def)

lemma start_queue:
  assumes "start_watcher init stat w = Inr w1"
  shows "set (fw_queue w1) \<subseteq> build_event stat ` set (fw_paths w) \<union> set (fw_queue w)"
    "fw_pending w1 = fw_pending w" "fw_stable w1 = fw_stable w" "fw_opts w1 = fw_opts w" "fw_paths w1 = fw_paths w"
proof -
  let ?put = "\<lambda>w p. publish_event (build_event stat p) w"
  have "set (fw_queue (foldl ?put w ps)) \<subseteq> build_event stat ` set ps \<union> set (fw_queue w) \<and> fw_pending (foldl ?put w ps) = fw_pending w \<and>
     fw_stable (foldl ?put w ps) = fw_stable w \<and> fw_opts (foldl ?put w ps) = fw_opts w \<and> fw_paths (foldl ?put w ps) = fw_paths w" for ps w
  proof (induction ps arbitrary: w)
    case (Cons p ps)
    then show ?case using publish_queue [of "build_event stat p" w] by fastforce
  qed simp
  moreover have "w1 = foldl ?put w (fw_paths w)" using assms by (simp add: start_watcher_def split: option.splits)
  ultimately show "set (fw_queue w1) \<subseteq> build_event stat ` set (fw_paths w) \<union> set (fw_queue w)"
    "fw_pending w1 = fw_pending w" "fw_stable w1 = fw_stable w" "fw_opts w1 = fw_opts w" "fw_paths w1 = fw_paths w" by auto
qed

lemma settle_all_queue: "settle_all now stat ps w = (es, w') \<Longrightarrow> set (fw_queue w') \<subseteq> set es \<union> set (fw_queue w)"
proof (induction ps arbitrary: w es)
  case (Cons p ps)
  obtain e w1 where s: "settle now stat p w = (e, w1)" by fastforce
  obtain es1 where r: "settle_all now stat ps w1 = (es1, w')" using Cons.prems s by (auto simp: Let_def split: prod.splits)
  have "set (fw_queue w1) \<subseteq> set_option e \<union> set (fw_queue w)"
    using s publish_queue [of "seen_event p (stat p)" w] by (auto simp: settle_def Let_def split: if_splits option.splits)
  moreover have "es = (case e of None \<Rightarrow> es1 | Some x \<Rightarrow> x # es1)" using Cons.prems s r by (simp add: Let_def)
  ultimately show ?case using Cons.IH [OF r] by (cases e) auto
qed simp

lemma queued_event_source:
  assumes "watch_run w1 ls w" "ev \<in> set (fw_queue w)"
  shows "ev \<in> set (fw_queue w1) \<or> (\<exists>newer now stat es older wa ord wb. ls = newer @ Tick now stat es # older \<and> watch_run w1 older wa \<and>
    range_ok ord \<and> tick ord now stat wa = (es, wb) \<and> ev \<in> set es)"
  using assms
proof (induction arbitrary: ev rule: watch_run.induct)
  case (raw ls w p t)
  then have "ev \<in> set (fw_queue w)" by (auto simp: raw_event_def raw_event_fold split: if_splits)
  from raw.IH [OF this] show ?case by (metis append_Cons)
next
  case (ticked ls w ord now stat es w')
  show ?case
  proof (cases "ev \<in> set es")
    case True
    then show ?thesis using ticked.hyps by (metis append_Nil)
  next
    case False
    then have "ev \<in> set (fw_queue w)" using ticked settle_all_queue by (fastforce simp: tick_def)
    from ticked.IH [OF this] show ?thesis by (metis append_Cons)
  qed
next
  case (received ls w x w')
  then have "ev \<in> set (fw_queue w)" by (auto simp: take_event_def split: list.splits)
  from received.IH [OF this] show ?case by (metis append_Cons)
qed simp

text \<open>C18: Every event that is received from a started watcher is either the state of one of its paths at \<open>Start\<close>, or it is
  settled: at the tick that published it the path was seen in the same state, with the same size and modification time, as at
  an earlier tick at least the stable window before, that one at least the debounce time after the last notification of the
  path, and no notification came in between. That notification is then used up.\<close>

theorem event_is_settled:
  assumes "fresh w0" "fw_queue w0 = []" "start_watcher init stat0 w0 = Inr w1" "watch_run w1 ls w" "take_event w = Some (ev, w')"
  shows "ev \<in> build_event stat0 ` set (fw_paths w0) \<or>
    (\<exists>newer now stat es older wa ord wb t s. ls = newer @ Tick now stat es # older \<and> watch_run w1 older wa \<and>
      tick ord now stat wa = (es, wb) \<and> ev \<in> set es \<and>
      last_raw (we_path ev) older = Some t \<and> sampled (we_path ev) s older \<and>
      ev = seen_event (we_path ev) (wp_seen s) \<and> stat (we_path ev) = wp_seen s \<and>
      wo_debounce (fw_opts w0) \<le> time_sub (wp_t s) t \<and> wo_stable (fw_opts w0) \<le> time_sub now (wp_t s) \<and>
      map_of (fw_pending wb) (we_path ev) = None)"
proof -
  have w1: "fresh w1" "fw_opts w1 = fw_opts w0" using assms(1) start_queue [OF assms(3)] by (simp_all add: fresh_def)
  have "ev \<in> set (fw_queue w)" using assms(5) by (auto simp: take_event_def split: list.splits)
  from queued_event_source [OF assms(4) this] show ?thesis
  proof (elim disjE exE conjE)
    assume "ev \<in> set (fw_queue w1)"
    then show ?thesis using start_queue(1) [OF assms(3)] assms(2) by auto
  next
    fix newer now stat es older wa ord wb
    assume t: "ls = newer @ Tick now stat es # older" "watch_run w1 older wa" "range_ok ord" "tick ord now stat wa = (es, wb)" "ev \<in> set es"
    show ?thesis using ticked_event_settled [OF w1(1) t(2-5)] t w1(2) by metis
  qed
qed

subsection \<open>A change is reported\<close>

text \<open>A run of ticks: order of the range, clock, and what is seen.\<close>

type_synonym tick_input = "((string \<times> gotime) list \<Rightarrow> (string \<times> gotime) list) \<times> gotime \<times> stat_fn"

fun ticks :: "tick_input list \<Rightarrow> fs_watcher \<Rightarrow> watch_event list \<times> fs_watcher" where
  "ticks [] w = ([], w)"
| "ticks ((ord, now, stat) # ts) w = (let (es, w1) = tick ord now stat w; (es2, w2) = ticks ts w1 in (es @ es2, w2))"

definition steady :: "string \<Rightarrow> (int \<times> gotime) option \<Rightarrow> gotime \<Rightarrow> tick_input list \<Rightarrow> bool" where
  "steady p seen from ts \<longleftrightarrow> list_all (\<lambda>(ord, now, stat). range_ok ord \<and> stat p = seen \<and> from \<le> now) ts"

lemma tick_passed:
  assumes "gomap_ok (fw_stable w)" "gomap_ok (fw_pending w)" "range_ok ord" "tick ord now stat w = (es, w')"
  shows "passed now stat (quiet_paths ord now w) w es w'"
  using settle_all_passed [OF quiet_paths_set(1) [OF assms(3,2)] assms(1,2)] assms(4) by (simp add: tick_def)

lemma time_sub_mono: "t \<le> u \<Longrightarrow> time_sub t x \<le> time_sub u x"
  by (simp add: time_sub_def)

lemma waiting_settles:
  assumes "steady p seen t1 ts" "ts \<noteq> []" "wo_stable (fw_opts w) \<le> time_sub (fst (snd (last ts))) t1"
    "gomap_ok (fw_stable w)" "gomap_ok (fw_pending w)" "map_of (fw_pending w) p = Some t0"
    "wo_debounce (fw_opts w) \<le> time_sub t1 t0" "map_of (fw_stable w) p = Some \<lparr>wp_t = t1, wp_seen = seen\<rparr>"
  shows "seen_event p seen \<in> set (fst (ticks ts w))"
  using assms
proof (induction ts arbitrary: w)
  case (Cons x ts)
  obtain ord now stat where x: "x = (ord, now, stat)" by (cases x)
  have st: "range_ok ord" "stat p = seen" "t1 \<le> now" "steady p seen t1 ts" using Cons.prems(1) by (simp_all add: x steady_def)
  obtain es w1 where t: "tick ord now stat w = (es, w1)" by fastforce
  have P: "passed now stat (quiet_paths ord now w) w es w1" by (rule tick_passed) fact+
  have quiet: "p \<in> set (quiet_paths ord now w)"
    using quiet_paths_set(2) [OF st(1) Cons.prems(5), of p now] Cons.prems(6,7) time_sub_mono [OF st(3), of t0] by auto
  show ?case
  proof (cases "wo_stable (fw_opts w) \<le> time_sub now t1")
    case True
    then have "settles now (stat p) (wo_stable (fw_opts w)) (map_of (fw_stable w) p)"
      using Cons.prems(8) st(2) by (simp add: settles_def)
    then have "seen_event p (stat p) \<in> set es" using P quiet by (auto simp: passed_def)
    then show ?thesis using t st(2) by (simp add: x split: prod.splits)
  next
    case False
    then have ns: "\<not> settles now (stat p) (wo_stable (fw_opts w)) (map_of (fw_stable w) p)"
      "stays now (stat p) (wo_stable (fw_opts w)) (map_of (fw_stable w) p)"
      using Cons.prems(8) st(2) by (simp_all add: settles_def stays_def)
    then have w1: "fw_opts w1 = fw_opts w" "gomap_ok (fw_stable w1)" "gomap_ok (fw_pending w1)"
      "map_of (fw_pending w1) p = map_of (fw_pending w) p" "map_of (fw_stable w1) p = map_of (fw_stable w) p"
      using P by (simp_all add: passed_def)
    have "ts \<noteq> []" using False Cons.prems(3) x by auto
    then have "seen_event p seen \<in> set (fst (ticks ts w1))"
      using Cons.IH [OF st(4), of w1] Cons.prems(3,6-8) w1 by simp
    then show ?thesis using t by (auto simp: x split: prod.splits)
  qed
qed simp

text \<open>C19: A change is reported: after a notification of a watched path, once a tick comes at least the debounce time later
  and the path looks the same at that tick and all that follow up to one that is the stable window later, an event
  with what was seen is published.\<close>

theorem settled_change_is_published:
  assumes "fresh w0" "watch_run w0 ls w" "p \<in> set (fw_paths w)"
    "range_ok ord" "stat p = seen" "wo_debounce (fw_opts w) \<le> time_sub t1 t0"
    "steady p seen t1 ts" "ts \<noteq> []" "wo_stable (fw_opts w) \<le> time_sub (fst (snd (last ts))) t1"
  shows "seen_event p seen \<in> set (fst (ticks ((ord, t1, stat) # ts) (raw_event p t0 w)))"
proof -
  let ?w = "raw_event p t0 w"
  have inv: "watch_inv w0 ls w" by (rule watch_run_inv) fact+
  have r: "?w = w\<lparr>fw_pending := mput p t0 (fw_pending w), fw_stable := mdel p (fw_stable w)\<rparr>"
    using assms(3) by (simp add: raw_event_def raw_event_fold)
  then have ok: "gomap_ok (fw_stable ?w)" "gomap_ok (fw_pending ?w)" "map_of (fw_pending ?w) p = Some t0"
    "map_of (fw_stable ?w) p = None" "fw_opts ?w = fw_opts w"
    using inv by (simp_all add: watch_inv_def gm.get_put gm.get_del)
  obtain es w1 where t: "tick ord t1 stat ?w = (es, w1)" by fastforce
  have P: "passed t1 stat (quiet_paths ord t1 ?w) ?w es w1" by (rule tick_passed) fact+
  have "p \<in> set (quiet_paths ord t1 ?w)"
    using quiet_paths_set(2) [OF assms(4) ok(2), of p t1] ok(3,5) assms(6) by auto
  then have w1: "fw_opts w1 = fw_opts w" "gomap_ok (fw_stable w1)" "gomap_ok (fw_pending w1)"
    "map_of (fw_pending w1) p = Some t0" "map_of (fw_stable w1) p = Some \<lparr>wp_t = t1, wp_seen = seen\<rparr>"
    using P ok(3-5) assms(5) by (simp_all add: passed_def settles_def stays_def)
  have "seen_event p seen \<in> set (fst (ticks ts w1))"
    by (rule waiting_settles) (use assms(6-9) w1 in simp_all)
  then show ?thesis using t by (auto split: prod.splits)
qed

text \<open>A watcher of one file that exists, with the default options.\<close>

definition some_watcher :: fs_watcher where
  "some_watcher = \<lparr>fw_paths = [''/d/c''], fw_dirs = [''/d''], fw_opts = with_defaults \<lparr>wo_debounce = 0, wo_stable = 0, wo_queue = 0\<rparr>,
     fw_queue = [], fw_pending = [], fw_last = [], fw_stable = []\<rparr>"

definition some_stat :: stat_fn where "some_stat p = Some (5, 0)"

definition milli :: "int \<Rightarrow> gotime" where "milli n = n * 1000000"

lemma some_fresh: "fresh some_watcher" by (simp add: fresh_def some_watcher_def)

theorem settled_change_is_published_witness:
  "seen_event ''/d/c'' (Some (5, 0)) \<in> set (fst (ticks [(rev, milli 50, some_stat), (rev, milli 150, some_stat), (rev, milli 250, some_stat)]
     (raw_event ''/d/c'' (milli 0) some_watcher)))"
  by (rule settled_change_is_published [OF some_fresh watch_run.start])
    (simp_all add: some_watcher_def with_defaults_def steady_def range_ok_def some_stat_def milli_def time_sub_def
      WatcherDebounceCore_def WatcherStableWindow_def milliseconds_def min_int64_def max_int64_def)

text \<open>The file is notified at 0, seen at 50 and 250 milliseconds; the consumer takes the event of \<open>Start\<close>, then the settled one.\<close>

theorem event_is_settled_witness:
  "\<exists>w1 ls w w' newer now stat es older t s. start_watcher None (\<lambda>_. None) some_watcher = Inr w1 \<and> watch_run w1 ls w \<and>
    take_event w = Some (seen_event ''/d/c'' (Some (5, 0)), w') \<and> ls = newer @ Tick now stat es # older \<and>
    last_raw ''/d/c'' older = Some t \<and> sampled ''/d/c'' s older \<and> wo_debounce (fw_opts some_watcher) \<le> time_sub (wp_t s) t"
proof -
  let ?ev = "seen_event ''/d/c'' (Some (5, 0))" and ?w0 = "raw_event ''/d/c'' (milli 0)"
  have e: "?ev = \<lparr>we_path = ''/d/c'', we_exists = True, we_modified = 0, we_size = 5\<rparr>" by (simp add: seen_event_def)
  obtain w1 where w1: "start_watcher None (\<lambda>_. None) some_watcher = Inr w1"
    "w1 = some_watcher\<lparr>fw_queue := [seen_event ''/d/c'' None], fw_last := [(''/d/c'', seen_event ''/d/c'' None)]\<rparr>"
    by (simp add: start_watcher_def some_watcher_def publish_event_def build_event_def seen_event_def)
  obtain es1 w2 where t1: "tick rev (milli 50) some_stat (?w0 w1) = (es1, w2)" by fastforce
  obtain es2 w3 where t2: "tick rev (milli 250) some_stat w2 = (es2, w3)" by fastforce
  have r: "range_ok rev" by (simp add: range_ok_def)
  have one: "w2 = w1\<lparr>fw_pending := [(''/d/c'', milli 0)], fw_stable := [(''/d/c'', \<lparr>wp_t = milli 50, wp_seen = Some (5, 0)\<rparr>)]\<rparr>"
    using t1 by (auto simp: w1(2) tick_def quiet_paths_def raw_event_def some_watcher_def with_defaults_def settle_def some_stat_def
        milli_def time_sub_def WatcherDebounceCore_def WatcherStableWindow_def milliseconds_def min_int64_def max_int64_def Let_def)
  have two: "fw_queue w3 = [seen_event ''/d/c'' None, ?ev]"
    using t2 by (auto simp: one w1(2) tick_def quiet_paths_def some_watcher_def with_defaults_def settle_def some_stat_def publish_event_def
        queue_cap_def WatcherDefaultQueue_def
        milli_def time_sub_def WatcherDebounceCore_def WatcherStableWindow_def milliseconds_def min_int64_def max_int64_def Let_def
        split: prod.splits)
  let ?w4 = "w3\<lparr>fw_queue := [?ev]\<rparr>"
  have run: "watch_run w1 [Taken, Tick (milli 250) some_stat es2, Tick (milli 50) some_stat es1, Raw ''/d/c'' (milli 0)] ?w4"
  proof (rule watch_run.received)
    show "watch_run w1 [Tick (milli 250) some_stat es2, Tick (milli 50) some_stat es1, Raw ''/d/c'' (milli 0)] w3"
      by (intro watch_run.ticked [OF _ r t2] watch_run.ticked [OF _ r t1] watch_run.raw watch_run.start) (simp add: w1(2) some_watcher_def)
  qed (use two in \<open>simp add: take_event_def\<close>)
  have take: "take_event ?w4 = Some (?ev, ?w4\<lparr>fw_queue := []\<rparr>)" by (simp add: take_event_def)
  have "?ev \<notin> build_event (\<lambda>_. None) ` set (fw_paths some_watcher)" by (simp add: build_event_def seen_event_def some_watcher_def)
  moreover have "fw_queue some_watcher = []" "we_path ?ev = ''/d/c''" by (simp_all add: some_watcher_def e)
  ultimately show ?thesis using event_is_settled [OF some_fresh _ w1(1) run take] w1(1) run take by metis
qed

end
