(* ===== verification/Logging.thy ===== *)
theory Logging
  imports Go_Strings
begin

text \<open>
  internal/logging/redact.go: what a log record loses before it is written. A slog value is a
  \<open>log_value\<close>: a string, a number, boolean, duration or time, a group, a \<open>LogValuer\<close>, which the handler behind
  resolves, or an \<open>any\<close> value: a string, a byte slice, a map, a slice, something with a text (a Stringer
  or an error) or something else. Of what the code passes on unseen the model has the text that is written. Each of the four regular expressions is a
  function that gives the length of its match at the beginning of a string.
\<close>

definition redactedMark :: string where "redactedMark = ''<redacted>''"
definition redactedOversizeMark :: string where "redactedOversizeMark = ''<redacted:oversize>''"
definition oversizeThreshold :: nat where "oversizeThreshold = 64 * 1024"

definition redactedKeys :: "string list" where
  "redactedKeys = [''raw'', ''raw_b64'', ''accessToken'', ''refreshToken'', ''Authorization'', ''authorization'']"

subsection \<open>The patterns\<close>

text \<open>RE2's \<open>\s\<close>, which is ASCII, and its complement.\<close>

definition re_space :: "char \<Rightarrow> bool" where
  "re_space c = (c \<in> {CHR 0x09, CHR 0x0A, CHR 0x0C, CHR 0x0D, CHR '' ''})"

abbreviation solid :: "string \<Rightarrow> string" where
  "solid s \<equiv> takeWhile (\<lambda>c. \<not> re_space c) s"

definition after_literal :: "string \<Rightarrow> string \<Rightarrow> nat option" where
  "after_literal p s = (case strip_prefix p s of None \<Rightarrow> None
     | Some r \<Rightarrow> (if solid r = [] then None else Some (length p + length (solid r))))"

definition match_oat :: "string \<Rightarrow> nat option" where "match_oat = after_literal ''sk-ant-oat01-''"
definition match_ort :: "string \<Rightarrow> nat option" where "match_ort = after_literal ''sk-ant-ort01-''"

definition match_bearer :: "string \<Rightarrow> nat option" where
  "match_bearer s =
     (if map lower_char (take 6 s) = ''bearer'' then
        (let w = takeWhile re_space (drop 6 s); k = solid (drop (6 + length w) s) in
         if w = [] \<or> k = [] then None else Some (6 + length w + length k))
      else None)"

definition jwt_char :: "char \<Rightarrow> bool" where
  "jwt_char c = (let n = (of_char c :: nat) in
     65 \<le> n \<and> n \<le> 90 \<or> 97 \<le> n \<and> n \<le> 122 \<or> 48 \<le> n \<and> n \<le> 57 \<or> c = CHR ''_'' \<or> c = CHR ''-'')"

text \<open>A run of at least eight characters of the class, taken as far as it goes.\<close>

definition jwt_part :: "string \<Rightarrow> (string \<times> string) option" where
  "jwt_part s = (let a = takeWhile jwt_char s in
     if length a < 8 then None else Some (a, drop (length a) s))"

definition match_jwt :: "string \<Rightarrow> nat option" where
  "match_jwt s =
     Option.bind (strip_prefix ''eyJ'' s) (\<lambda>r.
     Option.bind (jwt_part r) (\<lambda>(a, r).
     Option.bind (strip_prefix ''.'' r) (\<lambda>r.
     Option.bind (jwt_part r) (\<lambda>(b, r).
     Option.bind (strip_prefix ''.'' r) (\<lambda>r.
     Option.bind (jwt_part r) (\<lambda>(c, r).
       Some (length s - length r)))))))"

definition redactPatterns :: "(string \<Rightarrow> nat option) list" where
  "redactPatterns = [match_oat, match_ort, match_bearer, match_jwt]"

text \<open>\<open>ReplaceAllString\<close> and \<open>MatchString\<close>: the leftmost match, then on behind it.\<close>

function replace_matches :: "(string \<Rightarrow> nat option) \<Rightarrow> string \<Rightarrow> string \<Rightarrow> string" where
  "replace_matches m rep [] = []"
| "replace_matches m rep (c # cs) = (case m (c # cs) of
     None \<Rightarrow> c # replace_matches m rep cs
   | Some n \<Rightarrow> rep @ replace_matches m rep (drop (n - 1) cs))"
  by pat_completeness auto
termination
  by (relation "measure (\<lambda>(_, _, s). length s)") (auto simp: less_Suc_eq_le)

fun match_string :: "(string \<Rightarrow> nat option) \<Rightarrow> string \<Rightarrow> bool" where
  "match_string m [] = False"
| "match_string m (c # cs) = (m (c # cs) \<noteq> None \<or> match_string m cs)"

definition scrub_string :: "string \<Rightarrow> string" where
  "scrub_string s = (if length s > oversizeThreshold then redactedOversizeMark
     else fold (\<lambda>m out. replace_matches m redactedMark out) redactPatterns s)"

definition has_token_residue :: "string \<Rightarrow> bool" where
  "has_token_residue s = (\<exists>m \<in> set redactPatterns. match_string m s)"

subsection \<open>Records\<close>

datatype any_value =
    AnyString string
  | AnyBytes string
  | AnyMap "(string \<times> any_value) list"
  | AnySlice "any_value list"
  | AnyText string
  | AnyOpaque string

datatype log_value =
    LString string
  | LAny any_value
  | LGroup "(string \<times> log_value) list"
  | LPlain string
  | LValuer log_value

fun scrub_any :: "any_value \<Rightarrow> any_value" where
  "scrub_any (AnyString s) = AnyString (scrub_string s)"
| "scrub_any (AnyBytes s) = AnyString (if length s > oversizeThreshold then redactedOversizeMark else scrub_string s)"
| "scrub_any (AnyMap kvs) = AnyMap (map (\<lambda>(k, v).
     (k, if k \<in> set redactedKeys then AnyString redactedMark else scrub_any v)) kvs)"
| "scrub_any (AnySlice vs) = AnySlice (map scrub_any vs)"
| "scrub_any (AnyText s) = AnyString (scrub_string s)"
| "scrub_any (AnyOpaque s) = AnyOpaque s"

fun redact_value :: "log_value \<Rightarrow> log_value" where
  "redact_value (LString s) = LString (scrub_string s)"
| "redact_value (LAny v) = LAny (scrub_any v)"
| "redact_value (LGroup as) = LGroup (map (\<lambda>(k, v).
     if k \<in> set redactedKeys then (k, LString redactedMark) else (k, redact_value v)) as)"
| "redact_value (LPlain s) = LPlain s"
| "redact_value (LValuer v) = LValuer v"

definition redact_attr :: "string \<times> log_value \<Rightarrow> string \<times> log_value" where
  "redact_attr a = (if fst a \<in> set redactedKeys then (fst a, LString redactedMark)
     else (fst a, redact_value (snd a)))"

text \<open>\<open>Handle\<close> copies time, level, message and program counter; \<open>WithAttrs\<close> treats the attributes of a logger alike.\<close>

record log_record =
  lr_time :: int
  lr_level :: int
  lr_message :: string
  lr_pc :: nat
  lr_attrs :: "(string \<times> log_value) list"

definition handle_record :: "log_record \<Rightarrow> log_record" where
  "handle_record r = \<lparr>lr_time = lr_time r, lr_level = lr_level r, lr_message = lr_message r, lr_pc = lr_pc r,
     lr_attrs = map redact_attr (lr_attrs r)\<rparr>"

definition logger_with_attrs :: "(string \<times> log_value) list \<Rightarrow> (string \<times> log_value) list" where
  "logger_with_attrs as = map redact_attr as"

subsection \<open>The logger's level and format\<close>

datatype log_level = LevelDebug | LevelInfo | LevelWarn | LevelError

text \<open>\<open>strings.ToLower\<close>: by bytes on ASCII text, otherwise by Unicode's case tables, which are the
  parameter \<open>uni\<close>.\<close>

definition to_lower :: "(string \<Rightarrow> string) \<Rightarrow> string \<Rightarrow> string" where
  "to_lower uni s = (if list_all (\<lambda>c. (of_char c :: nat) < 128) s then map lower_char s else uni s)"

text \<open>A level that is not known is \<open>info\<close>, and is handed back for a warning.\<close>

definition parse_level :: "(string \<Rightarrow> string) \<Rightarrow> string \<Rightarrow> log_level \<times> string" where
  "parse_level uni s = (let l = to_lower uni (trim_space s) in
     if l = [] \<or> l = ''info'' then (LevelInfo, [])
     else if l = ''debug'' then (LevelDebug, [])
     else if l = ''warn'' \<or> l = ''warning'' then (LevelWarn, [])
     else if l = ''error'' then (LevelError, [])
     else (LevelInfo, s))"

subsection \<open>What a pattern finds\<close>

locale token_pattern =
  fixes m :: "string \<Rightarrow> nat option" and core :: "string \<Rightarrow> bool" and more :: bool
  assumes m_iff: "m s \<noteq> None \<longleftrightarrow> (\<exists>p r. s = p @ r \<and> core p \<and> (more \<longrightarrow> r \<noteq> [] \<and> \<not> re_space (hd r)))"
    and core_solid: "core p \<Longrightarrow> CHR ''<'' \<notin> set p \<and> p \<noteq> [] \<and> \<not> re_space (hd p)"
    and mark_free: "k < 10 \<Longrightarrow> m (drop k redactedMark @ u) = None"
begin

lemma head: "m s \<noteq> None \<Longrightarrow> s \<noteq> [] \<and> \<not> re_space (hd s)"
  using m_iff [of s] core_solid by fastforce

end

text \<open>What is kept of a string by the replacement is kept with everything behind it.\<close>

lemma kept_prefix:
  "replace_matches m redactedMark s = p @ r \<Longrightarrow> CHR ''<'' \<notin> set p \<Longrightarrow>
   \<exists>r'. s = p @ r' \<and> r = replace_matches m redactedMark r'"
proof (induction p arbitrary: s)
  case (Cons x p)
  obtain c cs where s: "s = c # cs" using Cons.prems by (cases s) auto
  show ?case
  proof (cases "m (c # cs)")
    case None
    then have "x = c" "replace_matches m redactedMark cs = p @ r" using Cons.prems by (auto simp: s)
    then show ?thesis using Cons.IH [of cs] Cons.prems by (auto simp: s)
  next
    case (Some n)
    then have "x = CHR ''<''" using Cons.prems by (auto simp: s redactedMark_def)
    then show ?thesis using Cons.prems by simp
  qed
qed simp

lemma kept_solid:
  assumes "\<And>s. m s \<noteq> None \<Longrightarrow> s \<noteq> [] \<and> \<not> re_space (hd s)"
    and "replace_matches m redactedMark s \<noteq> []" "\<not> re_space (hd (replace_matches m redactedMark s))"
  shows "s \<noteq> [] \<and> \<not> re_space (hd s)"
proof (cases s)
  case (Cons c cs)
  then show ?thesis using assms(1) [of s] assms(3) by (cases "m s") auto
qed (use assms in auto)

lemma match_string_drop: "match_string m (drop n s) \<Longrightarrow> match_string m s"
proof (induction n arbitrary: s)
  case (Suc n)
  then show ?case by (cases s) auto
qed simp

end
