(* ===== verification/Logging_Props.thy ===== *)
theory Logging_Props
  imports Logging
begin

text \<open>What a log record cannot hold any more once the handler has seen it.\<close>

subsection \<open>One pattern after another\<close>

lemma length_redactedMark: "length redactedMark = 10"
  by (simp add: redactedMark_def)

context token_pattern
begin

lemma no_match_in_mark: "match_string m (redactedMark @ u) \<Longrightarrow> match_string m u"
proof -
  have e: "match_string m (drop (10 - k) redactedMark @ u) \<Longrightarrow> match_string m u" if "k \<le> 10" for k
    using that
  proof (induction k)
    case (Suc k)
    have "10 - k = Suc (10 - Suc k)" using Suc.prems by simp
    then obtain c where c: "drop (10 - Suc k) redactedMark = c # drop (10 - k) redactedMark"
      using Suc.prems by (metis Cons_nth_drop_Suc diff_less length_redactedMark zero_less_Suc zero_less_numeral)
    have "m (drop (10 - Suc k) redactedMark @ u) = None" by (rule mark_free) simp
    then show ?case using Suc c by simp
  qed (simp add: redactedMark_def)
  show "match_string m (redactedMark @ u) \<Longrightarrow> match_string m u" using e [of 10] by simp
qed

text \<open>A match of what another pattern's replacement made was there before.\<close>

lemma match_before:
  assumes other: "\<And>s. m' s \<noteq> None \<Longrightarrow> s \<noteq> [] \<and> \<not> re_space (hd s)"
    and found: "m (replace_matches m' redactedMark s) \<noteq> None"
  shows "m s \<noteq> None"
proof -
  obtain p r where pr: "replace_matches m' redactedMark s = p @ r" "core p" "more \<longrightarrow> r \<noteq> [] \<and> \<not> re_space (hd r)"
    using found m_iff by metis
  have "CHR ''<'' \<notin> set p" using core_solid pr(2) by blast
  from kept_prefix [OF pr(1) this] obtain r' where r': "s = p @ r'" "r = replace_matches m' redactedMark r'" by blast
  have "r' \<noteq> [] \<and> \<not> re_space (hd r')" if more
    using kept_solid [of m' r', OF other] pr(3) that r'(2) by blast
  then show ?thesis using m_iff [of s] r'(1) pr(2) by blast
qed

lemma residue_before:
  assumes other: "\<And>s. m' s \<noteq> None \<Longrightarrow> s \<noteq> [] \<and> \<not> re_space (hd s)"
  shows "match_string m (replace_matches m' redactedMark s) \<Longrightarrow> match_string m s"
proof (induction s rule: length_induct)
  case (1 s)
  show ?case
  proof (cases s)
    case (Cons c cs)
    show ?thesis
    proof (cases "m' s")
      case None
      then have "m (replace_matches m' redactedMark s) \<noteq> None \<or> match_string m (replace_matches m' redactedMark cs)"
        using 1 Cons by simp
      then have "m s \<noteq> None \<or> match_string m cs"
        using match_before [of m' s, OF other] 1(1) Cons by (metis length_Cons lessI)
      then show ?thesis using Cons by simp
    next
      case (Some n)
      then have "match_string m (replace_matches m' redactedMark (drop (n - 1) cs))"
        using 1(2) no_match_in_mark by (simp add: Cons)
      moreover have "length (drop (n - 1) cs) < length s" by (simp add: Cons)
      ultimately have "match_string m (drop (n - 1) cs)" using 1(1) by blast
      then have "match_string m cs" by (rule match_string_drop)
      then show ?thesis by (simp add: Cons)
    qed
  qed (use 1 in simp)
qed

lemma none_left: "\<not> match_string m (replace_matches m redactedMark s)"
proof (induction s rule: length_induct)
  case (1 s)
  show ?case
  proof (cases s)
    case (Cons c cs)
    have kept: "\<not> match_string m (replace_matches m redactedMark t)" if "length t < length s" for t
      using 1 that by blast
    show ?thesis
    proof (cases "m s")
      case None
      then have "m (replace_matches m redactedMark s) = None" using match_before [of m s, OF head] by blast
      then show ?thesis using None kept [of cs] Cons by simp
    next
      case (Some n)
      have "\<not> match_string m (replace_matches m redactedMark (drop (n - 1) cs))" by (rule kept) (simp add: Cons)
      then show ?thesis using Some no_match_in_mark by (auto simp: Cons)
    qed
  qed simp
qed

end

lemma solid_empty: "solid r = [] \<longleftrightarrow> r = [] \<or> re_space (hd r)"
  by (cases r) simp_all

lemma after_literal_Some:
  "after_literal p s \<noteq> None \<longleftrightarrow> (\<exists>r. s = p @ r \<and> r \<noteq> [] \<and> \<not> re_space (hd r))"
proof (cases "strip_prefix p s")
  case None
  then have "s \<noteq> p @ r" for r by (metis strip_prefix_Some option.distinct(1))
  then show ?thesis using None by (simp add: after_literal_def)
next
  case (Some r)
  then have "s = p @ r" by simp
  then show ?thesis using solid_empty [of r] by (simp add: after_literal_def)
qed

lemma literal_pattern:
  assumes "CHR ''<'' \<notin> set p" "p \<noteq> []" "\<not> re_space (hd p)"
    and "\<And>k u. k < 10 \<Longrightarrow> after_literal p (drop k redactedMark @ u) = None"
  shows "token_pattern (after_literal p) (\<lambda>q. q = p) True"
proof
  show "after_literal p s \<noteq> None \<longleftrightarrow> (\<exists>q r. s = q @ r \<and> q = p \<and> (True \<longrightarrow> r \<noteq> [] \<and> \<not> re_space (hd r)))" for s
    using after_literal_Some [of p s] by simp
qed (use assms in auto)

lemma mark_positions: "k < 10 \<Longrightarrow> k \<in> {0, 1, 2, 3, 4, 5, 6, 7, 8, 9 :: nat}"
  by auto

interpretation oat: token_pattern match_oat "\<lambda>q. q = ''sk-ant-oat01-''" True
  unfolding match_oat_def
  by (rule literal_pattern) (auto simp: re_space_def after_literal_def redactedMark_def dest!: mark_positions)

interpretation ort: token_pattern match_ort "\<lambda>q. q = ''sk-ant-ort01-''" True
  unfolding match_ort_def
  by (rule literal_pattern) (auto simp: re_space_def after_literal_def redactedMark_def dest!: mark_positions)

definition bearer_text :: "string \<Rightarrow> bool" where
  "bearer_text p = (\<exists>b w. p = b @ w \<and> map lower_char b = ''bearer'' \<and> w \<noteq> [] \<and> list_all re_space w)"

lemma bearer_textI:
  "map lower_char b = ''bearer'' \<Longrightarrow> w \<noteq> [] \<Longrightarrow> list_all re_space w \<Longrightarrow> bearer_text (b @ w)"
  unfolding bearer_text_def by (intro exI conjI) (rule refl | assumption)+

lemma bearer_textE:
  assumes "bearer_text p"
  obtains b w where "p = b @ w" "map lower_char b = ''bearer''" "w \<noteq> []" "list_all re_space w"
  using assms unfolding bearer_text_def by (elim exE conjE) (rule that)

lemma bearer_Some:
  "match_bearer s \<noteq> None \<longleftrightarrow>
   (\<exists>p r. s = p @ r \<and> bearer_text p \<and> (True \<longrightarrow> r \<noteq> [] \<and> \<not> re_space (hd r)))" (is "_ \<longleftrightarrow> ?R")
proof
  assume m: "match_bearer s \<noteq> None"
  let ?w = "takeWhile re_space (drop 6 s)"
  let ?r = "drop (6 + length ?w) s"
  have b: "map lower_char (take 6 s) = ''bearer''"
    using m by (cases "map lower_char (take 6 s) = ''bearer''") (simp_all add: match_bearer_def)
  have w: "?w \<noteq> [] \<and> solid ?r \<noteq> []"
    using m by (cases "?w = [] \<or> solid ?r = []") (auto simp: match_bearer_def b Let_def)
  have "?r = dropWhile re_space (drop 6 s)" by (simp add: dropWhile_eq_drop add.commute)
  then have "s = (take 6 s @ ?w) @ ?r"
    by (metis append.assoc append_take_drop_id takeWhile_dropWhile_id)
  moreover have "list_all re_space ?w" by (auto simp: list_all_iff dest: set_takeWhileD)
  then have "bearer_text (take 6 s @ ?w)" using b w by (simp add: bearer_textI)
  ultimately show ?R using w solid_empty [of ?r] by (metis (lifting))
next
  assume ?R
  then obtain p r where s: "s = p @ r" and p: "bearer_text p" and r: "r \<noteq> []" "\<not> re_space (hd r)" by auto
  from p obtain b w where p: "p = b @ w" and b: "map lower_char b = ''bearer''"
    and w: "w \<noteq> []" "list_all re_space w" by (rule bearer_textE)
  have l: "length b = 6" using arg_cong [OF b, of length] by simp
  have "takeWhile re_space (w @ r) = w"
    using w r by (cases r) (simp_all add: takeWhile_append2 list_all_iff)
  then show "match_bearer s \<noteq> None"
    using b w r solid_empty [of r] by (simp add: match_bearer_def s p l Let_def)
qed

lemma bearer_head: "lower_char c \<noteq> CHR ''b'' \<Longrightarrow> match_bearer (c # s) = None"
  by (simp add: match_bearer_def)

lemma lower_clean: "lower_char c = c' \<Longrightarrow> c' \<in> {CHR ''b'', CHR ''e'', CHR ''a'', CHR ''r''} \<Longrightarrow> c \<noteq> CHR ''<'' \<and> \<not> re_space c"
  by (auto simp: lower_char_def re_space_def split: if_splits)

interpretation bearer: token_pattern match_bearer bearer_text True
proof
  fix p assume "bearer_text p"
  then obtain b w where p: "p = b @ w" "map lower_char b = ''bearer''" "w \<noteq> []" "list_all re_space w"
    by (rule bearer_textE)
  have "\<forall>c \<in> set b. c \<noteq> CHR ''<'' \<and> \<not> re_space c"
  proof
    fix c assume "c \<in> set b"
    then have "lower_char c \<in> set ''bearer''" using arg_cong [OF p(2), of set] by auto
    then show "c \<noteq> CHR ''<'' \<and> \<not> re_space c" using lower_clean [of c] by auto
  qed
  moreover have "\<not> re_space (CHR ''<'')" by (simp add: re_space_def)
  moreover have "b \<noteq> []" using p(2) by auto
  ultimately show "CHR ''<'' \<notin> set p \<and> p \<noteq> [] \<and> \<not> re_space (hd p)"
    using p(1,4) by (cases b) (auto simp: list_all_iff)
next
  fix k :: nat and u assume "k < 10"
  then show "match_bearer (drop k redactedMark @ u) = None"
    by (auto simp: redactedMark_def lower_char_def intro!: bearer_head dest!: mark_positions)
qed (rule bearer_Some)

definition jwt_text :: "string \<Rightarrow> bool" where
  "jwt_text p = (\<exists>a b c. p = ''eyJ'' @ a @ ''.'' @ b @ ''.'' @ c \<and>
     8 \<le> length a \<and> 8 \<le> length b \<and> length c = 8 \<and> list_all jwt_char (a @ b @ c))"

lemma jwt_part_Some:
  "jwt_part s = Some (a, r) \<longleftrightarrow> s = a @ r \<and> 8 \<le> length a \<and> list_all jwt_char a \<and> (r = [] \<or> \<not> jwt_char (hd r))"
proof
  assume l: "jwt_part s = Some (a, r)"
  then have "a = takeWhile jwt_char s" "r = dropWhile jwt_char s" "8 \<le> length a"
    by (auto simp: jwt_part_def Let_def dropWhile_eq_drop split: if_splits)
  then show "s = a @ r \<and> 8 \<le> length a \<and> list_all jwt_char a \<and> (r = [] \<or> \<not> jwt_char (hd r))"
    using hd_dropWhile [of jwt_char s] by (auto simp: list_all_iff dest: set_takeWhileD)
next
  assume *: "s = a @ r \<and> 8 \<le> length a \<and> list_all jwt_char a \<and> (r = [] \<or> \<not> jwt_char (hd r))"
  then have "takeWhile jwt_char s = a" by (cases r) (auto simp: takeWhile_append2 list_all_iff)
  then show "jwt_part s = Some (a, r)" using * by (simp add: jwt_part_def)
qed

lemma jwt_Some: "match_jwt s \<noteq> None \<longleftrightarrow> (\<exists>p r. s = p @ r \<and> jwt_text p \<and> (False \<longrightarrow> r \<noteq> [] \<and> \<not> re_space (hd r)))"
proof
  assume "match_jwt s \<noteq> None"
  then obtain a b c r where *: "s = ''eyJ'' @ a @ ''.'' @ b @ ''.'' @ c @ r"
    "8 \<le> length a" "8 \<le> length b" "8 \<le> length c" "list_all jwt_char (a @ b @ c)"
    by (auto simp: match_jwt_def jwt_part_Some bind_eq_Some_conv)
  then have "s = (''eyJ'' @ a @ ''.'' @ b @ ''.'' @ take 8 c) @ (drop 8 c @ r)" by simp
  moreover have "jwt_text (''eyJ'' @ a @ ''.'' @ b @ ''.'' @ take 8 c)"
    unfolding jwt_text_def using *(2-5) by (intro exI [of _ a] exI [of _ b] exI [of _ "take 8 c"]) (auto simp: list_all_iff dest: in_set_takeD)
  ultimately show "\<exists>p r. s = p @ r \<and> jwt_text p \<and> (False \<longrightarrow> r \<noteq> [] \<and> \<not> re_space (hd r))" by blast
next
  assume "\<exists>p r. s = p @ r \<and> jwt_text p \<and> (False \<longrightarrow> r \<noteq> [] \<and> \<not> re_space (hd r))"
  then obtain a b c r where *: "s = ''eyJ'' @ a @ ''.'' @ b @ ''.'' @ c @ r"
    "8 \<le> length a" "8 \<le> length b" "length c = 8" "list_all jwt_char (a @ b @ c)"
    by (auto simp: jwt_text_def)
  have dot: "\<not> jwt_char (CHR ''.'')" by (simp add: jwt_char_def)
  let ?c = "takeWhile jwt_char (c @ r)" and ?r = "dropWhile jwt_char (c @ r)"
  have "jwt_part (a @ ''.'' @ b @ ''.'' @ c @ r) = Some (a, ''.'' @ b @ ''.'' @ c @ r)"
    "jwt_part (b @ ''.'' @ c @ r) = Some (b, ''.'' @ c @ r)"
    using * dot by (auto simp: jwt_part_Some)
  moreover have "8 \<le> length ?c" using *(4,5) by (simp add: takeWhile_append2 list_all_iff)
  then have "jwt_part (c @ r) = Some (?c, ?r)"
    by (simp add: jwt_part_def dropWhile_eq_drop Let_def)
  ultimately show "match_jwt s \<noteq> None" by (simp add: match_jwt_def *(1))
qed

interpretation jwt: token_pattern match_jwt jwt_text False
proof
  fix p assume "jwt_text p"
  moreover have "\<not> jwt_char (CHR ''<'')" by (simp add: jwt_char_def)
  ultimately show "CHR ''<'' \<notin> set p \<and> p \<noteq> [] \<and> \<not> re_space (hd p)"
    by (auto simp: jwt_text_def list_all_iff re_space_def)
next
  fix k :: nat and u assume "k < 10"
  then show "match_jwt (drop k redactedMark @ u) = None"
    by (auto simp: match_jwt_def redactedMark_def dest!: mark_positions)
qed (rule jwt_Some)

lemma scrub_clean: "\<not> has_token_residue (scrub_string s)"
proof (cases "length s > oversizeThreshold")
  case True
  have "\<not> has_token_residue redactedOversizeMark" by code_simp
  then show ?thesis using True by (simp add: scrub_string_def)
next
  case False
  let ?R = "\<lambda>m t. replace_matches m redactedMark t"
  have s: "scrub_string s = ?R match_jwt (?R match_bearer (?R match_ort (?R match_oat s)))"
    using False by (simp add: scrub_string_def redactPatterns_def)
  have "\<not> match_string match_oat (scrub_string s)" "\<not> match_string match_ort (scrub_string s)"
    "\<not> match_string match_bearer (scrub_string s)" "\<not> match_string match_jwt (scrub_string s)"
    unfolding s
    using oat.none_left oat.residue_before ort.none_left ort.residue_before bearer.none_left bearer.residue_before
      jwt.none_left ort.head bearer.head jwt.head by metis+
  then show ?thesis by (simp add: has_token_residue_def redactPatterns_def)
qed

lemma replace_none: "\<not> match_string m s \<Longrightarrow> replace_matches m rep s = s"
  by (induction m rep s rule: replace_matches.induct) auto

lemma scrub_id: "\<not> has_token_residue s \<Longrightarrow> length s \<le> oversizeThreshold \<Longrightarrow> scrub_string s = s"
  by (simp add: scrub_string_def has_token_residue_def redactPatterns_def replace_none)

subsection \<open>Records\<close>

text \<open>The texts that are written for a value, and those of them that the handler does not look at.\<close>

fun any_texts :: "any_value \<Rightarrow> string list" where
  "any_texts (AnyString s) = [s]"
| "any_texts (AnyBytes s) = [s]"
| "any_texts (AnyMap kvs) = concat (map (\<lambda>(k, v). any_texts v) kvs)"
| "any_texts (AnySlice vs) = concat (map any_texts vs)"
| "any_texts (AnyText s) = [s]"
| "any_texts (AnyOpaque s) = [s]"

fun any_unseen :: "any_value \<Rightarrow> string list" where
  "any_unseen (AnyMap kvs) = concat (map (\<lambda>(k, v). if k \<in> set redactedKeys then [] else any_unseen v) kvs)"
| "any_unseen (AnySlice vs) = concat (map any_unseen vs)"
| "any_unseen (AnyOpaque s) = [s]"
| "any_unseen _ = []"

fun value_texts :: "log_value \<Rightarrow> string list" where
  "value_texts (LString s) = [s]"
| "value_texts (LAny v) = any_texts v"
| "value_texts (LGroup as) = concat (map (\<lambda>(k, v). value_texts v) as)"
| "value_texts (LPlain s) = [s]"
| "value_texts (LValuer v) = value_texts v"

fun value_unseen :: "log_value \<Rightarrow> string list" where
  "value_unseen (LString s) = []"
| "value_unseen (LAny v) = any_unseen v"
| "value_unseen (LGroup as) = concat (map (\<lambda>(k, v). if k \<in> set redactedKeys then [] else value_unseen v) as)"
| "value_unseen (LPlain s) = [s]"
| "value_unseen (LValuer v) = value_texts v"

text \<open>What stands under a redacted key is the mark, except inside what the handler does not look at.\<close>

fun any_marked :: "any_value \<Rightarrow> bool" where
  "any_marked (AnyMap kvs) = list_all (\<lambda>(k, v). if k \<in> set redactedKeys then v = AnyString redactedMark else any_marked v) kvs"
| "any_marked (AnySlice vs) = list_all any_marked vs"
| "any_marked _ = True"

fun marked :: "log_value \<Rightarrow> bool" where
  "marked (LAny v) = any_marked v"
| "marked (LGroup as) = list_all (\<lambda>(k, v). if k \<in> set redactedKeys then v = LString redactedMark else marked v) as"
| "marked _ = True"

lemma mark_clean: "\<not> has_token_residue redactedMark" "\<not> has_token_residue redactedOversizeMark"
  by code_simp+

lemma scrubbed_any: "t \<in> set (any_texts (scrub_any v)) \<Longrightarrow> has_token_residue t \<Longrightarrow> t \<in> set (any_unseen v)"
  by (induction v rule: scrub_any.induct) ((auto simp: scrub_clean mark_clean split: if_splits)[], (auto simp: scrub_clean mark_clean split: if_splits)[], (force simp: scrub_clean mark_clean split: if_splits)[], auto simp: scrub_clean)

lemma scrubbed_value: "t \<in> set (value_texts (redact_value v)) \<Longrightarrow> has_token_residue t \<Longrightarrow> t \<in> set (value_unseen v)"
  by (induction v rule: redact_value.induct) ((auto simp: scrub_clean)[], (simp add: scrubbed_any), (force simp: mark_clean split: if_splits)[], auto)

lemma any_marked_scrub: "any_marked (scrub_any v)"
  by (induction v rule: scrub_any.induct) (auto simp: list_all_iff split: if_splits)

lemma marked_redact: "marked (redact_value v)"
  by (induction v rule: redact_value.induct) (auto simp: any_marked_scrub list_all_iff split: if_splits)

text \<open>C23: After the handler has seen a record, a text of its attribute values that contains one of the token patterns,
  however deeply nested, was passed on unseen: it is that of a number, a time or the like, of a value that is neither
  text, bytes, map, slice, Stringer nor error, or inside a LogValuer. Everything else is scrubbed: the message and the keys
  are as they were, a value under a redacted key is the mark, and a text of at most 64 KiB without a token is left as it is.\<close>

theorem log_records_have_no_tokens:
  "set (filter has_token_residue (value_texts (LGroup (lr_attrs (handle_record r))))) \<subseteq> set (value_unseen (LGroup (lr_attrs r))) \<and>
   marked (LGroup (lr_attrs (handle_record r))) \<and>
   map fst (lr_attrs (handle_record r)) = map fst (lr_attrs r) \<and> lr_message (handle_record r) = lr_message r \<and>
   (has_token_residue s \<or> length s > oversizeThreshold \<or> redact_value (LString s) = LString s)"
proof -
  have attr: "LGroup (lr_attrs (handle_record r)) = redact_value (LGroup (lr_attrs r))"
    by (simp add: handle_record_def redact_attr_def case_prod_beta)
  have "set (filter has_token_residue (value_texts (LGroup (lr_attrs (handle_record r))))) \<subseteq> set (value_unseen (LGroup (lr_attrs r)))"
    unfolding attr set_filter using scrubbed_value by blast
  moreover have "marked (LGroup (lr_attrs (handle_record r)))" unfolding attr by (rule marked_redact)
  moreover have "has_token_residue s \<or> length s > oversizeThreshold \<or> redact_value (LString s) = LString s"
    using scrub_id not_less by fastforce
  ultimately show ?thesis by (simp add: handle_record_def redact_attr_def)
qed

text \<open>The message is not scrubbed, nor is a LogValuer.\<close>

lemma message_keeps_its_token:
  "lr_message (handle_record \<lparr>lr_time = 0, lr_level = 0, lr_message = ''Bearer abc'', lr_pc = 0, lr_attrs = [(''k'', LValuer (LString ''Bearer abc''))]\<rparr>)
     = ''Bearer abc''"
  "lr_attrs (handle_record \<lparr>lr_time = 0, lr_level = 0, lr_message = ''Bearer abc'', lr_pc = 0, lr_attrs = [(''k'', LValuer (LString ''Bearer abc''))]\<rparr>)
     = [(''k'', LValuer (LString ''Bearer abc''))]"
  "has_token_residue ''Bearer abc''"
  by code_simp+

end
