(* ===== verification/Go_Text.thy ===== *)
theory Go_Text
  imports Complex_Main Go_Json_Text Go_Time Go_Strings
begin

text \<open>
  The functions of Go's \<open>strings\<close>, \<open>fmt\<close> and \<open>unicode/utf8\<close> that make the texts of notifications:
  searching and replacing, padding by runes, times in a zone, and finite \<open>float64\<close> values with their
  rounding and their fixed-point format.
\<close>

subsection \<open>Searching and replacing\<close>

fun index_of :: "string \<Rightarrow> string \<Rightarrow> nat option" where
  "index_of sub s = (if has_prefix s sub then Some 0
     else (case s of [] \<Rightarrow> None | c # cs \<Rightarrow> map_option Suc (index_of sub cs)))"

declare index_of.simps [simp del]

text \<open>\<open>strings.ReplaceAll\<close> with a non-empty old string: the leftmost occurrences that do not overlap.\<close>

function replace_all :: "string \<Rightarrow> string \<Rightarrow> string \<Rightarrow> string" where
  "replace_all old new [] = []"
| "replace_all old new (c # cs) = (case strip_prefix old (c # cs) of
     Some r \<Rightarrow> if old = [] then c # cs else new @ replace_all old new r
   | None \<Rightarrow> c # replace_all old new cs)"
  by pat_completeness auto
termination
  by (relation "measure (\<lambda>(_, _, s). length s)") (auto simp: Cons_eq_append_conv)

text \<open>What a \<open>strings.Replacer\<close> does whose old strings are single bytes.\<close>

definition escape_with :: "(char \<Rightarrow> string option) \<Rightarrow> string \<Rightarrow> string" where
  "escape_with f s = concat (map (\<lambda>c. case f c of None \<Rightarrow> [c] | Some t \<Rightarrow> t) s)"

definition after_last :: "char \<Rightarrow> string \<Rightarrow> string option" where
  "after_last c s = (if c \<in> set s then Some (rev (takeWhile (\<lambda>x. x \<noteq> c) (rev s))) else None)"

lemma after_last_Some:
  "after_last c s = Some r \<Longrightarrow> \<exists>p. s = p @ c # r \<and> c \<notin> set r"
proof -
  assume *: "after_last c s = Some r"
  then have c: "c \<in> set s" and r: "r = rev (takeWhile (\<lambda>x. x \<noteq> c) (rev s))"
    by (auto simp: after_last_def split: if_splits)
  let ?d = "dropWhile (\<lambda>x. x \<noteq> c) (rev s)"
  have "?d \<noteq> []" using c by (simp add: dropWhile_eq_Nil_conv)
  then have "hd ?d = c" using hd_dropWhile by blast
  then obtain t where "?d = c # t" using \<open>?d \<noteq> []\<close> by (cases ?d) auto
  then have "rev s = takeWhile (\<lambda>x. x \<noteq> c) (rev s) @ c # t" by (metis takeWhile_dropWhile_id)
  then have "s = rev t @ c # r" by (metis r rev_append rev_rev_ident rev.simps(2) append.assoc append_Cons append_Nil)
  moreover have "c \<notin> set r" using r by (auto dest: set_takeWhileD)
  ultimately show ?thesis by blast
qed

subsection \<open>Runes and padding\<close>

text \<open>An ill-formed byte counts as one rune.\<close>

function rune_count :: "string \<Rightarrow> nat" where
  "rune_count [] = 0"
| "rune_count (c # cs) = Suc (rune_count (drop (case utf8_len (c # cs) of None \<Rightarrow> 0 | Some n \<Rightarrow> n - 1) cs))"
  by pat_completeness auto
termination
  by (relation "measure length") (auto simp: less_Suc_eq_le)

text \<open>The verb \<open>%-ns\<close>.\<close>

definition pad_right :: "nat \<Rightarrow> string \<Rightarrow> string" where
  "pad_right n s = s @ replicate (n - rune_count s) (CHR '' '')"

definition repeat_str :: "nat \<Rightarrow> string \<Rightarrow> string" where
  "repeat_str n s = concat (replicate n s)"

subsection \<open>Times in a zone\<close>

text \<open>The layout \<open>2006-01-02 15:04:05.000\<close> of an instant whose zone is \<open>offset\<close> seconds east of UTC:
  milliseconds are cut off, not rounded.\<close>

definition format_milli :: "int \<Rightarrow> gotime \<Rightarrow> string" where
  "format_milli offset t = (let s = t div 1000000000 + offset; r = s mod 86400 in
     case civil_from_days (s div 86400) of (y, m, d) \<Rightarrow>
       pad_text 4 y @ ''-'' @ pad_text 2 m @ ''-'' @ pad_text 2 d @ '' '' @ pad_text 2 (r div 3600)
       @ '':'' @ pad_text 2 (r mod 3600 div 60) @ '':'' @ pad_text 2 (r mod 60)
       @ ''.'' @ pad_text 3 (t mod 1000000000 div 1000000))"

subsection \<open>Floating-point numbers\<close>

text \<open>
  A finite \<open>float64\<close> is the rational number it stands for; the two zeros are one. Results are rounded
  to 53 bits, to even on ties. No quotient of two 64-bit integers and no percentage leaves the
  range of the normal numbers.
\<close>

type_synonym float64 = rat

definition round_even :: "rat \<Rightarrow> int" where
  "round_even x = (let f = \<lfloor>x\<rfloor>; d = x - of_int f in
     if d < 1 / 2 then f else if d > 1 / 2 then f + 1 else if even f then f else f + 1)"

function bit_size :: "int \<Rightarrow> int" where
  "bit_size n = (if n \<le> 0 then 0 else 1 + bit_size (n div 2))"
  by pat_completeness auto
termination
  by (relation "measure nat") auto

declare bit_size.simps [simp del]

text \<open>The largest \<open>k\<close> with \<open>2 ^ k \<le> x\<close>: the sizes of numerator and denominator give it up to one.\<close>

definition floor_log2 :: "rat \<Rightarrow> int" where
  "floor_log2 x = (case quotient_of x of (a, b) \<Rightarrow>
     let k = bit_size a - bit_size b
     in if x < power_int 2 k then k - 1 else k)"

definition f64_round :: "rat \<Rightarrow> float64" where
  "f64_round x = (if x = 0 then 0
     else let u = power_int 2 (floor_log2 \<bar>x\<bar> - 52) in sgn x * of_int (round_even (\<bar>x\<bar> / u)) * u)"

definition f64_of_int :: "int \<Rightarrow> float64" where "f64_of_int i = f64_round (of_int i)"
definition f64_div :: "float64 \<Rightarrow> float64 \<Rightarrow> float64" where "f64_div a b = f64_round (a / b)"
definition f64_mul :: "float64 \<Rightarrow> float64 \<Rightarrow> float64" where "f64_mul a b = f64_round (a * b)"

text \<open>The verb \<open>%.nf\<close>: the exact value, rounded to even on ties.\<close>

definition format_fixed :: "nat \<Rightarrow> float64 \<Rightarrow> string" where
  "format_fixed n x = (let q = round_even (\<bar>x\<bar> * 10 ^ n)
     in (if x < 0 then ''-'' else []) @ int_text (q div 10 ^ n)
        @ (if n = 0 then [] else CHR ''.'' # pad_text n (q mod 10 ^ n)))"

lemma round_even_mono_bound:
  assumes "x \<le> of_int k" shows "round_even x \<le> k"
proof -
  have "\<lfloor>x\<rfloor> \<le> k" using assms by linarith
  moreover have "\<lfloor>x\<rfloor> = k \<Longrightarrow> x = of_int k" using assms by (simp add: floor_eq_iff)
  moreover have "\<lfloor>x\<rfloor> = k \<or> \<lfloor>x\<rfloor> + 1 \<le> k" using calculation(1) by linarith
  ultimately show ?thesis by (auto simp: round_even_def Let_def)
qed

lemma round_even_nonneg: "0 \<le> x \<Longrightarrow> 0 \<le> round_even x"
  by (auto simp: round_even_def Let_def)

lemma round_even_int [simp]: "round_even (of_int k) = k"
  by (simp add: round_even_def)

end
