(* ===== verification/Notifier_Render.thy ===== *)
theory Notifier_Render
  imports Go_Text Transport Mediator
begin

text \<open>
  internal/notifier/render.go and periodic_render.go: from a truth record and a usage report to the
  text of a message, in the markups of the chat services. The clock readings, the offset of the zone
  Asia/Seoul (the time zone database), Unicode's case folding and \<open>fmt\<close>'s quoting are parameters.
  The flags \<open>Has...\<close> of the code's views say that a field is not empty; the model asks the field.
\<close>

subsection \<open>Usage reports\<close>

record usage_window =
  uw_label :: string
  uw_used :: int
  uw_limit :: int
  uw_remaining :: float64
  uw_unit :: string
  uw_reset :: gotime

record usage_report =
  ur_plan :: string
  ur_used :: int
  ur_limit :: int
  ur_remaining :: float64
  ur_unit :: string
  ur_reset :: gotime
  ur_notes :: "string list"
  ur_windows :: "usage_window list"

definition zero_usage :: usage_report where
  "zero_usage = \<lparr>ur_plan = [], ur_used = 0, ur_limit = 0, ur_remaining = 0, ur_unit = [],
     ur_reset = zero_time, ur_notes = [], ur_windows = []\<rparr>"

text \<open>\<open>rn_now t\<close> is the clock when the distance to \<open>t\<close> is worked out; \<open>rn_offset t\<close> the zone's offset at
  \<open>t\<close>; \<open>rn_fold\<close> compares texts under full case folding; \<open>rn_scan\<close> reads numbers that are not plain
  decimals.\<close>

record render_env =
  rn_now :: "gotime \<Rightarrow> gotime"
  rn_offset :: "gotime \<Rightarrow> int"
  rn_fold :: "string \<Rightarrow> string \<Rightarrow> bool"
  rn_lower :: "string \<Rightarrow> string"
  rn_quote :: "string \<Rightarrow> string"
  rn_scan :: "string \<Rightarrow> float64 option"

definition middle_dot :: string where "middle_dot = [CHR '' '', CHR 0xC2, CHR 0xB7, CHR '' '']"
definition bullet_dot :: string where "bullet_dot = [CHR 0xE2, CHR 0x80, CHR 0xA2]"
definition check_mark :: string where "check_mark = [CHR 0xE2, CHR 0x9C, CHR 0x85]"
definition cross_mark :: string where "cross_mark = [CHR 0xE2, CHR 0x9D, CHR 0x8C]"
abbreviation new_line :: char where "new_line \<equiv> CHR 0x0A"

subsection \<open>Kinds of events\<close>


definition EventSessionReconnected :: string where "EventSessionReconnected = ''session.reconnected''"

definition is_session_event :: "truth_record \<Rightarrow> bool" where
  "is_session_event r = (tr_event r = EventSessionConnected \<or> tr_event r = EventSessionDisconnected
     \<or> tr_event r = EventSessionReconnected)"

definition is_truth_state_event :: "truth_record \<Rightarrow> bool" where
  "is_truth_state_event r = (tr_event r = EventTruthRestored \<or> tr_event r = EventTruthLost)"

definition is_propagation_event :: "truth_record \<Rightarrow> bool" where
  "is_propagation_event r = (tr_source r \<noteq> [] \<and> tr_targets r \<noteq> [])"

subsection \<open>Summaries and nodes\<close>

record render_summary =
  rs_identity :: string
  rs_subscription :: string
  rs_fp_short :: string
  rs_expires :: gotime
  rs_extra :: "(string, string) gomap"

definition zero_summary :: render_summary where
  "zero_summary = \<lparr>rs_identity = [], rs_subscription = [], rs_fp_short = [], rs_expires = zero_time, rs_extra = []\<rparr>"

text \<open>A map of strings: a \<open>null\<close> value is the empty string, a later key wins.\<close>

definition dec_string_map :: "json \<Rightarrow> (string, string) gomap \<Rightarrow> (string, string) gomap option" where
  "dec_string_map j old = (case j of
     JObj ms \<Rightarrow> fold_members (\<lambda>(k, v) acc. map_option (\<lambda>s. mput k s acc) (dec_string v [])) ms old
   | JNull \<Rightarrow> Some []
   | _ \<Rightarrow> None)"

definition dec_render_summary :: "json \<Rightarrow> render_summary \<Rightarrow> render_summary option" where
  "dec_render_summary = dec_struct (\<lambda>(k, v) r.
     if key_is ''identity'' k then dec_field dec_string rs_identity rs_identity_update v r
     else if key_is ''subscription'' k then dec_field dec_string rs_subscription rs_subscription_update v r
     else if key_is ''fingerprint_short'' k then dec_field dec_string rs_fp_short rs_fp_short_update v r
     else if key_is ''expires_at'' k then dec_field dec_time rs_expires rs_expires_update v r
     else if key_is ''extra'' k then dec_field dec_string_map rs_extra rs_extra_update v r
     else Some r)"

definition parse_summary :: "json option \<Rightarrow> render_summary" where
  "parse_summary raw = (case raw of None \<Rightarrow> zero_summary
     | Some j \<Rightarrow> (case dec_render_summary j zero_summary of None \<Rightarrow> zero_summary | Some s \<Rightarrow> s))"

definition extra :: "render_summary \<Rightarrow> string \<Rightarrow> string" where
  "extra s k = (case map_of (rs_extra s) k of None \<Rightarrow> [] | Some v \<Rightarrow> v)"

definition normalized_nodes :: "truth_record \<Rightarrow> string list" where
  "normalized_nodes r =
     (let nodes = (if tr_nodes r = [] \<and> tr_source r \<noteq> [] then [tr_source r] else tr_nodes r)
      in sort_compact (filter (\<lambda>s. s \<noteq> []) (map trim_space nodes)))"

definition display_account_label :: "string \<Rightarrow> string" where "display_account_label s = trim_space s"

definition account_label_keys :: "string list" where
  "account_label_keys = [''display_account'', ''email'', ''masked_email'']"

definition account_label_from_summary :: "render_summary \<Rightarrow> string" where
  "account_label_from_summary s =
     (case filter (\<lambda>v. v \<noteq> []) (map (\<lambda>k. trim_space (extra s k)) account_label_keys) of
        [] \<Rightarrow> [] | v # _ \<Rightarrow> display_account_label v)"

definition periodic_account_label :: "render_summary \<Rightarrow> string" where
  "periodic_account_label s =
     (case filter (\<lambda>v. v \<noteq> [] \<and> v \<noteq> ''-'') (map (\<lambda>k. trim_space (extra s k)) account_label_keys) of
        [] \<Rightarrow> ''-'' | v # _ \<Rightarrow> display_account_label v)"

definition llm_label :: "string \<Rightarrow> string" where
  "llm_label f = (if f = ''claude-credentials-json-format'' then ''Claude''
     else if f = ''codex-auth-json-format'' then ''Codex''
     else if f = ''gemini-oauth-creds-json-format'' then ''Gemini'' else f)"

definition short_fp :: "string \<Rightarrow> string" where "short_fp fp = (if length fp > 12 then take 12 fp else fp)"

subsection \<open>Times\<close>

definition parse_summary_time :: "string \<Rightarrow> gotime option" where
  "parse_summary_time raw = (let s = trim_space raw in if s = [] then None else rfc3339_parse s)"

text \<open>\<open>Duration.Round\<close> to whole days, of a duration that is not negative.\<close>

definition round_days :: "duration \<Rightarrow> duration" where
  "round_days d = (let m = hours 24; r = d mod m in
     if r + r < m then d - r
     else if d + (m - r) \<le> max_int64 then d + (m - r) else max_int64)"

definition human_duration :: "duration \<Rightarrow> string" where
  "human_duration d =
     (if d < minutes 1 then ''less than 1m''
      else if d > hours (30 * 24) then int_text (round_days d div hours 24) @ ''d''
      else
        let days = d div hours 24; d1 = d - days * hours 24;
            hrs = d1 div hours 1; d2 = d1 - hrs * hours 1; mins = d2 div minutes 1;
            parts = (if days > 0 then [int_text days @ ''d''] else []) @ (if hrs > 0 then [int_text hrs @ ''h''] else []);
            all = parts @ (if mins > 0 \<and> length parts < 2 then [int_text mins @ ''m''] else [])
        in if all = [] then ''less than 1m'' else join_with '' '' all)"

definition relative_time :: "render_env \<Rightarrow> gotime \<Rightarrow> string" where
  "relative_time env ts = (let d = time_sub ts (rn_now env ts) in
     if d < 0 then human_duration (wrap64 (- d)) @ '' ago'' else ''in '' @ human_duration d)"

definition seoul_time :: "render_env \<Rightarrow> gotime \<Rightarrow> string" where
  "seoul_time env ts = format_milli (rn_offset env ts) ts"

definition seoul_time_line :: "render_env \<Rightarrow> gotime \<Rightarrow> bool \<Rightarrow> string" where
  "seoul_time_line env ts relative = (if is_zero_time ts then ''-''
     else if \<not> relative then seoul_time env ts
     else seoul_time env ts @ '' ('' @ relative_time env ts @ '')'')"

definition time_line :: "render_env \<Rightarrow> gotime \<Rightarrow> string" where
  "time_line env ts = (if is_zero_time ts then []
     else seoul_time env ts @ '' ('' @ relative_time env ts @ '')'')"

definition validity_line :: "render_env \<Rightarrow> gotime \<Rightarrow> string" where
  "validity_line env ts = (if is_zero_time ts then [] else time_line env ts)"

definition expiry_change_line :: "render_env \<Rightarrow> render_summary \<Rightarrow> render_summary \<Rightarrow> string" where
  "expiry_change_line env prev cur =
     (if is_zero_time (rs_expires prev) \<or> is_zero_time (rs_expires cur) \<or> rs_expires prev = rs_expires cur then []
      else time_line env (rs_expires prev) @ '' -> '' @ time_line env (rs_expires cur))"

end
