(* ===== verification/Notifier_Text.thy ===== *)
theory Notifier_Text
  imports Notifier_Render
begin

text \<open>
  internal/notifier/render.go and periodic_render.go, continued: usage lines, the views of a single
  event, of a batch of session events and of a periodic record, and their texts in plain, Markdown,
  Slack and HTML markup.
\<close>

subsection \<open>Usage\<close>

definition usage_line :: "usage_report \<Rightarrow> string" where
  "usage_line u =
     (if ur_windows u \<noteq> [] then []
      else if ur_limit u > 0 then
        (let unit = (if trim_space (ur_unit u) = [] then ''units'' else trim_space (ur_unit u));
             remaining = max 0 (wrap64 (ur_limit u - ur_used u));
             pct = f64_mul (f64_div (f64_of_int remaining) (f64_of_int (ur_limit u))) 100
         in int_text (ur_used u) @ '' / '' @ int_text (ur_limit u) @ '' '' @ unit @ '' used, '' @
            int_text remaining @ '' left ('' @ format_fixed 1 pct @ ''%)'')
      else if ur_remaining u > 0 then format_fixed 1 (ur_remaining u) @ ''% left''
      else [])"

definition usage_window_line :: "render_env \<Rightarrow> usage_window \<Rightarrow> string" where
  "usage_window_line env w =
     (let reset = (if is_zero_time (uw_reset w) then [] else [''resets '' @ time_line env (uw_reset w)]) in
      if uw_limit w > 0 then
        (let remaining = max 0 (wrap64 (uw_limit w - uw_used w));
             pct = (if uw_remaining w \<le> 0
               then f64_mul (f64_div (f64_of_int remaining) (f64_of_int (uw_limit w))) 100 else uw_remaining w)
         in join_with '', '' ((format_fixed 0 pct @ ''% left'') # reset))
      else if uw_label w \<noteq> [] \<or> \<not> is_zero_time (uw_reset w) then
        join_with '', '' ((format_fixed 0 (uw_remaining w) @ ''% left'') # reset)
      else [])"

definition usage_detail_lines :: "render_env \<Rightarrow> usage_report \<Rightarrow> string list" where
  "usage_detail_lines env u = filter (\<lambda>l. l \<noteq> []) (map (\<lambda>w.
     (if trim_space (uw_label w) = [] then ''usage'' else trim_space (uw_label w)) @ '': '' @ usage_window_line env w)
     (ur_windows u))"

subsection \<open>The view of one event\<close>

record render_view =
  rv_heading :: string
  rv_title :: string
  rv_event :: string
  rv_node :: string
  rv_peer :: string
  rv_mode :: string
  rv_model :: string
  rv_profile :: string
  rv_account :: string
  rv_label :: string
  rv_nodes :: "string list"
  rv_refresh :: string
  rv_source :: string
  rv_targets :: "string list"
  rv_format :: string
  rv_fingerprint :: string
  rv_plan :: string
  rv_usage :: string
  rv_details :: "string list"
  rv_validity :: string
  rv_change :: string
  rv_reset :: string
  rv_notes :: "string list"
  rv_session :: bool

definition zero_view :: render_view where
  "zero_view = \<lparr>rv_heading = [], rv_title = [], rv_event = [], rv_node = [], rv_peer = [], rv_mode = [], rv_model = [],
     rv_profile = [], rv_account = [], rv_label = [], rv_nodes = [], rv_refresh = [], rv_source = [], rv_targets = [],
     rv_format = [], rv_fingerprint = [], rv_plan = [], rv_usage = [], rv_details = [], rv_validity = [],
     rv_change = [], rv_reset = [], rv_notes = [], rv_session = False\<rparr>"

definition session_heading :: "string \<Rightarrow> string" where
  "session_heading kind = (if kind = EventSessionDisconnected then ''Node Disconnected''
     else if kind = EventSessionReconnected then ''Node Reconnected'' else ''Node Connected'')"

definition session_view :: "truth_record \<Rightarrow> render_view" where
  "session_view r = (let heading = session_heading (tr_event r); model = llm_label (tr_format r) in
     zero_view\<lparr>rv_heading := heading, rv_title := heading @ middle_dot @ model @ middle_dot @ tr_node r,
       rv_event := tr_event r, rv_node := tr_node r, rv_peer := tr_peer r, rv_mode := tr_mode r,
       rv_model := model, rv_profile := tr_profile r, rv_nodes := normalized_nodes r, rv_session := True\<rparr>)"

text \<open>\<open>strings.ReplaceAll\<close> of \<open>_\<close> by a blank.\<close>

definition blanks_for_underscores :: "string \<Rightarrow> string" where
  "blanks_for_underscores s = map (\<lambda>c. if c = CHR ''_'' then CHR '' '' else c) s"

definition hidden_extra :: "string list" where
  "hidden_extra = [''account_id'', ''display_account'', ''email'', ''masked_email'', ''last_refresh'']"

text \<open>\<open>strings.EqualFold\<close>, by bytes on ASCII text.\<close>

definition equal_fold :: "render_env \<Rightarrow> string \<Rightarrow> string \<Rightarrow> bool" where
  "equal_fold env s t = (if ascii s \<and> ascii t then equal_fold_ascii s t else rn_fold env s t)"

definition view_notes :: "render_env \<Rightarrow> string \<Rightarrow> usage_report \<Rightarrow> render_summary \<Rightarrow> string list" where
  "view_notes env plan u sm =
     (if plan \<noteq> [] \<and> rs_subscription sm \<noteq> [] \<and> \<not> equal_fold env plan (rs_subscription sm)
      then [''subscription: '' @ rs_subscription sm] else [])
     @ filter (\<lambda>n. n \<noteq> []) (map trim_space (ur_notes u))
     @ map (\<lambda>k. blanks_for_underscores k @ '': '' @ trim_space (extra sm k))
         (filter (\<lambda>k. k \<notin> set hidden_extra \<and> trim_space (extra sm k) \<noteq> []) (sort (map fst (rs_extra sm))))"

text \<open>A lost truth shows the summary it had.\<close>

definition event_summary :: "truth_record \<Rightarrow> render_summary" where
  "event_summary r = (let sm = parse_summary (tr_summary r) in
     if tr_event r = EventTruthLost \<and> rs_extra sm = [] \<and> rs_identity sm = [] \<and> is_zero_time (rs_expires sm)
     then parse_summary (tr_prev_summary r) else sm)"

definition event_heading :: "truth_record \<Rightarrow> string" where
  "event_heading r = (if tr_event r = EventTruthRestored then ''Truth Restored''
     else if tr_event r = EventTruthLost then ''Truth Lost''
     else if tr_source r \<noteq> [] \<and> tr_targets r \<noteq> [] then ''Auth Propagated'' else ''Auth State'')"

definition build_view :: "render_env \<Rightarrow> truth_record \<Rightarrow> usage_report \<Rightarrow> render_view" where
  "build_view env r u = (if is_session_event r then session_view r
     else
       let sm = event_summary r;
           account = (if tr_account r \<noteq> [] then tr_account r else if rs_identity sm \<noteq> [] then rs_identity sm
             else ''<no-account>'');
           label = account_label_from_summary sm;
           refresh = (case parse_summary_time (extra sm ''last_refresh'') of None \<Rightarrow> [] | Some ts \<Rightarrow> seoul_time_line env ts False);
           plan = (if trim_space (ur_plan u) \<noteq> [] then trim_space (ur_plan u) else trim_space (rs_subscription sm));
           fp = (if rs_fp_short sm \<noteq> [] then rs_fp_short sm else short_fp (tr_fingerprint r));
           model = llm_label (tr_format r); heading = event_heading r
       in zero_view\<lparr>rv_heading := heading,
            rv_title := heading @ middle_dot @ model @ (if label = [] then [] else middle_dot @ label),
            rv_model := model, rv_profile := tr_profile r, rv_account := account, rv_label := label,
            rv_nodes := normalized_nodes r, rv_refresh := refresh, rv_source := tr_source r,
            rv_targets := sort (tr_targets r), rv_format := tr_format r, rv_fingerprint := fp, rv_plan := plan,
            rv_usage := usage_line u, rv_details := usage_detail_lines env u, rv_validity := validity_line env (rs_expires sm),
            rv_change := expiry_change_line env (parse_summary (tr_prev_summary r)) sm,
            rv_reset := time_line env (ur_reset u), rv_notes := view_notes env plan u sm\<rparr>)"

subsection \<open>Markup\<close>

record rich_markup =
  rm_escape :: "string \<Rightarrow> string"
  rm_bold :: "string \<Rightarrow> string"
  rm_code :: "string \<Rightarrow> string"
  rm_line_end :: string
  rm_bullet :: string
  rm_plain :: bool

definition around :: "string \<Rightarrow> string \<Rightarrow> string \<Rightarrow> string" where "around a b s = a @ s @ b"

definition html_char :: "char \<Rightarrow> string option" where
  "html_char c = (if c = CHR ''&'' then Some ''&amp;'' else if c = CHR ''<'' then Some ''&lt;''
     else if c = CHR ''>'' then Some ''&gt;'' else None)"

definition html_escape :: "string \<Rightarrow> string" where "html_escape = escape_with html_char"
definition mrkdwn_escape :: "string \<Rightarrow> string" where "mrkdwn_escape = escape_with html_char"

definition back_slash :: char where "back_slash = CHR 0x5C"
definition back_tick :: char where "back_tick = CHR 0x60"

definition md_char :: "char \<Rightarrow> string option" where
  "md_char c = (if c \<in> {back_slash, back_tick, CHR ''*'', CHR ''_''} then Some [back_slash, c] else None)"

definition md_escape :: "string \<Rightarrow> string" where "md_escape = escape_with md_char"

definition plain_markup :: rich_markup where
  "plain_markup = \<lparr>rm_escape = (\<lambda>s. s), rm_bold = (\<lambda>s. s), rm_code = (\<lambda>s. s), rm_line_end = [new_line],
     rm_bullet = ''*'', rm_plain = True\<rparr>"

definition markdown_markup :: rich_markup where
  "markdown_markup = \<lparr>rm_escape = md_escape, rm_bold = around ''**'' ''**'', rm_code = around [back_tick] [back_tick],
     rm_line_end = [new_line], rm_bullet = ''-'', rm_plain = False\<rparr>"

definition mrkdwn_markup :: rich_markup where
  "mrkdwn_markup = \<lparr>rm_escape = mrkdwn_escape, rm_bold = around ''*'' ''*'', rm_code = around [back_tick] [back_tick],
     rm_line_end = [new_line], rm_bullet = bullet_dot, rm_plain = False\<rparr>"

definition html_markup :: rich_markup where
  "html_markup = \<lparr>rm_escape = html_escape, rm_bold = around ''<b>'' ''</b>'', rm_code = around ''<code>'' ''</code>'',
     rm_line_end = [new_line], rm_bullet = bullet_dot, rm_plain = False\<rparr>"

definition teams_markup :: rich_markup where
  "teams_markup = markdown_markup\<lparr>rm_line_end := [CHR '' '', CHR '' '', new_line]\<rparr>"

definition line_with_markup :: "rich_markup \<Rightarrow> string \<Rightarrow> string \<Rightarrow> string" where
  "line_with_markup m label v = (if v = [] then [] else if rm_plain m then label @ '': '' @ v
     else rm_bold m (rm_escape m (label @ '':'')) @ '' '' @ v)"

definition code_list_with_markup :: "rich_markup \<Rightarrow> string list \<Rightarrow> string" where
  "code_list_with_markup m vs = join_with '', '' (map (\<lambda>v. rm_code m (rm_escape m v)) vs)"

definition compact :: "string list \<Rightarrow> string list" where
  "compact ls = filter (\<lambda>l. trim_space l \<noteq> []) ls"

definition count_label :: "string \<Rightarrow> string list \<Rightarrow> string" where
  "count_label s xs = s @ '' ('' @ int_text (int (length xs)) @ '')''"

definition session_lines :: "rich_markup \<Rightarrow> render_view \<Rightarrow> string list" where
  "session_lines m v =
     [rm_bold m (rm_escape m (rv_heading v)),
      line_with_markup m ''profile'' (rm_escape m (rv_profile v)),
      line_with_markup m ''llm'' (rm_escape m (rv_model v)),
      line_with_markup m ''node'' (rm_code m (rm_escape m (rv_node v)))]
     @ (if rv_mode v = [] then [] else [line_with_markup m ''auth mode'' (rm_escape m (rv_mode v))])
     @ (if rv_peer v = [] then [] else [line_with_markup m ''peer cn'' (rm_code m (rm_escape m (rv_peer v)))])
     @ (if rv_nodes v = [] then []
        else [line_with_markup m (count_label ''connected nodes'' (rv_nodes v)) (code_list_with_markup m (rv_nodes v))])"

definition event_lines :: "rich_markup \<Rightarrow> render_view \<Rightarrow> string list" where
  "event_lines m v =
     (let line = line_with_markup m; esc = rm_escape m; code = (\<lambda>s. rm_code m (rm_escape m s));
          when = (\<lambda>b l. if b then [l] else [] :: string list)
      in [rm_bold m (esc (rv_heading v)), line ''profile'' (esc (rv_profile v)), line ''llm'' (esc (rv_model v))]
         @ when (rv_format v \<noteq> [] \<and> rv_format v \<noteq> rv_model v) (line ''format'' (esc (rv_format v)))
         @ when (rv_nodes v \<noteq> []) (line (count_label ''nodes'' (rv_nodes v)) (code_list_with_markup m (rv_nodes v)))
         @ when (rv_source v \<noteq> []) (line ''latest detected'' (code (rv_source v)))
         @ when (rv_targets v \<noteq> []) (line (count_label ''propagated to'' (rv_targets v)) (code_list_with_markup m (rv_targets v)))
         @ when (rv_label v \<noteq> []) (line ''account'' (code (rv_label v)))
         @ when (rv_refresh v \<noteq> []) (line ''last refresh'' (esc (rv_refresh v)))
         @ when (rv_plan v \<noteq> []) (line ''plan'' (esc (rv_plan v)))
         @ when (rv_usage v \<noteq> []) (line ''usage'' (esc (rv_usage v)))
         @ map (\<lambda>d. rm_bullet m @ '' '' @ esc d) (filter (\<lambda>d. d \<noteq> []) (rv_details v))
         @ when (rv_change v \<noteq> []) (line ''expiry change'' (esc (rv_change v)))
         @ when (rv_validity v \<noteq> []) (line ''valid until'' (esc (rv_validity v)))
         @ when (rv_reset v \<noteq> []) (line ''resets'' (esc (rv_reset v)))
         @ when (rv_fingerprint v \<noteq> []) (line ''fingerprint'' (code (rv_fingerprint v)))
         @ map (\<lambda>n. rm_bullet m @ '' '' @ esc n) (filter (\<lambda>n. n \<noteq> []) (rv_notes v)))"

definition render_rich_text :: "render_env \<Rightarrow> rich_markup \<Rightarrow> truth_record \<Rightarrow> usage_report \<Rightarrow> string" where
  "render_rich_text env m r u = (let v = build_view env r u in
     join_with (rm_line_end m) (compact (if rv_session v then session_lines m v else event_lines m v)))"

subsection \<open>Batches of session events\<close>

record session_batch_row = sb_profile :: string  sb_model :: string  sb_connected :: string

record session_batch_view =
  bv_heading :: string
  bv_title :: string
  bv_node :: string
  bv_peer :: string
  bv_mode :: string
  bv_rows :: "session_batch_row list"

definition build_session_batch_view :: "truth_record list \<Rightarrow> session_batch_view" where
  "build_session_batch_view events = (case events of
     [] \<Rightarrow> \<lparr>bv_heading = [], bv_title = [], bv_node = [], bv_peer = [], bv_mode = [], bv_rows = []\<rparr>
   | first # _ \<Rightarrow> (let heading = session_heading (tr_event first) in
       \<lparr>bv_heading = heading, bv_title = heading @ middle_dot @ tr_node first, bv_node = tr_node first,
        bv_peer = tr_peer first, bv_mode = tr_mode first,
        bv_rows = sort_key sb_profile (map (\<lambda>e. \<lparr>sb_profile = tr_profile e, sb_model = llm_label (tr_format e),
          sb_connected = join_with '', '' (normalized_nodes e)\<rparr>) events)\<rparr>))"

definition session_batch_header_lines :: "session_batch_view \<Rightarrow> string list" where
  "session_batch_header_lines v = [''Node: '' @ bv_node v]
     @ (if bv_mode v = [] then [] else [''Auth Mode: '' @ bv_mode v])
     @ (if bv_peer v = [] then [] else [''Peer CN: '' @ bv_peer v])"

definition session_batch_markup_lines :: "rich_markup \<Rightarrow> session_batch_view \<Rightarrow> string list" where
  "session_batch_markup_lines m v = [line_with_markup m ''node'' (rm_code m (rm_escape m (bv_node v)))]
     @ (if bv_mode v = [] then [] else [line_with_markup m ''auth mode'' (rm_escape m (bv_mode v))])
     @ (if bv_peer v = [] then [] else [line_with_markup m ''peer cn'' (rm_code m (rm_escape m (bv_peer v)))])"

definition batch_row :: "string \<Rightarrow> string \<Rightarrow> string \<Rightarrow> string" where
  "batch_row a b c = pad_right 10 a @ '' '' @ pad_right 8 b @ '' '' @ c"

definition session_batch_table_lines :: "session_batch_view \<Rightarrow> string list" where
  "session_batch_table_lines v = batch_row ''PROFILE'' ''LLM'' ''CONNECTED''
     # map (\<lambda>r. batch_row (sb_profile r) (sb_model r) (sb_connected r)) (bv_rows v)"

definition code_fence :: string where "code_fence = [back_tick, back_tick, back_tick]"

definition render_session_batch_plain :: "truth_record list \<Rightarrow> string" where
  "render_session_batch_plain es = (let v = build_session_batch_view es in
     join_with [new_line] (compact (session_batch_header_lines v @ [[]] @ session_batch_table_lines v)))"

definition session_batch_fenced :: "rich_markup \<Rightarrow> truth_record list \<Rightarrow> string" where
  "session_batch_fenced m es = (let v = build_session_batch_view es in
     join_with [new_line] (compact ([rm_bold m (rm_escape m (bv_heading v))] @ session_batch_markup_lines m v
       @ [[], code_fence] @ session_batch_table_lines v @ [code_fence])))"

definition render_session_batch_markdown :: "truth_record list \<Rightarrow> string" where
  "render_session_batch_markdown = session_batch_fenced markdown_markup"
definition render_session_batch_mrkdwn :: "truth_record list \<Rightarrow> string" where
  "render_session_batch_mrkdwn = session_batch_fenced mrkdwn_markup"

definition render_session_batch_teams :: "truth_record list \<Rightarrow> string" where
  "render_session_batch_teams es = (let v = build_session_batch_view es; m = teams_markup in
     join_with [CHR '' '', CHR '' '', new_line] (compact ([rm_bold m (rm_escape m (bv_heading v))]
       @ session_batch_markup_lines m v @ [[]] @ session_batch_table_lines v)))"

subsection \<open>Periodic records\<close>

record report_record = rr_truth :: truth_record  rr_usage :: usage_report

record periodic_view =
  pv_status :: string
  pv_no_truth :: bool
  pv_profile :: string
  pv_nodes :: "string list"
  pv_valid :: string
  pv_label :: string
  pv_refresh :: string
  pv_details :: "string list"

definition build_periodic_view :: "render_env \<Rightarrow> report_record \<Rightarrow> periodic_view" where
  "build_periodic_view env rec = (let r = rr_truth rec; sm = parse_summary (tr_summary r) in
     \<lparr>pv_status = (if tr_no_truth r then cross_mark else check_mark), pv_no_truth = tr_no_truth r,
      pv_profile = tr_profile r, pv_nodes = normalized_nodes r,
      pv_valid = (if is_zero_time (rs_expires sm) then ''-'' else seoul_time_line env (rs_expires sm) True),
      pv_label = periodic_account_label sm,
      pv_refresh = (case parse_summary_time (extra sm ''last_refresh'') of None \<Rightarrow> ''-'' | Some ts \<Rightarrow> seoul_time_line env ts False),
      pv_details = usage_detail_lines env (rr_usage rec)\<rparr>)"

definition periodic_lines :: "render_env \<Rightarrow> rich_markup \<Rightarrow> report_record \<Rightarrow> string list" where
  "periodic_lines env m rec = (let v = build_periodic_view env rec; esc = rm_escape m in
     [''Profile: '' @ esc (pv_profile v @ (if pv_nodes v = [] then [] else '' ('' @ join_with '', '' (pv_nodes v) @ '')'')),
      ''Truth: '' @ esc (pv_status v), ''Valid Until: '' @ esc (pv_valid v)]
     @ (if pv_label v \<noteq> [] \<and> pv_label v \<noteq> ''-'' then [''Account: '' @ esc (pv_label v)] else [])
     @ [''Last Refresh: '' @ esc (pv_refresh v)]
     @ map (\<lambda>d. ''Usage: '' @ esc d) (filter (\<lambda>d. d \<noteq> []) (pv_details v)))"

fun with_rules :: "string list list \<Rightarrow> string list" where
  "with_rules [] = []"
| "with_rules [b] = b"
| "with_rules (b # bs) = b @ [''---''] @ with_rules bs"

definition render_periodic_rich :: "render_env \<Rightarrow> rich_markup \<Rightarrow> report_record list \<Rightarrow> string" where
  "render_periodic_rich env m rs =
     join_with (rm_line_end m) (rm_bold m (rm_escape m ''Auth State'') # with_rules (map (periodic_lines env m) rs))"

end
