(* ===== verification/Notifier_Telegram.thy ===== *)
theory Notifier_Telegram
  imports Notifier_Text
begin

text \<open>internal/notifier/sink_telegram.go: the texts of Telegram messages, in its HTML subset.\<close>

definition ellipsis :: string where "ellipsis = [CHR 0xE2, CHR 0x80, CHR 0xA6]"
definition full_block :: string where "full_block = [CHR 0xE2, CHR 0x96, CHR 0x88]"
definition light_block :: string where "light_block = [CHR 0xE2, CHR 0x96, CHR 0x91]"

text \<open>Lengths count bytes, as \<open>len\<close> and slicing do.\<close>

definition truncate_telegram :: "string \<Rightarrow> nat \<Rightarrow> string" where
  "truncate_telegram s mx = (let t = trim_space s in
     if mx = 0 \<or> length t \<le> mx then t
     else if mx = 1 then take 1 t
     else take (mx - 1) t @ ellipsis)"

definition telegram_html_bold :: "string \<Rightarrow> string" where
  "telegram_html_bold s = ''<b>'' @ html_escape s @ ''</b>''"

definition telegram_html_code :: "string \<Rightarrow> string" where
  "telegram_html_code s = ''<code>'' @ html_escape s @ ''</code>''"

definition html_pre :: "string list \<Rightarrow> string" where
  "html_pre ls = ''<pre>'' @ html_escape (join_with [new_line] ls) @ ''</pre>''"

definition telegram_kv :: "string \<Rightarrow> string \<Rightarrow> string" where
  "telegram_kv label v = pad_right 8 label @ '' '' @ truncate_telegram v 96"

subsection \<open>Usage bars\<close>

definition split_usage_detail :: "string \<Rightarrow> string \<times> string \<times> string" where
  "split_usage_detail detail =
     (let (label, d) = (case index_of '': '' detail of None \<Rightarrow> (''usage'', detail)
            | Some i \<Rightarrow> (take i detail, drop (i + 2) detail));
          (pct, reset) = (case index_of ''% left'' d of None \<Rightarrow> ([], [])
            | Some i \<Rightarrow> (take (i + 6) d, (case index_of ''resets '' (drop (i + 6) d) of None \<Rightarrow> []
                | Some n \<Rightarrow> trim_space (drop (i + 6 + n + 7) d))))
      in (trim_space label, trim_space pct, trim_space reset))"

text \<open>A plain decimal number in front of \<open>% left\<close>.\<close>

definition plain_decimal :: "string \<Rightarrow> float64 option" where
  "plain_decimal t =
     (let a = takeWhile is_digit t; r = drop (length a) t;
          b = (case r of [] \<Rightarrow> [] | c # cs \<Rightarrow> if c = CHR ''.'' then takeWhile is_digit cs else []);
          r' = (case r of [] \<Rightarrow> [] | c # cs \<Rightarrow> if c = CHR ''.'' then drop (length b) cs else r)
      in if a \<noteq> [] \<and> r' = ''% left'' then Some (f64_round (of_nat (nat_digits 0 (a @ b)) / 10 ^ length b)) else None)"

definition scan_pct :: "render_env \<Rightarrow> string \<Rightarrow> float64 option" where
  "scan_pct env t = (case plain_decimal t of Some x \<Rightarrow> Some x | None \<Rightarrow> rn_scan env t)"

definition usage_bar_from_detail :: "render_env \<Rightarrow> string \<Rightarrow> nat \<Rightarrow> string" where
  "usage_bar_from_detail env detail width =
     (case split_usage_detail detail of (_, pct, _) \<Rightarrow>
        if pct = [] then []
        else (case scan_pct env pct of
          None \<Rightarrow> []
        | Some x \<Rightarrow>
            let remaining = min 100 (max 0 x);
                filled = min width (nat \<lfloor>f64_mul (f64_div remaining 100) (f64_of_int (int width))\<rfloor>)
            in repeat_str filled full_block @ repeat_str (width - filled) light_block))"

definition telegram_bar_rows :: "render_env \<Rightarrow> string \<Rightarrow> string list" where
  "telegram_bar_rows env detail =
     (case split_usage_detail detail of (label, pct, reset) \<Rightarrow>
        let bar = usage_bar_from_detail env detail 12 in
        if pct = [] then [''  '' @ truncate_telegram detail 96]
        else let line1 = trim_space (pad_right 24 (truncate_telegram label 24) @ '' '' @ bar @ '' '' @ pct) in
          if reset = [] then [''  '' @ line1]
          else [''  '' @ line1, ''      '' @ truncate_telegram reset 48])"

subsection \<open>Messages\<close>

definition telegram_session_lines :: "render_view \<Rightarrow> string list" where
  "telegram_session_lines v =
     [telegram_kv ''Profile'' (rv_profile v), telegram_kv ''LLM'' (rv_model v), telegram_kv ''Node'' (rv_node v)]
     @ (if rv_mode v = [] then [] else [telegram_kv ''Auth Mode'' (rv_mode v)])
     @ (if rv_peer v = [] then [] else [telegram_kv ''Peer CN'' (rv_peer v)])
     @ (if rv_nodes v = [] then [] else [telegram_kv ''Connected'' (join_with '', '' (rv_nodes v))])"

definition render_telegram_table_lines :: "render_env \<Rightarrow> render_view \<Rightarrow> string list" where
  "render_telegram_table_lines env v =
     (let row = (\<lambda>b l s. if b then [telegram_kv l s] else []) in
      [telegram_kv ''Profile'' (rv_profile v), telegram_kv ''LLM'' (rv_model v)]
      @ row (rv_nodes v \<noteq> []) ''Nodes'' (join_with '', '' (rv_nodes v))
      @ row (rv_source v \<noteq> []) ''Latest Detected'' (rv_source v)
      @ row (rv_targets v \<noteq> []) ''Propagated To'' (join_with '', '' (rv_targets v))
      @ row (rv_label v \<noteq> []) ''Account'' (rv_label v)
      @ row (rv_refresh v \<noteq> []) ''Refresh'' (rv_refresh v)
      @ (if rv_change v \<noteq> [] then [telegram_kv ''Expiry Change'' (rv_change v)]
         else row (rv_validity v \<noteq> []) ''Valid Until'' (rv_validity v))
      @ row (rv_plan v \<noteq> []) ''Plan'' (rv_plan v)
      @ row (rv_fingerprint v \<noteq> []) ''Fingerprint'' (rv_fingerprint v)
      @ row (rv_usage v \<noteq> []) ''Usage'' (rv_usage v)
      @ (if rv_details v = [] then [] else [[], ''USAGE''] @ concat (map (telegram_bar_rows env) (rv_details v)))
      @ (if rv_notes v = [] then [] else [[], ''NOTES''] @ map (\<lambda>n. ''  '' @ truncate_telegram n 92) (rv_notes v)))"

definition render_telegram :: "render_env \<Rightarrow> truth_record \<Rightarrow> usage_report \<Rightarrow> string" where
  "render_telegram env r u = (let v = build_view env r u in
     join_with [new_line] [telegram_html_bold (rv_heading v),
       html_pre (if is_session_event r then telegram_session_lines v else render_telegram_table_lines env v)])"

definition render_session_batch_telegram :: "truth_record list \<Rightarrow> string" where
  "render_session_batch_telegram es = (let v = build_session_batch_view es in
     join_with [new_line] [telegram_html_bold (bv_heading v),
       html_pre ([telegram_kv ''Node'' (bv_node v)]
         @ (if bv_mode v = [] then [] else [telegram_kv ''Auth Mode'' (bv_mode v)])
         @ (if bv_peer v = [] then [] else [telegram_kv ''Peer CN'' (bv_peer v)])
         @ [[]] @ session_batch_table_lines v)])"

definition dash_or_empty :: "string \<Rightarrow> bool" where "dash_or_empty s = (s = [] \<or> s = ''-'')"

definition render_periodic_telegram_account_title :: "periodic_view \<Rightarrow> int \<Rightarrow> string" where
  "render_periodic_telegram_account_title v seq =
     (let title = telegram_html_bold ((if pv_profile v = [] then ''profile'' else pv_profile v) @ '' #'' @ int_text seq);
          account = telegram_html_code (if dash_or_empty (pv_label v) then ''unknown account'' else pv_label v)
      in if pv_no_truth v then title @ '' - '' @ cross_mark @ '' no truth''
         else if dash_or_empty (pv_valid v) then title @ '' - '' @ account
         else title @ '' - '' @ account @ '' - '' @ html_escape (pv_valid v))"

definition render_periodic_telegram_meta_lines :: "periodic_view \<Rightarrow> string list" where
  "render_periodic_telegram_meta_lines v =
     (if pv_nodes v = [] then [] else [''nodes: '' @ telegram_html_code (join_with '','' (pv_nodes v))])
     @ (if dash_or_empty (pv_refresh v) then [] else [''last refresh: '' @ html_escape (pv_refresh v)])
     @ (if pv_no_truth v \<and> pv_nodes v = [] then [''nodes: '' @ telegram_html_code ''-''] else [])"

definition render_periodic_telegram_usage_block :: "render_env \<Rightarrow> periodic_view \<Rightarrow> string list" where
  "render_periodic_telegram_usage_block env v = concat (map (telegram_bar_rows env) (pv_details v))"

text \<open>Accounts of one profile are numbered; \<open>seen\<close> holds the profiles of the records before.\<close>

fun periodic_telegram_lines :: "render_env \<Rightarrow> string list \<Rightarrow> report_record list \<Rightarrow> string list" where
  "periodic_telegram_lines env seen [] = []"
| "periodic_telegram_lines env seen (rec # recs) =
     (let v = build_periodic_view env rec; p = pv_profile v; usage = render_periodic_telegram_usage_block env v in
      (if seen = [] then [] else [[]])
      @ [render_periodic_telegram_account_title v (int (count_list seen p) + 1)]
      @ render_periodic_telegram_meta_lines v
      @ (if usage = [] then [] else [html_pre usage])
      @ periodic_telegram_lines env (p # seen) recs)"

definition render_periodic_telegram :: "render_env \<Rightarrow> report_record list \<Rightarrow> string" where
  "render_periodic_telegram env recs =
     join_with [new_line] (telegram_html_bold ''Auth State'' # periodic_telegram_lines env [] recs)"

end
