(* ===== verification/Notifier_Clients.thy ===== *)
theory Notifier_Clients
  imports Go_Text Transport
begin

text \<open>
  The clients under internal/notifier (telegram, slack, discord, mattermost, ntfy, teams): the request
  each of them makes and how it reads the answer. The HTTP library is a parameter: \<open>http_outcome\<close> is
  what \<open>http.NewRequestWithContext\<close> and \<open>Client.Do\<close> gave. An error is its text, which is all that its
  callers use of it.
\<close>

subsection \<open>Requests and answers\<close>

record http_call =
  hq_url :: string
  hq_headers :: "(string \<times> string) list"
  hq_body :: string

text \<open>\<open>DoFailed cause\<close>: the library documents that \<open>Do\<close> fails with a \<open>*url.Error\<close>, whose text is the
  operation, the quoted URL and the cause.\<close>

datatype http_outcome =
    NewRequestFailed string
  | DoFailed string
  | Answered int string

definition plain_text :: "string \<Rightarrow> bool" where
  "plain_text s = list_all (\<lambda>c. 32 \<le> (of_char c :: nat) \<and> (of_char c :: nat) < 127 \<and> c \<noteq> CHR 0x22 \<and> c \<noteq> CHR 0x5C) s"

text \<open>The verb \<open>%q\<close>: texts of printable ASCII without quotes and back slashes stand between quotes as
  they are; \<open>quote\<close> does the rest.\<close>

definition go_quote :: "(string \<Rightarrow> string) \<Rightarrow> string \<Rightarrow> string" where
  "go_quote quote s = (if plain_text s then [CHR 0x22] @ s @ [CHR 0x22] else quote s)"

definition url_error_text :: "(string \<Rightarrow> string) \<Rightarrow> string \<Rightarrow> string \<Rightarrow> string" where
  "url_error_text quote url cause = ''Post '' @ go_quote quote url @ '': '' @ cause"

definition redacted_word :: string where "redacted_word = ''<redacted>''"

text \<open>The secret of a webhook URL is what follows the last slash.\<close>

definition scrub_url :: "string \<Rightarrow> string \<Rightarrow> string" where
  "scrub_url s url = (if url = [] then s
     else replace_all url redacted_word
       (case after_last (CHR ''/'') url of None \<Rightarrow> s | Some secret \<Rightarrow>
          if secret = [] then s else replace_all secret redacted_word s))"

definition scrub_token :: "string \<Rightarrow> string \<Rightarrow> string" where
  "scrub_token s token = (if token = [] then s else replace_all token redacted_word s)"

definition json_header :: "(string \<times> string) list" where
  "json_header = [(''Content-Type'', ''application/json'')]"

text \<open>Every client but Telegram's ends alike: \<open>None\<close> for a status in the two hundreds.\<close>

definition post_result ::
  "(string \<Rightarrow> string) \<Rightarrow> string \<Rightarrow> (string \<Rightarrow> string) \<Rightarrow> string \<Rightarrow> http_outcome \<Rightarrow> string option" where
  "post_result quote name scrub url r = (case r of
     NewRequestFailed e \<Rightarrow> Some (name @ '': new request: '' @ e)
   | DoFailed cause \<Rightarrow> Some (name @ '': send: '' @ url_error_text quote url cause)
   | Answered status body \<Rightarrow> if status div 100 \<noteq> 2
       then Some (name @ '': HTTP '' @ int_text status @ '': '' @ scrub body) else None)"

subsection \<open>Webhooks\<close>

definition slack_post_message ::
  "(string \<Rightarrow> string) \<Rightarrow> (http_call \<Rightarrow> http_outcome) \<Rightarrow> string \<Rightarrow> string \<Rightarrow> http_call option \<times> string option" where
  "slack_post_message quote http url text = (if url = [] then (None, Some ''slack: webhook URL is empty'')
     else let call = \<lparr>hq_url = url, hq_headers = json_header,
            hq_body = json_text (JObj [(''mrkdwn'', JBool True), (''text'', JStr text)])\<rparr>
       in (Some call, post_result quote ''slack'' (\<lambda>b. scrub_url b url) url (http call)))"

definition discord_post ::
  "(string \<Rightarrow> string) \<Rightarrow> (http_call \<Rightarrow> http_outcome) \<Rightarrow> string \<Rightarrow> string \<Rightarrow> http_call option \<times> string option" where
  "discord_post quote http url content = (if url = [] then (None, Some ''discord: webhook URL is empty'')
     else let call = \<lparr>hq_url = url, hq_headers = json_header, hq_body = json_text (JObj [(''content'', JStr content)])\<rparr>
       in (Some call, post_result quote ''discord'' (\<lambda>b. scrub_url b url) url (http call)))"

definition mattermost_post ::
  "(string \<Rightarrow> string) \<Rightarrow> (http_call \<Rightarrow> http_outcome) \<Rightarrow> string \<Rightarrow> string \<Rightarrow> http_call option \<times> string option" where
  "mattermost_post quote http url text = (if url = [] then (None, Some ''mattermost: webhook URL is empty'')
     else let call = \<lparr>hq_url = url, hq_headers = json_header, hq_body = json_text (JObj [(''text'', JStr text)])\<rparr>
       in (Some call, post_result quote ''mattermost'' (\<lambda>b. scrub_url b url) url (http call)))"

record card =
  ca_type :: string
  ca_context :: string
  ca_summary :: string
  ca_color :: string
  ca_title :: string
  ca_text :: string

definition enc_card :: "card \<Rightarrow> json" where
  "enc_card c = JObj ([(''@type'', JStr (ca_type c)), (''@context'', JStr (ca_context c))]
     @ opt_string ''summary'' (ca_summary c) @ opt_string ''themeColor'' (ca_color c)
     @ opt_string ''title'' (ca_title c) @ [(''text'', JStr (ca_text c))])"

definition teams_post_card ::
  "(string \<Rightarrow> string) \<Rightarrow> (http_call \<Rightarrow> http_outcome) \<Rightarrow> string \<Rightarrow> card \<Rightarrow> http_call option \<times> string option" where
  "teams_post_card quote http url c = (if url = [] then (None, Some ''teams: webhook URL is empty'')
     else let c1 = (if ca_type c = [] then c\<lparr>ca_type := ''MessageCard''\<rparr> else c);
              c2 = (if ca_context c1 = [] then c1\<lparr>ca_context := ''https://schema.org/extensions''\<rparr> else c1);
              call = \<lparr>hq_url = url, hq_headers = json_header, hq_body = json_text (enc_card c2)\<rparr>
       in (Some call, post_result quote ''teams'' (\<lambda>b. scrub_url b url) url (http call)))"

record post_options =
  po_title :: string
  po_priority :: int
  po_tags :: string

definition ntfy_post ::
  "(string \<Rightarrow> string) \<Rightarrow> (http_call \<Rightarrow> http_outcome) \<Rightarrow> string \<Rightarrow> string \<Rightarrow> string \<Rightarrow> post_options
   \<Rightarrow> http_call option \<times> string option" where
  "ntfy_post quote http token url message opt = (if url = [] then (None, Some ''ntfy: topic URL is empty'')
     else let call = \<lparr>hq_url = url,
            hq_headers = [(''Content-Type'', ''text/plain; charset=utf-8'')]
              @ (if po_title opt = [] then [] else [(''Title'', po_title opt)])
              @ (if 1 \<le> po_priority opt \<and> po_priority opt \<le> 5 then [(''Priority'', int_text (po_priority opt))] else [])
              @ (if po_tags opt = [] then [] else [(''Tags'', po_tags opt)])
              @ (if token = [] then [] else [(''Authorization'', ''Bearer '' @ token)]),
            hq_body = message\<rparr>
       in (Some call, post_result quote ''ntfy'' (\<lambda>b. b) url (http call)))"

subsection \<open>Telegram\<close>

record telegram_client =
  tc_token :: string
  tc_endpoint :: string

definition DefaultEndpoint :: string where "DefaultEndpoint = ''https://api.telegram.org''"

record send_message_request =
  sq_chat :: string
  sq_text :: string
  sq_parse_mode :: string
  sq_silent :: bool
  sq_reply :: int

definition enc_send_message :: "send_message_request \<Rightarrow> json" where
  "enc_send_message q = JObj ([(''chat_id'', JStr (sq_chat q)), (''text'', JStr (sq_text q))]
     @ opt_string ''parse_mode'' (sq_parse_mode q)
     @ (if sq_silent q then [(''disable_notification'', JBool True)] else [])
     @ (if sq_reply q = 0 then [] else [(''reply_to_message_id'', json_int (sq_reply q))]))"

definition telegram_url :: "telegram_client \<Rightarrow> string \<Rightarrow> string" where
  "telegram_url c op =
     (let endpoint = (if tc_endpoint c = [] then DefaultEndpoint else tc_endpoint c)
      in rev (dropWhile (\<lambda>x. x = CHR ''/'') (rev endpoint)) @ ''/bot'' @ tc_token c @ op)"

record api_response = ap_ok :: bool  ap_description :: string

definition dec_api_response :: "json \<Rightarrow> api_response option" where
  "dec_api_response j = dec_struct (\<lambda>(k, v) r.
     if key_is ''ok'' k then dec_field dec_bool ap_ok ap_ok_update v r
     else if key_is ''description'' k then dec_field dec_string ap_description ap_description_update v r
     else Some r) j \<lparr>ap_ok = False, ap_description = []\<rparr>"

text \<open>An answer that is not JSON, or not of this shape, counts as delivered.\<close>

definition send_message ::
  "(string \<Rightarrow> string) \<Rightarrow> (http_call \<Rightarrow> http_outcome) \<Rightarrow> telegram_client \<Rightarrow> send_message_request
   \<Rightarrow> http_call option \<times> string option" where
  "send_message quote http c q =
     (if tc_token c = [] then (None, Some ''telegram: BotToken is empty'')
      else if sq_chat q = [] then (None, Some ''telegram: ChatID is empty'')
      else let url = telegram_url c ''/sendMessage'';
               call = \<lparr>hq_url = url, hq_headers = json_header, hq_body = json_text (enc_send_message q)\<rparr>
        in (Some call, (case http call of
             NewRequestFailed e \<Rightarrow> Some (''telegram: new request: '' @ e)
           | DoFailed cause \<Rightarrow> Some (''telegram: send: '' @ url_error_text quote url cause)
           | Answered status body \<Rightarrow>
               if status div 100 \<noteq> 2
               then Some (''telegram: HTTP '' @ int_text status @ '': '' @ scrub_token body (tc_token c))
               else (case Option.bind (json_unmarshal body) dec_api_response of
                   None \<Rightarrow> None
                 | Some a \<Rightarrow> if ap_ok a then None else Some (''telegram: api: '' @ ap_description a)))))"

record telegram_message =
  tm_id :: int
  tm_chat :: int
  tm_text :: string

record telegram_update =
  tu_id :: int
  tu_message :: "telegram_message option"
  tu_post :: "telegram_message option"

definition zero_message :: telegram_message where "zero_message = \<lparr>tm_id = 0, tm_chat = 0, tm_text = []\<rparr>"
definition zero_update :: telegram_update where "zero_update = \<lparr>tu_id = 0, tu_message = None, tu_post = None\<rparr>"

text \<open>Of a chat only its identifier is used; its type is read and must be a string.\<close>

definition dec_chat :: "json \<Rightarrow> int \<Rightarrow> int option" where
  "dec_chat = dec_struct (\<lambda>(k, v) i.
     if key_is ''id'' k then dec_int64 v i
     else if key_is ''type'' k then map_option (\<lambda>_. i) (dec_string v []) else Some i)"

definition dec_message :: "json \<Rightarrow> telegram_message \<Rightarrow> telegram_message option" where
  "dec_message = dec_struct (\<lambda>(k, v) r.
     if key_is ''message_id'' k then dec_field dec_int64 tm_id tm_id_update v r
     else if key_is ''chat'' k then dec_field dec_chat tm_chat tm_chat_update v r
     else if key_is ''text'' k then dec_field dec_string tm_text tm_text_update v r
     else Some r)"

definition dec_update :: "json \<Rightarrow> telegram_update \<Rightarrow> telegram_update option" where
  "dec_update = dec_struct (\<lambda>(k, v) r.
     if key_is ''update_id'' k then dec_field dec_int64 tu_id tu_id_update v r
     else if key_is ''message'' k then dec_field (dec_ptr dec_message zero_message) tu_message tu_message_update v r
     else if key_is ''channel_post'' k then dec_field (dec_ptr dec_message zero_message) tu_post tu_post_update v r
     else Some r)"

text \<open>An array read into a slice: what the slice held is read into, element by element.\<close>

fun dec_elems :: "(json \<Rightarrow> 'a \<Rightarrow> 'a option) \<Rightarrow> 'a \<Rightarrow> 'a list \<Rightarrow> json list \<Rightarrow> 'a list option" where
  "dec_elems dec zero old [] = Some []"
| "dec_elems dec zero old (j # js) =
     (case (dec j (case old of [] \<Rightarrow> zero | x # _ \<Rightarrow> x), dec_elems dec zero (tl old) js) of
        (Some x, Some xs) \<Rightarrow> Some (x # xs) | _ \<Rightarrow> None)"

definition dec_updates :: "json \<Rightarrow> telegram_update list \<Rightarrow> telegram_update list option" where
  "dec_updates j old = (case j of JArr js \<Rightarrow> dec_elems dec_update zero_update old js | JNull \<Rightarrow> Some [] | _ \<Rightarrow> None)"

record updates_response = up_ok :: bool  up_description :: string  up_result :: "telegram_update list"

definition dec_updates_response :: "json \<Rightarrow> updates_response option" where
  "dec_updates_response j = dec_struct (\<lambda>(k, v) r.
     if key_is ''ok'' k then dec_field dec_bool up_ok up_ok_update v r
     else if key_is ''description'' k then dec_field dec_string up_description up_description_update v r
     else if key_is ''result'' k then dec_field dec_updates up_result up_result_update v r
     else Some r) j \<lparr>up_ok = False, up_description = [], up_result = []\<rparr>"

record get_updates_request = gq_offset :: int  gq_timeout :: int  gq_allowed :: "string list"

definition enc_get_updates :: "get_updates_request \<Rightarrow> json" where
  "enc_get_updates q = JObj ((if gq_offset q = 0 then [] else [(''offset'', json_int (gq_offset q))])
     @ (if gq_timeout q = 0 then [] else [(''timeout'', json_int (gq_timeout q))])
     @ opt_strings ''allowed_updates'' (gq_allowed q))"

text \<open>The text of a decoding error ends with the decoder's own words, which are left out.\<close>

definition get_updates ::
  "(string \<Rightarrow> string) \<Rightarrow> (http_call \<Rightarrow> http_outcome) \<Rightarrow> telegram_client \<Rightarrow> get_updates_request
   \<Rightarrow> http_call option \<times> (string + telegram_update list)" where
  "get_updates quote http c q =
     (if tc_token c = [] then (None, Inl ''telegram: BotToken is empty'')
      else let url = telegram_url c ''/getUpdates'';
               call = \<lparr>hq_url = url, hq_headers = json_header, hq_body = json_text (enc_get_updates q)\<rparr>
        in (Some call, (case http call of
             NewRequestFailed e \<Rightarrow> Inl (''telegram: new request: '' @ e)
           | DoFailed cause \<Rightarrow> Inl (''telegram: getUpdates: '' @ url_error_text quote url cause)
           | Answered status body \<Rightarrow>
               if status div 100 \<noteq> 2
               then Inl (''telegram: HTTP '' @ int_text status @ '': '' @ scrub_token body (tc_token c))
               else (case Option.bind (json_unmarshal body) dec_updates_response of
                   None \<Rightarrow> Inl ''telegram: decode getUpdates''
                 | Some a \<Rightarrow> if up_ok a then Inr (up_result a) else Inl (''telegram: api: '' @ up_description a)))))"

end
