(* ===== verification/Notifier_Sinks.thy ===== *)
theory Notifier_Sinks
  imports Notifier_Telegram Notifier_Clients "HOL-Library.Product_Lexorder"
begin

text \<open>
  internal/notifier/periodic.go and sink_*.go: routing, grouping, the digest that keeps an unchanged
  summary from being sent again, and the six sinks. Their Go types have the same fields and methods,
  one per service; here they share the record \<open>sink\<close>, whose \<open>sk_kind\<close> says which code a method runs.
\<close>

subsection \<open>Digests\<close>

definition enc_digest_usage :: "usage_window \<Rightarrow> json" where
  "enc_digest_usage w = JObj (opt_string ''label'' (uw_label w) @ opt_string ''remaining_pct'' (format_fixed 3 (uw_remaining w))
     @ opt_string ''reset_at'' (if is_zero_time (uw_reset w) then [] else time_text (uw_reset w)))"

definition digest_account :: "truth_record \<Rightarrow> string" where
  "digest_account r = (let s = parse_summary (tr_summary r) in
     if extra s ''account_id'' \<noteq> [] then extra s ''account_id''
     else if tr_account r \<noteq> [] then tr_account r else rs_identity s)"

definition enc_digest_record :: "report_record \<Rightarrow> json" where
  "enc_digest_record rec = (let r = rr_truth rec; s = parse_summary (tr_summary r) in
     JObj ([(''profile'', JStr (tr_profile r))]
       @ (if tr_no_truth r then [(''no_truth'', JBool True)] else [])
       @ [(''account_id'', JStr (digest_account r)), (''fingerprint'', JStr (tr_fingerprint r))]
       @ opt_strings ''nodes'' (normalized_nodes r)
       @ opt_string ''valid_until'' (if is_zero_time (rs_expires s) then [] else time_text (rs_expires s))
       @ opt_string ''last_refresh'' (case parse_summary_time (extra s ''last_refresh'') of None \<Rightarrow> [] | Some ts \<Rightarrow> time_text ts)
       @ (if ur_windows (rr_usage rec) = [] then [] else [(''usage'', JArr (map enc_digest_usage (ur_windows (rr_usage rec))))])))"

definition periodic_digest :: "report_record list \<Rightarrow> string" where
  "periodic_digest recs = json_text (JArr (map enc_digest_record recs))"

subsection \<open>Routes\<close>

text \<open>An empty profile or account of a route stands for any.\<close>

record sink_route =
  ro_profile :: string
  ro_account :: string
  ro_dest :: string

definition route_matches :: "string \<Rightarrow> string \<Rightarrow> sink_route \<Rightarrow> bool" where
  "route_matches profile account r =
     ((ro_profile r = [] \<or> ro_profile r = profile) \<and> (ro_account r = [] \<or> ro_account r = account))"

datatype sink_kind = SinkTelegram | SinkSlack | SinkDiscord | SinkMattermost | SinkNtfy | SinkTeams

record sink =
  sk_kind :: sink_kind
  sk_routes :: "sink_route list"
  sk_default :: string
  sk_silent :: bool
  sk_token :: string
  sk_endpoint :: string
  sk_priority :: int
  sk_tags :: string
  sk_color :: string
  sk_last :: "(string, string) gomap"

fun sink_name :: "sink_kind \<Rightarrow> string" where
  "sink_name SinkTelegram = ''telegram''"
| "sink_name SinkSlack = ''slack''"
| "sink_name SinkDiscord = ''discord''"
| "sink_name SinkMattermost = ''mattermost''"
| "sink_name SinkNtfy = ''ntfy''"
| "sink_name SinkTeams = ''teams''"

fun first_route :: "string \<Rightarrow> string \<Rightarrow> string \<Rightarrow> sink_route list \<Rightarrow> string" where
  "first_route dflt profile account [] = dflt"
| "first_route dflt profile account (r # rs) =
     (if route_matches profile account r then ro_dest r else first_route dflt profile account rs)"

definition route_for :: "sink \<Rightarrow> string \<Rightarrow> string \<Rightarrow> string" where
  "route_for s profile account = first_route (sk_default s) profile account (sk_routes s)"

subsection \<open>Grouping\<close>

text \<open>Records that agree in all that is compared keep their order here; the code's sort may swap them.\<close>

definition add_to_group :: "('r \<Rightarrow> string) \<Rightarrow> (string, 'r list) gomap \<Rightarrow> 'r \<Rightarrow> (string, 'r list) gomap" where
  "add_to_group dest_of m r = (let dest = dest_of r in
     if dest = [] then m else mput dest ((case map_of m dest of None \<Rightarrow> [] | Some rs \<Rightarrow> rs) @ [r]) m)"

definition group_by :: "('r \<Rightarrow> string) \<Rightarrow> 'r list \<Rightarrow> (string, 'r list) gomap" where
  "group_by dest_of rs = foldl (add_to_group dest_of) [] rs"

definition record_key :: "report_record \<Rightarrow> string \<times> string \<times> string" where
  "record_key rec = (tr_profile (rr_truth rec), tr_account (rr_truth rec), tr_fingerprint (rr_truth rec))"

definition record_dest :: "(string \<Rightarrow> string \<Rightarrow> string) \<Rightarrow> report_record \<Rightarrow> string" where
  "record_dest route rec = route (tr_profile (rr_truth rec)) (tr_account (rr_truth rec))"

definition group_periodic_records ::
  "report_record list \<Rightarrow> (string \<Rightarrow> string \<Rightarrow> string) \<Rightarrow> (string, report_record list) gomap" where
  "group_periodic_records recs route =
     map (\<lambda>(d, rs). (d, sort_key record_key rs)) (group_by (record_dest route) recs)"

definition group_session_events ::
  "truth_record list \<Rightarrow> (string \<Rightarrow> string \<Rightarrow> string) \<Rightarrow> (string, truth_record list) gomap" where
  "group_session_events es route =
     map (\<lambda>(d, rs). (d, sort_key (\<lambda>e. (tr_profile e, tr_node e)) rs))
       (group_by (\<lambda>e. route (tr_profile e) (tr_account e)) es)"

definition sorted_group_keys :: "(string, 'r list) gomap \<Rightarrow> string list" where
  "sorted_group_keys groups = sort (map fst groups)"

subsection \<open>Sending\<close>

text \<open>\<open>sn_http\<close> is what the HTTP library answers to a call made now.\<close>

record send_env =
  sn_render :: render_env
  sn_http :: "http_call \<Rightarrow> http_outcome"

type_synonym sent = "http_call option \<times> string option"

definition telegram_of :: "sink \<Rightarrow> telegram_client" where
  "telegram_of s = \<lparr>tc_token = sk_token s, tc_endpoint = sk_endpoint s\<rparr>"

text \<open>What every service is handed: the destination, a title and the text.\<close>

definition deliver_to :: "send_env \<Rightarrow> sink \<Rightarrow> string \<Rightarrow> string \<Rightarrow> string \<Rightarrow> sent" where
  "deliver_to env s dest title text =
     (let q = rn_quote (sn_render env); http = sn_http env in
      case sk_kind s of
        SinkTelegram \<Rightarrow> send_message q http (telegram_of s)
          \<lparr>sq_chat = dest, sq_text = text, sq_parse_mode = ''HTML'', sq_silent = sk_silent s, sq_reply = 0\<rparr>
      | SinkSlack \<Rightarrow> slack_post_message q http dest text
      | SinkDiscord \<Rightarrow> discord_post q http dest text
      | SinkMattermost \<Rightarrow> mattermost_post q http dest text
      | SinkNtfy \<Rightarrow> ntfy_post q http (sk_token s) dest text
          \<lparr>po_title = title, po_priority = sk_priority s, po_tags = sk_tags s\<rparr>
      | SinkTeams \<Rightarrow> teams_post_card q http dest
          \<lparr>ca_type = [], ca_context = [], ca_summary = title, ca_color = sk_color s, ca_title = title, ca_text = text\<rparr>)"

fun event_text :: "sink_kind \<Rightarrow> render_env \<Rightarrow> truth_record \<Rightarrow> usage_report \<Rightarrow> string" where
  "event_text SinkTelegram env r u = render_telegram env r u"
| "event_text SinkSlack env r u = render_rich_text env mrkdwn_markup r u"
| "event_text SinkDiscord env r u = render_rich_text env markdown_markup r u"
| "event_text SinkMattermost env r u = render_rich_text env mrkdwn_markup r u"
| "event_text SinkNtfy env r u = render_rich_text env plain_markup r u"
| "event_text SinkTeams env r u = render_rich_text env teams_markup r u"

fun periodic_text :: "sink_kind \<Rightarrow> render_env \<Rightarrow> report_record list \<Rightarrow> string" where
  "periodic_text SinkTelegram env rs = render_periodic_telegram env rs"
| "periodic_text SinkSlack env rs = render_periodic_rich env mrkdwn_markup rs"
| "periodic_text SinkDiscord env rs = render_periodic_rich env markdown_markup rs"
| "periodic_text SinkMattermost env rs = render_periodic_rich env mrkdwn_markup rs"
| "periodic_text SinkNtfy env rs = render_periodic_rich env plain_markup rs"
| "periodic_text SinkTeams env rs = render_periodic_rich env teams_markup rs"

fun session_batch_text :: "sink_kind \<Rightarrow> truth_record list \<Rightarrow> string" where
  "session_batch_text SinkTelegram es = render_session_batch_telegram es"
| "session_batch_text SinkSlack es = render_session_batch_mrkdwn es"
| "session_batch_text SinkDiscord es = render_session_batch_markdown es"
| "session_batch_text SinkMattermost es = render_session_batch_mrkdwn es"
| "session_batch_text SinkNtfy es = render_session_batch_plain es"
| "session_batch_text SinkTeams es = render_session_batch_teams es"

text \<open>\<open>Notify\<close>: whether a route matched, what was sent, and the error.\<close>

definition notify :: "send_env \<Rightarrow> sink \<Rightarrow> truth_record \<Rightarrow> usage_report \<Rightarrow> bool \<times> sent" where
  "notify env s r u = (let dest = route_for s (tr_profile r) (tr_account r) in
     if dest = [] then (False, None, None)
     else (True, deliver_to env s dest (rv_title (build_view (sn_render env) r u)) (event_text (sk_kind s) (sn_render env) r u)))"

definition unchanged :: "sink \<Rightarrow> string \<Rightarrow> string \<Rightarrow> bool" where
  "unchanged s dest body = ((case map_of (sk_last s) dest of None \<Rightarrow> [] | Some b \<Rightarrow> b) = body)"

definition remember :: "string \<Rightarrow> string \<Rightarrow> sink \<Rightarrow> sink" where
  "remember dest body s = s\<lparr>sk_last := mput dest body (sk_last s)\<rparr>"

text \<open>\<open>NotifyPeriodic\<close>: the first error ends it; what was sent before is remembered.\<close>

fun periodic_loop ::
  "send_env \<Rightarrow> (string, report_record list) gomap \<Rightarrow> string list \<Rightarrow> sink \<Rightarrow> http_call list \<times> string option \<times> sink" where
  "periodic_loop env groups [] s = ([], None, s)"
| "periodic_loop env groups (dest # dests) s =
     (let recs = (case map_of groups dest of None \<Rightarrow> [] | Some rs \<Rightarrow> rs); signature = periodic_digest recs in
      if unchanged s dest signature then periodic_loop env groups dests s
      else (case deliver_to env s dest ''Auth State'' (periodic_text (sk_kind s) (sn_render env) recs) of
          (call, Some e) \<Rightarrow> (case call of None \<Rightarrow> [] | Some c \<Rightarrow> [c], Some e, s)
        | (call, None) \<Rightarrow> (case periodic_loop env groups dests (remember dest signature s) of
            (calls, e, s') \<Rightarrow> ((case call of None \<Rightarrow> [] | Some c \<Rightarrow> [c]) @ calls, e, s'))))"

definition notify_periodic ::
  "send_env \<Rightarrow> report_record list \<Rightarrow> sink \<Rightarrow> http_call list \<times> string option \<times> sink" where
  "notify_periodic env recs s = (let groups = group_periodic_records recs (route_for s)
     in periodic_loop env groups (sorted_group_keys groups) s)"

fun session_loop ::
  "send_env \<Rightarrow> (string, truth_record list) gomap \<Rightarrow> string list \<Rightarrow> sink \<Rightarrow> http_call list \<times> string option" where
  "session_loop env groups [] s = ([], None)"
| "session_loop env groups (dest # dests) s =
     (let es = (case map_of groups dest of None \<Rightarrow> [] | Some rs \<Rightarrow> rs) in
      case deliver_to env s dest (bv_title (build_session_batch_view es)) (session_batch_text (sk_kind s) es) of
        (call, Some e) \<Rightarrow> (case call of None \<Rightarrow> [] | Some c \<Rightarrow> [c], Some e)
      | (call, None) \<Rightarrow> (case session_loop env groups dests s of
          (calls, e) \<Rightarrow> ((case call of None \<Rightarrow> [] | Some c \<Rightarrow> [c]) @ calls, e)))"

definition notify_session_batch :: "send_env \<Rightarrow> truth_record list \<Rightarrow> sink \<Rightarrow> http_call list \<times> string option" where
  "notify_session_batch env es s = (let groups = group_session_events es (route_for s)
     in session_loop env groups (sorted_group_keys groups) s)"

end
