(* ===== verification/Notifier.thy ===== *)
theory Notifier
  imports Notifier_Sinks Hub
begin

text \<open>
  internal/notifier/notifier.go: the reporter. Its clock, the truths it polls, the formats it knows and
  what their usage probes answer are parameters; the loop of \<open>Run\<close> is one function per branch of its
  \<open>select\<close>. Every sink of the repository is a \<open>PeriodicSink\<close> and a \<open>SessionEventSink\<close>, so the branches
  for other sinks are not taken. Timers of the session buffer fire as calls of \<open>flush_session_event\<close>.
\<close>

definition startupRetryInterval :: duration where "startupRetryInterval = seconds 15"
definition DefaultStartupEventGrace :: duration where "DefaultStartupEventGrace = minutes 1"
definition sessionEventDebounce :: duration where "sessionEventDebounce = seconds 5"
definition sessionEventDuplicateWindow :: duration where "sessionEventDuplicateWindow = seconds 30"

record pending_event =
  pe_record :: truth_record
  pe_nodes :: "string list"
  pe_connected :: bool
  pe_disconnected :: bool

record pending_batch =
  pb_due :: gotime
  pb_events :: "(string, pending_event) gomap"
  pb_last :: string
  pb_connected :: bool
  pb_disconnected :: bool

record recent_batch =
  rb_digest :: string
  rb_at :: gotime

record notifier_settings =
  nc_interval :: duration
  nc_probe_timeout :: duration
  nc_grace :: duration

record notifier =
  no_cfg :: notifier_settings
  no_sinks :: "sink list"
  no_started :: gotime
  no_recent :: "(string, recent_batch) gomap"
  no_wait :: "(string, pending_batch) gomap"

record notifier_env =
  ne_send :: send_env
  ne_now :: gotime
  ne_formats :: "string \<Rightarrow> format_ops option"
  ne_probe :: "format_ops \<Rightarrow> (snapshot \<Rightarrow> duration \<Rightarrow> gerr + usage_report) option"

definition new_notifier :: "notifier_settings \<Rightarrow> sink list \<Rightarrow> gotime \<Rightarrow> notifier" where
  "new_notifier cfg sinks now =
     (let c1 = (if nc_probe_timeout cfg \<le> 0 then cfg\<lparr>nc_probe_timeout := seconds 8\<rparr> else cfg);
          c2 = (if nc_interval c1 < hours 1 then c1\<lparr>nc_interval := hours 1\<rparr> else c1)
      in \<lparr>no_cfg = c2, no_sinks = sinks, no_started = now, no_recent = [], no_wait = []\<rparr>)"

subsection \<open>Guards\<close>

definition suppress_startup_event :: "gotime \<Rightarrow> notifier \<Rightarrow> truth_record \<Rightarrow> bool" where
  "suppress_startup_event now n r =
     (0 < nc_grace (no_cfg n) \<and> (is_session_event r \<or> is_truth_state_event r \<or> is_propagation_event r)
      \<and> time_sub now (no_started n) < nc_grace (no_cfg n))"

definition has_usage_signal :: "usage_report \<Rightarrow> bool" where
  "has_usage_signal u =
     (ur_windows u \<noteq> [] \<or> ur_plan u \<noteq> [] \<or> ur_unit u \<noteq> [] \<or> ur_notes u \<noteq> [] \<or> \<not> is_zero_time (ur_reset u)
      \<or> ur_limit u > 0 \<or> ur_used u > 0 \<or> ur_remaining u > 0)"

definition periodic_not_ready :: "truth_record list \<Rightarrow> bool" where
  "periodic_not_ready rs = list_all (\<lambda>r. tr_no_truth r \<and> normalized_nodes r = []) rs"

subsection \<open>Probing\<close>

definition decode_snapshot :: "format_ops \<Rightarrow> string \<Rightarrow> gerr + snapshot" where
  "decode_snapshot f raw_b64 = (if raw_b64 = [] then Inl (Errorf ''empty raw_b64'' [] None)
     else case std_decode raw_b64 of None \<Rightarrow> Inl (Ext ''encoding/base64'') | Some raw \<Rightarrow> f_parse f raw)"

definition usage_probe ::
  "(string \<Rightarrow> format_ops option) \<Rightarrow> (format_ops \<Rightarrow> (snapshot \<Rightarrow> duration \<Rightarrow> gerr + usage_report) option)
   \<Rightarrow> duration \<Rightarrow> truth_record \<Rightarrow> usage_report" where
  "usage_probe formats probes limit r =
     (if is_session_event r \<or> tr_no_truth r \<or> tr_raw_b64 r = [] then zero_usage
      else case formats (tr_format r) of
        None \<Rightarrow> zero_usage
      | Some f \<Rightarrow> (case probes f of
          None \<Rightarrow> zero_usage
        | Some probe \<Rightarrow> (case decode_snapshot f (tr_raw_b64 r) of
            Inl _ \<Rightarrow> zero_usage
          | Inr snap \<Rightarrow> (case probe snap limit of Inl _ \<Rightarrow> zero_usage | Inr rep \<Rightarrow> rep))))"

definition probe :: "notifier_env \<Rightarrow> notifier \<Rightarrow> truth_record \<Rightarrow> usage_report" where
  "probe env n r = usage_probe (ne_formats env) (ne_probe env) (nc_probe_timeout (no_cfg n)) r"

subsection \<open>Events and periods\<close>

text \<open>What each sink sent, with its errors, which are only logged.\<close>

definition emit :: "notifier_env \<Rightarrow> truth_record \<Rightarrow> notifier \<Rightarrow> (bool \<times> sent) list" where
  "emit env r n =
     (if suppress_startup_event (ne_now env) n r then []
      else if is_session_event r then []
      else let usage = probe env n r in
        if is_propagation_event r \<and> \<not> has_usage_signal usage then []
        else map (\<lambda>s. notify (ne_send env) s r usage) (no_sinks n))"

definition run_once :: "notifier_env \<Rightarrow> truth_record list \<Rightarrow> notifier \<Rightarrow> bool \<times> http_call list \<times> notifier" where
  "run_once env records n =
     (if records = [] then (False, [], n)
      else if periodic_not_ready records then (False, [], n)
      else let items = map (\<lambda>r. \<lparr>rr_truth = r, rr_usage = probe env n r\<rparr>) records;
               results = map (notify_periodic (ne_send env) items) (no_sinks n)
        in (True, concat (map fst results), n\<lparr>no_sinks := map (\<lambda>x. snd (snd x)) results\<rparr>))"

text \<open>\<open>Run\<close>: a first round, then a round per event. The retry ticker does nothing once a round was ready;
  the interval ticker always runs one.\<close>

datatype notifier_tick = RetryTick | IntervalTick

definition run_start :: "notifier_env \<Rightarrow> truth_record list \<Rightarrow> notifier \<Rightarrow> bool \<times> http_call list \<times> notifier" where
  "run_start env records n = run_once env records n"

definition run_tick ::
  "notifier_env \<Rightarrow> truth_record list \<Rightarrow> notifier_tick \<Rightarrow> bool \<Rightarrow> notifier \<Rightarrow> bool \<times> http_call list \<times> notifier" where
  "run_tick env records t ready n = (case t of
     RetryTick \<Rightarrow> if ready then (True, [], n) else run_once env records n
   | IntervalTick \<Rightarrow> (case run_once env records n of (_, calls, n') \<Rightarrow> (True, calls, n')))"

subsection \<open>The buffer of session events\<close>

definition session_event_group_key :: "truth_record \<Rightarrow> string" where
  "session_event_group_key r = join_with ''|'' [tr_node r, tr_peer r, tr_mode r]"

definition add_names :: "string list \<Rightarrow> string list \<Rightarrow> string list" where
  "add_names old new = foldl (\<lambda>acc x. if x \<in> set acc then acc else acc @ [x]) old new"

definition pending_event_of :: "truth_record \<Rightarrow> pending_event option \<Rightarrow> pending_event" where
  "pending_event_of r old =
     (let e = (case old of None \<Rightarrow> \<lparr>pe_record = r, pe_nodes = [], pe_connected = False, pe_disconnected = False\<rparr> | Some e \<Rightarrow> e);
          kind = tr_event r
      in e\<lparr>pe_record := r,
           pe_connected := pe_connected e \<or> kind = EventSessionConnected \<or> kind = EventSessionReconnected,
           pe_disconnected := pe_disconnected e \<or> kind = EventSessionDisconnected \<or> kind = EventSessionReconnected,
           pe_nodes := add_names (pe_nodes e) (normalized_nodes r)\<rparr>)"

definition buffer_session_event :: "gotime \<Rightarrow> truth_record \<Rightarrow> notifier \<Rightarrow> notifier" where
  "buffer_session_event now r n =
     (let key = session_event_group_key r;
          b = (case map_of (no_wait n) key of
            None \<Rightarrow> \<lparr>pb_due = now, pb_events = [], pb_last = tr_event r, pb_connected = False, pb_disconnected = False\<rparr>
          | Some b \<Rightarrow> b);
          b' = b\<lparr>pb_due := time_add now sessionEventDebounce, pb_last := tr_event r,
                 pb_connected := pb_connected b \<or> tr_event r = EventSessionConnected,
                 pb_disconnected := pb_disconnected b \<or> tr_event r = EventSessionDisconnected,
                 pb_events := mput (tr_profile r) (pending_event_of r (map_of (pb_events b) (tr_profile r))) (pb_events b)\<rparr>
      in n\<lparr>no_wait := mput key b' (no_wait n)\<rparr>)"

definition sorted_session_nodes :: "string list \<Rightarrow> string list \<Rightarrow> string list" where
  "sorted_session_nodes nodes fallback =
     (if nodes = [] then normalized_nodes (zero_record\<lparr>tr_nodes := fallback\<rparr>)
      else sort_compact (filter (\<lambda>s. s \<noteq> []) (map trim_space nodes)))"

definition final_kind :: "pending_batch \<Rightarrow> string" where
  "final_kind b = (if pb_connected b \<and> pb_disconnected b \<and> pb_last b = EventSessionConnected
     then EventSessionReconnected else pb_last b)"

definition flushed_event :: "string \<Rightarrow> pending_event \<Rightarrow> truth_record" where
  "flushed_event kind e = (let r = (pe_record e)\<lparr>tr_event := kind\<rparr> in
     if kind = EventSessionConnected \<or> kind = EventSessionReconnected
     then r\<lparr>tr_nodes := sorted_session_nodes (pe_nodes e) (tr_nodes r)\<rparr>
     else if kind = EventSessionDisconnected then r\<lparr>tr_nodes := normalized_nodes r\<rparr> else r)"

definition flushed_events :: "pending_batch \<Rightarrow> truth_record list" where
  "flushed_events b = sort_key tr_profile (map (\<lambda>(_, e). flushed_event (final_kind b) e) (pb_events b))"

definition enc_session_item :: "truth_record \<Rightarrow> json" where
  "enc_session_item e = JObj ([(''event_kind'', JStr (tr_event e)), (''node_id'', JStr (tr_node e))]
     @ opt_string ''peer_cn'' (tr_peer e) @ opt_string ''auth_mode'' (tr_mode e)
     @ [(''profile'', JStr (tr_profile e)), (''format'', JStr (tr_format e))]
     @ opt_strings ''nodes'' (normalized_nodes e))"

definition session_event_digest :: "truth_record list \<Rightarrow> string" where
  "session_event_digest es = json_text (JArr (map enc_session_item es))"

definition is_duplicate_batch :: "gotime \<Rightarrow> string \<Rightarrow> string \<Rightarrow> notifier \<Rightarrow> bool" where
  "is_duplicate_batch now key digest n = (case map_of (no_recent n) key of
     None \<Rightarrow> False
   | Some p \<Rightarrow> rb_digest p = digest \<and> time_sub now (rb_at p) < sessionEventDuplicateWindow)"

definition flush_session_event ::
  "notifier_env \<Rightarrow> string \<Rightarrow> notifier \<Rightarrow> (http_call list \<times> string option) list \<times> notifier" where
  "flush_session_event env key n = (case map_of (no_wait n) key of
     None \<Rightarrow> ([], n)
   | Some b \<Rightarrow>
       let n1 = n\<lparr>no_wait := mdel key (no_wait n)\<rparr>; events = flushed_events b; digest = session_event_digest events in
       if is_duplicate_batch (ne_now env) key digest n1 then ([], n1)
       else (map (notify_session_batch (ne_send env) events) (no_sinks n),
             n1\<lparr>no_recent := mput key \<lparr>rb_digest = digest, rb_at = ne_now env\<rparr> (no_recent n1)\<rparr>))"

end
