(* ===== verification/Notifier_Commands.thy ===== *)
theory Notifier_Commands
  imports Notifier Logging
begin

text \<open>
  internal/notifier/telegram_commands.go: the poller that answers commands in Telegram chats. What
  \<open>GetUpdates\<close> and \<open>SendMessage\<close> meet is the HTTP parameter, the truths are given as before and after the
  wait that follows a refresh.
\<close>

record command_config =
  mc_routes :: "sink_route list"
  mc_default_chat :: string
  mc_probe_timeout :: duration

record command_poller =
  cp_cfg :: command_config
  cp_client :: telegram_client

record command_env =
  ce_send :: send_env
  ce_formats :: "string \<Rightarrow> format_ops option"
  ce_probe :: "format_ops \<Rightarrow> (snapshot \<Rightarrow> duration \<Rightarrow> gerr + usage_report) option"
  ce_truths :: "truth_record list"
  ce_refresh :: "(string \<Rightarrow> gerr option) option"
  ce_cancelled :: bool
  ce_truths_after :: "truth_record list"

definition telegramCommandPollTimeout :: int where "telegramCommandPollTimeout = 25"
definition telegramCommandRefreshWait :: duration where "telegramCommandRefreshWait = milliseconds 1200"
definition telegramCommandRetryDelay :: duration where "telegramCommandRetryDelay = seconds 5"

definition new_command_poller :: "command_config \<Rightarrow> telegram_client \<Rightarrow> command_poller" where
  "new_command_poller cfg client = \<lparr>cp_cfg = (if mc_probe_timeout cfg \<le> 0
     then cfg\<lparr>mc_probe_timeout := seconds 8\<rparr> else cfg), cp_client = client\<rparr>"

definition chat_allowed :: "command_poller \<Rightarrow> string \<Rightarrow> bool" where
  "chat_allowed p chat = (trim_space (mc_default_chat (cp_cfg p)) = chat
     \<or> list_ex (\<lambda>r. trim_space (ro_dest r) = chat) (mc_routes (cp_cfg p)))"

definition parse_telegram_command :: "(string \<Rightarrow> string) \<Rightarrow> string \<Rightarrow> string option" where
  "parse_telegram_command lower text = (case str_fields (trim_space text) of
     [] \<Rightarrow> None
   | f # _ \<Rightarrow> if \<not> has_prefix f ''/'' then None
       else let cmd = to_lower lower (trim_space (takeWhile (\<lambda>c. c \<noteq> CHR ''@'') (trim_prefix f ''/'')))
         in if cmd = [] then None else Some cmd)"

definition profile_names :: "truth_record list \<Rightarrow> string list" where
  "profile_names rs = sort_compact (filter (\<lambda>n. n \<noteq> []) (map tr_profile rs))"

definition filter_profile_records :: "truth_record list \<Rightarrow> string \<Rightarrow> truth_record list" where
  "filter_profile_records rs profile = filter (\<lambda>r. tr_profile r = profile) rs"

definition telegram_command_help :: "string list \<Rightarrow> string" where
  "telegram_command_help profiles = join_with [new_line] (
     [''<b>Pangaea Commands</b>'',
      ''<pre>'' @ html_escape (''Use /<profile> to retrieve current auth state.'' @ [new_line] @ ''Use /status to retrieve all profiles.'') @ ''</pre>'']
     @ (if profiles = [] then [] else [''<pre>'' @ html_escape (''Profiles: '' @ join_with '', '' profiles) @ ''</pre>'']))"

definition telegram_error :: "string \<Rightarrow> string" where
  "telegram_error msg = ''<b>Pangaea Error</b>'' @ [new_line] @ ''<pre>'' @ html_escape msg @ ''</pre>''"

definition command_probe :: "command_env \<Rightarrow> command_poller \<Rightarrow> truth_record \<Rightarrow> usage_report" where
  "command_probe env p r = usage_probe (ce_formats env) (ce_probe env) (mc_probe_timeout (cp_cfg p)) r"

definition render_records :: "command_env \<Rightarrow> command_poller \<Rightarrow> truth_record list \<Rightarrow> string" where
  "render_records env p rs = render_periodic_telegram (sn_render (ce_send env))
     (map (\<lambda>r. \<lparr>rr_truth = r, rr_usage = command_probe env p r\<rparr>) rs)"

definition command_response :: "command_env \<Rightarrow> command_poller \<Rightarrow> string \<Rightarrow> string" where
  "command_response env p cmd =
     (let records = ce_truths env; profiles = profile_names records in
      if cmd = ''help'' then telegram_command_help profiles
      else if cmd = ''status'' then render_records env p records
      else if cmd \<notin> set profiles then
        telegram_error (''Unknown profile '' @ go_quote (rn_quote (sn_render (ce_send env))) cmd @ ''.'' @ [new_line]
          @ ''Available profiles: '' @ join_with '', '' profiles)
      else if ce_refresh env \<noteq> None \<and> ce_cancelled env then []
      else
        let now = (if ce_refresh env = None then records else ce_truths_after env);
            filtered = filter_profile_records now cmd
        in render_records env p (if filtered = [] then [zero_record\<lparr>tr_profile := cmd, tr_no_truth := True\<rparr>] else filtered))"

text \<open>The request that answers an update, if it is answered.\<close>

definition handle_update :: "command_env \<Rightarrow> command_poller \<Rightarrow> telegram_update \<Rightarrow> sent option" where
  "handle_update env p update = (case (case tu_message update of None \<Rightarrow> tu_post update | Some m \<Rightarrow> Some m) of
     None \<Rightarrow> None
   | Some msg \<Rightarrow>
       let chat = int_text (tm_chat msg) in
       if \<not> chat_allowed p chat then None
       else (case parse_telegram_command (rn_lower (sn_render (ce_send env))) (tm_text msg) of
           None \<Rightarrow> None
         | Some cmd \<Rightarrow>
             let text = command_response env p cmd in
             if text = [] then None
             else Some (send_message (rn_quote (sn_render (ce_send env))) (sn_http (ce_send env)) (cp_client p)
               \<lparr>sq_chat = chat, sq_text = text, sq_parse_mode = ''HTML'', sq_silent = False, sq_reply = tm_id msg\<rparr>)))"

definition next_offset :: "int \<Rightarrow> telegram_update \<Rightarrow> int" where
  "next_offset offset u = (if tu_id u \<ge> offset then wrap64 (tu_id u + 1) else offset)"

text \<open>One round of \<open>Run\<close>: the updates since the offset, answered in their order. An error leaves the
  offset, and the loop waits before the next round.\<close>

definition poll_request :: "int \<Rightarrow> get_updates_request" where
  "poll_request offset = \<lparr>gq_offset = offset, gq_timeout = telegramCommandPollTimeout,
     gq_allowed = [''message'', ''channel_post'']\<rparr>"

definition poll_round ::
  "(nat \<Rightarrow> command_env) \<Rightarrow> send_env \<Rightarrow> command_poller \<Rightarrow> int \<Rightarrow> int \<times> sent option list" where
  "poll_round envs env p offset =
     (case snd (get_updates (rn_quote (sn_render env)) (sn_http env) (cp_client p) (poll_request offset)) of
        Inl _ \<Rightarrow> (offset, [])
      | Inr updates \<Rightarrow> (foldl next_offset offset updates,
          map (\<lambda>(i, u). handle_update (envs i) p u) (enumerate 0 updates)))"

end
