(* ===== verification/Notifier_Secrets.thy ===== *)
theory Notifier_Secrets
  imports Notifier_Commands Logging_Props
begin

text \<open>
  The secrets of the notification services: what an error of a client can say of a bot token or of a
  webhook's secret, and what the log handler leaves of it.
\<close>

definition occurs :: "string \<Rightarrow> string \<Rightarrow> bool" where
  "occurs t s = (\<exists>a b. s = a @ t @ b)"

lemma occurs_middle: "occurs t (a @ t @ b)"
  unfolding occurs_def by blast

lemma occurs_append: "occurs t s \<Longrightarrow> occurs t (a @ s @ b)"
  unfolding occurs_def by (metis append.assoc)

lemma occurs_Cons: "occurs t (c # s) \<longleftrightarrow> (\<exists>b. c # s = t @ b) \<or> occurs t s"
proof
  assume "occurs t (c # s)"
  then obtain a b where "c # s = a @ t @ b" unfolding occurs_def by blast
  then show "(\<exists>b. c # s = t @ b) \<or> occurs t s" unfolding occurs_def by (cases a) auto
next
  assume "(\<exists>b. c # s = t @ b) \<or> occurs t s"
  then show "occurs t (c # s)" unfolding occurs_def by (metis append_Cons append_Nil)
qed

text \<open>A character that the word does not have separates its occurrences.\<close>

lemma occurs_around:
  assumes "c \<notin> set t" "t \<noteq> []" shows "occurs t (x @ c # y) \<Longrightarrow> occurs t x \<or> occurs t y"
proof (induction x)
  case Nil
  then show ?case using assms by (auto simp: occurs_Cons Cons_eq_append_conv)
next
  case (Cons d x)
  then consider "\<exists>b. d # x @ c # y = t @ b" | "occurs t (x @ c # y)" by (auto simp: occurs_Cons)
  then show ?case
  proof cases
    case 1
    then obtain b where b: "(d # x) @ c # y = t @ b" by auto
    then have "length t \<le> length (d # x)"
      using assms(1) by (metis append_eq_append_conv_if in_set_conv_nth linorder_not_le nth_append_length nth_append)
    then obtain r where "d # x = t @ r" using b by (metis append_eq_append_conv_if append_take_drop_id)
    then show ?thesis unfolding occurs_def by (metis append_Nil)
  next
    case 2
    then show ?thesis using Cons.IH occurs_Cons by blast
  qed
qed

definition literal_match :: "string \<Rightarrow> string \<Rightarrow> nat option" where
  "literal_match t s = (case strip_prefix t s of None \<Rightarrow> None | Some _ \<Rightarrow> Some (length t))"

lemma literal_cases:
  "strip_prefix t s = None \<Longrightarrow> literal_match t s = None"
  "strip_prefix t s = Some r \<Longrightarrow> literal_match t s = Some (length t)"
  by (simp_all add: literal_match_def del: strip_prefix_Some)

lemma replace_all_matches:
  "t \<noteq> [] \<Longrightarrow> replace_all t redacted_word s = replace_matches (literal_match t) redactedMark s"
proof (induction s rule: length_induct)
  case (1 s)
  show ?case
  proof (cases s)
    case (Cons c cs)
    show ?thesis
    proof (cases "strip_prefix t s")
      case None
      then show ?thesis using 1 literal_cases(1) [OF None] by (simp add: Cons)
    next
      case (Some r)
      then have r: "c # cs = t @ r" by (simp add: Cons)
      then have d: "drop (length t - 1) cs = r" using 1(2) by (cases t) auto
      have "replace_all t redacted_word r = replace_matches (literal_match t) redactedMark r"
        using 1 r Cons by (metis append_eq_conv_conj length_append length_greater_0_conv less_add_same_cancel2)
      then show ?thesis
        using Some 1(2) d literal_cases(2) [OF Some]
        by (simp add: Cons redacted_word_def redactedMark_def del: strip_prefix_Some)
    qed
  qed simp
qed

lemma replace_all_hides:
  assumes "t \<noteq> []" "CHR ''<'' \<notin> set t" "CHR ''>'' \<notin> set t" "\<not> occurs t ''redacted''"
  shows "\<not> occurs t (replace_matches (literal_match t) redactedMark s)"
proof (induction s rule: length_induct)
  case (1 s)
  let ?R = "replace_matches (literal_match t) redactedMark"
  show ?case
  proof (cases s)
    case Nil
    then show ?thesis using assms(1) by (simp add: occurs_def)
  next
    case (Cons c cs)
    show ?thesis
    proof (cases "strip_prefix t s")
      case None
      have "\<not> occurs t (?R cs)" using 1 Cons by simp
      moreover have "c # ?R cs \<noteq> t @ b" for b
      proof
        assume e: "c # ?R cs = t @ b"
        then obtain t' where t': "t = c # t'" "?R cs = t' @ b" using assms(1) by (cases t) auto
        then obtain r' where "cs = t' @ r'" using kept_prefix [of "literal_match t" cs t' b] assms(2) by auto
        then have "strip_prefix t s = Some r'" by (simp add: Cons t')
        then show False using None by (simp del: strip_prefix_Some)
      qed
      ultimately show ?thesis using literal_cases(1) [OF None] by (simp add: Cons occurs_Cons)
    next
      case (Some r)
      then have r: "c # cs = t @ r" by (simp add: Cons)
      then have d: "drop (length t - 1) cs = r" using assms(1) by (cases t) auto
      have "length r < length s" using r Cons assms(1) by (metis append_eq_conv_conj length_append length_greater_0_conv less_add_same_cancel2)
      then have "\<not> occurs t (?R r)" using 1 by blast
      moreover have "?R s = [] @ CHR ''<'' # ''redacted'' @ CHR ''>'' # ?R r"
        using literal_cases(2) [OF Some] d by (simp add: Cons redactedMark_def)
      moreover have "\<not> occurs t []" using assms(1) by (simp add: occurs_def)
      ultimately show ?thesis using occurs_around assms by metis
    qed
  qed
qed

text \<open>A word that no mark can contain.\<close>

definition hideable :: "string \<Rightarrow> bool" where
  "hideable t = (t \<noteq> [] \<and> CHR ''<'' \<notin> set t \<and> CHR ''>'' \<notin> set t \<and> \<not> occurs t ''redacted'')"

lemma scrub_token_hides: "hideable t \<Longrightarrow> \<not> occurs t (scrub_token s t)"
  by (simp add: hideable_def scrub_token_def replace_all_matches replace_all_hides)

lemma no_match_without: "occurs t url \<Longrightarrow> \<not> occurs t s \<Longrightarrow> \<not> match_string (literal_match url) s"
proof (induction s)
  case (Cons c cs)
  have "\<not> occurs t cs" using Cons.prems(2) by (auto simp: occurs_Cons)
  moreover have "strip_prefix url (c # cs) = None"
  proof (rule ccontr)
    assume "strip_prefix url (c # cs) \<noteq> None"
    then obtain r where "c # cs = url @ r" by auto
    then show False using Cons.prems occurs_append [of t url "[]" r] by simp
  qed
  ultimately show ?case using Cons literal_cases(1) by simp
qed simp

lemma scrub_url_hides:
  assumes "after_last (CHR ''/'') url = Some secret" "hideable secret"
  shows "\<not> occurs secret (scrub_url s url)"
proof -
  have ne: "secret \<noteq> []" "url \<noteq> []" using assms by (auto simp: hideable_def after_last_def)
  obtain p where "url = p @ CHR ''/'' # secret" using after_last_Some [OF assms(1)] by blast
  then have u: "occurs secret url" using occurs_middle [of secret "p @ ''/''" "[]"] by simp
  let ?s = "replace_all secret redacted_word s"
  have free: "\<not> occurs secret ?s" using assms(2) by (simp add: hideable_def replace_all_matches replace_all_hides)
  have "scrub_url s url = replace_matches (literal_match url) redactedMark ?s"
    using ne by (simp add: scrub_url_def assms(1) replace_all_matches)
  then show ?thesis using replace_none [OF no_match_without [OF u free]] free by simp
qed

subsection \<open>What errors say\<close>

lemma refused_posts_hide:
  assumes "status div 100 \<noteq> 2" "hideable (tc_token c)" "sq_chat q \<noteq> []"
    and "after_last (CHR ''/'') url = Some secret" "hideable secret"
  shows "\<exists>shown. snd (send_message quote (\<lambda>_. Answered status body) c q)
      = Some (''telegram: HTTP '' @ int_text status @ '': '' @ shown) \<and> \<not> occurs (tc_token c) shown"
    and "\<exists>shown. \<not> occurs secret shown
      \<and> snd (slack_post_message quote (\<lambda>_. Answered status body) url text) = Some (''slack: HTTP '' @ int_text status @ '': '' @ shown)
      \<and> snd (discord_post quote (\<lambda>_. Answered status body) url text) = Some (''discord: HTTP '' @ int_text status @ '': '' @ shown)
      \<and> snd (mattermost_post quote (\<lambda>_. Answered status body) url text) = Some (''mattermost: HTTP '' @ int_text status @ '': '' @ shown)
      \<and> snd (teams_post_card quote (\<lambda>_. Answered status body) url crd) = Some (''teams: HTTP '' @ int_text status @ '': '' @ shown)"
proof -
  have "tc_token c \<noteq> []" using assms(2) by (simp add: hideable_def)
  then show "\<exists>shown. snd (send_message quote (\<lambda>_. Answered status body) c q)
      = Some (''telegram: HTTP '' @ int_text status @ '': '' @ shown) \<and> \<not> occurs (tc_token c) shown"
    using assms(1,3) scrub_token_hides [OF assms(2), of body] by (simp add: send_message_def Let_def)
  have "url \<noteq> []" using assms(4) by (auto simp: after_last_def)
  then show "\<exists>shown. \<not> occurs secret shown
      \<and> snd (slack_post_message quote (\<lambda>_. Answered status body) url text) = Some (''slack: HTTP '' @ int_text status @ '': '' @ shown)
      \<and> snd (discord_post quote (\<lambda>_. Answered status body) url text) = Some (''discord: HTTP '' @ int_text status @ '': '' @ shown)
      \<and> snd (mattermost_post quote (\<lambda>_. Answered status body) url text) = Some (''mattermost: HTTP '' @ int_text status @ '': '' @ shown)
      \<and> snd (teams_post_card quote (\<lambda>_. Answered status body) url crd) = Some (''teams: HTTP '' @ int_text status @ '': '' @ shown)"
    using assms(1) scrub_url_hides [OF assms(4,5), of body]
    by (intro exI [of _ "scrub_url body url"])
       (simp add: slack_post_message_def discord_post_def mattermost_post_def teams_post_card_def Let_def post_result_def)
qed


text \<open>C26: When a service answers with a status outside the two hundreds, the error quotes its answer
  without the secret: not the bot token of Telegram, not the last part of a webhook's URL.\<close>

theorem refused_posts_hide_the_secret:
  assumes "status div 100 \<noteq> 2" "hideable (tc_token c)" "sq_chat q \<noteq> []"
    and "after_last (CHR ''/'') url = Some secret" "hideable secret"
  shows "(\<exists>shown. snd (send_message quote (\<lambda>_. Answered status body) c q)
      = Some (''telegram: HTTP '' @ int_text status @ '': '' @ shown) \<and> \<not> occurs (tc_token c) shown) \<and>
    (\<exists>shown. \<not> occurs secret shown
      \<and> snd (slack_post_message quote (\<lambda>_. Answered status body) url text) = Some (''slack: HTTP '' @ int_text status @ '': '' @ shown)
      \<and> snd (discord_post quote (\<lambda>_. Answered status body) url text) = Some (''discord: HTTP '' @ int_text status @ '': '' @ shown)
      \<and> snd (mattermost_post quote (\<lambda>_. Answered status body) url text) = Some (''mattermost: HTTP '' @ int_text status @ '': '' @ shown)
      \<and> snd (teams_post_card quote (\<lambda>_. Answered status body) url crd) = Some (''teams: HTTP '' @ int_text status @ '': '' @ shown))"
  using refused_posts_hide [OF assms] by blast

text \<open>When the connection fails instead, the error is the HTTP library's, which names the URL: the
  text that the notifier logs contains the bot token, or the webhook with its secret, and the log
  handler leaves it there unless it happens to match one of its token patterns.\<close>

theorem network_failure_logs_the_secret:
  assumes "tc_token c \<noteq> []" "sq_chat q \<noteq> []" "plain_text (telegram_url c ''/sendMessage'')" "url \<noteq> []" "plain_text url"
  shows "\<exists>e. snd (send_message quote (\<lambda>_. DoFailed cause) c q) = Some e \<and> occurs (tc_token c) e
      \<and> (has_token_residue e \<or> length e > oversizeThreshold \<or> redact_attr (''reason'', LString e) = (''reason'', LString e))"
    and "\<exists>e. snd (slack_post_message quote (\<lambda>_. DoFailed cause) url text) = Some e \<and> occurs url e
      \<and> (has_token_residue e \<or> length e > oversizeThreshold \<or> redact_attr (''reason'', LString e) = (''reason'', LString e))"
proof -
  have kept: "has_token_residue e \<or> length e > oversizeThreshold \<or> redact_attr (''reason'', LString e) = (''reason'', LString e)" for e
    using scrub_id [of e] by (cases "length e \<le> oversizeThreshold") (auto simp: redact_attr_def redactedKeys_def)
  have "occurs (tc_token c) (telegram_url c ''/sendMessage'')"
    using occurs_middle [of "tc_token c" _ "''/sendMessage''"] by (metis append.assoc telegram_url_def)
  then have "occurs (tc_token c) (''telegram: send: '' @ url_error_text quote (telegram_url c ''/sendMessage'') cause)"
    using occurs_append [of "tc_token c" "telegram_url c ''/sendMessage''" "''telegram: send: Post '' @ [CHR 0x22]" "[CHR 0x22] @ '': '' @ cause"]
    by (simp add: url_error_text_def go_quote_def assms(3))
  then show "\<exists>e. snd (send_message quote (\<lambda>_. DoFailed cause) c q) = Some e \<and> occurs (tc_token c) e
      \<and> (has_token_residue e \<or> length e > oversizeThreshold \<or> redact_attr (''reason'', LString e) = (''reason'', LString e))"
    using assms(1,2) kept by (simp add: send_message_def Let_def)
  have "occurs url (''slack: send: '' @ url_error_text quote url cause)"
    using occurs_middle [of url "''slack: send: Post '' @ [CHR 0x22]" "[CHR 0x22] @ '': '' @ cause"]
    by (simp add: url_error_text_def go_quote_def assms(5))
  then show "\<exists>e. snd (slack_post_message quote (\<lambda>_. DoFailed cause) url text) = Some e \<and> occurs url e
      \<and> (has_token_residue e \<or> length e > oversizeThreshold \<or> redact_attr (''reason'', LString e) = (''reason'', LString e))"
    using assms(4) kept by (simp add: slack_post_message_def Let_def post_result_def)
qed

definition some_bot :: telegram_client where
  "some_bot = \<lparr>tc_token = ''123:AAF-k'', tc_endpoint = []\<rparr>"

definition some_webhook :: string where "some_webhook = ''https://hooks.example/T1/B2/xyz''"

definition some_text_message :: send_message_request where
  "some_text_message = \<lparr>sq_chat = ''42'', sq_text = ''hello'', sq_parse_mode = ''HTML'', sq_silent = False, sq_reply = 0\<rparr>"

lemma network_failure_logs_the_secret_witness:
  "\<exists>e. snd (send_message (\<lambda>s. s) (\<lambda>_. DoFailed ''connection refused'') some_bot some_text_message) = Some e
     \<and> occurs ''123:AAF-k'' e \<and> redact_attr (''reason'', LString e) = (''reason'', LString e)"
proof -
  have u: "plain_text (telegram_url some_bot ''/sendMessage'')" "plain_text some_webhook" by code_simp+
  have e: "snd (send_message (\<lambda>s. s) (\<lambda>_. DoFailed ''connection refused'') some_bot some_text_message)
      = Some (''telegram: send: Post '' @ [CHR 0x22] @ ''https://api.telegram.org/bot123:AAF-k/sendMessage'' @ [CHR 0x22] @ '': connection refused'')"
    (is "_ = Some ?e") by code_simp
  have r: "\<not> has_token_residue ?e" by code_simp
  have l: "length ?e \<le> oversizeThreshold" by (simp add: oversizeThreshold_def)
  show ?thesis
    using network_failure_logs_the_secret(1) [where c = some_bot and q = some_text_message and url = some_webhook
        and quote = "\<lambda>s. s" and cause = "''connection refused''"] u e r l
    by (auto simp: some_bot_def some_text_message_def some_webhook_def)
qed

lemma refused_posts_hide_the_secret_witness:
  "\<exists>shown. snd (send_message (\<lambda>s. s) (\<lambda>_. Answered 404 ''no bot 123:AAF-k'') some_bot some_text_message)
      = Some (''telegram: HTTP '' @ int_text 404 @ '': '' @ shown) \<and> \<not> occurs ''123:AAF-k'' shown"
proof -
  have h: "hideable ''123:AAF-k''" "hideable ''xyz''" 
    by (auto simp: hideable_def occurs_Cons) (auto simp: occurs_def)
  have "after_last (CHR ''/'') some_webhook = Some ''xyz''" by code_simp
  then show ?thesis
    using refused_posts_hide_the_secret [where c = some_bot and q = some_text_message and url = some_webhook
        and secret = "''xyz''" and status = 404 and quote = "\<lambda>s. s" and body = "''no bot 123:AAF-k''"] h
    by (simp add: some_bot_def some_text_message_def)
qed

end
