(* ===== verification/Server_Wiring.thy ===== *)
theory Server_Wiring
  imports Notifier_Commands Config_Server Pki
begin

text \<open>
  internal/server/app.go: what \<open>Run\<close> builds out of the configuration before it serves: the sinks with the
  addresses that their environment variables hold, the timings of the reporter, the poller of Telegram
  commands, the TLS configuration out of the files that the configuration names, and the decision which of the goroutines
  start; the goroutines are the components themselves.
\<close>

subsection \<open>Addresses from the environment\<close>

definition telegram_routes :: "telegram_route list \<Rightarrow> sink_route list" where
  "telegram_routes routes = map (\<lambda>r. \<lparr>ro_profile = tgr_profile r, ro_account = tgr_account r, ro_dest = tgr_chat_id r\<rparr>) routes"

fun resolve_routes :: "host_env \<Rightarrow> webhook_route list \<Rightarrow> sink_route list" where
  "resolve_routes env [] = []"
| "resolve_routes env (r # rs) = (let url = he_getenv env (wr_env r) in
     if url = [] then resolve_routes env rs
     else \<lparr>ro_profile = wr_profile r, ro_account = wr_account r, ro_dest = url\<rparr> # resolve_routes env rs)"

definition resolve_url_env_routes ::
  "host_env \<Rightarrow> webhook_route list \<Rightarrow> string \<Rightarrow> sink_route list \<times> string \<times> bool" where
  "resolve_url_env_routes env routes default_env =
     (let out = resolve_routes env routes;
          default_url = (if default_env \<noteq> [] then he_getenv env default_env else [])
      in (out, default_url, out \<noteq> [] \<or> default_url \<noteq> []))"

definition resolve_slack_urls :: "host_env \<Rightarrow> slack_config \<Rightarrow> sink_route list \<times> string \<times> bool" where
  "resolve_slack_urls env cfg = resolve_url_env_routes env (wc_routes cfg) (wc_default_env cfg)"

subsection \<open>Sinks\<close>

definition new_sink :: "sink_kind \<Rightarrow> sink_route list \<Rightarrow> string \<Rightarrow> sink" where
  "new_sink kind routes dflt = \<lparr>sk_kind = kind, sk_routes = routes, sk_default = dflt, sk_silent = False, sk_token = [],
     sk_endpoint = [], sk_priority = 0, sk_tags = [], sk_color = [], sk_last = []\<rparr>"

definition telegram_client_of :: "string \<Rightarrow> telegram_config \<Rightarrow> telegram_client" where
  "telegram_client_of token cfg =
     \<lparr>tc_token = token, tc_endpoint = (if tg_endpoint cfg \<noteq> [] then tg_endpoint cfg else DefaultEndpoint)\<rparr>"

definition telegram_sinks :: "host_env \<Rightarrow> telegram_config \<Rightarrow> sink list" where
  "telegram_sinks env cfg =
     (if \<not> tg_enabled cfg then []
      else let token = he_getenv env (tg_bot_token_env cfg) in
        if token = [] then []
        else let client = telegram_client_of token cfg in
          [(new_sink SinkTelegram (telegram_routes (tg_routes cfg)) (tg_default_chat_id cfg))
             \<lparr>sk_silent := tg_silent cfg, sk_token := tc_token client, sk_endpoint := tc_endpoint client\<rparr>])"

text \<open>The five webhook services differ in what they add to the routes.\<close>

definition webhook_sinks :: "host_env \<Rightarrow> sink_kind \<Rightarrow> (sink \<Rightarrow> sink) \<Rightarrow> 'a webhook_config_scheme \<Rightarrow> sink list" where
  "webhook_sinks env kind add cfg =
     (if \<not> wc_enabled cfg then []
      else case resolve_url_env_routes env (wc_routes cfg) (wc_default_env cfg) of
        (routes, default_url, ok) \<Rightarrow> if \<not> ok then [] else [add (new_sink kind routes default_url)])"

definition slack_sinks :: "host_env \<Rightarrow> slack_config \<Rightarrow> sink list" where
  "slack_sinks env cfg =
     (if \<not> wc_enabled cfg then []
      else case resolve_slack_urls env cfg of
        (routes, default_url, ok) \<Rightarrow> if \<not> ok then [] else [new_sink SinkSlack routes default_url])"

definition ntfy_sinks :: "host_env \<Rightarrow> ntfy_config \<Rightarrow> sink list" where
  "ntfy_sinks env cfg = webhook_sinks env SinkNtfy (\<lambda>s. s\<lparr>
     sk_token := (if nt_auth_token_env cfg \<noteq> [] then he_getenv env (nt_auth_token_env cfg) else []),
     sk_priority := nt_priority cfg, sk_tags := nt_tags cfg\<rparr>) cfg"

definition teams_sinks :: "host_env \<Rightarrow> teams_config \<Rightarrow> sink list" where
  "teams_sinks env cfg = webhook_sinks env SinkTeams (\<lambda>s. s\<lparr>sk_color := te_theme_color cfg\<rparr>) cfg"

definition build_notifier_sinks :: "host_env \<Rightarrow> notifier_config \<Rightarrow> sink list" where
  "build_notifier_sinks env cfg =
     telegram_sinks env (nc_telegram cfg) @ slack_sinks env (nc_slack cfg)
     @ webhook_sinks env SinkDiscord id (nc_discord cfg) @ webhook_sinks env SinkMattermost id (nc_mattermost cfg)
     @ ntfy_sinks env (nc_ntfy cfg) @ teams_sinks env (nc_teams cfg)"

subsection \<open>Timings\<close>

definition longest :: "duration list \<Rightarrow> duration" where
  "longest ds = foldl (\<lambda>acc d. if d > acc then d else acc) 0 ds"

definition configured_intervals :: "notifier_config \<Rightarrow> duration list" where
  "configured_intervals cfg =
     [tg_interval (nc_telegram cfg), wc_interval (nc_slack cfg), wc_interval (nc_discord cfg),
      wc_interval (nc_mattermost cfg), wc_interval (nc_ntfy cfg), wc_interval (nc_teams cfg)]"

definition configured_timeouts :: "notifier_config \<Rightarrow> duration list" where
  "configured_timeouts cfg =
     [tg_probe_timeout (nc_telegram cfg), wc_probe_timeout (nc_slack cfg), wc_probe_timeout (nc_discord cfg),
      wc_probe_timeout (nc_mattermost cfg), wc_probe_timeout (nc_ntfy cfg), wc_probe_timeout (nc_teams cfg)]"

definition notifier_timings :: "notifier_config \<Rightarrow> duration \<times> duration" where
  "notifier_timings cfg = (longest (configured_intervals cfg), longest (configured_timeouts cfg))"

subsection \<open>The poller of commands\<close>

definition build_telegram_command_poller :: "host_env \<Rightarrow> telegram_config \<Rightarrow> duration \<Rightarrow> command_poller option" where
  "build_telegram_command_poller env cfg probe_timeout =
     (if \<not> tg_enabled cfg then None
      else let token = he_getenv env (tg_bot_token_env cfg) in
        if token = [] then None
        else Some (new_command_poller \<lparr>mc_routes = telegram_routes (tg_routes cfg),
               mc_default_chat = tg_default_chat_id cfg, mc_probe_timeout = probe_timeout\<rparr>
             (telegram_client_of token cfg)))"

subsection \<open>Start-up\<close>

record server_options =
  op_version :: string
  op_status_socket :: string
  op_self_client :: bool
  op_also :: "string list"

record server_parts =
  sp_tls :: tls_config
  sp_auth :: authenticator
  sp_hub :: hub
  sp_notifier :: "notifier option"
  sp_poller :: "command_poller option"
  sp_status :: bool
  sp_self :: "string list"

definition self_clients :: "profile_store \<Rightarrow> server_options \<Rightarrow> gerr + string list" where
  "self_clients ps opts = (if \<not> op_self_client opts then Inr []
     else case find (\<lambda>name. store_get ps name = None) (op_also opts) of
       Some name \<Rightarrow> Inl (wrap_s ErrProfileNotFound MsgProfileUnknown [ArgS name])
     | None \<Rightarrow> Inr (op_also opts))"

definition server_notifier :: "host_env \<Rightarrow> gotime \<Rightarrow> notifier_config \<Rightarrow> notifier option" where
  "server_notifier env now cfg =
     (let sinks = build_notifier_sinks env cfg; t = notifier_timings cfg in
      if sinks = [] then None
      else Some (new_notifier \<lparr>nc_interval = fst t, nc_probe_timeout = snd t, nc_grace = DefaultStartupEventGrace\<rparr> sinks now))"

definition server_tls :: "pki_lib \<Rightarrow> host_env \<Rightarrow> server_config \<Rightarrow> gerr + tls_config" where
  "server_tls lib env cfg = server_tls_config lib (he_read env) (pk_ca_cert (sc_pki cfg)) (pk_server_cert (sc_pki cfg))
     (pk_server_key (sc_pki cfg)) (sc_auth_mode cfg = AuthModeMTLS)"

definition server_start ::
  "pki_lib \<Rightarrow> host_env \<Rightarrow> gotime \<Rightarrow> server_config \<Rightarrow> profile_store \<Rightarrow> server_options \<Rightarrow> gerr + server_parts" where
  "server_start lib env now cfg ps opts =
     ebind (server_tls lib env cfg) (\<lambda>tls.
     ebind (new_authenticator env (sc_auth_mode cfg) (sc_jwt cfg)) (\<lambda>auth.
       let n = server_notifier env now (sc_notifier cfg) in
       ebind (self_clients ps opts) (\<lambda>names.
         Inr \<lparr>sp_tls = tls, sp_auth = auth, sp_hub = set_propagation_notifier (n \<noteq> None) new_hub, sp_notifier = n,
           sp_poller = build_telegram_command_poller env (nc_telegram (sc_notifier cfg)) (snd (notifier_timings (sc_notifier cfg))),
           sp_status = (op_status_socket opts \<noteq> []), sp_self = names\<rparr>)))"

definition server_exit :: "gerr option \<Rightarrow> gerr option" where
  "server_exit e = (case e of None \<Rightarrow> None | Some x \<Rightarrow> if errors_is x Canceled then None else Some x)"

end
