(* ===== verification/Notifier_Props.thy ===== *)
theory Notifier_Props
  imports Notifier_Commands
begin

text \<open>
  What the notifier's messages, sinks and loop guarantee: nothing in a record can change the markup of
  a message, every record goes to the first route that matches it, an unchanged summary is not sent
  twice, a failed one is sent again, and which events are reported at all.
\<close>

subsection \<open>What a reader of Telegram's markup sees\<close>

text \<open>The receiving side: entities become characters, the elements \<open>b\<close>, \<open>code\<close> and \<open>pre\<close> do not nest, and
  anything else that looks like markup is refused. The result is the text shown.\<close>

definition html_tags :: "string list" where "html_tags = [''b'', ''code'', ''pre'']"

fun find_tag :: "string list \<Rightarrow> string \<Rightarrow> (string \<times> string) option" where
  "find_tag [] s = None"
| "find_tag (t # ts) s = (case strip_prefix (t @ ''>'') s of Some r \<Rightarrow> Some (t, r) | None \<Rightarrow> find_tag ts s)"

definition read_entity :: "string \<Rightarrow> (char \<times> string) option" where
  "read_entity s = (case strip_prefix ''amp;'' s of Some r \<Rightarrow> Some (CHR ''&'', r) | None \<Rightarrow>
     (case strip_prefix ''lt;'' s of Some r \<Rightarrow> Some (CHR ''<'', r) | None \<Rightarrow>
     (case strip_prefix ''gt;'' s of Some r \<Rightarrow> Some (CHR ''>'', r) | None \<Rightarrow> None)))"

function html_read :: "string option \<Rightarrow> string \<Rightarrow> string option" where
  "html_read tag [] = (if tag = None then Some [] else None)"
| "html_read tag (c # cs) =
     (if c = CHR ''&'' then (case read_entity cs of None \<Rightarrow> None | Some (x, r) \<Rightarrow>
          if length r < length cs then map_option ((#) x) (html_read tag r) else None)
      else if c = CHR ''<'' then (case tag of
          None \<Rightarrow> (case find_tag html_tags cs of None \<Rightarrow> None | Some (t, r) \<Rightarrow>
            if length r < length cs then html_read (Some t) r else None)
        | Some t \<Rightarrow> (case strip_prefix (''/'' @ t @ ''>'') cs of None \<Rightarrow> None | Some r \<Rightarrow>
            if length r < length cs then html_read None r else None))
      else if c = CHR ''>'' then None
      else map_option ((#) c) (html_read tag cs))"
  by pat_completeness auto
termination
  by (relation "measure (\<lambda>(_, s). length s)") auto

lemma html_read_char:
  "html_read tag ((case html_char c of None \<Rightarrow> [c] | Some t \<Rightarrow> t) @ s) = map_option ((#) c) (html_read tag s)"
  by (simp add: html_char_def read_entity_def)

lemma html_read_escape: "html_read tag (html_escape x @ s) = map_option ((@) x) (html_read tag s)"
proof (induction x)
  case Nil
  then show ?case by (simp add: html_escape_def escape_with_def option.map_id0 [unfolded id_def] map_option_idI)
next
  case (Cons c x)
  have "html_escape (c # x) @ s = (case html_char c of None \<Rightarrow> [c] | Some t \<Rightarrow> t) @ html_escape x @ s"
    by (simp add: html_escape_def escape_with_def)
  then show ?case using Cons html_read_char by (simp add: option.map_comp comp_def)
qed

definition element :: "string \<Rightarrow> string \<Rightarrow> string" where
  "element t x = ''<'' @ t @ ''>'' @ html_escape x @ ''</'' @ t @ ''>''"

lemma html_read_open: "t \<in> set html_tags \<Longrightarrow> html_read None (''<'' @ t @ ''>'' @ s) = html_read (Some t) s"
  by (auto simp: html_tags_def)

lemma html_read_close: "html_read (Some t) (''</'' @ t @ ''>'' @ s) = html_read None s"
proof -
  have "strip_prefix (t @ ''>'') (t @ CHR ''>'' # s) = Some s" by simp
  then show ?thesis by (simp del: strip_prefix_Some)
qed

lemma html_read_element:
  "t \<in> set html_tags \<Longrightarrow> html_read None (element t x @ s) = map_option ((@) x) (html_read None s)"
  by (simp only: element_def append.assoc html_read_open html_read_escape html_read_close)

lemma elements:
  "telegram_html_bold s = element ''b'' s" "telegram_html_code s = element ''code'' s"
  "html_pre ls = element ''pre'' (join_with [new_line] ls)"
  by (simp_all add: telegram_html_bold_def telegram_html_code_def html_pre_def element_def)

lemma read_bold: "html_read None (telegram_html_bold x @ s) = map_option ((@) x) (html_read None s)"
  and read_code: "html_read None (telegram_html_code x @ s) = map_option ((@) x) (html_read None s)"
  and read_pre: "html_read None (html_pre ls @ s) = map_option ((@) (join_with [new_line] ls)) (html_read None s)"
  by (simp_all only: elements, (rule html_read_element, simp add: html_tags_def)+)

lemma read_end: "html_read None [] = Some []"
  by simp

lemma read_plain:
  "list_all (\<lambda>c. c \<notin> {CHR ''&'', CHR ''<'', CHR ''>''}) p \<Longrightarrow> html_read tag (p @ s) = map_option ((@) p) (html_read tag s)"
proof (induction p)
  case Nil
  then show ?case by (simp add: map_option_idI)
next
  case (Cons c p)
  then show ?case by (simp add: option.map_comp comp_def)
qed

lemmas read_texts = read_bold read_code read_pre html_read_escape

lemma read_pieces:
  assumes "\<And>l s. l \<in> set ls \<Longrightarrow> html_read None (l @ s) = map_option ((@) (f l)) (html_read None s)"
  shows "html_read None (join_with [new_line] ls @ s) = map_option ((@) (join_with [new_line] (map f ls))) (html_read None s)"
  using assms
proof (induction ls)
  case Nil
  then show ?case by (simp add: map_option_idI)
next
  case (Cons x ls)
  have x: "html_read None (x @ t) = map_option ((@) (f x)) (html_read None t)" for t
    by (rule Cons(2)) simp
  have ih: "html_read None (join_with [new_line] ls @ s)
      = map_option ((@) (join_with [new_line] (map f ls))) (html_read None s)"
    by (rule Cons(1)) (rule Cons(2), simp)
  have n: "html_read None ([new_line] @ t) = map_option ((@) [new_line]) (html_read None t)" for t
    by (rule read_plain) simp
  show ?case
  proof (cases ls)
    case (Cons y ys)
    then have "html_read None (join_with [new_line] (x # ls) @ s)
        = html_read None (x @ [new_line] @ join_with [new_line] ls @ s)" by simp
    also have "\<dots> = map_option ((@) (f x)) (map_option ((@) [new_line])
        (map_option ((@) (join_with [new_line] (map f ls))) (html_read None s)))"
      by (simp only: x n ih)
    finally show ?thesis using Cons by (simp add: option.map_comp comp_def)
  qed (use x in simp)
qed

text \<open>A text that shows the same whatever follows it.\<close>

definition readable :: "string \<Rightarrow> bool" where
  "readable l = (\<exists>x. \<forall>s. html_read None (l @ s) = map_option ((@) x) (html_read None s))"

lemma readableI: "(\<And>s. html_read None (l @ s) = map_option ((@) x) (html_read None s)) \<Longrightarrow> readable l"
  unfolding readable_def by blast

lemma readable_shown: "readable l \<Longrightarrow> html_read None l \<noteq> None"
  unfolding readable_def by (metis append_Nil2 option.distinct(1) option.simps(9) read_end)

lemma readable_append: "readable a \<Longrightarrow> readable b \<Longrightarrow> readable (a @ b)"
proof -
  assume "readable a" "readable b"
  then obtain x y where "\<And>s. html_read None (a @ s) = map_option ((@) x) (html_read None s)"
    "\<And>s. html_read None (b @ s) = map_option ((@) y) (html_read None s)" unfolding readable_def by blast
  then have "html_read None ((a @ b) @ s) = map_option ((@) (x @ y)) (html_read None s)" for s
    by (cases "html_read None s") simp_all
  then show ?thesis by (rule readableI)
qed

lemma readable_plain: "list_all (\<lambda>c. c \<notin> {CHR ''&'', CHR ''<'', CHR ''>''}) p \<Longrightarrow> readable p"
  by (rule readableI, rule read_plain)

lemma readable_texts [simp]:
  "readable (telegram_html_bold x)" "readable (telegram_html_code x)" "readable (html_pre ls)" "readable (html_escape x)"
  by (rule readableI, rule read_texts)+

lemma readable_join: "\<forall>l \<in> set ls. readable l \<Longrightarrow> readable (join_with [new_line] ls)"
proof -
  assume "\<forall>l \<in> set ls. readable l"
  then obtain f where f: "\<And>l s. l \<in> set ls \<Longrightarrow> html_read None (l @ s) = map_option ((@) (f l)) (html_read None s)"
    unfolding readable_def by metis
  show ?thesis by (rule readableI, rule read_pieces [OF f])
qed

lemma readable_words [simp]:
  "readable []" "readable '' - ''" "readable ''nodes: ''" "readable ''last refresh: ''"
  "readable cross_mark" "readable '' no truth''"
  by (rule readable_plain, simp add: cross_mark_def)+

lemma readable_title: "readable (render_periodic_telegram_account_title v seq)"
  unfolding render_periodic_telegram_account_title_def Let_def
  by (cases "pv_no_truth v"; cases "dash_or_empty (pv_valid v)"; simp only: if_True if_False simp_thms;
      intro readable_append; simp only: readable_texts readable_words)

lemma readable_meta: "l \<in> set (render_periodic_telegram_meta_lines v) \<Longrightarrow> readable l"
proof -
  have "readable (''nodes: '' @ telegram_html_code x)" "readable (''last refresh: '' @ html_escape x)" for x
    by (intro readable_append readable_texts readable_words)+
  then show "l \<in> set (render_periodic_telegram_meta_lines v) \<Longrightarrow> readable l"
    by (auto simp: render_periodic_telegram_meta_lines_def split: if_splits)
qed

lemma readable_periodic_lines: "l \<in> set (periodic_telegram_lines env seen recs) \<Longrightarrow> readable l"
proof (induction recs arbitrary: seen)
  case (Cons rec recs)
  then show ?case
    by (auto simp: Let_def readable_title readable_meta split: if_splits)
qed simp

lemma periodic_telegram_readable: "readable (render_periodic_telegram env recs)"
  unfolding render_periodic_telegram_def
  by (rule readable_join) (auto dest: readable_periodic_lines)

lemma read_two:
  "html_read None (join_with [new_line] [telegram_html_bold x, html_pre ls]) = Some (x @ [new_line] @ join_with [new_line] ls)"
proof -
  have n: "html_read None ([new_line] @ t) = map_option ((@) [new_line]) (html_read None t)" for t
    by (rule read_plain) simp
  have "html_read None (telegram_html_bold x @ [new_line] @ html_pre ls @ [])
      = map_option ((@) x) (map_option ((@) [new_line]) (map_option ((@) (join_with [new_line] ls)) (html_read None [])))"
    by (simp only: read_bold n read_pre)
  then show ?thesis by simp
qed

text \<open>C24: What Telegram shows of an event message is exactly its heading and its lines, whatever the
  record holds: no profile, node, account or note can add or close markup. The periodic summary and
  the batch of session events are well-formed markup too.\<close>

theorem telegram_markup_cannot_be_injected:
  "html_read None (render_telegram env r u) = Some (rv_heading (build_view env r u) @ [new_line] @ join_with [new_line]
     (if is_session_event r then telegram_session_lines (build_view env r u)
      else render_telegram_table_lines env (build_view env r u))) \<and>
   html_read None (render_periodic_telegram env recs) \<noteq> None \<and> html_read None (render_session_batch_telegram es) \<noteq> None"
  using readable_shown [OF periodic_telegram_readable]
  by (simp add: render_telegram_def render_session_batch_telegram_def Let_def read_two del: join_with.simps)

subsection \<open>Who gets which record\<close>

lemma first_route_find:
  "first_route d p a rs = (case find (route_matches p a) rs of None \<Rightarrow> d | Some r \<Rightarrow> ro_dest r)"
  by (induction rs) auto

definition grouped :: "string \<Rightarrow> 'r list option \<Rightarrow> 'r list \<Rightarrow> 'r list option" where
  "grouped d old new = (if d = [] \<or> new = [] then old else Some ((case old of None \<Rightarrow> [] | Some xs \<Rightarrow> xs) @ new))"

lemma grouped_grouped: "grouped d (grouped d old xs) ys = grouped d old (xs @ ys)"
  by (auto simp: grouped_def)

lemma add_to_group_get:
  "map_of (add_to_group f m r) d = grouped d (map_of m d) (if f r = d then [r] else [])"
  by (simp add: add_to_group_def grouped_def Let_def gm.get_put)

lemma group_fold:
  "map_of (foldl (add_to_group f) m rs) d = grouped d (map_of m d) (filter (\<lambda>r. f r = d) rs)"
proof (induction rs arbitrary: m)
  case (Cons r rs)
  then show ?case by (simp add: add_to_group_get grouped_grouped)
qed (simp add: grouped_def)

lemma group_ok: "gomap_ok m \<Longrightarrow> gomap_ok (foldl (add_to_group f) m rs)"
  by (induction rs arbitrary: m) (auto simp: add_to_group_def Let_def)

lemma group_by_get:
  "map_of (group_by f rs) d = (if d \<noteq> [] \<and> filter (\<lambda>r. f r = d) rs \<noteq> [] then Some (filter (\<lambda>r. f r = d) rs) else None)"
  "gomap_ok (group_by f rs)"
  by (simp_all add: group_by_def group_fold grouped_def group_ok)

definition dest_records :: "sink \<Rightarrow> report_record list \<Rightarrow> string \<Rightarrow> report_record list" where
  "dest_records s recs d = sort_key record_key (filter (\<lambda>rec. record_dest (route_for s) rec = d) recs)"

definition destinations :: "sink \<Rightarrow> report_record list \<Rightarrow> string list" where
  "destinations s recs = sorted_list_of_set (record_dest (route_for s) ` set recs - {[]})"

lemma groups_get:
  "map_of (group_periodic_records recs route) d = map_option (sort_key record_key) (map_of (group_by (record_dest route) recs) d)"
  by (simp add: group_periodic_records_def map_of_map)

lemma groups_keys:
  "fst ` set (group_periodic_records recs route) = record_dest route ` set recs - {[]}"
proof -
  have "fst ` set (group_periodic_records recs route) = dom (map_of (group_by (record_dest route) recs))"
    by (simp add: group_periodic_records_def dom_map_of_conv_image_fst image_image split_def)
  also have "\<dots> = record_dest route ` set recs - {[]}"
    by (auto simp: group_by_get filter_empty_conv split: if_splits)
  finally show ?thesis .
qed

lemma sorted_keys_destinations: "sorted_group_keys (group_periodic_records recs (route_for s)) = destinations s recs"
proof -
  have "distinct (map fst (group_periodic_records recs (route_for s)))"
    using group_by_get(2) [of "record_dest (route_for s)" recs]
    by (simp add: group_periodic_records_def gomap_ok_def comp_def split_def)
  then have "sorted_list_of_set (set (map fst (group_periodic_records recs (route_for s)))) = sort (map fst (group_periodic_records recs (route_for s)))"
    by (simp only: sorted_list_of_set_sort_remdups distinct_remdups_id)
  then show ?thesis
    using groups_keys [of recs "route_for s"] by (simp add: sorted_group_keys_def destinations_def)
qed

lemma destination_records:
  "d \<in> set (destinations s recs) \<Longrightarrow>
   (case map_of (group_periodic_records recs (route_for s)) d of None \<Rightarrow> [] | Some rs \<Rightarrow> rs) = dest_records s recs d"
  by (auto simp: destinations_def groups_get group_by_get dest_records_def filter_empty_conv)

subsection \<open>What is sent again and what is not\<close>

lemma post_ok_call:
  "snd (deliver_to env s d title text) = None \<Longrightarrow> fst (deliver_to env s d title text) \<noteq> None"
  by (cases "sk_kind s")
     (auto simp: deliver_to_def Let_def send_message_def slack_post_message_def discord_post_def mattermost_post_def
        ntfy_post_def teams_post_card_def split: if_splits)

lemma deliver_remember: "deliver_to env (remember d b s) = deliver_to env s"
  by (intro ext, cases "sk_kind s") (simp_all add: deliver_to_def remember_def telegram_of_def)

lemma remember_sel:
  "sk_kind (remember d b s) = sk_kind s" "route_for (remember d b s) = route_for s"
  "unchanged (remember d b s) x y = (if x = d then b = y else unchanged s x y)"
  by (auto simp: remember_def route_for_def unchanged_def gm.get_put fun_eq_iff)

definition summary_post :: "send_env \<Rightarrow> sink \<Rightarrow> (string \<Rightarrow> report_record list) \<Rightarrow> string \<Rightarrow> sent" where
  "summary_post env s recs d = deliver_to env s d ''Auth State'' (periodic_text (sk_kind s) (sn_render env) (recs d))"

lemma summary_post_remember: "summary_post env (remember d b s) = summary_post env s"
  by (simp add: fun_eq_iff summary_post_def deliver_remember remember_sel)

text \<open>The loop over the destinations, in terms of what it remembers before and after.\<close>

lemma periodic_loop_spec:
  assumes "periodic_loop env groups ds s = (calls, e, s')" "distinct ds"
    and recs: "\<And>d. d \<in> set ds \<Longrightarrow> (case map_of groups d of None \<Rightarrow> [] | Some rs \<Rightarrow> rs) = recs d"
  shows "route_for s' = route_for s \<and> (\<forall>any. summary_post any s' = summary_post any s) \<and> (\<forall>x. x \<notin> set ds \<longrightarrow> unchanged s' x = unchanged s x) \<and>
    (case e of
      None \<Rightarrow> map Some calls = map (fst \<circ> summary_post env s recs) (filter (\<lambda>d. \<not> unchanged s d (periodic_digest (recs d))) ds)
        \<and> (\<forall>d \<in> set ds. unchanged s' d (periodic_digest (recs d)))
    | Some err \<Rightarrow> \<exists>sent d rest. ds = sent @ d # rest \<and> snd (summary_post env s recs d) = Some err
        \<and> \<not> unchanged s' d (periodic_digest (recs d)) \<and> (\<forall>x \<in> set sent. unchanged s' x (periodic_digest (recs x))))"
  using assms
proof (induction ds arbitrary: s calls)
  case Nil
  then show ?case by simp
next
  case (Cons d ds)
  let ?sig = "periodic_digest (recs d)"
  have r: "(case map_of groups d of None \<Rightarrow> [] | Some rs \<Rightarrow> rs) = recs d" using Cons.prems(3) by simp
  have rs: "\<And>x. x \<in> set ds \<Longrightarrow> (case map_of groups x of None \<Rightarrow> [] | Some rs \<Rightarrow> rs) = recs x"
    using Cons.prems(3) by simp
  have d: "distinct ds" "d \<notin> set ds" using Cons.prems(2) by auto
  show ?case
  proof (cases "unchanged s d ?sig")
    case True
    then have "periodic_loop env groups ds s = (calls, e, s')" using Cons.prems(1) r by (simp add: Let_def)
    note IH = Cons.IH [OF this d(1) rs]
    have "unchanged s' d ?sig" using IH True d(2) by auto
    with IH True show ?thesis
      by (auto split: option.splits intro: exI [of _ "d # _"]) (metis append_Cons set_ConsD)
  next
    case False
    obtain c er where p: "summary_post env s recs d = (c, er)" by fastforce
    show ?thesis
    proof (cases er)
      case (Some err)
      then have "s' = s" "e = Some err" using Cons.prems(1) r False p by (auto simp: Let_def summary_post_def)
      moreover have "\<exists>sent x rest. d # ds = sent @ x # rest \<and> snd (summary_post env s recs x) = Some err
        \<and> \<not> unchanged s x (periodic_digest (recs x)) \<and> (\<forall>y \<in> set sent. unchanged s y (periodic_digest (recs y)))"
        by (rule exI [of _ "[]"], rule exI [of _ d], rule exI [of _ ds]) (use False p Some in simp)
      ultimately show ?thesis by simp
    next
      case None
      obtain call where c: "c = Some call"
        using post_ok_call [of env s d "''Auth State''" "periodic_text (sk_kind s) (sn_render env) (recs d)"] p None
        by (auto simp: summary_post_def)
      obtain calls' where l: "periodic_loop env groups ds (remember d ?sig s) = (calls', e, s')" "calls = call # calls'"
        using Cons.prems(1) r False p None c by (auto simp: Let_def summary_post_def split: prod.splits)
      note IH = Cons.IH [OF l(1) d(1) rs]
      have u: "unchanged s' d ?sig" using IH d(2) by (simp add: remember_sel)
      have f: "filter (\<lambda>x. \<not> unchanged (remember d ?sig s) x (periodic_digest (recs x))) ds
          = filter (\<lambda>x. \<not> unchanged s x (periodic_digest (recs x))) ds"
        by (rule filter_cong) (use d in \<open>auto simp: remember_sel\<close>)
      show ?thesis
      proof (cases e)
        case None
        then show ?thesis using IH u f False l(2) p c by (auto simp: remember_sel summary_post_remember fun_eq_iff)
      next
        case (Some err)
        then obtain sent x rest where x: "ds = sent @ x # rest" "snd (summary_post env s recs x) = Some err"
          "\<not> unchanged s' x (periodic_digest (recs x))" "\<forall>y \<in> set sent. unchanged s' y (periodic_digest (recs y))"
          using IH by (auto simp: summary_post_remember)
        have "\<exists>sent x rest. d # ds = sent @ x # rest \<and> snd (summary_post env s recs x) = Some err
          \<and> \<not> unchanged s' x (periodic_digest (recs x)) \<and> (\<forall>y \<in> set sent. unchanged s' y (periodic_digest (recs y)))"
          by (rule exI [of _ "d # sent"], rule exI [of _ x], rule exI [of _ rest]) (use x u in simp)
        moreover have "route_for s' = route_for s \<and> (\<forall>any. summary_post any s' = summary_post any s) \<and>
            (\<forall>x. x \<notin> set (d # ds) \<longrightarrow> unchanged s' x = unchanged s x)"
          using IH by (simp add: remember_sel summary_post_remember fun_eq_iff)
        ultimately show ?thesis using Some by simp
      qed
    qed
  qed
qed

lemma destinations_distinct: "distinct (destinations s recs)"
  by (simp add: destinations_def)

lemma dest_records_same: "route_for s' = route_for s \<Longrightarrow> dest_records s' = dest_records s \<and> destinations s' = destinations s"
  by (intro conjI ext) (simp_all add: dest_records_def destinations_def)

lemma notify_periodic_loop:
  "notify_periodic env recs s = periodic_loop env (group_periodic_records recs (route_for s)) (destinations s recs) s"
  by (simp add: notify_periodic_def sorted_keys_destinations)

lemmas notify_periodic_spec = periodic_loop_spec [OF trans [OF notify_periodic_loop [symmetric]] destinations_distinct destination_records]

text \<open>C25: A round that ends without an error has sent exactly one message to every destination whose
  digest changed, in ascending order: the text of the records whose first matching route (or the
  default) is that destination, sorted by profile, account and fingerprint. A record without a
  destination goes nowhere.\<close>

theorem summary_reaches_every_route:
  assumes "notify_periodic env recs s = (calls, None, s')"
  shows "map Some calls = map (fst \<circ> summary_post env s (dest_records s recs))
      (filter (\<lambda>d. \<not> unchanged s d (periodic_digest (dest_records s recs d))) (destinations s recs)) \<and>
    route_for s p a = (case find (route_matches p a) (sk_routes s) of None \<Rightarrow> sk_default s | Some r \<Rightarrow> ro_dest r)"
  using notify_periodic_spec [OF assms] by (simp add: route_for_def first_route_find)

lemma round_settles:
  assumes "notify_periodic env recs s = (calls, None, s')"
  shows "notify_periodic env' recs s' = ([], None, s')"
proof -
  note spec = notify_periodic_spec [OF assms]
  have r: "route_for s' = route_for s" using spec by simp
  have all: "\<forall>d \<in> set (destinations s recs). unchanged s' d (periodic_digest (dest_records s recs d))" using spec by simp
  have "periodic_loop env' (group_periodic_records recs (route_for s)) ds s' = ([], None, s')"
    if "set ds \<subseteq> set (destinations s recs)" for ds
    using that
  proof (induction ds)
    case (Cons d ds)
    then have "d \<in> set (destinations s recs)" by simp
    then show ?case using Cons all destination_records [of d s recs] by (simp add: Let_def)
  qed simp
  then show ?thesis using dest_records_same [OF r] by (simp add: notify_periodic_loop r)
qed

text \<open>After a round without an error the same records are not sent again, whatever the clock and the
  services do meanwhile. After a round that failed, the message that failed is sent by the next round
  that succeeds.\<close>

theorem summary_is_sent_once:
  assumes "notify_periodic env recs s = (calls, e, s')" and "notify_periodic env' recs s' = (calls', None, s'')"
  shows "case e of None \<Rightarrow> calls' = [] \<and> s'' = s'
    | Some err \<Rightarrow> \<exists>d. d \<in> set (destinations s recs) \<and> snd (summary_post env s (dest_records s recs) d) = Some err
        \<and> fst (summary_post env' s (dest_records s recs) d) \<in> Some ` set calls'"
proof (cases e)
  case None
  then show ?thesis using round_settles [of env recs s calls s' env'] assms by simp
next
  case (Some err)
  note first = notify_periodic_spec [OF assms(1)] and again = notify_periodic_spec [OF assms(2)]
  have r: "route_for s' = route_for s" using first by simp
  obtain sent d rest where d: "destinations s recs = sent @ d # rest"
    "snd (summary_post env s (dest_records s recs) d) = Some err"
    "\<not> unchanged s' d (periodic_digest (dest_records s recs d))" using first Some by auto
  have "map Some calls' = map (fst \<circ> summary_post env' s (dest_records s recs))
      (filter (\<lambda>x. \<not> unchanged s' x (periodic_digest (dest_records s recs x))) (destinations s recs))"
    using again first dest_records_same [OF r] by simp
  from arg_cong [OF this, of set] have "Some ` set calls' = (fst \<circ> summary_post env' s (dest_records s recs)) `
      {x \<in> set (destinations s recs). \<not> unchanged s' x (periodic_digest (dest_records s recs x))}"
    by (simp only: set_map set_filter)
  moreover have "d \<in> {x \<in> set (destinations s recs). \<not> unchanged s' x (periodic_digest (dest_records s recs x))}"
    using d by simp
  ultimately have "fst (summary_post env' s (dest_records s recs) d) \<in> Some ` set calls'" by auto
  then show ?thesis using Some d by auto
qed

end
