(* ===== verification/Notifier_Command_Props.thy ===== *)
theory Notifier_Command_Props
  imports Notifier_Props
begin

text \<open>
  Who is answered by the command poller and with what, that an update is not handed out twice, and
  which profiles no command can name.
\<close>

lemma readable_pre: "readable (''<pre>'' @ html_escape x @ ''</pre>'')"
proof -
  have "''<pre>'' @ html_escape x @ ''</pre>'' = html_pre [x]" by (simp add: html_pre_def)
  then show ?thesis by simp
qed

lemma readable_help: "readable (telegram_command_help ps)"
proof -
  have b: "''<b>Pangaea Commands</b>'' = telegram_html_bold ''Pangaea Commands''"
    by (simp add: telegram_html_bold_def html_escape_def escape_with_def html_char_def)
  show ?thesis
    unfolding telegram_command_help_def b by (rule readable_join) (auto simp del: append_Cons append.assoc intro: readable_pre)
qed

lemma readable_error: "readable (telegram_error msg)"
proof -
  have b: "''<b>Pangaea Error</b>'' = telegram_html_bold ''Pangaea Error''"
    by (simp add: telegram_html_bold_def html_escape_def escape_with_def html_char_def)
  have "readable [new_line]" by (rule readable_plain) simp
  then show ?thesis unfolding telegram_error_def b by (intro readable_append readable_pre) simp_all
qed

lemma readable_response: "readable (command_response env p cmd)"
  by (simp add: command_response_def Let_def readable_help readable_error render_records_def periodic_telegram_readable)

lemma allowed_targets:
  assumes "chat_allowed p chat"
  shows "chat \<in> trim_space ` insert (mc_default_chat (cp_cfg p)) (ro_dest ` set (mc_routes (cp_cfg p)))"
proof -
  from assms consider "trim_space (mc_default_chat (cp_cfg p)) = chat"
    | r where "r \<in> set (mc_routes (cp_cfg p))" "trim_space (ro_dest r) = chat"
    unfolding chat_allowed_def list_ex_iff by blast
  then show ?thesis by cases blast+
qed

text \<open>A command is answered only in a chat that is the default chat or the target of a route. The
  answer goes to that chat, as a reply to that message, in well-formed markup.\<close>

theorem only_configured_chats_are_answered:
  assumes "handle_update env p u = Some (call, e)"
  shows "\<exists>msg text. (tu_message u = Some msg \<or> tu_message u = None \<and> tu_post u = Some msg)
    \<and> int_text (tm_chat msg) \<in> trim_space ` insert (mc_default_chat (cp_cfg p)) (ro_dest ` set (mc_routes (cp_cfg p)))
    \<and> html_read None text \<noteq> None
    \<and> call = map_option (\<lambda>url. \<lparr>hq_url = url, hq_headers = json_header, hq_body = json_text (enc_send_message
        \<lparr>sq_chat = int_text (tm_chat msg), sq_text = text, sq_parse_mode = ''HTML'', sq_silent = False, sq_reply = tm_id msg\<rparr>)\<rparr>)
        (if tc_token (cp_client p) = [] then None else Some (telegram_url (cp_client p) ''/sendMessage''))"
proof -
  obtain msg where m: "tu_message u = Some msg \<or> tu_message u = None \<and> tu_post u = Some msg"
    and h: "chat_allowed p (int_text (tm_chat msg))"
    "\<exists>cmd. send_message (rn_quote (sn_render (ce_send env))) (sn_http (ce_send env)) (cp_client p)
       \<lparr>sq_chat = int_text (tm_chat msg), sq_text = command_response env p cmd, sq_parse_mode = ''HTML'',
        sq_silent = False, sq_reply = tm_id msg\<rparr> = (call, e)"
    using assms by (auto simp: handle_update_def Let_def split: option.splits if_splits)
  obtain cmd where c: "call = fst (send_message (rn_quote (sn_render (ce_send env))) (sn_http (ce_send env)) (cp_client p)
       \<lparr>sq_chat = int_text (tm_chat msg), sq_text = command_response env p cmd, sq_parse_mode = ''HTML'',
        sq_silent = False, sq_reply = tm_id msg\<rparr>)"
    using h(2) by (metis fst_conv)
  have "int_text (tm_chat msg) \<noteq> []" using nat_text_nonempty by (simp add: int_text_def)
  then have "call = map_option (\<lambda>url. \<lparr>hq_url = url, hq_headers = json_header, hq_body = json_text (enc_send_message
        \<lparr>sq_chat = int_text (tm_chat msg), sq_text = command_response env p cmd, sq_parse_mode = ''HTML'', sq_silent = False, sq_reply = tm_id msg\<rparr>)\<rparr>)
        (if tc_token (cp_client p) = [] then None else Some (telegram_url (cp_client p) ''/sendMessage''))"
    by (simp add: c send_message_def Let_def)
  moreover have "int_text (tm_chat msg) \<in> trim_space ` insert (mc_default_chat (cp_cfg p)) (ro_dest ` set (mc_routes (cp_cfg p)))"
    using h(1) by (rule allowed_targets)
  moreover have "html_read None (command_response env p cmd) \<noteq> None" by (rule readable_shown [OF readable_response])
  ultimately show ?thesis using m by blast
qed

subsection \<open>The offset\<close>

lemma offset_moves:
  "\<forall>u \<in> set us. tu_id u < max_int64 \<Longrightarrow> -1 \<le> x \<Longrightarrow>
   x \<le> foldl next_offset x us \<and> (\<forall>u \<in> set us. tu_id u < foldl next_offset x us)"
proof (induction us arbitrary: x)
  case (Cons u us)
  have w: "wrap64 (tu_id u + 1) = tu_id u + 1" if "tu_id u \<ge> x"
    using Cons.prems that by (intro wrap64_id) (auto simp: min_int64_def max_int64_def)
  have n: "x \<le> next_offset x u" "tu_id u < next_offset x u" "-1 \<le> next_offset x u"
    using w Cons.prems(2) by (auto simp: next_offset_def)
  from Cons.IH [OF _ n(3)] Cons.prems(1) n show ?case by fastforce
qed simp

text \<open>The offset never goes back and is beyond every update of the round, so an update that was
  handled is not asked for again; a round that failed leaves it. (Telegram hands out the updates
  from the offset on.)\<close>

theorem handled_updates_are_confirmed:
  assumes "0 \<le> offset" "poll_round envs env p offset = (offset', sents)"
    and "snd (get_updates (rn_quote (sn_render env)) (sn_http env) (cp_client p) (poll_request offset)) = r"
  shows "case r of Inl _ \<Rightarrow> offset' = offset \<and> sents = []
    | Inr us \<Rightarrow> length sents = length us \<and>
        ((\<exists>u. u \<in> set us \<and> max_int64 \<le> tu_id u) \<or> offset \<le> offset' \<and> list_all (\<lambda>u. tu_id u < offset') us)"
proof (cases r)
  case (Inl e)
  then show ?thesis using assms by (simp add: poll_round_def)
next
  case (Inr us)
  then have o: "offset' = foldl next_offset offset us" "length sents = length us"
    using assms(2,3) by (auto simp: poll_round_def)
  show ?thesis
  proof (cases "\<forall>u \<in> set us. tu_id u < max_int64")
    case True
    from offset_moves [OF this, of offset] assms(1) show ?thesis by (simp add: Inr o list_all_iff)
  next
    case False
    then show ?thesis using o(2) by (auto simp: Inr not_less)
  qed
qed

subsection \<open>Names that cannot be asked for\<close>

definition no_capitals :: "string \<Rightarrow> bool" where
  "no_capitals s = list_all (\<lambda>c. \<not> (65 \<le> (of_char c :: nat) \<and> (of_char c :: nat) \<le> 90)) s"

lemma lower_char_lower: "\<not> (65 \<le> (of_char (lower_char c) :: nat) \<and> (of_char (lower_char c) :: nat) \<le> 90)"
  by (auto simp: lower_char_def)

text \<open>A command is folded to lower case before it is compared with the names of the profiles, which
  may have capitals: such a profile answers to no command. Unicode's lower case has no capitals.\<close>

lemma capital_profiles_cannot_be_asked:
  assumes "\<And>s. no_capitals (lower s)" "\<not> no_capitals profile"
  shows "parse_telegram_command lower text \<noteq> Some profile"
proof
  assume "parse_telegram_command lower text = Some profile"
  then obtain t where "profile = to_lower lower t"
    by (auto simp: parse_telegram_command_def Let_def split: list.splits if_splits)
  then have "no_capitals profile"
    using assms(1) lower_char_lower by (auto simp: to_lower_def no_capitals_def list_all_iff)
  then show False using assms(2) by blast
qed

end
