(* ===== verification/Notifier_Scenario.thy ===== *)
theory Notifier_Scenario
  imports Notifier_Command_Props
begin

text \<open>
  A Slack sink with one route and a bot with one chat: a summary is posted, then kept back, then
  posted again after a failure; a command is answered. The theorems of the notifier are applied to
  these runs.
\<close>

definition quiet_render :: render_env where
  "quiet_render = \<lparr>rn_now = (\<lambda>_. 0), rn_offset = (\<lambda>_. 32400), rn_fold = (\<lambda>s t. s = t), rn_lower = (\<lambda>s. []),
     rn_quote = (\<lambda>s. s), rn_scan = (\<lambda>_. None)\<rparr>"

definition answering :: "http_outcome \<Rightarrow> send_env" where
  "answering r = \<lparr>sn_render = quiet_render, sn_http = (\<lambda>_. r)\<rparr>"

definition slack_sink :: sink where
  "slack_sink = \<lparr>sk_kind = SinkSlack, sk_routes = [\<lparr>ro_profile = ''p'', ro_account = [], ro_dest = ''u''\<rparr>], sk_default = [],
     sk_silent = False, sk_token = [], sk_endpoint = [], sk_priority = 0, sk_tags = [], sk_color = [], sk_last = []\<rparr>"

definition lone_record :: report_record where
  "lone_record = \<lparr>rr_truth = zero_record\<lparr>tr_profile := ''p'', tr_no_truth := True\<rparr>, rr_usage = zero_usage\<rparr>"

definition good_round :: "http_call list \<times> string option \<times> sink" where
  "good_round = notify_periodic (answering (Answered 200 [])) [lone_record] slack_sink"

definition failed_round :: "http_call list \<times> string option \<times> sink" where
  "failed_round = notify_periodic (answering (Answered 500 [])) [lone_record] slack_sink"

lemma good_round_parts: "length (fst good_round) = 1" "fst (snd good_round) = None"
  by code_simp+

lemma good_round_eq:
  "notify_periodic (answering (Answered 200 [])) [lone_record] slack_sink = (fst good_round, None, snd (snd good_round))"
  using good_round_parts(2) by (simp add: good_round_def prod_eq_iff)

lemma summary_reaches_every_route_witness:
  "map Some (fst good_round) =
     map (fst \<circ> summary_post (answering (Answered 200 [])) slack_sink (dest_records slack_sink [lone_record]))
       (filter (\<lambda>d. \<not> unchanged slack_sink d (periodic_digest (dest_records slack_sink [lone_record] d)))
         (destinations slack_sink [lone_record])) \<and> length (fst good_round) = 1"
  using summary_reaches_every_route [OF good_round_eq] good_round_parts by simp

lemma failed_round_parts:
  "fst (snd failed_round) = Some ''slack: HTTP 500: ''"
  "fst (snd (notify_periodic (answering (Answered 200 [])) [lone_record] (snd (snd failed_round)))) = None"
  by code_simp+

lemma summary_is_sent_once_witness:
  "\<exists>d. d \<in> set (destinations slack_sink [lone_record]) \<and>
     fst (summary_post (answering (Answered 200 [])) slack_sink (dest_records slack_sink [lone_record]) d)
       \<in> Some ` set (fst (notify_periodic (answering (Answered 200 [])) [lone_record] (snd (snd failed_round))))"
proof -
  let ?again = "notify_periodic (answering (Answered 200 [])) [lone_record] (snd (snd failed_round))"
  have f: "notify_periodic (answering (Answered 500 [])) [lone_record] slack_sink
      = (fst failed_round, Some ''slack: HTTP 500: '', snd (snd failed_round))"
    using failed_round_parts(1) by (simp add: failed_round_def prod_eq_iff)
  have a: "?again = (fst ?again, None, snd (snd ?again))" using failed_round_parts(2) by (simp add: prod_eq_iff)
  show "\<exists>d. d \<in> set (destinations slack_sink [lone_record]) \<and>
     fst (summary_post (answering (Answered 200 [])) slack_sink (dest_records slack_sink [lone_record]) d) \<in> Some ` set (fst ?again)"
    using summary_is_sent_once [OF f a] by auto
qed

subsection \<open>Commands\<close>

definition some_poller :: command_poller where
  "some_poller = new_command_poller \<lparr>mc_routes = [], mc_default_chat = '' 42 '', mc_probe_timeout = 0\<rparr>
     \<lparr>tc_token = ''t'', tc_endpoint = []\<rparr>"

definition idle_env :: command_env where
  "idle_env = \<lparr>ce_send = answering (Answered 200 ''{}''), ce_formats = (\<lambda>_. None), ce_probe = (\<lambda>_. None),
     ce_truths = [], ce_refresh = None, ce_cancelled = False, ce_truths_after = []\<rparr>"

definition help_update :: telegram_update where
  "help_update = \<lparr>tu_id = 7, tu_message = Some \<lparr>tm_id = 3, tm_chat = 42, tm_text = ''/Help@bot''\<rparr>, tu_post = None\<rparr>"

lemma help_answered: "handle_update idle_env some_poller help_update \<noteq> None"
  by code_simp

lemma only_configured_chats_are_answered_witness:
  "\<exists>call e. handle_update idle_env some_poller help_update = Some (call, e) \<and> int_text 42 \<in> trim_space ` {'' 42 ''} \<and> call \<noteq> None"
proof -
  obtain call e where h: "handle_update idle_env some_poller help_update = Some (call, e)"
    using help_answered by fastforce
  from only_configured_chats_are_answered [OF h]
  show ?thesis using h by (auto simp: help_update_def some_poller_def new_command_poller_def)
qed

definition one_update :: send_env where
  "one_update = answering (Answered 200 [CHR ''{'', CHR 0x22, CHR ''o'', CHR ''k'', CHR 0x22, CHR '':'', CHR ''t'', CHR ''r'',
     CHR ''u'', CHR ''e'', CHR '','', CHR 0x22, CHR ''r'', CHR ''e'', CHR ''s'', CHR ''u'', CHR ''l'', CHR ''t'', CHR 0x22,
     CHR '':'', CHR ''['', CHR ''{'', CHR 0x22, CHR ''u'', CHR ''p'', CHR ''d'', CHR ''a'', CHR ''t'', CHR ''e'', CHR ''_'',
     CHR ''i'', CHR ''d'', CHR 0x22, CHR '':'', CHR ''7'', CHR ''}'', CHR '']'', CHR ''}''])"

lemma one_update_read:
  "snd (get_updates (rn_quote (sn_render one_update)) (sn_http one_update) (cp_client some_poller) (poll_request 0))
   = Inr [\<lparr>tu_id = 7, tu_message = None, tu_post = None\<rparr>]"
  by code_simp

lemma handled_updates_are_confirmed_witness:
  "7 < fst (poll_round (\<lambda>_. idle_env) one_update some_poller 0)"
  using handled_updates_are_confirmed [where offset = 0 and envs = "\<lambda>_. idle_env" and env = one_update and p = some_poller,
      OF _ _ one_update_read, of "fst (poll_round (\<lambda>_. idle_env) one_update some_poller 0)"
        "snd (poll_round (\<lambda>_. idle_env) one_update some_poller 0)"]
  by (simp add: max_int64_def)

end
