(* ===== verification/Server_Wiring_Props.thy ===== *)
theory Server_Wiring_Props
  imports Server_Wiring Notifier_Scenario Server_Scenario
begin

text \<open>
  What the start-up gives the reporter: which services get a sink and where each profile's messages go,
  how often it reports, and, through the hub's truths and the sinks, that no profile of the store is left
  out of the first report.
\<close>

subsection \<open>Services and addresses\<close>

fun webhook_of :: "notifier_config \<Rightarrow> sink_kind \<Rightarrow> (bool \<times> string \<times> webhook_route list) option" where
  "webhook_of cfg SinkTelegram = None"
| "webhook_of cfg SinkSlack = (let c = nc_slack cfg in Some (wc_enabled c, wc_default_env c, wc_routes c))"
| "webhook_of cfg SinkDiscord = (let c = nc_discord cfg in Some (wc_enabled c, wc_default_env c, wc_routes c))"
| "webhook_of cfg SinkMattermost = (let c = nc_mattermost cfg in Some (wc_enabled c, wc_default_env c, wc_routes c))"
| "webhook_of cfg SinkNtfy = (let c = nc_ntfy cfg in Some (wc_enabled c, wc_default_env c, wc_routes c))"
| "webhook_of cfg SinkTeams = (let c = nc_teams cfg in Some (wc_enabled c, wc_default_env c, wc_routes c))"

definition named_value :: "host_env \<Rightarrow> string \<Rightarrow> string" where
  "named_value env name = (if name = [] then [] else he_getenv env name)"

text \<open>A service is used when it is enabled and has its token, or one address.\<close>

definition service_used :: "host_env \<Rightarrow> notifier_config \<Rightarrow> sink_kind \<Rightarrow> bool" where
  "service_used env cfg kind = (case webhook_of cfg kind of
     None \<Rightarrow> tg_enabled (nc_telegram cfg) \<and> he_getenv env (tg_bot_token_env (nc_telegram cfg)) \<noteq> []
   | Some (on, dflt, routes) \<Rightarrow> on \<and> (named_value env dflt \<noteq> [] \<or> (\<exists>r \<in> set routes. he_getenv env (wr_env r) \<noteq> [])))"

text \<open>The address of a profile's account: the first route that matches and whose variable is set, or the default.\<close>

definition takes :: "string \<Rightarrow> string \<Rightarrow> string \<Rightarrow> string \<Rightarrow> bool" where
  "takes rp ra p a = ((rp = [] \<or> rp = p) \<and> (ra = [] \<or> ra = a))"

definition service_address :: "host_env \<Rightarrow> notifier_config \<Rightarrow> sink_kind \<Rightarrow> string \<Rightarrow> string \<Rightarrow> string" where
  "service_address env cfg kind p a = (case webhook_of cfg kind of
     None \<Rightarrow> (case find (\<lambda>r. takes (tgr_profile r) (tgr_account r) p a) (tg_routes (nc_telegram cfg)) of
       None \<Rightarrow> tg_default_chat_id (nc_telegram cfg) | Some r \<Rightarrow> tgr_chat_id r)
   | Some (on, dflt, routes) \<Rightarrow>
       (case find (\<lambda>r. takes (wr_profile r) (wr_account r) p a \<and> he_getenv env (wr_env r) \<noteq> []) routes of
         None \<Rightarrow> named_value env dflt | Some r \<Rightarrow> he_getenv env (wr_env r)))"

definition service_order :: "sink_kind list" where
  "service_order = [SinkTelegram, SinkSlack, SinkDiscord, SinkMattermost, SinkNtfy, SinkTeams]"

lemma first_telegram_route:
  "first_route d p a (telegram_routes rs) =
     (case find (\<lambda>r. takes (tgr_profile r) (tgr_account r) p a) rs of None \<Rightarrow> d | Some r \<Rightarrow> tgr_chat_id r)"
  by (induction rs) (simp_all add: telegram_routes_def route_matches_def takes_def)

lemma first_resolved_route:
  "first_route d p a (resolve_routes env rs) =
     (case find (\<lambda>r. takes (wr_profile r) (wr_account r) p a \<and> he_getenv env (wr_env r) \<noteq> []) rs of
        None \<Rightarrow> d | Some r \<Rightarrow> he_getenv env (wr_env r))"
  by (induction rs) (simp_all add: route_matches_def takes_def Let_def)

lemma resolve_routes_Nil: "resolve_routes env rs = [] \<longleftrightarrow> (\<forall>r \<in> set rs. he_getenv env (wr_env r) = [])"
  by (induction rs) (simp_all add: Let_def)

lemma resolve_routes_dest: "r \<in> set (resolve_routes env rs) \<Longrightarrow> ro_dest r \<noteq> []"
  by (induction rs) (auto simp: Let_def split: if_splits)

lemma new_sink_sel: "sk_kind (new_sink k rs d) = k" "route_for (new_sink k rs d) p a = first_route d p a rs"
  by (simp_all add: new_sink_def route_for_def)

lemma webhook_sinks_spec:
  assumes "\<And>s. sk_kind (add s) = sk_kind s \<and> route_for (add s) = route_for s"
  shows "map sk_kind (webhook_sinks env kind add cfg) =
      (if wc_enabled cfg \<and> (named_value env (wc_default_env cfg) \<noteq> [] \<or> (\<exists>r \<in> set (wc_routes cfg). he_getenv env (wr_env r) \<noteq> []))
       then [kind] else [])"
    "s \<in> set (webhook_sinks env kind add cfg) \<Longrightarrow> route_for s p a =
      (case find (\<lambda>r. takes (wr_profile r) (wr_account r) p a \<and> he_getenv env (wr_env r) \<noteq> []) (wc_routes cfg) of
         None \<Rightarrow> named_value env (wc_default_env cfg) | Some r \<Rightarrow> he_getenv env (wr_env r))"
  using assms
  by (auto simp: webhook_sinks_def resolve_url_env_routes_def named_value_def resolve_routes_Nil new_sink_sel Let_def
      first_resolved_route split: if_splits option.split)

lemma slack_is_webhook: "slack_sinks env cfg = webhook_sinks env SinkSlack id cfg"
  by (simp add: slack_sinks_def webhook_sinks_def resolve_slack_urls_def split: prod.split)

lemma telegram_sinks_spec:
  "map sk_kind (telegram_sinks env cfg) = (if tg_enabled cfg \<and> he_getenv env (tg_bot_token_env cfg) \<noteq> [] then [SinkTelegram] else [])"
  "s \<in> set (telegram_sinks env cfg) \<Longrightarrow> route_for s p a =
     (case find (\<lambda>r. takes (tgr_profile r) (tgr_account r) p a) (tg_routes cfg) of
        None \<Rightarrow> tg_default_chat_id cfg | Some r \<Rightarrow> tgr_chat_id r)"
  by (auto simp: telegram_sinks_def new_sink_def Let_def route_for_def first_telegram_route split: if_splits)

lemma add_keeps:
  "sk_kind (id s) = sk_kind s \<and> route_for (id s) = route_for s"
  "sk_kind (s\<lparr>sk_token := t, sk_priority := pr, sk_tags := tg\<rparr>) = sk_kind s \<and>
   route_for (s\<lparr>sk_token := t, sk_priority := pr, sk_tags := tg\<rparr>) = route_for s"
  "sk_kind (s\<lparr>sk_color := c\<rparr>) = sk_kind s \<and> route_for (s\<lparr>sk_color := c\<rparr>) = route_for s"
  by (auto simp: route_for_def fun_eq_iff)

lemmas webhook_kinds = webhook_sinks_spec(1) [where add = id, OF add_keeps(1)] webhook_sinks_spec(1) [OF add_keeps(2)]
  webhook_sinks_spec(1) [OF add_keeps(3)]

lemmas webhook_address = webhook_sinks_spec(2) [where add = id, OF add_keeps(1)] webhook_sinks_spec(2) [OF add_keeps(2)]
  webhook_sinks_spec(2) [OF add_keeps(3)]

lemma kind_of_member: "map sk_kind xs = (if b then [k] else []) \<Longrightarrow> s \<in> set xs \<Longrightarrow> sk_kind s = k"
  by (auto split: if_splits)

lemma sink_address:
  assumes "s \<in> set (build_notifier_sinks env cfg)"
  shows "route_for s p a = service_address env cfg (sk_kind s) p a"
  using assms unfolding build_notifier_sinks_def ntfy_sinks_def teams_sinks_def slack_is_webhook set_append Un_iff
  apply (elim disjE)
  subgoal by (frule kind_of_member [OF telegram_sinks_spec(1)]) (simp add: telegram_sinks_spec(2) service_address_def)
  subgoal by (frule kind_of_member [OF webhook_kinds(1)]) (simp add: webhook_address(1) service_address_def Let_def)
  subgoal by (frule kind_of_member [OF webhook_kinds(1)]) (simp add: webhook_address(1) service_address_def Let_def)
  subgoal by (frule kind_of_member [OF webhook_kinds(1)]) (simp add: webhook_address(1) service_address_def Let_def)
  subgoal by (frule kind_of_member [OF webhook_kinds(2)]) (simp add: webhook_address(2) service_address_def Let_def)
  subgoal by (frule kind_of_member [OF webhook_kinds(3)]) (simp add: webhook_address(3) service_address_def Let_def)
  done

lemma sink_kinds: "map sk_kind (build_notifier_sinks env cfg) = filter (service_used env cfg) service_order"
  by (simp add: build_notifier_sinks_def ntfy_sinks_def teams_sinks_def slack_is_webhook telegram_sinks_spec(1) webhook_kinds
      service_order_def service_used_def Let_def)

text \<open>The server talks to exactly the services that are enabled and have a token or an address in the
  environment, in a fixed order, and each sends what concerns a profile's account to the address of the first route that
  matches it and whose variable is set, and otherwise to the default.\<close>

theorem configured_services_are_used:
  "map (\<lambda>s. (sk_kind s, route_for s)) (build_notifier_sinks env cfg) =
   map (\<lambda>k. (k, service_address env cfg k)) (filter (service_used env cfg) service_order)"
proof -
  have "map (\<lambda>s. (sk_kind s, route_for s)) (build_notifier_sinks env cfg) =
      map (\<lambda>s. (sk_kind s, service_address env cfg (sk_kind s))) (build_notifier_sinks env cfg)"
    by (rule map_cong [OF refl]) (auto simp: sink_address fun_eq_iff)
  also have "\<dots> = map (\<lambda>k. (k, service_address env cfg k)) (map sk_kind (build_notifier_sinks env cfg))"
    by simp
  finally show ?thesis by (simp add: sink_kinds)
qed

subsection \<open>Timings\<close>

lemma longest_acc: "foldl (\<lambda>acc d. if d > acc then d else acc) a ds = Max (insert a (set ds))" for a :: duration
proof (induction ds arbitrary: a)
  case (Cons d ds)
  have "Max (insert a (insert d (set ds))) = Max (insert (max a d) (set ds))"
    by (cases "ds = []") (auto simp: max.assoc max.commute)
  then show ?case by (simp add: Cons.IH max_def)
qed simp

lemma longest_Max: "longest ds = Max (insert 0 (set ds))"
  by (simp add: longest_def longest_acc)

text \<open>The reporter never reports more often than the longest configured interval asks for, nor than hourly, and it gives a usage
  probe the longest configured time, or eight seconds when none is configured.\<close>

theorem reporter_timings:
  assumes "server_notifier env now cfg = Some n"
  shows "nc_interval (no_cfg n) = Max (insert (hours 1) (set (configured_intervals cfg))) \<and>
    nc_probe_timeout (no_cfg n) = (if \<exists>d \<in> set (configured_timeouts cfg). 0 < d then Max (set (configured_timeouts cfg)) else seconds 8)"
proof -
  have n: "n = new_notifier \<lparr>nc_interval = longest (configured_intervals cfg), nc_probe_timeout = longest (configured_timeouts cfg),
      nc_grace = DefaultStartupEventGrace\<rparr> (build_notifier_sinks env cfg) now"
    using assms by (auto simp: server_notifier_def notifier_timings_def Let_def split: if_splits)
  have i: "(if longest (configured_intervals cfg) < hours 1 then hours 1 else longest (configured_intervals cfg)) =
      Max (insert (hours 1) (set (configured_intervals cfg)))"
    by (simp add: longest_Max configured_intervals_def hours_def max_def)
  have t: "(if longest ts \<le> 0 then seconds 8 else longest ts) = (if \<exists>d \<in> set ts. 0 < d then Max (set ts) else seconds 8)" for ts
  proof (cases "\<exists>d \<in> set ts. 0 < d")
    case True
    then have "0 < Max (set ts)" by (metis List.finite_set Max_ge less_le_trans)
    moreover have "ts \<noteq> []" using True by auto
    ultimately have "longest ts = Max (set ts)" by (simp add: longest_Max max_def)
    then show ?thesis using True \<open>0 < Max (set ts)\<close> by auto
  next
    case False
    then have "longest ts = 0" unfolding longest_Max by (intro Max_eqI) (auto simp: not_less)
    then show ?thesis using False by simp
  qed
  have "nc_interval (no_cfg n) = (if longest (configured_intervals cfg) < hours 1 then hours 1 else longest (configured_intervals cfg))"
    "nc_probe_timeout (no_cfg n) = (if longest (configured_timeouts cfg) \<le> 0 then seconds 8 else longest (configured_timeouts cfg))"
    by (simp_all add: n new_notifier_def Let_def)
  then show ?thesis using i t [of "configured_timeouts cfg"] by (simp only: simp_thms)
qed

subsection \<open>The first report\<close>

lemma truth_source_covers:
  assumes "p \<in> set (store_list ps)"
  shows "\<exists>r \<in> set (truth_source h ps). tr_profile r = pf_name p"
proof (cases "pf_name p \<in> pt_profile ` set (hub_snapshot_truths h)")
  case True
  then show ?thesis by (force simp: truth_source_def Let_def)
next
  case False
  then show ?thesis using assms by (force simp: truth_source_def Let_def)
qed

lemma digest_not_empty: "periodic_digest recs \<noteq> []"
  by (simp add: periodic_digest_def)

lemma first_round_posts:
  assumes "notify_periodic env recs s = (calls, None, s')" "sk_last s = []" "d \<in> set (destinations s recs)"
  shows "\<exists>call \<in> set calls. fst (summary_post env s (dest_records s recs) d) = Some call"
proof -
  have "\<not> unchanged s d (periodic_digest (dest_records s recs d))"
    using assms(2) digest_not_empty [of "dest_records s recs d"] by (auto simp: unchanged_def)
  then have "fst (summary_post env s (dest_records s recs) d) \<in> set (map Some calls)"
    using notify_periodic_spec [OF assms(1)] assms(3) by auto
  then show ?thesis by auto
qed

definition report_items :: "notifier_env \<Rightarrow> notifier \<Rightarrow> truth_record list \<Rightarrow> report_record list" where
  "report_items env n rs = map (\<lambda>r. \<lparr>rr_truth = r, rr_usage = probe env n r\<rparr>) rs"

lemma record_reaches_destination:
  assumes "r \<in> set rs" "route_for s (tr_profile r) (tr_account r) = d" "d \<noteq> []"
  shows "d \<in> set (destinations s (report_items env n rs))"
    "\<exists>rec \<in> set (dest_records s (report_items env n rs) d). rr_truth rec = r"
  using assms by (auto simp: destinations_def dest_records_def report_items_def record_dest_def image_image)

lemma new_sinks_fresh: "s \<in> set (build_notifier_sinks env cfg) \<Longrightarrow> sk_last s = []"
  by (auto simp: build_notifier_sinks_def telegram_sinks_def slack_is_webhook webhook_sinks_def ntfy_sinks_def teams_sinks_def
      new_sink_def Let_def split: if_splits)

text \<open>C27: In the first report that is sent, every service that meets no error posts, for every profile of the store, a
  message that holds a record of that profile to the address configured for it, if there is one: connected or
  not, with or without credentials.\<close>

theorem first_report_covers_every_profile:
  assumes "server_notifier henv now cfg = Some n" and "run_once env (truth_source h ps) n = (True, calls, n')"
    and "p \<in> set (store_list ps)" and "s \<in> set (build_notifier_sinks henv cfg)"
    and "fst (snd (notify_periodic (ne_send env) (report_items env n (truth_source h ps)) s)) = None"
  shows "\<exists>r \<in> set (truth_source h ps). tr_profile r = pf_name p \<and>
    (let d = service_address henv cfg (sk_kind s) (pf_name p) (tr_account r);
         recs = dest_records s (report_items env n (truth_source h ps)) in
     d = [] \<or> (\<exists>call \<in> set calls. fst (summary_post (ne_send env) s recs d) = Some call) \<and> r \<in> rr_truth ` set (recs d))"
proof -
  let ?items = "report_items env n (truth_source h ps)"
  have sinks: "no_sinks n = build_notifier_sinks henv cfg"
    using assms(1) by (auto simp: server_notifier_def new_notifier_def Let_def split: if_splits)
  obtain r where r: "r \<in> set (truth_source h ps)" "tr_profile r = pf_name p"
    using truth_source_covers [OF assms(3)] by blast
  have calls: "set (fst (notify_periodic (ne_send env) ?items s)) \<subseteq> set calls"
    using assms(2,4) sinks by (auto simp: run_once_def report_items_def Let_def split: if_splits)
  have round: "notify_periodic (ne_send env) ?items s =
      (fst (notify_periodic (ne_send env) ?items s), None, snd (snd (notify_periodic (ne_send env) ?items s)))"
    using assms(5) by (simp add: prod_eq_iff)
  let ?d = "service_address henv cfg (sk_kind s) (pf_name p) (tr_account r)"
  have "?d = [] \<or> (\<exists>call \<in> set calls. fst (summary_post (ne_send env) s (dest_records s ?items) ?d) = Some call) \<and>
      r \<in> rr_truth ` set (dest_records s ?items ?d)"
  proof (cases "?d = []")
    case False
    have d: "route_for s (tr_profile r) (tr_account r) = ?d" using sink_address [OF assms(4)] r(2) by simp
    note reach = record_reaches_destination [OF r(1) d False, of env n]
    show ?thesis
      using first_round_posts [OF round new_sinks_fresh [OF assms(4)] reach(1)] calls reach(2) by auto
  qed simp
  then show ?thesis using r by (auto simp: Let_def)
qed

subsection \<open>A server with Slack\<close>

definition no_webhook :: webhook_config where
  "no_webhook = \<lparr>wc_enabled = False, wc_default_env = [], wc_interval = 0, wc_interval_raw = [], wc_probe_timeout = 0,
     wc_probe_timeout_raw = [], wc_routes = []\<rparr>"

definition slack_only :: notifier_config where
  "slack_only =
     \<lparr>nc_telegram = \<lparr>tg_enabled = False, tg_bot_token_env = [], tg_default_chat_id = [], tg_interval = 0, tg_interval_raw = [],
        tg_probe_timeout = 0, tg_probe_timeout_raw = [], tg_silent = False, tg_routes = [], tg_endpoint = []\<rparr>,
      nc_slack = no_webhook\<lparr>wc_enabled := True, wc_default_env := ''HOOK'', wc_interval := hours 2,
        wc_routes := [\<lparr>wr_profile = ''demo'', wr_account = [], wr_env = ''UNSET''\<rparr>]\<rparr>,
      nc_discord = no_webhook, nc_mattermost = no_webhook,
      nc_ntfy = webhook_config.extend no_webhook (ntfy_config.fields [] 0 []),
      nc_teams = webhook_config.extend no_webhook (teams_config.fields [])\<rparr>"

definition hook_host :: host_env where
  "hook_host = \<lparr>he_read = (\<lambda>_. Inl NotExist), he_is_dir = (\<lambda>_. False),
     he_lookup = (\<lambda>n. if n = ''HOOK'' then Some ''https://hook'' else None), he_home = Inr []\<rparr>"

definition hook_sink :: sink where "hook_sink = hd (build_notifier_sinks hook_host slack_only)"

lemma hook_sinks: "build_notifier_sinks hook_host slack_only = [hook_sink]"
  by (simp add: hook_sink_def build_notifier_sinks_def telegram_sinks_def slack_sinks_def webhook_sinks_def ntfy_sinks_def teams_sinks_def
      slack_only_def no_webhook_def webhook_config.defs ntfy_config.defs teams_config.defs resolve_slack_urls_def
      resolve_url_env_routes_def hook_host_def he_getenv_def)

definition hook_notifier :: notifier where "hook_notifier = the (server_notifier hook_host 0 slack_only)"

lemma hook_notifier: "server_notifier hook_host 0 slack_only = Some hook_notifier"
  by (simp add: hook_notifier_def server_notifier_def hook_sinks Let_def)

theorem reporter_timings_witness: "nc_interval (no_cfg hook_notifier) = hours 2 \<and> nc_probe_timeout (no_cfg hook_notifier) = seconds 8"
  using reporter_timings [OF hook_notifier]
  by (simp add: configured_intervals_def configured_timeouts_def slack_only_def no_webhook_def webhook_config.defs
      ntfy_config.defs teams_config.defs hours_def)

definition one_node_hub :: hub where
  "one_node_hub = new_hub\<lparr>hb_profiles := [(''demo'', (new_profile_hub demo_profile gemini_format [] True)
     \<lparr>ph_sessions := [(''a'', demo_session 0 ''a'')]\<rparr>)]\<rparr>"

definition hook_env :: notifier_env where
  "hook_env = \<lparr>ne_send = answering (Answered 200 []), ne_now = 0, ne_formats = (\<lambda>_. None), ne_probe = (\<lambda>_. None)\<rparr>"

definition first_run :: "bool \<times> http_call list \<times> notifier" where
  "first_run = run_once hook_env (truth_source one_node_hub demo_store) hook_notifier"

lemma first_run_parts: "fst first_run" "length (fst (snd first_run)) = 1"
  "fst (snd (notify_periodic (ne_send hook_env) (report_items hook_env hook_notifier (truth_source one_node_hub demo_store)) hook_sink)) = None"
  by code_simp+

lemma hook_address: "service_address hook_host slack_only (sk_kind hook_sink) p a = ''https://hook''"
proof -
  have "sk_kind hook_sink = SinkSlack" by code_simp
  then show ?thesis
    by (simp add: service_address_def slack_only_def no_webhook_def named_value_def hook_host_def he_getenv_def takes_def Let_def)
qed

theorem first_report_covers_every_profile_witness:
  "\<exists>call \<in> set (fst (snd first_run)). \<exists>rec.
     fst (summary_post (ne_send hook_env) hook_sink
       (dest_records hook_sink (report_items hook_env hook_notifier (truth_source one_node_hub demo_store))) ''https://hook'') = Some call \<and>
     rec \<in> set (truth_source one_node_hub demo_store) \<and> tr_profile rec = ''demo''"
proof -
  have run: "run_once hook_env (truth_source one_node_hub demo_store) hook_notifier = (True, fst (snd first_run), snd (snd first_run))"
    using first_run_parts(1) by (simp add: first_run_def prod_eq_iff)
  have p: "demo_profile \<in> set (store_list demo_store)" by (simp add: demo_store_def new_profile_store_def store_list_def)
  have s: "hook_sink \<in> set (build_notifier_sinks hook_host slack_only)" by (simp add: hook_sinks)
  show ?thesis
    using first_report_covers_every_profile [OF hook_notifier run p s first_run_parts(3)]
    by (auto simp: hook_address demo_profile_def Let_def)
qed

end
