(* ===== verification/Self_Client.thy ===== *)
theory Self_Client
  imports Server_Wiring Client_Reverse
begin

text \<open>
  internal/server/selfclient.go: the client that a server runs for its own profiles, from the
  configuration it makes up to the call of \<open>client.Run\<close>. The host's name, the verification of the node's own
  certificate (its common name, if it verifies), the building of the TLS configuration and the clock are
  parameters.
\<close>

definition split_host_port :: "string \<Rightarrow> string \<times> string" where
  "split_host_port s = (case after_last (CHR '':'') s of
     None \<Rightarrow> ([], s)
   | Some port \<Rightarrow> (take (length s - length port - 1) s, port))"

definition listen_to_localhost :: "string \<Rightarrow> string" where
  "listen_to_localhost listen = (case split_host_port listen of (host, port) \<Rightarrow>
     if host = [] \<or> host = ''0.0.0.0'' \<or> host = ''::'' \<or> host = ''[::]'' then ''localhost:'' @ port else listen)"

definition default_self_node_id :: "gerr + string \<Rightarrow> string" where
  "default_self_node_id hostname = (case hostname of
     Inr host \<Rightarrow> if host \<noteq> [] then host @ ''(server)'' else ''server(server)''
   | Inl _ \<Rightarrow> ''server(server)'')"

definition self_node_id :: "gerr + string \<Rightarrow> gerr + string \<Rightarrow> string" where
  "self_node_id hostname verified = (case verified of
     Inr cn \<Rightarrow> if cn \<noteq> [] then cn else default_self_node_id hostname
   | Inl _ \<Rightarrow> default_self_node_id hostname)"

text \<open>The fields the code does not set keep Go's zero values.\<close>

definition self_client_config :: "server_config \<Rightarrow> string \<Rightarrow> profile \<Rightarrow> string \<Rightarrow> client_config" where
  "self_client_config cfg name p node =
     \<lparr>cc_server = ''wss://'' @ listen_to_localhost (sc_listen cfg), cc_auth_mode = sc_auth_mode cfg,
      cc_jwt = \<lparr>jk_token_env = [], jk_token_file = [], jk_send_via = []\<rparr>,
      cc_reverse = \<lparr>rc_listen = [], rc_pki = \<lparr>rk_ca_cert = [], rk_server_cert = [], rk_server_key = []\<rparr>, rc_allowed_peers = []\<rparr>,
      cc_node_id = node,
      cc_profiles = [\<lparr>pb_name = name, pb_format = pf_format p, pb_dir = pf_dir p, pb_watch_files = pf_watch_files p,
        pb_account_meta_path = []\<rparr>],
      cc_pki = \<lparr>cp_ca_cert = pk_ca_cert (sc_pki cfg), cp_client_cert = sn_client_cert (sc_self_node cfg),
        cp_client_key = sn_client_key (sc_self_node cfg)\<rparr>,
      cc_reconnect = \<lparr>rn_initial_delay = 0, rn_jitter = 0, rn_max_delay = 0\<rparr>,
      cc_cli_upgrade = \<lparr>cu_enabled = False, cu_initial_delay = 0, cu_interval = 0\<rparr>,
      cc_log = \<lparr>lc_level = [], lc_format = []\<rparr>\<rparr>"

definition self_token_life :: duration where "self_token_life = hours (3650 * 24)"

definition self_token ::
  "jwt_lib \<Rightarrow> host_env \<Rightarrow> gotime \<Rightarrow> server_config \<Rightarrow> string \<Rightarrow> string \<Rightarrow> gerr + string" where
  "self_token lib env now cfg node profile =
     (if sc_auth_mode cfg = AuthModeJWT then
        ebind (load_secret_file env (js_secret_file (sc_jwt cfg))) (\<lambda>secret.
          jwt_issue lib secret node [profile] (js_issuer (sc_jwt cfg)) (js_audience (sc_jwt cfg)) now self_token_life)
      else Inr [])"

definition self_client_start ::
  "jwt_lib \<Rightarrow> host_env \<Rightarrow> gotime \<Rightarrow> registry \<Rightarrow> gerr + string \<Rightarrow> gerr + string \<Rightarrow> gerr option \<Rightarrow> server_config \<Rightarrow>
   profile_store \<Rightarrow> string \<Rightarrow> string \<Rightarrow> gerr + agent list \<times> upgrade_maintainer option" where
  "self_client_start lib env now reg hostname verified tls cfg ps version name = (case store_get ps name of
     None \<Rightarrow> Inl (wrap_s ErrProfileNotFound MsgProfileUnknown [ArgS name])
   | Some p \<Rightarrow>
       let node = self_node_id hostname verified; client = self_client_config cfg name p node in
       (case tls of
          Some e \<Rightarrow> Inl e
        | None \<Rightarrow> ebind (self_token lib env now cfg node name) (\<lambda>token.
            client_run reg (\<lambda>m. m) None client version False token)))"

end
