(* ===== verification/Self_Client_Props.thy ===== *)
theory Self_Client_Props
  imports Self_Client Session_Opening
begin

text \<open>
  The client that a server runs for itself: with certificates the server serves it; with tokens it never
  sends the one it was issued, because the configuration made for it does not say how.
\<close>

lemma build_agents_for_cfg:
  "build_agents_for reg cfg v ff tok bs = Inr agents \<Longrightarrow> a \<in> set agents \<Longrightarrow>
   ag_cfg a = cfg \<and> ag_jwt_override a = tok \<and> ag_profile a \<in> pb_name ` set bs"
  by (induction bs arbitrary: agents) (auto simp: ebind_def new_agent_def split: sum.splits prod.splits)

lemma self_client_agents:
  assumes "self_client_start lib env now reg hostname verified tls cfg ps version name = Inr (agents, m)" "a \<in> set agents"
  obtains p token where "store_get ps name = Some p" "ag_cfg a = self_client_config cfg name p (self_node_id hostname verified)"
    "ag_profile a = name" "self_token lib env now cfg (self_node_id hostname verified) name = Inr token" "ag_jwt_override a = token"
proof -
  obtain p where p: "store_get ps name = Some p" using assms(1) by (auto simp: self_client_start_def split: option.splits)
  let ?cfg = "self_client_config cfg name p (self_node_id hostname verified)"
  obtain token where t: "self_token lib env now cfg (self_node_id hostname verified) name = Inr token"
    "client_run reg (\<lambda>m. m) None ?cfg version False token = Inr (agents, m)"
    using assms(1) p by (auto simp: self_client_start_def Let_def ebind_def split: option.splits sum.splits)
  then have "build_agents_for reg ?cfg (agent_version version) False token (cc_profiles ?cfg) = Inr agents"
    by (auto simp: client_run_def build_agents_def ebind_def split: option.splits if_splits sum.splits)
  then have "ag_cfg a = ?cfg \<and> ag_jwt_override a = token \<and> ag_profile a \<in> pb_name ` set (cc_profiles ?cfg)"
    using assms(2) by (rule build_agents_for_cfg)
  then show thesis using that p t(1) by (simp add: self_client_config_def)
qed

text \<open>The address: an unspecified host becomes localhost, which the server's certificate names.\<close>

lemma split_host_port_last:
  assumes "CHR '':'' \<notin> set port"
  shows "split_host_port (host @ CHR '':'' # port) = (host, port)"
proof -
  have "after_last (CHR '':'') (host @ CHR '':'' # port) = Some port"
    using assms by (simp add: after_last_def takeWhile_append)
  then show ?thesis by (simp add: split_host_port_def)
qed

lemma listen_to_localhost_host:
  assumes "CHR '':'' \<notin> set port"
  shows "listen_to_localhost (host @ CHR '':'' # port) =
    (if host \<in> {[], ''0.0.0.0'', ''::'', ''[::]''} then ''localhost:'' @ port else host @ CHR '':'' # port)"
  using split_host_port_last [OF assms] by (simp add: listen_to_localhost_def)

text \<open>With certificates the self-client is served: the node it names is the common name of the certificate
  it shows, so the server takes its hello for the session of that node.\<close>

theorem self_client_served_by_certificate:
  assumes "self_client_start lib env now reg hostname (Inr cn) tls cfg ps version name = Inr (agents, m)" "a \<in> set agents"
    and "sc_auth_mode cfg = AuthModeMTLS" "cn \<noteq> []" "au_mode srv = AuthModeMTLS" "ce_cn cert = cn"
  shows "agent_dial env' a = Inr None \<and> opening_frames env' os a = Inr [OutHello (hello_of os a)] \<and>
    (\<exists>hs. handle_ws lib ps srv now' \<lparr>rq_tls = Some ((cert # rest) # others), rq_authorization = []\<rparr> (ag_profile a) = (101, Inr hs) \<and>
      serve_handshake lib (Some srv) now' (ag_profile a) hs r (Frame (frame_of i t (OutHello (hello_of os a)))) sid =
        Inr (hs, \<lparr>se_id = sid, se_profile = name, se_peer = cn, se_identity = cn, se_mode = AuthModeMTLS, se_node = cn\<rparr>))"
proof -
  obtain p where p: "store_get ps name = Some p" "ag_profile a = name" "ag_cfg a = self_client_config cfg name p cn"
    using self_client_agents [OF assms(1,2)] assms(4) by (auto simp: self_node_id_def)
  have mode: "cc_auth_mode (ag_cfg a) = AuthModeMTLS" "cc_node_id (ag_cfg a) = cn"
    using p(3) assms(3) by (simp_all add: self_client_config_def)
  let ?hs = "zero_handshake\<lparr>hs_mode := AuthModeMTLS, hs_identity := cn, hs_peer_cn := cn\<rparr>"
  have "serve_handshake lib (Some srv) now' name ?hs r (Frame (frame_of i t (OutHello (hello_of os a)))) sid =
        Inr (?hs, \<lparr>se_id = sid, se_profile = name, se_peer = cn, se_identity = cn, se_mode = AuthModeMTLS, se_node = cn\<rparr>)"
    using assms(4) mode(2)
    by (simp add: serve_handshake_def read_kind_def hello_rt hello_ok_def hello_of_def zero_handshake_def)
  moreover have "handle_ws lib ps srv now' \<lparr>rq_tls = Some ((cert # rest) # others), rq_authorization = []\<rparr> name = (101, Inr ?hs)"
    using p(1) assms(4-6) by (simp add: handle_ws_def pre_upgrade_def pki_peer_cn_def)
  moreover have "agent_dial env' a = Inr None" "opening_frames env' os a = Inr [OutHello (hello_of os a)]"
    using mode(1) by (simp_all add: agent_dial_def opening_frames_def AuthModeMTLS_def AuthModeJWT_def)
  ultimately show ?thesis using p(2) by simp
qed

text \<open>C28: With tokens the self-client is never served. It is given a token of its own, but its configuration leaves open how
  to send it, which is neither by header nor by first frame: on every attempt the server closes for want of a token, or
  answers 401 when it wants the header.\<close>

theorem self_client_never_sends_its_token:
  assumes "self_client_start lib env now reg hostname verified tls cfg ps version name = Inr (agents, m)" "a \<in> set agents"
    and "sc_auth_mode cfg = AuthModeJWT" "ag_cfg a' = ag_cfg a" "au_mode srv = AuthModeJWT"
  shows "(\<forall>header. agent_dial env' a' \<noteq> Inr (Some header)) \<and> opening_frames env' os a' = Inr [OutHello (hello_of os a')] \<and>
    (case handle_ws lib ps srv now' \<lparr>rq_tls = Some peer, rq_authorization = []\<rparr> name of
       (code, Inl e) \<Rightarrow> code = 401
     | (code, Inr hs) \<Rightarrow> serve_handshake lib (Some srv) now' name hs (Frame (frame_of i t (OutHello (hello_of os a')))) r sid =
         Inl (1008, ErrText (Errorf MsgAuthJWTRequired [] None)))"
proof -
  obtain p where p: "store_get ps name = Some p" "ag_cfg a = self_client_config cfg name p (self_node_id hostname verified)"
    using self_client_agents [OF assms(1,2)] by metis
  have via: "effective_jwt_send_via a' = []" "cc_auth_mode (ag_cfg a') = AuthModeJWT"
    using p(2) assms(3,4) by (simp_all add: effective_jwt_send_via_def self_client_config_def JWTSendViaAuto_def)
  have "agent_dial env' a' \<noteq> Inr (Some header)" for header
    using via by (auto simp: agent_dial_def dial_headers_def ebind_def JWTSendViaHeader_def JWTSendViaAuto_def split: sum.splits)
  moreover have "opening_frames env' os a' = Inr [OutHello (hello_of os a')]"
    using via by (simp add: opening_frames_def JWTSendViaFirstFrame_def)
  moreover have "trim_space [] = []" by (simp add: trim_space_def trim_right_def trim_left_def drop_spaces_None strip_space_def strip_space_rev_def space_encodings_def)
  ultimately show ?thesis
    using p(1) assms(5)
    by (simp add: handle_ws_def pre_upgrade_def AuthModeJWT_def AuthModeMTLS_def serve_handshake_def zero_handshake_def
        complete_jwt_def read_kind_def KindHello_def KindAuthJWT_def)
qed

subsection \<open>A server with one profile\<close>

definition self_server :: "auth_mode \<Rightarrow> server_config" where
  "self_server mode = \<lparr>sc_listen = ''0.0.0.0:8443'', sc_auth_mode = mode,
     sc_pki = \<lparr>pk_ca_cert = ''/ca'', pk_server_cert = ''/crt'', pk_server_key = ''/key''\<rparr>,
     sc_jwt = \<lparr>js_secret_file = ''/secret'', js_issuer = ''iss'', js_audience = ''aud'', js_first_frame = None, js_timeout = 0,
       js_timeout_raw = []\<rparr>,
     sc_ssh_nodes = [], sc_log = \<lparr>lc_level = [], lc_format = []\<rparr>, sc_profiles_file = [],
     sc_self_node = \<lparr>sn_enabled = True, sn_client_cert = ''/self.crt'', sn_client_key = ''/self.key''\<rparr>,
     sc_notifier = undefined\<rparr>"

definition signing_lib :: jwt_lib where
  "signing_lib = demo_jwt_lib\<lparr>jl_sign := (\<lambda>key c. Inr ''tok'')\<rparr>"

definition self_start :: "auth_mode \<Rightarrow> gerr + agent list \<times> upgrade_maintainer option" where
  "self_start mode = self_client_start signing_lib (some_secret_host ''a3lz'') (seconds 1000) builtin_registry (Inr ''box'')
     (Inr ''box'') None (self_server mode) demo_store ''1'' ''demo''"

lemma self_starts:
  assumes "mode = AuthModeMTLS \<or> mode = AuthModeJWT"
  shows "\<exists>a m. self_start mode = Inr ([a], m)"
proof -
  have "(case self_start AuthModeMTLS of Inl _ \<Rightarrow> False | Inr (as, _) \<Rightarrow> length as = 1)"
    "(case self_start AuthModeJWT of Inl _ \<Rightarrow> False | Inr (as, _) \<Rightarrow> length as = 1)"
    by code_simp+
  then show ?thesis using assms by (auto simp: length_Suc_conv split: sum.splits)
qed

theorem self_client_served_by_certificate_witness:
  "\<exists>a m hs. self_start AuthModeMTLS = Inr ([a], m) \<and>
    serve_handshake signing_lib (Some (token_auth\<lparr>au_mode := AuthModeMTLS\<rparr>)) (seconds 1000) (ag_profile a) hs TimedOutRead
      (Frame (frame_of ''1'' demo_now (OutHello (hello_of ''linux'' a)))) 5 =
      Inr (hs, \<lparr>se_id = 5, se_profile = ''demo'', se_peer = ''box'', se_identity = ''box'', se_mode = AuthModeMTLS, se_node = ''box''\<rparr>)"
proof -
  obtain a m where a: "self_start AuthModeMTLS = Inr ([a], m)" using self_starts by blast
  show ?thesis
    using a self_client_served_by_certificate [OF a [unfolded self_start_def], where a = a and srv = "token_auth\<lparr>au_mode := AuthModeMTLS\<rparr>"
        and cert = "base_leaf_template 1 ''box'' 0 0" and env' = "some_secret_host []" and os = "''linux''" and now' = "seconds 1000" and r = TimedOutRead and i = "''1''" and t = demo_now and sid = 5]
    by (auto simp: self_server_def base_leaf_template_def)
qed

theorem self_client_never_sends_its_token_witness:
  "\<exists>a m. self_start AuthModeJWT = Inr ([a], m) \<and> opening_frames (some_secret_host []) ''linux'' a = Inr [OutHello (hello_of ''linux'' a)]"
proof -
  obtain a m where a: "self_start AuthModeJWT = Inr ([a], m)" using self_starts by blast
  show ?thesis
    using a self_client_never_sends_its_token [OF a [unfolded self_start_def], where a = a and a' = a and srv = token_auth
        and env' = "some_secret_host []" and os = "''linux''" and now' = "seconds 1000" and peer = "[]" and r = TimedOutRead
        and i = "''1''" and t = demo_now and sid = 5]
    by (auto simp: self_server_def token_auth_def)
qed

end
