(* ===== verification/Reverse_Bridge.thy ===== *)
theory Reverse_Bridge
  imports Client_Reverse Hub
begin

text \<open>
  internal/reversebridge/run.go, with the attach handler of internal/server/status.go it talks to: a bridge connects
  the server's unix socket with a node that waits for connections. Dials are parameters (the parsed URL, the error
  of a dial); a proxy is followed frame by frame.
\<close>

definition DefaultAttachWSPath :: string where "DefaultAttachWSPath = ''/attach/profile/''"

subsection \<open>Targets\<close>

record bridge_target =
  bt_profile :: string
  bt_node :: string
  bt_transport :: string
  bt_url :: string

definition collect_targets :: "profile_store \<Rightarrow> bridge_target list" where
  "collect_targets ps = concat (map (\<lambda>p. map (\<lambda>t.
     \<lparr>bt_profile = pf_name p, bt_node = rt_node_id t, bt_transport = rt_transport t, bt_url = rt_url t\<rparr>) (pf_reverse p)) (store_list ps))"

definition validate_bridge :: "server_config \<Rightarrow> string \<Rightarrow> gerr option" where
  "validate_bridge cfg socket =
     (let s = sc_self_node cfg; bad = (\<lambda>m. Some (wrap_s ErrConfigInvalid m [])) in
      if socket = [] then bad ''reverse connector socket path is required''
      else if \<not> sn_enabled s then bad ''server.self_node.enabled must be true for reverse connector''
      else if sn_client_cert s = [] \<or> sn_client_key s = [] then
        bad ''server.self_node client cert/key are required for reverse connector''
      else None)"

text \<open>The loops that \<open>Run\<close> starts, one per target, and what it makes of the group's error.\<close>

definition bridge_run :: "server_config \<Rightarrow> profile_store \<Rightarrow> string \<Rightarrow> gerr + bridge_target list" where
  "bridge_run cfg ps socket = (case validate_bridge cfg socket of
     Some e \<Rightarrow> Inl e
   | None \<Rightarrow> (let targets = collect_targets ps in
       if targets = [] then Inl (wrap_s ErrConfigInvalid ''no reverse_targets configured'' []) else Inr targets))"

definition bridge_exit :: "gerr option \<Rightarrow> gerr option" where
  "bridge_exit e = (case e of None \<Rightarrow> None | Some x \<Rightarrow> if errors_is x Canceled then None else Some x)"

text \<open>\<open>ProfileSet\<close>: \<open>ord\<close> is the order the names that were not found are ranged over.\<close>

definition wanted_names :: "string \<Rightarrow> string list" where
  "wanted_names pick = filter (\<lambda>s. s \<noteq> []) (map trim_space (split_on (CHR '','') pick))"

fun pick_profiles :: "profile list \<Rightarrow> string list \<Rightarrow> profile list \<times> string list" where
  "pick_profiles [] want = ([], want)"
| "pick_profiles (p # ps) want =
     (if pf_name p \<in> set want
      then (case pick_profiles ps (removeAll (pf_name p) want) of (out, left) \<Rightarrow> (p # out, left))
      else pick_profiles ps want)"

definition profile_set :: "(string list \<Rightarrow> string list) \<Rightarrow> profile_store \<Rightarrow> string \<Rightarrow> gerr + profile_store" where
  "profile_set ord ps pick =
     (if trim_space pick = [] then Inr ps
      else case pick_profiles (store_list ps) (remdups (wanted_names pick)) of
        (out, missing) \<Rightarrow> if missing \<noteq> [] then
            Inl (Errorf ''%w: reverse profile filter names not found: %v'' [ArgL (ord missing)] (Some (Sentinel ErrConfigInvalid)))
          else Inr (new_profile_store (Some out)))"

subsection \<open>The loop\<close>

text \<open>The doubling loop is the one of the client's reconnects.\<close>

definition bridge_backoff :: "nat \<Rightarrow> duration" where
  "bridge_backoff attempt = (let d = grow_delay (attempt - 1) ReconnectInitial ReconnectMax in if d > ReconnectMax then ReconnectMax else d)"

text \<open>A round is an attempt that ended while the context was alive, or one that the context ended.\<close>

fun bridge_loop :: "nat \<Rightarrow> bool list \<Rightarrow> duration list" where
  "bridge_loop attempt [] = []"
| "bridge_loop attempt (alive # rs) = (if alive then bridge_backoff (Suc attempt) # bridge_loop (Suc attempt) rs else [])"

definition target_descriptor :: "bridge_target \<Rightarrow> string" where
  "target_descriptor t = (if bt_transport t = ReverseTransportSSH then bt_node t else bt_url t)"

subsection \<open>One connection\<close>

text \<open>A URL as \<open>net/url\<close> parses it, as far as the code looks.\<close>

record parsed_url =
  ur_host :: string
  ur_hostname :: string
  ur_path :: string

text \<open>The path that is dialled and the name the peer's certificate must have.\<close>

definition dial_remote :: "(string \<Rightarrow> gerr + parsed_url) \<Rightarrow> bridge_target \<Rightarrow> gerr + parsed_url \<times> string" where
  "dial_remote parse t = ebind (parse (bt_url t)) (\<lambda>u.
     let u' = (if ur_path u = [] \<or> ur_path u = ''/'' then u\<lparr>ur_path := DefaultReverseWSPath @ bt_profile t\<rparr> else u)
     in Inr (u', ur_hostname u'))"

definition local_attach_headers :: "bridge_target \<Rightarrow> attach_headers" where
  "local_attach_headers t =
     \<lparr>ah_node_id = bt_node t, ah_identity = bt_node t, ah_peer_cn = bt_node t, ah_auth_mode = AuthModeMTLS\<rparr>"

text \<open>The URL as the code puts it together: the profile's name goes in as it is.\<close>

definition local_attach_url :: "bridge_target \<Rightarrow> string" where
  "local_attach_url t = ''ws://unix'' @ DefaultAttachWSPath @ bt_profile t"

subsection \<open>From the URL to the request\<close>

text \<open>
  What \<open>net/url\<close> and the websocket dialer make of such a URL: the fragment is cut off, then the query; the path is decoded,
  and goes into the request line as it was if all its characters may stand there, else encoded again. A control character
  or a percent sign without two hexadecimal digits is an error.
\<close>

definition control_byte :: "char \<Rightarrow> bool" where
  "control_byte c = (byte_of c < 32 \<or> byte_of c = 127)"

fun percent_decode :: "string \<Rightarrow> string option" where
  "percent_decode [] = Some []"
| "percent_decode (c # cs) =
     (if c \<noteq> CHR ''%'' then map_option ((#) c) (percent_decode cs)
      else (case cs of
          a # b # r \<Rightarrow> (case (hex_value a, hex_value b) of
              (Some x, Some y) \<Rightarrow> map_option ((#) (char_at (16 * x + y))) (percent_decode r)
            | _ \<Rightarrow> None)
        | _ \<Rightarrow> None))"

definition upper_hex :: "nat \<Rightarrow> char" where
  "upper_hex n = (if n < 10 then char_at (n + 48) else char_at (n + 55))"

definition url_unreserved :: "char \<Rightarrow> bool" where
  "url_unreserved c = (let n = byte_of c in
     48 \<le> n \<and> n \<le> 57 \<or> 65 \<le> n \<and> n \<le> 90 \<or> 97 \<le> n \<and> n \<le> 122 \<or> c \<in> set ''-_.~'')"

definition path_plain :: "char \<Rightarrow> bool" where
  "path_plain c = (url_unreserved c \<or> c \<in> set ''$&+,/:;=@'')"

definition percent_encode :: "string \<Rightarrow> string" where
  "percent_encode s = concat (map (\<lambda>c. if path_plain c then [c]
     else [CHR ''%'', upper_hex (byte_of c div 16), upper_hex (byte_of c mod 16)]) s)"

definition escaped_path :: "string \<Rightarrow> string \<Rightarrow> string" where
  "escaped_path raw path = (if list_all (\<lambda>c. path_plain c \<or> c \<in> {CHR 0x27} \<union> set ''!()*[]%'') raw then raw else percent_encode path)"

record url_target =
  ut_escaped :: string
  ut_query :: string

definition ws_target :: "string \<Rightarrow> url_target option" where
  "ws_target url =
     (let u = takeWhile (\<lambda>c. c \<noteq> CHR ''#'') url; fragment = drop (Suc (length u)) url;
          rest = takeWhile (\<lambda>c. c \<noteq> CHR ''?'') u; query = drop (Suc (length rest)) u
      in if list_ex control_byte u \<or> percent_decode fragment = None then None
         else Option.bind (strip_prefix ''ws://'' rest) (\<lambda>r.
           let raw = dropWhile (\<lambda>c. c \<noteq> slash) r in
           map_option (\<lambda>path. \<lparr>ut_escaped = escaped_path raw path, ut_query = query\<rparr>) (percent_decode raw)))"

text \<open>\<open>http.ServeMux\<close> serves a clean path only; it redirects every other. A trailing slash is clean.\<close>

definition mux_path :: "string \<Rightarrow> string" where
  "mux_path p = (let np = path_clean p in if last p = slash \<and> np \<noteq> [slash] then np @ [slash] else np)"

text \<open>\<open>proxyWebsocket\<close>: what it wrote, and the error it reports. The reads are given; they end with an error.\<close>

fun proxy_websocket :: "('m \<Rightarrow> gerr option) \<Rightarrow> (gerr + 'm) list \<Rightarrow> 'm list \<times> gerr option" where
  "proxy_websocket write [] = ([], None)"
| "proxy_websocket write (Inl e # rs) = ([], Some e)"
| "proxy_websocket write (Inr m # rs) = (case write m of
     Some e \<Rightarrow> ([], Some e)
   | None \<Rightarrow> (case proxy_websocket write rs of (out, e) \<Rightarrow> (m # out, e)))"

subsection \<open>The server's end of the socket\<close>

definition attach_handler :: "profile_store \<Rightarrow> string \<Rightarrow> attach_headers \<Rightarrow> (int \<times> reason) + string \<times> handshake_auth" where
  "attach_handler ps path h =
     (let profile = trim_space (trim_prefix path DefaultAttachWSPath) in
      if profile = [] then Inl (400, Reason ''profile required'')
      else if store_get ps profile = None then Inl (404, Reason ''unknown profile'')
      else (case attach_handshake h of
          Inl e \<Rightarrow> Inl (400, ErrText e)
        | Inr hs \<Rightarrow> Inr (profile, hs)))"

text \<open>A dial of the socket up to the handler, which is given the decoded path of the request line. The headers arrive as they were set.\<close>

definition attach_request :: "profile_store \<Rightarrow> string \<Rightarrow> attach_headers \<Rightarrow> (int \<times> reason) + string \<times> handshake_auth" where
  "attach_request ps url h = (case ws_target url of
     None \<Rightarrow> Inl (0, Reason ''not a URL'')
   | Some t \<Rightarrow>
       if CHR '' '' \<in> set (ut_query t) then Inl (400, Reason ''malformed request line'')
       else case percent_decode (ut_escaped t) of
         None \<Rightarrow> Inl (400, Reason ''malformed request line'')
       | Some path \<Rightarrow>
           if mux_path (ut_escaped t) \<noteq> ut_escaped t then Inl (301, Reason ''moved'')
           else if \<not> has_prefix (ut_escaped t) DefaultAttachWSPath then Inl (404, Reason ''another handler'')
           else attach_handler ps path h)"

text \<open>Names that a URL's path and a header carry as they are.\<close>

definition url_word :: "string \<Rightarrow> bool" where
  "url_word s \<longleftrightarrow> s \<noteq> [] \<and> list_all url_unreserved s \<and> s \<noteq> ''.'' \<and> s \<noteq> ''..''"

end
