(* ===== verification/Ssh_Bridge.thy ===== *)
theory Ssh_Bridge
  imports Reverse_Bridge Logging Go_Text
begin

text \<open>
  internal/reversebridge/ssh.go: the login data of a node, from the server's configuration and the user's
  SSH configuration, the choice of keys and of the check of the host's key, and the command that starts a
  client on the node. The packages for SSH and its configuration files are parameters.
\<close>

definition defaultManagedConfigPath :: string where "defaultManagedConfigPath = ''$HOME/pangaea-client.yaml''"
definition defaultManagedCommand :: string where "defaultManagedCommand = ''pangaeactl''"
definition defaultManagedListenAddr :: string where "defaultManagedListenAddr = ''127.0.0.1:0''"

record ssh_resolved =
  sr_node_id :: string
  sr_alias :: string
  sr_user :: string
  sr_host :: string
  sr_port :: int
  sr_reverse_addr :: string
  sr_command :: string
  sr_config_path :: string
  sr_identity :: "string list"
  sr_known_hosts :: "string list"
  sr_agent :: string
  sr_strict :: string

text \<open>\<open>sv_get\<close> and \<open>sv_get_all\<close> look a key of an alias up in the SSH configuration; \<open>sv_user\<close> is the user name
  of the process; \<open>sv_exists\<close>, \<open>sv_agent\<close> and \<open>sv_key\<close> tell whether a file exists, a socket answers, a key file
  holds a key.\<close>

record ssh_env =
  sv_host :: host_env
  sv_lower :: "string \<Rightarrow> string"
  sv_get :: "string \<Rightarrow> string \<Rightarrow> gerr + string"
  sv_get_all :: "string \<Rightarrow> string \<Rightarrow> gerr + string list"
  sv_user :: "gerr + string"
  sv_exists :: "string \<Rightarrow> bool"
  sv_agent :: "string \<Rightarrow> bool"
  sv_key :: "string \<Rightarrow> bool"

subsection \<open>Login data\<close>

definition split_ssh_target :: "string \<Rightarrow> string \<times> string" where
  "split_ssh_target target = (let t = trim_space target in
     if t = [] then ([], [])
     else (case after_last (CHR ''@'') t of
         Some host \<Rightarrow> (take (length t - length host - 1) t, host)
       | None \<Rightarrow> ([], t)))"

text \<open>A lookup that succeeds with more than blanks.\<close>

definition ssh_lookup :: "ssh_env \<Rightarrow> string \<Rightarrow> string \<Rightarrow> string option" where
  "ssh_lookup env alias key = (case sv_get env alias key of
     Inl _ \<Rightarrow> None
   | Inr v \<Rightarrow> if trim_space v = [] then None else Some (trim_space v))"

definition expand_local_paths :: "host_env \<Rightarrow> string list \<Rightarrow> string list" where
  "expand_local_paths env paths = List.map_filter (\<lambda>p. let q = trim_space p in
     if q = [] then None else (case expand_path env q of Inl _ \<Rightarrow> None | Inr x \<Rightarrow> Some x)) paths"

definition default_identity_files :: "string list" where
  "default_identity_files = [path_join [''~'', ''.ssh'', ''id_ed25519''], path_join [''~'', ''.ssh'', ''id_ecdsa''],
     path_join [''~'', ''.ssh'', ''id_rsa'']]"

text \<open>The loop's map \<open>seen\<close> has the strings of \<open>out\<close>.\<close>

definition dedupe_strings :: "string list \<Rightarrow> string list" where
  "dedupe_strings vs = foldl (\<lambda>out v. if v = [] then out else if v \<in> set out then out else out @ [v]) [] vs"

definition existing_files :: "ssh_env \<Rightarrow> string list \<Rightarrow> string list" where
  "existing_files env paths = filter (\<lambda>p. p \<noteq> [] \<and> sv_exists env p) paths"

definition or_default :: "string \<Rightarrow> string \<Rightarrow> string" where
  "or_default d s = (if s = [] then d else s)"

text \<open>What the SSH configuration adds; a port that is no number is an error.\<close>

definition apply_ssh_config :: "ssh_env \<Rightarrow> ssh_node \<Rightarrow> ssh_resolved \<Rightarrow> gerr + ssh_resolved" where
  "apply_ssh_config env node r =
     (let alias = sr_alias r;
          r1 = (case ssh_lookup env alias ''HostName'' of None \<Rightarrow> r | Some h \<Rightarrow> r\<lparr>sr_host := h\<rparr>);
          r2 = (if sr_user r1 = [] then (case ssh_lookup env alias ''User'' of None \<Rightarrow> r1 | Some u \<Rightarrow> r1\<lparr>sr_user := u\<rparr>) else r1)
      in ebind (if sh_port node = 0 then (case ssh_lookup env alias ''Port'' of
            None \<Rightarrow> Inr r2
          | Some p \<Rightarrow> (case parse_int64 p of
              None \<Rightarrow> Inl (wrap_e (Ext ''strconv'') ErrConfigInvalid ''ssh_nodes[%s].port from ssh config'' [ArgS (sh_node_id node)])
            | Some n \<Rightarrow> Inr (r2\<lparr>sr_port := n\<rparr>))) else Inr r2) (\<lambda>r3.
         let r4 = (case ssh_lookup env alias ''StrictHostKeyChecking'' of
               None \<Rightarrow> r3 | Some s \<Rightarrow> r3\<lparr>sr_strict := to_lower (sv_lower env) s\<rparr>);
             r5 = (case ssh_lookup env alias ''IdentityAgent'' of None \<Rightarrow> r4 | Some s \<Rightarrow> r4\<lparr>sr_agent := s\<rparr>);
             r6 = (case sv_get_all env alias ''UserKnownHostsFile'' of
               Inl _ \<Rightarrow> r5 | Inr fs \<Rightarrow> r5\<lparr>sr_known_hosts := sr_known_hosts r5 @ concat (map str_fields fs)\<rparr>)
         in Inr (case sv_get_all env alias ''IdentityFile'' of
               Inl _ \<Rightarrow> r6 | Inr fs \<Rightarrow> r6\<lparr>sr_identity := sr_identity r6 @ fs\<rparr>)))"

definition new_resolved :: "ssh_node \<Rightarrow> string \<Rightarrow> string \<Rightarrow> ssh_resolved" where
  "new_resolved node user alias =
     \<lparr>sr_node_id = sh_node_id node, sr_alias = alias, sr_user = user, sr_host = alias, sr_port = 22,
      sr_reverse_addr = trim_space (sh_reverse_addr node),
      sr_command = or_default defaultManagedCommand (trim_space (sh_command node)),
      sr_config_path = or_default defaultManagedConfigPath (trim_space (sh_config_path node)),
      sr_identity = [], sr_known_hosts = [], sr_agent = [], sr_strict = ''yes''\<rparr>"

definition finish_resolved :: "ssh_env \<Rightarrow> ssh_node \<Rightarrow> ssh_resolved \<Rightarrow> ssh_resolved" where
  "finish_resolved env node r =
     (let r1 = (if sh_port node > 0 then r\<lparr>sr_port := sh_port node\<rparr> else r);
          r2 = (if sr_user r1 = [] then (case sv_user env of Inl _ \<Rightarrow> r1 | Inr u \<Rightarrow> if u = [] then r1 else r1\<lparr>sr_user := u\<rparr>) else r1);
          known = (if sr_known_hosts r2 = [] then [path_join [''~'', ''.ssh'', ''known_hosts''], path_join [''~'', ''.ssh'', ''known_hosts2'']]
            else sr_known_hosts r2)
      in r2\<lparr>sr_agent := (if sr_agent r2 = [] \<or> sr_agent r2 = ''SSH_AUTH_SOCK'' then he_getenv (sv_host env) ''SSH_AUTH_SOCK'' else sr_agent r2),
            sr_known_hosts := dedupe_strings (expand_local_paths (sv_host env) known),
            sr_identity := dedupe_strings (expand_local_paths (sv_host env) (sr_identity r2 @ default_identity_files))\<rparr>)"

definition materialize_ssh_node :: "ssh_env \<Rightarrow> ssh_node \<Rightarrow> gerr + ssh_resolved" where
  "materialize_ssh_node env node = (case split_ssh_target (sh_target node) of (user, alias) \<Rightarrow>
     if alias = [] then Inl (wrap_s ErrConfigInvalid ''ssh_nodes[%s].target is invalid'' [ArgS (sh_node_id node)])
     else let r = new_resolved node user alias in
       ebind (if sh_use_ssh_config node then apply_ssh_config env node r else Inr r) (\<lambda>r'. Inr (finish_resolved env node r')))"

definition resolve_ssh_node :: "ssh_env \<Rightarrow> ssh_node list \<Rightarrow> string \<Rightarrow> gerr + ssh_resolved" where
  "resolve_ssh_node env nodes node_id = (case find (\<lambda>n. sh_node_id n = node_id) nodes of
     Some node \<Rightarrow> materialize_ssh_node env node
   | None \<Rightarrow> Inl (wrap_s ErrConfigInvalid ''ssh node %q not found in server.ssh_nodes'' [ArgS node_id]))"

subsection \<open>Keys\<close>

datatype auth_method = AgentKeys string | KeyFile string

definition ssh_auth_methods :: "ssh_env \<Rightarrow> ssh_resolved \<Rightarrow> gerr + auth_method list" where
  "ssh_auth_methods env r =
     (let methods = (if sr_agent r \<noteq> [] \<and> sv_agent env (sr_agent r) then [AgentKeys (sr_agent r)] else [])
        @ map KeyFile (filter (\<lambda>p. p \<noteq> [] \<and> (case he_read (sv_host env) p of Inl _ \<Rightarrow> False | Inr k \<Rightarrow> sv_key env k)) (sr_identity r))
      in if methods = [] then
           Inl (wrap_s ErrConfigInvalid ''no usable SSH auth method found for target %q'' [ArgS (sr_alias r)])
         else Inr methods)"

text \<open>How the key of the host is checked: not at all, or against known hosts files.\<close>

datatype host_key_check = IgnoreHostKey | KnownHosts "string list"

definition ssh_host_key_callback :: "ssh_env \<Rightarrow> ssh_resolved \<Rightarrow> gerr + host_key_check" where
  "ssh_host_key_callback env r =
     (let files = existing_files env (sr_known_hosts r) in
      if sr_strict r \<in> {''no'', ''off''} then Inr IgnoreHostKey
      else if sr_strict r \<in> {''yes'', ''ask'', ''accept-new'', []} then
        (if files = [] then Inl (wrap_s ErrConfigInvalid ''no known_hosts files found for SSH target %q'' [ArgS (sr_alias r)])
         else Inr (KnownHosts files))
      else if files = [] then Inl (wrap_s ErrConfigInvalid ''unsupported StrictHostKeyChecking=%q for SSH target %q''
        [ArgS (sr_strict r), ArgS (sr_alias r)])
      else Inr (KnownHosts files))"

text \<open>What \<open>dialSSH\<close> hands to the SSH library.\<close>

record ssh_dial =
  sd_user :: string
  sd_auth :: "auth_method list"
  sd_check :: host_key_check
  sd_addr :: string

definition join_host_port :: "string \<Rightarrow> string \<Rightarrow> string" where
  "join_host_port host port = (if CHR '':'' \<in> set host then ''['' @ host @ '']:'' @ port else host @ '':'' @ port)"

definition dial_ssh :: "ssh_env \<Rightarrow> ssh_resolved \<Rightarrow> gerr + ssh_dial" where
  "dial_ssh env r = ebind (ssh_auth_methods env r) (\<lambda>auth. ebind (ssh_host_key_callback env r) (\<lambda>check.
     Inr \<lparr>sd_user = sr_user r, sd_auth = auth, sd_check = check, sd_addr = join_host_port (sr_host r) (int_text (sr_port r))\<rparr>))"

subsection \<open>The remote command\<close>

definition single_quote :: char where "single_quote = CHR 0x27"
definition double_quote :: char where "double_quote = CHR 0x22"

definition quoted_quote :: string where
  "quoted_quote = [single_quote, double_quote, single_quote, double_quote, single_quote]"

definition shell_quote :: "string \<Rightarrow> string" where
  "shell_quote s = [single_quote] @ replace_all [single_quote] quoted_quote s @ [single_quote]"

definition quoted_home :: string where "quoted_home = [double_quote] @ ''$HOME'' @ [double_quote]"

definition shell_path_expr :: "string \<Rightarrow> string" where
  "shell_path_expr path =
     (if has_prefix path ''~/'' then quoted_home @ shell_quote (trim_prefix path ''~'')
      else if has_prefix path ''$HOME/'' then quoted_home @ shell_quote (trim_prefix path ''$HOME'')
      else shell_quote path)"

definition managed_script :: "ssh_resolved \<Rightarrow> string \<Rightarrow> string" where
  "managed_script node profile =
     ''command -v '' @ shell_quote (sr_command node) @
     '' >/dev/null 2>&1 || { echo missing-command >&2; exit 127; }; '' @ ''exec '' @ shell_quote (sr_command node) @
     '' reverse-client'' @ '' -c '' @ shell_path_expr (sr_config_path node) @ '' --profile '' @ shell_quote profile @
     '' --listen '' @ shell_quote defaultManagedListenAddr @ '' --print-listen-addr'' @ '' --log-level warn --log-format json''"

definition build_managed_remote_command :: "ssh_resolved \<Rightarrow> string \<Rightarrow> string" where
  "build_managed_remote_command node profile = ''sh -lc '' @ shell_quote (managed_script node profile)"

subsection \<open>Through the tunnel\<close>

text \<open>\<open>startManagedReverseClient\<close> and \<open>dialRemoteOverSSH\<close>: the first line the client prints is where it listens; the
  name its certificate must have is the host of that address.\<close>

definition managed_listen_addr :: "gerr + string \<Rightarrow> gerr + string" where
  "managed_listen_addr first_line = (case first_line of Inl e \<Rightarrow> Inl e | Inr line \<Rightarrow> Inr (trim_space line))"

definition dial_remote_over_ssh ::
  "(string \<Rightarrow> gerr + string \<times> string) \<Rightarrow> bridge_target \<Rightarrow> string \<Rightarrow> gerr + parsed_url \<times> string" where
  "dial_remote_over_ssh split t addr = ebind (split addr) (\<lambda>(host, _).
     Inr (\<lparr>ur_host = addr, ur_hostname = host, ur_path = DefaultReverseWSPath @ bt_profile t\<rparr>, host))"

text \<open>\<open>bridgeOnceSSH\<close> up to the dials: the login and the remote command, if one is started.\<close>

definition bridge_once_ssh ::
  "ssh_env \<Rightarrow> server_config \<Rightarrow> bridge_target \<Rightarrow> gerr + ssh_dial \<times> string option" where
  "bridge_once_ssh env cfg t = ebind (resolve_ssh_node env (sc_ssh_nodes cfg) (bt_node t)) (\<lambda>node.
     ebind (dial_ssh env node) (\<lambda>login.
       Inr (login, if sr_reverse_addr node = [] then Some (build_managed_remote_command node (bt_profile t)) else None)))"

end
