(* ===== verification/Ssh_Bridge_Props.thy ===== *)
theory Ssh_Bridge_Props
  imports Ssh_Bridge Client_Agent_Props Hub_Props Server_Auth_Props Config_Props
begin

text \<open>
  The remote command read as a POSIX shell reads it: names and paths of the configuration are arguments and nothing
  else, whatever characters they have. The choice of the host-key check, and the sessions a bridge opens.
\<close>

subsection \<open>Reading words like the shell\<close>

text \<open>A word is its characters, each with whether it was quoted: operators, keywords, globs and blanks have their meaning
  only where they are not. Of expansions only \<open>$HOME\<close> between double quotes is read; other uses of \<open>$\<close>, a back
  tick or a backslash outside single quotes give \<open>None\<close>.\<close>

type_synonym sh_word = "(bool \<times> char) list"

definition plain :: "string \<Rightarrow> sh_word" where "plain s = map (Pair False) s"
definition quoted :: "string \<Rightarrow> sh_word" where "quoted s = map (Pair True) s"

datatype sh_mode = Bare | Single | Double

definition sh_add :: "sh_word \<Rightarrow> sh_word option \<Rightarrow> sh_word option" where
  "sh_add cs w = Some ((case w of None \<Rightarrow> [] | Some v \<Rightarrow> v) @ cs)"

definition sh_end :: "sh_word option \<Rightarrow> sh_word list \<Rightarrow> sh_word list" where
  "sh_end w ws = (case w of None \<Rightarrow> ws | Some v \<Rightarrow> v # ws)"

definition sh_special :: "char \<Rightarrow> bool" where
  "sh_special c = (c = CHR ''$'' \<or> c = CHR ''`'' \<or> c = CHR 0x5C)"

function sh_read :: "string \<Rightarrow> sh_mode \<Rightarrow> sh_word option \<Rightarrow> string \<Rightarrow> sh_word list option" where
  "sh_read home Bare w [] = Some (sh_end w [])"
| "sh_read home Single w [] = None"
| "sh_read home Double w [] = None"
| "sh_read home Bare w (c # cs) =
     (if c = CHR '' '' then map_option (sh_end w) (sh_read home Bare None cs)
      else if c = single_quote then sh_read home Single (sh_add [] w) cs
      else if c = double_quote then sh_read home Double (sh_add [] w) cs
      else if sh_special c then None
      else sh_read home Bare (sh_add (plain [c]) w) cs)"
| "sh_read home Single w (c # cs) =
     (if c = single_quote then sh_read home Bare w cs else sh_read home Single (sh_add (quoted [c]) w) cs)"
| "sh_read home Double w (c # cs) =
     (if c = double_quote then sh_read home Bare w cs
      else if has_prefix (c # cs) ''$HOME'' \<and> (case drop 4 cs of [] \<Rightarrow> False | d # _ \<Rightarrow> \<not> shell_alnum d)
        then sh_read home Double (sh_add (quoted home) w) (drop 4 cs)
      else if sh_special c then None
      else sh_read home Double (sh_add (quoted [c]) w) cs)"
  by pat_completeness auto
termination by (relation "measure (\<lambda>(_, _, _, s). length s)") auto

declare sh_read.simps [simp del]

lemma sh_add_add [simp]: "sh_add b (sh_add a w) = sh_add (a @ b) w"
  by (simp add: sh_add_def)

lemma quoted_simps [simp]: "quoted [] = []" "quoted (c # s) = (True, c) # quoted s" "quoted (s @ t) = quoted s @ quoted t"
  by (simp_all add: quoted_def)

lemma read_single:
  "sh_read home Single w (replace_all [single_quote] quoted_quote s @ single_quote # r) = sh_read home Bare (sh_add (quoted s) (sh_add [] w)) r"
  if "w \<noteq> None"
  using that
proof (induction s arbitrary: w)
  case Nil
  then show ?case by (auto simp: sh_read.simps sh_add_def)
next
  case (Cons c s)
  have w: "sh_add x w \<noteq> None" for x by (simp add: sh_add_def)
  show ?case
  proof (cases "c = single_quote")
    case True
    have "sh_read home Single w (quoted_quote @ t) = sh_read home Single (sh_add (quoted [single_quote]) w) t" for t
      by (simp add: quoted_quote_def sh_read.simps single_quote_def double_quote_def sh_special_def has_prefix_def)
    then show ?thesis using True Cons.IH [OF w] by simp
  next
    case False
    then show ?thesis using Cons.IH [OF w, of "quoted [c]"] by (simp add: sh_read.simps)
  qed
qed

lemma read_shell_quote:
  "sh_read home Bare w (shell_quote s @ r) = sh_read home Bare (sh_add (quoted s) w) r"
proof -
  have "sh_read home Bare w (shell_quote s @ r) =
      sh_read home Single (sh_add [] w) (replace_all [single_quote] quoted_quote s @ single_quote # r)"
    by (simp add: shell_quote_def sh_read.simps single_quote_def)
  moreover have "sh_add [] w \<noteq> None" by (simp add: sh_add_def)
  ultimately show ?thesis by (simp add: read_single)
qed

lemma read_quoted_home: "sh_read home Bare w (quoted_home @ r) = sh_read home Bare (sh_add (quoted home) w) r"
  by (simp add: quoted_home_def sh_read.simps single_quote_def double_quote_def has_prefix_def sh_special_def shell_alnum_def char_in_def)

lemma read_blank: "sh_read home Bare w (CHR '' '' # r) = map_option (sh_end w) (sh_read home Bare None r)"
  by (simp add: sh_read.simps)

definition bare_char :: "char \<Rightarrow> bool" where
  "bare_char c = (c \<noteq> CHR '' '' \<and> c \<noteq> single_quote \<and> c \<noteq> double_quote \<and> \<not> sh_special c)"

lemma read_bare_word: "list_all bare_char s \<Longrightarrow> s \<noteq> [] \<Longrightarrow> sh_read home Bare w (s @ r) = sh_read home Bare (sh_add (plain s) w) r"
proof (induction s arbitrary: w)
  case (Cons c s)
  have "sh_read home Bare w (c # s @ r) = sh_read home Bare (sh_add (plain [c]) w) (s @ r)"
    using Cons.prems(1) by (simp add: sh_read.simps bare_char_def)
  then show ?case using Cons by (cases "s = []") (simp_all add: plain_def)
qed simp

definition path_value :: "string \<Rightarrow> string \<Rightarrow> string" where
  "path_value home path = (if has_prefix path ''~/'' then home @ trim_prefix path ''~''
     else if has_prefix path ''$HOME/'' then home @ trim_prefix path ''$HOME'' else path)"

lemma read_path: "sh_read home Bare w (shell_path_expr p @ r) = sh_read home Bare (sh_add (quoted (path_value home p)) w) r"
  by (simp add: shell_path_expr_def path_value_def read_quoted_home read_shell_quote)

text \<open>The command is words with one blank between them.\<close>

datatype sh_item = W string | Q string | P string

primrec item_text :: "sh_item \<Rightarrow> string" where
  "item_text (W s) = s"
| "item_text (Q s) = shell_quote s"
| "item_text (P s) = shell_path_expr s"

primrec item_word :: "string \<Rightarrow> sh_item \<Rightarrow> sh_word" where
  "item_word home (W s) = plain s"
| "item_word home (Q s) = quoted s"
| "item_word home (P s) = quoted (path_value home s)"

primrec item_ok :: "sh_item \<Rightarrow> bool" where
  "item_ok (W s) = (s \<noteq> [] \<and> list_all bare_char s)"
| "item_ok (Q s) = True"
| "item_ok (P s) = True"

lemma read_item: "item_ok i \<Longrightarrow> sh_read home Bare w (item_text i @ r) = sh_read home Bare (sh_add (item_word home i) w) r"
  by (cases i) (simp_all add: read_bare_word read_shell_quote read_path)

lemma read_items:
  "list_all item_ok is \<Longrightarrow> sh_read home Bare None (join_with '' '' (map item_text is)) = Some (map (item_word home) is)"
proof (induction "is" rule: induct_list012)
  case (2 i)
  then show ?case using read_item [of i home None "[]"] by (simp add: sh_read.simps sh_end_def sh_add_def)
next
  case (3 i j "is")
  then show ?case by (simp add: read_item read_blank sh_end_def sh_add_def)
qed (simp add: sh_read.simps sh_end_def)

definition script_items :: "ssh_resolved \<Rightarrow> string \<Rightarrow> sh_item list" where
  "script_items node profile =
     [W ''command'', W ''-v'', Q (sr_command node), W ''>/dev/null'', W ''2>&1'', W ''||'', W ''{'', W ''echo'', W ''missing-command'',
      W ''>&2;'', W ''exit'', W ''127;'', W ''};'', W ''exec'', Q (sr_command node), W ''reverse-client'', W ''-c'',
      P (sr_config_path node), W ''--profile'', Q profile, W ''--listen'', Q defaultManagedListenAddr, W ''--print-listen-addr'',
      W ''--log-level'', W ''warn'', W ''--log-format'', W ''json'']"

lemma managed_script_items: "managed_script node profile = join_with '' '' (map item_text (script_items node profile))"
  by (simp add: managed_script_def script_items_def)

lemma script_items_ok: "list_all item_ok (script_items node profile)"
  by (simp add: script_items_def bare_char_def single_quote_def double_quote_def sh_special_def)

text \<open>C29: Whatever the command, the configuration path and the profile are, blanks, quotes and operators included, the
  login shell of the node runs \<open>sh -lc\<close> with one argument, and in it the shell sees the words of the script with the three
  as quoted words of their own: each is one argument, the path with the home directory put in, and none can
  add a command, an option or a redirection.\<close>

theorem remote_command_cannot_be_injected:
  "sh_read home Bare None (build_managed_remote_command node profile) =
     Some [plain ''sh'', plain ''-lc'', quoted (managed_script node profile)] \<and>
   sh_read home Bare None (managed_script node profile) = Some (
     map plain [''command'', ''-v''] @ [quoted (sr_command node)] @
     map plain [''>/dev/null'', ''2>&1'', ''||'', ''{'', ''echo'', ''missing-command'', ''>&2;'', ''exit'', ''127;'', ''};'', ''exec''] @
     [quoted (sr_command node), plain ''reverse-client'', plain ''-c'', quoted (path_value home (sr_config_path node)),
      plain ''--profile'', quoted profile, plain ''--listen'', quoted ''127.0.0.1:0'', plain ''--print-listen-addr''] @
     map plain [''--log-level'', ''warn'', ''--log-format'', ''json''])"
proof -
  have "build_managed_remote_command node profile = join_with '' '' (map item_text [W ''sh'', W ''-lc'', Q (managed_script node profile)])"
    by (simp add: build_managed_remote_command_def)
  moreover have "list_all item_ok [W ''sh'', W ''-lc'', Q (managed_script node profile)]"
    by (simp add: bare_char_def single_quote_def double_quote_def sh_special_def)
  ultimately have "sh_read home Bare None (build_managed_remote_command node profile) =
      Some (map (item_word home) [W ''sh'', W ''-lc'', Q (managed_script node profile)])"
    by (simp only: read_items)
  moreover have "sh_read home Bare None (managed_script node profile) = Some (map (item_word home) (script_items node profile))"
    using read_items [OF script_items_ok] by (simp only: managed_script_items)
  ultimately show ?thesis by (simp only: script_items_def defaultManagedListenAddr_def list.map item_word.simps append.simps)
qed

subsection \<open>Host keys\<close>

lemma finish_strict: "sr_strict (finish_resolved env node r) = sr_strict r"
  by (simp add: finish_resolved_def Let_def split: sum.splits)

lemma strict_steps:
  "sr_strict (case x of None \<Rightarrow> q | Some h \<Rightarrow> q\<lparr>sr_host := h\<rparr>) = sr_strict q"
  "sr_strict (case x of None \<Rightarrow> q | Some u \<Rightarrow> q\<lparr>sr_user := u\<rparr>) = sr_strict q"
  "sr_strict (case x of None \<Rightarrow> q | Some a \<Rightarrow> q\<lparr>sr_agent := a\<rparr>) = sr_strict q"
  "sr_strict (case x of None \<Rightarrow> q | Some s \<Rightarrow> q\<lparr>sr_strict := f s\<rparr>) = (case x of None \<Rightarrow> sr_strict q | Some s \<Rightarrow> f s)"
  "sr_strict (case y of Inl (_::gerr) \<Rightarrow> q | Inr fs \<Rightarrow> q\<lparr>sr_known_hosts := g fs\<rparr>) = sr_strict q"
  "sr_strict (case y of Inl (_::gerr) \<Rightarrow> q | Inr fs \<Rightarrow> q\<lparr>sr_identity := g fs\<rparr>) = sr_strict q"
  by (simp_all split: option.split sum.split)

lemma port_step:
  "(if b then (case x of None \<Rightarrow> Inr q | Some p \<Rightarrow> (case parse p of None \<Rightarrow> Inl e | Some n \<Rightarrow> Inr (q\<lparr>sr_port := n\<rparr>))) else Inr q) = Inr q' \<Longrightarrow>
   sr_strict q' = sr_strict q"
  by (auto split: if_splits option.splits)

lemma apply_strict:
  assumes "apply_ssh_config env node r = Inr r'"
  shows "sr_strict r' =
     (case ssh_lookup env (sr_alias r) ''StrictHostKeyChecking'' of None \<Rightarrow> sr_strict r | Some s \<Rightarrow> to_lower (sv_lower env) s)"
  using assms unfolding apply_ssh_config_def Let_def ebind_Inr_iff
  apply (elim exE conjE)
  apply (drule port_step)
  apply (drule sum.inject(2) [THEN iffD1])
  apply hypsubst
  apply (simp only: strict_steps if_distrib [of sr_strict] if_cancel)
  done

text \<open>C30: A bridge logs in to a host without checking its key only if the node may use the user's SSH
  configuration and that sets \<open>StrictHostKeyChecking\<close> to no or off for the host; in every other case the key is checked against
  known-hosts files that exist, and without one there is no login.\<close>

theorem host_key_is_checked:
  assumes "bridge_once_ssh env cfg t = Inr (login, command)"
  shows "case sd_check login of
      KnownHosts files \<Rightarrow> files \<noteq> [] \<and> list_all (sv_exists env) files
    | IgnoreHostKey \<Rightarrow> (case find (\<lambda>n. sh_node_id n = bt_node t) (sc_ssh_nodes cfg) of
        None \<Rightarrow> False
      | Some node \<Rightarrow> sh_use_ssh_config node \<and>
          (case ssh_lookup env (snd (split_ssh_target (sh_target node))) ''StrictHostKeyChecking'' of
             None \<Rightarrow> False | Some s \<Rightarrow> to_lower (sv_lower env) s \<in> {''no'', ''off''}))"
proof -
  obtain r where r: "resolve_ssh_node env (sc_ssh_nodes cfg) (bt_node t) = Inr r" "dial_ssh env r = Inr login"
    using assms by (auto simp: bridge_once_ssh_def ebind_Inr_iff)
  then have check: "ssh_host_key_callback env r = Inr (sd_check login)" by (auto simp: dial_ssh_def ebind_Inr_iff)
  show ?thesis
  proof (cases "sd_check login")
    case (KnownHosts files)
    then have "files = existing_files env (sr_known_hosts r) \<and> files \<noteq> []"
      using check by (auto simp: ssh_host_key_callback_def Let_def split: if_splits)
    then show ?thesis by (auto simp: KnownHosts existing_files_def list_all_iff)
  next
    case IgnoreHostKey
    then have strict: "sr_strict r \<in> {''no'', ''off''}"
      using check by (auto simp: ssh_host_key_callback_def Let_def split: if_splits)
    obtain node where node: "find (\<lambda>n. sh_node_id n = bt_node t) (sc_ssh_nodes cfg) = Some node" "materialize_ssh_node env node = Inr r"
      using r(1) by (auto simp: resolve_ssh_node_def split: option.splits)
    obtain login_user host_alias where target: "split_ssh_target (sh_target node) = (login_user, host_alias)" by fastforce
    obtain r' where r': "(if sh_use_ssh_config node then apply_ssh_config env node (new_resolved node login_user host_alias)
        else Inr (new_resolved node login_user host_alias)) = Inr r'" "r = finish_resolved env node r'"
      using node(2) target by (auto simp: materialize_ssh_node_def Let_def ebind_Inr_iff split: if_splits)
    have new: "sr_strict (new_resolved node login_user host_alias) = ''yes''" "sr_alias (new_resolved node login_user host_alias) = host_alias"
      by (simp_all add: new_resolved_def)
    have s: "sr_strict r' \<in> {''no'', ''off''}" using strict r'(2) by (simp add: finish_strict)
    then have use: "sh_use_ssh_config node" using r'(1) new(1) by (auto split: if_splits)
    then have "sr_strict r' = (case ssh_lookup env host_alias ''StrictHostKeyChecking'' of None \<Rightarrow> ''yes'' | Some s \<Rightarrow> to_lower (sv_lower env) s)"
      using r'(1) new apply_strict [of env node "new_resolved node login_user host_alias" r'] by (simp split: option.splits)
    then show ?thesis using s use node(1) target IgnoreHostKey by (auto split: option.splits)
  qed
qed

subsection \<open>Sessions of a bridge\<close>

lemma bridge_backoff_closed: "bridge_backoff attempt = min (ReconnectInitial * 2 ^ (attempt - 1)) ReconnectMax"
proof -
  have "bridge_backoff attempt = min (grow_delay (attempt - 1) ReconnectInitial ReconnectMax) ReconnectMax"
    by (simp add: bridge_backoff_def Let_def min_def)
  also have "\<dots> = min (ReconnectInitial * 2 ^ (attempt - 1)) ReconnectMax"
    by (rule grow_delay_closed) (simp_all add: ReconnectInitial_def ReconnectMax_def seconds_def max_int64_def)
  finally show ?thesis .
qed

lemma dedupe_firsts: "dedupe_strings vs = firsts (filter (\<lambda>v. v \<noteq> []) vs)"
  by (induction vs rule: rev_induct) (simp_all add: dedupe_strings_def firsts_snoc)

lemma proxy_in_order: "proxy_websocket write rs = (out, e) \<Longrightarrow> \<exists>rest. rs = map Inr out @ rest"
proof (induction rs arbitrary: out)
  case (Cons r rs)
  then show ?case by (cases r) (auto split: option.splits prod.splits)
qed simp

text \<open>A name of unreserved characters goes through the URL and the server's mux unchanged.\<close>

lemma unreserved_char:
  assumes "url_unreserved c"
  shows "c \<noteq> CHR ''#''" "c \<noteq> CHR ''?''" "c \<noteq> CHR ''%''" "c \<noteq> slash" "\<not> control_byte c" "printable c" "path_plain c"
  using assms by (auto simp: url_unreserved_def control_byte_def printable_def slash_def path_plain_def Let_def)

lemma decode_plain: "CHR ''%'' \<notin> set s \<Longrightarrow> percent_decode s = Some s"
  by (induction s) auto

lemma split_on_none: "d \<notin> set s \<Longrightarrow> split_on d s = [s]"
  by (induction s) auto

lemma url_word_chars:
  assumes "url_word n" "c \<in> set n"
  shows "c \<noteq> CHR ''#''" "c \<noteq> CHR ''?''" "c \<noteq> CHR ''%''" "c \<noteq> slash" "\<not> control_byte c" "printable c" "path_plain c"
  using unreserved_char assms by (auto simp: url_word_def list_all_iff)

lemma url_word_trim: "url_word n \<Longrightarrow> trim_space n = n"
  by (rule trim_printable_line) (auto simp: url_word_def intro: url_word_chars(6) [of n])

lemma attach_path_chars:
  "list_all (\<lambda>c. c \<noteq> CHR ''#'' \<and> c \<noteq> CHR ''?'' \<and> c \<noteq> CHR ''%'' \<and> \<not> control_byte c \<and> path_plain c) DefaultAttachWSPath"
  "list_all (\<lambda>c. c \<noteq> CHR ''#'' \<and> c \<noteq> CHR ''?'' \<and> \<not> control_byte c) ''ws://unix''"
  by code_simp+

lemma attach_path_word:
  assumes "url_word n" "c \<in> set (DefaultAttachWSPath @ n)"
  shows "c \<noteq> CHR ''#''" "c \<noteq> CHR ''?''" "c \<noteq> CHR ''%''" "\<not> control_byte c" "path_plain c"
  using url_word_chars [OF assms(1), of c] assms(2) attach_path_chars(1) by (auto simp: list_all_iff)

lemma word_target:
  assumes "url_word n"
  shows "ws_target (''ws://unix'' @ DefaultAttachWSPath @ n) = Some \<lparr>ut_escaped = DefaultAttachWSPath @ n, ut_query = []\<rparr>"
proof -
  define q where "q = DefaultAttachWSPath @ n"
  note w = attach_path_word [OF assms, folded q_def]
  let ?u = "''ws://unix'' @ q"
  have u: "c \<noteq> CHR ''#'' \<and> c \<noteq> CHR ''?'' \<and> \<not> control_byte c" if "c \<in> set ?u" for c
    using that w attach_path_chars(2) unfolding list_all_iff set_append by blast
  have cut: "takeWhile (\<lambda>c. c \<noteq> CHR ''#'') ?u = ?u" "takeWhile (\<lambda>c. c \<noteq> CHR ''?'') ?u = ?u"
    using u unfolding takeWhile_eq_all_conv by blast+
  have ctl: "\<not> list_ex control_byte ?u" using u unfolding list_ex_iff by blast
  have dec: "percent_decode q = Some q" using w(3) by (intro decode_plain) blast
  have raw: "escaped_path q p = q" for p using w(5) by (simp add: escaped_path_def list_all_iff)
  have path: "strip_prefix ''ws://'' ?u = Some (''unix'' @ q)" by simp
  obtain r where r: "q = slash # r" by (simp add: q_def DefaultAttachWSPath_def slash_def)
  have drop: "dropWhile (\<lambda>c. c \<noteq> slash) (''unix'' @ q) = q" by (simp add: r) (simp add: slash_def)
  show ?thesis unfolding q_def [symmetric] ws_target_def Let_def cut path bind.bind_lunit drop raw dec using ctl by simp
qed

lemma mux_path_word:
  assumes "url_word n"
  shows "mux_path (DefaultAttachWSPath @ n) = DefaultAttachWSPath @ n"
proof -
  note w = url_word_chars [OF assms]
  have n: "n \<noteq> []" "n \<noteq> ''.''" "n \<noteq> ''..''" using assms by (simp_all add: url_word_def)
  then have "split_on slash n = [n]" "last n \<noteq> slash" using w(4) by (auto intro!: split_on_none)
  then show ?thesis using n by (simp add: mux_path_def path_clean_def is_abs_def has_prefix_def DefaultAttachWSPath_def slash_def Let_def)
qed

lemma word_request:
  assumes "url_word (bt_profile t)"
  shows "attach_request ps (local_attach_url t) h = attach_handler ps (DefaultAttachWSPath @ bt_profile t) h"
proof -
  have "percent_decode (DefaultAttachWSPath @ bt_profile t) = Some (DefaultAttachWSPath @ bt_profile t)"
    using url_word_chars(3) [OF assms] by (intro decode_plain) (auto simp: DefaultAttachWSPath_def)
  then show ?thesis
    by (simp add: attach_request_def local_attach_url_def word_target [OF assms, simplified] mux_path_word [OF assms] has_prefix_iff)
qed

text \<open>C31: A bridge whose profile is named with letters, digits and the signs \<open>-_.~\<close> attaches to the profile its target was
  declared for, and the server takes as its peer the node that was declared: a client at the other end that
  says it is another node is not served. The node's id has to be printable, which a header carries as it is.\<close>

theorem bridge_serves_its_node_only:
  assumes "t \<in> set (collect_targets ps)" "url_word (bt_profile t)" "bt_node t \<noteq> []" "list_all printable (bt_node t)"
  shows "\<exists>hs. attach_request ps (local_attach_url t) (local_attach_headers t) = Inr (bt_profile t, hs) \<and>
    (case serve_handshake lib auth now (bt_profile t) hs r hello sid of
       Inl _ \<Rightarrow> True
     | Inr (_, s) \<Rightarrow> se_node s = bt_node t \<and> se_identity s = bt_node t \<and> se_profile s = bt_profile t \<and> se_mode s = AuthModeMTLS)"
proof -
  obtain p where p: "p \<in> set (store_list ps)" "bt_profile t = pf_name p"
    using assms(1) by (auto simp: collect_targets_def)
  have "find_profile qs (pf_name q) \<noteq> None" if "q \<in> set qs" for q qs using that by (induction qs) auto
  then have "store_get ps (bt_profile t) \<noteq> None" using p by (simp add: store_get_def store_list_def)
  moreover have "trim_prefix (DefaultAttachWSPath @ bt_profile t) DefaultAttachWSPath = bt_profile t"
    by (simp add: trim_prefix_def)
  moreover have "trim_space AuthModeMTLS = AuthModeMTLS"
    unfolding AuthModeMTLS_def by (rule trim_printable_line) (simp_all add: printable_def)
  moreover have "trim_space (bt_node t) = bt_node t"
    using assms(3,4) by (intro trim_printable_line(2)) (auto simp: list_all_iff)
  moreover have "bt_profile t \<noteq> []" using assms(2) by (simp add: url_word_def)
  ultimately have "attach_request ps (local_attach_url t) (local_attach_headers t) =
      Inr (bt_profile t, zero_handshake\<lparr>hs_mode := AuthModeMTLS, hs_identity := bt_node t, hs_peer_cn := bt_node t\<rparr>)"
    using assms(3) url_word_trim [OF assms(2)]
    by (simp add: word_request [OF assms(2)] attach_handler_def attach_handshake_def local_attach_headers_def Let_def auth_mode_defs)
  then show ?thesis
    using assms(3) by (auto simp: serve_handshake_def zero_handshake_def split: option.splits sum.splits if_splits)
qed

text \<open>Other names go astray: the name is not escaped, so \<open>a?b\<close> asks for the profile \<open>a\<close>, \<open>a#b\<close> as well, and \<open>a%62\<close> for \<open>ab\<close>.\<close>

definition odd_names :: profile_store where
  "odd_names = new_profile_store (Some [some_profile\<lparr>pf_name := ''a''\<rparr>,
     some_profile\<lparr>pf_name := ''a?b'', pf_reverse := [\<lparr>rt_node_id = ''n'', rt_transport = ReverseTransportSSH, rt_url = []\<rparr>]\<rparr>])"

lemma odd_name_attaches_elsewhere:
  "map (\<lambda>t. (bt_profile t, map_sum (\<lambda>e. e) fst (attach_request odd_names (local_attach_url t) (local_attach_headers t))))
     (collect_targets odd_names) = [(''a?b'', Inr ''a'')]"
  by code_simp

subsection \<open>A server with one node\<close>

definition some_ssh_node :: ssh_node where
  "some_ssh_node = \<lparr>sh_node_id = ''n'', sh_target = ''u@h'', sh_port = 0, sh_use_ssh_config = True, sh_reverse_addr = [],
     sh_command = [], sh_config_path = []\<rparr>"

definition ssh_server :: server_config where
  "ssh_server = \<lparr>sc_listen = '':8443'', sc_auth_mode = AuthModeMTLS,
     sc_pki = \<lparr>pk_ca_cert = ''/ca'', pk_server_cert = ''/crt'', pk_server_key = ''/key''\<rparr>,
     sc_jwt = \<lparr>js_secret_file = [], js_issuer = [], js_audience = [], js_first_frame = None, js_timeout = 0, js_timeout_raw = []\<rparr>,
     sc_ssh_nodes = [some_ssh_node], sc_log = \<lparr>lc_level = [], lc_format = []\<rparr>, sc_profiles_file = [],
     sc_self_node = \<lparr>sn_enabled = True, sn_client_cert = ''/self.crt'', sn_client_key = ''/self.key''\<rparr>,
     sc_notifier = undefined\<rparr>"

definition ssh_host :: "string \<Rightarrow> ssh_env" where
  "ssh_host strict = \<lparr>sv_host = \<lparr>he_read = (\<lambda>_. Inr ''key''), he_is_dir = (\<lambda>_. False), he_lookup = (\<lambda>_. None), he_home = Inr ''/root''\<rparr>,
     sv_lower = (\<lambda>s. s), sv_get = (\<lambda>_ k. if k = ''StrictHostKeyChecking'' then Inr strict else Inl (Ext ''ssh_config'')),
     sv_get_all = (\<lambda>_ _. Inl (Ext ''ssh_config'')), sv_user = Inr ''root'', sv_exists = (\<lambda>p. p = ''/root/.ssh/known_hosts''),
     sv_agent = (\<lambda>_. False), sv_key = (\<lambda>_. True)\<rparr>"

definition ssh_target :: bridge_target where
  "ssh_target = \<lparr>bt_profile = ''demo'', bt_node = ''n'', bt_transport = ReverseTransportSSH, bt_url = []\<rparr>"

lemma ssh_login:
  "(case bridge_once_ssh (ssh_host '' No '') ssh_server ssh_target of Inl _ \<Rightarrow> False | Inr (l, _) \<Rightarrow> sd_check l = IgnoreHostKey)"
  "(case bridge_once_ssh (ssh_host ''ask'') ssh_server ssh_target of Inl _ \<Rightarrow> False
    | Inr (l, _) \<Rightarrow> sd_check l = KnownHosts [''/root/.ssh/known_hosts''])"
  by code_simp+

theorem host_key_is_checked_witness:
  "\<exists>l c files. bridge_once_ssh (ssh_host ''ask'') ssh_server ssh_target = Inr (l, c) \<and> sd_check l = KnownHosts files \<and> files \<noteq> []"
proof -
  obtain l c where l: "bridge_once_ssh (ssh_host ''ask'') ssh_server ssh_target = Inr (l, c)"
    "sd_check l = KnownHosts [''/root/.ssh/known_hosts'']"
    using ssh_login(2) by (auto split: sum.splits)
  then show ?thesis using host_key_is_checked [OF l(1)] by auto
qed

definition bridged_store :: profile_store where
  "bridged_store = new_profile_store (Some [some_profile\<lparr>pf_name := ''demo'',
     pf_reverse := [\<lparr>rt_node_id = ''n'', rt_transport = ReverseTransportSSH, rt_url = []\<rparr>]\<rparr>])"

theorem bridge_serves_its_node_only_witness:
  "\<exists>hs. attach_request bridged_store (local_attach_url ssh_target) (local_attach_headers ssh_target) = Inr (''demo'', hs)"
proof -
  have "ssh_target \<in> set (collect_targets bridged_store)"
    by (simp add: collect_targets_def bridged_store_def new_profile_store_def store_list_def ssh_target_def)
  moreover have "url_word ''demo''" by code_simp
  ultimately show ?thesis
    using bridge_serves_its_node_only [of ssh_target bridged_store demo_jwt_lib None 0 TimedOutRead TimedOutRead 0]
    by (auto simp: ssh_target_def printable_def)
qed

end
