(* ===== verification/Pki_Props.thy ===== *)
theory Pki_Props
  imports Pki
begin

text \<open>
  The files of the authority and what they are good for: no failure destroys a certificate or a key that was
  there before, and a leaf that was issued verifies against the authority's file.
\<close>

subsection \<open>Traces of file operations\<close>

lemma and_then_None:
  "and_then f g fs = (None, tr) \<longleftrightarrow> (\<exists>tr1 tr2. f fs = (None, tr1) \<and> g (last tr1) = (None, tr2) \<and> tr = tr1 @ tr2)"
  by (auto simp: and_then_def split: prod.splits option.splits)

lemma as_config_error_simps:
  "as_config_error m a f fs = (None, tr) \<longleftrightarrow> f fs = (None, tr)" "snd (as_config_error m a f fs) = snd (f fs)"
  by (auto simp: as_config_error_def split: prod.splits)

definition backup_of :: "pki_io \<Rightarrow> string \<Rightarrow> string" where
  "backup_of io path = backup_path path (pi_nanos io path)"

lemma backup_of_ne [simp]: "backup_of io path \<noteq> path" "path \<noteq> backup_of io path"
  by (simp_all add: backup_of_def backup_path_def)

text \<open>A successful write: the text with its mode under the path, what was there before under the backup's, the
  rest as it was.\<close>

lemma write_backup_and_pem_done:
  assumes "write_backup_and_pem lib io path block der mode fs = (None, tr)"
  obtains pem where "pl_pem lib block der = Some pem" "last tr path = Some \<lparr>fl_data = pem, fl_mode = mode\<rparr>"
    "\<And>q. q \<noteq> path \<Longrightarrow> q \<noteq> backup_of io path \<Longrightarrow> last tr q = fs q"
proof -
  obtain tr1 where b: "backup_if_exists io path fs = (None, tr1)"
    using assms by (auto simp: write_backup_and_pem_def and_then_None)
  then have frame: "last tr1 q = fs q" if "q \<noteq> path" "q \<noteq> backup_of io path" for q
    using that
    by (auto simp: backup_if_exists_def Let_def as_config_error_simps os_rename_def rename_file_def backup_of_def
        split: option.splits if_splits)
  obtain pem tr2 tr3 where t: "pl_pem lib block der = Some pem" "os_write_file io path pem mode (last tr1) = (None, tr2)"
    "os_chmod io path mode (last tr2) = (None, tr3)" "last tr = last tr3"
  proof -
    have "tr' \<noteq> []" if "os_chmod io path mode x = (None, tr')" for x tr'
      using that by (auto simp: os_chmod_def split: option.splits)
    then show thesis using assms b that
      by (auto simp: write_backup_and_pem_def fill_file_def and_then_None as_config_error_simps split: option.splits)
  qed
  then have "last tr path = Some \<lparr>fl_data = pem, fl_mode = mode\<rparr>"
    and "\<And>q. q \<noteq> path \<Longrightarrow> last tr q = last tr1 q"
    by (auto simp: os_write_file_def os_chmod_def Let_def set_data_def set_mode_def split: option.splits)
  with t(1) frame that show thesis by metis
qed

text \<open>What was there is never lost, whatever fails.\<close>

definition kept :: "pki_io \<Rightarrow> string \<Rightarrow> disk_file \<Rightarrow> files \<Rightarrow> bool" where
  "kept io path f fs = (fs path = Some f \<or> fs (backup_of io path) = Some f)"

lemma and_then_states:
  assumes "list_all A (snd (f fs))" "snd (f fs) \<noteq> []" "\<And>fs'. A fs' \<Longrightarrow> list_all A (snd (g fs'))"
  shows "list_all A (snd (and_then f g fs))"
  using assms(1,2) assms(3) [of "last (snd (f fs))"]
  by (auto simp: and_then_def list_all_iff split: prod.splits option.splits)

lemma write_states:
  assumes "A fs" "\<And>s x. A s \<Longrightarrow> A (s(path := x))"
  shows "list_all A (snd (os_write_file io path d mode fs))" "list_all A (snd (os_chmod io path mode fs))"
  using assms by (simp_all add: os_write_file_def os_chmod_def Let_def set_data_def set_mode_def split: option.split)

lemma step_nonempty: "snd (os_write_file io path d mode fs) \<noteq> []" "snd (backup_if_exists io path fs) \<noteq> []"
  by (auto simp: os_write_file_def backup_if_exists_def as_config_error_simps os_rename_def Let_def split: option.splits)

lemma fill_states:
  assumes "A fs" "\<And>s x. A s \<Longrightarrow> A (s(path := x))"
  shows "list_all A (snd (fill_file lib io path block der mode fs))"
  using assms
  by (auto simp: fill_file_def as_config_error_simps step_nonempty write_states intro!: and_then_states split: option.split)

lemma kept_write:
  assumes "fs path = Some f" "\<And>x. pi_stat io path = Some x \<Longrightarrow> \<not> errors_is x NotExist"
  shows "list_all (kept io path f) (snd (write_backup_and_pem lib io path block der mode fs))"
proof (cases "fst (backup_if_exists io path fs)")
  case None
  then have b: "backup_if_exists io path fs = (None, [fs, rename_file path (backup_of io path) fs])"
    using assms
    by (auto simp: backup_if_exists_def Let_def as_config_error_def os_rename_def backup_of_def split: option.splits)
  have "list_all (\<lambda>s. s (backup_of io path) = Some f)
      (snd (fill_file lib io path block der mode (rename_file path (backup_of io path) fs)))"
    by (rule fill_states) (simp_all add: rename_file_def assms(1))
  then show ?thesis
    using assms(1)
    by (auto simp: write_backup_and_pem_def and_then_def b kept_def list_all_iff rename_file_def split: prod.splits)
next
  case (Some e)
  then have "snd (backup_if_exists io path fs) = [fs]"
    by (auto simp: backup_if_exists_def Let_def as_config_error_def os_rename_def split: option.splits if_splits)
  then show ?thesis using Some assms(1) by (auto simp: write_backup_and_pem_def and_then_def kept_def split: prod.splits)
qed

lemma kept_frame:
  assumes "kept io q f fs" "q \<noteq> path" "q \<noteq> backup_of io path" "backup_of io q \<noteq> path" "backup_of io q \<noteq> backup_of io path"
  shows "list_all (kept io q f) (snd (write_backup_and_pem lib io path block der mode fs))"
  unfolding write_backup_and_pem_def
proof (rule and_then_states)
  show "list_all (kept io q f) (snd (backup_if_exists io path fs))"
    using assms
    by (auto simp: backup_if_exists_def as_config_error_simps os_rename_def rename_file_def Let_def kept_def backup_of_def [symmetric]
        split: option.split)
  show "list_all (kept io q f) (snd (fill_file lib io path block der mode fs'))" if "kept io q f fs'" for fs'
    using that assms by (intro fill_states) (auto simp: kept_def)
qed (rule step_nonempty)

lemma kept_key: "fs path = Some f \<Longrightarrow> (\<And>x. pi_stat io path = Some x \<Longrightarrow> \<not> errors_is x NotExist) \<Longrightarrow>
   list_all (kept io path f) (snd (write_private_key lib io path key fs))"
  by (simp add: write_private_key_def kept_write kept_def split: sum.split)

lemma untouched:
  assumes "fs q = Some f" "q \<noteq> path" "q \<noteq> backup_of io path"
  shows "list_all (\<lambda>s. s q = Some f) (snd (write_backup_and_pem lib io path block der mode fs))"
  unfolding write_backup_and_pem_def
proof (rule and_then_states)
  show "list_all (\<lambda>s. s q = Some f) (snd (backup_if_exists io path fs))"
    using assms
    by (auto simp: backup_if_exists_def as_config_error_simps os_rename_def rename_file_def Let_def backup_of_def [symmetric]
        split: option.split)
  show "list_all (\<lambda>s. s q = Some f) (snd (fill_file lib io path block der mode fs'))" if "fs' q = Some f" for fs'
    using that assms by (intro fill_states) auto
qed (rule step_nonempty)

lemma trace_nonempty: "snd (write_backup_and_pem lib io path block der mode fs) \<noteq> []"
  using step_nonempty(2) [of io path fs] by (auto simp: write_backup_and_pem_def and_then_def split: prod.splits option.splits)

definition apart :: "pki_io \<Rightarrow> string \<Rightarrow> string \<Rightarrow> bool" where
  "apart io p q = distinct [p, q, backup_of io p, backup_of io q]"

text \<open>A stat of a file that is there does not say that it is missing.\<close>

definition stat_sane :: "pki_io \<Rightarrow> string \<Rightarrow> bool" where
  "stat_sane io p = (case pi_stat io p of None \<Rightarrow> True | Some e \<Rightarrow> \<not> errors_is e NotExist)"

lemma kept_pair:
  assumes "apart io p q" "fs r = Some f" "r = p \<or> r = q" "stat_sane io r"
  shows "list_all (kept io r f) (snd (and_then (write_backup_and_pem lib io p b der m) (write_private_key lib io q k) fs))"
proof -
  have sane: "\<And>x. pi_stat io r = Some x \<Longrightarrow> \<not> errors_is x NotExist" using assms(4) by (simp add: stat_sane_def)
  let ?f = "write_backup_and_pem lib io p b der m"
  show ?thesis
  proof (cases "r = p")
    case True
    show ?thesis
    proof (rule and_then_states)
      show "list_all (kept io r f) (snd (?f fs))" using kept_write [of fs r f io] assms(2) sane True by simp
      show "list_all (kept io r f) (snd (write_private_key lib io q k fs'))" if "kept io r f fs'" for fs'
        using that assms(1) True
        by (auto simp: write_private_key_def apart_def intro!: kept_frame split: sum.split)
    qed (rule trace_nonempty)
  next
    case False
    then have q: "r = q" using assms(3) by simp
    then have "list_all (\<lambda>s. s r = Some f) (snd (?f fs))" using assms(1,2) by (intro untouched) (auto simp: apart_def)
    moreover obtain x tr where first: "?f fs = (x, tr)" by fastforce
    ultimately have all: "list_all (\<lambda>s. s r = Some f) tr" "tr \<noteq> []" using trace_nonempty [of lib io p b der m fs] by simp_all
    then have "last tr q = Some f" "list_all (kept io r f) tr" using q by (auto simp: list_all_iff kept_def)
    then show ?thesis
      using kept_key [of "last tr" q f io lib k] sane q first
      by (auto simp: and_then_def split: option.split prod.split)
  qed
qed

lemma kept_pair_trace:
  assumes "and_then (write_backup_and_pem lib io p b der m) (write_private_key lib io q k) fs = (x, tr)"
    "apart io p q" "fs r = Some f" "r = p \<or> r = q" "stat_sane io r"
  shows "list_all (kept io r f) tr"
  using kept_pair [OF assms(2) _ assms(4,5), where fs = fs and f = f, OF assms(3)] assms(1) by (metis snd_conv)

lemma kept_new_ca:
  assumes "apart io (path_join [dir, ''ca.crt'']) (path_join [dir, ''ca.key''])" "fs r = Some f"
    "r = path_join [dir, ''ca.crt''] \<or> r = path_join [dir, ''ca.key'']" "stat_sane io r"
  shows "list_all (kept io r f) (snd (new_ca lib io dir cn na now fs))"
proof -
  have "kept io r f fs" using assms(2) by (simp add: kept_def)
  then show ?thesis
    using kept_pair_trace [OF _ assms(1) _ assms(3,4), where fs = fs and f = f, OF _ assms(2)]
    by (auto simp: new_ca_def os_mkdir_def Let_def split: option.split sum.split prod.splits)
qed

lemma kept_issue_leaf:
  assumes "apart io (path_join [dir, a]) (path_join [dir, b])" "fs r = Some f"
    "r = path_join [dir, a] \<or> r = path_join [dir, b]" "stat_sane io r"
  shows "list_all (kept io r f) (snd (issue_leaf lib io c dir cn shape na now a b fs))"
proof -
  have "kept io r f fs" using assms(2) by (simp add: kept_def)
  then show ?thesis
    using kept_pair [OF assms(1) _ assms(3,4), where fs = fs and f = f, OF assms(2)]
    by (simp add: issue_leaf_def sign_and_write_leaf_def os_mkdir_def split: option.split sum.split)
qed

text \<open>C32: Making a new authority or issuing a certificate again never destroys what was there: whatever call fails and wherever
  the process stops, the former certificate and the former key are whole, with their mode, under their path or under
  that of the backup.\<close>

theorem reissue_destroys_nothing:
  assumes "fs (path_join [dir, file]) = Some f" "stat_sane io (path_join [dir, file])"
    and "apart io (path_join [dir, kind @ ''.crt'']) (path_join [dir, kind @ ''.key''])"
    and "file = kind @ ''.crt'' \<or> file = kind @ ''.key''"
  shows "list_all (kept io (path_join [dir, file]) f)
    (if kind = ''ca'' then snd (new_ca lib io dir cn until now fs)
     else if kind = ''server'' then snd (issue_server lib io c dir cn names until now fs)
     else if kind = ''client'' then snd (issue_client lib io c dir cn until now fs)
     else [])"
proof -
  let ?r = "path_join [dir, file]"
  have start: "kept io ?r f fs" using assms(1) by (simp add: kept_def)
  have r: "?r = path_join [dir, kind @ ''.crt''] \<or> ?r = path_join [dir, kind @ ''.key'']"
    using assms(4) by auto
  have leaf: "list_all (kept io ?r f) (snd (issue_leaf lib io x dir cn shape until now (kind @ ''.crt'') (kind @ ''.key'') fs))" for x shape
    by (rule kept_issue_leaf [OF assms(3) _ r assms(2)]) (rule assms(1))
  have "list_all (kept io ?r f) (snd (issue_server lib io c dir cn names until now fs))" if "kind = ''server''"
    using leaf that start by (simp add: issue_server_def split: option.split)
  moreover have "list_all (kept io ?r f) (snd (issue_client lib io c dir cn until now fs))" if "kind = ''client''"
    using leaf that start by (simp add: issue_client_def split: option.split)
  moreover have "list_all (kept io ?r f) (snd (new_ca lib io dir cn until now fs))" if "kind = ''ca''"
    using kept_new_ca [of io dir fs ?r f lib cn until now] that assms r by simp
  ultimately show ?thesis by simp
qed

subsection \<open>A leaf verifies\<close>

text \<open>Certificates keep whole seconds.\<close>

definition cert_second :: "gotime \<Rightarrow> gotime" where "cert_second t = t div ns_second * ns_second"

definition in_force :: "gotime \<Rightarrow> x509_cert \<Rightarrow> bool" where
  "in_force now c = (ce_not_before c \<le> now \<and> now \<le> ce_not_after c)"

text \<open>
  What the documentation of the libraries says. PEM blocks and keys are read back. \<open>CreateCertificate\<close> takes the fields of the
  template, the subject of the parent as the issuer and the public key given, and signs with the key given, which has to be the
  parent's if the parent has one. \<open>Verify\<close> goes from a leaf to a root whose subject is the leaf's issuer and whose
  public key opens its signature; the root has to be an authority that may sign certificates, both have to be in
  force, and some wanted usage has to be among those of each that names any; no host name is asked for. \<open>X509KeyPair\<close>
  takes a certificate with the key whose public half it has.
\<close>

definition sealed :: "x509_cert \<Rightarrow> string \<Rightarrow> string \<Rightarrow> string \<Rightarrow> x509_cert" where
  "sealed t issuer pub signer = t\<lparr>ce_issuer := issuer, ce_public := pub, ce_signer := signer,
     ce_not_before := cert_second (ce_not_before t), ce_not_after := cert_second (ce_not_after t)\<rparr>"

definition vouches_for :: "x509_cert \<Rightarrow> gotime \<Rightarrow> string list \<Rightarrow> x509_cert \<Rightarrow> bool" where
  "vouches_for root now usages c \<longleftrightarrow> ce_issuer c = ce_cn root \<and> ce_signer c = ce_public root \<and> ce_basic root \<and> ce_is_ca root \<and>
     (ce_key_usage root = [] \<or> ''CertSign'' \<in> set (ce_key_usage root)) \<and> in_force now root \<and> in_force now c \<and>
     list_ex (\<lambda>u. (ce_ext_usage root = [] \<or> u \<in> set (ce_ext_usage root)) \<and> (ce_ext_usage c = [] \<or> u \<in> set (ce_ext_usage c))) usages"

definition pki_documented :: "pki_lib \<Rightarrow> bool" where
  "pki_documented lib \<longleftrightarrow>
     (\<forall>block der pem. pl_pem lib block der = Some pem \<longrightarrow> pl_pem_decode lib pem = Some (block, der)) \<and>
     (\<forall>der pem c. pl_pem lib pemBlockCert der = Some pem \<and> pl_parse lib der = Inr c \<longrightarrow> pl_bundle lib pem = [c]) \<and>
     (\<forall>key der. pl_marshal_key lib key = Inr der \<longrightarrow> pl_parse_ec lib der = Inr key) \<and>
     (\<forall>t parent pub key der. pl_create lib t parent pub key = Inr der \<longrightarrow>
        ce_public parent \<in> {[], pl_public lib key} \<and> pl_parse lib der = Inr (sealed t (ce_cn parent) pub (pl_public lib key))) \<and>
     (\<forall>c o1 root. root \<in> set (vo_roots o1) \<and> vo_dns_name o1 = [] \<and> vouches_for root (vo_now o1) (vo_usages o1) c \<longrightarrow>
        pl_verify lib c o1 = None) \<and>
     (\<forall>cert_pem key_pem der cert key_der key. pl_pem lib pemBlockCert der = Some cert_pem \<and> pl_parse lib der = Inr cert \<and>
        pl_pem lib pemBlockECKey key_der = Some key_pem \<and> pl_marshal_key lib key = Inr key_der \<and> ce_public cert = pl_public lib key \<longrightarrow>
        (\<exists>pair. pl_pair lib cert_pem key_pem = Inr pair))"

lemma documented:
  assumes "pki_documented lib"
  shows "pl_pem lib block der = Some pem \<Longrightarrow> pl_pem_decode lib pem = Some (block, der)"
    "pl_pem lib pemBlockCert der = Some pem \<Longrightarrow> pl_parse lib der = Inr c \<Longrightarrow> pl_bundle lib pem = [c]"
    "pl_create lib t parent pub key = Inr der \<Longrightarrow> pl_parse lib der = Inr (sealed t (ce_cn parent) pub (pl_public lib key))"
    "root \<in> set (vo_roots o1) \<Longrightarrow> vo_dns_name o1 = [] \<Longrightarrow> vouches_for root (vo_now o1) (vo_usages o1) c \<Longrightarrow> pl_verify lib c o1 = None"
    "pl_marshal_key lib key = Inr der \<Longrightarrow> pl_parse_ec lib der = Inr key"
proof -
  note d = assms [unfolded pki_documented_def]
  show "pl_pem lib block der = Some pem \<Longrightarrow> pl_pem_decode lib pem = Some (block, der)"
    "pl_pem lib pemBlockCert der = Some pem \<Longrightarrow> pl_parse lib der = Inr c \<Longrightarrow> pl_bundle lib pem = [c]"
    using d [THEN conjunct1] d [THEN conjunct2, THEN conjunct1] by blast+
  show "pl_create lib t parent pub key = Inr der \<Longrightarrow> pl_parse lib der = Inr (sealed t (ce_cn parent) pub (pl_public lib key))"
    using d [THEN conjunct2, THEN conjunct2, THEN conjunct2, THEN conjunct1] by blast
  show "root \<in> set (vo_roots o1) \<Longrightarrow> vo_dns_name o1 = [] \<Longrightarrow> vouches_for root (vo_now o1) (vo_usages o1) c \<Longrightarrow> pl_verify lib c o1 = None"
    using d [THEN conjunct2, THEN conjunct2, THEN conjunct2, THEN conjunct2, THEN conjunct1] by blast
  show "pl_marshal_key lib key = Inr der \<Longrightarrow> pl_parse_ec lib der = Inr key"
    using d [THEN conjunct2, THEN conjunct2, THEN conjunct1] by blast
qed

lemma documented_pair:
  assumes "pki_documented lib" "pl_pem lib pemBlockCert der = Some cert_pem" "pl_parse lib der = Inr c"
    "pl_pem lib pemBlockECKey key_der = Some key_pem" "pl_marshal_key lib key = Inr key_der" "ce_public c = pl_public lib key"
  shows "\<exists>pair. pl_pair lib cert_pem key_pem = Inr pair"
  using assms(1) [unfolded pki_documented_def, THEN conjunct2, THEN conjunct2, THEN conjunct2, THEN conjunct2, THEN conjunct2] assms(2-6)
  by blast

lemma pair_done:
  assumes "and_then (write_backup_and_pem lib io p b der m) (write_private_key lib io q k) fs = (None, tr)" "apart io p q"
  obtains pem kd kpem where "pl_pem lib b der = Some pem" "last tr p = Some \<lparr>fl_data = pem, fl_mode = m\<rparr>"
    "pl_marshal_key lib k = Inr kd" "pl_pem lib pemBlockECKey kd = Some kpem" "last tr q = Some \<lparr>fl_data = kpem, fl_mode = keyFileMode\<rparr>"
    "\<And>r. r \<notin> {p, q, backup_of io p, backup_of io q} \<Longrightarrow> last tr r = fs r"
proof -
  obtain tr1 tr2 kd where kd: "pl_marshal_key lib k = Inr kd" and w: "write_backup_and_pem lib io p b der m fs = (None, tr1)"
    "write_backup_and_pem lib io q pemBlockECKey kd keyFileMode (last tr1) = (None, tr2)" "tr = tr1 @ tr2"
    using assms(1) by (cases "pl_marshal_key lib k") (auto simp: and_then_None write_private_key_def)
  have last: "last tr = last tr2" using w(3) trace_nonempty [of lib io q pemBlockECKey kd keyFileMode "last tr1"] w(2) by simp
  obtain pem where pem: "pl_pem lib b der = Some pem" "last tr1 p = Some \<lparr>fl_data = pem, fl_mode = m\<rparr>"
    "\<And>r. r \<noteq> p \<Longrightarrow> r \<noteq> backup_of io p \<Longrightarrow> last tr1 r = fs r"
    using write_backup_and_pem_done [OF w(1)] by metis
  obtain kpem where kpem: "pl_pem lib pemBlockECKey kd = Some kpem" "last tr2 q = Some \<lparr>fl_data = kpem, fl_mode = keyFileMode\<rparr>"
    and key: "\<And>r. r \<noteq> q \<Longrightarrow> r \<noteq> backup_of io q \<Longrightarrow> last tr2 r = last tr1 r"
    using write_backup_and_pem_done [OF w(2)] by metis
  show thesis
  proof (rule that [OF pem(1) _ kd kpem(1)])
    show "last tr q = Some \<lparr>fl_data = kpem, fl_mode = keyFileMode\<rparr>" using kpem(2) by (simp add: last)
    show "last tr p = Some \<lparr>fl_data = pem, fl_mode = m\<rparr>" using key [of p] pem(2) assms(2) by (simp add: last apart_def)
    show "last tr r = fs r" if "r \<notin> {p, q, backup_of io p, backup_of io q}" for r
      using that pem(3) [of r] key [of r] by (simp add: last)
  qed
qed

lemma new_ca_done:
  assumes "new_ca lib io dir cn until now fs = (Inr c, tr)" "apart io (path_join [dir, ''ca.crt'']) (path_join [dir, ''ca.key''])"
  obtains serial der pem where "pl_create lib (ca_template serial cn now until) (ca_template serial cn now until) (pl_public lib (ca_key c)) (ca_key c) = Inr der"
    "pl_parse lib der = Inr (ca_cert c)" "pl_pem lib pemBlockCert der = Some pem"
    "last tr (path_join [dir, ''ca.crt'']) = Some \<lparr>fl_data = pem, fl_mode = certFileMode\<rparr>"
proof -
  obtain key serial der cert where k: "pl_create lib (ca_template serial cn now until) (ca_template serial cn now until) (pl_public lib key) key = Inr der"
    "pl_parse lib der = Inr cert" "c = \<lparr>ca_cert = cert, ca_key = key\<rparr>"
    "and_then (write_backup_and_pem lib io (path_join [dir, ''ca.crt'']) pemBlockCert der certFileMode)
       (write_private_key lib io (path_join [dir, ''ca.key'']) key) fs = (None, tr)"
    using assms(1)
    by (auto simp: new_ca_def os_mkdir_def Let_def split: if_splits option.splits sum.splits prod.splits)
  obtain pem where "pl_pem lib pemBlockCert der = Some pem"
    "last tr (path_join [dir, ''ca.crt'']) = Some \<lparr>fl_data = pem, fl_mode = certFileMode\<rparr>"
    by (rule pair_done [OF k(4) assms(2)])
  with k(1-3) show thesis by (intro that [of serial der pem]) simp_all
qed

lemma issue_leaf_done:
  assumes "issue_leaf lib io c dir cn shape until now a b fs = (None, tr)" "apart io (path_join [dir, a]) (path_join [dir, b])"
  obtains serial key der pem kd kpem where
    "pl_create lib (shape (base_leaf_template serial cn now until)) (ca_cert c) (pl_public lib key) (ca_key c) = Inr der"
    "pl_pem lib pemBlockCert der = Some pem" "last tr (path_join [dir, a]) = Some \<lparr>fl_data = pem, fl_mode = certFileMode\<rparr>"
    "pl_marshal_key lib key = Inr kd" "pl_pem lib pemBlockECKey kd = Some kpem"
    "last tr (path_join [dir, b]) = Some \<lparr>fl_data = kpem, fl_mode = keyFileMode\<rparr>"
    "\<And>r. r \<notin> {path_join [dir, a], path_join [dir, b], backup_of io (path_join [dir, a]), backup_of io (path_join [dir, b])} \<Longrightarrow>
       last tr r = fs r"
proof -
  obtain serial key der where k: "pl_create lib (shape (base_leaf_template serial cn now until)) (ca_cert c) (pl_public lib key) (ca_key c) = Inr der"
    "and_then (write_backup_and_pem lib io (path_join [dir, a]) pemBlockCert der certFileMode)
       (write_private_key lib io (path_join [dir, b]) key) fs = (None, tr)"
    using assms(1)
    by (auto simp: issue_leaf_def os_mkdir_def sign_and_write_leaf_def split: option.splits sum.splits)
  from pair_done [OF k(2) assms(2)] k(1) that show thesis by metis
qed

text \<open>The library with the key and the serial number it draws for a leaf.\<close>

definition drawing :: "gerr + string \<Rightarrow> gerr + int \<Rightarrow> pki_lib \<Rightarrow> pki_lib" where
  "drawing key serial lib = lib\<lparr>pl_generate := key, pl_serial := serial\<rparr>"

text \<open>C33: A client certificate issued by a new authority verifies against the authority's file, from the moment it
  was issued to the end of its life, for no expected name and for its own, and for no other; and the server reads
  from a connection made with it the node it was issued for.\<close>

theorem issued_client_verifies:
  assumes doc: "pki_documented lib"
    and ca: "new_ca lib io dir ca_cn ca_until t0 fs = (Inr c, tr1)"
    and leaf: "issue_client (drawing key serial lib) io' (Some c) out cn until t1 (last tr1) = (None, tr2)"
    and time: "t0 \<le> t1" "t1 \<le> now" "now \<le> cert_second until"
    and paths: "apart io (path_join [dir, ''ca.crt'']) (path_join [dir, ''ca.key''])"
      "apart io' (path_join [out, ''client.crt'']) (path_join [out, ''client.key''])"
      "path_join [dir, ''ca.crt''] \<notin> {path_join [out, ''client.crt''], path_join [out, ''client.key''],
         backup_of io' (path_join [out, ''client.crt'']), backup_of io' (path_join [out, ''client.key''])}"
  shows "\<exists>cert. ce_cn cert = cn \<and> pki_peer_cn (Some [[cert, ca_cert c]]) = Inr cn \<and>
    verify_client_cert lib (read_file None (last tr2)) (path_join [dir, ''ca.crt'']) (path_join [out, ''client.crt'']) expected now =
      (if expected = [] \<or> expected = cn then Inr cert
       else Inl (wrap_s ErrCNMismatch ''client CN %q does not match expected %q'' [ArgS cn, ArgS expected]))"
proof -
  let ?root = "path_join [dir, ''ca.crt'']" and ?crt = "path_join [out, ''client.crt'']"
  obtain n1 der1 pem1 where r: "pl_create lib (ca_template n1 ca_cn t0 ca_until) (ca_template n1 ca_cn t0 ca_until) (pl_public lib (ca_key c)) (ca_key c) = Inr der1"
    "pl_parse lib der1 = Inr (ca_cert c)" "pl_pem lib pemBlockCert der1 = Some pem1"
    "last tr1 ?root = Some \<lparr>fl_data = pem1, fl_mode = certFileMode\<rparr>"
    by (rule new_ca_done [OF ca paths(1)])
  have checked: "validate_leaf_inputs (Some c) cn until t1 = None" using leaf by (auto simp: issue_client_def split: option.splits)
  let ?shape = "\<lambda>t. t\<lparr>ce_key_usage := [''DigitalSignature''], ce_ext_usage := [''ClientAuth'']\<rparr>"
  have leaf': "issue_leaf (drawing key serial lib) io' c out cn ?shape until t1 ''client.crt'' ''client.key'' (last tr1) = (None, tr2)"
    using leaf checked by (simp add: issue_client_def)
  obtain n2 k2 der2 pem2 where l: "pl_create lib (?shape (base_leaf_template n2 cn t1 until)) (ca_cert c) (pl_public lib k2) (ca_key c) = Inr der2"
    "pl_pem lib pemBlockCert der2 = Some pem2" "last tr2 ?crt = Some \<lparr>fl_data = pem2, fl_mode = certFileMode\<rparr>" "last tr2 ?root = last tr1 ?root"
    using issue_leaf_done [OF leaf' paths(2)] paths(3) by (simp add: drawing_def) metis
  let ?cert = "sealed (?shape (base_leaf_template n2 cn t1 until)) (ce_cn (ca_cert c)) (pl_public lib k2) (pl_public lib (ca_key c))"
  have parsed: "pl_parse lib der2 = Inr ?cert" by (rule documented(3) [OF doc l(1)])
  have root_eq: "ca_cert c = sealed (ca_template n1 ca_cn t0 ca_until) ca_cn (pl_public lib (ca_key c)) (pl_public lib (ca_key c))"
    using documented(3) [OF doc r(1)] r(2) by (simp add: ca_template_def)
  have root: "ce_basic (ca_cert c)" "ce_is_ca (ca_cert c)" "''CertSign'' \<in> set (ce_key_usage (ca_cert c))" "ce_ext_usage (ca_cert c) = []"
    "ce_public (ca_cert c) = pl_public lib (ca_key c)"
    "ce_not_before (ca_cert c) = cert_second (time_add t0 (- minutes 1))" "ce_not_after (ca_cert c) = cert_second ca_until"
    by (subst root_eq, simp add: ca_template_def sealed_def)+
  have cn: "cn \<noteq> []" "until \<le> ce_not_after (ca_cert c)"
    using checked by (auto simp: validate_leaf_inputs_def time_after_def not_less split: if_splits)
  have second: "cert_second t \<le> t" for t
    using pos_mod_sign [of ns_second t] div_mult_mod_eq [of t ns_second] by (simp add: cert_second_def)
  have force: "in_force now (ca_cert c)" "in_force now ?cert"
    using time cn(2) root(6,7) second [of "time_add t0 (- minutes 1)"] second [of "time_add t1 (- minutes 1)"] second [of until]
    by (simp_all add: in_force_def time_add_def minutes_def sealed_def base_leaf_template_def)
  have "vouches_for (ca_cert c) now [''ClientAuth''] ?cert"
    unfolding vouches_for_def using root(1-5) force by (simp add: sealed_def)
  then have "pl_verify lib ?cert \<lparr>vo_roots = [ca_cert c], vo_now = now, vo_dns_name = [], vo_usages = [''ClientAuth'']\<rparr> = None"
    by (intro documented(4) [OF doc, of "ca_cert c"]) simp_all
  moreover have "load_cert_file lib (read_file None (last tr2)) ?crt = Inr ?cert"
    using documented(1) [OF doc l(2)] l(3) parsed by (simp add: load_cert_file_def read_file_def)
  moreover have "load_ca_pool lib (read_file None (last tr2)) ?root = Inr [ca_cert c]"
    using documented(2) [OF doc r(3,2)] l(4) r(4) by (simp add: load_ca_pool_def read_file_def)
  ultimately show ?thesis
    using cn(1) by (intro exI [of _ ?cert]) (simp add: verify_client_cert_def pki_peer_cn_def base_leaf_template_def sealed_def)
qed

text \<open>A leaf that is to live as long as its authority, both counted from the moment each is made, is refused: the authority's
  end is cut to the second and was fixed first.\<close>

lemma equal_life_refused:
  assumes "pki_documented lib" "new_ca lib io dir ca_cn (time_add t0 life) t0 fs = (Inr c, tr1)"
    and "apart io (path_join [dir, ''ca.crt'']) (path_join [dir, ''ca.key''])"
    and "cert_second (time_add t0 life) < time_add t1 life" "cn \<noteq> []" "0 < life"
  shows "issue_server lib io' (Some c) out cn names (time_add t1 life) t1 fs' =
    (Some (wrap_s ErrConfigInvalid ''leaf notAfter exceeds CA notAfter'' []), [fs'])"
proof -
  obtain n der pem where r: "pl_create lib (ca_template n ca_cn t0 (time_add t0 life)) (ca_template n ca_cn t0 (time_add t0 life))
      (pl_public lib (ca_key c)) (ca_key c) = Inr der" "pl_parse lib der = Inr (ca_cert c)"
    by (rule new_ca_done [OF assms(2,3)])
  have "ce_not_after (ca_cert c) = cert_second (time_add t0 life)"
    using documented(3) [OF assms(1) r(1)] r(2) by (auto simp: ca_template_def sealed_def)
  then show ?thesis using assms(4-6) by (simp add: issue_server_def validate_leaf_inputs_def time_after_def time_add_def)
qed

subsection \<open>An authority and a node\<close>

definition toy_root :: x509_cert where "toy_root = ca_template 1 ''Root'' (seconds 1000) (seconds 9000)"
definition toy_leaf :: x509_cert where
  "toy_leaf = (base_leaf_template 2 ''node'' (seconds 2000) (seconds 8000))\<lparr>ce_key_usage := [''DigitalSignature''], ce_ext_usage := [''ClientAuth'']\<rparr>"

definition toy_root_cert :: x509_cert where "toy_root_cert = sealed toy_root ''Root'' ''pK'' ''pK''"
definition toy_leaf_cert :: x509_cert where "toy_leaf_cert = sealed toy_leaf ''Root'' ''pL'' ''pK''"

text \<open>A library that can make two certificates, with the key \<open>K\<close> for the root and \<open>L\<close> for the leaf.\<close>

definition toy_lib :: pki_lib where
  "toy_lib = \<lparr>pl_generate = Inr ''K'', pl_public = (\<lambda>k. CHR ''p'' # k), pl_serial = Inr 1,
     pl_create = (\<lambda>t parent pub key.
       if (t, parent, pub, key) = (toy_root, toy_root, ''pK'', ''K'') then Inr ''root''
       else if (t, parent, pub, key) = (toy_leaf, toy_root_cert, ''pL'', ''K'') then Inr ''leaf'' else Inl (Ext ''x509'')),
     pl_parse = (\<lambda>d. if d = ''root'' then Inr toy_root_cert else if d = ''leaf'' then Inr toy_leaf_cert else Inl (Ext ''x509'')),
     pl_marshal_key = Inr, pl_parse_ec = Inr, pl_parse_pkcs8 = (\<lambda>_. Inr None),
     pl_pem = (\<lambda>b d. if b = pemBlockCert then Some (CHR ''C'' # d) else if b = pemBlockECKey then Some (CHR ''K'' # d) else None),
     pl_pem_decode = (\<lambda>t. case t of [] \<Rightarrow> None | c # d \<Rightarrow> if c = CHR ''C'' then Some (pemBlockCert, d)
       else if c = CHR ''K'' then Some (pemBlockECKey, d) else None),
     pl_bundle = (\<lambda>t. if t = ''Croot'' then [toy_root_cert] else if t = ''Cleaf'' then [toy_leaf_cert] else []),
     pl_verify = (\<lambda>c o1. if vo_dns_name o1 = [] \<and> list_ex (\<lambda>root. vouches_for root (vo_now o1) (vo_usages o1) c) (vo_roots o1)
       then None else Some (Ext ''x509'')),
     pl_pair = (\<lambda>c k. if c = ''Croot'' \<and> k = ''KK'' \<or> c = ''Cleaf'' \<and> k = ''KL'' then Inr c else Inl (Ext ''tls''))\<rparr>"

lemma toy_documented: "pki_documented toy_lib"
  unfolding pki_documented_def
  by (intro conjI)
    (auto simp: toy_lib_def toy_root_cert_def toy_leaf_cert_def toy_root_def ca_template_def sealed_def pemBlockCert_def pemBlockECKey_def
      list_ex_iff split: if_splits)

definition toy_io :: pki_io where
  "toy_io = \<lparr>pi_mkdir = None, pi_stat = (\<lambda>_. None), pi_rename = (\<lambda>_. None), pi_open = (\<lambda>_. None), pi_write = (\<lambda>_. None),
     pi_chmod = (\<lambda>_. None), pi_umask = 0, pi_nanos = (\<lambda>_. 7)\<rparr>"

definition toy_new :: "(gerr + ca) \<times> files list" where
  "toy_new = new_ca toy_lib toy_io ''/p'' ''Root'' (seconds 9000) (seconds 1000) (\<lambda>_. None)"

definition toy_ca :: ca where "toy_ca = \<lparr>ca_cert = toy_root_cert, ca_key = ''K''\<rparr>"

definition toy_issue :: "gerr option \<times> files list" where
  "toy_issue = issue_client (drawing (Inr ''L'') (Inr 2) toy_lib) toy_io (Some toy_ca) ''/n'' ''node'' (seconds 8000) (seconds 2000) (last (snd toy_new))"

lemma toy_paths:
  "apart toy_io (path_join [''/p'', ''ca.crt'']) (path_join [''/p'', ''ca.key''])"
  "apart toy_io (path_join [''/n'', ''client.crt'']) (path_join [''/n'', ''client.key''])"
  "path_join [''/p'', ''ca.crt''] \<notin> {path_join [''/n'', ''client.crt''], path_join [''/n'', ''client.key''],
     backup_of toy_io (path_join [''/n'', ''client.crt'']), backup_of toy_io (path_join [''/n'', ''client.key''])}"
  by code_simp+

lemma toy_made: "fst toy_new = Inr toy_ca" "fst toy_issue = None"
  by code_simp+

theorem issued_client_verifies_witness:
  "\<exists>cert. verify_client_cert toy_lib (read_file None (last (snd toy_issue))) (path_join [''/p'', ''ca.crt'']) (path_join [''/n'', ''client.crt''])
     ''node'' (seconds 5000) = Inr cert \<and> ce_cn cert = ''node''"
proof -
  have ca: "new_ca toy_lib toy_io ''/p'' ''Root'' (seconds 9000) (seconds 1000) (\<lambda>_. None) = (Inr toy_ca, snd toy_new)"
    using toy_made(1) by (simp add: toy_new_def prod_eq_iff)
  have leaf: "issue_client (drawing (Inr ''L'') (Inr 2) toy_lib) toy_io (Some toy_ca) ''/n'' ''node'' (seconds 8000) (seconds 2000) (last (snd toy_new))
      = (None, snd toy_issue)"
    using toy_made(2) by (simp add: toy_issue_def prod_eq_iff)
  show ?thesis
    using issued_client_verifies [OF toy_documented ca leaf, where now = "seconds 5000" and expected = "''node''"] toy_paths
    by (simp add: seconds_def cert_second_def) blast
qed

theorem reissue_destroys_nothing_witness:
  "list_all (kept toy_io ''/p/ca.key'' \<lparr>fl_data = ''old'', fl_mode = 0x180\<rparr>)
     (snd (new_ca toy_lib (toy_io\<lparr>pi_write := (\<lambda>_. Some (1, Ext ''disk full''))\<rparr>) ''/p'' ''Root'' (seconds 9000) (seconds 1000)
       [''/p/ca.key'' \<mapsto> \<lparr>fl_data = ''old'', fl_mode = 0x180\<rparr>]))"
proof -
  let ?io = "toy_io\<lparr>pi_write := (\<lambda>_. Some (1, Ext ''disk full''))\<rparr>"
  have p: "path_join [''/p'', ''ca.key''] = ''/p/ca.key''" "apart ?io (path_join [''/p'', ''ca'' @ ''.crt'']) (path_join [''/p'', ''ca'' @ ''.key''])"
    by code_simp+
  have "kept ?io = kept toy_io" by (simp add: fun_eq_iff kept_def backup_of_def toy_io_def)
  then show ?thesis
    using reissue_destroys_nothing [of "[''/p/ca.key'' \<mapsto> \<lparr>fl_data = ''old'', fl_mode = 0x180\<rparr>]" "''/p''" "''ca.key''" _ ?io "''ca''"] p
    by (simp add: stat_sane_def toy_io_def)
qed

end
