(* ===== verification/Cli_Task.thy ===== *)
theory Cli_Task
  imports Pki Server_Auth
begin

text \<open>
  How a command of cmd/pangaeactl works on the files: a task starts in a state of the files and gives its result or
  its error with the states it goes through, the first of which is the state it starts in. A \<open>step\<close> of \<open>Pki\<close> is a task
  without a result.
\<close>

type_synonym 'a task = "files \<Rightarrow> (gerr + 'a) \<times> files list"

definition task_of :: "gerr + 'a \<Rightarrow> 'a task" where
  "task_of r fs = (r, [fs])"

definition task_bind :: "'a task \<Rightarrow> ('a \<Rightarrow> 'b task) \<Rightarrow> 'b task" where
  "task_bind t k fs = (case t fs of
     (Inl e, tr) \<Rightarrow> (Inl e, tr)
   | (Inr x, tr) \<Rightarrow> (case k x (last tr) of (r, tr') \<Rightarrow> (r, tr @ tr')))"

definition task_step :: "step \<Rightarrow> unit task" where
  "task_step s fs = (case s fs of (Some e, tr) \<Rightarrow> (Inl e, tr) | (None, tr) \<Rightarrow> (Inr (), tr))"

abbreviation task_then :: "unit task \<Rightarrow> 'b task \<Rightarrow> 'b task" where
  "task_then t u \<equiv> task_bind t (\<lambda>_. u)"

abbreviation task_fail :: "gerr \<Rightarrow> 'a task" where
  "task_fail e \<equiv> task_of (Inl e)"

abbreviation task_ret :: "'a \<Rightarrow> 'a task" where
  "task_ret x \<equiv> task_of (Inr x)"

definition task_read :: "gerr option \<Rightarrow> string \<Rightarrow> string task" where
  "task_read fault path fs = (read_file fault fs path, [fs])"

definition task_mkdir :: "gerr option \<Rightarrow> unit task" where
  "task_mkdir fault = task_of (case fault of Some e \<Rightarrow> Inl e | None \<Rightarrow> Inr ())"

subsection \<open>Traces\<close>

lemma task_bind_parts: "task_bind t k fs = (case fst (t fs) of
    Inl e \<Rightarrow> (Inl e, snd (t fs))
  | Inr x \<Rightarrow> (fst (k x (last (snd (t fs)))), snd (t fs) @ snd (k x (last (snd (t fs))))))"
  by (simp add: task_bind_def split: prod.splits sum.splits)

text \<open>What holds in the state a task starts in, and is kept by each of its parts, holds in every state it passes.\<close>

definition keeps :: "(files \<Rightarrow> bool) \<Rightarrow> 'a task \<Rightarrow> bool" where
  "keeps P t \<longleftrightarrow> (\<forall>fs. P fs \<longrightarrow> snd (t fs) \<noteq> [] \<and> list_all P (snd (t fs)))"

named_theorems keeps_intro \<open>the operations that keep a property of the files\<close>

lemma keepsI: "(\<And>fs. P fs \<Longrightarrow> snd (t fs) \<noteq> [] \<and> list_all P (snd (t fs))) \<Longrightarrow> keeps P t"
  by (simp add: keeps_def)

lemma keepsD: "keeps P t \<Longrightarrow> P fs \<Longrightarrow> list_all P (snd (t fs))"
  by (simp add: keeps_def)

lemma keeps_of [keeps_intro]: "keeps P (task_of r)"
  by (simp add: keeps_def task_of_def)

lemma keeps_read [keeps_intro]: "keeps P (task_read fault path)"
  by (simp add: keeps_def task_read_def)

lemma keeps_mkdir [keeps_intro]: "keeps P (task_mkdir fault)"
  unfolding task_mkdir_def by (rule keeps_of)

lemma list_all_last: "xs \<noteq> [] \<Longrightarrow> list_all P xs \<Longrightarrow> P (last xs)"
  by (simp add: list_all_iff)

lemma keeps_bind [keeps_intro]:
  assumes "keeps P t" "\<And>x. keeps P (k x)"
  shows "keeps P (task_bind t k)"
proof (rule keepsI)
  fix fs
  assume "P fs"
  then have t: "snd (t fs) \<noteq> []" "list_all P (snd (t fs))" using assms(1) by (auto simp: keeps_def)
  then have "snd (k x (last (snd (t fs)))) \<noteq> [] \<and> list_all P (snd (k x (last (snd (t fs)))))" for x
    using assms(2) [of x] list_all_last [OF t] by (auto simp: keeps_def)
  then show "snd (task_bind t k fs) \<noteq> [] \<and> list_all P (snd (task_bind t k fs))"
    using t by (auto simp: task_bind_parts split: sum.splits)
qed

lemma keeps_if [keeps_intro]: "keeps P t \<Longrightarrow> keeps P u \<Longrightarrow> keeps P (if b then t else u)"
  by simp

subsection \<open>The result\<close>

lemma task_bind_Inr:
  assumes "task_bind t k fs = (Inr y, tr)"
  obtains x tr1 tr2 where "t fs = (Inr x, tr1)" "k x (last tr1) = (Inr y, tr2)" "tr = tr1 @ tr2"
  using assms by (auto simp: task_bind_def split: prod.splits sum.splits)

lemma task_bind_run: "t fs = (Inr x, tr) \<Longrightarrow> task_bind t k fs = (fst (k x (last tr)), tr @ snd (k x (last tr)))"
  by (simp add: task_bind_def split: prod.splits)

lemma task_of_run [simp]: "task_of r fs = (r, [fs])"
  by (simp add: task_of_def)

subsection \<open>The secret file\<close>

text \<open>\<open>WriteSecretFile\<close> on the files: unlike the files of \<open>internal/pki\<close> it is overwritten without a copy.\<close>

definition write_secret_step :: "pki_io \<Rightarrow> string \<Rightarrow> string \<Rightarrow> step" where
  "write_secret_step io path secret fs =
     (if secret = [] then (Some (wrap_s ErrConfigInvalid ''JWT secret must not be empty'' []), [fs])
      else and_then (as_config_error ''write JWT secret %s'' [ArgS path] (os_write_file io path (encode_secret secret @ [CHR 0x0A]) keyFileMode))
        (as_config_error ''chmod JWT secret %s'' [ArgS path] (os_chmod io path keyFileMode)) fs)"

text \<open>Its error is that of the definition that has only the two outcomes of the system.\<close>

lemma write_secret_step_error:
  "fst (write_secret_step io path secret fs) =
     write_secret_file (\<lambda>p _. case pi_open io p of Some e \<Rightarrow> Some e | None \<Rightarrow> map_option snd (pi_write io p)) (pi_chmod io) path secret"
  by (simp add: write_secret_step_def write_secret_file_def and_then_def as_config_error_def os_write_file_def os_chmod_def Let_def
      split: option.splits)

end
