(* ===== verification/Go_Net.thy ===== *)
theory Go_Net
  imports Go_Encoding Go_Text
begin

text \<open>
  The functions of Go's \<open>net\<close>, \<open>strconv\<close> and \<open>time\<close> that the command line uses: addresses as text
  (\<open>net.ParseIP\<close>, \<open>net.SplitHostPort\<close>), \<open>strconv.Atoi\<close> and RFC 3339 in a zone. An IP address is its sixteen bytes.
\<close>

subsection \<open>IP addresses\<close>

definition octet :: "string \<Rightarrow> nat option" where
  "octet f = (if f = [] \<or> \<not> list_all is_digit f \<or> length f > 3 \<or> length f > 1 \<and> hd f = CHR ''0'' then None
     else let n = nat_digits 0 f in if n > 255 then None else Some n)"

fun octets :: "string list \<Rightarrow> string option" where
  "octets [] = Some []"
| "octets (f # fs) = Option.bind (octet f) (\<lambda>n. map_option (\<lambda>s. char_at n # s) (octets fs))"

definition parse_ipv4 :: "string \<Rightarrow> string option" where
  "parse_ipv4 s = (let fs = split_on (CHR ''.'') s in if length fs = 4 then octets fs else None)"

text \<open>The hexadecimal digits of a group, at most four.\<close>

definition hex_run :: "string \<Rightarrow> string" where
  "hex_run s = takeWhile (\<lambda>c. hex_value c \<noteq> None) s"

definition hex_number :: "string \<Rightarrow> nat" where
  "hex_number ds = foldl (\<lambda>acc c. acc * 16 + the (hex_value c)) 0 ds"

text \<open>
  The loop of \<open>parseIPv6\<close>: \<open>n\<close> groups are left, \<open>out\<close> are the bytes so far and \<open>gap\<close> is the place of the
  ellipsis. The result has the bytes, the place and what is left of the text.
\<close>

fun ipv6_groups :: "nat \<Rightarrow> string \<Rightarrow> nat option \<Rightarrow> string \<Rightarrow> (string \<times> nat option \<times> string) option" where
  "ipv6_groups 0 out gap s = Some (out, gap, s)"
| "ipv6_groups (Suc n) out gap s =
     (let ds = hex_run s; r = drop (length ds) s in
      if ds = [] \<or> length ds > 4 then None
      else if r \<noteq> [] \<and> hd r = CHR ''.'' then
        (if gap = None \<and> length out \<noteq> 12 \<or> length out + 4 > 16 then None
         else map_option (\<lambda>b. (out @ b, gap, [])) (parse_ipv4 s))
      else
        let out' = out @ [char_at (hex_number ds div 256), char_at (hex_number ds mod 256)] in
        case r of
          [] \<Rightarrow> Some (out', gap, [])
        | c # r1 \<Rightarrow>
            if c \<noteq> CHR '':'' \<or> r1 = [] then None
            else if hd r1 = CHR '':'' then
              (if gap \<noteq> None then None
               else if tl r1 = [] then Some (out', Some (length out'), [])
               else ipv6_groups n out' (Some (length out')) (tl r1))
            else ipv6_groups n out' gap r1)"

text \<open>A zone is refused by \<open>ParseIP\<close>, so an address with one is not parsed.\<close>

definition parse_ipv6 :: "string \<Rightarrow> string option" where
  "parse_ipv6 s =
     (if CHR ''%'' \<in> set s then None
      else
        let start = has_prefix s ''::''; body = (if start then drop 2 s else s) in
        if start \<and> body = [] then Some (replicate 16 (CHR 0x00))
        else case ipv6_groups 8 [] (if start then Some 0 else None) body of
          None \<Rightarrow> None
        | Some (out, gap, rest) \<Rightarrow>
            if rest \<noteq> [] then None
            else if length out < 16 then
              (case gap of None \<Rightarrow> None
               | Some g \<Rightarrow> Some (take g out @ replicate (16 - length out) (CHR 0x00) @ drop g out))
            else if gap \<noteq> None then None
            else Some out)"

text \<open>The first dot or colon says which of the two.\<close>

definition v4_in_v6 :: string where "v4_in_v6 = replicate 10 (CHR 0x00) @ [CHR 0xFF, CHR 0xFF]"

definition parse_ip :: "string \<Rightarrow> string option" where
  "parse_ip s = (case dropWhile (\<lambda>c. c \<notin> {CHR ''.'', CHR '':'', CHR ''%''}) s of
     [] \<Rightarrow> None
   | c # _ \<Rightarrow>
       if c = CHR ''.'' then map_option (\<lambda>b. v4_in_v6 @ b) (parse_ipv4 s)
       else if c = CHR '':'' then parse_ipv6 s
       else None)"

subsection \<open>Host and port\<close>

text \<open>\<open>net.SplitHostPort\<close>; its errors are not told apart.\<close>

definition net_split_host_port :: "string \<Rightarrow> (string \<times> string) option" where
  "net_split_host_port s = (case after_last (CHR '':'') s of
     None \<Rightarrow> None
   | Some port \<Rightarrow>
       let i = length s - length port - 1 in
       if hd s = CHR ''['' then
         (if CHR '']'' \<notin> set s then None
          else let end = length (takeWhile (\<lambda>c. c \<noteq> CHR '']'') s) in
            if Suc end \<noteq> i then None
            else if CHR ''['' \<in> set (drop 1 s) \<or> CHR '']'' \<in> set (drop (Suc end) s) then None
            else Some (take (end - 1) (drop 1 s), port))
       else
         let host = take i s in
         if CHR '':'' \<in> set host \<or> CHR ''['' \<in> set s \<or> CHR '']'' \<in> set s then None else Some (host, port))"

subsection \<open>Numbers and times\<close>

text \<open>\<open>strconv.Atoi\<close>: an optional sign and decimal digits, in the range of \<open>int\<close>.\<close>

definition parse_int :: "string \<Rightarrow> int option" where
  "parse_int s =
     (let neg = (s \<noteq> [] \<and> hd s = CHR ''-'');
          ds = (if s \<noteq> [] \<and> hd s \<in> {CHR ''-'', CHR ''+''} then tl s else s)
      in if ds = [] \<or> \<not> list_all is_digit ds then None
         else let v = (if neg then - int (nat_digits 0 ds) else int (nat_digits 0 ds)) in
           if v < min_int64 \<or> v > max_int64 then None else Some v)"

text \<open>RFC 3339 with the zone's offset in minutes.\<close>

definition format_rfc3339 :: "int \<Rightarrow> gotime \<Rightarrow> string" where
  "format_rfc3339 off t = (if off = 0 then format_utc t
     else butlast (format_utc (t + minutes off)) @ [if off < 0 then CHR ''-'' else CHR ''+'']
       @ pad_text 2 (abs off div 60) @ '':'' @ pad_text 2 (abs off mod 60))"

subsection \<open>What they give\<close>

lemma octets_length: "octets fs = Some b \<Longrightarrow> length b = length fs"
  by (induction fs arbitrary: b) (auto split: bind_splits)

lemma parse_ipv4_length: "parse_ipv4 s = Some b \<Longrightarrow> length b = 4"
  by (auto simp: parse_ipv4_def Let_def dest: octets_length split: if_splits)

lemma ipv6_groups_bounds:
  "ipv6_groups n out gap s = Some (b, g, r) \<Longrightarrow> length out + 2 * n = 16 \<Longrightarrow> (\<forall>k. gap = Some k \<longrightarrow> k \<le> length out) \<Longrightarrow>
   length b \<le> 16 \<and> (\<forall>k. g = Some k \<longrightarrow> k \<le> length b)"
proof (induction n arbitrary: out gap s)
  case (Suc n)
  from Suc.prems(1) consider
    (v4) c where "parse_ipv4 s = Some c" "b = out @ c" "g = gap" "length out + 4 \<le> 16"
  | (last) x y where "b = out @ [x, y]" "g = gap"
  | (gap) x y where "b = out @ [x, y]" "g = Some (length b)"
  | (far) x y t where "ipv6_groups n (out @ [x, y]) (Some (length (out @ [x, y]))) t = Some (b, g, r)"
  | (near) x y t where "ipv6_groups n (out @ [x, y]) gap t = Some (b, g, r)"
    unfolding ipv6_groups.simps Let_def by (auto split: if_splits list.splits)
  then show ?case
  proof cases
    case v4
    then show ?thesis using Suc.prems parse_ipv4_length [OF v4(1)] by auto
  next
    case far
    from Suc.IH [OF far] Suc.prems(2) show ?thesis by simp
  next
    case near
    from Suc.IH [OF near] Suc.prems(2,3) show ?thesis by fastforce
  qed (use Suc.prems in auto)
qed simp

text \<open>An address has sixteen bytes.\<close>

theorem parse_ip_length: "parse_ip s = Some b \<Longrightarrow> length b = 16"
proof -
  assume "parse_ip s = Some b"
  then consider (four) c where "parse_ipv4 s = Some c" "b = v4_in_v6 @ c" | (six) "parse_ipv6 s = Some b"
    by (auto simp: parse_ip_def split: list.splits if_splits)
  then show ?thesis
  proof cases
    case four
    then show ?thesis by (simp add: v4_in_v6_def parse_ipv4_length)
  next
    case six
    then consider "b = replicate 16 (CHR 0x00)"
      | out gap body where "ipv6_groups 8 [] (if has_prefix s ''::'' then Some 0 else None) body = Some (out, gap, [])"
        "if length out < 16 then \<exists>g. gap = Some g \<and> b = take g out @ replicate (16 - length out) (CHR 0x00) @ drop g out
         else b = out"
      by (fastforce simp: parse_ipv6_def Let_def split: if_splits option.splits prod.splits)
    then show ?thesis
    proof cases
      case 2
      from ipv6_groups_bounds [OF 2(1)] have "length out \<le> 16" "\<forall>k. gap = Some k \<longrightarrow> k \<le> length out"
        by (auto split: if_splits)
      with 2(2) show ?thesis by (auto split: if_splits)
    qed simp
  qed
qed

end
