(* ===== verification/Cli_Commands.thy ===== *)
theory Cli_Commands
  imports Cli_Task Go_Net Reverse_Bridge Server_Wiring Ssh_Bridge
begin

text \<open>
  cmd/pangaeactl: the commands jwt, ca, connect, serve, reverse-client, reverse-connect, inspect and version. The
  flags are read by a third-party package, so a command takes their values; its checks before the run and the run
  itself are one definition. What goes to the standard output is part of the result.
\<close>

abbreviation plain_error :: "string \<Rightarrow> gerr" where
  "plain_error msg \<equiv> Errorf msg [] None"

definition FlagsJWTIssue :: string where
  "FlagsJWTIssue = ''--secret-key, --node-id, --issuer, --audience, and at least one --profile are required''"
definition FlagsJWTVerify :: string where
  "FlagsJWTVerify = ''--secret-key, --token, --issuer, and --audience are required''"

subsection \<open>jwt\<close>

definition jwt_init_cmd :: "pki_io \<Rightarrow> gerr + string \<Rightarrow> string \<Rightarrow> string task" where
  "jwt_init_cmd io rnd out =
     (if out = [] then task_fail (plain_error ''--out is required'')
      else task_bind (task_of (generate_secret rnd)) (\<lambda>secret.
        task_then (task_step (write_secret_step io out secret))
          (task_ret (''JWT secret written to '' @ out @ [CHR 0x0A]))))"

record jwt_issue_opts =
  ji_secret :: string
  ji_node :: string
  ji_profiles :: "string list"
  ji_issuer :: string
  ji_audience :: string
  ji_ttl :: string
  ji_out :: string

definition jwt_issue_cmd :: "jwt_lib \<Rightarrow> pki_io \<Rightarrow> host_env \<Rightarrow> gotime \<Rightarrow> jwt_issue_opts \<Rightarrow> string task" where
  "jwt_issue_cmd lib io env now o1 =
     (if ji_secret o1 = [] \<or> ji_node o1 = [] \<or> ji_issuer o1 = [] \<or> ji_audience o1 = [] \<or> ji_profiles o1 = []
      then task_fail (plain_error FlagsJWTIssue)
      else case parse_duration (ji_ttl o1) of
        None \<Rightarrow> task_fail (Errorf ''invalid --ttl: %w'' [] (Some duration_error))
      | Some ttl \<Rightarrow>
          task_bind (task_of (load_secret_file env (ji_secret o1))) (\<lambda>secret.
          task_bind (task_of (jwt_issue lib secret (ji_node o1) (ji_profiles o1) (ji_issuer o1) (ji_audience o1) now ttl)) (\<lambda>token.
            if ji_out o1 \<noteq> [] then task_then (task_step (os_write_file io (ji_out o1) (token @ [CHR 0x0A]) keyFileMode)) (task_ret [])
            else task_ret (token @ [CHR 0x0A]))))"

definition read_token_arg :: "host_env \<Rightarrow> string \<Rightarrow> gerr + string" where
  "read_token_arg env arg =
     (if has_prefix arg ''@'' then ebind (he_read env (trim_prefix arg ''@'')) (\<lambda>raw. Inr (trim_space raw))
      else Inr (trim_space arg))"

record jwt_verify_opts =
  jv_secret :: string
  jv_token :: string
  jv_issuer :: string
  jv_audience :: string

text \<open>
  The printed value, its members in the order of their names. \<open>None\<close> is the panic on a token without an issuing or an
  expiry time, whose pointer the command follows.
\<close>

definition claims_json :: "(gotime \<Rightarrow> int) \<Rightarrow> jwt_claims \<Rightarrow> json option" where
  "claims_json zone c = (case (jc_issued c, jc_expires c) of
     (Some i, Some x) \<Rightarrow> Some (JObj
       [(''audience'', JArr (map JStr (jc_audience c))), (''expires_at'', JStr (format_rfc3339 (zone x) x)),
        (''issued_at'', JStr (format_rfc3339 (zone i) i)), (''issuer'', JStr (jc_issuer c)),
        (''profiles'', JArr (map JStr (jc_profiles c))), (''subject'', JStr (jc_subject c))])
   | _ \<Rightarrow> None)"

definition jwt_verify_cmd ::
  "jwt_lib \<Rightarrow> host_env \<Rightarrow> (gotime \<Rightarrow> int) \<Rightarrow> gotime \<Rightarrow> jwt_verify_opts \<Rightarrow> (gerr + json) option" where
  "jwt_verify_cmd lib env zone now o1 =
     (if jv_secret o1 = [] \<or> jv_token o1 = [] \<or> jv_issuer o1 = [] \<or> jv_audience o1 = []
      then Some (Inl (plain_error FlagsJWTVerify))
      else case ebind (load_secret_file env (jv_secret o1)) (\<lambda>secret.
          ebind (read_token_arg env (jv_token o1)) (\<lambda>token.
            jwt_verify lib secret token (jv_issuer o1) (jv_audience o1) now)) of
        Inl e \<Rightarrow> Some (Inl e)
      | Inr claims \<Rightarrow> map_option Inr (claims_json zone claims))"

subsection \<open>ca\<close>

fun parse_san_parts :: "san \<Rightarrow> string list \<Rightarrow> gerr + san" where
  "parse_san_parts s [] = Inr s"
| "parse_san_parts s (p # ps) =
     (let part = trim_space p in
      if has_prefix part ''IP:'' then
        (case parse_ip (trim_prefix part ''IP:'') of
           None \<Rightarrow> Inl (Errorf ''invalid IP SAN: %q'' [ArgS part] None)
         | Some ip \<Rightarrow> parse_san_parts (s\<lparr>san_ips := san_ips s @ [ip]\<rparr>) ps)
      else if has_prefix part ''DNS:'' then parse_san_parts (s\<lparr>san_dns := san_dns s @ [trim_prefix part ''DNS:'']\<rparr>) ps
      else Inl (Errorf ''SAN entry must start with IP: or DNS:, got %q'' [ArgS part] None))"

definition parse_sans :: "string \<Rightarrow> gerr + san" where
  "parse_sans s =
     (if s = [] then Inl (Errorf ''%w: %s'' [ArgS MsgSANEmpty] (Some (Sentinel ErrConfigInvalid)))
      else parse_san_parts \<lparr>san_ips = [], san_dns = []\<rparr> (split_on (CHR '','') s))"

text \<open>
  What the commands that use \<open>internal/pki\<close> take from the system: the library, the outcomes of the files, the two
  readings of the clock (the command's and the one inside \<open>internal/pki\<close>), the calendar of \<open>AddDate\<close> and the zone.
\<close>

record ca_env =
  ca_lib :: pki_lib
  ca_io :: pki_io
  ca_read :: "string \<Rightarrow> gerr + string"
  ca_now :: gotime
  ca_now2 :: gotime
  ca_add_years :: "gotime \<Rightarrow> int \<Rightarrow> gotime"
  ca_zone :: "gotime \<Rightarrow> int"

definition ca_time :: "ca_env \<Rightarrow> gotime \<Rightarrow> string" where
  "ca_time e t = format_rfc3339 (ca_zone e t) t"

definition ca_init_cmd :: "ca_env \<Rightarrow> string \<Rightarrow> string \<Rightarrow> int \<Rightarrow> string task" where
  "ca_init_cmd e out cn years =
     (if years \<le> 0 then task_fail (plain_error ''--years must be positive'')
      else let not_after = ca_add_years e (ca_now e) years in
        task_bind (new_ca (ca_lib e) (ca_io e) out cn not_after (ca_now2 e)) (\<lambda>_.
          task_ret (''CA written to '' @ out @ '' (ca.crt, ca.key); notAfter='' @ ca_time e not_after @ [CHR 0x0A])))"

text \<open>The commands join these two paths with a slash.\<close>

definition ca_of_dir :: "ca_env \<Rightarrow> string \<Rightarrow> gerr + ca" where
  "ca_of_dir e dir = load_ca (ca_lib e) (ca_read e) (dir @ ''/ca.crt'') (dir @ ''/ca.key'')"

definition ca_issue_server_cmd :: "ca_env \<Rightarrow> string \<Rightarrow> string \<Rightarrow> string \<Rightarrow> string \<Rightarrow> int \<Rightarrow> string task" where
  "ca_issue_server_cmd e dir out cn sans years =
     (if sans = [] then task_fail (Errorf ''--%s is required (e.g. DNS:host.local,IP:127.0.0.1)'' [ArgS ''san''] None)
      else task_bind (task_of (ca_of_dir e dir)) (\<lambda>c.
        task_bind (task_of (parse_sans sans)) (\<lambda>names.
        task_then (task_step (issue_server (ca_lib e) (ca_io e) (Some c) out cn names (ca_add_years e (ca_now e) years) (ca_now2 e)))
          (task_ret (''server cert/key written to '' @ out @ [CHR 0x0A])))))"

definition ca_issue_client_cmd :: "ca_env \<Rightarrow> string \<Rightarrow> string \<Rightarrow> string \<Rightarrow> int \<Rightarrow> string task" where
  "ca_issue_client_cmd e dir out cn years =
     (if cn = [] then task_fail (Errorf ''--%s is required and must match a node_id'' [ArgS ''cn''] None)
      else task_bind (task_of (ca_of_dir e dir)) (\<lambda>c.
        task_then (task_step (issue_client (ca_lib e) (ca_io e) (Some c) out cn (ca_add_years e (ca_now e) years) (ca_now2 e)))
          (task_ret (''client cert/key written to '' @ out @ '' (CN='' @ cn @ '')'' @ [CHR 0x0A]))))"

definition verified_line :: "ca_env \<Rightarrow> string \<Rightarrow> x509_cert \<Rightarrow> string" where
  "verified_line e who cert = who @ '' cert verified: cn='' @ ce_cn cert @ '' notAfter='' @ ca_time e (ce_not_after cert) @ [CHR 0x0A]"

definition ca_verify_server_cmd :: "ca_env \<Rightarrow> string \<Rightarrow> string \<Rightarrow> string \<Rightarrow> gerr + string" where
  "ca_verify_server_cmd e dir cert server_name =
     (if server_name = [] then Inl (plain_error ''--server-name is required'')
      else let path = (if cert = [] then path_join [dir, ''server'', ''server.crt''] else cert) in
        ebind (verify_server_cert (ca_lib e) (ca_read e) (path_join [dir, ''ca.crt'']) path server_name (ca_now e))
          (\<lambda>c. Inr (verified_line e ''server'' c)))"

definition ca_verify_client_cmd :: "ca_env \<Rightarrow> string \<Rightarrow> string \<Rightarrow> string \<Rightarrow> gerr + string" where
  "ca_verify_client_cmd e dir cert cn =
     (let path = (if cert = [] then path_join [dir, ''client'', ''client.crt''] else cert) in
      ebind (verify_client_cert (ca_lib e) (ca_read e) (path_join [dir, ''ca.crt'']) path cn (ca_now e))
        (\<lambda>c. Inr (verified_line e ''client'' c)))"

subsection \<open>connect and reverse-client\<close>

fun pick_bindings :: "profile_binding list \<Rightarrow> string list \<Rightarrow> profile_binding list \<times> string list" where
  "pick_bindings [] want = ([], want)"
| "pick_bindings (b # bs) want =
     (if pb_name b \<in> set want
      then (case pick_bindings bs (removeAll (pb_name b) want) of (out, left) \<Rightarrow> (b # out, left))
      else pick_bindings bs want)"

definition filter_profiles :: "(string list \<Rightarrow> string list) \<Rightarrow> profile_binding list \<Rightarrow> string \<Rightarrow> gerr + profile_binding list" where
  "filter_profiles ord bs pick = (case pick_bindings bs (remdups (wanted_names pick)) of
     (out, missing) \<Rightarrow> if missing \<noteq> [] then
         Inl (Errorf ''%w: profile filter names not found in client.yaml: %v'' [ArgL (ord missing)] (Some (Sentinel ErrConfigInvalid)))
       else Inr out)"

text \<open>The check of \<open>--auth-mode\<close>, which connect and serve share.\<close>

definition override_mode :: "string \<Rightarrow> auth_mode \<Rightarrow> gerr + auth_mode" where
  "override_mode flag mode =
     (if flag = [] then Inr mode
      else if flag = AuthModeMTLS \<or> flag = AuthModeJWT then Inr flag
      else Inl (Errorf ''--%s must be mtls or jwt'' [ArgS ''auth-mode''] None))"

definition log_settings :: "string \<Rightarrow> string \<Rightarrow> log_config \<Rightarrow> string \<times> string" where
  "log_settings level fmt c = (if level = [] then lc_level c else level, if fmt = [] then lc_format c else fmt)"

record connect_opts =
  co_config :: string
  co_server :: string
  co_profiles :: string
  co_auth_mode :: string
  co_node :: string
  co_fail_fast :: bool

definition filter_if_set :: "(string list \<Rightarrow> string list) \<Rightarrow> string \<Rightarrow> client_config \<Rightarrow> gerr + client_config" where
  "filter_if_set ord pick c =
     (if pick = [] then Inr c else ebind (filter_profiles ord (cc_profiles c) pick) (\<lambda>bs. Inr (c\<lparr>cc_profiles := bs\<rparr>)))"

definition connect_config :: "(string list \<Rightarrow> string list) \<Rightarrow> connect_opts \<Rightarrow> client_config \<Rightarrow> gerr + client_config" where
  "connect_config ord o1 c0 =
     (let c1 = (if co_server o1 \<noteq> [] then c0\<lparr>cc_server := co_server o1\<rparr> else c0) in
      ebind (override_mode (co_auth_mode o1) (cc_auth_mode c1)) (\<lambda>mode.
        let c2 = c1\<lparr>cc_auth_mode := mode\<rparr>; c3 = (if co_node o1 \<noteq> [] then c2\<lparr>cc_node_id := co_node o1\<rparr> else c2) in
        ebind (filter_if_set ord (co_profiles o1) c3) (\<lambda>c4.
          if cc_profiles c4 = [] then
            Inl (Errorf ''%w: client.yaml must include at least one profile binding'' [] (Some (Sentinel ErrConfigInvalid)))
          else Inr c4)))"

definition connect_cmd ::
  "(string \<Rightarrow> gerr + raw_client_config) \<Rightarrow> host_env \<Rightarrow> registry \<Rightarrow> ((string \<times> unit) list \<Rightarrow> (string \<times> unit) list) \<Rightarrow>
   (string list \<Rightarrow> string list) \<Rightarrow> gerr option \<Rightarrow> string \<Rightarrow> connect_opts \<Rightarrow> gerr + agent list \<times> upgrade_maintainer option" where
  "connect_cmd yaml env reg ord1 ord tls version o1 =
     (if co_config o1 = [] then Inl (Errorf ''--%s is required'' [ArgS ''config''] None)
      else ebind (load_client yaml env (co_config o1)) (\<lambda>c0.
        ebind (connect_config ord o1 c0) (\<lambda>c. client_run reg ord1 tls c version (co_fail_fast o1) [])))"

definition reverse_client_cmd ::
  "(string \<Rightarrow> gerr + raw_client_config) \<Rightarrow> host_env \<Rightarrow> registry \<Rightarrow> ((string \<times> unit) list \<Rightarrow> (string \<times> unit) list) \<Rightarrow>
   (string list \<Rightarrow> string list) \<Rightarrow> gerr option \<Rightarrow> gerr option \<Rightarrow> string \<Rightarrow> string \<Rightarrow> string \<Rightarrow> string \<Rightarrow>
   gerr + reverse_agents \<times> upgrade_maintainer option" where
  "reverse_client_cmd yaml env reg ord1 ord tls listen_err version path pick listen =
     (if path = [] then Inl (Errorf ''--%s is required'' [ArgS ''config''] None)
      else ebind (load_client yaml env path) (\<lambda>c0.
        ebind (filter_if_set ord pick c0) (\<lambda>c1.
          let c2 = (if trim_space listen \<noteq> [] then c1\<lparr>cc_reverse := (cc_reverse c1)\<lparr>rc_listen := trim_space listen\<rparr>\<rparr> else c1)
          in reverse_run reg ord1 tls listen_err c2 version False [])))"

subsection \<open>serve and reverse-connect\<close>

definition default_status_socket :: "host_env \<Rightarrow> string" where
  "default_status_socket env = (let dir = he_getenv env ''XDG_RUNTIME_DIR'' in
     if dir \<noteq> [] then dir @ ''/pangaea.sock'' else ''/tmp/pangaea.sock'')"

record serve_opts =
  so_config :: string
  so_auth_mode :: string
  so_also :: "string list"

record yaml_lib =
  yl_server :: "(ssh_node_aux \<Rightarrow> ssh_node) \<Rightarrow> string \<Rightarrow> gerr + server_config"
  yl_profiles :: "string \<Rightarrow> gerr + raw_profile list"

definition load_store :: "yaml_lib \<Rightarrow> host_env \<Rightarrow> server_config \<Rightarrow> gerr + profile_store" where
  "load_store y env cfg = (case load_profiles (yl_profiles y) env (sc_profiles_file cfg) of
     Inl e \<Rightarrow> Inl (Errorf ''load profiles: %w'' [] (Some e))
   | Inr pf \<Rightarrow> Inr (new_profile_store (Some pf)))"

definition serve_cmd ::
  "yaml_lib \<Rightarrow> pki_lib \<Rightarrow> host_env \<Rightarrow> gotime \<Rightarrow> string \<Rightarrow> serve_opts \<Rightarrow> gerr + server_config \<times> server_parts" where
  "serve_cmd y lib env now version o1 =
     (if so_config o1 = [] then Inl (Errorf ''--%s is required'' [ArgS ''config''] None)
      else ebind (load_server (yl_server y) env (so_config o1)) (\<lambda>c0.
        ebind (override_mode (so_auth_mode o1) (sc_auth_mode c0)) (\<lambda>mode.
        let cfg = c0\<lparr>sc_auth_mode := mode\<rparr> in
        ebind (load_store y env cfg) (\<lambda>ps.
          case find (\<lambda>name. store_get ps name = None) (so_also o1) of
            Some name \<Rightarrow> Inl (Errorf ''%w: %s'' [ArgS name] (Some (Sentinel ErrProfileNotFound)))
          | None \<Rightarrow>
              if so_also o1 \<noteq> [] \<and> \<not> sn_enabled (sc_self_node cfg) then
                Inl (Errorf ''--%s requires server.self_node.enabled=true and self-node PKI paths'' [ArgS ''also-client''] None)
              else ebind (server_start lib env now cfg ps \<lparr>op_version = version, op_status_socket = default_status_socket env,
                  op_self_client = (so_also o1 \<noteq> []), op_also = so_also o1\<rparr>) (\<lambda>parts. Inr (cfg, parts))))))"

text \<open>What \<open>SIGHUP\<close> does: a file that does not load leaves the profiles as they are.\<close>

definition serve_reload :: "yaml_lib \<Rightarrow> host_env \<Rightarrow> server_config \<Rightarrow> profile_store \<Rightarrow> gerr option \<times> profile_store" where
  "serve_reload y env cfg ps = store_reload (yl_profiles y) env (sc_profiles_file cfg) ps"

definition reverse_connect_cmd ::
  "yaml_lib \<Rightarrow> host_env \<Rightarrow> (string list \<Rightarrow> string list) \<Rightarrow> string \<Rightarrow> string \<Rightarrow> string \<Rightarrow> gerr + bridge_target list" where
  "reverse_connect_cmd y env ord path pick socket =
     (if path = [] then Inl (Errorf ''--%s is required'' [ArgS ''config''] None)
      else ebind (load_server (yl_server y) env path) (\<lambda>cfg.
        ebind (load_store y env cfg) (\<lambda>ps0.
        ebind (if pick = [] then Inr ps0 else profile_set ord ps0 pick) (\<lambda>ps. bridge_run cfg ps socket))))"

subsection \<open>inspect and version\<close>

record inspection =
  is_path :: string
  is_format :: string
  is_validation :: validation_result
  is_summary :: summary

definition inspect_cmd :: "registry \<Rightarrow> host_env \<Rightarrow> validate_opts \<Rightarrow> string \<Rightarrow> string list \<Rightarrow> gerr + inspection" where
  "inspect_cmd reg env vo fmt args = (case args of
     [path] \<Rightarrow>
       ebind (if fmt \<noteq> [] then Inr fmt
              else (case registry_list reg of
                [] \<Rightarrow> Inl (Errorf ''%w: no formats registered'' [] (Some (Sentinel ErrFormatNotRegistered)))
              | n # _ \<Rightarrow> Inr n)) (\<lambda>name.
       case registry_get reg name of
         None \<Rightarrow> Inl (Errorf ''%w: %s'' [ArgS name] (Some (Sentinel ErrFormatNotRegistered)))
       | Some f \<Rightarrow>
           ebind (he_read env path) (\<lambda>raw.
           ebind (f_parse f raw) (\<lambda>snap.
             Inr \<lparr>is_path = path, is_format = f_name f, is_validation = f_validate f snap vo, is_summary = f_redact f snap\<rparr>)))
   | _ \<Rightarrow> Inl (plain_error ''inspect requires exactly one path argument''))"

definition version_cmd :: "string \<Rightarrow> string \<Rightarrow> string \<Rightarrow> string \<Rightarrow> string" where
  "version_cmd version os arch go = ''pangaeactl '' @ version @ '' '' @ os @ ''/'' @ arch @ '' '' @ go @ [CHR 0x0A]"

end
