(* ===== verification/Cli_Prompt.thy ===== *)
theory Cli_Prompt
  imports Cli_Commands
begin

text \<open>
  The questions of \<open>pangaeactl setup\<close> (promptUI in cmd/pangaeactl/setup.go). The standard input is the text that is
  still unread and the error that reading ends with, \<open>io.EOF\<close> or another; after it, every further read gives it
  again. A question may be asked again and again, so a prompt is a partial function: \<open>None\<close> is never returning.
\<close>

definition io_EOF :: gerr where "io_EOF = Ext ''EOF''"

definition eol :: char where "eol = CHR 0x0A"

record prompt_ui =
  ui_in :: string
  ui_end :: gerr
  ui_out :: string

type_synonym 'a prompt = "prompt_ui \<Rightarrow> ((gerr + 'a) \<times> prompt_ui) option"

definition say :: "string \<Rightarrow> prompt_ui \<Rightarrow> prompt_ui" where
  "say text u = u\<lparr>ui_out := ui_out u @ text\<rparr>"

text \<open>\<open>ReadString\<close> up to a new line.\<close>

definition read_line :: "prompt_ui \<Rightarrow> string \<times> gerr option \<times> prompt_ui" where
  "read_line u =
     (let line = takeWhile (\<lambda>c. c \<noteq> eol) (ui_in u) in
      if eol \<in> set (ui_in u) then (line @ [eol], None, u\<lparr>ui_in := drop (Suc (length line)) (ui_in u)\<rparr>)
      else (line, Some (ui_end u), u\<lparr>ui_in := []\<rparr>))"

definition p_ret :: "'a \<Rightarrow> 'a prompt" where "p_ret x u = Some (Inr x, u)"
definition p_fail :: "gerr \<Rightarrow> 'a prompt" where "p_fail e u = Some (Inl e, u)"

definition p_bind :: "'a prompt \<Rightarrow> ('a \<Rightarrow> 'b prompt) \<Rightarrow> 'b prompt" where
  "p_bind p k u = (case p u of
     None \<Rightarrow> None
   | Some (Inl e, u') \<Rightarrow> Some (Inl e, u')
   | Some (Inr x, u') \<Rightarrow> k x u')"

definition p_say :: "string \<Rightarrow> unit prompt" where "p_say text u = Some (Inr (), say text u)"

subsection \<open>One question\<close>

definition prompt_string :: "string \<Rightarrow> string \<Rightarrow> prompt_ui \<Rightarrow> (gerr + string) \<times> prompt_ui" where
  "prompt_string label def u =
     (case read_line (say (if def \<noteq> [] then label @ '' ['' @ def @ '']: '' else label @ '': '') u) of
        (line, err, u') \<Rightarrow>
          if err \<noteq> None \<and> err \<noteq> Some io_EOF then (Inl (the err), u')
          else let text = (if trim_space line = [] then def else trim_space line) in
            if err = Some io_EOF \<and> text = [] then (Inl io_EOF, u') else (Inr text, u'))"

partial_function (option) prompt_required :: "string \<Rightarrow> string \<Rightarrow> string prompt" where
  "prompt_required label def u = (case prompt_string label def u of
     (Inl e, u') \<Rightarrow> Some (Inl e, u')
   | (Inr v, u') \<Rightarrow> if trim_space v \<noteq> [] then Some (Inr v, u')
       else prompt_required label def (say (''A value is required.'' @ [eol]) u'))"

text \<open>
  \<open>strings.ToLower\<close>, as far as a comparison with an ASCII word can tell: two letters outside ASCII become ASCII letters,
  the Kelvin sign and the dotted capital I; the others never do.
\<close>

fun lower_word :: "string \<Rightarrow> string" where
  "lower_word (a # b # c # cs) =
     (if [a, b, c] = [CHR 0xE2, CHR 0x84, CHR 0xAA] then CHR ''k'' # lower_word cs
      else if [a, b] = [CHR 0xC4, CHR 0xB0] then CHR ''i'' # lower_word (c # cs)
      else lower_char a # lower_word (b # c # cs))"
| "lower_word [a, b] = (if [a, b] = [CHR 0xC4, CHR 0xB0] then ''i'' else [lower_char a, lower_char b])"
| "lower_word [a] = [lower_char a]"
| "lower_word [] = []"

partial_function (option) prompt_bool :: "string \<Rightarrow> bool \<Rightarrow> bool prompt" where
  "prompt_bool label def u =
     (case read_line (say (label @ '' ['' @ (if def then ''Y/n'' else ''y/N'') @ '']: '') u) of
        (line, err, u') \<Rightarrow>
          if err \<noteq> None \<and> err \<noteq> Some io_EOF then Some (Inl (the err), u')
          else let text = trim_space (lower_word line) in
            if text = [] then Some (Inr def, u')
            else if text = ''y'' \<or> text = ''yes'' then Some (Inr True, u')
            else if text = ''n'' \<or> text = ''no'' then Some (Inr False, u')
            else prompt_bool label def (say (''Please answer yes or no.'' @ [eol]) u'))"

partial_function (option) prompt_int :: "string \<Rightarrow> int \<Rightarrow> int prompt" where
  "prompt_int label def u = (case prompt_string label (int_text def) u of
     (Inl e, u') \<Rightarrow> Some (Inl e, u')
   | (Inr raw, u') \<Rightarrow> (case parse_int raw of
       None \<Rightarrow> prompt_int label def (say (''Please enter a positive integer.'' @ [eol]) u')
     | Some n \<Rightarrow> if n \<le> 0 then prompt_int label def (say (''Please enter a positive integer.'' @ [eol]) u')
         else Some (Inr n, u')))"

definition split_csv :: "string \<Rightarrow> string list" where
  "split_csv raw = (if trim_space raw = [] then []
     else foldl (\<lambda>out p. let q = trim_space p in if q = [] \<or> q \<in> set out then out else out @ [q]) [] (split_on (CHR '','') raw))"

definition prompt_list :: "string \<Rightarrow> string list \<Rightarrow> string list prompt" where
  "prompt_list label def u = (case prompt_string label (join_with '','' def) u of
     (Inl e, u') \<Rightarrow> Some (Inl e, u')
   | (Inr raw, u') \<Rightarrow> Some (Inr (split_csv raw), u'))"

partial_function (option) prompt_choice :: "string \<Rightarrow> string list \<Rightarrow> string \<Rightarrow> string prompt" where
  "prompt_choice label allowed def u =
     (case prompt_string (label @ '' ('' @ join_with ''/'' allowed @ '')'') def u of
        (Inl e, u') \<Rightarrow> Some (Inl e, u')
      | (Inr raw, u') \<Rightarrow>
          let v = lower_word (trim_space raw) in
          if v \<in> set (map lower_word allowed) then Some (Inr v, u')
          else prompt_choice label allowed def (say (''Please choose one of: '' @ join_with '', '' allowed @ [eol]) u'))"

subsection \<open>Every question is answered\<close>

text \<open>An answer never makes the input longer; \<open>reads\<close> is a question that is answered only by a line of it.\<close>

definition shorter :: "prompt_ui \<Rightarrow> prompt_ui \<Rightarrow> bool" where
  "shorter u' u \<longleftrightarrow> length (ui_in u') \<le> length (ui_in u) \<and> ui_end u' = ui_end u"

definition answers :: "'a prompt \<Rightarrow> bool" where
  "answers p \<longleftrightarrow> (\<forall>u. \<exists>r u'. p u = Some (r, u') \<and> shorter u' u)"

named_theorems answers_intro \<open>prompts that return on every input\<close>

lemma answersI: "(\<And>u. \<exists>r u'. p u = Some (r, u') \<and> shorter u' u) \<Longrightarrow> answers p"
  by (simp add: answers_def)

lemma answersE:
  assumes "answers p"
  obtains r u' where "p u = Some (r, u')" "shorter u' u"
  using assms unfolding answers_def by blast

lemma shorter_refl [simp]: "shorter u u"
  by (simp add: shorter_def)

lemma shorter_trans: "shorter u v \<Longrightarrow> shorter v w \<Longrightarrow> shorter u w"
  by (simp add: shorter_def)

lemma shorter_say [simp]: "shorter (say t u) v \<longleftrightarrow> shorter u v" "shorter u (say t v) \<longleftrightarrow> shorter u v"
  by (simp_all add: shorter_def say_def)

lemma say_simps [simp]: "ui_in (say t u) = ui_in u" "ui_end (say t u) = ui_end u"
  by (simp_all add: say_def)

text \<open>A line is read, or the input has ended.\<close>

lemma read_line_cases:
  assumes "read_line u = (line, err, u')"
  obtains (line) "err = None" "length (ui_in u') < length (ui_in u)" "ui_end u' = ui_end u"
  | (ended) "err = Some (ui_end u)" "line = ui_in u" "ui_in u' = []" "ui_end u' = ui_end u"
proof (cases "eol \<in> set (ui_in u)")
  case True
  then have "length (ui_in u) > 0" by auto
  then show thesis using True assms that(1) by (auto simp: read_line_def Let_def)
next
  case False
  then have "takeWhile (\<lambda>c. c \<noteq> eol) (ui_in u) = ui_in u" by (auto simp: takeWhile_eq_all_conv)
  then show thesis using False assms that(2) by (auto simp: read_line_def Let_def)
qed

text \<open>At the end of the input a question without an error gives its default, unless text without a new line is left.\<close>

lemma prompt_string_cases:
  assumes "prompt_string label def u = (r, u')"
  obtains (err) e where "r = Inl e" "shorter u' u"
  | (read) v where "r = Inr v" "length (ui_in u') < length (ui_in u)" "ui_end u' = ui_end u" "v = def \<or> trim_space v = v \<and> v \<noteq> []"
  | (default) "r = Inr def" "def \<noteq> []" "ui_in u' = []" "ui_end u' = ui_end u" "ui_in u = []"
proof -
  obtain line err v where l: "read_line (say (if def \<noteq> [] then label @ '' ['' @ def @ '']: '' else label @ '': '') u) = (line, err, v)"
    by (metis prod_cases3)
  let ?t = "if trim_space line = [] then def else trim_space line"
  from l show thesis
  proof (cases rule: read_line_cases)
    case line
    then have "r = Inr ?t" "u' = v" using assms l by (auto simp: prompt_string_def Let_def)
    then show thesis using line that(2) [of ?t] by auto
  next
    case ended
    then consider "r = Inl (ui_end u)" "u' = v" | "r = Inl io_EOF" "u' = v" | "r = Inr ?t" "u' = v" "?t \<noteq> []"
      using assms l by (auto simp: prompt_string_def Let_def split: if_splits)
    then show thesis
    proof cases
      case 3
      show thesis
      proof (cases "ui_in u = []")
        case True
        then show thesis using 3 ended that(3) by simp
      next
        case False
        then show thesis using 3 ended that(2) [of ?t] by auto
      qed
    qed (use ended that(1) in \<open>auto simp: shorter_def\<close>)
  qed
qed

text \<open>
  A question that is asked again after an answer that is not taken: \<open>ask\<close> asks it once, \<open>pick\<close> takes an answer. Every
  answer that is not taken has used up a line.
\<close>

definition asks_again ::
  "'a prompt \<Rightarrow> (prompt_ui \<Rightarrow> (gerr + 'b) \<times> prompt_ui) \<Rightarrow> ('b \<Rightarrow> 'a option) \<Rightarrow> string \<Rightarrow> bool" where
  "asks_again p ask pick msg \<longleftrightarrow>
     (\<forall>u. p u = (case ask u of (Inl e, u') \<Rightarrow> Some (Inl e, u')
        | (Inr v, u') \<Rightarrow> (case pick v of Some x \<Rightarrow> Some (Inr x, u') | None \<Rightarrow> p (say msg u')))) \<and>
     (\<forall>u r u'. ask u = (r, u') \<longrightarrow> shorter u' u \<and> (\<forall>v. r = Inr v \<and> pick v = None \<longrightarrow> length (ui_in u') < length (ui_in u)))"

lemma asks_againI:
  assumes "\<And>u. p u = (case ask u of (Inl e, u') \<Rightarrow> Some (Inl e, u')
      | (Inr v, u') \<Rightarrow> (case pick v of Some x \<Rightarrow> Some (Inr x, u') | None \<Rightarrow> p (say msg u')))"
    and "\<And>u r u'. ask u = (r, u') \<Longrightarrow> shorter u' u \<and> (\<forall>v. r = Inr v \<and> pick v = None \<longrightarrow> length (ui_in u') < length (ui_in u))"
  shows "asks_again p ask pick msg"
  unfolding asks_again_def using assms by (intro conjI allI impI) blast+

lemma asks_again_step:
  assumes "asks_again p ask pick msg"
  shows "p u = (case ask u of (Inl e, u') \<Rightarrow> Some (Inl e, u')
      | (Inr v, u') \<Rightarrow> (case pick v of Some x \<Rightarrow> Some (Inr x, u') | None \<Rightarrow> p (say msg u')))"
  using assms unfolding asks_again_def by (rule conjunct1 [THEN spec])

lemma asks_again_reads:
  assumes "asks_again p ask pick msg" "ask u = (r, u')"
  shows "shorter u' u" "r = Inr v \<Longrightarrow> pick v = None \<Longrightarrow> length (ui_in u') < length (ui_in u)"
  using assms unfolding asks_again_def by blast+

text \<open>It returns, with the outcome of the last time it was asked.\<close>

definition taken :: "('b \<Rightarrow> 'a option) \<Rightarrow> gerr + 'b \<Rightarrow> gerr + 'a \<Rightarrow> bool" where
  "taken pick q r = (case q of Inl e \<Rightarrow> r = Inl e | Inr v \<Rightarrow> map_option Inr (pick v) = Some r)"

lemma asks_again_last:
  assumes "asks_again p ask pick msg"
  shows "\<exists>r u' u0 q. p u = Some (r, u') \<and> shorter u0 u \<and> ask u0 = (q, u') \<and> shorter u' u0 \<and> taken pick q r"
proof (induction "length (ui_in u)" arbitrary: u rule: less_induct)
  case less
  obtain r u' where a: "ask u = (r, u')" by fastforce
  note s = asks_again_reads [OF assms a]
  show ?case
  proof (cases "\<exists>v. r = Inr v \<and> pick v = None")
    case True
    then obtain v where v: "r = Inr v" "pick v = None" by blast
    then have p: "p u = p (say msg u')" using a asks_again_step [OF assms, of u] by simp
    have "length (ui_in (say msg u')) < length (ui_in u)" using s(2) [OF v] by simp
    from less [OF this] obtain r1 w u0 q where "p (say msg u') = Some (r1, w)" "shorter u0 (say msg u')" "ask u0 = (q, w)"
      "shorter w u0" "taken pick q r1" by blast
    moreover from this(2) have "shorter u0 u" using s(1) by (auto intro: shorter_trans)
    ultimately show ?thesis unfolding p by blast
  next
    case False
    then obtain x where "p u = Some (x, u')" "taken pick r x"
      using a asks_again_step [OF assms, of u] by (cases r) (auto simp: taken_def split: option.splits)
    then show ?thesis using a s(1) shorter_refl by blast
  qed
qed

lemma asks_again_answers:
  assumes "asks_again p ask pick msg"
  shows "answers p"
proof (rule answersI)
  fix u
  from asks_again_last [OF assms, of u] obtain r u' u0 where "p u = Some (r, u')" "shorter u0 u" "shorter u' u0" by blast
  then show "\<exists>r u'. p u = Some (r, u') \<and> shorter u' u" by (auto intro: shorter_trans)
qed

lemma asks_again_Inr:
  assumes "asks_again p ask pick msg" "p u = Some (Inr x, u')"
  obtains u0 v where "shorter u0 u" "ask u0 = (Inr v, u')" "pick v = Some x"
proof -
  obtain r w u0 q where l: "p u = Some (r, w)" "shorter u0 u" "ask u0 = (q, w)" "taken pick q r"
    using asks_again_last [OF assms(1), of u] by blast
  then show thesis using assms(2) that by (cases q) (auto simp: taken_def)
qed

lemma prompt_string_shorter: "prompt_string label def u = (r, u') \<Longrightarrow> shorter u' u"
  by (erule prompt_string_cases) (auto simp: shorter_def)

lemma prompt_string_picks:
  assumes "prompt_string label def u = (r, u')" "def = [] \<or> pick def \<noteq> None"
  shows "shorter u' u \<and> (\<forall>v. r = Inr v \<and> pick v = None \<longrightarrow> length (ui_in u') < length (ui_in u))"
  using assms(1) by (cases rule: prompt_string_cases) (use assms(2) in \<open>auto simp: shorter_def\<close>)

lemma prompt_string_answers [answers_intro]: "answers (\<lambda>u. Some (prompt_string label def u))"
  by (rule answersI) (metis prompt_string_shorter prod.collapse)

definition pick_filled :: "string \<Rightarrow> string option" where
  "pick_filled v = (if trim_space v \<noteq> [] then Some v else None)"

definition pick_choice :: "string list \<Rightarrow> string \<Rightarrow> string option" where
  "pick_choice allowed raw = (let v = lower_word (trim_space raw) in if v \<in> set (map lower_word allowed) then Some v else None)"

definition pick_int :: "string \<Rightarrow> int option" where
  "pick_int raw = (case parse_int raw of None \<Rightarrow> None | Some n \<Rightarrow> if n \<le> 0 then None else Some n)"

definition pick_bool :: "bool \<Rightarrow> string \<Rightarrow> bool option" where
  "pick_bool def text = (if text = [] then Some def else if text = ''y'' \<or> text = ''yes'' then Some True
     else if text = ''n'' \<or> text = ''no'' then Some False else None)"

definition ask_bool :: "string \<Rightarrow> bool \<Rightarrow> prompt_ui \<Rightarrow> (gerr + string) \<times> prompt_ui" where
  "ask_bool label def u = (case read_line (say (label @ '' ['' @ (if def then ''Y/n'' else ''y/N'') @ '']: '') u) of
     (line, err, u') \<Rightarrow> if err \<noteq> None \<and> err \<noteq> Some io_EOF then (Inl (the err), u') else (Inr (trim_space (lower_word line)), u'))"

lemma prompt_required_again:
  assumes "def = [] \<or> trim_space def \<noteq> []"
  shows "asks_again (prompt_required label def) (prompt_string label def) pick_filled (''A value is required.'' @ [eol])"
proof (rule asks_againI)
  show "prompt_required label def u = (case prompt_string label def u of (Inl e, u') \<Rightarrow> Some (Inl e, u')
    | (Inr v, u') \<Rightarrow> (case pick_filled v of Some x \<Rightarrow> Some (Inr x, u')
      | None \<Rightarrow> prompt_required label def (say (''A value is required.'' @ [eol]) u')))" for u
    by (subst prompt_required.simps) (auto simp: pick_filled_def split: prod.splits sum.splits)
qed (rule prompt_string_picks, use assms in \<open>auto simp: pick_filled_def\<close>)

lemma prompt_choice_again:
  assumes "lower_word (trim_space def) \<in> set (map lower_word allowed)"
  shows "asks_again (prompt_choice label allowed def) (prompt_string (label @ '' ('' @ join_with ''/'' allowed @ '')'') def)
    (pick_choice allowed) (''Please choose one of: '' @ join_with '', '' allowed @ [eol])"
proof (rule asks_againI)
  show "prompt_choice label allowed def u = (case prompt_string (label @ '' ('' @ join_with ''/'' allowed @ '')'') def u of
      (Inl e, u') \<Rightarrow> Some (Inl e, u')
    | (Inr v, u') \<Rightarrow> (case pick_choice allowed v of Some x \<Rightarrow> Some (Inr x, u')
      | None \<Rightarrow> prompt_choice label allowed def (say (''Please choose one of: '' @ join_with '', '' allowed @ [eol]) u')))" for u
    by (subst prompt_choice.simps) (auto simp: pick_choice_def Let_def split: prod.splits sum.splits)
qed (rule prompt_string_picks, use assms in \<open>auto simp: pick_choice_def Let_def\<close>)

lemma prompt_int_again:
  assumes "parse_int (int_text def) = Some def" "0 < def"
  shows "asks_again (prompt_int label def) (prompt_string label (int_text def)) pick_int (''Please enter a positive integer.'' @ [eol])"
proof (rule asks_againI)
  show "prompt_int label def u = (case prompt_string label (int_text def) u of (Inl e, u') \<Rightarrow> Some (Inl e, u')
    | (Inr v, u') \<Rightarrow> (case pick_int v of Some x \<Rightarrow> Some (Inr x, u')
      | None \<Rightarrow> prompt_int label def (say (''Please enter a positive integer.'' @ [eol]) u')))" for u
    by (subst prompt_int.simps) (auto simp: pick_int_def split: prod.splits sum.splits option.splits)
qed (rule prompt_string_picks, use assms in \<open>auto simp: pick_int_def\<close>)

lemma lower_word_Nil_iff [simp]: "lower_word s = [] \<longleftrightarrow> s = []"
  by (cases s rule: lower_word.cases) auto

text \<open>The error of a read ends a yes-or-no question; the end of the input is its default.\<close>

lemma ask_bool_reads:
  assumes "ask_bool label def u = (r, u')"
  shows "shorter u' u" "r = Inr v \<Longrightarrow> v \<noteq> [] \<Longrightarrow> length (ui_in u') < length (ui_in u)"
proof -
  obtain line err w where l: "read_line (say (label @ '' ['' @ (if def then ''Y/n'' else ''y/N'') @ '']: '') u) = (line, err, w)"
    by (metis prod_cases3)
  from l show "shorter u' u" "r = Inr v \<Longrightarrow> v \<noteq> [] \<Longrightarrow> length (ui_in u') < length (ui_in u)"
    by (atomize (full), cases rule: read_line_cases)
      (use assms l in \<open>auto simp: ask_bool_def shorter_def split: if_splits\<close>)
qed

lemma prompt_bool_again:
  "asks_again (prompt_bool label def) (ask_bool label def) (pick_bool def) (''Please answer yes or no.'' @ [eol])"
proof (rule asks_againI)
  show "prompt_bool label def u = (case ask_bool label def u of (Inl e, u') \<Rightarrow> Some (Inl e, u')
    | (Inr v, u') \<Rightarrow> (case pick_bool def v of Some x \<Rightarrow> Some (Inr x, u')
      | None \<Rightarrow> prompt_bool label def (say (''Please answer yes or no.'' @ [eol]) u')))" for u
    by (subst prompt_bool.simps) (auto simp: Let_def ask_bool_def pick_bool_def split: prod.splits)
  show "shorter u' u \<and> (\<forall>v. r = Inr v \<and> pick_bool def v = None \<longrightarrow> length (ui_in u') < length (ui_in u))"
    if "ask_bool label def u = (r, u')" for u r u'
    using ask_bool_reads [OF that] by (auto simp: pick_bool_def split: if_splits)
qed

lemmas prompt_answers [answers_intro] =
  prompt_required_again [THEN asks_again_answers] prompt_choice_again [THEN asks_again_answers]
  prompt_int_again [THEN asks_again_answers] prompt_bool_again [THEN asks_again_answers]

lemma prompt_list_answers [answers_intro]: "answers (prompt_list label def)"
proof (rule answersI)
  fix u
  obtain r u' where p: "prompt_string label (join_with '','' def) u = (r, u')" by fastforce
  then show "\<exists>r u'. prompt_list label def u = Some (r, u') \<and> shorter u' u"
    using prompt_string_shorter [OF p] by (auto simp: prompt_list_def split: sum.splits)
qed

lemma p_ret_answers [answers_intro]: "answers (p_ret x)" "answers (p_fail e)" "answers (p_say t)"
  by (simp_all add: answers_def p_ret_def p_fail_def p_say_def)

lemma p_bind_answers [answers_intro]:
  assumes "answers p" "\<And>x. answers (k x)"
  shows "answers (p_bind p k)"
proof (rule answersI)
  fix u
  obtain r u' where p: "p u = Some (r, u')" "shorter u' u" using answersE [OF assms(1)] by blast
  show "\<exists>r u'. p_bind p k u = Some (r, u') \<and> shorter u' u"
  proof (cases r)
    case (Inr x)
    obtain r2 u2 where "k x u' = Some (r2, u2)" "shorter u2 u'" using answersE [OF assms(2) [of x]] by blast
    then show ?thesis using p Inr by (auto simp: p_bind_def intro: shorter_trans)
  qed (use p in \<open>auto simp: p_bind_def\<close>)
qed

lemma answers_if [answers_intro]: "(b \<Longrightarrow> answers p) \<Longrightarrow> (\<not> b \<Longrightarrow> answers q) \<Longrightarrow> answers (if b then p else q)"
  by simp

subsection \<open>What the answers are\<close>

text \<open>\<open>gives P p\<close>: every value that \<open>p\<close> gives satisfies \<open>P\<close>.\<close>

definition gives :: "('a \<Rightarrow> bool) \<Rightarrow> 'a prompt \<Rightarrow> bool" where
  "gives P p \<longleftrightarrow> (\<forall>u x u'. p u = Some (Inr x, u') \<longrightarrow> P x)"

named_theorems gives_intro \<open>what the prompts give\<close>

lemma givesI: "(\<And>u x u'. p u = Some (Inr x, u') \<Longrightarrow> P x) \<Longrightarrow> gives P p"
  by (simp add: gives_def)

lemma givesD: "gives P p \<Longrightarrow> p u = Some (Inr x, u') \<Longrightarrow> P x"
  unfolding gives_def by blast

lemma gives_bind: "gives Q p \<Longrightarrow> (\<And>x. Q x \<Longrightarrow> gives P (k x)) \<Longrightarrow> gives P (p_bind p k)"
  by (rule givesI) (auto simp: p_bind_def split: option.splits prod.splits sum.splits dest: givesD)

lemma gives_ret: "P x \<Longrightarrow> gives P (p_ret x)"
  by (simp add: gives_def p_ret_def)

lemma gives_any: "gives (\<lambda>_. True) p"
  by (simp add: gives_def)

definition filled :: "string \<Rightarrow> bool" where "filled v \<longleftrightarrow> trim_space v \<noteq> []"

lemma filled_nonempty: "filled v \<Longrightarrow> v \<noteq> []"
  by (auto simp: filled_def)

lemma gives_again:
  assumes "asks_again p ask pick msg" "\<And>v x. pick v = Some x \<Longrightarrow> P x"
  shows "gives P p"
  by (rule givesI) (use asks_again_Inr [OF assms(1)] assms(2) in blast)

lemma gives_required: "def = [] \<or> filled def \<Longrightarrow> gives filled (prompt_required label def)"
  by (rule gives_again [OF prompt_required_again]) (auto simp: pick_filled_def filled_def split: if_splits)

lemma gives_choice:
  "lower_word (trim_space def) \<in> set (map lower_word allowed) \<Longrightarrow> gives (\<lambda>v. v \<in> set (map lower_word allowed)) (prompt_choice label allowed def)"
  by (rule gives_again [OF prompt_choice_again]) (auto simp: pick_choice_def Let_def split: if_splits)

lemma gives_int: "parse_int (int_text def) = Some def \<Longrightarrow> 0 < def \<Longrightarrow> gives (\<lambda>n. 0 < n) (prompt_int label def)"
  by (rule gives_again [OF prompt_int_again]) (auto simp: pick_int_def split: if_splits option.splits)

lemma split_csv_items: "[] \<notin> set (split_csv raw) \<and> distinct (split_csv raw)"
proof -
  have "[] \<notin> set (foldl f [] ps) \<and> distinct (foldl f [] ps)"
    if "f = (\<lambda>out p. let q = trim_space p in if q = [] \<or> q \<in> set out then out else out @ [q])" for f and ps :: "string list"
    by (induction ps rule: rev_induct) (auto simp: that Let_def)
  then show ?thesis by (simp add: split_csv_def)
qed

lemma gives_list: "gives (\<lambda>xs. [] \<notin> set xs \<and> distinct xs) (prompt_list label def)"
  using split_csv_items by (auto simp: gives_def prompt_list_def split: sum.splits prod.splits)

end
