(* ===== verification/Cli_Wizard.thy ===== *)
theory Cli_Wizard
  imports Cli_Prompt
begin

text \<open>
  The questions of \<open>setup server\<close> and \<open>setup client\<close> (cmd/pangaeactl/setup.go) and what becomes of the answers: the
  specification that is carried out afterwards. What the host says of itself is \<open>setup_host\<close>.
\<close>

record setup_host =
  su_cwd :: "gerr + string"
  su_hostname :: "gerr + string"
  su_user :: "gerr + string"
  su_exe :: "gerr + string"
  su_env :: host_env

definition ensure_abs_dir :: "setup_host \<Rightarrow> string \<Rightarrow> gerr + string" where
  "ensure_abs_dir h path =
     (if path = [] then Inl (plain_error ''output directory is required'')
      else if is_abs path then Inr (path_clean path)
      else ebind (su_cwd h) (\<lambda>wd. Inr (path_join [wd, path])))"

definition local_hostname :: "setup_host \<Rightarrow> string" where
  "local_hostname h = (case su_hostname h of
     Inr v \<Rightarrow> if trim_space v \<noteq> [] then trim_space v else ''localhost''
   | Inl _ \<Rightarrow> ''localhost'')"

definition current_username :: "setup_host \<Rightarrow> string" where
  "current_username h =
     (let fallback = (let v = trim_space (he_getenv (su_env h) ''USER'') in if v \<noteq> [] then v else ''root'') in
      case su_user h of Inr u \<Rightarrow> if u \<noteq> [] then u else fallback | Inl _ \<Rightarrow> fallback)"

definition current_executable :: "setup_host \<Rightarrow> string" where
  "current_executable h = (case su_exe h of Inr e \<Rightarrow> if e \<noteq> [] then e else ''pangaeactl'' | Inl _ \<Rightarrow> ''pangaeactl'')"

subsection \<open>Providers and profiles\<close>

record setup_provider =
  pv_key :: string
  pv_label :: string
  pv_format :: string
  pv_dir :: string
  pv_watch :: "string list"
  pv_meta :: string
  pv_strategy :: string
  pv_live :: bool

definition setup_providers :: "(string, setup_provider) gomap" where
  "setup_providers =
     [(''claude'', \<lparr>pv_key = ''claude'', pv_label = ''Claude CLI'', pv_format = ''claude-credentials-json-format'',
         pv_dir = ''~/.claude'', pv_watch = [''.credentials.json'', ''~/.claude.json'', ''.config.json''],
         pv_meta = ''~/.claude.json'', pv_strategy = ''expires_at_max'', pv_live = False\<rparr>),
      (''codex'', \<lparr>pv_key = ''codex'', pv_label = ''Codex CLI'', pv_format = ''codex-auth-json-format'',
         pv_dir = ''~/.codex'', pv_watch = [''auth.json''], pv_meta = [], pv_strategy = ''jwt_exp_max'', pv_live = False\<rparr>),
      (''gemini'', \<lparr>pv_key = ''gemini'', pv_label = ''Gemini CLI'', pv_format = ''gemini-oauth-creds-json-format'',
         pv_dir = ''~/.gemini'', pv_watch = [''oauth_creds.json''], pv_meta = [], pv_strategy = ''expiry_date_max'', pv_live = False\<rparr>)]"

text \<open>A key that is not there gives the zero value.\<close>

definition provider_of :: "string \<Rightarrow> setup_provider" where
  "provider_of key = (case map_of setup_providers key of Some p \<Rightarrow> p
     | None \<Rightarrow> \<lparr>pv_key = [], pv_label = [], pv_format = [], pv_dir = [], pv_watch = [], pv_meta = [], pv_strategy = [], pv_live = False\<rparr>)"

record setup_profile =
  sq_name :: string
  sq_provider :: setup_provider
  sq_dir :: string
  sq_allowed :: "string list"

text \<open>One round of the loops of \<open>promptServerProfiles\<close> and \<open>promptClientProfiles\<close>; \<open>None\<close> for \<open>allowed\<close> is the client's.\<close>

datatype asked_turn = RoundDone | RoundAgain | RoundAdd setup_profile

definition profile_rest :: "string list option \<Rightarrow> string \<Rightarrow> asked_turn prompt" where
  "profile_rest allowed name =
     p_bind (prompt_choice ''Provider'' [''claude'', ''codex'', ''gemini''] ''claude'') (\<lambda>key.
     let provider = provider_of key in
     p_bind (prompt_required (pv_label provider @ '' credentials directory'') (pv_dir provider)) (\<lambda>dir.
       case allowed of
         None \<Rightarrow> p_ret (RoundAdd \<lparr>sq_name = name, sq_provider = provider, sq_dir = dir, sq_allowed = []\<rparr>)
       | Some dflt \<Rightarrow>
           p_bind (prompt_list ''Allowed client node IDs for this profile'' dflt) (\<lambda>ids.
             if ids = [] then p_bind (p_say (''allowed_clients must not be empty.'' @ [eol])) (\<lambda>_. p_ret RoundAgain)
             else p_ret (RoundAdd \<lparr>sq_name = name, sq_provider = provider, sq_dir = dir, sq_allowed = ids\<rparr>))))"

definition profile_fields :: "string list option \<Rightarrow> asked_turn prompt" where
  "profile_fields allowed = p_bind (prompt_required ''Profile name'' []) (profile_rest allowed)"

definition profile_round :: "string list option \<Rightarrow> bool \<Rightarrow> asked_turn prompt" where
  "profile_round allowed first =
     p_bind (prompt_bool (if first then ''Add a profile'' else ''Add another profile'') first) (\<lambda>ok.
       if \<not> ok then
         (if first then p_bind (p_say (''At least one profile is required.'' @ [eol])) (\<lambda>_. p_ret RoundAgain)
          else p_ret RoundDone)
       else profile_fields allowed)"

partial_function (option) prompt_profiles :: "string list option \<Rightarrow> setup_profile list \<Rightarrow> setup_profile list prompt" where
  "prompt_profiles allowed ps u = (case profile_round allowed (ps = []) u of
     None \<Rightarrow> None
   | Some (Inl e, u') \<Rightarrow> Some (Inl e, u')
   | Some (Inr r, u') \<Rightarrow> (case r of
       RoundDone \<Rightarrow> Some (Inr ps, u')
     | RoundAgain \<Rightarrow> prompt_profiles allowed ps u'
     | RoundAdd p \<Rightarrow> prompt_profiles allowed (ps @ [p]) u'))"

definition prompt_server_profiles :: "string list \<Rightarrow> setup_profile list prompt" where
  "prompt_server_profiles default_allowed = prompt_profiles (Some default_allowed) []"

definition prompt_client_profiles :: "setup_profile list prompt" where
  "prompt_client_profiles = prompt_profiles None []"

subsection \<open>The server\<close>

record server_setup =
  ss_base :: string
  ss_config :: string
  ss_profiles_path :: string
  ss_listen :: string
  ss_auth_mode :: auth_mode
  ss_tls_host :: string
  ss_sans :: string
  ss_ca_cn :: string
  ss_ca_years :: int
  ss_leaf_years :: int
  ss_ca_cert :: string
  ss_ca_key :: string
  ss_server_cert :: string
  ss_server_key :: string
  ss_jwt_secret :: string
  ss_jwt_issuer :: string
  ss_jwt_audience :: string
  ss_jwt_fallback :: bool
  ss_profiles :: "setup_profile list"
  ss_nodes :: "string list"
  ss_issue_certs :: bool
  ss_issue_tokens :: bool
  ss_telegram :: bool
  ss_telegram_env :: string
  ss_telegram_chat :: string
  ss_telegram_silent :: bool
  ss_env_file :: string
  ss_systemd :: bool
  ss_user :: string
  ss_unit :: string
  ss_hint :: string

definition DefaultPort :: int where "DefaultPort = 8443"
definition defaultCACommonName :: string where "defaultCACommonName = ''pangaeactl Root CA''"
definition defaultCAYears :: int where "defaultCAYears = 10"
definition defaultLeafYears :: int where "defaultLeafYears = 1"
definition defaultJWTIssuer :: string where "defaultJWTIssuer = ''pangaea''"
definition defaultJWTAudience :: string where "defaultJWTAudience = ''pangaea''"
definition defaultTelegramEnv :: string where "defaultTelegramEnv = ''PANGAEA_TELEGRAM_BOT_TOKEN''"
definition defaultJWTTokenEnv :: string where "defaultJWTTokenEnv = ''PANGAEA_JWT_TOKEN''"

definition listen_port :: "string \<Rightarrow> string" where
  "listen_port listen = (case net_split_host_port listen of
     Some (_, port) \<Rightarrow> if port \<noteq> [] then port else int_text DefaultPort
   | None \<Rightarrow> int_text DefaultPort)"

definition auth_choice :: "string prompt" where
  "auth_choice = prompt_choice ''Auth mode'' [AuthModeMTLS, AuthModeJWT] AuthModeMTLS"

text \<open>The first questions, up to the profiles, and the specification they give.\<close>

definition ask_server_base :: "setup_host \<Rightarrow> string \<Rightarrow> server_setup prompt" where
  "ask_server_base h base =
     p_bind auth_choice (\<lambda>mode.
     p_bind (prompt_required ''Listen address'' (''0.0.0.0:'' @ int_text DefaultPort)) (\<lambda>listen.
     p_bind (prompt_required ''TLS host / SAN for the backend server certificate'' (local_hostname h)) (\<lambda>host.
     p_bind (\<lambda>u. Some (prompt_string ''Additional SANs (optional; comma-separated IP:... or DNS:...)'' [] u)) (\<lambda>sans.
     p_bind (prompt_required ''CA common name'' defaultCACommonName) (\<lambda>cn.
     p_bind (prompt_int ''CA validity in years'' defaultCAYears) (\<lambda>ca_years.
     p_bind (prompt_int ''Leaf certificate validity in years'' defaultLeafYears) (\<lambda>leaf_years.
     p_bind (prompt_list ''Initial client node IDs (optional; comma-separated)'' []) (\<lambda>nodes.
     p_bind (prompt_server_profiles nodes) (\<lambda>profiles.
       p_ret \<lparr>ss_base = base, ss_config = path_join [base, ''pangaea-server.yaml''],
         ss_profiles_path = path_join [base, ''profiles.yaml''], ss_listen = listen, ss_auth_mode = mode, ss_tls_host = host,
         ss_sans = sans, ss_ca_cn = cn, ss_ca_years = ca_years, ss_leaf_years = leaf_years,
         ss_ca_cert = path_join [base, ''pki'', ''ca.crt''], ss_ca_key = path_join [base, ''pki'', ''ca.key''],
         ss_server_cert = path_join [base, ''pki'', ''server'', ''server.crt''],
         ss_server_key = path_join [base, ''pki'', ''server'', ''server.key''],
         ss_jwt_secret = path_join [base, ''jwt.secret''], ss_jwt_issuer = [], ss_jwt_audience = [], ss_jwt_fallback = False,
         ss_profiles = profiles, ss_nodes = nodes, ss_issue_certs = False, ss_issue_tokens = False, ss_telegram = False,
         ss_telegram_env = [], ss_telegram_chat = [], ss_telegram_silent = False,
         ss_env_file = path_join [base, ''pangaea-server.env''], ss_systemd = False, ss_user = [], ss_unit = [],
         ss_hint = ''wss://'' @ join_host_port host (listen_port listen)\<rparr>)))))))))"

definition ask_server_auth :: "server_setup \<Rightarrow> server_setup prompt" where
  "ask_server_auth s =
     (if ss_auth_mode s = AuthModeJWT then
        p_bind (prompt_required ''JWT issuer'' defaultJWTIssuer) (\<lambda>issuer.
        p_bind (prompt_required ''JWT audience'' defaultJWTAudience) (\<lambda>audience.
        p_bind (prompt_bool ''Allow auth.jwt first-frame fallback when Authorization is missing'' True) (\<lambda>fallback.
        p_bind (prompt_bool ''Issue initial JWT tokens for the listed node IDs now'' (ss_nodes s \<noteq> [])) (\<lambda>issue.
          p_ret (s\<lparr>ss_jwt_issuer := issuer, ss_jwt_audience := audience, ss_jwt_fallback := fallback, ss_issue_tokens := issue\<rparr>)))))
      else p_bind (prompt_bool ''Issue initial client certificates for the listed node IDs now'' (ss_nodes s \<noteq> []))
        (\<lambda>issue. p_ret (s\<lparr>ss_issue_certs := issue\<rparr>)))"

definition ask_server_telegram :: "server_setup \<Rightarrow> server_setup prompt" where
  "ask_server_telegram s =
     p_bind (prompt_bool ''Enable Telegram notifications'' False) (\<lambda>on.
       if \<not> on then p_ret s
       else
         p_bind (prompt_required ''Telegram bot token env var name'' defaultTelegramEnv) (\<lambda>var.
         p_bind (prompt_required ''Telegram default chat ID'' []) (\<lambda>chat.
         p_bind (prompt_bool ''Send Telegram notifications silently'' False) (\<lambda>silent.
           p_ret (s\<lparr>ss_telegram := True, ss_telegram_env := var, ss_telegram_chat := chat, ss_telegram_silent := silent\<rparr>)))))"

text \<open>The last question is the same for server and client.\<close>

definition ask_systemd :: "setup_host \<Rightarrow> string \<Rightarrow> string \<Rightarrow> (string \<times> string) option prompt" where
  "ask_systemd h whom default_unit =
     p_bind (prompt_bool (''Generate a systemd service unit for '' @ whom) False) (\<lambda>on.
       if \<not> on then p_ret None
       else
         p_bind (prompt_required ''systemd service user'' (current_username h)) (\<lambda>usr.
         p_bind (prompt_required ''systemd unit output path'' default_unit) (\<lambda>path. p_ret (Some (usr, path)))))"

definition ask_server :: "setup_host \<Rightarrow> string \<Rightarrow> server_setup prompt" where
  "ask_server h base =
     p_bind (ask_server_base h base) (\<lambda>s0.
     p_bind (ask_server_auth s0) (\<lambda>s1.
     p_bind (ask_server_telegram s1) (\<lambda>s2.
     p_bind (ask_systemd h ''the server'' (path_join [base, ''systemd'', ''pangaea-server.service''])) (\<lambda>unit.
       p_ret (case unit of None \<Rightarrow> s2 | Some (usr, path) \<Rightarrow> s2\<lparr>ss_systemd := True, ss_user := usr, ss_unit := path\<rparr>)))))"

subsection \<open>The client\<close>

record client_setup =
  cs_base :: string
  cs_config :: string
  cs_server :: string
  cs_auth_mode :: auth_mode
  cs_node :: string
  cs_ca_cert :: string
  cs_client_cert :: string
  cs_client_key :: string
  cs_token_file :: string
  cs_token_env :: string
  cs_send_via :: string
  cs_profiles :: "setup_profile list"
  cs_systemd :: bool
  cs_user :: string
  cs_unit :: string
  cs_env_file :: string

text \<open>The replacer's old strings are single bytes.\<close>

definition default_client_unit_name :: "string \<Rightarrow> string" where
  "default_client_unit_name node =
     ''pangaea-client-'' @ escape_with (\<lambda>c. if c \<in> {CHR ''/'', CHR 0x5C, CHR '' '', CHR '':'', CHR ''.''} then Some ''-'' else None) node
     @ ''.service''"

definition ask_client_base :: "setup_host \<Rightarrow> string \<Rightarrow> client_setup prompt" where
  "ask_client_base h base =
     p_bind auth_choice (\<lambda>mode.
     p_bind (prompt_required ''Server URL'' (''wss://hub.local:'' @ int_text DefaultPort)) (\<lambda>url.
     p_bind (prompt_required ''Node ID'' (local_hostname h)) (\<lambda>node.
     p_bind prompt_client_profiles (\<lambda>profiles.
       p_ret \<lparr>cs_base = base, cs_config = path_join [base, ''pangaea-client.yaml''], cs_server = url, cs_auth_mode = mode,
         cs_node = node, cs_ca_cert = path_join [base, ''pki'', ''ca.crt''], cs_client_cert = [], cs_client_key = [],
         cs_token_file = [], cs_token_env = [], cs_send_via = [], cs_profiles = profiles, cs_systemd = False, cs_user = [],
         cs_unit = [], cs_env_file = []\<rparr>))))"

definition ask_client_auth :: "client_setup \<Rightarrow> client_setup prompt" where
  "ask_client_auth s =
     (if cs_auth_mode s = AuthModeMTLS then
        p_bind (prompt_required ''Client certificate path'' (path_join [cs_base s, ''pki'', ''client.crt''])) (\<lambda>cert.
        p_bind (prompt_required ''Client key path'' (path_join [cs_base s, ''pki'', ''client.key''])) (\<lambda>key.
          p_ret (s\<lparr>cs_client_cert := cert, cs_client_key := key\<rparr>)))
      else
        p_bind (prompt_choice ''JWT token source'' [''file'', ''env''] ''file'') (\<lambda>source.
        p_bind (if source = ''file'' then
            p_bind (prompt_required ''JWT token file path'' (path_join [cs_base s, ''jwt.token''])) (\<lambda>path.
              p_ret (s\<lparr>cs_token_file := path\<rparr>))
          else
            p_bind (prompt_required ''JWT token env var name'' defaultJWTTokenEnv) (\<lambda>var.
              p_ret (s\<lparr>cs_token_env := var, cs_env_file := path_join [cs_base s, ''pangaea-client.env'']\<rparr>))) (\<lambda>s1.
        p_bind (prompt_choice ''JWT send mode'' [JWTSendViaAuto, JWTSendViaHeader, JWTSendViaFirstFrame] JWTSendViaAuto) (\<lambda>via.
          p_ret (s1\<lparr>cs_send_via := via\<rparr>)))))"

definition ask_client :: "setup_host \<Rightarrow> string \<Rightarrow> client_setup prompt" where
  "ask_client h base =
     p_bind (ask_client_base h base) (\<lambda>s0.
     p_bind (ask_client_auth s0) (\<lambda>s1.
     p_bind (ask_systemd h ''this client'' (path_join [base, ''systemd'', default_client_unit_name (cs_node s0)])) (\<lambda>unit.
       p_ret (case unit of None \<Rightarrow> s1 | Some (usr, path) \<Rightarrow> s1\<lparr>cs_systemd := True, cs_user := usr, cs_unit := path\<rparr>))))"

end
