(* ===== verification/Cli_Setup.thy ===== *)
theory Cli_Setup
  imports Cli_Wizard
begin

text \<open>
  What \<open>pangaeactl setup\<close> does with a specification (cmd/pangaeactl/setup.go): the YAML documents, the systemd unit, the
  certificates, secrets, tokens and files, and the summary. The documents are trees with the keys of the code's structs;
  their text is made by a third-party package.
\<close>

subsection \<open>Documents\<close>

datatype yaml = YStr string | YBool bool | YSeq "yaml list" | YMap "(string \<times> yaml) list"

abbreviation y_strs :: "string list \<Rightarrow> yaml" where "y_strs xs \<equiv> YSeq (map YStr xs)"

text \<open>A member with \<open>omitempty\<close>.\<close>

definition y_opt :: "string \<Rightarrow> string \<Rightarrow> (string \<times> yaml) list" where
  "y_opt key v = (if v = [] then [] else [(key, YStr v)])"

text \<open>\<open>Duration.String\<close> of whole seconds.\<close>

definition seconds_text :: "duration \<Rightarrow> string" where
  "seconds_text d = (let s = d div 1000000000 in
     (if s div 3600 > 0 then int_text (s div 3600) @ ''h'' else []) @ (if s div 60 > 0 then int_text (s div 60 mod 60) @ ''m'' else [])
     @ int_text (s mod 60) @ ''s'')"

definition defaultLogLevel :: string where "defaultLogLevel = ''info''"
definition defaultLogFormat :: string where "defaultLogFormat = ''json''"
definition defaultPropagateMode :: string where "defaultPropagateMode = PropagateModeStaleOnly"

definition log_block :: yaml where
  "log_block = YMap [(''level'', YStr defaultLogLevel), (''format'', YStr defaultLogFormat)]"

definition server_yaml :: "server_setup \<Rightarrow> yaml" where
  "server_yaml s = YMap (
     [(''listen'', YStr (ss_listen s)), (''auth_mode'', YStr (ss_auth_mode s)),
      (''pki'', YMap [(''ca_cert'', YStr (ss_ca_cert s)), (''server_cert'', YStr (ss_server_cert s)), (''server_key'', YStr (ss_server_key s))])]
     @ (if ss_auth_mode s = AuthModeJWT then
          [(''jwt'', YMap [(''secret_key_file'', YStr (ss_jwt_secret s)), (''issuer'', YStr (ss_jwt_issuer s)),
             (''audience'', YStr (ss_jwt_audience s)), (''allow_first_frame_fallback'', YBool (ss_jwt_fallback s))])]
        else [])
     @ [(''log'', log_block), (''profiles_file'', YStr (ss_profiles_path s))]
     @ (if ss_telegram s then
          [(''notifier'', YMap [(''telegram'', YMap ([(''enabled'', YBool True)] @ y_opt ''bot_token_env'' (ss_telegram_env s)
             @ y_opt ''default_chat_id'' (ss_telegram_chat s)
             @ (if ss_telegram_silent s then [(''disable_notification'', YBool True)] else [])))])]
        else []))"

definition profile_yaml :: "setup_profile \<Rightarrow> yaml" where
  "profile_yaml p = YMap (
     [(''name'', YStr (sq_name p)), (''format'', YStr (pv_format (sq_provider p))), (''dir'', YStr (sq_dir p))]
     @ (if pv_watch (sq_provider p) = [] then [] else [(''watch_files'', y_strs (pv_watch (sq_provider p)))])
     @ [(''allowed_clients'', y_strs (sq_allowed p)),
        (''validate'', YMap [(''strategy'', YStr (pv_strategy (sq_provider p))), (''live_check'', YBool (pv_live (sq_provider p))),
           (''live_check_timeout'', YStr (seconds_text LiveCheckDefaultTimeout))]),
        (''propagate'', YMap [(''mode'', YStr defaultPropagateMode), (''cooldown'', YStr ''2s'')])])"

definition profiles_yaml :: "setup_profile list \<Rightarrow> yaml" where
  "profiles_yaml ps = YMap [(''profiles'', YSeq (map profile_yaml ps))]"

definition binding_yaml :: "setup_profile \<Rightarrow> yaml" where
  "binding_yaml p = YMap (
     [(''name'', YStr (sq_name p)), (''format'', YStr (pv_format (sq_provider p))), (''dir'', YStr (sq_dir p))]
     @ (if pv_watch (sq_provider p) = [] then [] else [(''watch_files'', y_strs (pv_watch (sq_provider p)))])
     @ y_opt ''account_meta_path'' (pv_meta (sq_provider p)))"

definition client_yaml :: "client_setup \<Rightarrow> yaml" where
  "client_yaml s = YMap (
     [(''server'', YStr (cs_server s)), (''auth_mode'', YStr (cs_auth_mode s))]
     @ (if cs_auth_mode s = AuthModeJWT then
          [(''jwt'', YMap (y_opt ''token_env'' (cs_token_env s) @ y_opt ''token_file'' (cs_token_file s) @ y_opt ''send_via'' (cs_send_via s)))]
        else [])
     @ [(''node_id'', YStr (cs_node s)), (''profiles'', YSeq (map binding_yaml (cs_profiles s))),
        (''pki'', YMap ([(''ca_cert'', YStr (cs_ca_cert s))] @ y_opt ''client_cert'' (cs_client_cert s) @ y_opt ''client_key'' (cs_client_key s))),
        (''reconnect'', YMap [(''initial_delay'', YStr (seconds_text ReconnectInitial)), (''jitter'', YStr (seconds_text ReconnectJitter)),
           (''max_delay'', YStr (seconds_text ReconnectMax))]),
        (''log'', log_block)])"

subsection \<open>The systemd unit\<close>

record systemd_unit =
  un_description :: string
  un_user :: string
  un_dir :: string
  un_exec :: string
  un_env :: string

definition text_line :: "string \<Rightarrow> string" where "text_line s = s @ [eol]"

definition render_systemd_unit :: "systemd_unit \<Rightarrow> string" where
  "render_systemd_unit u =
     text_line ''[Unit]'' @ text_line (''Description='' @ un_description u) @ text_line ''After=network-online.target''
     @ text_line ''Wants=network-online.target'' @ text_line [] @ text_line ''[Service]'' @ text_line ''Type=simple''
     @ (if un_user u \<noteq> [] then text_line (''User='' @ un_user u) @ text_line (''Group='' @ un_user u) else [])
     @ (if un_dir u \<noteq> [] then text_line (''WorkingDirectory='' @ un_dir u) else [])
     @ (if un_env u \<noteq> [] then text_line (''EnvironmentFile=-'' @ un_env u) else [])
     @ text_line (''ExecStart='' @ un_exec u) @ text_line ''Restart=on-failure'' @ text_line ''RestartSec=5s'' @ text_line []
     @ text_line ''[Install]'' @ text_line ''WantedBy=multi-user.target''"

text \<open>The quoting of setup, which is not the one of the SSH bridge: a quote inside becomes \<open>'\''\<close>.\<close>

definition escaped_quote :: string where
  "escaped_quote = [single_quote, CHR 0x5C, single_quote, single_quote]"

definition setup_shell_quote :: "string \<Rightarrow> string" where
  "setup_shell_quote s =
     (if s = [] then [single_quote, single_quote]
      else if set s \<inter> {CHR '' '', CHR 0x09, single_quote, double_quote} = {} then s
      else single_quote # replace_all [single_quote] escaped_quote s @ [single_quote])"

subsection \<open>Files\<close>

text \<open>
  The outcomes of the system: what \<open>internal/pki\<close> draws and the clock when it issues into a directory, the text of a
  document, the random bytes of the secret, the JWT library and the clock when a node's token is made.
\<close>

record setup_env =
  se_host :: setup_host
  se_lib :: "string \<Rightarrow> pki_lib"
  se_io :: pki_io
  se_mkdir :: "string \<Rightarrow> gerr option"
  se_read :: "string \<Rightarrow> gerr option"
  se_now :: "string \<Rightarrow> gotime"
  se_now2 :: "string \<Rightarrow> gotime"
  se_add_years :: "gotime \<Rightarrow> int \<Rightarrow> gotime"
  se_marshal :: "yaml \<Rightarrow> gerr + string"
  se_random :: "gerr + string"
  se_jwt :: jwt_lib
  se_token_now :: "string \<Rightarrow> gotime"

definition se_pki :: "setup_env \<Rightarrow> string \<Rightarrow> pki_io" where
  "se_pki e dir = (se_io e)\<lparr>pi_mkdir := se_mkdir e dir\<rparr>"

definition not_after :: "setup_env \<Rightarrow> string \<Rightarrow> int \<Rightarrow> gotime" where
  "not_after e dir years = se_add_years e (se_now e dir) years"

text \<open>A file that a stat finds is moved aside; if the stat fails the file is written over.\<close>

definition text_backup :: "pki_io \<Rightarrow> string \<Rightarrow> step" where
  "text_backup io path fs =
     (if pi_stat io path = None \<and> fs path \<noteq> None then os_rename io path (backup_path path (pi_nanos io path)) fs else (None, [fs]))"

definition write_text_file :: "setup_env \<Rightarrow> string \<Rightarrow> string \<Rightarrow> file_mode \<Rightarrow> unit task" where
  "write_text_file e path body mode =
     task_then (task_mkdir (se_mkdir e (path_dir path)))
    (task_then (task_step (text_backup (se_io e) path))
    (task_then (task_step (os_write_file (se_io e) path body mode))
      (task_step (os_chmod (se_io e) path mode))))"

definition copy_file :: "setup_env \<Rightarrow> string \<Rightarrow> string \<Rightarrow> file_mode \<Rightarrow> unit task" where
  "copy_file e src dst mode = task_bind (task_read (se_read e src) src) (\<lambda>raw. write_text_file e dst raw mode)"

definition build_server_san :: "string \<Rightarrow> string \<Rightarrow> gerr + san" where
  "build_server_san host additional =
     (let own = (case parse_ip host of
          Some ip \<Rightarrow> \<lparr>san_ips = [ip], san_dns = []\<rparr>
        | None \<Rightarrow> \<lparr>san_ips = [], san_dns = (if trim_space host \<noteq> [] then [trim_space host] else [])\<rparr>) in
      ebind (if trim_space additional = [] then Inr own
             else ebind (parse_sans additional) (\<lambda>extra. Inr \<lparr>san_ips = san_ips own @ san_ips extra, san_dns = san_dns own @ san_dns extra\<rparr>))
        (\<lambda>s. if san_ips s = [] \<and> san_dns s = [] then Inl (plain_error ''TLS host is required'') else Inr s))"

definition allowed_profiles_for_node :: "setup_profile list \<Rightarrow> string \<Rightarrow> gerr + string list" where
  "allowed_profiles_for_node ps node =
     (let names = map sq_name (filter (\<lambda>p. node \<in> set (sq_allowed p)) ps) in
      if names = [] then Inl (Errorf ''node %q is not allowed by any configured profile'' [ArgS node] None) else Inr names)"

subsection \<open>Carrying out\<close>

record server_result =
  sr_cfg :: string
  sr_profiles :: string
  sr_ca_cert :: string
  sr_server_cert :: string
  sr_secret :: string
  sr_clients :: "(string, string) gomap"
  sr_tokens :: "(string, string) gomap"
  sr_env :: string
  sr_unit :: string

definition public_mode :: file_mode where "public_mode = 0x1A4"
definition private_mode :: file_mode where "private_mode = 0x180"

fun issue_client_bundles :: "setup_env \<Rightarrow> server_setup \<Rightarrow> ca \<Rightarrow> string list \<Rightarrow> (string, string) gomap \<Rightarrow> (string, string) gomap task" where
  "issue_client_bundles e s c [] dirs = task_ret dirs"
| "issue_client_bundles e s c (node # nodes) dirs =
     (let dir = path_join [ss_base s, ''issued-clients'', node] in
      task_then (task_step (issue_client (se_lib e dir) (se_pki e dir) (Some c) dir node (not_after e dir (ss_leaf_years s)) (se_now2 e dir)))
     (task_then (copy_file e (ss_ca_cert s) (path_join [dir, ''ca.crt'']) public_mode)
       (issue_client_bundles e s c nodes (mput node dir dirs))))"

definition initial_token_life :: duration where "initial_token_life = hours (30 * 24)"

fun issue_node_tokens :: "setup_env \<Rightarrow> server_setup \<Rightarrow> string \<Rightarrow> string list \<Rightarrow> (string, string) gomap \<Rightarrow> (string, string) gomap task" where
  "issue_node_tokens e s secret [] paths = task_ret paths"
| "issue_node_tokens e s secret (node # nodes) paths =
     task_bind (task_of (ebind (allowed_profiles_for_node (ss_profiles s) node) (\<lambda>allowed.
       jwt_issue (se_jwt e) secret node allowed (ss_jwt_issuer s) (ss_jwt_audience s) (se_token_now e node) initial_token_life))) (\<lambda>token.
     let path = path_join [ss_base s, ''issued-jwt'', node @ ''.token''] in
       task_then (write_text_file e path (token @ [eol]) private_mode)
         (issue_node_tokens e s secret nodes (mput node path paths)))"

text \<open>The authority, the server's certificate and the two documents.\<close>

definition setup_server_core :: "setup_env \<Rightarrow> server_setup \<Rightarrow> ca task" where
  "setup_server_core e s =
     (let ca_dir = path_dir (ss_ca_cert s); leaf_dir = path_dir (ss_server_cert s) in
      task_then (task_mkdir (se_mkdir e (ss_base s)))
     (task_then (task_mkdir (se_mkdir e (path_join [ss_base s, ''pki'', ''server''])))
     (task_bind (new_ca (se_lib e ca_dir) (se_pki e ca_dir) ca_dir (ss_ca_cn s) (not_after e ca_dir (ss_ca_years s)) (se_now2 e ca_dir)) (\<lambda>c.
      task_bind (task_of (build_server_san (ss_tls_host s) (ss_sans s))) (\<lambda>names.
      task_then (task_step (issue_server (se_lib e leaf_dir) (se_pki e leaf_dir) (Some c) leaf_dir (ss_tls_host s) names
        (not_after e leaf_dir (ss_leaf_years s)) (se_now2 e leaf_dir)))
     (task_bind (task_of (se_marshal e (profiles_yaml (ss_profiles s)))) (\<lambda>profiles_text.
      task_then (write_text_file e (ss_profiles_path s) profiles_text public_mode)
     (task_bind (task_of (se_marshal e (server_yaml s))) (\<lambda>server_text.
      task_then (write_text_file e (ss_config s) server_text public_mode)
        (task_ret c))))))))))"

definition setup_server_env :: "setup_env \<Rightarrow> server_setup \<Rightarrow> string task" where
  "setup_server_env e s =
     (if ss_telegram s then task_then (write_text_file e (ss_env_file s)
          (text_line ''# Fill in before starting the server'' @ text_line (ss_telegram_env s @ ''='')) private_mode) (task_ret (ss_env_file s))
      else task_ret [])"

definition setup_server_clients :: "setup_env \<Rightarrow> server_setup \<Rightarrow> ca \<Rightarrow> (string, string) gomap task" where
  "setup_server_clients e s c =
     (if ss_auth_mode s = AuthModeMTLS \<and> ss_issue_certs s then issue_client_bundles e s c (ss_nodes s) [] else task_ret [])"

definition setup_server_tokens :: "setup_env \<Rightarrow> server_setup \<Rightarrow> (string \<times> (string, string) gomap) task" where
  "setup_server_tokens e s =
     (if ss_auth_mode s = AuthModeJWT then
        task_bind (task_of (generate_secret (se_random e))) (\<lambda>secret.
        task_then (task_mkdir (se_mkdir e (path_dir (ss_jwt_secret s))))
       (task_then (task_step (write_secret_step (se_io e) (ss_jwt_secret s) secret))
       (task_bind (if ss_issue_tokens s then issue_node_tokens e s secret (ss_nodes s) [] else task_ret []) (\<lambda>paths.
          task_ret (ss_jwt_secret s, paths)))))
      else task_ret ([], []))"

definition setup_unit :: "setup_env \<Rightarrow> bool \<Rightarrow> string \<Rightarrow> systemd_unit \<Rightarrow> string task" where
  "setup_unit e on path u =
     (if on then task_then (write_text_file e path (render_systemd_unit u) public_mode) (task_ret path) else task_ret [])"

definition execute_server_setup :: "setup_env \<Rightarrow> server_setup \<Rightarrow> server_result task" where
  "execute_server_setup e s =
     task_bind (setup_server_core e s) (\<lambda>c.
     task_bind (setup_server_env e s) (\<lambda>env_path.
     task_bind (setup_server_clients e s c) (\<lambda>clients.
     task_bind (setup_server_tokens e s) (\<lambda>(secret_path, tokens).
     task_bind (setup_unit e (ss_systemd s) (ss_unit s)
       \<lparr>un_description = ''pangaeactl server ('' @ ss_auth_mode s @ '')'', un_user = ss_user s, un_dir = ss_base s,
        un_exec = current_executable (se_host e) @ '' serve -c '' @ setup_shell_quote (ss_config s), un_env = env_path\<rparr>) (\<lambda>unit_path.
       task_ret \<lparr>sr_cfg = ss_config s, sr_profiles = ss_profiles_path s, sr_ca_cert = ss_ca_cert s,
         sr_server_cert = ss_server_cert s, sr_secret = secret_path, sr_clients = clients, sr_tokens = tokens,
         sr_env = env_path, sr_unit = unit_path\<rparr>)))))"

record client_result =
  cr_cfg :: string
  cr_ca_cert :: string
  cr_client_cert :: string
  cr_client_key :: string
  cr_token_file :: string
  cr_env :: string
  cr_unit :: string

definition execute_client_setup :: "setup_env \<Rightarrow> client_setup \<Rightarrow> client_result task" where
  "execute_client_setup e s =
     task_then (task_mkdir (se_mkdir e (cs_base s)))
    (task_bind (task_of (se_marshal e (client_yaml s))) (\<lambda>client_text.
     task_then (write_text_file e (cs_config s) client_text public_mode)
    (task_bind (if cs_token_env s \<noteq> [] then
         task_then (write_text_file e (cs_env_file s)
           (text_line ''# Fill in before starting the client'' @ text_line (cs_token_env s @ ''='')) private_mode) (task_ret (cs_env_file s))
       else task_ret []) (\<lambda>env_path.
     task_bind (setup_unit e (cs_systemd s) (cs_unit s)
       \<lparr>un_description = ''pangaeactl client '' @ cs_node s @ '' ('' @ cs_auth_mode s @ '')'', un_user = cs_user s, un_dir = cs_base s,
        un_exec = current_executable (se_host e) @ '' connect -c '' @ setup_shell_quote (cs_config s), un_env = env_path\<rparr>) (\<lambda>unit_path.
       task_ret \<lparr>cr_cfg = cs_config s, cr_ca_cert = cs_ca_cert s, cr_client_cert = cs_client_cert s,
         cr_client_key = cs_client_key s, cr_token_file = cs_token_file s, cr_env = env_path, cr_unit = unit_path\<rparr>)))))"

subsection \<open>The summaries\<close>

definition line_if :: "string \<Rightarrow> string \<Rightarrow> string" where
  "line_if label v = (if v = [] then [] else text_line (label @ v))"

definition map_lines :: "(string, string) gomap \<Rightarrow> string" where
  "map_lines m = concat (map (\<lambda>k. text_line (''- '' @ k @ '': '' @ the (map_of m k))) (sort (map fst m)))"

definition server_summary :: "string \<Rightarrow> server_setup \<Rightarrow> server_result \<Rightarrow> string" where
  "server_summary exe s r =
     text_line ''Server setup complete.'' @ text_line (''Server config: '' @ sr_cfg r) @ text_line (''Profiles file: '' @ sr_profiles r)
     @ text_line (''CA certificate: '' @ sr_ca_cert r) @ text_line (''Server certificate: '' @ sr_server_cert r)
     @ line_if ''JWT secret: '' (sr_secret r) @ line_if ''Server env file: '' (sr_env r) @ line_if ''systemd unit: '' (sr_unit r)
     @ (if sr_clients r \<noteq> [] then text_line [] @ text_line ''Issued client bundles:'' @ map_lines (sr_clients r) else [])
     @ (if sr_tokens r \<noteq> [] then text_line [] @ text_line ''Issued JWT tokens:'' @ map_lines (sr_tokens r) else [])
     @ text_line [] @ text_line ''Next steps:'' @ text_line (''- Start the server: '' @ exe @ '' serve -c '' @ sr_cfg r)
     @ (if sr_unit r \<noteq> [] then text_line (''- Install the unit: sudo cp '' @ sr_unit r @ '' /etc/systemd/system/'')
          @ text_line ''- Reload and start: sudo systemctl daemon-reload && sudo systemctl enable --now pangaea-server.service'' else [])
     @ text_line (''- Clients should trust '' @ sr_ca_cert r @ '' and connect to '' @ ss_hint s @ '' (or your ingress URL if different).'')"

definition client_summary :: "string \<Rightarrow> client_setup \<Rightarrow> client_result \<Rightarrow> string" where
  "client_summary exe s r =
     text_line ''Client setup complete.'' @ text_line (''Client config: '' @ cr_cfg r)
     @ text_line (''Trusted CA certificate path: '' @ cr_ca_cert r)
     @ (if cs_auth_mode s = AuthModeMTLS then
          text_line (''Client certificate path: '' @ cr_client_cert r) @ text_line (''Client key path: '' @ cr_client_key r)
        else line_if ''JWT token file path: '' (cr_token_file r))
     @ line_if ''Client env file: '' (cr_env r) @ line_if ''systemd unit: '' (cr_unit r)
     @ text_line [] @ text_line ''Next steps:''
     @ text_line (''- Put the required auth material at the paths above, then run: '' @ exe @ '' connect -c '' @ cr_cfg r)
     @ (if cr_unit r \<noteq> [] then text_line (''- Install the unit: sudo cp '' @ cr_unit r @ '' /etc/systemd/system/'')
          @ text_line (''- Reload and start: sudo systemctl daemon-reload && sudo systemctl enable --now '' @ path_base (cr_unit r)) else [])"

subsection \<open>The commands\<close>

text \<open>The questions come first; the files are touched when all are answered.\<close>

definition run_setup ::
  "string \<Rightarrow> string \<Rightarrow> (string \<Rightarrow> 's prompt) \<Rightarrow> ('s \<Rightarrow> 'r task) \<Rightarrow> ('s \<Rightarrow> 'r \<Rightarrow> string) \<Rightarrow> gerr + string \<Rightarrow> prompt_ui \<Rightarrow> files \<Rightarrow>
   ((gerr + 's \<times> 'r) \<times> files list \<times> prompt_ui) option" where
  "run_setup head doing ask execute show_summary base u fs = (case base of
     Inl e \<Rightarrow> Some (Inl e, [fs], u)
   | Inr dir \<Rightarrow>
       (case ask dir (say (text_line (''Writing '' @ head @ '' assets under '' @ dir) @ text_line []) u) of
          None \<Rightarrow> None
        | Some (Inl e, u1) \<Rightarrow> Some (Inl e, [fs], u1)
        | Some (Inr s, u1) \<Rightarrow>
            let u2 = say (text_line [] @ text_line doing) u1 in
            (case execute s fs of
               (Inl e, tr) \<Rightarrow> Some (Inl e, tr, u2)
             | (Inr r, tr) \<Rightarrow> Some (Inr (s, r), tr, say (show_summary s r) u2))))"

definition run_setup_server ::
  "setup_env \<Rightarrow> string \<Rightarrow> prompt_ui \<Rightarrow> files \<Rightarrow> ((gerr + server_setup \<times> server_result) \<times> files list \<times> prompt_ui) option" where
  "run_setup_server e out = run_setup ''server'' ''Generating PKI/config files...'' (ask_server (se_host e)) (execute_server_setup e)
     (server_summary (current_executable (se_host e))) (ensure_abs_dir (se_host e) out)"

definition run_setup_client ::
  "setup_env \<Rightarrow> string \<Rightarrow> prompt_ui \<Rightarrow> files \<Rightarrow> ((gerr + client_setup \<times> client_result) \<times> files list \<times> prompt_ui) option" where
  "run_setup_client e out = run_setup ''client'' ''Generating client config...'' (ask_client (se_host e)) (execute_client_setup e)
     (client_summary (current_executable (se_host e))) (ensure_abs_dir (se_host e) out)"

end
