(* ===== verification/Path_Names.thy ===== *)
theory Path_Names
  imports Pki_Props Server_Auth_Props
begin

text \<open>
  The last element of a path: cleaning and joining keep it, so two files with different names have different paths, and
  neither has the path of the other's backup. A text that ends in a printable character is not blank.
\<close>

definition file_name :: "string \<Rightarrow> bool" where
  "file_name p \<longleftrightarrow> p \<noteq> [] \<and> p \<noteq> ''.'' \<and> p \<noteq> ''..'' \<and> slash \<notin> set p"

definition named :: "string \<Rightarrow> string \<Rightarrow> bool" where
  "named p s \<longleftrightarrow> s = p \<or> (\<exists>q. s = q @ slash # p)"

lemma named_unique:
  assumes "named p s" "named q s" "slash \<notin> set p" "slash \<notin> set q"
  shows "p = q"
proof -
  have *: "takeWhile (\<lambda>c. c \<noteq> slash) (rev s) = rev r" if "named r s" "slash \<notin> set r" for r
  proof -
    have n: "\<forall>x \<in> set (rev r). x \<noteq> slash" using that(2) by auto
    then have "takeWhile (\<lambda>c. c \<noteq> slash) (rev r @ slash # t) = rev r" for t
      by (simp add: takeWhile_tail takeWhile_eq_all_conv)
    moreover have "takeWhile (\<lambda>c. c \<noteq> slash) (rev r) = rev r" using n by (simp add: takeWhile_eq_all_conv)
    ultimately have "takeWhile (\<lambda>c. c \<noteq> slash) (rev r @ slash # t) = rev r" "takeWhile (\<lambda>c. c \<noteq> slash) (rev r) = rev r" for t
      by blast+
    then show ?thesis using that(1) by (auto simp: named_def)
  qed
  from * [OF assms(1,3)] * [OF assms(2,4)] show ?thesis by simp
qed

lemma split_on_append: "split_on d (xs @ d # ys) = split_on d xs @ split_on d ys"
proof (induction xs)
  case (Cons c cs)
  then show ?case by (cases "split_on d cs") auto
qed simp

lemma last_split_on: "last (split_on d (xs @ d # ys)) = last (split_on d ys)"
  by (simp add: split_on_append)

lemma clean_stack_snoc: "file_name p \<Longrightarrow> clean_stack r st (ps @ [p]) = clean_stack r st ps @ [p]"
  by (induction r st ps rule: clean_stack.induct) (auto simp: file_name_def split: list.splits)

lemma named_join: "named p (join_with [slash] (xs @ [p]))"
proof (induction xs)
  case (Cons x xs)
  then show ?case by (cases xs) (auto simp: named_def)
qed (simp add: named_def)

text \<open>Cleaning keeps the last element.\<close>

lemma named_clean:
  assumes "last (split_on slash s) = p" "file_name p"
  shows "named p (path_clean s)"
proof -
  obtain ps where ps: "split_on slash s = ps @ [p]" using assms(1) append_butlast_last_id [OF split_on_nonempty] by metis
  have "s \<noteq> []" using assms by (auto simp: file_name_def)
  let ?parts = "clean_stack (is_abs s) [] ps @ [p]"
  have "join_with [slash] ?parts \<noteq> []" using named_join [of p "clean_stack (is_abs s) [] ps"] assms(2) by (auto simp: named_def file_name_def)
  then have "path_clean s = (if is_abs s then slash # join_with [slash] ?parts else join_with [slash] ?parts)"
    using \<open>s \<noteq> []\<close> ps assms(2) by (cases "is_abs s") (simp_all add: path_clean_def clean_stack_snoc Let_def)
  then show ?thesis using named_join [of p "clean_stack (is_abs s) [] ps"] by (auto simp: named_def intro: append_Cons [symmetric])
qed

lemma last_split_join: "last (split_on slash (join_with [slash] (es @ [x]))) = last (split_on slash x)"
proof (induction es)
  case (Cons e es)
  then show ?case by (cases es) (simp_all add: last_split_on)
qed simp

lemma path_join_clean:
  assumes "x \<noteq> []"
  obtains es where "path_join (xs @ [x]) = path_clean (join_with [slash] (es @ [x]))"
proof -
  have "dropWhile (\<lambda>e. e = []) (xs @ [x]) = dropWhile (\<lambda>e. e = []) xs @ [x]"
    using assms by (induction xs) auto
  with that show thesis by (auto simp: path_join_def Let_def)
qed

lemma named_path_join:
  assumes "last (split_on slash x) = p" "file_name p"
  shows "named p (path_join (xs @ [x]))"
proof -
  have "x \<noteq> []" using assms by (auto simp: file_name_def)
  then obtain es where "path_join (xs @ [x]) = path_clean (join_with [slash] (es @ [x]))" by (rule path_join_clean)
  then show ?thesis using named_clean [of "join_with [slash] (es @ [x])" p] assms last_split_join [of es x] by simp
qed

text \<open>A joined path is clean and not blank.\<close>

lemma path_join_fix: "x \<noteq> [] \<Longrightarrow> path_clean (path_join (xs @ [x])) = path_join (xs @ [x])"
  by (metis path_join_clean path_clean_idem)

lemma named_path_join_simple: "file_name p \<Longrightarrow> named p (path_join (xs @ [p]))"
  by (rule named_path_join) (simp_all add: file_name_def split_on_no_sep)

lemma named_last: "named p s \<Longrightarrow> p \<noteq> [] \<Longrightarrow> s \<noteq> [] \<and> last s = last p"
  by (auto simp: named_def)

text \<open>An absolute path stays one.\<close>

lemma is_abs_clean: "is_abs s \<Longrightarrow> is_abs (path_clean s)"
  by (auto simp: path_clean_def is_abs_def has_prefix_iff Let_def)

lemma is_abs_join: "is_abs b \<Longrightarrow> is_abs (path_join (b # xs))"
proof -
  assume b: "is_abs b"
  then have ne: "b \<noteq> []" by (auto simp: is_abs_def has_prefix_iff)
  have "is_abs (join_with [slash] (b # xs))" using b ne by (cases xs; cases b) (auto simp: is_abs_def has_prefix_iff)
  then show ?thesis using ne by (simp add: path_join_def Let_def is_abs_clean)
qed

text \<open>Cleaning and joining bring no new characters, besides a slash and a dot.\<close>

lemma set_join_with: "set (join_with sep xs) \<subseteq> \<Union> (set ` set xs) \<union> set sep"
  by (induction sep xs rule: join_with.induct) auto

lemma clean_stack_subset: "set (clean_stack r st ps) \<subseteq> set st \<union> set ps"
  by (induction r st ps rule: clean_stack.induct) (auto split: list.splits if_splits)

lemma split_on_subset: "f \<in> set (split_on d s) \<Longrightarrow> set f \<subseteq> set s"
proof (induction s arbitrary: f)
  case (Cons c cs)
  then show ?case by (cases "split_on d cs") (fastforce split: if_splits)+
qed simp

lemma set_path_clean: "set (path_clean s) \<subseteq> set s \<union> {slash, CHR ''.''}"
proof -
  have "set (join_with [slash] (clean_stack (is_abs s) [] (split_on slash s))) \<subseteq> set s \<union> {slash}"
    using set_join_with [of "[slash]" "clean_stack (is_abs s) [] (split_on slash s)"]
      clean_stack_subset [of "is_abs s" "[]" "split_on slash s"] split_on_subset [of _ slash s] by fastforce
  then show ?thesis by (auto simp: path_clean_def Let_def)
qed

lemma set_path_join: "set (path_join xs) \<subseteq> \<Union> (set ` set xs) \<union> {slash, CHR ''.''}"
proof -
  have "set (join_with [slash] (dropWhile (\<lambda>e. e = []) xs)) \<subseteq> \<Union> (set ` set xs) \<union> {slash}"
    using set_join_with [of "[slash]" "dropWhile (\<lambda>e. e = []) xs"] set_dropWhileD [of _ "\<lambda>e. e = []" xs] by fastforce
  then show ?thesis using set_path_clean [of "join_with [slash] (dropWhile (\<lambda>e. e = []) xs)"] by (auto simp: path_join_def Let_def)
qed

subsection \<open>Backups\<close>

lemma nat_text_no_slash: "slash \<notin> set (nat_text n)"
proof (induction n rule: less_induct)
  case (less n)
  have "char_at (k + 48) \<noteq> slash" if "k < 10" for k :: nat
  proof
    assume "char_at (k + 48) = slash"
    then have "byte_of (char_at (k + 48)) = 47" by (simp add: slash_def)
    then show False using that by (simp add: of_char_of)
  qed
  then show ?case using less [of "n div 10"] by (subst nat_text.simps) (auto dest!: sym [of slash])
qed

lemma int_text_no_slash: "slash \<notin> set (int_text i)"
  using nat_text_no_slash by (auto simp: int_text_def slash_def)

lemma named_backup: "named p s \<Longrightarrow> named (p @ ''.bak.'' @ int_text i) (backup_path s i)"
  by (auto simp: named_def backup_path_def)

lemma backup_name: "slash \<notin> set p \<Longrightarrow> slash \<notin> set (p @ ''.bak.'' @ int_text i)"
  using int_text_no_slash by (auto simp: slash_def)

text \<open>A file is touched neither by writing another nor by its backup, if no name is the other's or begins with it and \<open>.bak.\<close>\<close>

definition other_name :: "string \<Rightarrow> string \<Rightarrow> bool" where
  "other_name p q \<longleftrightarrow> p \<noteq> q \<and> \<not> has_prefix p (q @ ''.bak.'')"

lemma other_paths:
  assumes "named p s" "named q t" "slash \<notin> set p" "slash \<notin> set q" "other_name p q"
  shows "s \<noteq> t" "s \<noteq> backup_path t i"
proof -
  show "s \<noteq> t" using assms named_unique [of p s q] by (auto simp: other_name_def)
  show "s \<noteq> backup_path t i"
  proof
    assume "s = backup_path t i"
    then have "p = q @ ''.bak.'' @ int_text i"
      using named_unique [OF assms(1) _ assms(3) backup_name [OF assms(4), of i]] named_backup [OF assms(2)] by simp
    then show False using assms(5) by (auto simp: other_name_def has_prefix_iff)
  qed
qed

text \<open>A certificate and its key, written into one directory, and their backups are four files.\<close>

lemma pair_apart:
  assumes "file_name p" "file_name q" "other_name p q" "other_name q p" "\<And>i j. p @ ''.bak.'' @ int_text i \<noteq> q @ ''.bak.'' @ int_text j"
  shows "apart io (path_join (xs @ [p])) (path_join (ys @ [q]))"
proof -
  note n = named_path_join_simple [OF assms(1), of xs] named_path_join_simple [OF assms(2), of ys]
  have f: "slash \<notin> set p" "slash \<notin> set q" using assms(1,2) by (simp_all add: file_name_def)
  have "backup_path (path_join (xs @ [p])) i \<noteq> backup_path (path_join (ys @ [q])) j" for i j
    using named_unique [OF named_backup [OF n(1), of i] _ backup_name [OF f(1)] backup_name [OF f(2)], of j] named_backup [OF n(2), of j]
      assms(5) by auto
  moreover have "path_join (xs @ [p]) \<noteq> path_join (ys @ [q])" using other_paths(1) [OF n f assms(3)] .
  ultimately show ?thesis
    using other_paths(2) [OF n f assms(3)] other_paths(2) [OF n(2,1) f(2,1) assms(4)]
    by (auto simp: apart_def backup_of_def) (simp_all add: backup_path_def)
qed

subsection \<open>The directory of a joined path\<close>

lemma clean_stack_trailing: "clean_stack r st (ps @ [[]]) = clean_stack r st ps"
  by (induction r st ps rule: clean_stack.induct) (auto split: list.splits)

lemma split_on_join_parts: "\<forall>p \<in> set ps. slash \<notin> set p \<Longrightarrow> split_on slash (join_with [slash] ps @ slash # p) = (if ps = [] then [[]] else ps) @ split_on slash p"
  by (cases "ps = []") (simp_all add: split_on_append split_join)

lemma dir_rejoined:
  assumes "is_abs q" "file_name p"
  shows "path_join [path_clean (q @ [slash]), p] = path_clean (q @ slash # p)"
proof -
  define ps where "ps = clean_stack True [] (split_on slash q)"
  have q: "q \<noteq> []" "is_abs (q @ [slash])" "is_abs (q @ slash # p)" using assms(1) by (auto simp: is_abs_def has_prefix_iff)
  have pf: "split_on slash p = [p]" "p \<noteq> []" using assms(2) by (simp_all add: file_name_def split_on_no_sep)
  have ok: "clean_parts True ps" unfolding ps_def by (rule clean_stack_parts) (auto dest: split_on_free)
  then have free: "\<forall>r \<in> set ps. slash \<notin> set r" by (simp add: clean_parts_def)
  have id: "clean_stack True [] (ps @ [p]) = ps @ [p]" using clean_stack_snoc [OF assms(2)] clean_stack_id [of True "[]" ps] ok by simp
  have c: "path_clean (q @ [slash]) = slash # join_with [slash] ps"
    using q(1,2) by (simp add: path_clean_def split_on_append clean_stack_trailing ps_def Let_def)
  have c2: "path_clean (q @ slash # p) = slash # join_with [slash] (ps @ [p])"
    using q(1,3) assms(2) by (simp add: path_clean_def split_on_append pf clean_stack_snoc ps_def Let_def)
  have sp: "split_on slash ((slash # join_with [slash] ps) @ slash # p) = [] # (if ps = [] then [[]] else ps) @ [p]"
    using split_on_join_parts [OF free, of p] pf(1) by simp
  have "clean_stack True [] ([] # (if ps = [] then [[]] else ps) @ [p]) = ps @ [p]" using id by (cases "ps = []") simp_all
  then have "path_clean ((slash # join_with [slash] ps) @ slash # p) = slash # join_with [slash] (ps @ [p])"
    unfolding path_clean_def sp Let_def by (simp add: is_abs_def has_prefix_iff)
  then show ?thesis using pf(2) by (simp add: path_join_def c c2)
qed

lemma join_below:
  assumes "is_abs base"
  obtains q where "\<And>p. file_name p \<Longrightarrow> path_join (base # xs @ [p]) = q @ slash # p" "q = [] \<or> is_abs q"
proof -
  have base: "base \<noteq> []" using assms by (auto simp: is_abs_def has_prefix_iff)
  define ps where "ps = clean_stack True [] (split_on slash (join_with [slash] (base # xs)))"
  define q where "q = (if ps = [] then [] else slash # join_with [slash] ps)"
  have j: "join_with [slash] (y # ys @ [p]) = join_with [slash] (y # ys) @ slash # p" for y ys p
    by (induction ys arbitrary: y) auto
  have abs: "is_abs (join_with [slash] (base # xs) @ t)" for t
    using assms by (cases xs) (auto simp: is_abs_def has_prefix_iff)
  have "path_join (base # xs @ [p]) = q @ slash # p" if "file_name p" for p
  proof -
    have f: "split_on slash p = [p]" using that by (simp add: file_name_def split_on_no_sep)
    have "path_join (base # xs @ [p]) = path_clean (join_with [slash] (base # xs) @ slash # p)"
      using base by (simp add: path_join_def Let_def j)
    also have "\<dots> = slash # join_with [slash] (ps @ [p])"
      using abs [of "slash # p"] by (simp add: path_clean_def split_on_append f clean_stack_snoc [OF that] ps_def Let_def)
    also have "\<dots> = q @ slash # p" by (cases ps) (simp_all add: q_def j)
    finally show ?thesis .
  qed
  moreover have "q = [] \<or> is_abs q" by (simp add: q_def is_abs_def has_prefix_iff)
  ultimately show thesis by (rule that)
qed

lemma path_dir_snoc: "slash \<notin> set p \<Longrightarrow> path_dir (q @ slash # p) = path_clean (q @ [slash])"
proof -
  assume "slash \<notin> set p"
  then have "dropWhile (\<lambda>c. c \<noteq> slash) (rev (q @ slash # p)) = slash # rev q"
    by (subst rev_append) (subst rev.simps, subst append_assoc, subst dropWhile_append2, auto)
  then show ?thesis by (simp add: path_dir_def)
qed

lemma dir_independent:
  assumes "is_abs base" "file_name p" "file_name r"
  shows "path_dir (path_join (base # xs @ [p])) = path_dir (path_join (base # xs @ [r]))"
  by (rule join_below [OF assms(1), of xs]) (use assms(2,3) in \<open>simp add: path_dir_snoc file_name_def\<close>)

lemma dir_of_join:
  assumes "is_abs base" "file_name p"
  shows "path_join [path_dir (path_join (base # xs @ [p])), p] = path_join (base # xs @ [p])"
proof -
  obtain q where q: "\<And>p. file_name p \<Longrightarrow> path_join (base # xs @ [p]) = q @ slash # p" "q = [] \<or> is_abs q"
    using join_below [OF assms(1)] by metis
  let ?s = "path_join (base # xs @ [p])"
  note s = q(1) [OF assms(2)]
  have f: "slash \<notin> set p" "p \<noteq> []" using assms(2) by (simp_all add: file_name_def)
  have whole: "path_clean ?s = ?s" using path_join_fix [OF f(2), of "base # xs"] by simp
  have d: "path_dir ?s = path_clean (q @ [slash])" unfolding s by (rule path_dir_snoc [OF f(1)])
  show ?thesis
  proof (cases "q = []")
    case True
    have "path_clean [slash] = [slash]" by code_simp
    then have "path_join [path_dir ?s, p] = path_clean (slash # slash # p)" using d True f(2) by (simp add: path_join_def)
    also have "\<dots> = path_clean (slash # p)" by (simp add: path_clean_def is_abs_def has_prefix_iff)
    finally show ?thesis using s True whole by simp
  next
    case False
    then show ?thesis using dir_rejoined [OF _ assms(2)] q(2) d s whole by simp
  qed
qed

subsection \<open>Blank texts\<close>

lemma trim_left_last:
  assumes "s \<noteq> []" "printable (last s)"
  shows "trim_left s \<noteq> [] \<and> last (trim_left s) = last s"
proof -
  have "drop_spaces f s \<noteq> [] \<and> last (drop_spaces f s) = last s" if "f = strip_space" for f
    using that assms
  proof (induction f s rule: drop_spaces.induct)
    case (1 f s)
    show ?case
    proof (cases "f s")
      case None
      then show ?thesis using "1.prems" by (simp add: drop_spaces_None)
    next
      case (Some r)
      then obtain w where w: "w \<in> set space_encodings" "s = w @ r"
        using "1.prems"(1) by (auto simp: strip_space_def dest!: strip_any_Some)
      moreover have "w \<noteq> [] \<and> \<not> printable (last w)" using w(1) space_encodings_unprintable by (simp add: list_all_iff)
      ultimately have r: "r \<noteq> []" using "1.prems"(3) by auto
      then have "last r = last s" using w(2) by simp
      then show ?thesis
        using "1.IH" [OF Some] r "1.prems" Some strip_space_length [of s r] by (simp add: drop_spaces.simps [of strip_space s])
    qed
  qed
  then show ?thesis by (simp add: trim_left_def)
qed

lemma trim_right_last: "s \<noteq> [] \<Longrightarrow> printable (last s) \<Longrightarrow> trim_right s = s"
  by (cases s rule: rev_cases) (simp_all add: trim_right_def drop_spaces_None strip_space_printable)

lemma not_blank: "s \<noteq> [] \<Longrightarrow> printable (last s) \<Longrightarrow> trim_space s \<noteq> []"
  using trim_left_last [of s] trim_right_last [of "trim_left s"] by (simp add: trim_space_def)

lemma named_not_blank: "named p s \<Longrightarrow> p \<noteq> [] \<Longrightarrow> printable (last p) \<Longrightarrow> trim_space s \<noteq> []"
  using named_last [of p s] not_blank [of s] by simp

end
