(* ===== verification/Cli_Wizard_Props.thy ===== *)
theory Cli_Wizard_Props
  imports Cli_Wizard Path_Names
begin

text \<open>Every run of the questions of setup ends, on every input; what the specification is that they give.\<close>

subsection \<open>Defaults\<close>

lemma filled_simps: "filled v \<longleftrightarrow> trim_space v \<noteq> []"
  by (rule filled_def)

lemma filled_printable: "s \<noteq> [] \<Longrightarrow> printable (last s) \<Longrightarrow> filled s"
  by (simp add: filled_def not_blank)

lemma filled_join: "file_name p \<Longrightarrow> printable (last p) \<Longrightarrow> filled (path_join (xs @ [p]))"
  using named_not_blank [OF named_path_join_simple [of p xs]] by (simp add: filled_def file_name_def)

lemma filled_append: "s \<noteq> [] \<Longrightarrow> printable (last s) \<Longrightarrow> filled (t @ s)"
  by (rule filled_printable) simp_all

lemma filled_host: "filled (local_hostname h)"
proof -
  have "filled ''localhost''" by (rule filled_printable) (simp_all add: printable_def)
  then show ?thesis by (auto simp: local_hostname_def filled_def split: sum.split)
qed

lemma provider_cases: "provider_of k = provider_of ''claude'' \<or> provider_of k = provider_of ''codex'' \<or>
    provider_of k = provider_of ''gemini'' \<or> pv_dir (provider_of k) = []"
  by (auto simp: provider_of_def setup_providers_def)

lemma provider_dir: "pv_dir (provider_of k) = [] \<or> filled (pv_dir (provider_of k))"
proof -
  have "filled (pv_dir (provider_of x))" if "x \<in> {''claude'', ''codex'', ''gemini''}" for x
    by (rule filled_printable) (use that in \<open>auto simp: provider_of_def setup_providers_def printable_def\<close>)
  then show ?thesis using provider_cases [of k] by (metis insertCI)
qed

lemma default_years: "parse_int (int_text defaultCAYears) = Some defaultCAYears" "parse_int (int_text defaultLeafYears) = Some defaultLeafYears"
proof -
  have "int_text 10 = ''10''" "int_text 1 = ''1''" by code_simp+
  then show "parse_int (int_text defaultCAYears) = Some defaultCAYears" "parse_int (int_text defaultLeafYears) = Some defaultLeafYears"
    by (simp_all add: defaultCAYears_def defaultLeafYears_def parse_int_def is_digit_def min_int64_def max_int64_def)
qed

lemma int_text_port: "int_text DefaultPort = ''8443''"
proof -
  have "char_at 56 = CHR ''8''" "char_at 52 = CHR ''4''" "char_at 51 = CHR ''3''" by code_simp+
  then show ?thesis by (simp add: DefaultPort_def int_text_def nat_text.simps)
qed

lemma choice_defaults:
  "lower_word (trim_space AuthModeMTLS) \<in> set (map lower_word [AuthModeMTLS, AuthModeJWT])"
  "lower_word (trim_space ''claude'') \<in> set (map lower_word [''claude'', ''codex'', ''gemini''])"
  "lower_word (trim_space ''file'') \<in> set (map lower_word [''file'', ''env''])"
  "lower_word (trim_space JWTSendViaAuto) \<in> set (map lower_word [JWTSendViaAuto, JWTSendViaHeader, JWTSendViaFirstFrame])"
  by code_simp+

lemma filled_port [simp]: "filled (s @ int_text DefaultPort)"
  unfolding int_text_port by (rule filled_append) (simp_all add: printable_def)

lemma text_defaults [simp]: "filled defaultCACommonName" "filled defaultJWTIssuer" "filled defaultJWTAudience" "filled defaultTelegramEnv" "filled defaultJWTTokenEnv"
  by (rule filled_printable; simp add: printable_def defaultCACommonName_def defaultJWTIssuer_def defaultJWTAudience_def
      defaultTelegramEnv_def defaultJWTTokenEnv_def)+

lemma path_defaults [simp]: "filled (path_join [b, ''systemd'', ''pangaea-server.service''])"
  "filled (path_join [b, ''pki'', ''client.crt''])" "filled (path_join [b, ''pki'', ''client.key''])" "filled (path_join [b, ''jwt.token''])"
  using filled_join [of "''pangaea-server.service''" "[b, ''systemd'']"] filled_join [of "''client.crt''" "[b, ''pki'']"]
    filled_join [of "''client.key''" "[b, ''pki'']"] filled_join [of "''jwt.token''" "[b]"]
  by (simp_all add: file_name_def printable_def slash_def)

lemma unit_default [simp]: "filled (path_join [b, ''systemd'', default_client_unit_name n])"
proof -
  have "slash \<notin> set (escape_with (\<lambda>c. if c \<in> {CHR ''/'', CHR 0x5C, CHR '' '', CHR '':'', CHR ''.''} then Some ''-'' else None) n)"
    by (auto simp: escape_with_def slash_def split: if_splits)
  then have "file_name (default_client_unit_name n)" "printable (last (default_client_unit_name n))"
    by (auto simp: file_name_def default_client_unit_name_def slash_def printable_def)
  then show ?thesis using filled_join [of "default_client_unit_name n" "[b, ''systemd'']"] by simp
qed

subsection \<open>The loop over the profiles\<close>

lemma required_answers: "def = [] \<or> filled def \<Longrightarrow> answers (prompt_required label def)"
  by (rule prompt_answers(1)) (simp add: filled_def)

lemma profile_rest_answers: "answers (profile_rest allowed name)"
  unfolding profile_rest_def Let_def
  by (intro p_bind_answers required_answers prompt_answers(2) provider_dir choice_defaults)
    (auto split: option.split intro!: answers_intro)

lemma profile_fields_answers: "answers (profile_fields allowed)"
  unfolding profile_fields_def by (intro p_bind_answers required_answers profile_rest_answers) simp

lemma profile_round_answers: "answers (profile_round allowed first)"
  unfolding profile_round_def by (intro answers_intro profile_fields_answers)

lemma p_bind_Inr:
  assumes "p_bind p k u = Some (Inr y, u')"
  obtains x v where "p u = Some (Inr x, v)" "k x v = Some (Inr y, u')"
  using assms that by (auto simp: p_bind_def split: option.splits prod.splits sum.splits)

lemma answers_shorter: "answers p \<Longrightarrow> p u = Some (r, u') \<Longrightarrow> shorter u' u"
  unfolding answers_def by (metis Pair_inject option.inject)

text \<open>A question without a default, and a no against the default yes, use up input.\<close>

lemma required_reads:
  assumes "prompt_required label [] u = Some (Inr v, u')"
  shows "length (ui_in u') < length (ui_in u)"
proof -
  obtain u0 w where "shorter u0 u" "prompt_string label [] u0 = (Inr w, u')"
    using asks_again_Inr [OF prompt_required_again assms] by blast
  then show ?thesis by (auto simp: shorter_def elim!: prompt_string_cases)
qed

lemma bool_reads:
  assumes "prompt_bool label def u = Some (Inr b, u')" "b \<noteq> def"
  shows "length (ui_in u') < length (ui_in u)"
proof -
  obtain u0 w where a: "shorter u0 u" "ask_bool label def u0 = (Inr w, u')" "pick_bool def w = Some b"
    using asks_again_Inr [OF prompt_bool_again assms(1)] by blast
  then have "w \<noteq> []" using assms(2) by (auto simp: pick_bool_def)
  then show ?thesis using a(1) ask_bool_reads(2) [OF a(2)] by (simp add: shorter_def)
qed

lemma profile_round_reads:
  assumes "profile_round allowed first u = Some (Inr r, u')" "r \<noteq> RoundDone"
  shows "length (ui_in u') < length (ui_in u)"
proof -
  obtain ok v where ok: "prompt_bool (if first then ''Add a profile'' else ''Add another profile'') first u = Some (Inr ok, v)"
    "(if \<not> ok then (if first then p_bind (p_say (''At least one profile is required.'' @ [eol])) (\<lambda>_. p_ret RoundAgain) else p_ret RoundDone)
      else profile_fields allowed) v = Some (Inr r, u')"
    using assms(1) unfolding profile_round_def by (rule p_bind_Inr)
  have v: "shorter v u" using ok(1) by (rule answers_shorter [OF prompt_answers(4)])
  show ?thesis
  proof (cases ok)
    case False
    then have "first" using ok(2) assms(2) by (auto simp: p_ret_def split: if_splits)
    then have "length (ui_in v) < length (ui_in u)" using False bool_reads [OF ok(1)] by simp
    moreover have "ui_in u' = ui_in v" using ok(2) False \<open>first\<close> by (auto simp: p_bind_def p_say_def p_ret_def)
    ultimately show ?thesis by simp
  next
    case True
    then obtain name w where n: "prompt_required ''Profile name'' [] v = Some (Inr name, w)"
      and rest: "profile_rest allowed name w = Some (Inr r, u')"
      using ok(2) unfolding profile_fields_def by (auto elim: p_bind_Inr)
    have "shorter u' w" by (rule answers_shorter [OF profile_rest_answers rest])
    then show ?thesis using required_reads [OF n] v by (simp add: shorter_def)
  qed
qed

lemma prompt_profiles_answers: "answers (prompt_profiles allowed ps)"
proof (rule answersI)
  fix u
  show "\<exists>r u'. prompt_profiles allowed ps u = Some (r, u') \<and> shorter u' u"
  proof (induction "length (ui_in u)" arbitrary: u ps rule: less_induct)
    case less
    obtain r v where r: "profile_round allowed (ps = []) u = Some (r, v)" "shorter v u"
      using answersE [OF profile_round_answers] by blast
    have step: "prompt_profiles allowed ps u = (case r of Inl e \<Rightarrow> Some (Inl e, v)
      | Inr RoundDone \<Rightarrow> Some (Inr ps, v) | Inr RoundAgain \<Rightarrow> prompt_profiles allowed ps v
      | Inr (RoundAdd p) \<Rightarrow> prompt_profiles allowed (ps @ [p]) v)"
      by (subst prompt_profiles.simps) (simp add: r(1) split: sum.split asked_turn.split)
    show ?case
    proof (cases "\<exists>x. r = Inr x \<and> x \<noteq> RoundDone")
      case True
      then obtain x where x: "r = Inr x" "x \<noteq> RoundDone" by blast
      then have "length (ui_in v) < length (ui_in u)" using r(1) profile_round_reads by blast
      from less [OF this] obtain q w q' w' where "prompt_profiles allowed ps v = Some (q, w)" "shorter w v"
        "\<And>p. \<exists>q' w'. prompt_profiles allowed (ps @ [p]) v = Some (q', w') \<and> shorter w' v" by meson
      then show ?thesis unfolding step using x r(2) by (cases x) (auto intro: shorter_trans, meson shorter_trans)
    next
      case False
      then show ?thesis unfolding step using r(2) by (cases r) (auto split: asked_turn.split)
    qed
  qed
qed

subsection \<open>The runs\<close>

lemma auth_choice_answers: "answers auth_choice"
  unfolding auth_choice_def by (rule prompt_answers(2) [OF choice_defaults(1)])

lemma ask_systemd_answers:
  assumes "filled (current_username h)" "filled unit"
  shows "answers (ask_systemd h whom unit)"
  unfolding ask_systemd_def by (intro answers_intro required_answers disjI2 assms)

lemma int_defaults: "0 < defaultCAYears" "0 < defaultLeafYears"
  by (simp_all add: defaultCAYears_def defaultLeafYears_def)

theorem ask_server_answers:
  assumes "filled (current_username h)"
  shows "answers (ask_server h base)"
  unfolding ask_server_def ask_server_base_def ask_server_auth_def ask_server_telegram_def prompt_server_profiles_def
  by (intro p_bind_answers auth_choice_answers required_answers prompt_string_answers prompt_answers(3,4) prompt_list_answers
      prompt_profiles_answers p_ret_answers answers_if ask_systemd_answers assms default_years int_defaults)
    (simp_all add: filled_host del: append.simps)

theorem ask_client_answers:
  assumes "filled (current_username h)"
  shows "answers (ask_client h base)"
  unfolding ask_client_def ask_client_base_def ask_client_auth_def prompt_client_profiles_def
  by (intro p_bind_answers auth_choice_answers required_answers prompt_answers(2,4) choice_defaults
      prompt_profiles_answers p_ret_answers answers_if ask_systemd_answers assms)
    (simp_all add: filled_host del: append.simps)

subsection \<open>The specifications\<close>

text \<open>A profile that was asked for; \<open>allowed\<close> says whether the question for the clients was part of it.\<close>

definition asked_profile :: "bool \<Rightarrow> setup_profile \<Rightarrow> bool" where
  "asked_profile allowed p \<longleftrightarrow> filled (sq_name p) \<and> sq_provider p \<in> provider_of ` {''claude'', ''codex'', ''gemini''} \<and>
     filled (sq_dir p) \<and> (if allowed then sq_allowed p \<noteq> [] \<and> [] \<notin> set (sq_allowed p) else sq_allowed p = [])"

definition round_ok :: "bool \<Rightarrow> asked_turn \<Rightarrow> bool" where
  "round_ok allowed r = (case r of RoundAdd p \<Rightarrow> asked_profile allowed p | _ \<Rightarrow> True)"

lemma lower_providers: "map lower_word [''claude'', ''codex'', ''gemini''] = [''claude'', ''codex'', ''gemini'']"
  by code_simp

lemma gives_provider: "gives (\<lambda>k. k \<in> {''claude'', ''codex'', ''gemini''}) (prompt_choice label [''claude'', ''codex'', ''gemini''] ''claude'')"
  using gives_choice [OF choice_defaults(2), of label] unfolding lower_providers by simp

lemma gives_rest: "filled name \<Longrightarrow> gives (round_ok (allowed \<noteq> None)) (profile_rest allowed name)"
  unfolding profile_rest_def
proof (rule gives_bind [OF gives_provider])
  fix k :: string
  assume n: "filled name" and k: "k \<in> {''claude'', ''codex'', ''gemini''}"
  show "gives (round_ok (allowed \<noteq> None)) (let provider = provider_of k in p_bind
      (prompt_required (pv_label provider @ '' credentials directory'') (pv_dir provider)) (\<lambda>dir. case allowed of
         None \<Rightarrow> p_ret (RoundAdd \<lparr>sq_name = name, sq_provider = provider, sq_dir = dir, sq_allowed = []\<rparr>)
       | Some dflt \<Rightarrow> p_bind (prompt_list ''Allowed client node IDs for this profile'' dflt) (\<lambda>ids.
             if ids = [] then p_bind (p_say (''allowed_clients must not be empty.'' @ [eol])) (\<lambda>_. p_ret RoundAgain)
             else p_ret (RoundAdd \<lparr>sq_name = name, sq_provider = provider, sq_dir = dir, sq_allowed = ids\<rparr>))))"
    unfolding Let_def
  proof (rule gives_bind [OF gives_required [OF provider_dir]])
    fix dir :: string
    assume d: "filled dir"
    show "gives (round_ok (allowed \<noteq> None)) (case allowed of
         None \<Rightarrow> p_ret (RoundAdd \<lparr>sq_name = name, sq_provider = provider_of k, sq_dir = dir, sq_allowed = []\<rparr>)
       | Some dflt \<Rightarrow> p_bind (prompt_list ''Allowed client node IDs for this profile'' dflt) (\<lambda>ids.
             if ids = [] then p_bind (p_say (''allowed_clients must not be empty.'' @ [eol])) (\<lambda>_. p_ret RoundAgain)
             else p_ret (RoundAdd \<lparr>sq_name = name, sq_provider = provider_of k, sq_dir = dir, sq_allowed = ids\<rparr>)))"
    proof (cases allowed)
      case None
      then show ?thesis using n d k by (auto intro!: gives_ret simp: round_ok_def asked_profile_def)
    next
      case (Some dflt)
      have "gives (round_ok True) (if ids = [] then p_bind (p_say (''allowed_clients must not be empty.'' @ [eol])) (\<lambda>_. p_ret RoundAgain)
          else p_ret (RoundAdd \<lparr>sq_name = name, sq_provider = provider_of k, sq_dir = dir, sq_allowed = ids\<rparr>))"
        if "[] \<notin> set ids \<and> distinct ids" for ids
        using n d k that by (auto intro!: gives_ret gives_bind [OF gives_any] simp: round_ok_def asked_profile_def)
      then show ?thesis unfolding Some by (auto intro: gives_bind [OF gives_list])
    qed
  qed
qed

lemma gives_round: "gives (\<lambda>r. round_ok (allowed \<noteq> None) r \<and> (r = RoundDone \<longrightarrow> \<not> first)) (profile_round allowed first)"
proof -
  have "gives (\<lambda>r. round_ok (allowed \<noteq> None) r \<and> r \<noteq> RoundDone) (profile_fields allowed)"
  proof (rule givesI)
    fix u r u'
    assume "profile_fields allowed u = Some (Inr r, u')"
    then obtain name v where n: "prompt_required ''Profile name'' [] u = Some (Inr name, v)" "profile_rest allowed name v = Some (Inr r, u')"
      unfolding profile_fields_def by (rule p_bind_Inr)
    have "filled name" by (rule givesD [OF gives_required n(1)]) simp
    moreover have "r \<noteq> RoundDone"
      using n(2) by (auto simp: profile_rest_def Let_def p_ret_def split: option.splits if_splits elim!: p_bind_Inr)
    ultimately show "round_ok (allowed \<noteq> None) r \<and> r \<noteq> RoundDone" using givesD [OF gives_rest n(2)] by simp
  qed
  then have f: "gives (\<lambda>r. round_ok (allowed \<noteq> None) r \<and> (r = RoundDone \<longrightarrow> \<not> first)) (profile_fields allowed)"
    by (auto simp: gives_def)
  show ?thesis
    unfolding profile_round_def
  proof (rule gives_bind [OF gives_any])
    fix ok
    show "gives (\<lambda>r. round_ok (allowed \<noteq> None) r \<and> (r = RoundDone \<longrightarrow> \<not> first))
      (if \<not> ok then (if first then p_bind (p_say (''At least one profile is required.'' @ [eol])) (\<lambda>_. p_ret RoundAgain) else p_ret RoundDone)
       else profile_fields allowed)"
      using f by (cases ok) (auto simp: round_ok_def intro!: gives_ret gives_bind [OF gives_any])
  qed
qed

text \<open>The loop gives at least one profile, each as it was asked for.\<close>

lemma gives_profiles: "gives (\<lambda>ps. ps \<noteq> [] \<and> list_all (asked_profile (allowed \<noteq> None)) ps) (prompt_profiles allowed [])"
proof -
  have "qs \<noteq> [] \<and> list_all (asked_profile (allowed \<noteq> None)) qs"
    if "prompt_profiles allowed ps u = Some (Inr qs, u')" "list_all (asked_profile (allowed \<noteq> None)) ps" for ps qs u u'
    using that
  proof (induction "length (ui_in u)" arbitrary: u ps rule: less_induct)
    case less
    obtain r v where r: "profile_round allowed (ps = []) u = Some (r, v)"
      using answersE [OF profile_round_answers] by blast
    from less.prems(1) show ?case
      unfolding prompt_profiles.simps [of allowed ps u] r option.case prod.case
    proof (cases r)
      case (Inr x)
      have ok: "round_ok (allowed \<noteq> None) x \<and> (x = RoundDone \<longrightarrow> ps \<noteq> [])"
        using givesD [OF gives_round r [unfolded Inr]] by simp
      have step: "prompt_profiles allowed ps u = (case x of RoundDone \<Rightarrow> Some (Inr ps, v)
          | RoundAgain \<Rightarrow> prompt_profiles allowed ps v | RoundAdd p \<Rightarrow> prompt_profiles allowed (ps @ [p]) v)"
        by (subst prompt_profiles.simps) (simp add: r Inr)
      have len: "length (ui_in v) < length (ui_in u)" if "x \<noteq> RoundDone" using profile_round_reads r Inr that by blast
      show ?thesis
      proof (cases x)
        case RoundDone
        then show ?thesis using less.prems step ok by simp
      next
        case RoundAgain
        then show ?thesis using less.hyps [OF len] less.prems step by simp
      next
        case (RoundAdd p)
        then have "list_all (asked_profile (allowed \<noteq> None)) (ps @ [p])" using less.prems(2) ok by (simp add: round_ok_def)
        then show ?thesis using less.hyps [OF len, of "ps @ [p]"] less.prems(1) step RoundAdd by simp
      qed
    qed simp
  qed
  then show ?thesis by (auto simp: gives_def)
qed

lemma gives_auth: "gives (\<lambda>m. m \<in> {AuthModeMTLS, AuthModeJWT}) auth_choice"
proof -
  have "map lower_word [AuthModeMTLS, AuthModeJWT] = [AuthModeMTLS, AuthModeJWT]" by code_simp
  then show ?thesis using gives_choice [OF choice_defaults(1), of "''Auth mode''"] unfolding auth_choice_def by simp
qed

definition server_spec :: "string \<Rightarrow> server_setup \<Rightarrow> bool" where
  "server_spec base s \<longleftrightarrow> ss_base s = base \<and> ss_config s = path_join [base, ''pangaea-server.yaml''] \<and>
     ss_profiles_path s = path_join [base, ''profiles.yaml''] \<and> ss_ca_cert s = path_join [base, ''pki'', ''ca.crt''] \<and>
     ss_server_cert s = path_join [base, ''pki'', ''server'', ''server.crt''] \<and>
     ss_server_key s = path_join [base, ''pki'', ''server'', ''server.key''] \<and> ss_jwt_secret s = path_join [base, ''jwt.secret''] \<and>
     ss_env_file s = path_join [base, ''pangaea-server.env''] \<and>
     filled (ss_listen s) \<and> filled (ss_tls_host s) \<and> ss_auth_mode s \<in> {AuthModeMTLS, AuthModeJWT} \<and>
     0 < ss_ca_years s \<and> 0 < ss_leaf_years s \<and> [] \<notin> set (ss_nodes s) \<and> distinct (ss_nodes s) \<and>
     ss_profiles s \<noteq> [] \<and> list_all (asked_profile True) (ss_profiles s)"

lemma ask_server_base_spec: "gives (server_spec base) (ask_server_base h base)"
proof (rule givesI)
  fix u s u'
  assume "ask_server_base h base u = Some (Inr s, u')"
  then obtain mode u1 listen u2 host u3 u4 u5 u6 ca_years u7 leaf_years u8 nodes u9 profiles where
    q: "auth_choice u = Some (Inr mode, u1)"
      "prompt_required ''Listen address'' (''0.0.0.0:'' @ int_text DefaultPort) u1 = Some (Inr listen, u2)"
      "prompt_required ''TLS host / SAN for the backend server certificate'' (local_hostname h) u2 = Some (Inr host, u3)"
      "prompt_int ''CA validity in years'' defaultCAYears u5 = Some (Inr ca_years, u6)"
      "prompt_int ''Leaf certificate validity in years'' defaultLeafYears u6 = Some (Inr leaf_years, u7)"
      "prompt_list ''Initial client node IDs (optional; comma-separated)'' [] u7 = Some (Inr nodes, u8)"
      "prompt_server_profiles nodes u8 = Some (Inr profiles, u9)"
    and s: "server_spec base s \<longleftrightarrow> filled listen \<and> filled host \<and> mode \<in> {AuthModeMTLS, AuthModeJWT} \<and> 0 < ca_years \<and> 0 < leaf_years \<and>
      [] \<notin> set nodes \<and> distinct nodes \<and> profiles \<noteq> [] \<and> list_all (asked_profile True) profiles"
    unfolding ask_server_base_def by (elim p_bind_Inr) (auto simp: p_ret_def server_spec_def)
  show "server_spec base s"
    unfolding s
    using givesD [OF gives_auth q(1)] givesD [OF gives_required q(2)] givesD [OF gives_required q(3)]
      givesD [OF gives_int q(4)] givesD [OF gives_int q(5)] givesD [OF gives_list q(6)]
      givesD [OF gives_profiles, of "Some nodes"] q(7)
    by (simp add: filled_host default_years int_defaults prompt_server_profiles_def del: append.simps)
qed

text \<open>The later questions leave that part as it is.\<close>

definition server_answers :: "server_setup \<Rightarrow> bool" where
  "server_answers s \<longleftrightarrow> (if ss_auth_mode s = AuthModeJWT then filled (ss_jwt_issuer s) \<and> filled (ss_jwt_audience s) else True) \<and>
     (if ss_telegram s then filled (ss_telegram_env s) \<and> filled (ss_telegram_chat s) else True)"

lemma modes_differ [simp]: "AuthModeJWT \<noteq> AuthModeMTLS" "AuthModeMTLS \<noteq> AuthModeJWT"
  by (simp_all add: auth_mode_defs)

lemma server_auth_spec:
  assumes "ask_server_auth s u = Some (Inr t, u')" "server_spec base s" "\<not> ss_telegram s"
  shows "server_spec base t \<and> server_answers t \<and> \<not> ss_telegram t"
proof (cases "ss_auth_mode s = AuthModeJWT")
  case True
  from assms(1) obtain issuer u1 audience u2 fallback issue where
    q: "prompt_required ''JWT issuer'' defaultJWTIssuer u = Some (Inr issuer, u1)"
      "prompt_required ''JWT audience'' defaultJWTAudience u1 = Some (Inr audience, u2)"
    and t: "t = s\<lparr>ss_jwt_issuer := issuer, ss_jwt_audience := audience, ss_jwt_fallback := fallback, ss_issue_tokens := issue\<rparr>"
    unfolding ask_server_auth_def if_P [OF True] by (elim p_bind_Inr) (auto simp: p_ret_def)
  have "filled issuer" "filled audience" using givesD [OF gives_required q(1)] givesD [OF gives_required q(2)] by simp_all
  then show ?thesis using assms(2,3) by (simp add: t server_spec_def server_answers_def)
next
  case False
  from assms(1) obtain issue where t: "t = s\<lparr>ss_issue_certs := issue\<rparr>"
    unfolding ask_server_auth_def if_not_P [OF False] by (elim p_bind_Inr) (auto simp: p_ret_def)
  then show ?thesis using assms(2,3) False by (simp add: server_spec_def server_answers_def)
qed

lemma server_telegram_spec:
  assumes "ask_server_telegram s u = Some (Inr t, u')" "server_spec base s" "server_answers s" "\<not> ss_telegram s"
  shows "server_spec base t \<and> server_answers t"
proof -
  from assms(1) obtain on v where v: "prompt_bool ''Enable Telegram notifications'' False u = Some (Inr on, v)"
    and r: "(if \<not> on then p_ret s
       else
         p_bind (prompt_required ''Telegram bot token env var name'' defaultTelegramEnv) (\<lambda>var.
         p_bind (prompt_required ''Telegram default chat ID'' []) (\<lambda>chat.
         p_bind (prompt_bool ''Send Telegram notifications silently'' False) (\<lambda>silent.
           p_ret (s\<lparr>ss_telegram := True, ss_telegram_env := var, ss_telegram_chat := chat, ss_telegram_silent := silent\<rparr>))))) v = Some (Inr t, u')"
    unfolding ask_server_telegram_def by (rule p_bind_Inr)
  show ?thesis
  proof (cases on)
    case True
    obtain var u1 chat u2 silent where
      q: "prompt_required ''Telegram bot token env var name'' defaultTelegramEnv v = Some (Inr var, u1)"
        "prompt_required ''Telegram default chat ID'' [] u1 = Some (Inr chat, u2)"
      and t: "t = s\<lparr>ss_telegram := True, ss_telegram_env := var, ss_telegram_chat := chat, ss_telegram_silent := silent\<rparr>"
      using r True by (auto elim!: p_bind_Inr simp: p_ret_def)
    have "filled var" "filled chat" using givesD [OF gives_required q(1)] givesD [OF gives_required q(2)] by simp_all
    then show ?thesis using assms(2,3) by (simp add: t server_spec_def server_answers_def)
  next
    case False
    then show ?thesis using r assms(2,3) by (simp add: p_ret_def)
  qed
qed

theorem ask_server_spec:
  assumes "ask_server h base u = Some (Inr s, u')"
  shows "server_spec base s \<and> server_answers s"
proof -
  from assms obtain s0 u0 s1 u1 s2 u2 unit where q: "ask_server_base h base u = Some (Inr s0, u0)"
    "ask_server_auth s0 u0 = Some (Inr s1, u1)" "ask_server_telegram s1 u1 = Some (Inr s2, u2)"
    "s = (case unit of None \<Rightarrow> s2 | Some (usr, path) \<Rightarrow> s2\<lparr>ss_systemd := True, ss_user := usr, ss_unit := path\<rparr>)"
    unfolding ask_server_def by (elim p_bind_Inr) (auto simp: p_ret_def)
  have "\<not> ss_telegram s0" using q(1) unfolding ask_server_base_def by (elim p_bind_Inr) (auto simp: p_ret_def)
  then have "server_spec base s1 \<and> server_answers s1 \<and> \<not> ss_telegram s1"
    using server_auth_spec [OF q(2)] givesD [OF ask_server_base_spec q(1)] by blast
  then have "server_spec base s2 \<and> server_answers s2" using server_telegram_spec [OF q(3)] by blast
  then show ?thesis by (auto simp: q(4) server_spec_def server_answers_def split: option.split)
qed

end
