(* ===== verification/Cli_Documents.thy ===== *)
theory Cli_Documents
  imports Cli_Setup Cli_Wizard_Props Config_Server_Props Config_Client_Props
begin

text \<open>
  The documents that setup writes, read by the loaders of internal/config. The decoder of a YAML package goes by the
  keys that the structs of internal/config declare; \<open>server_of_yaml\<close>, \<open>profiles_of_yaml\<close> and \<open>client_of_yaml\<close> take the
  keys that setup writes from the declarations in server.go, auth.go, profiles.go and client.go. What a document lacks
  has the zero value.
\<close>

subsection \<open>Decoding\<close>

definition y_get :: "string \<Rightarrow> yaml \<Rightarrow> yaml option" where
  "y_get key y = (case y of YMap m \<Rightarrow> map_of m key | _ \<Rightarrow> None)"

definition y_str :: "string \<Rightarrow> yaml \<Rightarrow> string" where
  "y_str key y = (case y_get key y of Some (YStr s) \<Rightarrow> s | _ \<Rightarrow> [])"

definition y_bool :: "string \<Rightarrow> yaml \<Rightarrow> bool option" where
  "y_bool key y = (case y_get key y of Some (YBool b) \<Rightarrow> Some b | _ \<Rightarrow> None)"

definition y_seq :: "string \<Rightarrow> yaml \<Rightarrow> yaml list" where
  "y_seq key y = (case y_get key y of Some (YSeq xs) \<Rightarrow> xs | _ \<Rightarrow> [])"

definition y_sub :: "string \<Rightarrow> yaml \<Rightarrow> yaml" where
  "y_sub key y = (case y_get key y of Some v \<Rightarrow> v | None \<Rightarrow> YMap [])"

fun y_text :: "yaml \<Rightarrow> string" where
  "y_text (YStr s) = s"
| "y_text _ = []"

definition y_texts :: "string \<Rightarrow> yaml \<Rightarrow> string list" where
  "y_texts key y = map y_text (y_seq key y)"

lemmas y_defs = y_get_def y_str_def y_bool_def y_seq_def y_sub_def y_texts_def y_opt_def

definition zero_webhook :: webhook_config where
  "zero_webhook = \<lparr>wc_enabled = False, wc_default_env = [], wc_interval = 0, wc_interval_raw = [], wc_probe_timeout = 0,
     wc_probe_timeout_raw = [], wc_routes = []\<rparr>"

definition notifier_of_yaml :: "yaml \<Rightarrow> notifier_config" where
  "notifier_of_yaml y = (let t = y_sub ''telegram'' y in
     \<lparr>nc_telegram = \<lparr>tg_enabled = (y_bool ''enabled'' t = Some True), tg_bot_token_env = y_str ''bot_token_env'' t,
        tg_default_chat_id = y_str ''default_chat_id'' t, tg_interval = 0, tg_interval_raw = [], tg_probe_timeout = 0,
        tg_probe_timeout_raw = [], tg_silent = (y_bool ''disable_notification'' t = Some True), tg_routes = [], tg_endpoint = []\<rparr>,
      nc_slack = zero_webhook, nc_discord = zero_webhook, nc_mattermost = zero_webhook,
      nc_ntfy = webhook_config.extend zero_webhook \<lparr>nt_auth_token_env = [], nt_priority = 0, nt_tags = []\<rparr>,
      nc_teams = webhook_config.extend zero_webhook \<lparr>te_theme_color = []\<rparr>\<rparr>)"

definition log_of_yaml :: "yaml \<Rightarrow> log_config" where
  "log_of_yaml y = \<lparr>lc_level = y_str ''level'' y, lc_format = y_str ''format'' y\<rparr>"

definition server_of_yaml :: "yaml \<Rightarrow> server_config" where
  "server_of_yaml y =
     (let p = y_sub ''pki'' y; j = y_sub ''jwt'' y in
      \<lparr>sc_listen = y_str ''listen'' y, sc_auth_mode = y_str ''auth_mode'' y,
       sc_pki = \<lparr>pk_ca_cert = y_str ''ca_cert'' p, pk_server_cert = y_str ''server_cert'' p, pk_server_key = y_str ''server_key'' p\<rparr>,
       sc_jwt = \<lparr>js_secret_file = y_str ''secret_key_file'' j, js_issuer = y_str ''issuer'' j, js_audience = y_str ''audience'' j,
         js_first_frame = y_bool ''allow_first_frame_fallback'' j, js_timeout = 0, js_timeout_raw = y_str ''auth_timeout'' j\<rparr>,
       sc_ssh_nodes = [], sc_log = log_of_yaml (y_sub ''log'' y), sc_profiles_file = y_str ''profiles_file'' y,
       sc_self_node = \<lparr>sn_enabled = False, sn_client_cert = [], sn_client_key = []\<rparr>,
       sc_notifier = notifier_of_yaml (y_sub ''notifier'' y)\<rparr>)"

definition profile_of_yaml :: "yaml \<Rightarrow> raw_profile" where
  "profile_of_yaml y =
     (let v = y_sub ''validate'' y; p = y_sub ''propagate'' y in
      \<lparr>raw_profile.rf_name = y_str ''name'' y, rf_format = y_str ''format'' y, raw_profile.rf_dir = y_str ''dir'' y,
       rf_watch_files = y_texts ''watch_files'' y, rf_allowed = y_texts ''allowed_clients'' y, rf_reverse = [],
       rf_validate = \<lparr>rv_strategy = y_str ''strategy'' v, rv_live_check = (y_bool ''live_check'' v = Some True),
         rv_timeout = y_str ''live_check_timeout'' v\<rparr>,
       rf_propagate = \<lparr>rp_mode = y_str ''mode'' p, rp_cooldown = y_str ''cooldown'' p\<rparr>\<rparr>)"

definition profiles_of_yaml :: "yaml \<Rightarrow> raw_profile list" where
  "profiles_of_yaml y = map profile_of_yaml (y_seq ''profiles'' y)"

definition binding_of_yaml :: "yaml \<Rightarrow> profile_binding" where
  "binding_of_yaml y =
     \<lparr>pb_name = y_str ''name'' y, pb_format = y_str ''format'' y, pb_dir = y_str ''dir'' y,
      pb_watch_files = y_texts ''watch_files'' y, pb_account_meta_path = y_str ''account_meta_path'' y\<rparr>"

definition client_of_yaml :: "yaml \<Rightarrow> raw_client_config" where
  "client_of_yaml y =
     (let p = y_sub ''pki'' y; j = y_sub ''jwt'' y; r = y_sub ''reconnect'' y in
      \<lparr>xc_server = y_str ''server'' y, xc_auth_mode = y_str ''auth_mode'' y,
       xc_jwt = \<lparr>jk_token_env = y_str ''token_env'' j, jk_token_file = y_str ''token_file'' j, jk_send_via = y_str ''send_via'' j\<rparr>,
       xc_reverse = \<lparr>rc_listen = [], rc_pki = \<lparr>rk_ca_cert = [], rk_server_cert = [], rk_server_key = []\<rparr>, rc_allowed_peers = []\<rparr>,
       xc_node_id = y_str ''node_id'' y, xc_profiles = map binding_of_yaml (y_seq ''profiles'' y),
       xc_pki = \<lparr>cp_ca_cert = y_str ''ca_cert'' p, cp_client_cert = y_str ''client_cert'' p, cp_client_key = y_str ''client_key'' p\<rparr>,
       xc_reconnect = \<lparr>rr_initial_delay = y_str ''initial_delay'' r, rr_jitter = y_str ''jitter'' r, rr_max_delay = y_str ''max_delay'' r\<rparr>,
       xc_cli_upgrade = \<lparr>ru_enabled = None, ru_initial_delay = [], ru_interval = []\<rparr>,
       xc_log = log_of_yaml (y_sub ''log'' y)\<rparr>)"

text \<open>What is written by the package is read by it, for the documents of setup.\<close>

definition yaml_agrees :: "setup_env \<Rightarrow> yaml_lib \<Rightarrow> bool" where
  "yaml_agrees e y \<longleftrightarrow>
     (\<forall>s text. se_marshal e (server_yaml s) = Inr text \<longrightarrow> yl_server y ssh_node_of_aux text = Inr (server_of_yaml (server_yaml s))) \<and>
     (\<forall>ps text. se_marshal e (profiles_yaml ps) = Inr text \<longrightarrow> yl_profiles y text = Inr (profiles_of_yaml (profiles_yaml ps)))"

subsection \<open>What the documents decode to\<close>

definition raw_of_setup :: "setup_profile \<Rightarrow> raw_profile" where
  "raw_of_setup p =
     \<lparr>raw_profile.rf_name = sq_name p, rf_format = pv_format (sq_provider p), raw_profile.rf_dir = sq_dir p, rf_watch_files = pv_watch (sq_provider p),
      rf_allowed = sq_allowed p, rf_reverse = [],
      rf_validate = \<lparr>rv_strategy = pv_strategy (sq_provider p), rv_live_check = pv_live (sq_provider p), rv_timeout = ''5s''\<rparr>,
      rf_propagate = \<lparr>rp_mode = PropagateModeStaleOnly, rp_cooldown = ''2s''\<rparr>\<rparr>"

lemma y_text_YStr [simp]: "y_text \<circ> YStr = (\<lambda>s. s)"
  by auto

lemma live_check_text: "seconds_text LiveCheckDefaultTimeout = ''5s''" "seconds_text ReconnectInitial = ''5s''"
  "seconds_text ReconnectJitter = ''1s''" "seconds_text ReconnectMax = ''1m0s''"
  by code_simp+

lemma profile_decoded: "profile_of_yaml (profile_yaml p) = raw_of_setup p"
  by (auto simp: profile_of_yaml_def profile_yaml_def raw_of_setup_def y_defs Let_def live_check_text defaultPropagateMode_def)

lemma profiles_decoded: "profiles_of_yaml (profiles_yaml ps) = map raw_of_setup ps"
  by (simp add: profiles_of_yaml_def profiles_yaml_def y_defs profile_decoded)

definition zero_jwt :: jwt_server_config where
  "zero_jwt = \<lparr>js_secret_file = [], js_issuer = [], js_audience = [], js_first_frame = None, js_timeout = 0, js_timeout_raw = []\<rparr>"

definition jwt_of_setup :: "server_setup \<Rightarrow> jwt_server_config" where
  "jwt_of_setup s = (if ss_auth_mode s = AuthModeJWT then
       \<lparr>js_secret_file = ss_jwt_secret s, js_issuer = ss_jwt_issuer s, js_audience = ss_jwt_audience s,
        js_first_frame = Some (ss_jwt_fallback s), js_timeout = 0, js_timeout_raw = []\<rparr>
     else zero_jwt)"

lemma server_decoded:
  "sc_listen (server_of_yaml (server_yaml s)) = ss_listen s"
  "sc_auth_mode (server_of_yaml (server_yaml s)) = ss_auth_mode s"
  "sc_pki (server_of_yaml (server_yaml s)) = \<lparr>pk_ca_cert = ss_ca_cert s, pk_server_cert = ss_server_cert s, pk_server_key = ss_server_key s\<rparr>"
  "sc_jwt (server_of_yaml (server_yaml s)) = jwt_of_setup s"
  "sc_ssh_nodes (server_of_yaml (server_yaml s)) = []"
  "sc_profiles_file (server_of_yaml (server_yaml s)) = ss_profiles_path s"
  "sc_self_node (server_of_yaml (server_yaml s)) = \<lparr>sn_enabled = False, sn_client_cert = [], sn_client_key = []\<rparr>"
  by (simp_all add: server_of_yaml_def server_yaml_def y_defs Let_def jwt_of_setup_def zero_jwt_def)

lemma notifier_decoded:
  "sc_notifier (server_of_yaml (server_yaml s)) =
    (if ss_telegram s then notifier_of_yaml (YMap [(''telegram'', YMap ([(''enabled'', YBool True)] @ y_opt ''bot_token_env'' (ss_telegram_env s)
             @ y_opt ''default_chat_id'' (ss_telegram_chat s)
             @ (if ss_telegram_silent s then [(''disable_notification'', YBool True)] else [])))])
     else notifier_of_yaml (YMap []))"
  by (simp add: server_of_yaml_def server_yaml_def y_sub_def y_get_def Let_def)

subsection \<open>The server's file loads\<close>

lemma expand_path_absolute:
  assumes "is_abs q" "path_clean q = q" "CHR ''$'' \<notin> set q"
  shows "expand_path env q = Inr q"
  using assms by (auto simp: expand_path_def Let_def is_abs_def slash_def has_prefix_iff)

text \<open>The directory of the files: an absolute path without a dollar sign.\<close>

definition base_ok :: "string \<Rightarrow> bool" where
  "base_ok base \<longleftrightarrow> is_abs base \<and> CHR ''$'' \<notin> set base"

lemma expand_below:
  assumes "base_ok base" "list_all (\<lambda>x. CHR ''$'' \<notin> set x) (xs @ [x])" "x \<noteq> []"
  shows "expand_path env (path_join (base # xs @ [x])) = Inr (path_join (base # xs @ [x]))"
proof (rule expand_path_absolute)
  show "is_abs (path_join (base # xs @ [x]))" using assms(1) by (simp add: base_ok_def is_abs_join)
  show "path_clean (path_join (base # xs @ [x])) = path_join (base # xs @ [x])"
    using path_join_fix [OF assms(3), of "base # xs"] by simp
  show "CHR ''$'' \<notin> set (path_join (base # xs @ [x]))"
    using set_path_join [of "base # xs @ [x]"] assms(1,2) by (auto simp: base_ok_def list_all_iff slash_def)
qed

lemma expand_spec:
  assumes "server_spec base s" "base_ok base"
  shows "expand_path env (ss_ca_cert s) = Inr (ss_ca_cert s)" "expand_path env (ss_server_cert s) = Inr (ss_server_cert s)"
    "expand_path env (ss_server_key s) = Inr (ss_server_key s)" "expand_path env (ss_jwt_secret s) = Inr (ss_jwt_secret s)"
    "expand_path env (ss_profiles_path s) = Inr (ss_profiles_path s)"
  using assms(1) expand_below [OF assms(2), of "[''pki'']" "''ca.crt''"] expand_below [OF assms(2), of "[''pki'', ''server'']" "''server.crt''"]
    expand_below [OF assms(2), of "[''pki'', ''server'']" "''server.key''"] expand_below [OF assms(2), of "[]" "''jwt.secret''"]
    expand_below [OF assms(2), of "[]" "''profiles.yaml''"]
  by (simp_all add: server_spec_def)

lemma spec_paths_nonempty:
  assumes "server_spec base s" "base_ok base"
  shows "ss_ca_cert s \<noteq> [] \<and> ss_server_cert s \<noteq> [] \<and> ss_server_key s \<noteq> [] \<and> ss_jwt_secret s \<noteq> [] \<and> ss_profiles_path s \<noteq> []"
proof -
  have "base \<noteq> []" using assms(2) by (auto simp: base_ok_def is_abs_def has_prefix_iff)
  then have "path_join (base # xs) \<noteq> []" for xs by (simp add: path_join_def Let_def)
  then show ?thesis using assms(1) by (simp add: server_spec_def)
qed

lemma notifier_loads:
  assumes "server_answers s"
  shows "post_process_notifier (sc_notifier (server_of_yaml (server_yaml s))) = Inr (sc_notifier (server_of_yaml (server_yaml s)))"
proof -
  have z: "post_process_webhook a b m f zero_webhook = Inr zero_webhook" for a b m f
    by (simp add: post_process_webhook_def zero_webhook_def parse_dur_def)
  have n: "post_process_ntfy (webhook_config.extend zero_webhook \<lparr>nt_auth_token_env = [], nt_priority = 0, nt_tags = []\<rparr>) =
      Inr (webhook_config.extend zero_webhook \<lparr>nt_auth_token_env = [], nt_priority = 0, nt_tags = []\<rparr>)"
    by (simp add: post_process_ntfy_def post_process_webhook_def zero_webhook_def parse_dur_def webhook_config.defs)
  have t: "post_process_teams (webhook_config.extend zero_webhook \<lparr>te_theme_color = []\<rparr>) =
      Inr (webhook_config.extend zero_webhook \<lparr>te_theme_color = []\<rparr>)"
    by (simp add: post_process_teams_def post_process_webhook_def zero_webhook_def parse_dur_def webhook_config.defs)
  have "post_process_telegram (nc_telegram (sc_notifier (server_of_yaml (server_yaml s)))) =
      Inr (nc_telegram (sc_notifier (server_of_yaml (server_yaml s))))"
    using assms
    by (auto simp: notifier_decoded notifier_of_yaml_def post_process_telegram_def y_defs server_answers_def filled_nonempty Let_def)
  moreover have "nc_slack (sc_notifier (server_of_yaml (server_yaml s))) = zero_webhook"
    "nc_discord (sc_notifier (server_of_yaml (server_yaml s))) = zero_webhook"
    "nc_mattermost (sc_notifier (server_of_yaml (server_yaml s))) = zero_webhook"
    "nc_ntfy (sc_notifier (server_of_yaml (server_yaml s))) = webhook_config.extend zero_webhook \<lparr>nt_auth_token_env = [], nt_priority = 0, nt_tags = []\<rparr>"
    "nc_teams (sc_notifier (server_of_yaml (server_yaml s))) = webhook_config.extend zero_webhook \<lparr>te_theme_color = []\<rparr>"
    by (simp_all add: notifier_decoded notifier_of_yaml_def Let_def)
  ultimately show ?thesis
    by (simp add: post_process_notifier_def z n t post_process_slack_def post_process_discord_def post_process_mattermost_def)
qed

theorem setup_server_loads:
  assumes spec: "server_spec base s" "server_answers s" "base_ok base"
    and read: "he_read env path = Inr text" "yaml ssh_node_of_aux text = Inr (server_of_yaml (server_yaml s))"
  shows "\<exists>cfg. load_server yaml env path = Inr cfg \<and> sc_listen cfg = ss_listen s \<and> sc_auth_mode cfg = ss_auth_mode s \<and>
    sc_profiles_file cfg = ss_profiles_path s \<and> sc_jwt cfg = (jwt_of_setup s)\<lparr>js_timeout := ReadTimeout\<rparr> \<and>
    sc_pki cfg = \<lparr>pk_ca_cert = ss_ca_cert s, pk_server_cert = ss_server_cert s, pk_server_key = ss_server_key s\<rparr>"
proof -
  let ?c = "server_of_yaml (server_yaml s)"
  let ?c1 = "?c\<lparr>sc_jwt := (jwt_of_setup s)\<lparr>js_timeout := ReadTimeout\<rparr>\<rparr>"
  note ne = spec_paths_nonempty [OF spec(1,3)]
  have mode: "ss_auth_mode s = AuthModeMTLS \<or> ss_auth_mode s = AuthModeJWT" "ss_listen s \<noteq> []"
    using spec(1) filled_nonempty by (auto simp: server_spec_def)
  have m: "normalize_auth_mode (sc_auth_mode ?c) = Inr (ss_auth_mode s)"
    using mode by (auto simp: normalize_auth_mode_def server_decoded auth_mode_defs)
  have j: "validate_auth_timeout (sc_jwt ?c) = Inr ((jwt_of_setup s)\<lparr>js_timeout := ReadTimeout\<rparr>)"
    by (simp add: validate_auth_timeout_def server_decoded jwt_of_setup_def zero_jwt_def)
  have "validate_server ?c = Inr (?c\<lparr>sc_auth_mode := ss_auth_mode s, sc_jwt := (jwt_of_setup s)\<lparr>js_timeout := ReadTimeout\<rparr>\<rparr>)"
    unfolding validate_server_def m j ebind_simps
    using mode ne spec(2)
    by (auto simp: Let_def server_decoded jwt_of_setup_def zero_jwt_def server_answers_def filled_nonempty)
  moreover have "?c\<lparr>sc_auth_mode := ss_auth_mode s, sc_jwt := x\<rparr> = ?c\<lparr>sc_jwt := x\<rparr>" for x
    using server_decoded(2) [of s] by (metis server_config.surjective server_config.update_convs(2,4))
  ultimately have v: "validate_server ?c = Inr ?c1" by simp
  have "expand_if_set env (js_secret_file (jwt_of_setup s)) = Inr (js_secret_file (jwt_of_setup s))"
    using expand_spec(4) [OF spec(1,3)] by (simp add: expand_if_set_def jwt_of_setup_def zero_jwt_def)
  then have "\<exists>c2. expand_server_paths env ?c1 = Inr c2 \<and> sc_listen c2 = ss_listen s \<and> sc_auth_mode c2 = ss_auth_mode s \<and>
      sc_profiles_file c2 = ss_profiles_path s \<and> sc_jwt c2 = (jwt_of_setup s)\<lparr>js_timeout := ReadTimeout\<rparr> \<and> sc_notifier c2 = sc_notifier ?c \<and>
      sc_pki c2 = \<lparr>pk_ca_cert = ss_ca_cert s, pk_server_cert = ss_server_cert s, pk_server_key = ss_server_key s\<rparr>"
    using expand_spec [OF spec(1,3), of env]
    by (simp add: expand_server_paths_def server_decoded expand_if_set_def)
  then obtain c2 where c2: "expand_server_paths env ?c1 = Inr c2" "sc_listen c2 = ss_listen s" "sc_auth_mode c2 = ss_auth_mode s"
    "sc_profiles_file c2 = ss_profiles_path s" "sc_jwt c2 = (jwt_of_setup s)\<lparr>js_timeout := ReadTimeout\<rparr>" "sc_notifier c2 = sc_notifier ?c"
    "sc_pki c2 = \<lparr>pk_ca_cert = ss_ca_cert s, pk_server_cert = ss_server_cert s, pk_server_key = ss_server_key s\<rparr>"
    by blast
  then have "load_server yaml env path = Inr (c2\<lparr>sc_notifier := sc_notifier ?c\<rparr>)"
    using read v notifier_loads [OF spec(2)] by (simp add: load_server_def)
  then show ?thesis using c2 by simp
qed

subsection \<open>The profiles load\<close>

lemma convert_watch_files_ok:
  assumes "list_all (\<lambda>f. f \<noteq> [] \<and> (\<exists>v. expand_path env f = Inr v)) fs"
  shows "\<exists>ws. convert_watch_files env name dir fs = Inr ws"
  using assms
proof (induction fs)
  case (Cons f fs)
  then obtain v ws where "expand_path env f = Inr v" "convert_watch_files env name dir fs = Inr ws" "f \<noteq> []" by auto
  then show ?case by (simp add: expand_path_from_dir_def)
qed simp

lemma watch_files_expand:
  assumes "he_home env = Inr home" "k \<in> {''claude'', ''codex'', ''gemini''}"
  shows "list_all (\<lambda>f. f \<noteq> [] \<and> (\<exists>v. expand_path env f = Inr v)) (pv_watch (provider_of k))"
proof -
  have "\<exists>v. expand_path env f = Inr v" if "f \<in> {''.credentials.json'', ''~/.claude.json'', ''.config.json'', ''auth.json'', ''oauth_creds.json''}" for f
    using that assms(1) by (auto simp: expand_path_def Let_def expand_home_def has_prefix_def)
  then show ?thesis using assms(2) by (auto simp: provider_of_def setup_providers_def)
qed

lemma provider_format: "k \<in> {''claude'', ''codex'', ''gemini''} \<Longrightarrow> pv_format (provider_of k) \<noteq> []"
  by (auto simp: provider_of_def setup_providers_def)

lemma setup_durations: "parse_duration ''5s'' = Some (seconds 5)" "parse_duration ''2s'' = Some (seconds 2)"
  "parse_duration ''1s'' = Some (seconds 1)" "parse_duration ''1m0s'' = Some (seconds 60)"
proof -
  have "is_digit (CHR ''5'')" "is_digit (CHR ''2'')" "is_digit (CHR ''1'')" "is_digit (CHR ''0'')" "\<not> is_digit (CHR ''s'')"
    "\<not> is_digit (CHR ''m'')" "byte_of (CHR ''5'') = 53" "byte_of (CHR ''2'') = 50" "byte_of (CHR ''1'') = 49" "byte_of (CHR ''0'') = 48"
    by code_simp+
  then show "parse_duration ''5s'' = Some (seconds 5)" "parse_duration ''2s'' = Some (seconds 2)"
    "parse_duration ''1s'' = Some (seconds 1)" "parse_duration ''1m0s'' = Some (seconds 60)"
    by (simp_all add: parse_duration_def has_prefix_def duration_sum.simps duration_term_def two63_def unit_map_def seconds_def)
qed

lemma setup_profile_loads:
  assumes "asked_profile True p" "he_home env = Inr home" "expand_path env (sq_dir p) = Inr dir"
  shows "\<exists>q. convert_profile env (raw_of_setup p) i = Inr q \<and> pf_name q = sq_name p \<and> pf_format q = pv_format (sq_provider p) \<and>
    pf_dir q = dir \<and> pf_allowed q = sq_allowed p"
proof -
  obtain k where k: "k \<in> {''claude'', ''codex'', ''gemini''}" "sq_provider p = provider_of k"
    using assms(1) by (auto simp: asked_profile_def)
  obtain ws where w: "convert_watch_files env (sq_name p) dir (pv_watch (sq_provider p)) = Inr ws"
    using convert_watch_files_ok [OF watch_files_expand [OF assms(2) k(1)]] k(2) by metis
  show ?thesis
    using assms(1,3) w provider_format [OF k(1)]
    by (auto simp: convert_profile_def raw_of_setup_def k(2) asked_profile_def filled_nonempty convert_validate_def setup_durations
        convert_propagate_def propagate_mode_defs seconds_def Let_def)
qed

lemma setup_profiles_convert:
  assumes "list_all (asked_profile True) ps" "he_home env = Inr home" "list_all (\<lambda>p. \<exists>dir. expand_path env (sq_dir p) = Inr dir) ps"
    "distinct (map sq_name ps)" "set (map sq_name ps) \<inter> set seen = {}"
  shows "\<exists>qs. convert_profiles env seen i (map raw_of_setup ps) = Inr qs \<and> map pf_name qs = map sq_name ps \<and>
    map pf_format qs = map (pv_format \<circ> sq_provider) ps \<and> map pf_allowed qs = map sq_allowed ps"
  using assms
proof (induction ps arbitrary: seen i)
  case (Cons p ps)
  then obtain dir where "expand_path env (sq_dir p) = Inr dir" by auto
  then obtain q where q: "convert_profile env (raw_of_setup p) i = Inr q" "pf_name q = sq_name p" "pf_format q = pv_format (sq_provider p)"
    "pf_allowed q = sq_allowed p"
    using setup_profile_loads [of p env home dir i] Cons.prems by auto
  have "\<exists>qs. convert_profiles env (pf_name q # seen) (Suc i) (map raw_of_setup ps) = Inr qs \<and> map pf_name qs = map sq_name ps \<and>
    map pf_format qs = map (pv_format \<circ> sq_provider) ps \<and> map pf_allowed qs = map sq_allowed ps"
    using Cons.prems q(2) by (intro Cons.IH) auto
  then show ?case using q Cons.prems(5) by auto
qed simp

theorem setup_profiles_load:
  assumes "ps \<noteq> []" "list_all (asked_profile True) ps" "he_home env = Inr home" "list_all (\<lambda>p. \<exists>dir. expand_path env (sq_dir p) = Inr dir) ps"
    "distinct (map sq_name ps)" "he_read env path = Inr text" "yaml text = Inr (profiles_of_yaml (profiles_yaml ps))"
  shows "\<exists>qs. load_profiles yaml env path = Inr qs \<and> map pf_name qs = map sq_name ps \<and>
    map pf_format qs = map (pv_format \<circ> sq_provider) ps \<and> map pf_allowed qs = map sq_allowed ps"
  using setup_profiles_convert [OF assms(2-5), of "[]" 0] assms(1,6,7)
  by (auto simp: load_profiles_def parse_profiles_def profiles_decoded)

end
