(* ===== verification/Cli_Setup_Props.thy ===== *)
theory Cli_Setup_Props
  imports Cli_Documents
begin

text \<open>
  The promise of \<open>setup server\<close>: its questions come to an end; what is written after a file leaves its contents as they
  are; and \<open>pangaeactl serve\<close> starts with the file that was written, its certificate and key included, as the answers said.
\<close>

subsection \<open>Files that keep out of the way\<close>

text \<open>A path whose last element ends in no digit is no backup of any path.\<close>

definition plain_name :: "string \<Rightarrow> bool" where
  "plain_name s \<longleftrightarrow> (\<exists>p. named p s \<and> slash \<notin> set p \<and> p \<noteq> [] \<and> \<not> is_digit (last p))"

lemma nat_text_last: "nat_text n \<noteq> [] \<and> is_digit (last (nat_text n))"
proof (induction n rule: less_induct)
  case (less n)
  have "is_digit (char_at (k + 48))" if "k < 10" for k :: nat using that by (simp add: is_digit_def of_char_of)
  then show ?case by (subst (1 2) nat_text.simps) simp
qed

lemma int_text_last: "int_text i \<noteq> [] \<and> is_digit (last (int_text i))"
  using nat_text_last by (simp add: int_text_def)

lemma named_last_part: "\<exists>p. named p q \<and> slash \<notin> set p"
proof (cases "slash \<in> set q")
  case True
  then obtain ys zs where "q = ys @ slash # zs" "slash \<notin> set zs" using split_list_last by metis
  then show ?thesis unfolding named_def by blast
next
  case False
  then show ?thesis unfolding named_def by blast
qed

lemma plain_no_backup:
  assumes "plain_name s"
  shows "s \<noteq> backup_path q i"
proof
  assume s: "s = backup_path q i"
  from assms obtain p where p: "named p s" "slash \<notin> set p" "\<not> is_digit (last p)" by (auto simp: plain_name_def)
  obtain r where r: "named r q" "slash \<notin> set r" using named_last_part by blast
  have "p = r @ ''.bak.'' @ int_text i"
    using named_unique [OF p(1) _ p(2) backup_name [OF r(2), of i]] named_backup [OF r(1), of i] s by simp
  then show False using p(3) int_text_last [of i] by simp
qed

text \<open>\<open>skips p s\<close>: the file \<open>p\<close> is as it was in every state of the step, if it was there.\<close>

definition skips :: "string \<Rightarrow> step \<Rightarrow> bool" where
  "skips p s \<longleftrightarrow> (\<forall>fs f. fs p = Some f \<longrightarrow> snd (s fs) \<noteq> [] \<and> list_all (\<lambda>fs. fs p = Some f) (snd (s fs)))"

named_theorems skips_intro \<open>steps that leave a file as it is\<close>

lemma skipsI: "(\<And>fs f. fs p = Some f \<Longrightarrow> snd (s fs) \<noteq> []) \<Longrightarrow>
    (\<And>fs f. fs p = Some f \<Longrightarrow> list_all (\<lambda>fs. fs p = Some f) (snd (s fs))) \<Longrightarrow> skips p s"
  by (simp add: skips_def)

lemma skips_and_then [skips_intro]:
  assumes "skips p f" "skips p g"
  shows "skips p (and_then f g)"
proof (rule skipsI)
  fix fs :: files and x
  assume x: "fs p = Some x"
  then have f: "snd (f fs) \<noteq> []" "list_all (\<lambda>fs. fs p = Some x) (snd (f fs))" using assms(1) by (auto simp: skips_def)
  then show "snd (and_then f g fs) \<noteq> []" by (auto simp: and_then_def split: prod.splits option.splits)
  show "list_all (\<lambda>fs. fs p = Some x) (snd (and_then f g fs))"
    using f assms(2) by (intro and_then_states) (simp_all add: skips_def)
qed

lemma skips_as_error [skips_intro]: "skips p f \<Longrightarrow> skips p (as_config_error m a f)"
  by (simp add: skips_def as_config_error_simps)

lemma skips_pointwise: "(\<And>fs. skips p (g fs)) \<Longrightarrow> skips p (\<lambda>fs. g fs fs)"
  by (simp add: skips_def)

lemma skips_nothing [skips_intro]: "skips p (\<lambda>fs. (r, [fs]))"
  by (simp add: skips_def)

lemma skips_write [skips_intro]: "p \<noteq> q \<Longrightarrow> skips p (os_write_file io q body mode)"
  by (rule skipsI) (simp_all add: step_nonempty, simp add: os_write_file_def Let_def set_data_def split: option.split)

lemma skips_chmod [skips_intro]: "p \<noteq> q \<Longrightarrow> skips p (os_chmod io q mode)"
  by (simp add: skips_def os_chmod_def set_mode_def split: option.split)

lemma skips_rename [skips_intro]: "p \<noteq> q \<Longrightarrow> p \<noteq> r \<Longrightarrow> skips p (os_rename io q r)"
  by (simp add: skips_def os_rename_def rename_file_def split: option.split)

lemma skips_backup [skips_intro]:
  assumes "p \<noteq> q" "plain_name p"
  shows "skips p (text_backup io q)" "skips p (backup_if_exists io q)"
proof -
  have r: "skips p (os_rename io q (backup_path q n))" for n
    using assms(1) plain_no_backup [OF assms(2)] by (rule skips_rename)
  show "skips p (text_backup io q)" using r by (simp add: skips_def text_backup_def)
  show "skips p (backup_if_exists io q)"
    using skips_as_error [OF r] by (simp add: skips_def backup_if_exists_def Let_def split: option.split)
qed

lemma skips_pem [skips_intro]:
  assumes "p \<noteq> q" "plain_name p"
  shows "skips p (write_backup_and_pem lib io q block der mode)" "skips p (write_private_key lib io q key)"
proof -
  have "skips p (fill_file lib io q block der mode)" for block der mode
  proof (cases "pl_pem lib block der")
    case None
    then show ?thesis using skips_nothing by (simp add: skips_def fill_file_def)
  next
    case (Some t)
    have "skips p (and_then (as_config_error ''write %s'' [ArgS q] (os_write_file io q t mode))
       (as_config_error ''chmod %s'' [ArgS q] (os_chmod io q mode)))" by (intro skips_intro assms)
    then show ?thesis using Some by (simp add: skips_def fill_file_def)
  qed
  then show *: "skips p (write_backup_and_pem lib io q block der mode)" for block der mode
    unfolding write_backup_and_pem_def by (intro skips_intro assms)
  show "skips p (write_private_key lib io q key)"
    using * by (simp add: skips_def write_private_key_def split: sum.split)
qed

lemma skips_leaf [skips_intro]:
  assumes "p \<noteq> path_join [dir, a]" "p \<noteq> path_join [dir, b]" "plain_name p"
  shows "skips p (issue_leaf lib io c dir cn shape na now a b)"
proof -
  have "skips p (and_then (write_backup_and_pem lib io (path_join [dir, a]) pemBlockCert der certFileMode)
      (write_private_key lib io (path_join [dir, b]) key))" for der key
    by (intro skips_intro assms)
  then show ?thesis by (simp add: skips_def issue_leaf_def sign_and_write_leaf_def os_mkdir_def split: option.split sum.split)
qed

lemma skips_client [skips_intro]:
  assumes "p \<noteq> path_join [dir, ''client.crt'']" "p \<noteq> path_join [dir, ''client.key'']" "plain_name p"
  shows "skips p (issue_client lib io c dir cn na now)"
  using skips_leaf [OF assms] by (simp add: skips_def issue_client_def split: option.split)

text \<open>The same of tasks.\<close>

definition leaves :: "string \<Rightarrow> 'a task \<Rightarrow> bool" where
  "leaves p t \<longleftrightarrow> (\<forall>f. keeps (\<lambda>fs. fs p = Some f) t)"

named_theorems leaves_intro \<open>tasks that leave a file as it is\<close>

lemma leaves_basic [leaves_intro]: "leaves p (task_of r)" "leaves p (task_read fault q)" "leaves p (task_mkdir fault)"
  by (simp_all add: leaves_def keeps_of keeps_read keeps_mkdir)

lemma leaves_bind [leaves_intro]: "leaves p t \<Longrightarrow> (\<And>x. leaves p (k x)) \<Longrightarrow> leaves p (task_bind t k)"
  by (simp add: leaves_def keeps_bind)

lemma leaves_if [leaves_intro]: "leaves p t \<Longrightarrow> leaves p u \<Longrightarrow> leaves p (if b then t else u)"
  by simp

lemma leaves_step [leaves_intro]: "skips p s \<Longrightarrow> leaves p (task_step s)"
proof -
  have "snd (task_step s fs) = snd (s fs)" for fs by (simp add: task_step_def split: prod.split option.split)
  then show "skips p s \<Longrightarrow> ?thesis" by (simp add: leaves_def keeps_def skips_def)
qed

lemma leaves_last:
  assumes "leaves p t" "t fs = (r, tr)" "fs p = Some f"
  shows "last tr p = Some f" "tr \<noteq> []"
proof -
  have "snd (t fs) \<noteq> [] \<and> list_all (\<lambda>fs. fs p = Some f) (snd (t fs))" using assms(1,3) by (auto simp: leaves_def keeps_def)
  then show "last tr p = Some f" "tr \<noteq> []" using assms(2) by (auto simp: list_all_iff)
qed

lemma leaves_write [leaves_intro]: "p \<noteq> q \<Longrightarrow> plain_name p \<Longrightarrow> leaves p (write_text_file e q body mode)"
  unfolding write_text_file_def by (intro leaves_intro skips_intro)

lemma leaves_copy [leaves_intro]: "p \<noteq> q \<Longrightarrow> plain_name p \<Longrightarrow> leaves p (copy_file e src q mode)"
  unfolding copy_file_def by (intro leaves_intro)

subsection \<open>The names of the files\<close>

lemma plain_join:
  assumes "file_name p" "\<not> is_digit (last p)"
  shows "plain_name (path_join (xs @ [p]))"
  using named_path_join_simple [OF assms(1)] assms by (auto simp: plain_name_def file_name_def)

lemma other_join:
  assumes "file_name p" "last (split_on slash x) = q" "file_name q" "p \<noteq> q"
  shows "path_join (xs @ [p]) \<noteq> path_join (ys @ [x])"
proof
  assume "path_join (xs @ [p]) = path_join (ys @ [x])"
  then have "p = q"
    using named_unique [OF named_path_join_simple [OF assms(1)] _ _ _] named_path_join [OF assms(2,3)] assms(1,3)
    by (metis file_name_def)
  then show False using assms(4) by simp
qed

lemma other_join_simple:
  assumes "file_name p" "file_name q" "p \<noteq> q"
  shows "path_join (xs @ [p]) \<noteq> path_join (ys @ [q])"
  by (rule other_join [OF assms(1) _ assms(2,3)]) (use assms(2) in \<open>simp add: file_name_def split_on_no_sep\<close>)

lemma last_token: "\<exists>x. last (split_on slash (node @ ''.token'')) = x @ ''.token'' \<and> slash \<notin> set x"
proof -
  have "\<exists>xs x. node = xs @ x \<and> slash \<notin> set x \<and> (xs = [] \<or> last xs = slash)"
  proof (cases "slash \<in> set node")
    case True
    then obtain a b where "node = a @ slash # b" "slash \<notin> set b" by (metis split_list_last)
    then show ?thesis by (intro exI [of _ "a @ [slash]"] exI [of _ b]) simp
  next
    case False
    then show ?thesis by (intro exI [of _ "[]"] exI [of _ node]) simp
  qed
  then obtain xs x where x: "node = xs @ x" "slash \<notin> set x" "xs = [] \<or> last xs = slash" by blast
  then have f: "split_on slash (x @ ''.token'') = [x @ ''.token'']" by (intro split_on_no_sep) (auto simp: slash_def)
  have "last (split_on slash (node @ ''.token'')) = x @ ''.token''"
  proof (cases xs rule: rev_cases)
    case Nil
    then show ?thesis using x f by simp
  next
    case (snoc ys y)
    then have "node @ ''.token'' = ys @ slash # x @ ''.token''" using x by simp
    then show ?thesis using last_split_on [of slash ys "x @ ''.token''"] f by simp
  qed
  then show ?thesis using x(2) by blast
qed

text \<open>The documents, the secret and what the server's TLS needs; no other file of setup has their names, but for the
  copies of the authority's certificate.\<close>

definition setup_file :: "string \<Rightarrow> bool" where
  "setup_file p \<longleftrightarrow> p \<in> {''pangaea-server.yaml'', ''profiles.yaml'', ''jwt.secret'', ''ca.crt'', ''server.crt'', ''server.key''}"

lemma setup_file_name: "setup_file p \<Longrightarrow> file_name p \<and> \<not> is_digit (last p)"
  by (auto simp: setup_file_def file_name_def slash_def is_digit_def)

lemma setup_file_plain: "setup_file p \<Longrightarrow> plain_name (path_join (xs @ [p]))"
  using plain_join setup_file_name by blast

lemma setup_file_others:
  assumes "setup_file p"
  shows "path_join (xs @ [p]) \<noteq> path_join (ys @ [''client.crt''])" "path_join (xs @ [p]) \<noteq> path_join (ys @ [''client.key''])"
    "path_join (xs @ [p]) \<noteq> path_join (ys @ [''pangaea-server.env''])" "path_join (xs @ [p]) \<noteq> path_join (ys @ [node @ ''.token''])"
    "setup_file q \<Longrightarrow> p \<noteq> q \<Longrightarrow> path_join (xs @ [p]) \<noteq> path_join (ys @ [q])"
proof -
  note n = conjunct1 [OF setup_file_name [OF assms]]
  have f: "file_name ''client.crt''" "file_name ''client.key''" "file_name ''pangaea-server.env''"
    by (simp_all add: file_name_def slash_def)
  have d: "p \<notin> {''client.crt'', ''client.key'', ''pangaea-server.env''}" using assms by (auto simp: setup_file_def)
  show "path_join (xs @ [p]) \<noteq> path_join (ys @ [''client.crt''])" using d by (intro other_join_simple n f) auto
  show "path_join (xs @ [p]) \<noteq> path_join (ys @ [''client.key''])" using d by (intro other_join_simple n f) auto
  show "path_join (xs @ [p]) \<noteq> path_join (ys @ [''pangaea-server.env''])" using d by (intro other_join_simple n f) auto
  show "path_join (xs @ [p]) \<noteq> path_join (ys @ [q])" if "setup_file q" "p \<noteq> q"
    using that setup_file_name by (intro other_join_simple n) auto
  obtain x where x: "last (split_on slash (node @ ''.token'')) = x @ ''.token''" "slash \<notin> set x" using last_token by blast
  moreover have "file_name (x @ ''.token'')" using x(2) by (auto simp: file_name_def slash_def)
  moreover have "last p \<noteq> CHR ''n''" using assms by (auto simp: setup_file_def)
  then have "p \<noteq> x @ ''.token''" by auto
  ultimately show "path_join (xs @ [p]) \<noteq> path_join (ys @ [node @ ''.token''])" by (intro other_join n)
qed

subsection \<open>What setup writes later\<close>

lemma leaves_bundles:
  assumes "setup_file p" "p \<noteq> ''ca.crt''"
  shows "leaves (path_join (xs @ [p])) (issue_client_bundles e s c nodes dirs)"
proof (induction nodes arbitrary: dirs)
  case (Cons node nodes)
  let ?dir = "path_join [ss_base s, ''issued-clients'', node]"
  have "setup_file ''ca.crt''" by (simp add: setup_file_def)
  then have o: "path_join (xs @ [p]) \<noteq> path_join [?dir, ''client.crt'']" "path_join (xs @ [p]) \<noteq> path_join [?dir, ''client.key'']"
    "path_join (xs @ [p]) \<noteq> path_join [?dir, ''ca.crt'']"
    using setup_file_others(1,2) [OF assms(1), of xs "[?dir]"] setup_file_others(5) [OF assms(1), of "''ca.crt''" xs "[?dir]"] assms(2)
    by (simp_all add: setup_file_def)
  show ?case
    unfolding issue_client_bundles.simps Let_def by (intro leaves_intro skips_intro Cons.IH o setup_file_plain assms(1))
qed (simp add: leaves_intro)

lemma leaves_tokens:
  assumes "setup_file p"
  shows "leaves (path_join (xs @ [p])) (issue_node_tokens e s secret nodes paths)"
proof (induction nodes arbitrary: paths)
  case (Cons node nodes)
  have o: "path_join (xs @ [p]) \<noteq> path_join [ss_base s, ''issued-jwt'', node @ ''.token'']"
    using setup_file_others(4) [OF assms, of xs "[ss_base s, ''issued-jwt'']" node] by simp
  show ?case
    unfolding issue_node_tokens.simps Let_def by (intro leaves_intro skips_intro Cons.IH o setup_file_plain assms)
qed (simp add: leaves_intro)

lemma leaves_env:
  assumes "setup_file p" "server_spec base s"
  shows "leaves (path_join (xs @ [p])) (setup_server_env e s)"
proof -
  have "ss_env_file s = path_join ([base] @ [''pangaea-server.env''])" using assms(2) by (simp add: server_spec_def)
  then have "path_join (xs @ [p]) \<noteq> ss_env_file s" using setup_file_others(3) [OF assms(1)] by metis
  then show ?thesis unfolding setup_server_env_def by (intro leaves_intro setup_file_plain assms)
qed

lemma leaves_clients: "setup_file p \<Longrightarrow> p \<noteq> ''ca.crt'' \<Longrightarrow> leaves (path_join (xs @ [p])) (setup_server_clients e s c)"
  unfolding setup_server_clients_def by (intro leaves_intro leaves_bundles)

lemma leaves_unit:
  assumes "setup_file p" "on \<Longrightarrow> path_join (xs @ [p]) \<noteq> path"
  shows "leaves (path_join (xs @ [p])) (setup_unit e on path u)"
proof (cases on)
  case True
  then show ?thesis using assms unfolding setup_unit_def by (intro leaves_intro setup_file_plain) simp_all
qed (simp add: setup_unit_def leaves_intro)

text \<open>The secret is one of the three: the other two are left alone by it.\<close>

lemma skips_secret [skips_intro]:
  assumes "p \<noteq> path"
  shows "skips p (write_secret_step io path secret)"
proof -
  have "skips p (and_then (as_config_error m a (os_write_file io path d keyFileMode)) (as_config_error m' a' (os_chmod io path keyFileMode)))"
    for m a d m' a' by (intro skips_intro assms)
  then show ?thesis by (simp add: skips_def write_secret_step_def)
qed

subsection \<open>What a run leaves\<close>

text \<open>\<open>holds fs p text\<close>: the file \<open>p\<close> is there and has the contents \<open>text\<close>.\<close>

definition holds :: "files \<Rightarrow> string \<Rightarrow> string \<Rightarrow> bool" where
  "holds fs p text \<longleftrightarrow> (\<exists>f. fs p = Some f \<and> fl_data f = text)"

lemma holds_last: "leaves p t \<Longrightarrow> t fs = (r, tr) \<Longrightarrow> holds fs p text \<Longrightarrow> holds (last tr) p text \<and> tr \<noteq> []"
  unfolding holds_def using leaves_last by blast

lemma task_step_Inr: "task_step s fs = (Inr x, tr) \<Longrightarrow> s fs = (None, tr)"
  by (auto simp: task_step_def split: prod.splits option.splits)

lemma write_text_file_holds:
  assumes "write_text_file e q body mode fs = (Inr x, tr)"
  shows "holds (last tr) q body" "tr \<noteq> []"
proof -
  obtain fs2 tr2 fs3 tr3 where w: "os_write_file (se_io e) q body mode fs2 = (None, tr2)"
    and c: "os_chmod (se_io e) q mode (last tr2) = (None, tr3)" and tr: "last tr = last tr3" "tr \<noteq> []"
    using assms unfolding write_text_file_def
    by (elim task_bind_Inr) (auto dest!: task_step_Inr simp: os_chmod_def split: option.splits)
  have "holds (last tr2) q body"
    using w by (auto simp: os_write_file_def holds_def set_data_def Let_def split: option.splits)
  then show "holds (last tr) q body" "tr \<noteq> []"
    using c tr by (auto simp: os_chmod_def holds_def set_mode_def split: option.splits)
qed

lemma setup_files [simp]:
  "setup_file ''pangaea-server.yaml''" "setup_file ''profiles.yaml''" "setup_file ''jwt.secret''" "setup_file ''ca.crt''"
  "setup_file ''server.crt''" "setup_file ''server.key''"
  by (simp_all add: setup_file_def)

lemma core_leaves_documents:
  assumes "setup_server_core e s fs = (Inr c, tr)" "server_spec base s"
  shows "\<exists>ptext stext. se_marshal e (profiles_yaml (ss_profiles s)) = Inr ptext \<and> se_marshal e (server_yaml s) = Inr stext \<and>
    holds (last tr) (ss_profiles_path s) ptext \<and> holds (last tr) (ss_config s) stext \<and> tr \<noteq> []"
proof -
  obtain ptext stext fs1 tr1 fs2 tr2 where m: "se_marshal e (profiles_yaml (ss_profiles s)) = Inr ptext" "se_marshal e (server_yaml s) = Inr stext"
    and w: "write_text_file e (ss_profiles_path s) ptext public_mode fs1 = (Inr (), tr1)"
      "write_text_file e (ss_config s) stext public_mode (last tr1) = (Inr (), tr2)" and tr: "last tr = last tr2" "tr \<noteq> []"
    using assms(1) unfolding setup_server_core_def Let_def by (elim task_bind_Inr) auto
  have p: "ss_profiles_path s = path_join ([base] @ [''profiles.yaml''])" "ss_config s = path_join ([base] @ [''pangaea-server.yaml''])"
    using assms(2) by (simp_all add: server_spec_def)
  have "ss_profiles_path s \<noteq> ss_config s" unfolding p by (rule setup_file_others(5)) simp_all
  then have l: "leaves (ss_profiles_path s) (write_text_file e (ss_config s) stext public_mode)"
    using setup_file_plain [of "''profiles.yaml''" "[base]"] by (intro leaves_intro) (simp_all add: p)
  then show ?thesis
    using holds_last [OF l w(2) write_text_file_holds(1) [OF w(1)]] write_text_file_holds(1) [OF w(2)] m tr by auto
qed

text \<open>What the server's TLS reads is there: the authority's certificate, the server's and the key that goes with it.\<close>

definition pki_ready :: "pki_lib \<Rightarrow> server_setup \<Rightarrow> files \<Rightarrow> bool" where
  "pki_ready lib s fs \<longleftrightarrow> (\<exists>ca_pem root cert_pem key_pem pair. holds fs (ss_ca_cert s) ca_pem \<and> pl_bundle lib ca_pem = [root] \<and>
     ce_cn root = ss_ca_cn s \<and> holds fs (ss_server_cert s) cert_pem \<and> holds fs (ss_server_key s) key_pem \<and>
     pl_pair lib cert_pem key_pem = Inr pair)"

text \<open>The library draws keys and serial numbers as it pleases.\<close>

definition draws :: "setup_env \<Rightarrow> pki_lib \<Rightarrow> bool" where
  "draws e lib \<longleftrightarrow> (\<forall>d. \<exists>key serial. se_lib e d = drawing key serial lib)"

lemma drawing_sel [simp]: "pl_create (drawing k n lib) = pl_create lib" "pl_parse (drawing k n lib) = pl_parse lib"
  "pl_pem (drawing k n lib) = pl_pem lib" "pl_public (drawing k n lib) = pl_public lib" "pl_marshal_key (drawing k n lib) = pl_marshal_key lib"
  by (simp_all add: drawing_def)

lemma drawsE:
  assumes "draws e lib"
  shows "pl_create (se_lib e d) = pl_create lib" "pl_parse (se_lib e d) = pl_parse lib" "pl_pem (se_lib e d) = pl_pem lib"
    "pl_public (se_lib e d) = pl_public lib" "pl_marshal_key (se_lib e d) = pl_marshal_key lib"
  using assms [unfolded draws_def, THEN spec, of d] by auto

lemma pki_names: "apart io (path_join [dir, ''ca.crt'']) (path_join [dir, ''ca.key''])"
  "apart io (path_join [dir, ''server.crt'']) (path_join [dir, ''server.key''])"
  using pair_apart [of "''ca.crt''" "''ca.key''" io "[dir]" "[dir]"] pair_apart [of "''server.crt''" "''server.key''" io "[dir]" "[dir]"]
  by (simp_all add: file_name_def slash_def other_name_def has_prefix_def)

lemma spec_dirs:
  assumes "server_spec base s" "base_ok base"
  shows "path_join [path_dir (ss_ca_cert s), ''ca.crt''] = ss_ca_cert s"
    "path_join [path_dir (ss_server_cert s), ''server.crt''] = ss_server_cert s"
    "path_join [path_dir (ss_server_cert s), ''server.key''] = ss_server_key s"
proof -
  have abs: "is_abs base" using assms(2) by (simp add: base_ok_def)
  have f: "file_name ''ca.crt''" "file_name ''server.crt''" "file_name ''server.key''" by (simp_all add: file_name_def slash_def)
  show "path_join [path_dir (ss_ca_cert s), ''ca.crt''] = ss_ca_cert s"
    using dir_of_join [OF abs f(1), of "[''pki'']"] assms(1) by (simp add: server_spec_def)
  show "path_join [path_dir (ss_server_cert s), ''server.crt''] = ss_server_cert s"
    using dir_of_join [OF abs f(2), of "[''pki'', ''server'']"] assms(1) by (simp add: server_spec_def)
  have "path_dir (ss_server_cert s) = path_dir (ss_server_key s)"
    using dir_independent [OF abs f(2,3), of "[''pki'', ''server'']"] assms(1) by (simp add: server_spec_def)
  then show "path_join [path_dir (ss_server_cert s), ''server.key''] = ss_server_key s"
    using dir_of_join [OF abs f(3), of "[''pki'', ''server'']"] assms(1) by (simp add: server_spec_def)
qed

lemma new_ca_ready:
  assumes "draws e lib" "pki_documented lib" "new_ca (se_lib e d) io dir cn until now fs = (Inr c, tr)"
  obtains pem where "holds (last tr) (path_join [dir, ''ca.crt'']) pem" "pl_bundle lib pem = [ca_cert c]" "ce_cn (ca_cert c) = cn"
proof -
  note l = drawsE [OF assms(1), of d]
  obtain serial der pem where r: "pl_create lib (ca_template serial cn now until) (ca_template serial cn now until) (pl_public lib (ca_key c)) (ca_key c) = Inr der"
    "pl_parse lib der = Inr (ca_cert c)" "pl_pem lib pemBlockCert der = Some pem"
    "last tr (path_join [dir, ''ca.crt'']) = Some \<lparr>fl_data = pem, fl_mode = certFileMode\<rparr>"
    by (rule new_ca_done [OF assms(3) pki_names(1), unfolded l])
  have "ce_cn (ca_cert c) = cn" using documented(3) [OF assms(2) r(1)] r(2) by (auto simp: sealed_def ca_template_def)
  then show thesis using that documented(2) [OF assms(2) r(3,2)] r(4) by (auto simp: holds_def)
qed

lemma issue_server_ready:
  assumes "draws e lib" "pki_documented lib" "issue_server (se_lib e d) io (Some c) dir cn names until now fs = (None, tr)"
    and ca: "holds fs r text" "named ''ca.crt'' r"
  obtains cert_pem key_pem pair where "holds (last tr) (path_join [dir, ''server.crt'']) cert_pem"
    "holds (last tr) (path_join [dir, ''server.key'']) key_pem" "pl_pair lib cert_pem key_pem = Inr pair" "holds (last tr) r text"
proof -
  note l = drawsE [OF assms(1), of d]
  obtain shape where leaf: "issue_leaf (se_lib e d) io c dir cn shape until now ''server.crt'' ''server.key'' fs = (None, tr)"
    and shape: "\<And>t. ce_public (shape t) = ce_public t"
    using assms(3) by (auto simp: issue_server_def split: option.splits if_splits)
  obtain serial key der pem kd kpem where
    k: "pl_create lib (shape (base_leaf_template serial cn now until)) (ca_cert c) (pl_public lib key) (ca_key c) = Inr der"
    "pl_pem lib pemBlockCert der = Some pem" "last tr (path_join [dir, ''server.crt'']) = Some \<lparr>fl_data = pem, fl_mode = certFileMode\<rparr>"
    "pl_marshal_key lib key = Inr kd" "pl_pem lib pemBlockECKey kd = Some kpem"
    "last tr (path_join [dir, ''server.key'']) = Some \<lparr>fl_data = kpem, fl_mode = keyFileMode\<rparr>"
    "\<And>r. r \<notin> {path_join [dir, ''server.crt''], path_join [dir, ''server.key''], backup_of io (path_join [dir, ''server.crt'']),
        backup_of io (path_join [dir, ''server.key''])} \<Longrightarrow> last tr r = fs r"
    by (rule issue_leaf_done [OF leaf pki_names(2), unfolded l]) blast
  have f: "file_name ''server.crt''" "file_name ''server.key''" by (simp_all add: file_name_def slash_def)
  note n = named_path_join_simple [OF f(1), of "[dir]", simplified] named_path_join_simple [OF f(2), of "[dir]", simplified]
  have o: "r \<noteq> t" "r \<noteq> backup_path t i" if "named q t" "q = ''server.crt'' \<or> q = ''server.key''" for t q i
    using other_paths(1) [OF ca(2) that(1)] other_paths(2) [OF ca(2) that(1), of i] that(2)
    by (auto simp: slash_def other_name_def has_prefix_def)
  have "last tr r = fs r" using o [OF n(1)] o [OF n(2)] by (intro k(7)) (auto simp: backup_of_def)
  moreover obtain pair where "pl_pair lib pem kpem = Inr pair"
    using documented_pair [OF assms(2) k(2) documented(3) [OF assms(2) k(1)] k(5,4)] by (auto simp: sealed_def)
  ultimately show thesis using that k(3,6) ca(1) by (auto simp: holds_def)
qed

lemma core_leaves_pki:
  assumes "setup_server_core e s fs = (Inr c, tr)" "server_spec base s" "base_ok base" "draws e lib" "pki_documented lib"
  shows "pki_ready lib s (last tr)"
proof -
  define ca_dir where "ca_dir = path_dir (ss_ca_cert s)"
  define leaf_dir where "leaf_dir = path_dir (ss_server_cert s)"
  note dirs = spec_dirs [OF assms(2,3), folded ca_dir_def leaf_dir_def]
  obtain fs0 tr1 names tr2 tr3 ptext fs4 tr4 stext fs5 tr5 where
    ca: "new_ca (se_lib e ca_dir) (se_pki e ca_dir) ca_dir (ss_ca_cn s) (not_after e ca_dir (ss_ca_years s)) (se_now2 e ca_dir) fs0 = (Inr c, tr1)"
    and names: "task_of (build_server_san (ss_tls_host s) (ss_sans s)) (last tr1) = (Inr names, tr2)"
    and leaf: "issue_server (se_lib e leaf_dir) (se_pki e leaf_dir) (Some c) leaf_dir (ss_tls_host s) names
        (not_after e leaf_dir (ss_leaf_years s)) (se_now2 e leaf_dir) (last tr2) = (None, tr3)"
    and docs: "task_of (se_marshal e (profiles_yaml (ss_profiles s))) (last tr3) = (Inr ptext, fs4)"
      "write_text_file e (ss_profiles_path s) ptext public_mode (last fs4) = (Inr (), tr4)"
      "task_of (se_marshal e (server_yaml s)) (last tr4) = (Inr stext, fs5)"
      "write_text_file e (ss_config s) stext public_mode (last fs5) = (Inr (), tr5)" and tr: "last tr = last tr5"
    using assms(1) unfolding setup_server_core_def Let_def ca_dir_def [symmetric] leaf_dir_def [symmetric]
    by (elim task_bind_Inr) (auto dest!: task_step_Inr)
  have p: "ss_profiles_path s = path_join ([base] @ [''profiles.yaml''])" "ss_config s = path_join ([base] @ [''pangaea-server.yaml''])"
    "ss_ca_cert s = path_join ([base, ''pki''] @ [''ca.crt''])" "ss_server_cert s = path_join ([base, ''pki'', ''server''] @ [''server.crt''])"
    "ss_server_key s = path_join ([base, ''pki'', ''server''] @ [''server.key''])"
    using assms(2) by (simp_all add: server_spec_def)
  have "named ''ca.crt'' (ss_ca_cert s)" unfolding p by (rule named_path_join_simple) (simp add: file_name_def slash_def)
  moreover obtain ca_pem where ca_pem: "holds (last tr1) (ss_ca_cert s) ca_pem" "pl_bundle lib ca_pem = [ca_cert c]" "ce_cn (ca_cert c) = ss_ca_cn s"
    by (rule new_ca_ready [OF assms(4,5) ca, unfolded dirs])
  moreover have "holds (last tr2) (ss_ca_cert s) ca_pem" using holds_last [OF leaves_basic(1) names ca_pem(1)] by simp
  ultimately obtain cert_pem key_pem pair where k: "holds (last tr3) (ss_server_cert s) cert_pem"
    "holds (last tr3) (ss_server_key s) key_pem" "pl_pair lib cert_pem key_pem = Inr pair" "holds (last tr3) (ss_ca_cert s) ca_pem"
    using issue_server_ready [OF assms(4,5) leaf, unfolded dirs] by metis
  have after: "holds (last tr5) (path_join (xs @ [f])) d"
    if "holds (last tr3) (path_join (xs @ [f])) d" "setup_file f" "f \<notin> {''profiles.yaml'', ''pangaea-server.yaml''}" for xs f d
  proof -
    have l: "leaves (path_join (xs @ [f])) (write_text_file e (ss_profiles_path s) ptext public_mode)"
      "leaves (path_join (xs @ [f])) (write_text_file e (ss_config s) stext public_mode)"
      unfolding p(1,2) using that(2,3) by (intro leaves_intro setup_file_others(5) setup_file_plain; simp)+
    show ?thesis
      using holds_last [OF l(2) docs(4)] holds_last [OF leaves_basic(1) docs(3)] holds_last [OF l(1) docs(2)]
        holds_last [OF leaves_basic(1) docs(1)] that(1) by blast
  qed
  have "holds (last tr) (ss_ca_cert s) ca_pem \<and> holds (last tr) (ss_server_cert s) cert_pem \<and> holds (last tr) (ss_server_key s) key_pem"
    unfolding tr using k(1,2,4) unfolding p(3-5) by (intro conjI after) simp_all
  then show ?thesis using ca_pem(2,3) k(3) unfolding pki_ready_def by blast
qed

lemma leaves_server_tokens:
  assumes "setup_file p" "p \<noteq> ''jwt.secret''" "server_spec base s"
  shows "leaves (path_join (xs @ [p])) (setup_server_tokens e s)"
proof -
  have "ss_jwt_secret s = path_join ([base] @ [''jwt.secret''])" using assms(3) by (simp add: server_spec_def)
  moreover have "path_join (xs @ [p]) \<noteq> path_join ([base] @ [''jwt.secret''])"
    using setup_file_name [OF assms(1)] assms(2) by (intro other_join_simple) (auto simp: file_name_def slash_def)
  ultimately have o: "path_join (xs @ [p]) \<noteq> ss_jwt_secret s" by simp
  show ?thesis unfolding setup_server_tokens_def by (intro leaves_intro skips_intro leaves_tokens assms o)
qed

lemma secret_step_holds:
  assumes "write_secret_step io path secret fs = (None, tr)"
  shows "secret \<noteq> [] \<and> holds (last tr) path (encode_secret secret @ [CHR 0x0A])"
proof -
  have ne: "secret \<noteq> []" using assms by (auto simp: write_secret_step_def)
  then obtain tr1 tr2 where "os_write_file io path (encode_secret secret @ [CHR 0x0A]) keyFileMode fs = (None, tr1)"
    "os_chmod io path keyFileMode (last tr1) = (None, tr2)" "tr = tr1 @ tr2"
    using assms by (auto simp: write_secret_step_def and_then_def as_config_error_simps split: prod.splits option.splits)
  then show ?thesis using ne
    by (auto simp: os_write_file_def os_chmod_def holds_def set_data_def set_mode_def Let_def split: option.splits)
qed

lemma tokens_leave_secret:
  assumes "setup_server_tokens e s fs = (Inr x, tr)" "ss_auth_mode s = AuthModeJWT" "server_spec base s"
  shows "\<exists>secret. se_random e = Inr secret \<and> secret \<noteq> [] \<and> holds (last tr) (ss_jwt_secret s) (encode_secret secret @ [CHR 0x0A])"
proof -
  have j: "ss_jwt_secret s = path_join ([base] @ [''jwt.secret''])" using assms(3) by (simp add: server_spec_def)
  define tokens where
    "tokens secret = (if ss_issue_tokens s then issue_node_tokens e s secret (ss_nodes s) [] else task_ret [])" for secret
  have l: "leaves (ss_jwt_secret s) (tokens secret)" for secret
    unfolding tokens_def j by (intro leaves_intro leaves_tokens) (simp add: setup_file_def)
  obtain secret fs1 tr1 y tr2 where secret: "generate_secret (se_random e) = Inr secret"
    and w: "write_secret_step (se_io e) (ss_jwt_secret s) secret fs1 = (None, tr1)"
    and t: "tokens secret (last tr1) = (Inr y, tr2)" and tr: "last tr = last tr2"
    using assms(1,2) unfolding setup_server_tokens_def tokens_def [symmetric]
    by (auto elim!: task_bind_Inr dest!: task_step_Inr)
  have "se_random e = Inr secret" using secret by (simp add: generate_secret_def split: sum.splits)
  then show ?thesis using secret_step_holds [OF w] holds_last [OF l t] tr by auto
qed

text \<open>The copies of the authority's certificate: one that lands on the certificate itself writes what was there.\<close>

lemma copy_holds:
  assumes "copy_file e src dst mode fs = (Inr x, tr)" "holds fs src text" "plain_name src"
  shows "holds (last tr) src text"
proof (cases "src = dst")
  case True
  obtain raw tr1 tr2 where r: "task_read (se_read e src) src fs = (Inr raw, tr1)" "write_text_file e dst raw mode (last tr1) = (Inr x, tr2)"
    "tr = tr1 @ tr2" using assms(1) unfolding copy_file_def by (rule task_bind_Inr)
  have "raw = text" using r(1) assms(2) by (auto simp: task_read_def read_file_def task_of_def holds_def split: option.splits)
  then show ?thesis using write_text_file_holds [OF r(2)] r(3) True by simp
next
  case False
  then show ?thesis using holds_last [OF leaves_copy assms(1,2)] assms(3) by blast
qed

lemma bundles_hold:
  assumes "issue_client_bundles e s c nodes dirs fs = (Inr x, tr)" "holds fs (ss_ca_cert s) text" "server_spec base s"
  shows "holds (last tr) (ss_ca_cert s) text \<and> tr \<noteq> []"
  using assms(1,2)
proof (induction nodes arbitrary: dirs fs tr)
  case Nil
  then show ?case using holds_last [OF leaves_basic(1), of _ fs] by simp
next
  case (Cons node nodes)
  define dir where "dir = path_join [ss_base s, ''issued-clients'', node]"
  have ca: "ss_ca_cert s = path_join ([base, ''pki''] @ [''ca.crt''])" using assms(3) by (simp add: server_spec_def)
  obtain tr1 tr2 tr3 where
    t: "task_step (issue_client (se_lib e dir) (se_pki e dir) (Some c) dir node (not_after e dir (ss_leaf_years s)) (se_now2 e dir)) fs = (Inr (), tr1)"
      "copy_file e (ss_ca_cert s) (path_join [dir, ''ca.crt'']) public_mode (last tr1) = (Inr (), tr2)"
      "issue_client_bundles e s c nodes (mput node dir dirs) (last tr2) = (Inr x, tr3)" "tr = tr1 @ tr2 @ tr3"
    using Cons.prems(1) unfolding issue_client_bundles.simps Let_def dir_def [symmetric]
    by (elim task_bind_Inr) auto
  have l: "leaves (ss_ca_cert s) (task_step (issue_client (se_lib e dir) (se_pki e dir) (Some c) dir node (not_after e dir (ss_leaf_years s)) (se_now2 e dir)))"
    unfolding ca using setup_file_others(1,2) [of "''ca.crt''" "[base, ''pki'']" "[dir]"] setup_file_plain [of "''ca.crt''" "[base, ''pki'']"]
    by (intro leaves_intro skips_intro) simp_all
  have "plain_name (ss_ca_cert s)" unfolding ca by (rule setup_file_plain) simp
  then have "holds (last tr2) (ss_ca_cert s) text"
    using copy_holds [OF t(2)] holds_last [OF l t(1) Cons.prems(2)] by blast
  then have "holds (last tr3) (ss_ca_cert s) text \<and> tr3 \<noteq> []" by (rule Cons.IH [OF t(3)])
  then show ?case using t(4) by simp
qed

lemma clients_hold:
  assumes "setup_server_clients e s c fs = (Inr x, tr)" "holds fs (ss_ca_cert s) text" "server_spec base s"
  shows "holds (last tr) (ss_ca_cert s) text"
  using assms(1) bundles_hold [OF _ assms(2,3)] holds_last [OF leaves_basic(1) _ assms(2)]
  by (auto simp: setup_server_clients_def split: if_splits)

text \<open>The three files after a run, with what they hold.\<close>

definition setup_done :: "setup_env \<Rightarrow> server_setup \<Rightarrow> files \<Rightarrow> bool" where
  "setup_done e s fs \<longleftrightarrow>
     (\<exists>text. se_marshal e (profiles_yaml (ss_profiles s)) = Inr text \<and> holds fs (ss_profiles_path s) text) \<and>
     (\<exists>text. se_marshal e (server_yaml s) = Inr text \<and> holds fs (ss_config s) text) \<and>
     (ss_auth_mode s = AuthModeJWT \<longrightarrow> (\<exists>secret. se_random e = Inr secret \<and> secret \<noteq> [] \<and>
        holds fs (ss_jwt_secret s) (encode_secret secret @ [CHR 0x0A])))"

text \<open>The unit is written where the user says; not over one of the files that the server reads.\<close>

definition unit_apart :: "server_setup \<Rightarrow> bool" where
  "unit_apart s \<longleftrightarrow> (ss_systemd s \<longrightarrow>
     ss_unit s \<notin> {ss_config s, ss_profiles_path s, ss_jwt_secret s, ss_ca_cert s, ss_server_cert s, ss_server_key s})"

theorem execute_leaves_files:
  assumes "execute_server_setup e s fs = (Inr r, tr)" "server_spec base s" "unit_apart s"
  shows "setup_done e s (last tr)" "base_ok base \<Longrightarrow> draws e lib \<Longrightarrow> pki_documented lib \<Longrightarrow> pki_ready lib s (last tr)"
proof -
  define write_unit where "write_unit env = setup_unit e (ss_systemd s) (ss_unit s)
       \<lparr>un_description = ''pangaeactl server ('' @ ss_auth_mode s @ '')'', un_user = ss_user s, un_dir = ss_base s,
        un_exec = current_executable (se_host e) @ '' serve -c '' @ setup_shell_quote (ss_config s), un_env = env\<rparr>" for env
  have p: "ss_profiles_path s = path_join ([base] @ [''profiles.yaml''])" "ss_config s = path_join ([base] @ [''pangaea-server.yaml''])"
    "ss_jwt_secret s = path_join ([base] @ [''jwt.secret''])" "ss_ca_cert s = path_join ([base, ''pki''] @ [''ca.crt''])"
    "ss_server_cert s = path_join ([base, ''pki'', ''server''] @ [''server.crt''])"
    "ss_server_key s = path_join ([base, ''pki'', ''server''] @ [''server.key''])"
    using assms(2) by (simp_all add: server_spec_def)
  define read_by_server where "read_by_server xs f \<longleftrightarrow> path_join (xs @ [f]) \<in>
    {ss_config s, ss_profiles_path s, ss_jwt_secret s, ss_ca_cert s, ss_server_cert s, ss_server_key s}" for xs f
  have u: "leaves (path_join (xs @ [f])) (write_unit env)" if "setup_file f" "read_by_server xs f" for xs f env
    unfolding write_unit_def using that assms(3) by (intro leaves_unit) (auto simp: unit_apart_def read_by_server_def)
  obtain c tr1 x tr2 y tr3 z tr4 v tr5 where c: "setup_server_core e s fs = (Inr c, tr1)"
    and run: "setup_server_env e s (last tr1) = (Inr x, tr2)" "setup_server_clients e s c (last tr2) = (Inr y, tr3)"
      "setup_server_tokens e s (last tr3) = (Inr z, tr4)" "write_unit x (last tr4) = (Inr v, tr5)"
    and tr: "last tr = last tr5"
    using assms(1) unfolding execute_server_setup_def write_unit_def [symmetric] split_beta by (elim task_bind_Inr) auto
  have later: "holds (last tr5) (path_join (xs @ [f])) d"
    if "holds (last tr3) (path_join (xs @ [f])) d" "setup_file f" "read_by_server xs f" "f \<noteq> ''jwt.secret''" for xs f d
    using holds_last [OF u [OF that(2,3)] run(4)] holds_last [OF leaves_server_tokens [OF that(2,4) assms(2)] run(3)] that(1) by blast
  have keep: "holds (last tr5) (path_join (xs @ [f])) d"
    if "holds (last tr1) (path_join (xs @ [f])) d" "setup_file f" "read_by_server xs f" "f \<noteq> ''jwt.secret''" "f \<noteq> ''ca.crt''" for xs f d
    using holds_last [OF leaves_clients [OF that(2,5)] run(2)] holds_last [OF leaves_env [OF that(2) assms(2)] run(1)] that(1)
    by (intro later that) blast
  have j: "holds (last tr5) (ss_jwt_secret s) d" if "holds (last tr4) (ss_jwt_secret s) d" for d
    using holds_last [OF u run(4), of "''jwt.secret''" "[base]" d] that by (simp add: p read_by_server_def)
  show "setup_done e s (last tr)"
    using core_leaves_documents [OF c assms(2)] tokens_leave_secret [OF run(3) _ assms(2)] keep [of "[base]" "''profiles.yaml''"]
      keep [of "[base]" "''pangaea-server.yaml''"] j tr
    by (auto simp: setup_done_def p read_by_server_def)
  show "pki_ready lib s (last tr)" if pki: "base_ok base" "draws e lib" "pki_documented lib"
  proof -
    obtain ca_pem root cert_pem key_pem pair where k: "holds (last tr1) (ss_ca_cert s) ca_pem" "pl_bundle lib ca_pem = [root]"
      "ce_cn root = ss_ca_cn s" "holds (last tr1) (ss_server_cert s) cert_pem" "holds (last tr1) (ss_server_key s) key_pem"
      "pl_pair lib cert_pem key_pem = Inr pair"
      using core_leaves_pki [OF c assms(2) pki] unfolding pki_ready_def by blast
    have "holds (last tr2) (ss_ca_cert s) ca_pem"
      using holds_last [OF leaves_env [OF _ assms(2)] run(1), of "''ca.crt''" "[base, ''pki'']"] k(1) by (simp add: p)
    then have "holds (last tr3) (ss_ca_cert s) ca_pem" by (rule clients_hold [OF run(2) _ assms(2)])
    then have "holds (last tr5) (ss_ca_cert s) ca_pem"
      using later [of "[base, ''pki'']" "''ca.crt''"] by (simp add: p read_by_server_def)
    moreover have "holds (last tr5) (ss_server_cert s) cert_pem" "holds (last tr5) (ss_server_key s) key_pem"
      using keep [of "[base, ''pki'', ''server'']" "''server.crt''"] keep [of "[base, ''pki'', ''server'']" "''server.key''"] k(4,5)
      by (simp_all add: p read_by_server_def)
    ultimately show ?thesis using k(2,3,6) unfolding pki_ready_def tr by blast
  qed
qed

subsection \<open>It answers\<close>

lemma run_setup_returns:
  assumes "answers (ask dir)"
  shows "run_setup head doing ask execute show_summary (Inr dir) u fs \<noteq> None"
proof -
  have "ask dir v \<noteq> None" for v using assms by (auto simp: answers_def dest: spec [of _ v])
  then show ?thesis by (auto simp: run_setup_def Let_def split: sum.split prod.split option.split)
qed

text \<open>C35: setup comes to an end with a result or an error, whatever is typed, for the server and for the client.\<close>

theorem setup_always_answers:
  assumes "filled (current_username (se_host e))"
  shows "run_setup_server e out u fs \<noteq> None \<and> run_setup_client e out u fs \<noteq> None"
proof (cases "ensure_abs_dir (se_host e) out")
  case (Inr dir)
  then show ?thesis
    by (simp add: run_setup_server_def run_setup_client_def run_setup_returns ask_server_answers ask_client_answers assms del: not_None_eq)
qed (simp add: run_setup_server_def run_setup_client_def run_setup_def)

subsection \<open>What it says is served\<close>

lemma run_setup_result:
  assumes "run_setup head doing ask execute show_summary base u fs = Some (Inr (s, r), tr, u')"
  obtains dir u0 u1 where "base = Inr dir" "ask dir u0 = Some (Inr s, u1)" "execute s fs = (Inr r, tr)"
  using assms that
  by (auto simp: run_setup_def Let_def split: sum.splits prod.splits option.splits)

definition serve_opts_of :: "server_setup \<Rightarrow> serve_opts" where
  "serve_opts_of s = \<lparr>so_config = ss_config s, so_auth_mode = [], so_also = []\<rparr>"

lemma config_nonempty: "server_spec base s \<Longrightarrow> base_ok base \<Longrightarrow> ss_config s \<noteq> []"
  by (auto simp: server_spec_def path_join_def base_ok_def is_abs_def has_prefix_iff Let_def)

text \<open>The authenticator of a server reads the secret that setup has drawn.\<close>

lemma authenticator_of_setup:
  assumes "setup_done e s fs" "\<And>p f. fs p = Some f \<Longrightarrow> he_read env p = Inr (fl_data f)"
  shows "\<exists>a. new_authenticator env (ss_auth_mode s) ((jwt_of_setup s)\<lparr>js_timeout := t\<rparr>) = Inr a \<and> au_mode a = ss_auth_mode s \<and>
    (ss_auth_mode s = AuthModeJWT \<longrightarrow> se_random e = Inr (au_secret a))"
proof (cases "ss_auth_mode s = AuthModeJWT")
  case True
  then obtain secret where r: "se_random e = Inr secret" "secret \<noteq> []" "holds fs (ss_jwt_secret s) (encode_secret secret @ [CHR 0x0A])"
    using assms(1) by (auto simp: setup_done_def)
  then have "he_read env (ss_jwt_secret s) = Inr (encode_secret secret @ [CHR 0x0A])" using assms(2) by (auto simp: holds_def)
  then have "load_secret_file env (ss_jwt_secret s) = Inr secret" using secret_file_round_trip [OF r(2)] by blast
  then show ?thesis using True r(1) by (simp add: new_authenticator_def jwt_of_setup_def)
qed (simp add: new_authenticator_def)

text \<open>Its TLS is set up from the three files, with the new authority as the only one it trusts for clients.\<close>

lemma tls_of_setup:
  assumes "pki_ready lib s fs" "\<And>p f. fs p = Some f \<Longrightarrow> he_read env p = Inr (fl_data f)" "ss_ca_cert s \<noteq> []"
    "sc_pki cfg = \<lparr>pk_ca_cert = ss_ca_cert s, pk_server_cert = ss_server_cert s, pk_server_key = ss_server_key s\<rparr>"
  shows "\<exists>tls root. server_tls lib env cfg = Inr tls \<and> tc_client_cas tls = [root] \<and> ce_cn root = ss_ca_cn s \<and> tc_certs tls \<noteq> [] \<and>
    tc_client_auth tls = (if sc_auth_mode cfg = AuthModeMTLS then RequireAndVerify else VerifyIfGiven)"
proof -
  obtain ca_pem root cert_pem key_pem pair where k: "holds fs (ss_ca_cert s) ca_pem" "pl_bundle lib ca_pem = [root]"
    "ce_cn root = ss_ca_cn s" "holds fs (ss_server_cert s) cert_pem" "holds fs (ss_server_key s) key_pem" "pl_pair lib cert_pem key_pem = Inr pair"
    using assms(1) unfolding pki_ready_def by blast
  then have "he_read env (ss_ca_cert s) = Inr ca_pem" "he_read env (ss_server_cert s) = Inr cert_pem" "he_read env (ss_server_key s) = Inr key_pem"
    using assms(2) by (auto simp: holds_def)
  then show ?thesis using k(2,3,6) assms(3)
    by (simp add: server_tls_def assms(4) server_tls_config_def load_key_pair_def load_ca_pool_def)
qed


end
