(* ===== verification/Cli_Setup_Scenario.thy ===== *)
theory Cli_Setup_Scenario
  imports Cli_Setup_Props Self_Client_Props
begin

text \<open>
  A conversation with \<open>setup server\<close>: what each question makes of a line that is typed, one setup on a host where
  every call of the system succeeds, and the server that starts with it.
\<close>

subsection \<open>Lines\<close>

text \<open>\<open>gets p ls v\<close>: with the lines \<open>ls\<close> next in the input, the prompt reads just them and gives \<open>v\<close>.\<close>

definition gets :: "'a prompt \<Rightarrow> string list \<Rightarrow> 'a \<Rightarrow> bool" where
  "gets p ls v \<longleftrightarrow> (\<forall>u rest. ui_in u = concat (map (\<lambda>l. l @ [eol]) ls) @ rest \<longrightarrow> (\<exists>u'. p u = Some (Inr v, u') \<and> ui_in u' = rest))"

lemma gets_bind:
  assumes "gets p ls v" "gets (k v) ms w"
  shows "gets (p_bind p k) (ls @ ms) w"
  unfolding gets_def
proof (intro allI impI)
  fix u :: prompt_ui and rest
  assume "ui_in u = concat (map (\<lambda>l. l @ [eol]) (ls @ ms)) @ rest"
  then obtain u1 where "p u = Some (Inr v, u1)" "ui_in u1 = concat (map (\<lambda>l. l @ [eol]) ms) @ rest"
    using assms(1) unfolding gets_def by force
  then show "\<exists>u'. p_bind p k u = Some (Inr w, u') \<and> ui_in u' = rest"
    using assms(2) unfolding gets_def p_bind_def by force
qed

lemma getsD: "gets p ls v \<Longrightarrow> ui_in u = concat (map (\<lambda>l. l @ [eol]) ls) \<Longrightarrow> \<exists>u'. p u = Some (Inr v, u')"
  unfolding gets_def by (metis append_Nil2)

lemma gets_bind1: "gets p [l] v \<Longrightarrow> gets (k v) ms w \<Longrightarrow> gets (p_bind p k) (l # ms) w"
  using gets_bind [of p "[l]" v k ms w] by simp

lemma gets_return: "v = w \<Longrightarrow> gets (p_ret v) [] w"
  by (simp add: gets_def p_ret_def)

lemma read_typed:
  assumes "eol \<notin> set l" "ui_in u = l @ eol # rest"
  shows "read_line u = (l @ [eol], None, u\<lparr>ui_in := rest\<rparr>)"
proof -
  have "takeWhile (\<lambda>c. c \<noteq> eol) (l @ eol # rest) = l" using assms(1) by (subst takeWhile_append2) auto
  then show ?thesis using assms(2) by (simp add: read_line_def)
qed

text \<open>What a line means as an answer: without its blanks, or the default if nothing else is left.\<close>

definition answer :: "string \<Rightarrow> string \<Rightarrow> string" where
  "answer l dflt = (if trim_space (l @ [eol]) = [] then dflt else trim_space (l @ [eol]))"

lemma string_typed:
  assumes "eol \<notin> set l" "ui_in u = l @ eol # rest"
  shows "\<exists>u'. prompt_string label dflt u = (Inr (answer l dflt), u') \<and> ui_in u' = rest"
  using read_typed [OF assms(1), of "say t u" rest for t] assms(2)
  by (simp add: prompt_string_def answer_def Let_def)

lemma gets_string: "eol \<notin> set l \<Longrightarrow> gets (\<lambda>u. Some (prompt_string label dflt u)) [l] (answer l dflt)"
  using string_typed by (force simp: gets_def)

lemma gets_required_line:
  assumes "eol \<notin> set l" "trim_space (answer l dflt) \<noteq> []"
  shows "gets (prompt_required label dflt) [l] (answer l dflt)"
  unfolding gets_def
proof (intro allI impI)
  fix u :: prompt_ui and rest
  assume "ui_in u = concat (map (\<lambda>l. l @ [eol]) [l]) @ rest"
  then obtain u' where "prompt_string label dflt u = (Inr (answer l dflt), u')" "ui_in u' = rest"
    using string_typed [OF assms(1), of u rest label dflt] by auto
  then show "\<exists>u'. prompt_required label dflt u = Some (Inr (answer l dflt), u') \<and> ui_in u' = rest"
    using assms(2) by (simp add: prompt_required.simps [of label dflt u])
qed

lemma gets_int_line:
  assumes "eol \<notin> set l" "parse_int (answer l (int_text dflt)) = Some n" "0 < n"
  shows "gets (prompt_int label dflt) [l] n"
  unfolding gets_def
proof (intro allI impI)
  fix u :: prompt_ui and rest
  assume "ui_in u = concat (map (\<lambda>l. l @ [eol]) [l]) @ rest"
  then obtain u' where "prompt_string label (int_text dflt) u = (Inr (answer l (int_text dflt)), u')" "ui_in u' = rest"
    using string_typed [OF assms(1), of u rest label "int_text dflt"] by auto
  then show "\<exists>u'. prompt_int label dflt u = Some (Inr n, u') \<and> ui_in u' = rest"
    using assms(2,3) by (simp add: prompt_int.simps [of label dflt u])
qed

lemma gets_list_line:
  assumes "eol \<notin> set l"
  shows "gets (prompt_list label dflt) [l] (split_csv (answer l (join_with '','' dflt)))"
  unfolding gets_def
proof (intro allI impI)
  fix u :: prompt_ui and rest
  assume "ui_in u = concat (map (\<lambda>l. l @ [eol]) [l]) @ rest"
  then obtain u' where "prompt_string label (join_with '','' dflt) u = (Inr (answer l (join_with '','' dflt)), u')" "ui_in u' = rest"
    using string_typed [OF assms, of u rest label "join_with '','' dflt"] by auto
  then show "\<exists>u'. prompt_list label dflt u = Some (Inr (split_csv (answer l (join_with '','' dflt))), u') \<and> ui_in u' = rest"
    by (simp add: prompt_list_def)
qed

lemma gets_choice_line:
  assumes "eol \<notin> set l" "v = lower_word (trim_space (answer l dflt))" "v \<in> set (map lower_word allowed)"
  shows "gets (prompt_choice label allowed dflt) [l] v"
  unfolding gets_def
proof (intro allI impI)
  fix u :: prompt_ui and rest
  assume "ui_in u = concat (map (\<lambda>l. l @ [eol]) [l]) @ rest"
  then obtain u' where "prompt_string (label @ '' ('' @ join_with ''/'' allowed @ '')'') dflt u = (Inr (answer l dflt), u')" "ui_in u' = rest"
    using string_typed [OF assms(1), of u rest _ dflt] by fastforce
  then show "\<exists>u'. prompt_choice label allowed dflt u = Some (Inr v, u') \<and> ui_in u' = rest"
    using assms(2,3) by (simp add: prompt_choice.simps [of label allowed dflt u] Let_def)
qed

text \<open>\<open>yes\<close>, \<open>no\<close> and the empty line.\<close>

definition said :: "string \<Rightarrow> bool \<Rightarrow> bool option" where
  "said l dflt = (let t = trim_space (lower_word (l @ [eol])) in
     if t = [] then Some dflt else if t = ''y'' \<or> t = ''yes'' then Some True else if t = ''n'' \<or> t = ''no'' then Some False else None)"

lemma gets_bool_line:
  assumes "eol \<notin> set l" "said l dflt = Some b"
  shows "gets (prompt_bool label dflt) [l] b"
  unfolding gets_def
proof (intro allI impI)
  fix u :: prompt_ui and rest
  assume "ui_in u = concat (map (\<lambda>l. l @ [eol]) [l]) @ rest"
  then have "read_line (say t u) = (l @ [eol], None, (say t u)\<lparr>ui_in := rest\<rparr>)" for t
    by (intro read_typed assms(1)) simp
  note r = this
  let ?t = "trim_space (lower_word (l @ [eol]))"
  consider "?t = []" "b = dflt" | "?t = ''y''" "b" | "?t = ''yes''" "b" | "?t = ''n''" "\<not> b" | "?t = ''no''" "\<not> b"
    using assms(2) by (auto simp: said_def Let_def split: if_splits)
  then show "\<exists>u'. prompt_bool label dflt u = Some (Inr b, u') \<and> ui_in u' = rest"
    by cases (simp_all add: prompt_bool.simps [of label dflt u] r Let_def)
qed

lemma gets_another_profile:
  assumes "gets (profile_round allowed (ps = [])) ls (RoundAdd p)" "gets (prompt_profiles allowed (ps @ [p])) ms qs"
  shows "gets (prompt_profiles allowed ps) (ls @ ms) qs"
  unfolding gets_def
proof (intro allI impI)
  fix u :: prompt_ui and rest
  assume "ui_in u = concat (map (\<lambda>l. l @ [eol]) (ls @ ms)) @ rest"
  then obtain u1 where "profile_round allowed (ps = []) u = Some (Inr (RoundAdd p), u1)" "ui_in u1 = concat (map (\<lambda>l. l @ [eol]) ms) @ rest"
    using assms(1) unfolding gets_def by force
  then show "\<exists>u'. prompt_profiles allowed ps u = Some (Inr qs, u') \<and> ui_in u' = rest"
    using assms(2) by (auto simp: prompt_profiles.simps [of allowed ps u] gets_def)
qed

lemma gets_profiles_end:
  assumes "gets (profile_round allowed (ps = [])) ls RoundDone"
  shows "gets (prompt_profiles allowed ps) ls ps"
  using assms unfolding gets_def by (fastforce simp: prompt_profiles.simps [of allowed ps])

subsection \<open>One setup\<close>

definition calm_host :: setup_host where
  "calm_host = \<lparr>su_cwd = Inr ''/'', su_hostname = Inr ''h'', su_user = Inr ''u'', su_exe = Inr ''pangaeactl'',
     su_env = \<lparr>he_read = (\<lambda>_. Inl NotExist), he_is_dir = (\<lambda>_. False), he_lookup = (\<lambda>_. None), he_home = Inr ''/''\<rparr>\<rparr>"

text \<open>What is typed: the mode, the address, a node, one profile with its directory; the rest is left as it is offered.\<close>

definition typed_lines :: "string list" where
  "typed_lines = [''jwt'', ''a:1'', [], [], [], [], [], ''n'', [], ''p'', [], ''/d'', [], [], [], [], [], [], [], []]"

definition typed_profile :: setup_profile where
  "typed_profile = \<lparr>sq_name = ''p'', sq_provider = provider_of ''claude'', sq_dir = ''/d'', sq_allowed = [''n'']\<rparr>"

definition typed_server :: server_setup where
  "typed_server = \<lparr>ss_base = ''/b'', ss_config = ''/b/pangaea-server.yaml'', ss_profiles_path = ''/b/profiles.yaml'', ss_listen = ''a:1'',
     ss_auth_mode = AuthModeJWT, ss_tls_host = ''h'', ss_sans = [], ss_ca_cn = defaultCACommonName, ss_ca_years = 10, ss_leaf_years = 1,
     ss_ca_cert = ''/b/pki/ca.crt'', ss_ca_key = ''/b/pki/ca.key'', ss_server_cert = ''/b/pki/server/server.crt'',
     ss_server_key = ''/b/pki/server/server.key'', ss_jwt_secret = ''/b/jwt.secret'', ss_jwt_issuer = defaultJWTIssuer,
     ss_jwt_audience = defaultJWTAudience, ss_jwt_fallback = True, ss_profiles = [typed_profile], ss_nodes = [''n''],
     ss_issue_certs = False, ss_issue_tokens = True, ss_telegram = False, ss_telegram_env = [], ss_telegram_chat = [],
     ss_telegram_silent = False, ss_env_file = ''/b/pangaea-server.env'', ss_systemd = False, ss_user = [], ss_unit = [],
     ss_hint = ''wss://h:1''\<rparr>"

text \<open>A package that writes two documents, and reads them.\<close>

definition calm_yaml :: yaml_lib where
  "calm_yaml = \<lparr>yl_server = (\<lambda>_ t. if t = ''S'' then Inr (server_of_yaml (server_yaml typed_server)) else Inl NotExist),
     yl_profiles = (\<lambda>t. if t = ''P'' then Inr (profiles_of_yaml (profiles_yaml [typed_profile])) else Inl NotExist)\<rparr>"

text \<open>A library that makes two certificates, the authority's and the server's, both with the key \<open>K\<close>. A year lasts a second.\<close>

definition calm_root_template :: x509_cert where "calm_root_template = ca_template 1 defaultCACommonName 0 (seconds 10)"

definition calm_leaf_template :: x509_cert where
  "calm_leaf_template = (base_leaf_template 1 ''h'' 0 (seconds 1))\<lparr>ce_key_usage := [''DigitalSignature'', ''KeyEncipherment''],
     ce_ext_usage := [''ServerAuth''], ce_ips := [], ce_dns := [''h'']\<rparr>"

definition calm_root :: x509_cert where "calm_root = sealed calm_root_template defaultCACommonName ''pK'' ''pK''"
definition calm_leaf :: x509_cert where "calm_leaf = sealed calm_leaf_template defaultCACommonName ''pK'' ''pK''"
definition calm_ca :: ca where "calm_ca = \<lparr>ca_cert = calm_root, ca_key = ''K''\<rparr>"

definition calm_lib :: pki_lib where
  "calm_lib = toy_lib\<lparr>
     pl_create := (\<lambda>t parent pub key.
       if (t, parent, pub, key) = (calm_root_template, calm_root_template, ''pK'', ''K'') then Inr ''root''
       else if (t, parent, pub, key) = (calm_leaf_template, calm_root, ''pK'', ''K'') then Inr ''leaf'' else Inl (Ext ''x509'')),
     pl_parse := (\<lambda>d. if d = ''root'' then Inr calm_root else if d = ''leaf'' then Inr calm_leaf else Inl (Ext ''x509'')),
     pl_bundle := (\<lambda>t. if t = ''Croot'' then [calm_root] else if t = ''Cleaf'' then [calm_leaf] else []),
     pl_pair := (\<lambda>c k. if (c = ''Croot'' \<or> c = ''Cleaf'') \<and> k = ''KK'' then Inr c else Inl (Ext ''tls''))\<rparr>"

lemma calm_documented: "pki_documented calm_lib"
  unfolding pki_documented_def
  by (intro conjI)
    (auto simp: calm_lib_def toy_lib_def calm_root_def calm_leaf_def calm_root_template_def ca_template_def sealed_def pemBlockCert_def
      pemBlockECKey_def list_ex_iff split: if_splits)

definition calm_env :: setup_env where
  "calm_env = \<lparr>se_host = calm_host, se_lib = (\<lambda>_. calm_lib), se_io = toy_io,
     se_mkdir = (\<lambda>_. None), se_read = (\<lambda>_. None), se_now = (\<lambda>_. 0), se_now2 = (\<lambda>_. 0), se_add_years = (\<lambda>t n. t + seconds n),
     se_marshal = (\<lambda>d. if d = server_yaml typed_server then Inr ''S'' else if d = profiles_yaml [typed_profile] then Inr ''P'' else Inl NotExist),
     se_random = Inr ''k'', se_jwt = signing_lib, se_token_now = (\<lambda>_. 0)\<rparr>"

lemma calm_draws: "draws calm_env calm_lib"
  unfolding draws_def by (intro allI exI [of _ "Inr ''K''"] exI [of _ "Inr 1"]) (simp add: calm_env_def drawing_def calm_lib_def toy_lib_def)

text \<open>Where every call of the system succeeds, a task gives its result from every state of the files.\<close>

definition works :: "'a task \<Rightarrow> 'a \<Rightarrow> bool" where
  "works t x \<longleftrightarrow> (\<forall>fs. fst (t fs) = Inr x)"

lemma works_bind: "works t x \<Longrightarrow> works (k x) y \<Longrightarrow> works (task_bind t k) y"
  by (simp add: works_def task_bind_parts)

lemma works_of: "r = Inr x \<Longrightarrow> works (task_of r) x"
  by (simp add: works_def task_of_def)

lemma works_step: "(\<And>fs. fst (s fs) = None) \<Longrightarrow> works (task_step s) ()"
  by (simp add: works_def task_step_def prod.case_eq_if)

lemma fst_and_then: "fst (f fs) = None \<Longrightarrow> (\<And>fs. fst (g fs) = None) \<Longrightarrow> fst (and_then f g fs) = None"
  by (simp add: and_then_def prod.case_eq_if)

lemma fst_as_error: "fst (as_config_error m a f fs) = None \<longleftrightarrow> fst (f fs) = None"
  by (simp add: as_config_error_def split: prod.split option.split)

lemma toy_system: "fst (os_write_file toy_io p d m fs) = None" "fst (os_chmod toy_io p m fs) = None" "fst (os_rename toy_io p q fs) = None"
  "fst (text_backup toy_io p fs) = None" "fst (backup_if_exists toy_io p fs) = None"
  by (simp_all add: toy_io_def os_write_file_def os_chmod_def os_rename_def text_backup_def backup_if_exists_def Let_def fst_as_error)

lemma calm_simps: "se_io calm_env = toy_io" "se_mkdir calm_env d = None" "se_pki calm_env d = toy_io" "se_random calm_env = Inr ''k''"
  "se_host calm_env = calm_host" "se_now2 calm_env d = 0" "not_after calm_env d n = seconds n" "se_jwt calm_env = signing_lib" "se_token_now calm_env x = 0"
  by (simp_all add: calm_env_def se_pki_def toy_io_def not_after_def)

lemma calm_marshal: "se_marshal calm_env (server_yaml typed_server) = Inr ''S''" "se_marshal calm_env (profiles_yaml [typed_profile]) = Inr ''P''"
  by (simp_all add: calm_env_def server_yaml_def profiles_yaml_def)

lemma works_write: "works (write_text_file calm_env p d m) ()"
  unfolding write_text_file_def
  by (intro works_bind) (auto intro!: works_step works_of simp: calm_simps toy_system task_mkdir_def)

lemma calm_pem: "b = pemBlockCert \<or> b = pemBlockECKey \<Longrightarrow> fst (write_backup_and_pem calm_lib toy_io p b d m fs) = None"
  by (auto simp: write_backup_and_pem_def fill_file_def calm_lib_def toy_lib_def fst_as_error toy_system intro!: fst_and_then)

lemma calm_key: "fst (write_private_key calm_lib toy_io p k fs) = None"
proof -
  have "pl_marshal_key calm_lib k = Inr k" by (simp add: calm_lib_def toy_lib_def)
  then show ?thesis by (simp add: write_private_key_def calm_pem)
qed

lemma calm_lib: "se_lib calm_env d = calm_lib" "pl_generate calm_lib = Inr ''K''" "pl_serial calm_lib = Inr 1" "pi_mkdir toy_io = None"
  "pl_public calm_lib ''K'' = ''pK''" "pl_create calm_lib calm_root_template calm_root_template ''pK'' ''K'' = Inr ''root''"
  "pl_create calm_lib calm_leaf_template calm_root ''pK'' ''K'' = Inr (if calm_leaf_template = calm_root_template \<and> calm_root = calm_root_template then ''root'' else ''leaf'')"
  "pl_parse calm_lib ''root'' = Inr calm_root"
  by (simp_all add: calm_env_def calm_lib_def toy_lib_def toy_io_def)

lemma calm_pair: "fst (and_then (write_backup_and_pem calm_lib toy_io p pemBlockCert der m) (write_private_key calm_lib toy_io q k) fs) = None"
  by (intro fst_and_then calm_key calm_pem disjI1 refl)

lemma works_ca: "works (new_ca calm_lib toy_io dir defaultCACommonName (seconds 10) 0) calm_ca"
proof -
  have c: "defaultCACommonName \<noteq> []" "\<not> time_before (seconds 10) 0" by code_simp+
  have "fst (new_ca calm_lib toy_io dir defaultCACommonName (seconds 10) 0 fs) = Inr calm_ca" for fs
    using c by (simp add: new_ca_def os_mkdir_def random_serial_def Let_def calm_lib calm_root_template_def [symmetric] calm_ca_def
        calm_pair prod.case_eq_if)
  then show ?thesis by (simp add: works_def)
qed

lemma works_leaf: "works (task_step (issue_server calm_lib toy_io (Some calm_ca) dir ''h'' \<lparr>san_ips = [], san_dns = [''h'']\<rparr> (seconds 1) 0)) ()"
proof (rule works_step)
  fix fs
  have v: "validate_leaf_inputs (Some calm_ca) ''h'' (seconds 1) 0 = None" by code_simp
  have "fst (issue_leaf calm_lib toy_io calm_ca dir ''h'' (\<lambda>t. t\<lparr>ce_key_usage := [''DigitalSignature'', ''KeyEncipherment''],
      ce_ext_usage := [''ServerAuth''], ce_ips := [], ce_dns := [''h'']\<rparr>) (seconds 1) 0 ''server.crt'' ''server.key'' fs) = None"
    by (simp add: issue_leaf_def os_mkdir_def random_serial_def sign_and_write_leaf_def calm_lib calm_ca_def calm_pair
        calm_leaf_template_def [symmetric])
  then show "fst (issue_server calm_lib toy_io (Some calm_ca) dir ''h'' \<lparr>san_ips = [], san_dns = [''h'']\<rparr> (seconds 1) 0 fs) = None"
    by (simp add: issue_server_def v)
qed

lemma works_mkdir: "works (task_mkdir None) ()"
  by (simp add: works_def task_mkdir_def)

lemma typed_san: "build_server_san ''h'' (ss_sans typed_server) = Inr \<lparr>san_ips = [], san_dns = [''h'']\<rparr>"
  by code_simp

lemma typed_fields: "ss_ca_cn typed_server = defaultCACommonName" "ss_ca_years typed_server = 10" "ss_leaf_years typed_server = 1"
  "ss_tls_host typed_server = ''h''" "ss_profiles typed_server = [typed_profile]" "ss_telegram typed_server = False"
  "ss_auth_mode typed_server = AuthModeJWT" "ss_issue_tokens typed_server = True" "ss_nodes typed_server = [''n'']"
  "ss_systemd typed_server = False"
  by (simp_all add: typed_server_def)

lemma works_core: "works (setup_server_core calm_env typed_server) calm_ca"
  unfolding setup_server_core_def Let_def typed_san typed_fields(1-5) calm_simps calm_lib(1) calm_marshal
  by (intro works_bind [OF works_mkdir] works_bind [OF works_ca] works_bind [OF works_of [OF refl]] works_bind [OF works_leaf]
      works_bind [OF works_write] works_of refl)

lemma typed_token: "ebind (allowed_profiles_for_node [typed_profile] ''n'') (\<lambda>allowed.
    jwt_issue signing_lib ''k'' ''n'' allowed (ss_jwt_issuer typed_server) (ss_jwt_audience typed_server) 0 initial_token_life) = Inr ''tok''"
  by code_simp

lemma works_tokens: "\<exists>x. works (setup_server_tokens calm_env typed_server) x"
proof -
  have w: "works (task_step (write_secret_step toy_io p ''k'')) ()" for p
    by (rule works_step) (simp add: write_secret_step_def fst_and_then fst_as_error toy_system)
  have g: "generate_secret (Inr ''k'') = Inr ''k''" by (simp add: generate_secret_def)
  have n: "\<exists>x. works (issue_node_tokens calm_env typed_server ''k'' [''n''] []) x"
    unfolding issue_node_tokens.simps typed_fields(5) calm_simps typed_token Let_def
    by (rule exI, rule works_bind [OF works_of [OF refl]], rule works_bind [OF works_write], rule works_of [OF refl])
  then obtain x where x: "works (issue_node_tokens calm_env typed_server ''k'' [''n''] []) x" by blast
  show ?thesis
    unfolding setup_server_tokens_def typed_fields(7-9) calm_simps g if_True simp_thms
    by (rule exI, rule works_bind [OF works_of [OF refl]], rule works_bind [OF works_mkdir], rule works_bind [OF w],
        rule works_bind [OF x], rule works_of [OF refl])
qed

theorem typed_execution: "\<exists>r. fst (execute_server_setup calm_env typed_server fs) = Inr r"
proof -
  obtain x where x: "works (setup_server_tokens calm_env typed_server) x" using works_tokens by blast
  have "\<exists>r. works (execute_server_setup calm_env typed_server) r"
    unfolding execute_server_setup_def setup_server_env_def setup_server_clients_def setup_unit_def typed_fields
    by (rule exI, rule works_bind [OF works_core], simp, rule works_bind [OF works_of [OF refl]], rule works_bind [OF works_of [OF refl]],
        rule works_bind [OF x]) (simp add: works_def task_bind_parts split_beta)
  then show ?thesis by (auto simp: works_def)
qed

subsection \<open>The conversation\<close>

lemma empty_answer [simp]: "answer [] d = d"
proof -
  have "trim_space [eol] = []" by code_simp
  then show ?thesis by (simp add: answer_def)
qed

lemma typed_answers:
  "lower_word (trim_space (answer ''jwt'' AuthModeMTLS)) = AuthModeJWT" "answer ''a:1'' d = ''a:1''" "answer ''n'' d = ''n''"
  "answer ''p'' d = ''p''" "answer ''/d'' d = ''/d''"
  "parse_int (int_text defaultCAYears) = Some 10" "parse_int (int_text defaultLeafYears) = Some 1" "split_csv ''n'' = [''n'']"
  "said [] b = Some b" "lower_word (trim_space ''claude'') = ''claude''" "local_hostname calm_host = ''h''"
  by code_simp+

text \<open>Answers to the kinds of question, one line each.\<close>

lemma typed_yes_no: "gets (prompt_bool label b) [[]] b"
  by (rule gets_bool_line) (simp_all add: typed_answers)

lemma typed_default: "trim_space d \<noteq> [] \<Longrightarrow> gets (prompt_required label d) [[]] d"
  using gets_required_line [of "[]" d label] by simp

lemma typed_text: "eol \<notin> set l \<Longrightarrow> answer l d = l \<Longrightarrow> trim_space l \<noteq> [] \<Longrightarrow> gets (prompt_required label d) [l] l"
  using gets_required_line [of l d label] by simp

lemma typed_round: "gets (profile_round (Some [''n'']) True) [[], ''p'', [], ''/d'', []] (RoundAdd typed_profile)"
proof -
  have t: "trim_space ''p'' \<noteq> []" "trim_space ''/d'' \<noteq> []" "eol \<notin> set ''p''" "eol \<notin> set ''/d''" by code_simp+
  have l: "gets (prompt_list label [''n'']) [[]] [''n'']" for label
    using gets_list_line [of "[]" label "[''n'']"] by (simp add: typed_answers)
  have c: "gets (prompt_choice label [''claude'', ''codex'', ''gemini''] ''claude'') [[]] ''claude''" for label
    by (rule gets_choice_line) (simp_all add: typed_answers lower_providers del: list.map)
  have "gets (profile_fields (Some [''n''])) [''p'', [], ''/d'', []] (RoundAdd typed_profile)"
    unfolding profile_fields_def profile_rest_def Let_def
    by (rule gets_bind1 [OF typed_text], use t in \<open>simp_all add: typed_answers\<close>, rule gets_bind1 [OF c], rule gets_bind1 [OF typed_text],
        simp_all add: typed_answers t, rule gets_bind1 [OF l], simp, rule gets_return, simp add: typed_profile_def)
  then show ?thesis unfolding profile_round_def if_True
    by (intro gets_bind1 [OF typed_yes_no]) simp
qed

lemma typed_profiles: "gets (prompt_profiles (Some [''n'']) []) [[], ''p'', [], ''/d'', [], []] [typed_profile]"
proof -
  have "gets (profile_round (Some [''n'']) False) [[]] RoundDone"
    unfolding profile_round_def if_False by (rule gets_bind1 [OF typed_yes_no]) (simp add: gets_return)
  then have "gets (prompt_profiles (Some [''n'']) ([] @ [typed_profile])) [[]] [typed_profile]"
    using gets_profiles_end [of "Some [''n'']" "[typed_profile]"] by simp
  then show ?thesis using gets_another_profile [of "Some [''n'']" "[]"] typed_round by fastforce
qed

text \<open>The four parts of the conversation.\<close>

definition typed_base :: server_setup where
  "typed_base = typed_server\<lparr>ss_jwt_issuer := [], ss_jwt_audience := [], ss_jwt_fallback := False, ss_issue_tokens := False\<rparr>"

lemma typed_files: "path_join [''/b'', ''pangaea-server.yaml''] = ''/b/pangaea-server.yaml''" "path_join [''/b'', ''profiles.yaml''] = ''/b/profiles.yaml''"
  "path_join [''/b'', ''pki'', ''ca.crt''] = ''/b/pki/ca.crt''" "path_join [''/b'', ''pki'', ''ca.key''] = ''/b/pki/ca.key''"
  "path_join [''/b'', ''pki'', ''server'', ''server.crt''] = ''/b/pki/server/server.crt''"
  "path_join [''/b'', ''pki'', ''server'', ''server.key''] = ''/b/pki/server/server.key''"
  "path_join [''/b'', ''jwt.secret''] = ''/b/jwt.secret''" "path_join [''/b'', ''pangaea-server.env''] = ''/b/pangaea-server.env''"
  by code_simp+

lemma typed_hint: "''wss://'' @ join_host_port ''h'' (listen_port ''a:1'') = ''wss://h:1''"
proof -
  have "net_split_host_port ''a:1'' = Some (''a'', ''1'')" by code_simp
  then have "listen_port ''a:1'' = ''1''" by (simp add: listen_port_def)
  moreover have "join_host_port ''h'' ''1'' = ''h:1''" by code_simp
  ultimately show ?thesis by simp
qed

lemma typed_auth: "gets auth_choice [''jwt''] AuthModeJWT"
proof -
  have "eol \<notin> set ''jwt''" "AuthModeJWT \<in> set (map lower_word [AuthModeMTLS, AuthModeJWT])" by code_simp+
  then show ?thesis unfolding auth_choice_def by (intro gets_choice_line) (simp_all add: typed_answers del: list.map)
qed

lemma typed_first: "gets (ask_server_base calm_host ''/b'') [''jwt'', ''a:1'', [], [], [], [], [], ''n'', [], ''p'', [], ''/d'', [], []] typed_base"
proof -
  have t: "eol \<notin> set ''a:1''" "trim_space ''a:1'' \<noteq> []" "trim_space ''h'' \<noteq> []" "trim_space defaultCACommonName \<noteq> []" "eol \<notin> set ''n''"
    by code_simp+
  have n: "gets (prompt_list label []) [''n''] [''n'']" for label
    using gets_list_line [OF t(5), of label "[]"] by (simp add: typed_answers)
  have s: "gets (\<lambda>u. Some (prompt_string label [] u)) [[]] []" for label
    using gets_string [of "[]" label "[]"] by simp
  have i: "gets (prompt_int label defaultCAYears) [[]] 10" "gets (prompt_int label defaultLeafYears) [[]] 1" for label
    by (rule gets_int_line; simp add: typed_answers)+
  have l: "gets (prompt_required label d) [''a:1''] ''a:1''" for label d
    by (rule typed_text [OF t(1) _ t(2)]) (simp add: typed_answers)
  have e: "typed_base = \<lparr>ss_base = ''/b'', ss_config = ''/b/pangaea-server.yaml'', ss_profiles_path = ''/b/profiles.yaml'', ss_listen = ''a:1'',
     ss_auth_mode = AuthModeJWT, ss_tls_host = ''h'', ss_sans = [], ss_ca_cn = defaultCACommonName, ss_ca_years = 10, ss_leaf_years = 1,
     ss_ca_cert = ''/b/pki/ca.crt'', ss_ca_key = ''/b/pki/ca.key'', ss_server_cert = ''/b/pki/server/server.crt'',
     ss_server_key = ''/b/pki/server/server.key'', ss_jwt_secret = ''/b/jwt.secret'', ss_jwt_issuer = [],
     ss_jwt_audience = [], ss_jwt_fallback = False, ss_profiles = [typed_profile], ss_nodes = [''n''],
     ss_issue_certs = False, ss_issue_tokens = False, ss_telegram = False, ss_telegram_env = [], ss_telegram_chat = [],
     ss_telegram_silent = False, ss_env_file = ''/b/pangaea-server.env'', ss_systemd = False, ss_user = [], ss_unit = [],
     ss_hint = ''wss://h:1''\<rparr>"
    by (simp add: typed_base_def typed_server_def)
  show ?thesis
    unfolding ask_server_base_def prompt_server_profiles_def typed_files typed_answers(10) typed_answers(11)
    by (rule gets_bind1 [OF typed_auth], rule gets_bind1 [OF l], rule gets_bind1 [OF typed_default [OF t(3)]], rule gets_bind1 [OF s],
        rule gets_bind1 [OF typed_default [OF t(4)]], rule gets_bind1 [OF i(1)], rule gets_bind1 [OF i(2)], rule gets_bind1 [OF n],
        rule gets_bind [OF typed_profiles, of _ "[]", simplified], unfold typed_hint e, rule gets_return [OF refl])
qed

lemma typed_conversation: "gets (ask_server calm_host ''/b'') typed_lines typed_server"
proof -
  have t: "trim_space defaultJWTIssuer \<noteq> []" "trim_space defaultJWTAudience \<noteq> []" by code_simp+
  have f: "ss_auth_mode typed_base = AuthModeJWT" "ss_nodes typed_base = [''n'']"
    "typed_base\<lparr>ss_jwt_issuer := defaultJWTIssuer, ss_jwt_audience := defaultJWTAudience, ss_jwt_fallback := True,
       ss_issue_tokens := True\<rparr> = typed_server"
    by (simp_all add: typed_base_def typed_server_def)
  have a: "gets (ask_server_auth typed_base) [[], [], [], []] typed_server"
    unfolding ask_server_auth_def f(1,2) if_P [OF refl] list.distinct not_False_eq_True
    by (rule gets_bind1 [OF typed_default [OF t(1)]], rule gets_bind1 [OF typed_default [OF t(2)]], rule gets_bind1 [OF typed_yes_no],
        rule gets_bind1 [OF typed_yes_no], rule gets_return) (simp add: f(3))
  have b: "gets (ask_server_telegram typed_server) [[]] typed_server"
    unfolding ask_server_telegram_def by (rule gets_bind1 [OF typed_yes_no]) (simp add: gets_return)
  have c: "gets (ask_systemd h whom d) [[]] None" for h whom d
    unfolding ask_systemd_def by (rule gets_bind1 [OF typed_yes_no]) (simp add: gets_return)
  have "gets (ask_server calm_host ''/b'') ([''jwt'', ''a:1'', [], [], [], [], [], ''n'', [], ''p'', [], ''/d'', [], []] @
      [[], [], [], []] @ [[]] @ [[]] @ []) typed_server"
    unfolding ask_server_def
    by (rule gets_bind [OF typed_first], rule gets_bind [OF a], rule gets_bind [OF b], rule gets_bind [OF c], rule gets_return) simp
  then show ?thesis by (simp add: typed_lines_def)
qed

definition typed_ui :: prompt_ui where
  "typed_ui = \<lparr>ui_in = concat (map (\<lambda>l. l @ [eol]) typed_lines), ui_end = io_EOF, ui_out = []\<rparr>"

lemma typed_run: "\<exists>r tr u'. run_setup_server calm_env ''/b'' typed_ui (\<lambda>_. None) = Some (Inr (typed_server, r), tr, u')"
proof -
  have d: "ensure_abs_dir calm_host ''/b'' = Inr ''/b''" by code_simp
  obtain r tr where r: "execute_server_setup calm_env typed_server (\<lambda>_. None) = (Inr r, tr)"
    using typed_execution [of "\<lambda>_. None"] by (cases "execute_server_setup calm_env typed_server (\<lambda>_. None)") auto
  have "\<exists>u'. ask_server calm_host ''/b'' (say t typed_ui) = Some (Inr typed_server, u')" for t
    by (rule getsD [OF typed_conversation]) (simp add: typed_ui_def)
  then obtain f where "ask_server calm_host ''/b'' (say t typed_ui) = Some (Inr typed_server, f t)" for t by metis
  then show ?thesis
    unfolding run_setup_server_def run_setup_def calm_simps d sum.case using r by (simp add: Let_def)
qed

text \<open>After the run the server's host reads what is in the files.\<close>

definition calm_reader :: "files \<Rightarrow> host_env" where
  "calm_reader fs = (su_env calm_host)\<lparr>he_read := (\<lambda>p. case fs p of Some f \<Rightarrow> Inr (fl_data f) | None \<Rightarrow> Inl NotExist)\<rparr>"

lemma calm_yaml_agrees: "yaml_agrees calm_env calm_yaml"
proof -
  have "server_yaml s \<noteq> profiles_yaml ps" for s ps by (simp add: server_yaml_def profiles_yaml_def)
  then have "server_yaml s \<noteq> profiles_yaml ps" "profiles_yaml ps \<noteq> server_yaml s" for s ps by (blast, metis)
  then show ?thesis by (auto simp: yaml_agrees_def calm_env_def calm_yaml_def)
qed


lemma setup_always_answers_witness:
  "run_setup_server calm_env ''/b'' typed_ui (\<lambda>_. None) \<noteq> None \<and> run_setup_client calm_env ''/b'' typed_ui (\<lambda>_. None) \<noteq> None"
proof (rule setup_always_answers)
  show "filled (current_username (se_host calm_env))" by code_simp
qed

end
