(* ===== verification/Spec2Isabelle.thy ===== *)
theory Spec2Isabelle
  imports Mediator_Scenario Server_Scenario Format_Props Transport_Props Config_Props
    Config_Server_Props Config_Client_Props Mediator_Spec Delivery Client_Refresh_Props Client_Reverse Watcher_Props Logging_Props Notifier_Secrets
    Server_Wiring_Props Self_Client_Props Ssh_Bridge_Props Pki_Props Cli_Setup_Scenario
begin

text \<open>
pangaea keeps the credentials of provider programs (Claude Code, Codex, Gemini CLI) the same on
several machines. A client on every node watches the credential file of its profiles and reports
its contents; the server decides, for every profile and account, which node holds the newest valid
copy, and sends it to the nodes whose copy is older. This library models that program from its Go
source and proves what it promises. Go strings and byte slices are \<open>string\<close>, integers that can
wrap are written with \<open>wrap64\<close>, a function that returns \<open>(T, error)\<close> returns \<open>gerr + T\<close>, a function
that may panic returns an option.

\<^bold>\<open>The parts and their theories.\<close>

\<^item> Go's library as far as the source uses it: Prelude (errors, 64-bit arithmetic, instants, Go maps with
  an explicit range order), Go_Strings, Go_Path, Go_Encoding (hex, base64, SHA-256 computed, not
  assumed), Go_Json and Go_Json_Text (scanner, decoder and writer), Go_Time.
\<^item> The formats (pkg/formats): Formats holds the interface, the registry and the resolution of paths,
  Claude_Creds, Codex_Auth and Gemini_Oauth one format each, Builtin_Formats the registry of the
  three. A \<open>Format\<close> value is a record of its methods; the contract \<open>format_contract\<close> is a locale that
  each format's theory interprets on its own definitions. Format_Props: parsing keeps the bytes,
  comparison is a total preorder, the margins of validation, redaction, watched paths.
\<^item> The protocol (internal/transport): Transport has the envelope, the eleven payloads with writer and
  reader (locale \<open>payload_codec\<close>, interpreted for every payload) and the codec of codec.go;
  Transport_Conn the state machine of wsconn.go (queue, close, first error) as a step relation;
  Transport_Props the round trips and the invariant of a connection.
\<^item> Configuration (internal/config): Config_Profiles (profiles.go, store.go, expand.go), Config_Server and
  Config_Client with their \<open>_Props\<close>: a configuration that loads is valid, an error of loading has the
  documented category, a reload is all or nothing.
\<^item> The mediator (internal/server/mediator.go): Mediator has one function per handler (\<open>on_report\<close>,
  \<open>on_absent\<close>, \<open>on_ack\<close>, \<open>on_disconnect\<close>), \<open>reselect\<close> with its strategies, the push with its cooldown, and
  \<open>med_turn\<close>, one iteration of the actor. Mediator_Props has its invariant and the functional
  properties, Mediator_Scenario a concrete run on which the theorems are applied, Mediator_Spec the
  abstract machine of holdings, truths and copies with the simulation proof.
\<^item> The server (internal/server, internal/jwtauth): Server_Auth (secrets, tokens, auth.go), Hub (hub.go,
  session.go, router.go and the read side of status.go and app.go). Server_Auth_Props, Hub_Props and
  Server_Props state what holds over every interleaving of connections, messages, mediator turns,
  reloads and shutdown (\<open>srv_step\<close>, with a log of the origin every session was made from); Server_Scenario runs two nodes.
\<^item> The client (internal/client, internal/safeio, internal/watcher): Safeio (atomic write, backup, roll-back,
  lock: every operation returns the states of the disk it goes through), Client_Apply (apply.go),
  Client_Agent (agent.go, conn.go, jwt.go, util.go), Client_Refresh, Client_Maintenance, Client_Reverse
  and Watcher, with their \<open>_Props\<close>.
\<^item> What a server is made of: Server_Wiring (what \<open>Run\<close> of app.go builds before it serves),
  Self_Client (selfclient.go, the client that a server runs for its own profiles), Reverse_Bridge
  (internal/reversebridge/run.go, with the way of the attach URL through net/url and the mux of status.go) and
  Ssh_Bridge (ssh.go), with their \<open>_Props\<close>.
\<^item> Notifications (internal/notifier): Notifier (the reporter, one function per branch of its \<open>select\<close>), Notifier_Render
  and Notifier_Text over Go_Text (views and texts), Notifier_Sinks (routing, grouping, digests, the six sinks),
  Notifier_Clients (the request of each service and how its answer is read, with the outcome of the HTTP exchange as
  a parameter), Notifier_Telegram and Notifier_Commands (markup and commands of Telegram chats), with Notifier_Props,
  Notifier_Command_Props and the run of Notifier_Scenario; Notifier_Secrets joins them with Logging
  (internal/logging/redact.go).
\<^item> Certificates (internal/pki): Pki has the authority, the leaves, their files, the TLS configurations and the
  verification of a leaf over crypto/x509; Pki_Props what verifies and what a failing step leaves; Path_Names says that
  different names are different files.
\<^item> The command line (cmd/pangaeactl): Cli_Task is a command as a task over the states of the disk, Cli_Commands has
  jwt, ca, connect, serve, reverse-client, reverse-connect, inspect and version. The setup wizard is Cli_Prompt (a
  question repeats until its answer is accepted: \<open>partial_function (option)\<close>), Cli_Wizard (the questions and
  the specification they give), Cli_Setup (documents, systemd unit, execution), Cli_Wizard_Props (every run ends),
  Cli_Documents (what setup writes is read by the loaders of internal/config), Cli_Setup_Props (what
  was written keeps its contents, and a server starts with the result, its TLS included) and Cli_Setup_Scenario (a
  conversation, typed line by line). Go_Net has the addresses and times that they use.
\<^item> Client and server together: Session_Opening follows the opening of a session from the agent's dial
  through the codec to the server's handshake; Delivery follows a truth from the mediator's decision to
  the file on the node and back to the mediator in its report.

\<^bold>\<open>What is proved, by group.\<close>

\<^item> Distribution: a push takes an account's truth to a node whose copy of that account is older and to no
  other, byte for byte; after a turn that reselects the truth is the newest valid copy, and whoever is stale was pushed to,
  unless cooling down; notifications are the transitions of truths; a turn never panics; every turn is a step of the
  abstract machine.
\<^item> Identity: over TLS a served session has the identity of its verified certificate or of a signed token that names the
  profile, over the unix attach socket that of its headers; whatever is registered or pushed to was vouched for in this
  way, and in certificate mode it is on the profile's list; a reconnection displaces and is not undone by the old
  session's end; no push leaves the profile and node it was decided for.
\<^item> Disk: whatever system call fails and wherever the process stops, the credential file is the former one
  or the whole new one; an acknowledgement tells the truth about the disk.
\<^item> Time: the reconnect delay in closed form, refresh programs run only when due and at most once per
  cooldown, waiting ends, a watcher event is the state at the start or means a settled file, and a settled file gets its event.
\<^item> Codecs and configuration: round trips, error categories, canonical forms of lists of names.
\<^item> Secrets: of a log record that was handled only the message, the keys and the values the handler does not look into can
  hold a token, the error for a refused request does not hold the
  secret it was made with. Notifications: one message for every destination whose digest changed, none for an
  unchanged one, and texts that cannot be taken for markup.
\<^item> Certificates: no failure destroys a certificate or a key that was there, and an issued client certificate verifies
  for its own name only. Bridges: the command for a node cannot be injected into, the host's key is checked, a
  bridge whose profile has a plain name serves its own profile and node.
\<^item> Setup: whatever is typed, the questions come to an end with a specification or an error; the server that
  is started with the files written from it loads them and does what was answered.

\<^bold>\<open>Parameters, bounds and fuel.\<close> What the runtime decides is an argument: the order a map is ranged over
(\<open>range_ok\<close> says it is a permutation of the keys), clock readings, results of sends and of system calls,
which branch a \<open>select\<close> took. Third-party packages are parameters too: the YAML decoder, the JWT library (\<open>jwt_lib\<close>,
its documented behaviour in \<open>jwt_lib_sound\<close> and \<open>jwt_lib_complete\<close>), the certificates of crypto/x509 and crypto/tls
(\<open>pki_lib\<close>, \<open>pki_documented\<close>), the websocket library, npm. Loops of the source
are structural recursions except where it polls: waiting for a refreshed file looks at most 21 times
(\<open>wait_for_mutation\<close>, the poll interval divides the code's time limit), a lock is tried at most four times. The
JSON scanner and the base64 decoder recurse on the length of what is left. Delays and times that the
source computes with 64 bits are wrapped; a statement that needs them not to wrap bounds its arguments.

\<^bold>\<open>Not modelled.\<close> Log lines and their vocabulary (unless a value is computed for them), metrics, the goroutines, listeners and
signals around the modelled handlers (their interleaving is the step relation), the HTTP exchange of the usage probes,
the HTTP server and the command for the status, the parsing of flags and the tree of commands, and the text of YAML.
The manifest lists every part with its reason.
\<close>

end
